(* ===== verification/Prelude.thy ===== *)
theory Prelude
  imports Main "HOL-Library.Word" "HOL-Library.Char_ord"
begin

text \<open>
  Shared vocabulary of the development.

  \<^item> Go strings are byte sequences; they are Isabelle strings (lists of 8-bit characters). The
    operations of the package strings that the program calls are defined here.
  \<^item> A 16-byte UUID is a 128-bit word. A nullable UUID column (a pgtype.UUID with its Valid
    flag) is an option.
  \<^item> A table is the list of its rows. The shapes of statement the queries use (update where,
    insert on conflict, delete where) are defined on row lists with their laws.
  \<^item> A request runs in an environment: the third-party codecs it calls, the outcome of each
    database statement, the identifiers the database generates and the clock. A statement is
    named by its path, the list of call sites that lead to it, so that every combination of
    failures is a value of the environment.
  \<^item> Two interfaces: a table of soft-deleted pairs, and an operation behind a permission gate.
\<close>

named_theorems store_simps \<open>how a write changes the tables that queries read\<close>
named_theorems frame_simps \<open>tables that an operation leaves alone\<close>


section \<open>Go strings\<close>

text \<open>HasPrefix, TrimPrefix, Index and Join of the Go package strings.\<close>

fun HasPrefix :: "string \<Rightarrow> string \<Rightarrow> bool" where
  "HasPrefix s [] = True"
| "HasPrefix [] (p # ps) = False"
| "HasPrefix (c # s) (p # ps) = (c = p \<and> HasPrefix s ps)"

definition TrimPrefix :: "string \<Rightarrow> string \<Rightarrow> string" where
  "TrimPrefix s p = (if HasPrefix s p then drop (length p) s else s)"

fun Index :: "string \<Rightarrow> string \<Rightarrow> nat option" where
  "Index [] p = (if p = [] then Some 0 else None)"
| "Index (c # s) p = (if HasPrefix (c # s) p then Some 0 else map_option Suc (Index s p))"

fun Join :: "string list \<Rightarrow> string \<Rightarrow> string" where
  "Join [] sep = []"
| "Join [x] sep = x"
| "Join (x # y # ys) sep = x @ sep @ Join (y # ys) sep"

lemma Join_Cons: "xs \<noteq> [] \<Longrightarrow> Join (x # xs) sep = x @ sep @ Join xs sep"
  by (cases xs) auto

lemma HasPrefix_iff: "HasPrefix s p \<longleftrightarrow> take (length p) s = p"
  by (induction s p rule: HasPrefix.induct) auto

lemma HasPrefix_Nil [simp]: "HasPrefix [] p \<longleftrightarrow> p = []"
  by (cases p) auto

lemma HasPrefix_append [simp]: "HasPrefix (p @ s) p"
  by (simp add: HasPrefix_iff)

lemma HasPrefix_ex: "HasPrefix s p \<longleftrightarrow> (\<exists>t. s = p @ t)"
  by (metis HasPrefix_append HasPrefix_iff append_take_drop_id)

lemma HasPrefix_length: "HasPrefix s p \<Longrightarrow> length p \<le> length s"
  by (auto simp: HasPrefix_ex)

lemma TrimPrefix_append [simp]: "TrimPrefix (p @ s) p = s"
  by (simp add: TrimPrefix_def)

lemma Index_Some: "Index s p = Some i \<Longrightarrow> i \<le> length s \<and> HasPrefix (drop i s) p"
  by (induction s p arbitrary: i rule: Index.induct) (auto split: if_splits)

lemma Index_first: "Index s p = Some i \<Longrightarrow> j < i \<Longrightarrow> \<not> HasPrefix (drop j s) p"
proof (induction s p arbitrary: i j rule: Index.induct)
  case (2 c s p)
  then show ?case by (cases j) (auto split: if_splits)
qed (auto split: if_splits)

lemma Index_None: "Index s p = None \<Longrightarrow> \<not> HasPrefix (drop j s) p"
proof (induction s p arbitrary: j rule: Index.induct)
  case (1 p)
  then show ?case by (cases p) (auto split: if_splits)
next
  case (2 c s p)
  then show ?case by (cases j) (auto split: if_splits)
qed


section \<open>Tables as lists of rows\<close>

text \<open>UPDATE ... WHERE, INSERT ... ON CONFLICT DO UPDATE, DELETE ... WHERE.\<close>

definition update_where :: "('r \<Rightarrow> bool) \<Rightarrow> ('r \<Rightarrow> 'r) \<Rightarrow> 'r list \<Rightarrow> 'r list" where
  "update_where p f xs = map (\<lambda>x. if p x then f x else x) xs"

definition upsert :: "('r \<Rightarrow> bool) \<Rightarrow> ('r \<Rightarrow> 'r) \<Rightarrow> 'r \<Rightarrow> 'r list \<Rightarrow> 'r list" where
  "upsert p f r xs = (if list_ex p xs then update_where p f xs else xs @ [r])"

definition delete_where :: "('r \<Rightarrow> bool) \<Rightarrow> 'r list \<Rightarrow> 'r list" where
  "delete_where p xs = filter (\<lambda>x. \<not> p x) xs"

lemma map_update_where: "(\<And>x. h (f x) = h x) \<Longrightarrow> map h (update_where p f xs) = map h xs"
  by (simp add: update_where_def)

lemma update_where_simps [simp]:
  "update_where p f [] = []"
  "update_where p f (x # xs) = (if p x then f x else x) # update_where p f xs"
  by (simp_all add: update_where_def)

lemma length_update_where [simp]: "length (update_where p f xs) = length xs"
  by (simp add: update_where_def)

lemma in_set_update_where:
  "y \<in> set (update_where p f xs) \<longleftrightarrow> (\<exists>x\<in>set xs. y = (if p x then f x else x))"
  by (auto simp: update_where_def)

lemma in_set_upsert:
  "y \<in> set (upsert p f r xs) \<longleftrightarrow>
     (if list_ex p xs then \<exists>x\<in>set xs. y = (if p x then f x else x) else y \<in> set xs \<or> y = r)"
  by (auto simp: upsert_def in_set_update_where)

lemma in_set_delete_where [simp]: "y \<in> set (delete_where p xs) \<longleftrightarrow> y \<in> set xs \<and> \<not> p y"
  by (simp add: delete_where_def)

text \<open>Rows of a join written as a list comprehension.\<close>

lemma in_set_concat_map: "x \<in> set (concat (map f xs)) \<longleftrightarrow> (\<exists>y\<in>set xs. x \<in> set (f y))"
  by simp

lemma in_set_if: "x \<in> set (if b then xs else []) \<longleftrightarrow> b \<and> x \<in> set xs"
  by simp

text \<open>A key that the update function keeps is distinct in the table after the update.\<close>

lemma map_key_update_where:
  assumes "\<And>x. p x \<Longrightarrow> k (f x) = k x"
  shows "map k (update_where p f xs) = map k xs"
  using assms by (induction xs) auto

lemma distinct_key_upsert:
  assumes "distinct (map k xs)" and "\<And>x. p x \<longleftrightarrow> k x = k r" and "\<And>x. p x \<Longrightarrow> k (f x) = k x"
  shows "distinct (map k (upsert p f r xs))"
proof -
  have "map k (update_where p f xs) = map k xs"
    using assms(3) by (rule map_key_update_where)
  with assms(1,2) show ?thesis by (auto simp: upsert_def list_ex_iff)
qed

lemma distinct_key_delete_where:
  "distinct (map k xs) \<Longrightarrow> distinct (map k (delete_where p xs))"
  by (simp add: delete_where_def distinct_map_filter)

lemma find_update_where_other:
  assumes "\<And>x. p x \<Longrightarrow> \<not> q x" and "\<And>x. p x \<Longrightarrow> \<not> q (f x)"
  shows "find q (update_where p f xs) = find q xs"
  using assms by (induction xs) auto

lemma find_append_last: "find q (xs @ [r]) = (case find q xs of None \<Rightarrow> if q r then Some r else None | Some y \<Rightarrow> Some y)"
  by (induction xs) auto

lemma find_None_set: "find q xs = None \<longleftrightarrow> (\<forall>x\<in>set xs. \<not> q x)"
  by (auto simp: find_None_iff)

lemma find_SomeD: "find q xs = Some y \<Longrightarrow> y \<in> set xs \<and> q y"
  by (metis find_Some_iff nth_mem)

lemma find_unique_key:
  assumes "distinct (map k xs)" and "y \<in> set xs" and "q y" and "\<And>x. q x \<Longrightarrow> k x = k y"
  shows "find q xs = Some y"
proof -
  obtain z where z: "find q xs = Some z"
    using assms(2,3) by (cases "find q xs") (auto simp: find_None_iff)
  then have "z \<in> set xs" "k z = k y" using find_SomeD [OF z] assms(4) by auto
  with assms(1,2) have "z = y" by (auto simp: distinct_map dest: inj_onD)
  with z show ?thesis by simp
qed


text \<open>What an upsert and a flag update do to the live rows under each key.\<close>

lemma live_upsert_key:
  assumes "\<And>x. key (f x) = key x" and "\<And>x. \<not> del (f x)" and "key r = k" and "\<not> del r"
  shows "list_ex (\<lambda>x. key x = k' \<and> \<not> del x) (upsert (\<lambda>x. key x = k) f r xs)
     \<longleftrightarrow> k' = k \<or> list_ex (\<lambda>x. key x = k' \<and> \<not> del x) xs"
proof (cases "list_ex (\<lambda>x. key x = k) xs")
  case True
  have "list_ex (\<lambda>x. key x = k' \<and> \<not> del x) (update_where (\<lambda>x. key x = k) f xs)
      \<longleftrightarrow> list_ex (\<lambda>x. key x = k' \<and> (k' = k \<or> \<not> del x)) xs"
    using assms(1,2) by (induction xs) auto
  with True show ?thesis by (auto simp: upsert_def list_ex_iff)
next
  case False
  with assms(3,4) show ?thesis by (auto simp: upsert_def list_ex_iff)
qed

lemma held_upsert_key:
  assumes "\<And>x. key (f x) = key x" and "\<And>x. val (f x) = v" and "key r = k" and "val r = v"
  shows "(\<exists>y\<in>set (upsert (\<lambda>x. key x = k) f r xs). key y = k' \<and> val y = v')
     \<longleftrightarrow> (if k' = k then v' = v else \<exists>y\<in>set xs. key y = k' \<and> val y = v')"
proof (cases "list_ex (\<lambda>x. key x = k) xs")
  case True
  then obtain z where "z \<in> set xs" "key z = k" by (auto simp: list_ex_iff)
  have "(\<exists>y\<in>set (update_where (\<lambda>x. key x = k) f xs). key y = k' \<and> val y = v')
      \<longleftrightarrow> (\<exists>x\<in>set xs. key x = k' \<and> (if key x = k then v else val x) = v')"
    using assms(1,2) by (induction xs) auto
  with True \<open>z \<in> set xs\<close> \<open>key z = k\<close> show ?thesis
    by (cases "k' = k") (auto simp: upsert_def split: if_splits)
next
  case False
  with assms(3,4) show ?thesis by (auto simp: upsert_def list_ex_iff)
qed

lemma live_update_key:
  assumes "\<And>x. key (f x) = key x" and "\<And>x. del (f x)"
  shows "list_ex (\<lambda>x. key x = k' \<and> \<not> del x) (update_where (\<lambda>x. key x = k) f xs)
     \<longleftrightarrow> k' \<noteq> k \<and> list_ex (\<lambda>x. key x = k' \<and> \<not> del x) xs"
  using assms by (induction xs) auto


section \<open>Identifiers, environments, results\<close>

type_synonym uuid = "128 word"
type_synonym time = int

text \<open>
  uuid_string and uuid_scan are the text codec of the UUID libraries (google/uuid, pgtype,
  gocql); fault, fresh and clock answer for the statement at a path. The nil flags say which
  optional collaborators a service was built without.
\<close>

record env =
  uuid_string :: "uuid \<Rightarrow> string"
  uuid_scan :: "string \<Rightarrow> uuid option"
  fault :: "nat list \<Rightarrow> bool"
  fresh :: "nat list \<Rightarrow> uuid"
  clock :: "nat list \<Rightarrow> time"
  authz_nil :: bool
  lpb_nil :: bool

text \<open>The environment of the call at site i of the code running in e.\<close>

definition at :: "env \<Rightarrow> nat \<Rightarrow> env" where
  "at e i = e\<lparr>fault := (\<lambda>p. fault e (i # p)), fresh := (\<lambda>p. fresh e (i # p)),
             clock := (\<lambda>p. clock e (i # p))\<rparr>"

lemma at_simps [simp]:
  "uuid_string (at e i) = uuid_string e" "uuid_scan (at e i) = uuid_scan e"
  "fault (at e i) p = fault e (i # p)" "fresh (at e i) p = fresh e (i # p)"
  "clock (at e i) p = clock e (i # p)"
  "authz_nil (at e i) = authz_nil e" "lpb_nil (at e i) = lpb_nil e"
  by (simp_all add: at_def)

text \<open>No statement of the request fails.\<close>

definition fault_free :: "env \<Rightarrow> bool" where
  "fault_free e \<longleftrightarrow> (\<forall>p. \<not> fault e p)"

lemma fault_free_at [simp]: "fault_free e \<Longrightarrow> fault_free (at e i)"
  by (simp add: fault_free_def)

lemma fault_freeD [simp]: "fault_free e \<Longrightarrow> \<not> fault e p"
  by (simp add: fault_free_def)

text \<open>
  What the program relies on of the codec: scanning the text of a UUID gives it back, and the
  empty string is not the text of a UUID.
\<close>

definition codec_ok :: "env \<Rightarrow> bool" where
  "codec_ok e \<longleftrightarrow> (\<forall>u. uuid_scan e (uuid_string e u) = Some u) \<and> uuid_scan e [] = None"

lemma codec_ok_at [simp]: "codec_ok e \<Longrightarrow> codec_ok (at e i)"
  by (simp add: codec_ok_def)

lemma codec_okD [simp]: "codec_ok e \<Longrightarrow> uuid_scan e (uuid_string e u) = Some u"
  by (simp add: codec_ok_def)

lemma codec_ok_inj [simp]: "codec_ok e \<Longrightarrow> uuid_string e u = uuid_string e v \<longleftrightarrow> u = v"
  by (metis codec_okD option.inject)

lemma codec_ok_empty [simp]: "codec_ok e \<Longrightarrow> uuid_scan e [] = None"
  by (simp add: codec_ok_def)

lemma codec_ok_nonempty [simp]: "codec_ok e \<Longrightarrow> uuid_string e u \<noteq> []"
  by (metis codec_okD codec_ok_empty option.distinct(1))

text \<open>What a statement can report, and the outcome of one statement.\<close>

datatype dberr = NoRows | DbFault | FkViolation | UniqueViolation | NotNullViolation

definition run_stmt :: "env \<Rightarrow> dberr + 'a \<Rightarrow> dberr + 'a" where
  "run_stmt e r = (if fault e [] then Inl DbFault else r)"

lemma run_stmt_Inr: "run_stmt e r = Inr x \<longleftrightarrow> \<not> fault e [] \<and> r = Inr x"
  by (simp add: run_stmt_def)

lemma run_stmt_ok [simp]: "\<not> fault e [] \<Longrightarrow> run_stmt e r = r"
  by (simp add: run_stmt_def)

text \<open>A query for one row, and a write whose error the caller drops.\<close>

definition one_row :: "'a option \<Rightarrow> dberr + 'a" where
  "one_row r = (case r of None \<Rightarrow> Inl NoRows | Some x \<Rightarrow> Inr x)"

lemma one_row_Inr [simp]: "one_row r = Inr x \<longleftrightarrow> r = Some x"
  by (simp add: one_row_def split: option.splits)

lemma one_row_Some [simp]: "one_row (Some x) = Inr x"
  by simp

lemma one_row_None [simp]: "one_row None = Inl NoRows"
  by (simp add: one_row_def)

definition keep_on_error :: "'w \<Rightarrow> dberr + 'w \<Rightarrow> 'w" where
  "keep_on_error w r = (case r of Inl _ \<Rightarrow> w | Inr w' \<Rightarrow> w')"

lemma keep_on_error_simps [simp]:
  "keep_on_error w (Inl x) = w" "keep_on_error w (Inr w') = w'"
  by (simp_all add: keep_on_error_def)

definition is_ok :: "'a + 'b \<Rightarrow> bool" where
  "is_ok r = (case r of Inl _ \<Rightarrow> False | Inr _ \<Rightarrow> True)"

lemma is_ok_simps [simp]: "\<not> is_ok (Inl x)" "is_ok (Inr y)"
  by (simp_all add: is_ok_def)

lemma is_ok_iff: "is_ok r \<longleftrightarrow> (\<exists>y. r = Inr y)"
  by (cases r) auto


text \<open>Go's conversion of an int to int32 keeps the low 32 bits, read as two's complement.\<close>

definition int32 :: "int \<Rightarrow> int" where
  "int32 n = sint (word_of_int n :: 32 word)"

lemma int32_eq: "int32 n = signed_take_bit 31 n"
  unfolding int32_def by (simp add: sint_sbintrunc')

lemma int32_bounds: "- (2 ^ 31) \<le> int32 n \<and> int32 n < 2 ^ 31"
  using sint_greater_eq [of "word_of_int n :: 32 word"] sint_less [of "word_of_int n :: 32 word"]
  by (simp add: int32_def)

lemma int32_id: "- (2 ^ 31) \<le> n \<Longrightarrow> n < 2 ^ 31 \<Longrightarrow> int32 n = n"
  unfolding int32_eq by (rule signed_take_bit_int_eq_self)


section \<open>Interfaces\<close>

text \<open>
  A table of soft-deleted rows under a key: activating a key makes it live (inserting the row or
  clearing its deleted flag), deactivating it sets the flag. Guild members, bans, role members
  and direct-message members are kept this way. The other columns written are the arguments a
  and b.
\<close>

locale soft_table =
  fixes live :: "'t \<Rightarrow> 'k \<Rightarrow> bool"
    and activate :: "'a \<Rightarrow> 'k \<Rightarrow> 't \<Rightarrow> 't"
    and deactivate :: "'b \<Rightarrow> 'k \<Rightarrow> 't \<Rightarrow> 't"
  assumes live_activate: "live (activate a k t) k' \<longleftrightarrow> k' = k \<or> live t k'"
    and live_deactivate: "live (deactivate b k t) k' \<longleftrightarrow> k' \<noteq> k \<and> live t k'"
begin

lemma live_activate_same [simp]: "live (activate a k t) k"
  by (simp add: live_activate)

lemma live_deactivate_same [simp]: "\<not> live (deactivate b k t) k"
  by (simp add: live_deactivate)

lemma activate_idem: "live (activate a k (activate a' k t)) = live (activate a k t)"
  by (auto simp: live_activate fun_eq_iff)

lemma reactivate: "live (activate a k (deactivate b k t)) = live (activate a k t)"
  by (auto simp: live_activate live_deactivate fun_eq_iff)

text \<open>After any history of writes, a key is live as its last write left it.\<close>

lemma last_write_wins:
  "live (fold (\<lambda>(on, k). if on then activate a k else deactivate b k) ops t) k \<longleftrightarrow>
     (case find (\<lambda>(on, k'). k' = k) (rev ops) of None \<Rightarrow> live t k | Some (on, _) \<Rightarrow> on)"
proof (induction ops rule: rev_induct)
  case (snoc x xs)
  then show ?case
    by (cases x) (auto simp: live_activate live_deactivate split: option.splits)
qed simp

end

text \<open>
  A table of values under a key, with writes that replace and deletes that remove: the override
  rows of a channel and the keys of the cache servers. has says which value a key holds.
\<close>

locale keyed_table =
  fixes has :: "'t \<Rightarrow> 'k \<Rightarrow> 'v \<Rightarrow> bool"
    and put :: "'k \<Rightarrow> 'v \<Rightarrow> 't \<Rightarrow> 't"
    and del :: "'k \<Rightarrow> 't \<Rightarrow> 't"
  assumes has_put: "has (put k v t) k' v' \<longleftrightarrow> (if k' = k then v' = v else has t k' v')"
    and has_del: "has (del k t) k' v' \<longleftrightarrow> k' \<noteq> k \<and> has t k' v'"
begin

lemma has_put_same [simp]: "has (put k v t) k v' \<longleftrightarrow> v' = v"
  by (simp add: has_put)

lemma put_put: "has (put k v (put k v' t)) = has (put k v t)"
  by (auto simp: has_put fun_eq_iff)

lemma del_put: "(\<And>v. \<not> has t k v) \<Longrightarrow> has (del k (put k v t)) = has t"
  by (auto simp: has_put has_del fun_eq_iff)

lemma has_put_fold:
  "has (fold (\<lambda>k. put k v) ks t) k' v' \<longleftrightarrow> (if k' \<in> set ks then v' = v else has t k' v')"
  by (induction ks arbitrary: t) (auto simp: has_put)

end

text \<open>
  An operation behind a gate: when the gate is closed the operation reports the refusal and
  leaves the state as it was.
\<close>

locale gated =
  fixes gate :: "'w \<Rightarrow> bool"
    and op :: "'w \<Rightarrow> ('x + 'a) \<times> 'w"
    and refusal :: 'x
  assumes refused: "\<not> gate w \<Longrightarrow> op w = (Inl refusal, w)"
begin

lemma ok_imp_gate: "is_ok (fst (op w)) \<Longrightarrow> gate w"
  using refused [of w] by (cases "gate w") auto

lemma changed_imp_gate: "snd (op w) \<noteq> w \<Longrightarrow> gate w"
  using refused [of w] by (cases "gate w") auto

lemma refused_again: "\<not> gate w \<Longrightarrow> ((\<lambda>w. snd (op w)) ^^ n) w = w"
  by (induction n) (auto simp: refused)

end

end
