(* ===== verification/Realtime.thy ===== *)
theory Realtime
  imports Prelude
begin

text \<open>
  The publish side of internal/shared/realtime: the subjects of channel.go, and the events
  (internal/features/stream/proto) that the services publish on them. Publishing hands a subject
  and an event to the message broker, a service outside the program; the model records the calls
  in order, in the outbox of the state.
\<close>

section \<open>Subjects\<close>

definition GuildChannelMessage :: "string \<Rightarrow> string \<Rightarrow> string" where
  "GuildChannelMessage guildID channelID = ''guild.'' @ guildID @ ''.channel.message.'' @ channelID"

definition GuildChannelTyping :: "string \<Rightarrow> string \<Rightarrow> string" where
  "GuildChannelTyping guildID channelID = ''guild.'' @ guildID @ ''.channel.typing.'' @ channelID"

definition GuildChannelVoice :: "string \<Rightarrow> string \<Rightarrow> string" where
  "GuildChannelVoice guildID channelID = ''guild.'' @ guildID @ ''.channel.voice.'' @ channelID"

definition GuildChannelVoiceChat :: "string \<Rightarrow> string \<Rightarrow> string" where
  "GuildChannelVoiceChat guildID channelID = ''guild.'' @ guildID @ ''.channel.voicechat.'' @ channelID"

definition GuildEvents :: "string \<Rightarrow> string" where
  "GuildEvents guildID = ''guild.'' @ guildID @ ''.events''"

definition DmMessage :: "string \<Rightarrow> string \<Rightarrow> string" where
  "DmMessage userID channelID = ''dm.'' @ userID @ ''.message.'' @ channelID"

definition DmChannels :: "string \<Rightarrow> string" where
  "DmChannels userID = ''dm.'' @ userID @ ''.channels''"

definition DmCall :: "string \<Rightarrow> string" where
  "DmCall userID = ''dm.'' @ userID @ ''.call''"

definition DmTyping :: "string \<Rightarrow> string \<Rightarrow> string" where
  "DmTyping userID channelID = ''dm.'' @ userID @ ''.typing.'' @ channelID"

definition FriendActivity :: "string \<Rightarrow> string" where
  "FriendActivity userID = ''friend.'' @ userID @ ''.activity''"

definition GuildAllMessages :: "string \<Rightarrow> string" where
  "GuildAllMessages guildID = ''guild.'' @ guildID @ ''.channel.message.*''"

definition GuildAllTyping :: "string \<Rightarrow> string" where
  "GuildAllTyping guildID = ''guild.'' @ guildID @ ''.channel.typing.*''"

definition GuildAllVoice :: "string \<Rightarrow> string" where
  "GuildAllVoice guildID = ''guild.'' @ guildID @ ''.channel.voice.*''"

definition GuildAllVoiceChat :: "string \<Rightarrow> string" where
  "GuildAllVoiceChat guildID = ''guild.'' @ guildID @ ''.channel.voicechat.*''"

definition DmAllMessages :: "string \<Rightarrow> string" where
  "DmAllMessages userID = ''dm.'' @ userID @ ''.message.*''"

definition DmAllTyping :: "string \<Rightarrow> string" where
  "DmAllTyping userID = ''dm.'' @ userID @ ''.typing.*''"

text \<open>
  Subjects are dot-separated tokens. Identifiers without a dot stand as one token, so a subject
  determines its tokens, and through them its family and identifiers.
\<close>

fun tokens :: "string \<Rightarrow> string list" where
  "tokens [] = [[]]"
| "tokens (c # s) =
     (if c = CHR ''.'' then [] # tokens s
      else (case tokens s of [] \<Rightarrow> [[c]] | t # ts \<Rightarrow> (c # t) # ts))"

lemma tokens_not_Nil [simp]: "tokens s \<noteq> []"
  by (cases s) (auto split: list.splits)

lemma tokens_dotless: "CHR ''.'' \<notin> set s \<Longrightarrow> tokens s = [s]"
  by (induction s) auto

lemma tokens_append: "CHR ''.'' \<notin> set s \<Longrightarrow> tokens (s @ CHR ''.'' # t) = s # tokens t"
  by (induction s) auto

lemmas subject_defs = GuildChannelMessage_def GuildChannelTyping_def GuildChannelVoice_def
  GuildChannelVoiceChat_def GuildEvents_def DmMessage_def DmChannels_def DmCall_def DmTyping_def
  FriendActivity_def GuildAllMessages_def GuildAllTyping_def GuildAllVoice_def
  GuildAllVoiceChat_def DmAllMessages_def DmAllTyping_def

lemma tokens_guild_channel:
  assumes "CHR ''.'' \<notin> set g" "CHR ''.'' \<notin> set c"
  shows "tokens (GuildChannelMessage g c) = [''guild'', g, ''channel'', ''message'', c]"
    "tokens (GuildChannelTyping g c) = [''guild'', g, ''channel'', ''typing'', c]"
    "tokens (GuildChannelVoice g c) = [''guild'', g, ''channel'', ''voice'', c]"
    "tokens (GuildChannelVoiceChat g c) = [''guild'', g, ''channel'', ''voicechat'', c]"
    "tokens (DmMessage g c) = [''dm'', g, ''message'', c]"
    "tokens (DmTyping g c) = [''dm'', g, ''typing'', c]"
  using assms by (simp_all add: subject_defs tokens_append tokens_dotless)

lemma tokens_one_id:
  assumes "CHR ''.'' \<notin> set g"
  shows "tokens (GuildEvents g) = [''guild'', g, ''events'']"
    "tokens (DmChannels g) = [''dm'', g, ''channels'']"
    "tokens (DmCall g) = [''dm'', g, ''call'']"
    "tokens (FriendActivity g) = [''friend'', g, ''activity'']"
    "tokens (GuildAllMessages g) = [''guild'', g, ''channel'', ''message'', ''*'']"
    "tokens (GuildAllTyping g) = [''guild'', g, ''channel'', ''typing'', ''*'']"
    "tokens (GuildAllVoice g) = [''guild'', g, ''channel'', ''voice'', ''*'']"
    "tokens (GuildAllVoiceChat g) = [''guild'', g, ''channel'', ''voicechat'', ''*'']"
    "tokens (DmAllMessages g) = [''dm'', g, ''message'', ''*'']"
    "tokens (DmAllTyping g) = [''dm'', g, ''typing'', ''*'']"
  using assms by (simp_all add: subject_defs tokens_append tokens_dotless)


section \<open>Events\<close>

datatype GuildEventType =
    GUILD_EVENT_UNSPECIFIED | GUILD_EVENT_MEMBER_ADD | GUILD_EVENT_MEMBER_REMOVE | GUILD_EVENT_MEMBER_BAN
  | GUILD_EVENT_MEMBER_UNBAN | GUILD_EVENT_UPDATE | GUILD_EVENT_DELETE | GUILD_EVENT_ROLE_CREATE
  | GUILD_EVENT_ROLE_UPDATE | GUILD_EVENT_ROLE_DELETE | GUILD_EVENT_ROLE_ASSIGN
  | GUILD_EVENT_ROLE_REMOVE | GUILD_EVENT_CHANNEL_CREATE | GUILD_EVENT_CHANNEL_UPDATE
  | GUILD_EVENT_CHANNEL_DELETE

record GuildEvent =
  ge_Event :: GuildEventType
  ge_Action :: GuildEventType
  ge_GuildId :: string
  ge_UserId :: string
  ge_ChannelId :: string
  ge_Name :: string
  ge_Type :: int
  ge_Topic :: string
  ge_Position :: int
  ge_ParentId :: string
  ge_IconUrl :: string
  ge_BannerUrl :: string
  ge_Reason :: string
  ge_RoleId :: string
  ge_RoleName :: string
  ge_RoleColor :: string
  ge_RolePosition :: int
  ge_RolePermissions :: "string list"

definition guild_event :: "GuildEventType \<Rightarrow> string \<Rightarrow> GuildEvent" where
  "guild_event ty gid = \<lparr>ge_Event = ty, ge_Action = ty, ge_GuildId = gid, ge_UserId = '''', ge_ChannelId = '''',
     ge_Name = '''', ge_Type = 0, ge_Topic = '''', ge_Position = 0, ge_ParentId = '''',
     ge_IconUrl = '''', ge_BannerUrl = '''', ge_Reason = '''', ge_RoleId = '''', ge_RoleName = '''',
     ge_RoleColor = '''', ge_RolePosition = 0, ge_RolePermissions = []\<rparr>"

datatype ChannelLifecycleType =
    CHANNEL_LIFECYCLE_UNSPECIFIED | CHANNEL_LIFECYCLE_CREATE | CHANNEL_LIFECYCLE_UPDATE
  | CHANNEL_LIFECYCLE_DELETE

record DmChannelMemberMsg =
  dcm_Id :: string
  dcm_Username :: string
  dcm_DisplayName :: string
  dcm_AvatarUrl :: string
  dcm_Status :: string

record DmChannelEvent =
  dce_Type :: ChannelLifecycleType
  dce_Id :: string
  dce_Name :: string
  dce_ChannelType :: int
  dce_Members :: "DmChannelMemberMsg list"

datatype FriendEventType =
    FRIEND_EVENT_UNSPECIFIED | FRIEND_EVENT_PRESENCE_UPDATE | FRIEND_EVENT_PROFILE_UPDATE
  | FRIEND_EVENT_REQUEST | FRIEND_EVENT_ACCEPTED | FRIEND_EVENT_DECLINED | FRIEND_EVENT_REMOVED
  | FRIEND_EVENT_REQUEST_CANCELLED

datatype PresenceStatus =
    PRESENCE_STATUS_UNSPECIFIED | PRESENCE_STATUS_ONLINE | PRESENCE_STATUS_IDLE
  | PRESENCE_STATUS_DND | PRESENCE_STATUS_OFFLINE

record FriendActivityEvent =
  fa_Event :: FriendEventType
  fa_UserId :: string
  fa_Username :: string
  fa_Status :: PresenceStatus
  fa_CustomStatus :: string
  fa_AvatarUrl :: string
  fa_ChannelId :: string
  fa_DisplayName :: string

datatype ChatEventType =
    CHAT_EVENT_UNSPECIFIED | CHAT_EVENT_CREATE | CHAT_EVENT_UPDATE | CHAT_EVENT_DELETE | CHAT_EVENT_PIN | CHAT_EVENT_UNPIN
  | CHAT_EVENT_REACTION_ADD | CHAT_EVENT_REACTION_REMOVE | CHAT_EVENT_READ_RECEIPT

record ChatReactionCount =
  cr_User :: "string list"
  cr_Emoji :: string
  cr_Count :: int
  cr_Me :: bool

record ChatAttachment =
  ca_Id :: string
  ca_Filename :: string
  ca_Url :: string
  ca_ContentType :: string
  ca_Size :: int

record TextChannelEvent =
  tc_Type :: ChatEventType
  tc_MessageId :: string
  tc_ChannelId :: string
  tc_GuildId :: string
  tc_AuthorId :: string
  tc_SenderId :: string
  tc_Content :: string
  tc_MsgType :: int
  tc_Pinned :: bool
  tc_Deleted :: bool
  tc_Reactions :: "ChatReactionCount list"
  tc_ReplyToId :: string
  tc_EditedAt :: "time option"
  tc_CreatedAt :: "time option"
  tc_Attachments :: "ChatAttachment list"
  tc_ForwardedFrom :: "(string \<times> string \<times> string) option"
  tc_MentionUserIds :: "string list"
  tc_Emoji :: string

record TypingEvent =
  ty_ChannelId :: string
  ty_GuildId :: string
  ty_UserId :: string
  ty_Username :: string

datatype VoiceEvent = VOICE_EVENT_UNSPECIFIED | VOICE_EVENT_STATE_UPDATE

datatype VoiceAction =
    VOICE_ACTION_UNSPECIFIED | VOICE_ACTION_JOIN | VOICE_ACTION_LEAVE | VOICE_ACTION_PARTICIPANT_JOINED
  | VOICE_ACTION_PARTICIPANT_LEFT | VOICE_ACTION_TRACK_UPDATE | VOICE_ACTION_STATE_SYNC
  | VOICE_ACTION_STATE_UPDATE | VOICE_ACTION_ROOM_STARTED | VOICE_ACTION_ROOM_FINISHED

datatype VoiceTrackType =
    VOICE_TRACK_UNSPECIFIED | VOICE_TRACK_AUDIO | VOICE_TRACK_VIDEO | VOICE_TRACK_SCREEN_SHARE

record VoiceStateEvent =
  ve_Event :: VoiceEvent
  ve_GuildId :: string
  ve_ChannelId :: string
  ve_UserId :: string
  ve_SelfMute :: bool
  ve_SelfDeaf :: bool
  ve_Video :: bool
  ve_Streaming :: bool
  ve_Action :: VoiceAction
  ve_Sid :: string
  ve_Name :: string
  ve_Metadata :: string
  ve_TrackType :: VoiceTrackType
  ve_Published :: bool
  ve_RoomActiveSince :: int

datatype DmCallType =
    DM_CALL_UNSPECIFIED | DM_CALL_INCOMING | DM_CALL_ACCEPTED | DM_CALL_REJECTED | DM_CALL_ENDED
  | DM_CALL_PARTICIPANT_LEFT

record DmCallEvent =
  dc_Type :: DmCallType
  dc_ChannelId :: string
  dc_CallerId :: string
  dc_ParticipantId :: string
  dc_Video :: bool

datatype event =
    GuildEvt GuildEvent
  | VoiceEvt VoiceStateEvent
  | DmCallEvt DmCallEvent
  | DmChannelEvt DmChannelEvent
  | FriendEvt FriendActivityEvent
  | TextEvt TextChannelEvent
  | TypingEvt TypingEvent

end
