(* ===== verification/Store.thy ===== *)
theory Store
  imports Realtime
begin

text \<open>
  The Postgres tables (db/timescale/migrations, gen/db/models.go) and the queries of gen/db that
  the services run. A table is the list of its rows in insertion order; a row keeps every column
  a modelled statement reads or writes (the created_at columns are left out). Each query takes
  the environment, which says whether the statement fails, and its parameters. A read returns
  the rows or an error; a write returns an error or the new state, so a failed statement changes
  nothing. Foreign keys are checked as the schema declares them.
\<close>

section \<open>Rows\<close>

record User =
  u_id :: uuid
  u_username :: string
  u_email :: string
  u_password_hash :: string
  u_avatar_url :: string
  u_bio :: string
  u_status :: string
  u_verified :: bool
  u_deleted :: bool
  u_background_color :: string
  u_display_name :: string
  u_updated_at :: time

record Friendship =
  f_user_id :: uuid
  f_friend_id :: uuid
  f_status :: string
  f_deleted :: bool
  f_updated_at :: time

record Guild =
  g_id :: uuid
  g_name :: string
  g_description :: string
  g_icon_url :: string
  g_owner_id :: uuid
  g_deleted :: bool
  g_updated_at :: time
  g_banner_url :: string

record GuildMember =
  gm_guild_id :: uuid
  gm_user_id :: uuid
  gm_nickname :: string
  gm_joined_at :: time
  gm_deleted :: bool
  gm_updated_at :: time
  gm_invite_code :: "string option"
  gm_invited_by :: "uuid option"

record Role =
  r_id :: uuid
  r_guild_id :: uuid
  r_name :: string
  r_color :: string
  r_position :: int
  r_deleted :: bool
  r_updated_at :: time

record RoleMember =
  rm_role_id :: uuid
  rm_user_id :: uuid
  rm_deleted :: bool
  rm_updated_at :: time

record Channel =
  c_id :: uuid
  c_guild_id :: "uuid option"
  c_name :: string
  c_type :: int
  c_topic :: string
  c_position :: int
  c_parent_id :: "uuid option"
  c_deleted :: bool
  c_updated_at :: time

record DmChannelMember =
  dm_channel_id :: uuid
  dm_user_id :: uuid
  dm_deleted :: bool
  dm_updated_at :: time

record Invite =
  i_code :: string
  i_guild_id :: uuid
  i_channel_id :: uuid
  i_creator_id :: uuid
  i_max_uses :: int
  i_uses :: int
  i_expires_at :: "time option"
  i_deleted :: bool
  i_updated_at :: time

record Ban =
  b_guild_id :: uuid
  b_user_id :: uuid
  b_reason :: string
  b_deleted :: bool
  b_updated_at :: time

record InviteUse =
  iu_id :: uuid
  iu_invite_code :: string
  iu_guild_id :: uuid
  iu_user_id :: uuid
  iu_inviter_id :: uuid
  iu_used_at :: time

record Permission =
  p_id :: int
  p_name :: string

record RolePermission =
  rp_role_id :: uuid
  rp_permission_id :: int

record ChannelPermissionOverwrite =
  o_channel_id :: uuid
  o_target_type :: string
  o_target_id :: uuid
  o_permission_id :: int
  o_effect :: string

text \<open>An entry of the channel cache of authz.Client; the guild is empty for a guildless channel.\<close>

record chanGuildEntry =
  ce_guildID :: string
  ce_expiresAt :: time

record world =
  users :: "User list"
  friendships :: "Friendship list"
  guilds :: "Guild list"
  guild_members :: "GuildMember list"
  roles :: "Role list"
  role_members :: "RoleMember list"
  channels :: "Channel list"
  dm_channel_members :: "DmChannelMember list"
  invites :: "Invite list"
  bans :: "Ban list"
  invite_uses :: "InviteUse list"
  permissions :: "Permission list"
  role_permissions :: "RolePermission list"
  overwrites :: "ChannelPermissionOverwrite list"
  chanGuildCache :: "(string \<times> chanGuildEntry) list"
  outbox :: "(string \<times> event) list"

text \<open>realtime.Publish; every caller drops its error.\<close>

definition Publish :: "string \<Rightarrow> event \<Rightarrow> world \<Rightarrow> world" where
  "Publish subj evt w = w\<lparr>outbox := outbox w @ [(subj, evt)]\<rparr>"

text \<open>The state apart from the events published: what later requests can read.\<close>

definition data :: "world \<Rightarrow> world" where
  "data w = w\<lparr>outbox := []\<rparr>"

lemma Publish_frame [simp]:
  "users (Publish s v w) = users w" "friendships (Publish s v w) = friendships w"
  "guilds (Publish s v w) = guilds w" "guild_members (Publish s v w) = guild_members w"
  "roles (Publish s v w) = roles w" "role_members (Publish s v w) = role_members w"
  "channels (Publish s v w) = channels w"
  "dm_channel_members (Publish s v w) = dm_channel_members w"
  "invites (Publish s v w) = invites w" "bans (Publish s v w) = bans w"
  "invite_uses (Publish s v w) = invite_uses w" "permissions (Publish s v w) = permissions w"
  "role_permissions (Publish s v w) = role_permissions w"
  "overwrites (Publish s v w) = overwrites w"
  "chanGuildCache (Publish s v w) = chanGuildCache w"
  "data (Publish s v w) = data w"
  by (simp_all add: Publish_def data_def)

lemma outbox_Publish: "outbox (Publish s v w) = outbox w @ [(s, v)]"
  by (simp add: Publish_def)

text \<open>A row with this primary key exists, soft-deleted or not: what a foreign key checks.\<close>

definition user_row :: "world \<Rightarrow> uuid \<Rightarrow> bool" where
  "user_row w u = list_ex (\<lambda>x. u_id x = u) (users w)"

definition guild_row :: "world \<Rightarrow> uuid \<Rightarrow> bool" where
  "guild_row w g = list_ex (\<lambda>x. g_id x = g) (guilds w)"

definition role_row :: "world \<Rightarrow> uuid \<Rightarrow> bool" where
  "role_row w r = list_ex (\<lambda>x. r_id x = r) (roles w)"

definition channel_row :: "world \<Rightarrow> uuid \<Rightarrow> bool" where
  "channel_row w c = list_ex (\<lambda>x. c_id x = c) (channels w)"

definition empty_world :: world where
  "empty_world = \<lparr>users = [], friendships = [], guilds = [], guild_members = [], roles = [],
     role_members = [], channels = [], dm_channel_members = [], invites = [], bans = [],
     invite_uses = [], permissions = [], role_permissions = [], overwrites = [],
     chanGuildCache = [], outbox = []\<rparr>"

end
