(* ===== verification/GuildStore.thy ===== *)
theory GuildStore
  imports Store
begin

text \<open>
  The queries of gen/db/guilds.sql.go and gen/db/roles.sql.go. Members, bans and role assignments
  are soft-deleted rows under a pair of keys: each of the three tables is shown to be an instance
  of the interface for such tables, and the lemmas on who is a member, banned or assigned after a
  statement come from it.
\<close>

section \<open>Guilds\<close>

text \<open>UPDATE ... WHERE ... RETURNING: the first row updated, or no rows.\<close>

definition update_returning :: "('r \<Rightarrow> bool) \<Rightarrow> ('r \<Rightarrow> 'r) \<Rightarrow> 'r list \<Rightarrow> dberr + ('r \<times> 'r list)" where
  "update_returning p f xs =
     (case find p xs of None \<Rightarrow> Inl NoRows | Some r \<Rightarrow> Inr (f r, update_where p f xs))"

lemma update_returning_Inr:
  "update_returning p f xs = Inr (r, ys) \<longleftrightarrow>
     (\<exists>x. find p xs = Some x \<and> r = f x \<and> ys = update_where p f xs)"
  by (auto simp: update_returning_def split: option.splits)

definition q_CreateGuild ::
    "env \<Rightarrow> string \<Rightarrow> string \<Rightarrow> string \<Rightarrow> uuid \<Rightarrow> world \<Rightarrow> dberr + (Guild \<times> world)" where
  "q_CreateGuild e name description iconUrl ownerID w =
     run_stmt e
       (if \<not> user_row w ownerID then Inl FkViolation
        else if guild_row w (fresh e []) then Inl UniqueViolation
        else let g = \<lparr>g_id = fresh e [], g_name = name, g_description = description,
                      g_icon_url = iconUrl, g_owner_id = ownerID, g_deleted = False,
                      g_updated_at = clock e [], g_banner_url = ''''\<rparr>
             in Inr (g, w\<lparr>guilds := guilds w @ [g]\<rparr>))"

definition q_GetGuildByID :: "env \<Rightarrow> uuid \<Rightarrow> world \<Rightarrow> dberr + Guild" where
  "q_GetGuildByID e gid w =
     run_stmt e (one_row (find (\<lambda>g. g_id g = gid \<and> \<not> g_deleted g) (guilds w)))"

text \<open>The nullable parameters of UpdateGuild; an absent one keeps the column (COALESCE).\<close>

record UpdateGuildParams =
  ug_Name :: "string option"
  ug_Description :: "string option"
  ug_IconUrl :: "string option"
  ug_BannerUrl :: "string option"

definition coalesce :: "'a option \<Rightarrow> 'a \<Rightarrow> 'a" where
  "coalesce x d = (case x of None \<Rightarrow> d | Some y \<Rightarrow> y)"

lemma coalesce_simps [simp]: "coalesce None d = d" "coalesce (Some y) d = y"
  by (simp_all add: coalesce_def)

definition q_UpdateGuild :: "env \<Rightarrow> uuid \<Rightarrow> UpdateGuildParams \<Rightarrow> world \<Rightarrow> dberr + (Guild \<times> world)" where
  "q_UpdateGuild e gid params w =
     run_stmt e
       (case update_returning (\<lambda>g. g_id g = gid)
               (\<lambda>g. g\<lparr>g_name := coalesce (ug_Name params) (g_name g),
                      g_description := coalesce (ug_Description params) (g_description g),
                      g_icon_url := coalesce (ug_IconUrl params) (g_icon_url g),
                      g_banner_url := coalesce (ug_BannerUrl params) (g_banner_url g)\<rparr>)
               (guilds w) of
          Inl x \<Rightarrow> Inl x
        | Inr (g, gs) \<Rightarrow> Inr (g, w\<lparr>guilds := gs\<rparr>))"

definition q_DeleteGuild :: "env \<Rightarrow> uuid \<Rightarrow> world \<Rightarrow> dberr + world" where
  "q_DeleteGuild e gid w =
     run_stmt e (Inr (w\<lparr>guilds := update_where (\<lambda>g. g_id g = gid)
       (\<lambda>g. g\<lparr>g_deleted := True, g_updated_at := clock e []\<rparr>) (guilds w)\<rparr>))"

definition q_TransferGuildOwnership :: "env \<Rightarrow> uuid \<Rightarrow> uuid \<Rightarrow> world \<Rightarrow> dberr + (Guild \<times> world)" where
  "q_TransferGuildOwnership e gid ownerID w =
     run_stmt e
       (if \<not> user_row w ownerID then Inl FkViolation
        else case update_returning (\<lambda>g. g_id g = gid) (\<lambda>g. g\<lparr>g_owner_id := ownerID\<rparr>) (guilds w) of
          Inl x \<Rightarrow> Inl x
        | Inr (g, gs) \<Rightarrow> Inr (g, w\<lparr>guilds := gs\<rparr>))"

definition q_ListUserGuilds :: "env \<Rightarrow> uuid \<Rightarrow> world \<Rightarrow> dberr + Guild list" where
  "q_ListUserGuilds e userID w =
     run_stmt e (Inr (concat (map (\<lambda>g. map (\<lambda>_. g)
       (filter (\<lambda>gm. gm_guild_id gm = g_id g \<and> gm_user_id gm = userID \<and> \<not> gm_deleted gm)
          (guild_members w))) (filter (\<lambda>g. \<not> g_deleted g) (guilds w)))))"


section \<open>Members and bans\<close>

definition live_member :: "GuildMember list \<Rightarrow> uuid \<times> uuid \<Rightarrow> bool" where
  "live_member t k = list_ex (\<lambda>m. (gm_guild_id m, gm_user_id m) = k \<and> \<not> gm_deleted m) t"

definition member_on ::
    "time \<times> string \<times> string option \<times> uuid option \<Rightarrow> uuid \<times> uuid \<Rightarrow> GuildMember list \<Rightarrow> GuildMember list" where
  "member_on cols k t =
     (case cols of (now, nickname, inviteCode, invitedBy) \<Rightarrow>
      upsert (\<lambda>m. (gm_guild_id m, gm_user_id m) = k)
        (\<lambda>m. m\<lparr>gm_deleted := False, gm_updated_at := now, gm_nickname := nickname,
               gm_invite_code := inviteCode, gm_invited_by := invitedBy\<rparr>)
        \<lparr>gm_guild_id = fst k, gm_user_id = snd k, gm_nickname = nickname, gm_joined_at = now,
         gm_deleted = False, gm_updated_at = now, gm_invite_code = inviteCode,
         gm_invited_by = invitedBy\<rparr> t)"

definition member_off :: "time \<Rightarrow> uuid \<times> uuid \<Rightarrow> GuildMember list \<Rightarrow> GuildMember list" where
  "member_off now k t = update_where (\<lambda>m. (gm_guild_id m, gm_user_id m) = k)
     (\<lambda>m. m\<lparr>gm_deleted := True, gm_updated_at := now\<rparr>) t"

interpretation members: soft_table live_member member_on member_off
proof
  fix a :: "time \<times> string \<times> string option \<times> uuid option" and k k' t
  show "live_member (member_on a k t) k' \<longleftrightarrow> k' = k \<or> live_member t k'"
    unfolding live_member_def member_on_def
    by (cases a) (simp add: live_upsert_key [where key = "\<lambda>m. (gm_guild_id m, gm_user_id m)"])
next
  fix b :: time and k k' t
  show "live_member (member_off b k t) k' \<longleftrightarrow> k' \<noteq> k \<and> live_member t k'"
    unfolding live_member_def member_off_def
    by (simp add: live_update_key [where key = "\<lambda>m. (gm_guild_id m, gm_user_id m)"])
qed

definition q_AddGuildMember ::
    "env \<Rightarrow> uuid \<Rightarrow> uuid \<Rightarrow> string \<Rightarrow> string option \<Rightarrow> uuid option \<Rightarrow> world \<Rightarrow> dberr + world" where
  "q_AddGuildMember e guildID userID nickname inviteCode invitedBy w =
     run_stmt e
       (if \<not> guild_row w guildID \<or> \<not> user_row w userID \<or>
           (case invitedBy of None \<Rightarrow> False | Some u \<Rightarrow> \<not> user_row w u) then Inl FkViolation
        else Inr (w\<lparr>guild_members := member_on (clock e [], nickname, inviteCode, invitedBy)
                                       (guildID, userID) (guild_members w)\<rparr>))"

definition q_RemoveGuildMember :: "env \<Rightarrow> uuid \<Rightarrow> uuid \<Rightarrow> world \<Rightarrow> dberr + world" where
  "q_RemoveGuildMember e guildID userID w =
     run_stmt e (Inr (w\<lparr>guild_members := member_off (clock e []) (guildID, userID) (guild_members w)\<rparr>))"

definition q_GetGuildMember :: "env \<Rightarrow> uuid \<Rightarrow> uuid \<Rightarrow> world \<Rightarrow> dberr + GuildMember" where
  "q_GetGuildMember e guildID userID w =
     run_stmt e (one_row (find (\<lambda>m. (gm_guild_id m, gm_user_id m) = (guildID, userID) \<and> \<not> gm_deleted m)
       (guild_members w)))"

definition q_CountGuildMembers :: "env \<Rightarrow> uuid \<Rightarrow> world \<Rightarrow> dberr + nat" where
  "q_CountGuildMembers e guildID w =
     run_stmt e (Inr (length (filter (\<lambda>m. gm_guild_id m = guildID \<and> \<not> gm_deleted m) (guild_members w))))"

text \<open>ORDER BY joined_at LIMIT limit OFFSET offset.\<close>

definition q_ListGuildMembers :: "env \<Rightarrow> uuid \<Rightarrow> int \<Rightarrow> int \<Rightarrow> world \<Rightarrow> dberr + GuildMember list" where
  "q_ListGuildMembers e guildID limit offset w =
     run_stmt e
       (if limit < 0 \<or> offset < 0 then Inl DbFault
        else Inr (take (nat limit) (drop (nat offset) (sort_key gm_joined_at
          (filter (\<lambda>m. gm_guild_id m = guildID \<and> \<not> gm_deleted m) (guild_members w))))))"

definition live_ban :: "Ban list \<Rightarrow> uuid \<times> uuid \<Rightarrow> bool" where
  "live_ban t k = list_ex (\<lambda>b. (b_guild_id b, b_user_id b) = k \<and> \<not> b_deleted b) t"

definition ban_on :: "time \<times> string \<Rightarrow> uuid \<times> uuid \<Rightarrow> Ban list \<Rightarrow> Ban list" where
  "ban_on cols k t =
     (case cols of (now, reason) \<Rightarrow>
      upsert (\<lambda>b. (b_guild_id b, b_user_id b) = k)
        (\<lambda>b. b\<lparr>b_deleted := False, b_updated_at := now, b_reason := reason\<rparr>)
        \<lparr>b_guild_id = fst k, b_user_id = snd k, b_reason = reason, b_deleted = False,
         b_updated_at = now\<rparr> t)"

definition ban_off :: "time \<Rightarrow> uuid \<times> uuid \<Rightarrow> Ban list \<Rightarrow> Ban list" where
  "ban_off now k t = update_where (\<lambda>b. (b_guild_id b, b_user_id b) = k)
     (\<lambda>b. b\<lparr>b_deleted := True, b_updated_at := now\<rparr>) t"

interpretation banned: soft_table live_ban ban_on ban_off
proof
  fix a :: "time \<times> string" and k k' t
  show "live_ban (ban_on a k t) k' \<longleftrightarrow> k' = k \<or> live_ban t k'"
    unfolding live_ban_def ban_on_def
    by (cases a) (simp add: live_upsert_key [where key = "\<lambda>b. (b_guild_id b, b_user_id b)"])
next
  fix b :: time and k k' t
  show "live_ban (ban_off b k t) k' \<longleftrightarrow> k' \<noteq> k \<and> live_ban t k'"
    unfolding live_ban_def ban_off_def
    by (simp add: live_update_key [where key = "\<lambda>b. (b_guild_id b, b_user_id b)"])
qed

definition q_CreateBan :: "env \<Rightarrow> uuid \<Rightarrow> uuid \<Rightarrow> string \<Rightarrow> world \<Rightarrow> dberr + world" where
  "q_CreateBan e guildID userID reason w =
     run_stmt e (if \<not> guild_row w guildID \<or> \<not> user_row w userID then Inl FkViolation
       else Inr (w\<lparr>bans := ban_on (clock e [], reason) (guildID, userID) (bans w)\<rparr>))"

definition q_DeleteBan :: "env \<Rightarrow> uuid \<Rightarrow> uuid \<Rightarrow> world \<Rightarrow> dberr + world" where
  "q_DeleteBan e guildID userID w =
     run_stmt e (Inr (w\<lparr>bans := ban_off (clock e []) (guildID, userID) (bans w)\<rparr>))"

definition q_GetBan :: "env \<Rightarrow> uuid \<Rightarrow> uuid \<Rightarrow> world \<Rightarrow> dberr + Ban" where
  "q_GetBan e guildID userID w =
     run_stmt e (one_row (find (\<lambda>b. (b_guild_id b, b_user_id b) = (guildID, userID) \<and> \<not> b_deleted b)
       (bans w)))"

section \<open>Invites\<close>

text \<open>channel_id is declared NOT NULL: a call without one is refused.\<close>

definition q_CreateInvite ::
    "env \<Rightarrow> string \<Rightarrow> uuid \<Rightarrow> uuid option \<Rightarrow> uuid \<Rightarrow> int \<Rightarrow> time option \<Rightarrow> world \<Rightarrow> dberr + (Invite \<times> world)" where
  "q_CreateInvite e code guildID channelID creatorID maxUses expiresAt w =
     run_stmt e
       (case channelID of
          None \<Rightarrow> Inl NotNullViolation
        | Some ch \<Rightarrow>
            if list_ex (\<lambda>i. i_code i = code) (invites w) then Inl UniqueViolation
            else if \<not> guild_row w guildID \<or> \<not> channel_row w ch \<or> \<not> user_row w creatorID
            then Inl FkViolation
            else let i = \<lparr>i_code = code, i_guild_id = guildID, i_channel_id = ch,
                          i_creator_id = creatorID, i_max_uses = maxUses, i_uses = 0,
                          i_expires_at = expiresAt, i_deleted = False, i_updated_at = clock e []\<rparr>
                 in Inr (i, w\<lparr>invites := invites w @ [i]\<rparr>))"

definition q_GetInvite :: "env \<Rightarrow> string \<Rightarrow> world \<Rightarrow> dberr + Invite" where
  "q_GetInvite e code w =
     run_stmt e (one_row (find (\<lambda>i. i_code i = code \<and> \<not> i_deleted i) (invites w)))"

text \<open>uses is an INTEGER column: Postgres refuses an update that passes its largest value.\<close>

definition q_IncrementInviteUses :: "env \<Rightarrow> string \<Rightarrow> world \<Rightarrow> dberr + world" where
  "q_IncrementInviteUses e code w =
     run_stmt e
       (if list_ex (\<lambda>i. i_code i = code \<and> 2147483647 \<le> i_uses i) (invites w) then Inl DbFault
        else Inr (w\<lparr>invites := update_where (\<lambda>i. i_code i = code) (\<lambda>i. i\<lparr>i_uses := i_uses i + 1\<rparr>)
                    (invites w)\<rparr>))"

definition q_DeleteInvite :: "env \<Rightarrow> string \<Rightarrow> world \<Rightarrow> dberr + world" where
  "q_DeleteInvite e code w =
     run_stmt e (Inr (w\<lparr>invites := update_where (\<lambda>i. i_code i = code)
       (\<lambda>i. i\<lparr>i_deleted := True, i_updated_at := clock e []\<rparr>) (invites w)\<rparr>))"

definition q_RecordInviteUse :: "env \<Rightarrow> string \<Rightarrow> uuid \<Rightarrow> uuid \<Rightarrow> uuid \<Rightarrow> world \<Rightarrow> dberr + world" where
  "q_RecordInviteUse e code guildID userID inviterID w =
     run_stmt e
       (if \<not> list_ex (\<lambda>i. i_code i = code) (invites w) \<or> \<not> guild_row w guildID \<or>
           \<not> user_row w userID \<or> \<not> user_row w inviterID then Inl FkViolation
        else if list_ex (\<lambda>x. iu_id x = fresh e []) (invite_uses w) then Inl UniqueViolation
        else Inr (w\<lparr>invite_uses := invite_uses w @ [\<lparr>iu_id = fresh e [], iu_invite_code = code,
                    iu_guild_id = guildID, iu_user_id = userID, iu_inviter_id = inviterID,
                    iu_used_at = clock e []\<rparr>]\<rparr>))"


section \<open>Roles\<close>

definition q_CreateRole :: "env \<Rightarrow> uuid \<Rightarrow> string \<Rightarrow> string \<Rightarrow> int \<Rightarrow> world \<Rightarrow> dberr + (Role \<times> world)" where
  "q_CreateRole e guildID name color position w =
     run_stmt e
       (if \<not> guild_row w guildID then Inl FkViolation
        else if role_row w (fresh e []) then Inl UniqueViolation
        else let r = \<lparr>r_id = fresh e [], r_guild_id = guildID, r_name = name, r_color = color,
                      r_position = position, r_deleted = False, r_updated_at = clock e []\<rparr>
             in Inr (r, w\<lparr>roles := roles w @ [r]\<rparr>))"

definition q_GetRoleByID :: "env \<Rightarrow> uuid \<Rightarrow> world \<Rightarrow> dberr + Role" where
  "q_GetRoleByID e rid w =
     run_stmt e (one_row (find (\<lambda>r. r_id r = rid \<and> \<not> r_deleted r) (roles w)))"

record UpdateRoleParams =
  ur_ID :: uuid
  ur_Name :: "string option"
  ur_Color :: "string option"
  ur_Position :: "int option"

definition q_UpdateRole :: "env \<Rightarrow> UpdateRoleParams \<Rightarrow> world \<Rightarrow> dberr + (Role \<times> world)" where
  "q_UpdateRole e params w =
     run_stmt e
       (case update_returning (\<lambda>r. r_id r = ur_ID params)
               (\<lambda>r. r\<lparr>r_name := coalesce (ur_Name params) (r_name r),
                      r_color := coalesce (ur_Color params) (r_color r),
                      r_position := coalesce (ur_Position params) (r_position r)\<rparr>)
               (roles w) of
          Inl x \<Rightarrow> Inl x
        | Inr (r, rs) \<Rightarrow> Inr (r, w\<lparr>roles := rs\<rparr>))"

definition q_DeleteRole :: "env \<Rightarrow> uuid \<Rightarrow> world \<Rightarrow> dberr + world" where
  "q_DeleteRole e rid w =
     run_stmt e (Inr (w\<lparr>roles := update_where (\<lambda>r. r_id r = rid)
       (\<lambda>r. r\<lparr>r_deleted := True, r_updated_at := clock e []\<rparr>) (roles w)\<rparr>))"

definition q_ListGuildRoles :: "env \<Rightarrow> uuid \<Rightarrow> world \<Rightarrow> dberr + Role list" where
  "q_ListGuildRoles e guildID w =
     run_stmt e (Inr (sort_key r_position
       (filter (\<lambda>r. r_guild_id r = guildID \<and> \<not> r_deleted r) (roles w))))"

definition q_GetEveryoneRole :: "env \<Rightarrow> uuid \<Rightarrow> world \<Rightarrow> dberr + Role" where
  "q_GetEveryoneRole e guildID w =
     run_stmt e (one_row (find (\<lambda>r. r_guild_id r = guildID \<and> r_name r = ''@everyone'' \<and> \<not> r_deleted r)
       (roles w)))"

definition live_assignment :: "RoleMember list \<Rightarrow> uuid \<times> uuid \<Rightarrow> bool" where
  "live_assignment t k = list_ex (\<lambda>m. (rm_role_id m, rm_user_id m) = k \<and> \<not> rm_deleted m) t"

definition assign_on :: "time \<Rightarrow> uuid \<times> uuid \<Rightarrow> RoleMember list \<Rightarrow> RoleMember list" where
  "assign_on now k t =
     upsert (\<lambda>m. (rm_role_id m, rm_user_id m) = k) (\<lambda>m. m\<lparr>rm_deleted := False, rm_updated_at := now\<rparr>)
       \<lparr>rm_role_id = fst k, rm_user_id = snd k, rm_deleted = False, rm_updated_at = now\<rparr> t"

definition assign_off :: "time \<Rightarrow> uuid \<times> uuid \<Rightarrow> RoleMember list \<Rightarrow> RoleMember list" where
  "assign_off now k t = update_where (\<lambda>m. (rm_role_id m, rm_user_id m) = k)
     (\<lambda>m. m\<lparr>rm_deleted := True, rm_updated_at := now\<rparr>) t"

interpretation assigned: soft_table live_assignment assign_on assign_off
proof
  fix a :: time and k k' t
  show "live_assignment (assign_on a k t) k' \<longleftrightarrow> k' = k \<or> live_assignment t k'"
    unfolding live_assignment_def assign_on_def
    by (simp add: live_upsert_key [where key = "\<lambda>m. (rm_role_id m, rm_user_id m)"])
next
  fix b :: time and k k' t
  show "live_assignment (assign_off b k t) k' \<longleftrightarrow> k' \<noteq> k \<and> live_assignment t k'"
    unfolding live_assignment_def assign_off_def
    by (simp add: live_update_key [where key = "\<lambda>m. (rm_role_id m, rm_user_id m)"])
qed

definition q_AssignRole :: "env \<Rightarrow> uuid \<Rightarrow> uuid \<Rightarrow> world \<Rightarrow> dberr + world" where
  "q_AssignRole e roleID userID w =
     run_stmt e (if \<not> role_row w roleID \<or> \<not> user_row w userID then Inl FkViolation
       else Inr (w\<lparr>role_members := assign_on (clock e []) (roleID, userID) (role_members w)\<rparr>))"

definition q_RemoveRole :: "env \<Rightarrow> uuid \<Rightarrow> uuid \<Rightarrow> world \<Rightarrow> dberr + world" where
  "q_RemoveRole e roleID userID w =
     run_stmt e (Inr (w\<lparr>role_members := assign_off (clock e []) (roleID, userID) (role_members w)\<rparr>))"


section \<open>Users and channels, as the guild service reads them\<close>

text \<open>GetUserByID does not look at the deleted flag.\<close>

definition q_GetUserByID :: "env \<Rightarrow> uuid \<Rightarrow> world \<Rightarrow> dberr + User" where
  "q_GetUserByID e uid w = run_stmt e (one_row (find (\<lambda>u. u_id u = uid) (users w)))"

definition q_ListGuildChannels :: "env \<Rightarrow> uuid \<Rightarrow> world \<Rightarrow> dberr + Channel list" where
  "q_ListGuildChannels e guildID w =
     run_stmt e (Inr (sort_key c_position
       (filter (\<lambda>c. c_guild_id c = Some guildID \<and> \<not> c_deleted c) (channels w))))"


section \<open>Who is a member, banned, assigned\<close>

definition is_member :: "world \<Rightarrow> uuid \<Rightarrow> uuid \<Rightarrow> bool" where
  "is_member w g u = live_member (guild_members w) (g, u)"

definition is_banned :: "world \<Rightarrow> uuid \<Rightarrow> uuid \<Rightarrow> bool" where
  "is_banned w g u = live_ban (bans w) (g, u)"

definition has_role :: "world \<Rightarrow> uuid \<Rightarrow> uuid \<Rightarrow> bool" where
  "has_role w u r = live_assignment (role_members w) (r, u)"

text \<open>The live guild with this identifier, as GetGuildByID finds it.\<close>

definition live_guild :: "world \<Rightarrow> uuid \<Rightarrow> Guild option" where
  "live_guild w g = find (\<lambda>x. g_id x = g \<and> \<not> g_deleted x) (guilds w)"

lemma q_GetGuildByID_eq: "q_GetGuildByID e g w = run_stmt e (one_row (live_guild w g))"
  by (simp add: q_GetGuildByID_def live_guild_def)

lemma q_GetGuildMember_ok:
  "is_ok (q_GetGuildMember e g u w) \<longleftrightarrow> \<not> fault e [] \<and> is_member w g u"
proof -
  have "find (\<lambda>m. (gm_guild_id m, gm_user_id m) = (g, u) \<and> \<not> gm_deleted m) (guild_members w) = None
    \<longleftrightarrow> \<not> is_member w g u"
    by (auto simp: find_None_set is_member_def live_member_def list_ex_iff)
  then show ?thesis
    by (auto simp: q_GetGuildMember_def run_stmt_def one_row_def split: option.splits)
qed

lemma q_GetBan_ok: "is_ok (q_GetBan e g u w) \<longleftrightarrow> \<not> fault e [] \<and> is_banned w g u"
proof -
  have "find (\<lambda>b. (b_guild_id b, b_user_id b) = (g, u) \<and> \<not> b_deleted b) (bans w) = None
    \<longleftrightarrow> \<not> is_banned w g u"
    by (auto simp: find_None_set is_banned_def live_ban_def list_ex_iff)
  then show ?thesis
    by (auto simp: q_GetBan_def run_stmt_def one_row_def split: option.splits)
qed

end
