(* ===== verification/Codec.thy ===== *)
theory Codec
  imports Prelude
begin

text \<open>
  The text form of a UUID: 32 lower-case hexadecimal digits in groups of 8, 4, 4, 4 and 12 joined
  by dashes, and its reader. Services take the codec from the environment; this one shows that
  the laws asked of it hold of the format in use.
\<close>

definition hex_digit :: "nat \<Rightarrow> char" where
  "hex_digit n = (if n < 10 then char_of (48 + n) else char_of (87 + n))"

definition hex_value :: "char \<Rightarrow> nat" where
  "hex_value c = (if of_char c < (58 :: nat) then of_char c - 48 else of_char c - 87)"

fun to_hex :: "nat \<Rightarrow> nat \<Rightarrow> string" where
  "to_hex 0 n = []"
| "to_hex (Suc k) n = to_hex k (n div 16) @ [hex_digit (n mod 16)]"

definition of_hex :: "string \<Rightarrow> nat" where
  "of_hex s = foldl (\<lambda>acc c. acc * 16 + hex_value c) 0 s"

definition uuid_text :: "uuid \<Rightarrow> string" where
  "uuid_text u = (let h = to_hex 32 (unat u) in
     Join [take 8 h, take 4 (drop 8 h), take 4 (drop 12 h), take 4 (drop 16 h), drop 20 h] ''-'')"

definition uuid_read :: "string \<Rightarrow> uuid option" where
  "uuid_read s =
     (if length s = 36
      then Some (word_of_nat (of_hex (take 8 s @ take 4 (drop 9 s) @ take 4 (drop 14 s) @
                                      take 4 (drop 19 s) @ drop 24 s)))
      else None)"

lemma hex_value_digit: "n < 16 \<Longrightarrow> hex_value (hex_digit n) = n"
  by (auto simp: hex_value_def hex_digit_def)

lemma length_to_hex [simp]: "length (to_hex k n) = k"
  by (induction k arbitrary: n) auto

lemma of_hex_to_hex: "of_hex (to_hex k n) = n mod 16 ^ k"
proof (induction k arbitrary: n)
  case (Suc k)
  have "of_hex (to_hex (Suc k) n) = (n div 16) mod 16 ^ k * 16 + n mod 16"
    using Suc [of "n div 16"] by (simp add: of_hex_def hex_value_digit)
  also have "\<dots> = n mod (16 * 16 ^ k)"
    by (simp add: mod_mult2_eq)
  finally show ?case by simp
qed (simp add: of_hex_def)

lemma take_drop_split: "take k h @ take m (drop k h) @ rest = take (k + m) h @ rest"
  by (simp add: take_add)

lemma groups_rejoin:
  assumes "length h = 32"
  shows "take 8 h @ take 4 (drop 8 h) @ take 4 (drop 12 h) @ take 4 (drop 16 h) @ drop 20 h = h"
  using assms
  by (metis append_take_drop_id add.commute drop_drop numeral_Bit0 numeral_plus_numeral
      take_drop_split add_num_simps)

lemma uuid_read_text: "uuid_read (uuid_text u) = Some u"
proof -
  define h where "h = to_hex 32 (unat u)"
  have len: "length h = 32" by (simp add: h_def)
  define a b c d f where "a = take 8 h" and "b = take 4 (drop 8 h)" and "c = take 4 (drop 12 h)"
    and "d = take 4 (drop 16 h)" and "f = drop 20 h"
  note parts = a_def b_def c_def d_def f_def
  have l: "length a = 8" "length b = 4" "length c = 4" "length d = 4" "length f = 12"
    using len by (simp_all add: parts)
  have "uuid_text u = a @ ''-'' @ b @ ''-'' @ c @ ''-'' @ d @ ''-'' @ f"
    by (simp add: uuid_text_def h_def [symmetric] parts Let_def)
  then have "uuid_read (uuid_text u) = Some (word_of_nat (of_hex (a @ b @ c @ d @ f)))"
    by (simp add: uuid_read_def l)
  also have "a @ b @ c @ d @ f = h"
    unfolding parts by (rule groups_rejoin [OF len])
  also have "of_hex h = unat u"
  proof -
    have "unat u < 16 ^ 32" using unsigned_less [of u] by simp
    then show ?thesis by (simp add: h_def of_hex_to_hex)
  qed
  finally show ?thesis by simp
qed

text \<open>An environment with this codec in which no statement fails.\<close>

definition text_env :: "(nat list \<Rightarrow> uuid) \<Rightarrow> (nat list \<Rightarrow> time) \<Rightarrow> env" where
  "text_env ids now = \<lparr>uuid_string = uuid_text, uuid_scan = uuid_read, fault = (\<lambda>_. False),
     fresh = ids, clock = now, authz_nil = False, lpb_nil = False\<rparr>"

lemma text_env_simps [simp]:
  "codec_ok (text_env ids now)" "fault_free (text_env ids now)"
  "authz_nil (text_env ids now) = False" "lpb_nil (text_env ids now) = False"
  "fresh (text_env ids now) = ids" "clock (text_env ids now) = now"
  by (simp_all add: text_env_def codec_ok_def fault_free_def uuid_read_text)
    (simp add: uuid_read_def)

end
