(* ===== verification/Authz.thy ===== *)
theory Authz
  imports GuildStore Codec "HOL-Library.Multiset" "HOL-Library.List_Lexorder"
begin

text \<open>
  The authorisation layer, internal/shared/authz/client.go: the catalogue of permission names,
  the guild-level check, channel checks with their override rows and the channel-to-guild cache,
  the role hierarchy, and the functions that edit role assignments, grants and overrides. The SQL
  texts of the file are modelled as the joins they state.
\<close>

section \<open>Keys and the permission catalogue\<close>

definition UserKey :: "string \<Rightarrow> string" where
  "UserKey userID = ''user:'' @ userID"

definition GuildKey :: "string \<Rightarrow> string" where
  "GuildKey guildID = ''guild:'' @ guildID"

definition ChannelKey :: "string \<Rightarrow> string" where
  "ChannelKey channelID = ''channel:'' @ channelID"

definition RoleKey :: "string \<Rightarrow> string" where
  "RoleKey roleID = ''role:'' @ roleID"

definition RoleMembersKey :: "string \<Rightarrow> string" where
  "RoleMembersKey roleID = ''role:'' @ roleID @ ''#member''"

definition PermissionRelation :: "(string \<times> string) list" where
  "PermissionRelation =
    [(''VIEW_CHANNELS'', ''can_view_channels''),
     (''SEND_MESSAGES'', ''can_send_messages''),
     (''MANAGE_MESSAGES'', ''can_manage_messages''),
     (''MANAGE_CHANNELS'', ''can_manage_channels''),
     (''MANAGE_GUILD'', ''can_manage_guild''),
     (''KICK_MEMBERS'', ''can_kick''),
     (''BAN_MEMBERS'', ''can_ban''),
     (''MANAGE_ROLES'', ''can_manage_roles''),
     (''MANAGE_INVITES'', ''can_manage_invites''),
     (''ADD_REACTIONS'', ''can_add_reactions''),
     (''CONNECT'', ''can_connect''),
     (''SPEAK'', ''can_speak''),
     (''STREAM'', ''can_stream''),
     (''MUTE_MEMBERS'', ''can_mute_members''),
     (''DEAFEN_MEMBERS'', ''can_deafen_members''),
     (''MENTION_EVERYONE'', ''can_mention_everyone''),
     (''MANAGE_EMOJIS'', ''can_manage_emojis''),
     (''MANAGE_WEBHOOKS'', ''can_manage_webhooks''),
     (''VIEW_AUDIT_LOG'', ''can_view_audit_log''),
     (''VIEW_GUILD_INSIGHTS'', ''can_view_guild_insights''),
     (''MANAGE_NICKNAMES'', ''can_manage_nicknames''),
     (''CHANGE_NICKNAME'', ''can_change_nickname''),
     (''CREATE_GUILD_EXPRESSIONS'', ''can_create_guild_expressions''),
     (''MODERATE_MEMBERS'', ''can_moderate_members''),
     (''VIEW_CREATOR_MONETIZATION_ANALYTICS'', ''can_view_monetization''),
     (''SEND_TTS_MESSAGES'', ''can_send_tts''),
     (''EMBED_LINKS'', ''can_embed_links''),
     (''ATTACH_FILES'', ''can_attach_files''),
     (''READ_MESSAGE_HISTORY'', ''can_read_message_history''),
     (''USE_EXTERNAL_EMOJIS'', ''can_use_external_emojis''),
     (''USE_EXTERNAL_STICKERS'', ''can_use_external_stickers''),
     (''USE_EXTERNAL_SOUNDS'', ''can_use_external_sounds''),
     (''USE_EXTERNAL_APPS'', ''can_use_external_apps''),
     (''PRIORITY_SPEAKER'', ''can_priority_speaker''),
     (''MOVE_MEMBERS'', ''can_move_members''),
     (''USE_VAD'', ''can_use_vad''),
     (''REQUEST_TO_SPEAK'', ''can_request_to_speak''),
     (''USE_SOUNDBOARD'', ''can_use_soundboard''),
     (''USE_EMBEDDED_ACTIVITIES'', ''can_use_embedded_activities''),
     (''SEND_VOICE_MESSAGES'', ''can_send_voice_messages''),
     (''SEND_POLLS'', ''can_send_polls''),
     (''PIN_MESSAGES'', ''can_pin_messages''),
     (''BYPASS_SLOWMODE'', ''can_bypass_slowmode''),
     (''CREATE_PUBLIC_THREADS'', ''can_create_public_threads''),
     (''CREATE_PRIVATE_THREADS'', ''can_create_private_threads''),
     (''SEND_MESSAGES_IN_THREADS'', ''can_send_messages_in_threads''),
     (''MANAGE_THREADS'', ''can_manage_threads''),
     (''CREATE_EVENTS'', ''can_create_events''),
     (''MANAGE_EVENTS'', ''can_manage_events''),
     (''ADMINISTRATOR'', ''admin'')]"

text \<open>
  relationToName is built by ranging over the Go map, in an order the language leaves open: the
  loop over the entries in the order of a list, which may be any order of the catalogue.
\<close>

definition reverse_lookup :: "('n \<times> 'r) list \<Rightarrow> ('r \<rightharpoonup> 'n)" where
  "reverse_lookup entries = fold (\<lambda>(name, rel) m. m(rel \<mapsto> name)) entries Map.empty"

definition relationToName :: "string \<Rightarrow> string option" where
  "relationToName = reverse_lookup PermissionRelation"


section \<open>Reading the permission tables\<close>

text \<open>parseUUID: Scan of a pgtype.UUID.\<close>

definition parseUUID :: "env \<Rightarrow> string \<Rightarrow> uuid option" where
  "parseUUID e s = uuid_scan e s"

text \<open>uuidToStr: the empty string for NULL, else the text of the value.\<close>

definition uuidToStr :: "env \<Rightarrow> uuid option \<Rightarrow> string" where
  "uuidToStr e u = (case u of None \<Rightarrow> '''' | Some x \<Rightarrow> uuid_string e x)"

text \<open>
  The two halves of the check query: a guild row owned by the user, and a chain of live rows from
  the user through role_members, roles and role_permissions to a permission with one of the
  names.
\<close>

definition owns_guild :: "world \<Rightarrow> uuid \<Rightarrow> uuid \<Rightarrow> bool" where
  "owns_guild w uid gid =
     list_ex (\<lambda>g. g_id g = gid \<and> g_owner_id g = uid \<and> \<not> g_deleted g) (guilds w)"

definition role_grants :: "world \<Rightarrow> uuid \<Rightarrow> uuid \<Rightarrow> string list \<Rightarrow> bool" where
  "role_grants w uid gid names =
     list_ex (\<lambda>rm. rm_user_id rm = uid \<and> \<not> rm_deleted rm \<and>
       list_ex (\<lambda>r. r_id r = rm_role_id rm \<and> r_guild_id r = gid \<and> \<not> r_deleted r \<and>
         list_ex (\<lambda>rp. rp_role_id rp = r_id r \<and>
           list_ex (\<lambda>p. p_id p = rp_permission_id rp \<and> p_name p \<in> set names) (permissions w))
         (role_permissions w)) (roles w)) (role_members w)"

text \<open>checkSQL.\<close>

definition checkSQL :: "env \<Rightarrow> uuid \<Rightarrow> uuid \<Rightarrow> string \<Rightarrow> world \<Rightarrow> dberr + bool" where
  "checkSQL e uid gid perm w =
     run_stmt e (Inr (owns_guild w uid gid \<or> role_grants w uid gid [perm, ''ADMINISTRATOR'']))"

definition Check :: "env \<Rightarrow> string \<Rightarrow> string \<Rightarrow> string \<Rightarrow> world \<Rightarrow> bool" where
  "Check e userKey relation objectKey w =
     (if authz_nil e then True
      else let userID = TrimPrefix userKey ''user:''; guildID = TrimPrefix objectKey ''guild:'' in
        case relationToName relation of
          None \<Rightarrow> False
        | Some permName \<Rightarrow>
            (case parseUUID e userID of
               None \<Rightarrow> False
             | Some uid \<Rightarrow>
                 (case parseUUID e guildID of
                    None \<Rightarrow> False
                  | Some gid \<Rightarrow>
                      (case checkSQL e uid gid permName w of Inl _ \<Rightarrow> False | Inr allowed \<Rightarrow> allowed))))"

section \<open>Guild-scoped wrappers\<close>

definition CanManageGuild :: "env \<Rightarrow> string \<Rightarrow> string \<Rightarrow> world \<Rightarrow> bool" where
  "CanManageGuild e userID guildID w = Check e (UserKey userID) ''can_manage_guild'' (GuildKey guildID) w"

definition CanKick :: "env \<Rightarrow> string \<Rightarrow> string \<Rightarrow> world \<Rightarrow> bool" where
  "CanKick e userID guildID w = Check e (UserKey userID) ''can_kick'' (GuildKey guildID) w"

definition CanBan :: "env \<Rightarrow> string \<Rightarrow> string \<Rightarrow> world \<Rightarrow> bool" where
  "CanBan e userID guildID w = Check e (UserKey userID) ''can_ban'' (GuildKey guildID) w"

definition CanManageRoles :: "env \<Rightarrow> string \<Rightarrow> string \<Rightarrow> world \<Rightarrow> bool" where
  "CanManageRoles e userID guildID w = Check e (UserKey userID) ''can_manage_roles'' (GuildKey guildID) w"

definition CanManageChannels :: "env \<Rightarrow> string \<Rightarrow> string \<Rightarrow> world \<Rightarrow> bool" where
  "CanManageChannels e userID guildID w =
     Check e (UserKey userID) ''can_manage_channels'' (GuildKey guildID) w"

definition CanManageInvites :: "env \<Rightarrow> string \<Rightarrow> string \<Rightarrow> world \<Rightarrow> bool" where
  "CanManageInvites e userID guildID w =
     Check e (UserKey userID) ''can_manage_invites'' (GuildKey guildID) w"

definition CanAddReactions :: "env \<Rightarrow> string \<Rightarrow> string \<Rightarrow> world \<Rightarrow> bool" where
  "CanAddReactions e userID guildID w =
     Check e (UserKey userID) ''can_add_reactions'' (GuildKey guildID) w"

definition CanPinMessages :: "env \<Rightarrow> string \<Rightarrow> string \<Rightarrow> world \<Rightarrow> bool" where
  "CanPinMessages e userID guildID w =
     Check e (UserKey userID) ''can_pin_messages'' (GuildKey guildID) w"

definition CanAttachFiles :: "env \<Rightarrow> string \<Rightarrow> string \<Rightarrow> world \<Rightarrow> bool" where
  "CanAttachFiles e userID guildID w =
     Check e (UserKey userID) ''can_attach_files'' (GuildKey guildID) w"

definition CanMentionEveryone :: "env \<Rightarrow> string \<Rightarrow> string \<Rightarrow> world \<Rightarrow> bool" where
  "CanMentionEveryone e userID guildID w =
     Check e (UserKey userID) ''can_mention_everyone'' (GuildKey guildID) w"

definition CanReadMessageHistory :: "env \<Rightarrow> string \<Rightarrow> string \<Rightarrow> world \<Rightarrow> bool" where
  "CanReadMessageHistory e userID guildID w =
     Check e (UserKey userID) ''can_read_message_history'' (GuildKey guildID) w"

definition CanConnect :: "env \<Rightarrow> string \<Rightarrow> string \<Rightarrow> world \<Rightarrow> bool" where
  "CanConnect e userID guildID w = Check e (UserKey userID) ''can_connect'' (GuildKey guildID) w"

definition CanSpeak :: "env \<Rightarrow> string \<Rightarrow> string \<Rightarrow> world \<Rightarrow> bool" where
  "CanSpeak e userID guildID w = Check e (UserKey userID) ''can_speak'' (GuildKey guildID) w"

definition CanStream :: "env \<Rightarrow> string \<Rightarrow> string \<Rightarrow> world \<Rightarrow> bool" where
  "CanStream e userID guildID w = Check e (UserKey userID) ''can_stream'' (GuildKey guildID) w"

definition CanMuteMembers :: "env \<Rightarrow> string \<Rightarrow> string \<Rightarrow> world \<Rightarrow> bool" where
  "CanMuteMembers e userID guildID w =
     Check e (UserKey userID) ''can_mute_members'' (GuildKey guildID) w"

definition CanDeafenMembers :: "env \<Rightarrow> string \<Rightarrow> string \<Rightarrow> world \<Rightarrow> bool" where
  "CanDeafenMembers e userID guildID w =
     Check e (UserKey userID) ''can_deafen_members'' (GuildKey guildID) w"

definition CanMoveMembers :: "env \<Rightarrow> string \<Rightarrow> string \<Rightarrow> world \<Rightarrow> bool" where
  "CanMoveMembers e userID guildID w =
     Check e (UserKey userID) ''can_move_members'' (GuildKey guildID) w"

definition CanGuildPermission :: "env \<Rightarrow> string \<Rightarrow> string \<Rightarrow> string \<Rightarrow> world \<Rightarrow> bool" where
  "CanGuildPermission e userID guildID relation w =
     Check e (UserKey userID) relation (GuildKey guildID) w"


section \<open>Channel-scoped checks\<close>

datatype azerr =
    BadUUID string
  | AzDb dberr
  | UnknownRelation string
  | InvalidTargetType string
  | InvalidEffect string

definition az_db :: "dberr + 'a \<Rightarrow> azerr + 'a" where
  "az_db r = (case r of Inl x \<Rightarrow> Inl (AzDb x) | Inr y \<Rightarrow> Inr y)"

definition chanGuildCacheTTL :: time where
  "chanGuildCacheTTL = 5 * 60 * 1000000000"

definition chanGuildCacheMax :: nat where
  "chanGuildCacheMax = 5000"

definition cacheChannelGuild :: "env \<Rightarrow> string \<Rightarrow> string \<Rightarrow> world \<Rightarrow> world" where
  "cacheChannelGuild e channelID guildID w =
     (let m = (if chanGuildCacheMax \<le> length (chanGuildCache w) then [] else chanGuildCache w) in
      w\<lparr>chanGuildCache :=
         (channelID, \<lparr>ce_guildID = guildID, ce_expiresAt = clock e [] + chanGuildCacheTTL\<rparr>)
           # filter (\<lambda>(k, _). k \<noteq> channelID) m\<rparr>)"

definition cache_hit :: "env \<Rightarrow> string \<Rightarrow> world \<Rightarrow> chanGuildEntry option" where
  "cache_hit e channelID w =
     (case map_of (chanGuildCache w) channelID of
        None \<Rightarrow> None
      | Some c \<Rightarrow> if clock e [] < ce_expiresAt c then Some c else None)"

definition resolveChannelGuild :: "env \<Rightarrow> string \<Rightarrow> world \<Rightarrow> (azerr + (string \<times> bool)) \<times> world" where
  "resolveChannelGuild e channelID w =
     (case cache_hit (at e 0) channelID w of
        Some c \<Rightarrow> (Inr (ce_guildID c, ce_guildID c = []), w)
      | None \<Rightarrow>
          (case parseUUID e channelID of
             None \<Rightarrow> (Inl (BadUUID channelID), w)
           | Some chUUID \<Rightarrow>
               (case run_stmt (at e 1)
                       (one_row (find (\<lambda>c. c_id c = chUUID \<and> \<not> c_deleted c) (channels w))) of
                  Inl x \<Rightarrow> (Inl (AzDb x), w)
                | Inr c \<Rightarrow>
                    (let result = uuidToStr e (c_guild_id c) in
                     (Inr (result, result = []), cacheChannelGuild (at e 2) channelID result w)))))"

definition isOwnerOrAdmin :: "env \<Rightarrow> string \<Rightarrow> string \<Rightarrow> world \<Rightarrow> bool" where
  "isOwnerOrAdmin e userID guildID w =
     (case parseUUID e userID of
        None \<Rightarrow> False
      | Some uid \<Rightarrow>
          (case parseUUID e guildID of
             None \<Rightarrow> False
           | Some gid \<Rightarrow>
               (case run_stmt e (Inr (owns_guild w uid gid \<or> role_grants w uid gid [''ADMINISTRATOR''])) of
                  Inl _ \<Rightarrow> False
                | Inr ok \<Rightarrow> ok)))"

text \<open>
  The override query: one row (layer, effect) per override of this permission on the channel that
  names the user (layer 2) or a live role of the guild assigned to the user (layer 1), user rows
  first. A guild identifier that does not parse is NULL and matches no role.
\<close>

definition override_applies ::
    "world \<Rightarrow> uuid \<Rightarrow> uuid option \<Rightarrow> ChannelPermissionOverwrite \<Rightarrow> bool" where
  "override_applies w uid gid ov =
     ((o_target_type ov = ''user'' \<and> o_target_id ov = uid) \<or>
      (o_target_type ov = ''role'' \<and>
       list_ex (\<lambda>rm. rm_role_id rm = o_target_id ov \<and> rm_user_id rm = uid \<and> \<not> rm_deleted rm \<and>
         list_ex (\<lambda>r. r_id r = rm_role_id rm \<and> Some (r_guild_id r) = gid \<and> \<not> r_deleted r) (roles w))
       (role_members w)))"

definition override_rows :: "world \<Rightarrow> uuid \<Rightarrow> uuid option \<Rightarrow> uuid \<Rightarrow> string \<Rightarrow> (int \<times> string) list" where
  "override_rows w uid gid chUUID permName =
     sort_key (\<lambda>(layer, _). - layer)
       (concat (map (\<lambda>ov. map (\<lambda>_. (if o_target_type ov = ''user'' then 2 else 1, o_effect ov))
           (filter (\<lambda>p. p_id p = o_permission_id ov \<and> p_name p = permName) (permissions w)))
         (filter (\<lambda>ov. o_channel_id ov = chUUID \<and> override_applies w uid gid ov) (overwrites w))))"

text \<open>The loop over the rows, with userEffect and roleEffect.\<close>

fun override_loop :: "(int \<times> string) list \<Rightarrow> string \<times> string \<Rightarrow> string \<times> string" where
  "override_loop [] effects = effects"
| "override_loop ((layer, effect) # rows) (userEffect, roleEffect) =
     override_loop rows
       (if layer = 2 then (if userEffect \<noteq> ''deny'' then effect else userEffect, roleEffect)
        else if layer = 1 then (userEffect, if roleEffect \<noteq> ''allow'' then effect else roleEffect)
        else (userEffect, roleEffect))"

definition override_decision :: "string \<times> string \<Rightarrow> bool \<Rightarrow> bool" where
  "override_decision effects guildAllowed =
     (case effects of (userEffect, roleEffect) \<Rightarrow>
        if userEffect = ''deny'' then False
        else if userEffect = ''allow'' then True
        else if roleEffect = ''deny'' then False
        else if roleEffect = ''allow'' then True
        else guildAllowed)"

definition applyChannelOverride ::
    "env \<Rightarrow> string \<Rightarrow> string \<Rightarrow> string \<Rightarrow> string \<Rightarrow> bool \<Rightarrow> world \<Rightarrow> bool" where
  "applyChannelOverride e userID guildID channelID relation guildAllowed w =
     (case relationToName relation of
        None \<Rightarrow> guildAllowed
      | Some permName \<Rightarrow>
          (case parseUUID e userID of
             None \<Rightarrow> guildAllowed
           | Some uid \<Rightarrow>
               (case parseUUID e channelID of
                  None \<Rightarrow> guildAllowed
                | Some chUUID \<Rightarrow>
                    (case run_stmt e (Inr (override_rows w uid (parseUUID e guildID) chUUID permName)) of
                       Inl _ \<Rightarrow> guildAllowed
                     | Inr rows \<Rightarrow> override_decision (override_loop rows ([], [])) guildAllowed))))"

definition live_dm_member :: "DmChannelMember list \<Rightarrow> uuid \<times> uuid \<Rightarrow> bool" where
  "live_dm_member t k = list_ex (\<lambda>m. (dm_channel_id m, dm_user_id m) = k \<and> \<not> dm_deleted m) t"

definition isDMMember :: "env \<Rightarrow> string \<Rightarrow> string \<Rightarrow> world \<Rightarrow> bool" where
  "isDMMember e userID channelID w =
     (case parseUUID e userID of
        None \<Rightarrow> False
      | Some uid \<Rightarrow>
          (case parseUUID e channelID of
             None \<Rightarrow> False
           | Some chUUID \<Rightarrow>
               (case run_stmt e (Inr (live_dm_member (dm_channel_members w) (chUUID, uid))) of
                  Inl _ \<Rightarrow> False
                | Inr exists \<Rightarrow> exists)))"

definition checkChannel :: "env \<Rightarrow> string \<Rightarrow> string \<Rightarrow> string \<Rightarrow> world \<Rightarrow> bool \<times> world" where
  "checkChannel e userID channelID relation w =
     (if authz_nil e then (True, w)
      else case resolveChannelGuild (at e 0) channelID w of
        (Inl _, w1) \<Rightarrow> (False, w1)
      | (Inr (guildID, isDM), w1) \<Rightarrow>
          if isDM then (isDMMember (at e 1) userID channelID w1, w1)
          else if isOwnerOrAdmin (at e 2) userID guildID w1 then (True, w1)
          else (let guildAllowed = Check (at e 3) (UserKey userID) relation (GuildKey guildID) w1 in
                (applyChannelOverride (at e 4) userID guildID channelID relation guildAllowed w1, w1)))"

definition CanViewChannel :: "env \<Rightarrow> string \<Rightarrow> string \<Rightarrow> world \<Rightarrow> bool \<times> world" where
  "CanViewChannel e userID channelID w = checkChannel e userID channelID ''can_view_channels'' w"

definition CanSendInChannel :: "env \<Rightarrow> string \<Rightarrow> string \<Rightarrow> world \<Rightarrow> bool \<times> world" where
  "CanSendInChannel e userID channelID w = checkChannel e userID channelID ''can_send_messages'' w"

definition CanManageChannel :: "env \<Rightarrow> string \<Rightarrow> string \<Rightarrow> world \<Rightarrow> bool \<times> world" where
  "CanManageChannel e userID channelID w = checkChannel e userID channelID ''can_manage_channels'' w"

section \<open>Editing assignments, grants and overrides\<close>

definition AddUserToRole :: "env \<Rightarrow> string \<Rightarrow> string \<Rightarrow> world \<Rightarrow> (azerr + unit) \<times> world" where
  "AddUserToRole e userID roleID w =
     (if authz_nil e then (Inr (), w)
      else case parseUUID e userID of
        None \<Rightarrow> (Inl (BadUUID userID), w)
      | Some uid \<Rightarrow>
          (case parseUUID e roleID of
             None \<Rightarrow> (Inl (BadUUID roleID), w)
           | Some rid \<Rightarrow>
               (case q_AssignRole e rid uid w of
                  Inl x \<Rightarrow> (Inl (AzDb x), w)
                | Inr w1 \<Rightarrow> (Inr (), w1))))"

definition RemoveUserFromRole :: "env \<Rightarrow> string \<Rightarrow> string \<Rightarrow> world \<Rightarrow> (azerr + unit) \<times> world" where
  "RemoveUserFromRole e userID roleID w =
     (if authz_nil e then (Inr (), w)
      else case parseUUID e userID of
        None \<Rightarrow> (Inl (BadUUID userID), w)
      | Some uid \<Rightarrow>
          (case parseUUID e roleID of
             None \<Rightarrow> (Inl (BadUUID roleID), w)
           | Some rid \<Rightarrow>
               (case q_RemoveRole e rid uid w of
                  Inl x \<Rightarrow> (Inl (AzDb x), w)
                | Inr w1 \<Rightarrow> (Inr (), w1))))"

text \<open>
  The identifiers of the permissions with a name (names are unique in the schema), and the
  statements on role_permissions and channel_permission_overwrites.
\<close>

definition permission_ids :: "world \<Rightarrow> string \<Rightarrow> int list" where
  "permission_ids w name = map p_id (filter (\<lambda>p. p_name p = name) (permissions w))"

definition insert_grants :: "uuid \<Rightarrow> int list \<Rightarrow> RolePermission list \<Rightarrow> RolePermission list" where
  "insert_grants rid pids t =
     fold (\<lambda>pid t. if list_ex (\<lambda>rp. rp_role_id rp = rid \<and> rp_permission_id rp = pid) t then t
                   else t @ [\<lparr>rp_role_id = rid, rp_permission_id = pid\<rparr>]) pids t"

definition Authz_GrantRolePermission ::
    "env \<Rightarrow> string \<Rightarrow> string \<Rightarrow> string \<Rightarrow> world \<Rightarrow> (azerr + unit) \<times> world" where
  "Authz_GrantRolePermission e roleID guildID relation w =
     (if authz_nil e then (Inr (), w)
      else case relationToName relation of
        None \<Rightarrow> (Inl (UnknownRelation relation), w)
      | Some name \<Rightarrow>
          (case parseUUID e roleID of
             None \<Rightarrow> (Inl (BadUUID roleID), w)
           | Some rid \<Rightarrow>
               (case run_stmt e
                       (if permission_ids w name \<noteq> [] \<and> \<not> role_row w rid then Inl FkViolation
                        else Inr (w\<lparr>role_permissions :=
                          insert_grants rid (permission_ids w name) (role_permissions w)\<rparr>)) of
                  Inl x \<Rightarrow> (Inl (AzDb x), w)
                | Inr w1 \<Rightarrow> (Inr (), w1))))"

definition Authz_RevokeRolePermission ::
    "env \<Rightarrow> string \<Rightarrow> string \<Rightarrow> string \<Rightarrow> world \<Rightarrow> (azerr + unit) \<times> world" where
  "Authz_RevokeRolePermission e roleID guildID relation w =
     (if authz_nil e then (Inr (), w)
      else case relationToName relation of
        None \<Rightarrow> (Inl (UnknownRelation relation), w)
      | Some name \<Rightarrow>
          (case parseUUID e roleID of
             None \<Rightarrow> (Inl (BadUUID roleID), w)
           | Some rid \<Rightarrow>
               (case run_stmt e (Inr (w\<lparr>role_permissions :=
                       delete_where (\<lambda>rp. rp_role_id rp = rid \<and>
                         rp_permission_id rp \<in> set (permission_ids w name)) (role_permissions w)\<rparr>)) of
                  Inl x \<Rightarrow> (Inl (AzDb x), w)
                | Inr w1 \<Rightarrow> (Inr (), w1))))"

definition overwrite_key :: "ChannelPermissionOverwrite \<Rightarrow> uuid \<times> string \<times> uuid \<times> int" where
  "overwrite_key ov = (o_channel_id ov, o_target_type ov, o_target_id ov, o_permission_id ov)"

definition set_overwrites ::
    "uuid \<Rightarrow> string \<Rightarrow> uuid \<Rightarrow> int list \<Rightarrow> string \<Rightarrow> ChannelPermissionOverwrite list \<Rightarrow>
     ChannelPermissionOverwrite list" where
  "set_overwrites ch tt tid pids effect t =
     fold (\<lambda>pid. upsert (\<lambda>ov. overwrite_key ov = (ch, tt, tid, pid)) (\<lambda>ov. ov\<lparr>o_effect := effect\<rparr>)
                   \<lparr>o_channel_id = ch, o_target_type = tt, o_target_id = tid, o_permission_id = pid,
                    o_effect = effect\<rparr>) pids t"

definition Authz_SetChannelOverride ::
    "env \<Rightarrow> string \<Rightarrow> string \<Rightarrow> string \<Rightarrow> string \<Rightarrow> string \<Rightarrow> world \<Rightarrow> (azerr + unit) \<times> world" where
  "Authz_SetChannelOverride e channelID targetType targetID relation effect w =
     (if authz_nil e then (Inr (), w)
      else if targetType \<noteq> ''role'' \<and> targetType \<noteq> ''user'' then (Inl (InvalidTargetType targetType), w)
      else if effect \<noteq> ''allow'' \<and> effect \<noteq> ''deny'' then (Inl (InvalidEffect effect), w)
      else case relationToName relation of
        None \<Rightarrow> (Inl (UnknownRelation relation), w)
      | Some name \<Rightarrow>
          (case parseUUID e channelID of
             None \<Rightarrow> (Inl (BadUUID channelID), w)
           | Some chUUID \<Rightarrow>
               (case parseUUID e targetID of
                  None \<Rightarrow> (Inl (BadUUID targetID), w)
                | Some tUUID \<Rightarrow>
                    (case run_stmt e
                            (if permission_ids w name \<noteq> [] \<and> \<not> channel_row w chUUID then Inl FkViolation
                             else Inr (w\<lparr>overwrites := set_overwrites chUUID targetType tUUID
                               (permission_ids w name) effect (overwrites w)\<rparr>)) of
                       Inl x \<Rightarrow> (Inl (AzDb x), w)
                     | Inr w1 \<Rightarrow> (Inr (), w1)))))"

definition Authz_DeleteChannelOverride ::
    "env \<Rightarrow> string \<Rightarrow> string \<Rightarrow> string \<Rightarrow> string \<Rightarrow> world \<Rightarrow> (azerr + unit) \<times> world" where
  "Authz_DeleteChannelOverride e channelID targetType targetID relation w =
     (if authz_nil e then (Inr (), w)
      else case relationToName relation of
        None \<Rightarrow> (Inl (UnknownRelation relation), w)
      | Some name \<Rightarrow>
          (case parseUUID e channelID of
             None \<Rightarrow> (Inl (BadUUID channelID), w)
           | Some chUUID \<Rightarrow>
               (case parseUUID e targetID of
                  None \<Rightarrow> (Inl (BadUUID targetID), w)
                | Some tUUID \<Rightarrow>
                    (case run_stmt e (Inr (w\<lparr>overwrites :=
                            delete_where (\<lambda>ov. o_channel_id ov = chUUID \<and> o_target_type ov = targetType \<and>
                              o_target_id ov = tUUID \<and>
                              o_permission_id ov \<in> set (permission_ids w name)) (overwrites w)\<rparr>)) of
                       Inl x \<Rightarrow> (Inl (AzDb x), w)
                     | Inr w1 \<Rightarrow> (Inr (), w1)))))"

record ChannelOverride =
  co_TargetType :: string
  co_TargetID :: string
  co_Permission :: string
  co_Effect :: string

definition Authz_ListChannelOverrides ::
    "env \<Rightarrow> string \<Rightarrow> world \<Rightarrow> azerr + ChannelOverride list" where
  "Authz_ListChannelOverrides e channelID w =
     (if authz_nil e then Inr []
      else case parseUUID e channelID of
        None \<Rightarrow> Inl (BadUUID channelID)
      | Some chUUID \<Rightarrow>
          az_db (run_stmt e (Inr (map (\<lambda>(ov, p). \<lparr>co_TargetType = o_target_type ov,
              co_TargetID = uuid_string e (o_target_id ov), co_Permission = p_name p,
              co_Effect = o_effect ov\<rparr>)
            (sort_key (\<lambda>(ov, p). o_target_type ov) (sort_key (\<lambda>(ov, p). o_target_id ov)
              (sort_key (\<lambda>(ov, p). p_name p)
                [(ov, p). ov \<leftarrow> overwrites w, o_channel_id ov = chUUID,
                          p \<leftarrow> permissions w, p_id p = o_permission_id ov])))))))"

section \<open>Role hierarchy and permission lists\<close>

text \<open>COALESCE(MAX(position), -1) over the live roles of the guild assigned to the user.\<close>

definition role_positions :: "world \<Rightarrow> uuid \<Rightarrow> uuid \<Rightarrow> int list" where
  "role_positions w uid gid =
     [r_position r. rm \<leftarrow> role_members w, rm_user_id rm = uid \<and> \<not> rm_deleted rm,
                    r \<leftarrow> roles w, r_id r = rm_role_id rm \<and> r_guild_id r = gid \<and> \<not> r_deleted r]"

definition top_position :: "world \<Rightarrow> uuid \<Rightarrow> uuid \<Rightarrow> int" where
  "top_position w uid gid =
     (case role_positions w uid gid of [] \<Rightarrow> -1 | p # ps \<Rightarrow> fold max ps p)"

definition outranks :: "world \<Rightarrow> uuid \<Rightarrow> uuid \<Rightarrow> uuid \<Rightarrow> bool" where
  "outranks w gid actor target =
     (\<not> owns_guild w target gid \<and>
      (owns_guild w actor gid \<or> top_position w target gid < top_position w actor gid))"

definition CanActOn :: "env \<Rightarrow> string \<Rightarrow> string \<Rightarrow> string \<Rightarrow> world \<Rightarrow> bool" where
  "CanActOn e actorID targetID guildID w =
     (if authz_nil e then True
      else case parseUUID e actorID of
        None \<Rightarrow> False
      | Some actorUUID \<Rightarrow>
          (case parseUUID e targetID of
             None \<Rightarrow> False
           | Some targetUUID \<Rightarrow>
               (case parseUUID e guildID of
                  None \<Rightarrow> False
                | Some guildUUID \<Rightarrow>
                    (case run_stmt e (Inr (outranks w guildUUID actorUUID targetUUID)) of
                       Inl _ \<Rightarrow> False
                     | Inr canAct \<Rightarrow> canAct))))"

definition ListGuildPermissions :: "env \<Rightarrow> string \<Rightarrow> string \<Rightarrow> world \<Rightarrow> azerr + string list" where
  "ListGuildPermissions e userID guildID w =
     (if authz_nil e then Inr []
      else case parseUUID e userID of
        None \<Rightarrow> Inl (BadUUID userID)
      | Some uid \<Rightarrow>
          (case parseUUID e guildID of
             None \<Rightarrow> Inl (BadUUID guildID)
           | Some gid \<Rightarrow>
               (case run_stmt (at e 0)
                       (Inr (owns_guild w uid gid \<or> role_grants w uid gid [''ADMINISTRATOR''])) of
                  Inl x \<Rightarrow> Inl (AzDb x)
                | Inr full \<Rightarrow>
                    if full then az_db (run_stmt (at e 1) (Inr (sort (map p_name (permissions w)))))
                    else az_db (run_stmt (at e 2) (Inr (sort (remdups
                      [p_name p. rm \<leftarrow> role_members w, rm_user_id rm = uid \<and> \<not> rm_deleted rm,
                                 r \<leftarrow> roles w,
                                 r_id r = rm_role_id rm \<and> r_guild_id r = gid \<and> \<not> r_deleted r,
                                 rp \<leftarrow> role_permissions w, rp_role_id rp = r_id r,
                                 p \<leftarrow> permissions w, p_id p = rp_permission_id rp])))))))"

definition ListRolePermissions :: "env \<Rightarrow> string \<Rightarrow> world \<Rightarrow> azerr + string list" where
  "ListRolePermissions e roleID w =
     (if authz_nil e then Inr []
      else case parseUUID e roleID of
        None \<Rightarrow> Inl (BadUUID roleID)
      | Some rid \<Rightarrow>
          az_db (run_stmt e (Inr (sort
            [p_name p. rp \<leftarrow> role_permissions w, rp_role_id rp = rid,
                       p \<leftarrow> permissions w, p_id p = rp_permission_id rp]))))"

section \<open>The catalogue\<close>

lemma catalogue_distinct:
  "distinct (map fst PermissionRelation)" "distinct (map snd PermissionRelation)"
  unfolding PermissionRelation_def by code_simp+

lemma reverse_lookup_map_of:
  "reverse_lookup entries = map_of (rev (map (\<lambda>(name, rel). (rel, name)) entries))"
  unfolding reverse_lookup_def
  by (induction entries rule: rev_induct) (auto simp: fun_eq_iff split: prod.splits)

lemma reverse_lookup_Some:
  assumes "distinct (map snd entries)"
  shows "reverse_lookup entries rel = Some name \<longleftrightarrow> (name, rel) \<in> set entries"
proof -
  have "map fst (rev (map (\<lambda>(name, rel). (rel, name)) entries)) = rev (map snd entries)"
    by (simp add: rev_map comp_def case_prod_beta)
  then have "distinct (map fst (rev (map (\<lambda>(name, rel). (rel, name)) entries)))"
    using assms by simp
  then show ?thesis by (auto simp: reverse_lookup_map_of)
qed

lemmas relationToName_Some = reverse_lookup_Some [OF catalogue_distinct(2), folded relationToName_def]

text \<open>
  relationToName does not depend on the order in which Go ranges over the map: in every order
  of the entries a relation is translated to the one permission name that the catalogue pairs
  with it, and a relation outside the catalogue to nothing.
\<close>

theorem relationToName_any_order:
  assumes "mset entries = mset PermissionRelation"
  shows "reverse_lookup entries rel = Some name \<longleftrightarrow> (name, rel) \<in> set PermissionRelation"
proof -
  have "mset (map snd entries) = mset (map snd PermissionRelation)" using assms by simp
  then have "distinct (map snd entries)"
    using catalogue_distinct(2) by (rule mset_eq_imp_distinct_iff [THEN iffD2])
  with mset_eq_setD [OF assms] show ?thesis by (simp add: reverse_lookup_Some)
qed

theorem relationToName_any_order_witness:
  "reverse_lookup (rev PermissionRelation) ''can_kick'' = Some ''KICK_MEMBERS'' \<longleftrightarrow>
     (''KICK_MEMBERS'', ''can_kick'') \<in> set PermissionRelation"
  by (rule relationToName_any_order) simp


section \<open>Guild-level checks\<close>

text \<open>
  The permission names that a user's live roles in a guild carry, and the specification of a
  guild-level permission: the owner and the holders of ADMINISTRATOR have every permission,
  everybody else the union over their roles.
\<close>

definition role_names :: "world \<Rightarrow> uuid \<Rightarrow> uuid \<Rightarrow> string set" where
  "role_names w u g =
     {p_name p | rm r rp p. rm \<in> set (role_members w) \<and> rm_user_id rm = u \<and> \<not> rm_deleted rm \<and>
        r \<in> set (roles w) \<and> r_id r = rm_role_id rm \<and> r_guild_id r = g \<and> \<not> r_deleted r \<and>
        rp \<in> set (role_permissions w) \<and> rp_role_id rp = r_id r \<and>
        p \<in> set (permissions w) \<and> p_id p = rp_permission_id rp}"

definition permitted :: "world \<Rightarrow> uuid \<Rightarrow> uuid \<Rightarrow> string \<Rightarrow> bool" where
  "permitted w u g name \<longleftrightarrow>
     owns_guild w u g \<or> name \<in> role_names w u g \<or> ''ADMINISTRATOR'' \<in> role_names w u g"

lemma role_grants_iff: "role_grants w u g names \<longleftrightarrow> (\<exists>n\<in>set names. n \<in> role_names w u g)"
  unfolding role_grants_def role_names_def list_ex_iff by blast

lemma owns_guild_iff:
  "owns_guild w u g \<longleftrightarrow> (\<exists>x\<in>set (guilds w). g_id x = g \<and> g_owner_id x = u \<and> \<not> g_deleted x)"
  by (simp add: owns_guild_def list_ex_iff)

lemma checkSQL_permitted: "checkSQL e u g name w = run_stmt e (Inr (permitted w u g name))"
  by (simp add: checkSQL_def permitted_def role_grants_iff)

lemma key_strip [simp]:
  "TrimPrefix (UserKey s) ''user:'' = s" "TrimPrefix (GuildKey s) ''guild:'' = s"
  by (simp_all only: UserKey_def GuildKey_def TrimPrefix_append)

lemma Check_keys:
  "Check e (UserKey us) rel (GuildKey gs) w \<longleftrightarrow>
     authz_nil e \<or> (\<exists>name u g. relationToName rel = Some name \<and> uuid_scan e us = Some u \<and>
       uuid_scan e gs = Some g \<and> \<not> fault e [] \<and> permitted w u g name)"
  by (auto simp: Check_def Let_def parseUUID_def checkSQL_permitted run_stmt_def
      split: option.splits if_splits)

text \<open>
  C3: the guild-level check, on every path. Without an authorisation client it allows; otherwise
  it allows exactly when the relation is in the catalogue, both identifiers parse, the query
  runs, and the user owns the guild, has a live role there that carries the permission, or has
  one that carries ADMINISTRATOR. Unknown relations, malformed identifiers and database errors
  all deny.
\<close>

theorem CanGuildPermission_iff:
  "CanGuildPermission e userID guildID relation w \<longleftrightarrow>
     authz_nil e \<or>
     (\<exists>name u g. (name, relation) \<in> set PermissionRelation \<and> uuid_scan e userID = Some u \<and>
        uuid_scan e guildID = Some g \<and> \<not> fault e [] \<and> permitted w u g name)"
  by (simp add: CanGuildPermission_def Check_keys relationToName_Some)

lemma listed_role_names:
  "set [p_name p. rm \<leftarrow> role_members w, rm_user_id rm = u \<and> \<not> rm_deleted rm,
        r \<leftarrow> roles w, r_id r = rm_role_id rm \<and> r_guild_id r = g \<and> \<not> r_deleted r,
        rp \<leftarrow> role_permissions w, rp_role_id rp = r_id r,
        p \<leftarrow> permissions w, p_id p = rp_permission_id rp] = role_names w u g"
proof (rule set_eqI)
  fix x
  show "x \<in> set [p_name p. rm \<leftarrow> role_members w, rm_user_id rm = u \<and> \<not> rm_deleted rm,
        r \<leftarrow> roles w, r_id r = rm_role_id rm \<and> r_guild_id r = g \<and> \<not> r_deleted r,
        rp \<leftarrow> role_permissions w, rp_role_id rp = r_id r,
        p \<leftarrow> permissions w, p_id p = rp_permission_id rp] \<longleftrightarrow> x \<in> role_names w u g"
    unfolding role_names_def in_set_concat_map in_set_if mem_Collect_eq by simp blast
qed

text \<open>
  The permission screen and the check agree. When the permissions table holds the catalogue
  and no statement fails, ListGuildPermissions returns a sorted list, and a catalogued permission
  is in it exactly when the check on its relation allows.
\<close>

theorem ListGuildPermissions_agrees:
  assumes "codec_ok e" and "fault_free e" and "\<not> authz_nil e"
    and seeded: "fst ` set PermissionRelation \<subseteq> p_name ` set (permissions w)"
  shows "\<exists>names. ListGuildPermissions e (uuid_string e u) (uuid_string e g) w = Inr names \<and> sorted names \<and>
    (\<forall>name rel. (name, rel) \<in> set PermissionRelation \<longrightarrow>
      (name \<in> set names \<longleftrightarrow> CanGuildPermission e (uuid_string e u) (uuid_string e g) rel w))"
proof -
  have can: "CanGuildPermission e (uuid_string e u) (uuid_string e g) rel w \<longleftrightarrow> permitted w u g name"
    if "(name, rel) \<in> set PermissionRelation" for name rel
    using assms(1-3) that relationToName_Some [of rel name]
    by (auto simp: CanGuildPermission_def Check_keys)
  show ?thesis
  proof (cases "owns_guild w u g \<or> ''ADMINISTRATOR'' \<in> role_names w u g")
    case True
    then have "permitted w u g name" for name by (auto simp: permitted_def)
    note all = this
    have "ListGuildPermissions e (uuid_string e u) (uuid_string e g) w = Inr (sort (map p_name (permissions w)))"
      using True assms(1-3)
      by (auto simp: ListGuildPermissions_def parseUUID_def role_grants_iff az_db_def)
    moreover have "name \<in> set (sort (map p_name (permissions w)))"
      if "(name, rel) \<in> set PermissionRelation" for name rel
      using subsetD [OF seeded imageI [OF that]] by simp
    ultimately show ?thesis using all can by auto
  next
    case False
    then have "permitted w u g name \<longleftrightarrow> name \<in> role_names w u g" for name
      by (auto simp: permitted_def)
    with False assms(1-3) can show ?thesis
      by (auto simp: ListGuildPermissions_def parseUUID_def role_grants_iff az_db_def
          listed_role_names simp del: set_concat)
  qed
qed

text \<open>The permissions table as the migrations seed it: one row per catalogued name.\<close>

definition catalogue_rows :: "Permission list" where
  "catalogue_rows = map (\<lambda>(i, name, _). \<lparr>p_id = int i, p_name = name\<rparr>) (enumerate 1 PermissionRelation)"

lemma map_name_enumerate:
  "map (p_name \<circ> (\<lambda>(i, name, _). \<lparr>p_id = int i, p_name = name\<rparr>)) (enumerate n xs) = map fst xs"
  by (induction xs arbitrary: n) auto

lemma map_name_catalogue: "map p_name catalogue_rows = map fst PermissionRelation"
  by (simp only: catalogue_rows_def map_map map_name_enumerate)

lemma catalogue_seeded: "fst ` set PermissionRelation \<subseteq> p_name ` set catalogue_rows"
  using arg_cong [OF map_name_catalogue, of set] by auto

theorem ListGuildPermissions_agrees_witness:
  "\<exists>names. ListGuildPermissions (text_env (\<lambda>_. 0) (\<lambda>_. 0)) (uuid_text 1) (uuid_text 2)
       (empty_world\<lparr>permissions := catalogue_rows\<rparr>) = Inr names \<and> sorted names \<and>
     (\<forall>name rel. (name, rel) \<in> set PermissionRelation \<longrightarrow>
       (name \<in> set names \<longleftrightarrow> CanGuildPermission (text_env (\<lambda>_. 0) (\<lambda>_. 0)) (uuid_text 1) (uuid_text 2) rel
          (empty_world\<lparr>permissions := catalogue_rows\<rparr>)))"
proof -
  have "uuid_string (text_env (\<lambda>_. 0) (\<lambda>_. 0)) = uuid_text" by (simp add: text_env_def)
  with ListGuildPermissions_agrees [of "text_env (\<lambda>_. 0) (\<lambda>_. 0)"
      "empty_world\<lparr>permissions := catalogue_rows\<rparr>" 1 2] catalogue_seeded
  show ?thesis by simp
qed

section \<open>Channel overrides\<close>

text \<open>
  The specification of an override decision: the rows of each layer as a set. A user row that
  denies wins, then one that allows; among role rows one that allows wins over any that deny; with
  no row the guild-level answer stands.
\<close>

definition decision_spec :: "(int \<times> string) set \<Rightarrow> bool \<Rightarrow> bool" where
  "decision_spec rows guildAllowed =
     (if (2, ''deny'') \<in> rows then False
      else if (2, ''allow'') \<in> rows then True
      else if (1, ''allow'') \<in> rows then True
      else if (1, ''deny'') \<in> rows then False
      else guildAllowed)"

lemma override_loop_result:
  assumes lits: "A = ''allow''" "D = ''deny''"
    and "\<forall>(l, x)\<in>set rows. x = A \<or> x = D"
    and "u = [] \<or> u = A \<or> u = D" and "r = [] \<or> r = A \<or> r = D"
  shows "override_loop rows (u, r) =
     (if u = D \<or> (2, D) \<in> set rows then D else if u = A \<or> (2, A) \<in> set rows then A else [],
      if r = A \<or> (1, A) \<in> set rows then A else if r = D \<or> (1, D) \<in> set rows then D else [])"
proof -
  have ne: "A \<noteq> D" "D \<noteq> A" "A \<noteq> []" "D \<noteq> []" "[] \<noteq> A" "[] \<noteq> D" by (simp_all add: lits)
  have step: "override_loop ((l, x) # rows) (u, r) = override_loop rows
      (if l = 2 then (if u \<noteq> D then x else u, r)
       else if l = 1 then (u, if r \<noteq> A then x else r) else (u, r))" for l x rows u r
    by (simp add: lits)
  show ?thesis
    using assms(3-5)
  proof (induction rows arbitrary: u r)
    case (Cons row rows)
    obtain l x where row: "row = (l, x)" by (cases row)
    from Cons.prems have x: "x = A \<or> x = D" and rows: "\<forall>(l, x)\<in>set rows. x = A \<or> x = D"
      by (auto simp: row)
    define u' r' where "u' = (if l = 2 \<and> u \<noteq> D then x else u)"
      and "r' = (if l = 1 \<and> r \<noteq> A then x else r)"
    have loop: "override_loop (row # rows) (u, r) = override_loop rows (u', r')"
      unfolding row step u'_def r'_def by (simp split: if_splits)
    have u': "u' = D \<longleftrightarrow> u = D \<or> (l, x) = (2, D)" "u' = D \<or> u' = A \<longleftrightarrow> u = D \<or> u = A \<or> l = 2"
      using x ne by (auto simp: u'_def)
    have r': "r' = A \<longleftrightarrow> r = A \<or> (l, x) = (1, A)" "r' = A \<or> r' = D \<longleftrightarrow> r = A \<or> r = D \<or> l = 1"
      using x ne by (auto simp: r'_def)
    have "u' = [] \<or> u' = A \<or> u' = D" "r' = [] \<or> r' = A \<or> r' = D"
      using x Cons.prems(2,3) by (auto simp: u'_def r'_def)
    note ih = Cons.IH [OF rows this]
    show ?case unfolding loop ih
      by (rule arg_cong2 [where f = Pair]) (use u' r' x ne in \<open>auto simp: row\<close>)
  qed (use ne in auto)
qed

lemma override_decision_spec:
  assumes "\<forall>(l, x)\<in>set rows. x = ''allow'' \<or> x = ''deny''"
  shows "override_decision (override_loop rows ([], [])) guildAllowed = decision_spec (set rows) guildAllowed"
  using override_loop_result [OF refl refl assms, of "[]" "[]"]
  by (simp add: override_decision_def decision_spec_def)

text \<open>The override rows that bear on a user, a channel and a permission.\<close>

definition override_on :: "world \<Rightarrow> uuid \<Rightarrow> string \<Rightarrow> uuid \<Rightarrow> string \<Rightarrow> string \<Rightarrow> bool" where
  "override_on w c tt tid name x \<longleftrightarrow>
     (\<exists>ov\<in>set (overwrites w). o_channel_id ov = c \<and> o_target_type ov = tt \<and> o_target_id ov = tid \<and>
        o_effect ov = x \<and> (\<exists>p\<in>set (permissions w). p_id p = o_permission_id ov \<and> p_name p = name))"

definition role_in_guild :: "world \<Rightarrow> uuid \<Rightarrow> uuid \<Rightarrow> uuid \<Rightarrow> bool" where
  "role_in_guild w u g r \<longleftrightarrow>
     has_role w u r \<and> (\<exists>x\<in>set (roles w). r_id x = r \<and> r_guild_id x = g \<and> \<not> r_deleted x)"

definition valid_overwrites :: "world \<Rightarrow> bool" where
  "valid_overwrites w \<longleftrightarrow>
     (\<forall>ov\<in>set (overwrites w). (o_target_type ov = ''role'' \<or> o_target_type ov = ''user'') \<and>
        (o_effect ov = ''allow'' \<or> o_effect ov = ''deny''))"

definition channel_decision :: "world \<Rightarrow> uuid \<Rightarrow> uuid \<Rightarrow> uuid \<Rightarrow> string \<Rightarrow> bool" where
  "channel_decision w u g c name =
     (if override_on w c ''user'' u name ''deny'' then False
      else if override_on w c ''user'' u name ''allow'' then True
      else if \<exists>r. role_in_guild w u g r \<and> override_on w c ''role'' r name ''allow'' then True
      else if \<exists>r. role_in_guild w u g r \<and> override_on w c ''role'' r name ''deny'' then False
      else permitted w u g name)"

lemma override_applies_iff:
  "override_applies w u (Some g) ov \<longleftrightarrow>
     (o_target_type ov = ''user'' \<and> o_target_id ov = u) \<or>
     (o_target_type ov = ''role'' \<and> role_in_guild w u g (o_target_id ov))"
  unfolding override_applies_def role_in_guild_def has_role_def live_assignment_def list_ex_iff
    prod.inject option.inject
  by (rule disj_cong [OF refl], rule conj_cong [OF refl]) (auto cong: conj_cong)

lemma in_override_rows:
  "(l, x) \<in> set (override_rows w u gid c name) \<longleftrightarrow>
     (\<exists>ov\<in>set (overwrites w). o_channel_id ov = c \<and> override_applies w u gid ov \<and>
        l = (if o_target_type ov = ''user'' then 2 else 1) \<and> x = o_effect ov \<and>
        (\<exists>p\<in>set (permissions w). p_id p = o_permission_id ov \<and> p_name p = name))"
  unfolding override_rows_def by auto

lemma override_rows_user:
  "(2, x) \<in> set (override_rows w u (Some g) c name) \<longleftrightarrow> override_on w c ''user'' u name x"
  unfolding in_override_rows override_on_def override_applies_iff by (auto split: if_splits)

lemma override_rows_role:
  "(1, x) \<in> set (override_rows w u (Some g) c name) \<longleftrightarrow>
     (\<exists>r. role_in_guild w u g r \<and> override_on w c ''role'' r name x)"
  unfolding in_override_rows override_on_def override_applies_iff by (rule iffI; (force split: if_splits | fastforce))

lemma applyChannelOverride_spec:
  assumes "codec_ok e" and "\<not> fault e []" and "relationToName rel = Some name" and "valid_overwrites w"
  shows "applyChannelOverride e (uuid_string e u) (uuid_string e g) (uuid_string e c) rel
      (permitted w u g name) w = channel_decision w u g c name"
proof -
  have "\<forall>(l, x)\<in>set (override_rows w u (Some g) c name). x = ''allow'' \<or> x = ''deny''"
    using assms(4) by (auto simp: in_override_rows valid_overwrites_def)
  note spec = override_decision_spec [OF this]
  show ?thesis
    using assms(1-3)
    by (simp add: applyChannelOverride_def parseUUID_def spec)
      (simp only: decision_spec_def channel_decision_def override_rows_user override_rows_role)
qed

text \<open>Filling the cache leaves every table alone.\<close>

lemma cacheChannelGuild_frame [simp]:
  "data (cacheChannelGuild e c g w) = (data w)\<lparr>chanGuildCache := chanGuildCache (cacheChannelGuild e c g w)\<rparr>"
  "guilds (cacheChannelGuild e c g w) = guilds w" "roles (cacheChannelGuild e c g w) = roles w"
  "role_members (cacheChannelGuild e c g w) = role_members w"
  "permissions (cacheChannelGuild e c g w) = permissions w"
  "role_permissions (cacheChannelGuild e c g w) = role_permissions w"
  "overwrites (cacheChannelGuild e c g w) = overwrites w"
  "dm_channel_members (cacheChannelGuild e c g w) = dm_channel_members w"
  "channels (cacheChannelGuild e c g w) = channels w"
  by (simp_all add: cacheChannelGuild_def Let_def data_def)

lemma cache_keeps_answers [simp]:
  "owns_guild (cacheChannelGuild e c g w) = owns_guild w"
  "role_names (cacheChannelGuild e c g w) = role_names w"
  "permitted (cacheChannelGuild e c g w) = permitted w"
  "channel_decision (cacheChannelGuild e c g w) = channel_decision w"
  "valid_overwrites (cacheChannelGuild e c g w) = valid_overwrites w"
  by (simp_all only: fun_eq_iff owns_guild_def role_names_def permitted_def channel_decision_def
      override_on_def role_in_guild_def has_role_def valid_overwrites_def cacheChannelGuild_frame
      simp_thms)

lemma resolveChannelGuild_fresh:
  assumes "codec_ok e" and "fault_free e"
    and "find (\<lambda>x. c_id x = c \<and> \<not> c_deleted x) (channels w) = Some ch"
    and "\<forall>ce. cache_hit (at e 0) (uuid_string e c) w = Some ce \<longrightarrow> ce_guildID ce = uuidToStr e (c_guild_id ch)"
  shows "\<exists>w1. resolveChannelGuild e (uuid_string e c) w =
           (Inr (uuidToStr e (c_guild_id ch), c_guild_id ch = None), w1) \<and>
         (w1 = w \<or> w1 = cacheChannelGuild (at e 2) (uuid_string e c) (uuidToStr e (c_guild_id ch)) w)"
  using assms
  by (cases "c_guild_id ch")
    (auto simp: resolveChannelGuild_def parseUUID_def uuidToStr_def Let_def split: option.splits)

end
