(* ===== verification/AuthzLaws.thy ===== *)
theory AuthzLaws
  imports Authz
begin

text \<open>
  Properties of the authorisation layer: what a channel check answers, the bound and the
  freshness of the channel cache, the order that the role hierarchy induces, and the effect of
  editing grants and overrides on later checks.
\<close>

section \<open>Channel checks\<close>

lemma checkChannel_guild_eq:
  assumes "codec_ok e" and "fault_free e" and "\<not> authz_nil e" and "valid_overwrites w"
    and "(name, rel) \<in> set PermissionRelation"
    and ch: "find (\<lambda>x. c_id x = c \<and> \<not> c_deleted x) (channels w) = Some ch" "c_guild_id ch = Some g"
    and "\<forall>ce. cache_hit (at (at e 0) 0) (uuid_string e c) w = Some ce \<longrightarrow> ce_guildID ce = uuid_string e g"
  shows "fst (checkChannel e (uuid_string e u) (uuid_string e c) rel w) \<longleftrightarrow>
    owns_guild w u g \<or> ''ADMINISTRATOR'' \<in> role_names w u g \<or> channel_decision w u g c name"
proof -
  have rel: "relationToName rel = Some name" using assms(5) by (simp add: relationToName_Some)
  obtain w1 where res: "resolveChannelGuild (at e 0) (uuid_string e c) w = (Inr (uuid_string e g, False), w1)"
    and w1: "w1 = w \<or> w1 = cacheChannelGuild (at (at e 0) 2) (uuid_string e c) (uuid_string e g) w"
    using resolveChannelGuild_fresh [of "at e 0" c w ch] assms by (auto simp: uuidToStr_def)
  have same: "owns_guild w1 = owns_guild w" "role_names w1 = role_names w" "permitted w1 = permitted w"
    "channel_decision w1 = channel_decision w" "valid_overwrites w1 = valid_overwrites w"
    using w1 by auto
  have admin: "isOwnerOrAdmin (at e 2) (uuid_string e u) (uuid_string e g) w1 \<longleftrightarrow>
      owns_guild w u g \<or> ''ADMINISTRATOR'' \<in> role_names w u g"
    using assms(1,2) by (simp add: isOwnerOrAdmin_def parseUUID_def role_grants_iff same)
  have guild: "Check (at e 3) (UserKey (uuid_string e u)) rel (GuildKey (uuid_string e g)) w1 = permitted w1 u g name"
    using assms(1-3) rel by (auto simp: Check_keys)
  have ovr: "applyChannelOverride (at e 4) (uuid_string e u) (uuid_string e g) (uuid_string e c) rel
      (permitted w1 u g name) w1 = channel_decision w u g c name"
    using applyChannelOverride_spec [of "at e 4" rel name w1 u g c] assms(1,2,4) rel
    by (simp add: same)
  show ?thesis
    using assms(3) by (simp add: checkChannel_def res admin guild ovr Let_def)
qed

text \<open>
  C4: a check on a channel of a guild. When the statements run and a live cache entry, if there is
  one, names the channel's guild, the answer is the specified decision: the owner and the holders of
  ADMINISTRATOR pass whatever the overrides say; for everybody else an override for the user
  itself decides (deny before allow), then the overrides for the user's live roles in the guild
  (one that allows wins), then the guild-level permission.
\<close>

theorem checkChannel_guild:
  assumes "codec_ok e" and "fault_free e" and "\<not> authz_nil e" and "valid_overwrites w"
    and "(name, rel) \<in> set PermissionRelation"
    and ch: "find (\<lambda>x. c_id x = c \<and> \<not> c_deleted x) (channels w) = Some ch" "c_guild_id ch = Some g"
    and "\<forall>ce. cache_hit (at (at e 0) 0) (uuid_string e c) w = Some ce \<longrightarrow> ce_guildID ce = uuid_string e g"
  shows "fst (checkChannel e (uuid_string e u) (uuid_string e c) rel w) \<longleftrightarrow>
    owns_guild w u g \<or> ''ADMINISTRATOR'' \<in> role_names w u g \<or> channel_decision w u g c name"
  using assms by (rule checkChannel_guild_eq)

lemma checkChannel_dm_eq:
  assumes "codec_ok e" and "fault_free e" and "\<not> authz_nil e"
    and ch: "find (\<lambda>x. c_id x = c \<and> \<not> c_deleted x) (channels w) = Some ch" "c_guild_id ch = None"
    and "\<forall>ce. cache_hit (at (at e 0) 0) (uuid_string e c) w = Some ce \<longrightarrow> ce_guildID ce = []"
  shows "fst (checkChannel e (uuid_string e u) (uuid_string e c) rel w) \<longleftrightarrow>
    live_dm_member (dm_channel_members w) (c, u)"
proof -
  obtain w1 where res: "resolveChannelGuild (at e 0) (uuid_string e c) w = (Inr ([], True), w1)"
    and w1: "w1 = w \<or> w1 = cacheChannelGuild (at (at e 0) 2) (uuid_string e c) [] w"
    using resolveChannelGuild_fresh [of "at e 0" c w ch] assms by (auto simp: uuidToStr_def)
  then have "dm_channel_members w1 = dm_channel_members w" by auto
  then show ?thesis
    using assms(1-3) by (simp add: checkChannel_def res isDMMember_def parseUUID_def)
qed

text \<open>
  C5: a check on a channel without a guild (a direct message or group). When the statements run, the
  database is configured, and a live cache entry of the channel, if there is one, names no guild, the
  check ignores roles and overrides and answers whether the user is a live member of that channel.
\<close>

theorem checkChannel_dm:
  assumes "codec_ok e" and "fault_free e" and "\<not> authz_nil e"
    and ch: "find (\<lambda>x. c_id x = c \<and> \<not> c_deleted x) (channels w) = Some ch" "c_guild_id ch = None"
    and "\<forall>ce. cache_hit (at (at e 0) 0) (uuid_string e c) w = Some ce \<longrightarrow> ce_guildID ce = []"
  shows "fst (checkChannel e (uuid_string e u) (uuid_string e c) rel w) \<longleftrightarrow>
    live_dm_member (dm_channel_members w) (c, u)"
  using assms by (rule checkChannel_dm_eq)

definition chan_world :: world where
  "chan_world = empty_world\<lparr>
     permissions := [\<lparr>p_id = 1, p_name = ''SEND_MESSAGES''\<rparr>],
     channels := [\<lparr>c_id = 2, c_guild_id = Some 1, c_name = ''general'', c_type = 0, c_topic = [],
                   c_position = 0, c_parent_id = None, c_deleted = False, c_updated_at = 0\<rparr>,
                  \<lparr>c_id = 3, c_guild_id = None, c_name = ''DM'', c_type = 5, c_topic = [],
                   c_position = 0, c_parent_id = None, c_deleted = False, c_updated_at = 0\<rparr>],
     dm_channel_members := [\<lparr>dm_channel_id = 3, dm_user_id = 5, dm_deleted = False, dm_updated_at = 0\<rparr>],
     overwrites := [\<lparr>o_channel_id = 2, o_target_type = ''user'', o_target_id = 5, o_permission_id = 1,
                     o_effect = ''deny''\<rparr>]\<rparr>"

theorem checkChannel_guild_witness:
  "\<not> fst (checkChannel (text_env (\<lambda>_. 0) (\<lambda>_. 0)) (uuid_string (text_env (\<lambda>_. 0) (\<lambda>_. 0)) 5)
       (uuid_string (text_env (\<lambda>_. 0) (\<lambda>_. 0)) 2) ''can_send_messages'' chan_world)"
  by (subst checkChannel_guild [where g = 1 and name = "''SEND_MESSAGES''" and ch = "channels chan_world ! 0"])
    (simp_all add: chan_world_def empty_world_def valid_overwrites_def PermissionRelation_def
      cache_hit_def owns_guild_def role_names_def channel_decision_def override_on_def)

theorem checkChannel_dm_witness:
  "fst (checkChannel (text_env (\<lambda>_. 0) (\<lambda>_. 0)) (uuid_string (text_env (\<lambda>_. 0) (\<lambda>_. 0)) 5)
       (uuid_string (text_env (\<lambda>_. 0) (\<lambda>_. 0)) 3) ''can_send_messages'' chan_world)"
  by (subst checkChannel_dm [where ch = "channels chan_world ! 1"])
    (simp_all add: chan_world_def empty_world_def cache_hit_def live_dm_member_def)


section \<open>The channel cache\<close>

text \<open>
  The cache holds at most chanGuildCacheMax entries under distinct keys, and each entry names the
  guild of a row of channels with the identifier it is stored under.
\<close>

definition cache_entry_ok :: "env \<Rightarrow> world \<Rightarrow> string \<times> chanGuildEntry \<Rightarrow> bool" where
  "cache_entry_ok e w ent \<longleftrightarrow>
     (\<exists>ch\<in>set (channels w). uuid_scan e (fst ent) = Some (c_id ch) \<and>
        ce_guildID (snd ent) = uuidToStr e (c_guild_id ch))"

definition cache_inv :: "env \<Rightarrow> world \<Rightarrow> bool" where
  "cache_inv e w \<longleftrightarrow> distinct (map fst (chanGuildCache w)) \<and> length (chanGuildCache w) \<le> chanGuildCacheMax \<and>
     (\<forall>ent\<in>set (chanGuildCache w). cache_entry_ok e w ent)"

lemma uuidToStr_at [simp]: "uuidToStr (at e i) = uuidToStr e"
  by (simp add: uuidToStr_def fun_eq_iff split: option.split)

lemma cache_entry_ok_frame [simp]: "cache_entry_ok e (cacheChannelGuild e' c g w) = cache_entry_ok e w"
  by (simp add: cache_entry_ok_def fun_eq_iff)

lemma cacheChannelGuild_inv:
  assumes "cache_inv e w" and "cache_entry_ok e w (c, \<lparr>ce_guildID = g, ce_expiresAt = x\<rparr>)"
  shows "cache_inv e (cacheChannelGuild e' c g w)"
proof -
  define m where "m = (if chanGuildCacheMax \<le> length (chanGuildCache w) then [] else chanGuildCache w)"
  have m: "length m < chanGuildCacheMax" "distinct (map fst m)" "\<forall>ent\<in>set m. cache_entry_ok e w ent"
    using assms(1) by (auto simp: m_def cache_inv_def chanGuildCacheMax_def)
  have cache: "chanGuildCache (cacheChannelGuild e' c g w) =
      (c, \<lparr>ce_guildID = g, ce_expiresAt = clock e' [] + chanGuildCacheTTL\<rparr>) # filter (\<lambda>(k, _). k \<noteq> c) m"
    by (simp add: cacheChannelGuild_def m_def Let_def)
  have "length (filter (\<lambda>(k, _). k \<noteq> c) m) < chanGuildCacheMax"
    using m(1) le_less_trans length_filter_le by blast
  moreover have "cache_entry_ok e w (c, \<lparr>ce_guildID = g, ce_expiresAt = y\<rparr>)" for y
    using assms(2) by (simp add: cache_entry_ok_def)
  ultimately show ?thesis
    using m(2,3) unfolding cache_inv_def cache by (auto simp: distinct_map_filter)
qed

lemma resolveChannelGuild_inv:
  assumes "cache_inv e w"
  shows "cache_inv e (snd (resolveChannelGuild e c w))"
proof -
  have entry: "cache_entry_ok e w (c, \<lparr>ce_guildID = uuidToStr e (c_guild_id ch), ce_expiresAt = 0\<rparr>)"
    if "uuid_scan e c = Some x" "find (\<lambda>c. c_id c = x \<and> \<not> c_deleted c) (channels w) = Some ch" for x ch
    using that find_SomeD [OF that(2)] by (auto simp: cache_entry_ok_def)
  have "cache_inv e (cacheChannelGuild e' c (uuidToStr e (c_guild_id ch)) w)"
    if "uuid_scan e c = Some x" "find (\<lambda>c. c_id c = x \<and> \<not> c_deleted c) (channels w) = Some ch" for x ch e'
    by (rule cacheChannelGuild_inv [OF assms entry [OF that]])
  then show ?thesis
    using assms
    by (auto simp: resolveChannelGuild_def parseUUID_def run_stmt_Inr Let_def split: option.splits sum.splits)
qed

lemma checkChannel_state:
  "snd (checkChannel e userID channelID relation w) =
     (if authz_nil e then w else snd (resolveChannelGuild (at e 0) channelID w))"
  by (auto simp: checkChannel_def Let_def split: prod.splits sum.splits)

lemma checkChannel_keeps:
  "(snd (checkChannel e userID channelID relation w))\<lparr>chanGuildCache := chanGuildCache w\<rparr> = w"
  unfolding checkChannel_state
  by (auto simp: resolveChannelGuild_def cacheChannelGuild_def Let_def split: option.splits sum.splits)

lemma checkChannel_cache_kept:
  assumes "cache_inv e w"
  shows "cache_inv e (snd (checkChannel e userID channelID relation w)) \<and>
    (snd (checkChannel e userID channelID relation w))\<lparr>chanGuildCache := chanGuildCache w\<rparr> = w"
proof -
  have at: "cache_inv (at e 0) = cache_inv e"
    by (simp add: cache_inv_def [abs_def] cache_entry_ok_def [abs_def])
  show ?thesis
    using assms resolveChannelGuild_inv [of "at e 0" w channelID] checkChannel_keeps
    unfolding at checkChannel_state by auto
qed

text \<open>
  C38: every channel check keeps the cache within its bound, without duplicate keys and truthful
  about the channel's guild, and changes nothing else of the state.
\<close>

theorem checkChannel_cache:
  assumes "cache_inv e w"
  shows "cache_inv e (snd (checkChannel e userID channelID relation w)) \<and>
    (snd (checkChannel e userID channelID relation w))\<lparr>chanGuildCache := chanGuildCache w\<rparr> = w"
  using assms by (rule checkChannel_cache_kept)

theorem checkChannel_cache_witness:
  "cache_inv (text_env (\<lambda>_. 0) (\<lambda>_. 0))
     (snd (checkChannel (text_env (\<lambda>_. 0) (\<lambda>_. 0)) (uuid_text 5) (uuid_text 2) ''can_view_channels'' chan_world))"
proof -
  have "cache_inv (text_env (\<lambda>_. 0) (\<lambda>_. 0)) chan_world"
    by (simp add: cache_inv_def chan_world_def empty_world_def)
  from checkChannel_cache [OF this] show ?thesis by blast
qed

section \<open>The role hierarchy\<close>

lemma fold_max_Max: "fold max ps (p :: int) = Max (set (p # ps))"
  by (metis Max.set_eq_fold)

lemma top_position_Max:
  "top_position w u g = (if role_positions w u g = [] then -1 else Max (set (role_positions w u g)))"
  by (simp add: top_position_def fold_max_Max split: list.split)

lemma CanActOn_iff:
  "CanActOn e a t g w \<longleftrightarrow>
     authz_nil e \<or> (\<exists>au tu gu. uuid_scan e a = Some au \<and> uuid_scan e t = Some tu \<and>
       uuid_scan e g = Some gu \<and> \<not> fault e [] \<and> outranks w gu au tu)"
  by (auto simp: CanActOn_def parseUUID_def run_stmt_def split: option.splits if_splits)

lemma outranks_irrefl: "\<not> outranks w g a a"
  by (simp add: outranks_def)

lemma outranks_trans: "outranks w g a b \<Longrightarrow> outranks w g b c \<Longrightarrow> outranks w g a c"
  by (auto simp: outranks_def)

text \<open>
  The hierarchy test is a strict order on the members of a guild: nobody may act on themself,
  two users never both outrank each other, and outranking is transitive. The owner is above
  everybody and below nobody: nobody may act on the owner, and when the query runs the owner may
  act on everybody else.
\<close>

theorem CanActOn_order:
  assumes "\<not> authz_nil e"
  shows "\<not> CanActOn e a a g w \<and>
    (CanActOn e a b g w \<longrightarrow> \<not> CanActOn e b a g w) \<and>
    (CanActOn e a b g w \<and> CanActOn e b c g w \<longrightarrow> CanActOn e a c g w) \<and>
    (uuid_scan e a = Some au \<and> uuid_scan e b = Some bu \<and> uuid_scan e g = Some gu \<and>
       owns_guild w au gu \<longrightarrow> \<not> CanActOn e b a g w \<and>
       (CanActOn e a b g w \<longleftrightarrow> \<not> fault e [] \<and> \<not> owns_guild w bu gu))"
proof -
  have "\<not> CanActOn e x x g w" for x
    using assms outranks_irrefl [of w] by (auto simp: CanActOn_iff)
  moreover have "CanActOn e x z g w" if "CanActOn e x y g w" "CanActOn e y z g w" for x y z
    using assms that outranks_trans [of w] by (fastforce simp: CanActOn_iff)
  ultimately show ?thesis
    using assms by (auto simp: CanActOn_iff outranks_def)
qed

theorem CanActOn_order_witness:
  "\<not> CanActOn (text_env (\<lambda>_. 0) (\<lambda>_. 0)) (uuid_text 5) (uuid_text 5) (uuid_text 1) chan_world"
  by (rule CanActOn_order [THEN conjunct1]) simp

section \<open>Editing grants\<close>

definition granted_names :: "world \<Rightarrow> uuid \<Rightarrow> string set" where
  "granted_names w r =
     {p_name p | rp p. rp \<in> set (role_permissions w) \<and> rp_role_id rp = r \<and>
        p \<in> set (permissions w) \<and> p_id p = rp_permission_id rp}"

text \<open>Names and identifiers of permissions are unique, as the schema declares.\<close>

definition permissions_unique :: "world \<Rightarrow> bool" where
  "permissions_unique w \<longleftrightarrow> distinct (map p_id (permissions w)) \<and> distinct (map p_name (permissions w))"

lemma role_names_Union: "role_names w u g = (\<Union>r\<in>{r. role_in_guild w u g r}. granted_names w r)"
  unfolding role_names_def granted_names_def role_in_guild_def has_role_def live_assignment_def list_ex_iff
  by (rule set_eqI, rule iffI) (simp, metis, clarsimp, metis)

lemma permission_ids_name:
  assumes "permissions_unique w" and "p \<in> set (permissions w)"
  shows "p_id p \<in> set (permission_ids w name) \<longleftrightarrow> p_name p = name"
  using assms unfolding permissions_unique_def permission_ids_def
  by (auto simp: distinct_map dest: inj_onD)

lemma insert_grants_pairs:
  "(\<lambda>rp. (rp_role_id rp, rp_permission_id rp)) ` set (insert_grants rid pids t) =
     (\<lambda>rp. (rp_role_id rp, rp_permission_id rp)) ` set t \<union> Pair rid ` set pids"
  unfolding insert_grants_def
  by (induction pids arbitrary: t) (auto simp: list_ex_iff image_iff)

lemma delete_grants_pairs:
  "(\<lambda>rp. (rp_role_id rp, rp_permission_id rp)) `
       set (delete_where (\<lambda>rp. rp_role_id rp = rid \<and> rp_permission_id rp \<in> P) t) =
     (\<lambda>rp. (rp_role_id rp, rp_permission_id rp)) ` set t - Pair rid ` P"
  by (auto simp: image_iff)

lemma granted_names_pairs:
  "granted_names w r = {p_name p | p. p \<in> set (permissions w) \<and>
     (r, p_id p) \<in> (\<lambda>rp. (rp_role_id rp, rp_permission_id rp)) ` set (role_permissions w)}"
  unfolding granted_names_def by (auto simp: image_iff)

lemma granted_names_grant:
  assumes "permissions_unique w" and "name \<in> p_name ` set (permissions w)"
    and "role_permissions w1 = insert_grants rid (permission_ids w name) (role_permissions w)"
    and "permissions w1 = permissions w"
  shows "granted_names w1 r = granted_names w r \<union> (if r = rid then {name} else {})"
  using assms(2) permission_ids_name [OF assms(1), of _ name]
  unfolding granted_names_pairs assms(3,4) insert_grants_pairs by auto

lemma granted_names_revoke:
  assumes "permissions_unique w"
    and "role_permissions w1 = delete_where (\<lambda>rp. rp_role_id rp = rid \<and>
           rp_permission_id rp \<in> set (permission_ids w name)) (role_permissions w)"
    and "permissions w1 = permissions w"
  shows "granted_names w1 r = granted_names w r - (if r = rid then {name} else {})"
  using permission_ids_name [OF assms(1), of _ name]
  unfolding granted_names_pairs assms(2,3) delete_grants_pairs by auto

lemma GrantRolePermission_ok:
  assumes "Authz_GrantRolePermission e rs gs rel w = (Inr (), w1)" and "\<not> authz_nil e"
  shows "\<exists>name rid. relationToName rel = Some name \<and> uuid_scan e rs = Some rid \<and>
    w1 = w\<lparr>role_permissions := insert_grants rid (permission_ids w name) (role_permissions w)\<rparr>"
  using assms
  by (auto simp: Authz_GrantRolePermission_def parseUUID_def run_stmt_def split: option.splits if_splits)

lemma RevokeRolePermission_ok:
  assumes "Authz_RevokeRolePermission e rs gs rel w = (Inr (), w1)" and "\<not> authz_nil e"
  shows "\<exists>name rid. relationToName rel = Some name \<and> uuid_scan e rs = Some rid \<and>
    w1 = w\<lparr>role_permissions := delete_where (\<lambda>rp. rp_role_id rp = rid \<and>
           rp_permission_id rp \<in> set (permission_ids w name)) (role_permissions w)\<rparr>"
  using assms
  by (auto simp: Authz_RevokeRolePermission_def parseUUID_def run_stmt_def split: option.splits if_splits)

lemma role_in_guild_frame [simp]: "role_in_guild (w\<lparr>role_permissions := x\<rparr>) = role_in_guild w"
  by (simp add: role_in_guild_def has_role_def fun_eq_iff)

text \<open>
  What a grant changes. A grant that succeeds gives the permission to exactly the users who hold the
  role, live, in the guild of the role; nobody else gains a name and nobody loses one.
\<close>

theorem GrantRolePermission_role_names:
  assumes "\<not> authz_nil e" and "uuid_scan e roleID = Some rid"
    and "(name, rel) \<in> set PermissionRelation" and "name \<in> p_name ` set (permissions w)"
    and "permissions_unique w"
    and ok: "Authz_GrantRolePermission e roleID guildID rel w = (Inr (), w1)"
  shows "role_names w1 u g = role_names w u g \<union> (if role_in_guild w u g rid then {name} else {})"
proof -
  have "relationToName rel = Some name" using assms(3) by (simp add: relationToName_Some)
  with GrantRolePermission_ok [OF ok assms(1)] assms(2)
  have w1: "w1 = w\<lparr>role_permissions := insert_grants rid (permission_ids w name) (role_permissions w)\<rparr>"
    by auto
  have "granted_names w1 r = granted_names w r \<union> (if r = rid then {name} else {})" for r
    by (rule granted_names_grant [OF assms(5,4)]) (simp_all add: w1)
  then show ?thesis by (auto simp: role_names_Union w1 split: if_splits)
qed

text \<open>
  What a revocation changes. After it succeeds a user keeps the names of the other roles, and of
  the role itself all but the revoked one: the permission stays with a user exactly when another
  live role of that user in the guild carries it.
\<close>

theorem RevokeRolePermission_role_names:
  assumes "\<not> authz_nil e" and "uuid_scan e roleID = Some rid"
    and "(name, rel) \<in> set PermissionRelation" and "permissions_unique w"
    and ok: "Authz_RevokeRolePermission e roleID guildID rel w = (Inr (), w1)"
  shows "n \<in> role_names w1 u g \<longleftrightarrow>
    (\<exists>r. role_in_guild w u g r \<and> n \<in> granted_names w r \<and> (r = rid \<longrightarrow> n \<noteq> name))"
proof -
  have "relationToName rel = Some name" using assms(3) by (simp add: relationToName_Some)
  with RevokeRolePermission_ok [OF ok assms(1)] assms(2)
  have w1: "w1 = w\<lparr>role_permissions := delete_where (\<lambda>rp. rp_role_id rp = rid \<and>
           rp_permission_id rp \<in> set (permission_ids w name)) (role_permissions w)\<rparr>"
    by auto
  have "granted_names w1 r = granted_names w r - (if r = rid then {name} else {})" for r
    by (rule granted_names_revoke [OF assms(4)]) (simp_all add: w1)
  then have "n \<in> granted_names w1 r \<longleftrightarrow> n \<in> granted_names w r \<and> (r = rid \<longrightarrow> n \<noteq> name)" for r by simp
  moreover have "role_in_guild w1 = role_in_guild w" by (simp add: w1)
  ultimately show ?thesis by (auto simp: role_names_Union)
qed

text \<open>A guild with two roles, both held by user 5, and one permission to grant.\<close>

definition role_world :: world where
  "role_world = empty_world\<lparr>
     permissions := [\<lparr>p_id = 1, p_name = ''KICK_MEMBERS''\<rparr>],
     roles := [\<lparr>r_id = 7, r_guild_id = 1, r_name = ''@everyone'', r_color = [], r_position = 0,
                r_deleted = False, r_updated_at = 0\<rparr>],
     role_members := [\<lparr>rm_role_id = 7, rm_user_id = 5, rm_deleted = False, rm_updated_at = 0\<rparr>]\<rparr>"

lemma role_world_facts:
  "permissions_unique role_world" "''KICK_MEMBERS'' \<in> p_name ` set (permissions role_world)"
  "role_in_guild role_world 5 1 7" "role_names role_world 5 1 = {}"
  by (simp_all add: role_world_def empty_world_def permissions_unique_def role_in_guild_def has_role_def
      live_assignment_def role_names_def)

lemma kick_catalogued: "(''KICK_MEMBERS'', ''can_kick'') \<in> set PermissionRelation"
  by (simp add: PermissionRelation_def)

theorem GrantRolePermission_role_names_witness:
  "role_names (snd (Authz_GrantRolePermission (text_env (\<lambda>_. 0) (\<lambda>_. 0)) (uuid_text 7) [] ''can_kick'' role_world))
     5 1 = {''KICK_MEMBERS''}"
proof -
  define w1 where "w1 = role_world\<lparr>role_permissions := [\<lparr>rp_role_id = 7, rp_permission_id = 1\<rparr>]\<rparr>"
  have scan: "uuid_scan (text_env (\<lambda>_. 0) (\<lambda>_. 0)) (uuid_text 7) = Some 7"
    by (simp add: text_env_def uuid_read_text)
  have rel: "relationToName ''can_kick'' = Some ''KICK_MEMBERS''"
    using kick_catalogued by (simp only: relationToName_Some)
  have ok: "Authz_GrantRolePermission (text_env (\<lambda>_. 0) (\<lambda>_. 0)) (uuid_text 7) [] ''can_kick'' role_world = (Inr (), w1)"
    unfolding Authz_GrantRolePermission_def parseUUID_def scan rel w1_def
    by (simp add: permission_ids_def insert_grants_def role_world_def empty_world_def role_row_def)
  from GrantRolePermission_role_names [OF _ scan kick_catalogued role_world_facts(2,1) ok, of 5 1]
  show ?thesis by (simp add: ok role_world_facts)
qed

theorem RevokeRolePermission_role_names_witness:
  "\<forall>n. n \<notin> role_names (snd (Authz_RevokeRolePermission (text_env (\<lambda>_. 0) (\<lambda>_. 0)) (uuid_text 7) []
     ''can_kick'' (role_world\<lparr>role_permissions := [\<lparr>rp_role_id = 7, rp_permission_id = 1\<rparr>]\<rparr>))) 5 1"
proof
  fix n
  let ?w = "role_world\<lparr>role_permissions := [\<lparr>rp_role_id = 7, rp_permission_id = 1\<rparr>]\<rparr>"
  have scan: "uuid_scan (text_env (\<lambda>_. 0) (\<lambda>_. 0)) (uuid_text 7) = Some 7"
    by (simp add: text_env_def uuid_read_text)
  have rel: "relationToName ''can_kick'' = Some ''KICK_MEMBERS''"
    using kick_catalogued by (simp only: relationToName_Some)
  have u: "permissions_unique ?w"
    by (simp add: permissions_unique_def role_world_def empty_world_def)
  have ok: "Authz_RevokeRolePermission (text_env (\<lambda>_. 0) (\<lambda>_. 0)) (uuid_text 7) [] ''can_kick'' ?w = (Inr (), role_world)"
    unfolding Authz_RevokeRolePermission_def parseUUID_def scan rel
    by (simp add: permission_ids_def delete_where_def role_world_def empty_world_def)
  from RevokeRolePermission_role_names [OF _ scan kick_catalogued u ok, of n 5 1]
  show "n \<notin> role_names (snd (Authz_RevokeRolePermission (text_env (\<lambda>_. 0) (\<lambda>_. 0)) (uuid_text 7) [] ''can_kick'' ?w)) 5 1"
    unfolding ok snd_conv by (auto simp: granted_names_def role_world_def empty_world_def)
qed

section \<open>Editing overrides\<close>

definition has_overwrite ::
    "ChannelPermissionOverwrite list \<Rightarrow> uuid \<times> string \<times> uuid \<times> int \<Rightarrow> string \<Rightarrow> bool" where
  "has_overwrite t k x \<longleftrightarrow> (\<exists>ov\<in>set t. overwrite_key ov = k \<and> o_effect ov = x)"

definition put_overwrite ::
    "uuid \<times> string \<times> uuid \<times> int \<Rightarrow> string \<Rightarrow> ChannelPermissionOverwrite list \<Rightarrow>
     ChannelPermissionOverwrite list" where
  "put_overwrite k x t = (case k of (ch, tt, tid, pid) \<Rightarrow> set_overwrites ch tt tid [pid] x t)"

definition del_overwrite ::
    "uuid \<times> string \<times> uuid \<times> int \<Rightarrow> ChannelPermissionOverwrite list \<Rightarrow>
     ChannelPermissionOverwrite list" where
  "del_overwrite k t = delete_where (\<lambda>ov. overwrite_key ov = k) t"

interpretation ov: keyed_table has_overwrite put_overwrite del_overwrite
proof
  fix k k' :: "uuid \<times> string \<times> uuid \<times> int" and v v' and t :: "ChannelPermissionOverwrite list"
  obtain ch tt tid pid where k: "k = (ch, tt, tid, pid)" by (cases k)
  show "has_overwrite (put_overwrite k v t) k' v' \<longleftrightarrow> (if k' = k then v' = v else has_overwrite t k' v')"
    unfolding has_overwrite_def put_overwrite_def set_overwrites_def k prod.case fold_simps comp_apply id_apply
    by (rule held_upsert_key) (simp_all add: overwrite_key_def)
  show "has_overwrite (del_overwrite k t) k' v' \<longleftrightarrow> k' \<noteq> k \<and> has_overwrite t k' v'"
    by (auto simp: del_overwrite_def has_overwrite_def)
qed

lemma set_overwrites_fold:
  "set_overwrites ch tt tid pids x t = fold (\<lambda>k. put_overwrite k x) (map (\<lambda>pid. (ch, tt, tid, pid)) pids) t"
  unfolding set_overwrites_def put_overwrite_def fold_map by (simp add: comp_def)

lemma override_on_has:
  "override_on w c tt tid name x \<longleftrightarrow>
     (\<exists>p\<in>set (permissions w). p_name p = name \<and> has_overwrite (overwrites w) (c, tt, tid, p_id p) x)"
    (is "?l \<longleftrightarrow> ?r")
proof
  assume ?l
  then obtain ov p where "ov \<in> set (overwrites w)" "p \<in> set (permissions w)" "p_id p = o_permission_id ov"
    "p_name p = name" "(c, tt, tid) = (o_channel_id ov, o_target_type ov, o_target_id ov)" "o_effect ov = x"
    unfolding override_on_def by blast
  then show ?r by (intro bexI [of _ p]) (auto simp: has_overwrite_def overwrite_key_def)
next
  assume ?r
  then obtain ov p where "ov \<in> set (overwrites w)" "p \<in> set (permissions w)" "p_name p = name"
    "overwrite_key ov = (c, tt, tid, p_id p)" "o_effect ov = x"
    unfolding has_overwrite_def by blast
  then show ?l unfolding override_on_def by (intro bexI [of _ ov]) (auto simp: overwrite_key_def)
qed

lemma override_on_set:
  assumes "permissions_unique w" and "name \<in> p_name ` set (permissions w)"
  shows "override_on (w\<lparr>overwrites := set_overwrites c tt tid (permission_ids w name) x (overwrites w)\<rparr>) c' tt' tid' n' x'
    \<longleftrightarrow> (if (c', tt', tid', n') = (c, tt, tid, name) then x' = x else override_on w c' tt' tid' n' x')"
  using assms(2) permission_ids_name [OF assms(1)]
  by (auto simp: override_on_has set_overwrites_fold ov.has_put_fold)

lemma has_overwrite_delete:
  "has_overwrite (delete_where (\<lambda>ov. o_channel_id ov = c \<and> o_target_type ov = tt \<and> o_target_id ov = tid \<and>
      o_permission_id ov \<in> P) t) (c', tt', tid', pid) x
    \<longleftrightarrow> \<not> (c' = c \<and> tt' = tt \<and> tid' = tid \<and> pid \<in> P) \<and> has_overwrite t (c', tt', tid', pid) x"
  by (auto simp: has_overwrite_def overwrite_key_def)

lemma override_on_delete:
  assumes "permissions_unique w"
  shows "override_on (w\<lparr>overwrites := delete_where (\<lambda>ov. o_channel_id ov = c \<and> o_target_type ov = tt \<and>
      o_target_id ov = tid \<and> o_permission_id ov \<in> set (permission_ids w name)) (overwrites w)\<rparr>) c' tt' tid' n' x'
    \<longleftrightarrow> (c', tt', tid', n') \<noteq> (c, tt, tid, name) \<and> override_on w c' tt' tid' n' x'"
  using permission_ids_name [OF assms]
  by (auto simp: override_on_has has_overwrite_delete)

lemma SetChannelOverride_ok:
  assumes "Authz_SetChannelOverride e cs tt ts rel x w = (Inr (), w1)" and "\<not> authz_nil e"
  shows "\<exists>name c t. relationToName rel = Some name \<and> uuid_scan e cs = Some c \<and> uuid_scan e ts = Some t \<and>
    (tt = ''role'' \<or> tt = ''user'') \<and> (x = ''allow'' \<or> x = ''deny'') \<and>
    w1 = w\<lparr>overwrites := set_overwrites c tt t (permission_ids w name) x (overwrites w)\<rparr>"
  using assms
  by (auto simp: Authz_SetChannelOverride_def parseUUID_def run_stmt_def split: option.splits if_splits)

lemma DeleteChannelOverride_ok:
  assumes "Authz_DeleteChannelOverride e cs tt ts rel w = (Inr (), w1)" and "\<not> authz_nil e"
  shows "\<exists>name c t. relationToName rel = Some name \<and> uuid_scan e cs = Some c \<and> uuid_scan e ts = Some t \<and>
    w1 = w\<lparr>overwrites := delete_where (\<lambda>ov. o_channel_id ov = c \<and> o_target_type ov = tt \<and>
      o_target_id ov = t \<and> o_permission_id ov \<in> set (permission_ids w name)) (overwrites w)\<rparr>"
  using assms
  by (auto simp: Authz_DeleteChannelOverride_def parseUUID_def run_stmt_def split: option.splits if_splits)

lemma valid_overwrites_set:
  assumes "tt = ''role'' \<or> tt = ''user''" "x = ''allow'' \<or> x = ''deny''" and "valid_overwrites w"
  shows "valid_overwrites (w\<lparr>overwrites := set_overwrites c tt t pids x (overwrites w)\<rparr>)"
proof -
  define P where "P ov \<longleftrightarrow> (o_target_type ov = ''role'' \<or> o_target_type ov = ''user'') \<and>
    (o_effect ov = ''allow'' \<or> o_effect ov = ''deny'')" for ov :: ChannelPermissionOverwrite
  have step: "\<forall>ov\<in>set (upsert q (\<lambda>ov. ov\<lparr>o_effect := x\<rparr>) \<lparr>o_channel_id = c, o_target_type = tt,
      o_target_id = t, o_permission_id = pid, o_effect = x\<rparr> os). P ov"
    if "\<forall>ov\<in>set os. P ov" for os q pid
    using that assms(1,2) unfolding in_set_upsert Ball_def by (auto simp: P_def split: if_splits)
  have "\<forall>ov\<in>set (set_overwrites c tt t pids x os). P ov" if "\<forall>ov\<in>set os. P ov" for os
    using that unfolding set_overwrites_def
  proof (induction pids arbitrary: os)
    case (Cons pid pids)
    show ?case unfolding fold_simps comp_apply by (rule Cons.IH) (rule step [OF Cons.prems])
  qed simp
  moreover have valid: "valid_overwrites v \<longleftrightarrow> (\<forall>ov\<in>set (overwrites v). P ov)" for v
    unfolding valid_overwrites_def P_def by (rule refl)
  ultimately show ?thesis using assms(3) unfolding valid by simp
qed

lemma SetChannelOverride_override_on_eq:
  assumes "\<not> authz_nil e" and "uuid_scan e channelID = Some c" and "uuid_scan e targetID = Some t"
    and "(name, rel) \<in> set PermissionRelation" and "name \<in> p_name ` set (permissions w)"
    and "permissions_unique w"
    and ok: "Authz_SetChannelOverride e channelID tt targetID rel effect w = (Inr (), w1)"
  shows "(override_on w1 c' tt' t' n' x \<longleftrightarrow>
      (if (c', tt', t', n') = (c, tt, t, name) then x = effect else override_on w c' tt' t' n' x)) \<and>
    (valid_overwrites w \<longrightarrow> valid_overwrites w1)"
proof -
  have "relationToName rel = Some name" using assms(4) by (simp add: relationToName_Some)
  with SetChannelOverride_ok [OF ok assms(1)] assms(2,3)
  have w1: "w1 = w\<lparr>overwrites := set_overwrites c tt t (permission_ids w name) effect (overwrites w)\<rparr>"
    and args: "tt = ''role'' \<or> tt = ''user''" "effect = ''allow'' \<or> effect = ''deny''" by auto
  have "valid_overwrites w1" if "valid_overwrites w"
    unfolding w1 by (rule valid_overwrites_set [OF args that])
  then show ?thesis unfolding w1 override_on_set [OF assms(6,5)] by blast
qed

text \<open>
  Setting an override. When it succeeds, the target has on the channel exactly the effect that was
  set for the permission, whatever it had before, every other override is as it was, and the
  table still holds valid rows only.
\<close>

theorem SetChannelOverride_override_on:
  assumes "\<not> authz_nil e" and "uuid_scan e channelID = Some c" and "uuid_scan e targetID = Some t"
    and "(name, rel) \<in> set PermissionRelation" and "name \<in> p_name ` set (permissions w)"
    and "permissions_unique w"
    and ok: "Authz_SetChannelOverride e channelID tt targetID rel effect w = (Inr (), w1)"
  shows "(override_on w1 c' tt' t' n' x \<longleftrightarrow>
      (if (c', tt', t', n') = (c, tt, t, name) then x = effect else override_on w c' tt' t' n' x)) \<and>
    (valid_overwrites w \<longrightarrow> valid_overwrites w1)"
  using assms by (rule SetChannelOverride_override_on_eq)

text \<open>
  Deleting an override. When it succeeds the target has no override for the permission on the
  channel and every other override is as it was, so deleting undoes a set on a target that had
  none.
\<close>

theorem DeleteChannelOverride_override_on:
  assumes "\<not> authz_nil e" and "uuid_scan e channelID = Some c" and "uuid_scan e targetID = Some t"
    and "(name, rel) \<in> set PermissionRelation" and "permissions_unique w"
    and ok: "Authz_DeleteChannelOverride e channelID tt targetID rel w = (Inr (), w1)"
  shows "override_on w1 c' tt' t' n' x \<longleftrightarrow>
    (c', tt', t', n') \<noteq> (c, tt, t, name) \<and> override_on w c' tt' t' n' x"
proof -
  have "relationToName rel = Some name" using assms(4) by (simp add: relationToName_Some)
  with DeleteChannelOverride_ok [OF ok assms(1)] assms(2,3)
  have w1: "w1 = w\<lparr>overwrites := delete_where (\<lambda>ov. o_channel_id ov = c \<and> o_target_type ov = tt \<and>
      o_target_id ov = t \<and> o_permission_id ov \<in> set (permission_ids w name)) (overwrites w)\<rparr>" by auto
  show ?thesis unfolding w1 by (rule override_on_delete [OF assms(5)])
qed

lemma send_catalogued: "(''SEND_MESSAGES'', ''can_send_messages'') \<in> set PermissionRelation"
  by (simp add: PermissionRelation_def)

lemma chan_world_facts:
  "permissions_unique chan_world" "''SEND_MESSAGES'' \<in> p_name ` set (permissions chan_world)"
  "permission_ids chan_world ''SEND_MESSAGES'' = [1]" "channel_row chan_world 2"
  by (simp_all add: chan_world_def empty_world_def permissions_unique_def permission_ids_def channel_row_def)

lemma text_scan: "uuid_scan (text_env ids now) (uuid_text u) = Some u"
  by (simp add: text_env_def uuid_read_text)

theorem SetChannelOverride_override_on_witness:
  "override_on (snd (Authz_SetChannelOverride (text_env (\<lambda>_. 0) (\<lambda>_. 0)) (uuid_text 2) ''user'' (uuid_text 5)
     ''can_send_messages'' ''allow'' chan_world)) 2 ''user'' 5 ''SEND_MESSAGES'' ''allow''"
proof -
  have rel: "relationToName ''can_send_messages'' = Some ''SEND_MESSAGES''"
    using send_catalogued by (simp only: relationToName_Some)
  have ok: "Authz_SetChannelOverride (text_env (\<lambda>_. 0) (\<lambda>_. 0)) (uuid_text 2) ''user'' (uuid_text 5)
      ''can_send_messages'' ''allow'' chan_world =
      (Inr (), chan_world\<lparr>overwrites := set_overwrites 2 ''user'' 5 [1] ''allow'' (overwrites chan_world)\<rparr>)"
    unfolding Authz_SetChannelOverride_def parseUUID_def text_scan rel
    by (simp add: chan_world_facts)
  from SetChannelOverride_override_on [OF _ text_scan text_scan send_catalogued chan_world_facts(2,1) ok]
  show ?thesis unfolding ok by simp
qed

theorem DeleteChannelOverride_override_on_witness:
  "\<not> override_on (snd (Authz_DeleteChannelOverride (text_env (\<lambda>_. 0) (\<lambda>_. 0)) (uuid_text 2) ''user'' (uuid_text 5)
     ''can_send_messages'' chan_world)) 2 ''user'' 5 ''SEND_MESSAGES'' ''deny''"
proof -
  have rel: "relationToName ''can_send_messages'' = Some ''SEND_MESSAGES''"
    using send_catalogued by (simp only: relationToName_Some)
  obtain w1 where ok: "Authz_DeleteChannelOverride (text_env (\<lambda>_. 0) (\<lambda>_. 0)) (uuid_text 2) ''user'' (uuid_text 5)
      ''can_send_messages'' chan_world = (Inr (), w1)"
    unfolding Authz_DeleteChannelOverride_def parseUUID_def text_scan rel by simp
  from DeleteChannelOverride_override_on [OF _ text_scan text_scan send_catalogued chan_world_facts(1) ok]
  show ?thesis unfolding ok by simp
qed

end
