(* ===== verification/Guild.thy ===== *)
theory Guild
  imports AuthzLaws
begin

text \<open>
  The guild service, internal/features/guild/service.go: guild life cycle, membership, bans,
  invites, roles and permission grants. Each handler takes the environment and its arguments and
  returns the error or result of the Go method with the state after it, including the events
  published. Statements are numbered in the order in which a handler issues them.
\<close>

section \<open>Errors and events\<close>

text \<open>
  The sentinel errors of guild/model.go, and the wrapped errors the service builds with
  fmt.Errorf (GuildFailed and GuildAuthzFailed carry the message prefix).
\<close>

datatype guild_error =
    ErrGuildNotFound | ErrNotGuildOwner | ErrNotGuildMember | ErrAlreadyMember | ErrOwnerCannotLeave
  | ErrUserBanned | ErrUserNotBanned | ErrInviteNotFound | ErrInviteExpired | ErrInviteMaxUses
  | ErrRoleNotFound | ErrMemberNotFound | ErrCannotKickOwner | ErrCannotBanOwner
  | ErrInsufficientPermissions | ErrInvalidPermission
  | GuildFailed string dberr | GuildAuthzFailed string azerr | GuildDb dberr
  | StorageNotConfigured | EmptyFile | FileTooLarge nat | UnsupportedContentType string
  | UploadFailed string | RandomFailed

text \<open>pgToStr.\<close>

definition pgToStr :: "env \<Rightarrow> uuid \<Rightarrow> string" where
  "pgToStr e u = uuid_string e u"

definition set_guild_extra :: "string \<times> string \<Rightarrow> GuildEvent \<Rightarrow> GuildEvent" where
  "set_guild_extra kv evt =
     (case kv of (k, v) \<Rightarrow>
        if k = ''user_id'' then evt\<lparr>ge_UserId := v\<rparr>
        else if k = ''channel_id'' then evt\<lparr>ge_ChannelId := v\<rparr>
        else if k = ''name'' then evt\<lparr>ge_Name := v\<rparr>
        else if k = ''icon_url'' then evt\<lparr>ge_IconUrl := v\<rparr>
        else if k = ''banner_url'' then evt\<lparr>ge_BannerUrl := v\<rparr>
        else if k = ''role_id'' then evt\<lparr>ge_RoleId := v\<rparr>
        else if k = ''reason'' then evt\<lparr>ge_Reason := v\<rparr>
        else if k = ''parent_id'' then evt\<lparr>ge_ParentId := v\<rparr>
        else if k = ''topic'' then evt\<lparr>ge_Topic := v\<rparr>
        else evt)"

definition publishGuildEvent ::
    "env \<Rightarrow> uuid \<Rightarrow> GuildEventType \<Rightarrow> (string \<times> string) list \<Rightarrow> world \<Rightarrow> world" where
  "publishGuildEvent e guildID action extra w =
     (let gid = pgToStr e guildID in
      Publish (GuildEvents gid) (GuildEvt (fold set_guild_extra extra (guild_event action gid))) w)"

definition publishRoleEvent ::
    "env \<Rightarrow> uuid \<Rightarrow> GuildEventType \<Rightarrow> Role \<Rightarrow> (string \<times> string) list \<Rightarrow> world \<Rightarrow> world" where
  "publishRoleEvent e guildID action role extra w =
     (let gid = pgToStr e guildID;
          perms = (case ListRolePermissions e (pgToStr e (r_id role)) w of Inl _ \<Rightarrow> [] | Inr ps \<Rightarrow> ps);
          evt = (guild_event action gid)\<lparr>ge_RoleId := pgToStr e (r_id role), ge_RoleName := r_name role,
                  ge_RoleColor := r_color role, ge_RolePosition := r_position role,
                  ge_RolePermissions := perms\<rparr>
      in Publish (GuildEvents gid)
           (GuildEvt (fold (\<lambda>(k, v) evt. if k = ''user_id'' then evt\<lparr>ge_UserId := v\<rparr>
                              else if k = ''reason'' then evt\<lparr>ge_Reason := v\<rparr> else evt) extra evt)) w)"

section \<open>The @everyone role\<close>

definition ensureEveryoneRole :: "env \<Rightarrow> uuid \<Rightarrow> uuid \<Rightarrow> world \<Rightarrow> (guild_error + unit) \<times> world" where
  "ensureEveryoneRole e guildID userID w =
     (case (case q_GetEveryoneRole (at e 0) guildID w of
              Inr role \<Rightarrow> Inr (role, w)
            | Inl _ \<Rightarrow> q_CreateRole (at e 1) guildID ''@everyone'' [] 0 w) of
        Inl x \<Rightarrow> (Inl (GuildFailed ''create @everyone role'' x), w)
      | Inr (role, w1) \<Rightarrow>
          (Inr (), keep_on_error w1 (q_AssignRole (at e 2) (r_id role) userID w1)))"

definition assignEveryoneRole :: "env \<Rightarrow> uuid \<Rightarrow> uuid \<Rightarrow> world \<Rightarrow> world" where
  "assignEveryoneRole e guildID userID w =
     (case q_GetEveryoneRole (at e 0) guildID w of
        Inl _ \<Rightarrow> snd (ensureEveryoneRole (at e 1) guildID userID w)
      | Inr role \<Rightarrow>
          (let w1 = keep_on_error w (q_AssignRole (at e 2) (r_id role) userID w) in
           snd (AddUserToRole (at e 3) (pgToStr e userID) (pgToStr e (r_id role)) w1)))"

definition removeEveryoneRole :: "env \<Rightarrow> uuid \<Rightarrow> uuid \<Rightarrow> world \<Rightarrow> world" where
  "removeEveryoneRole e guildID userID w =
     (case q_GetEveryoneRole (at e 0) guildID w of
        Inl _ \<Rightarrow> w
      | Inr role \<Rightarrow>
          (let w1 = keep_on_error w (q_RemoveRole (at e 1) (r_id role) userID w) in
           snd (RemoveUserFromRole (at e 2) (pgToStr e userID) (pgToStr e (r_id role)) w1)))"


section \<open>Guild life cycle\<close>

definition CreateGuild ::
    "env \<Rightarrow> uuid \<Rightarrow> string \<Rightarrow> string \<Rightarrow> string \<Rightarrow> world \<Rightarrow> (guild_error + Guild) \<times> world" where
  "CreateGuild e ownerID name description iconURL w =
     (case q_CreateGuild (at e 0) name description iconURL ownerID w of
        Inl x \<Rightarrow> (Inl (GuildFailed ''failed to create guild'' x), w)
      | Inr (guild, w1) \<Rightarrow>
          (case q_AddGuildMember (at e 1) (g_id guild) ownerID [] None None w1 of
             Inl x \<Rightarrow> (Inl (GuildFailed ''failed to add owner as member'' x), w1)
           | Inr w2 \<Rightarrow>
               (let w3 = snd (ensureEveryoneRole (at e 2) (g_id guild) ownerID w2) in
                (Inr guild, publishGuildEvent (at e 3) (g_id guild) GUILD_EVENT_MEMBER_ADD
                   [(''user_id'', pgToStr e ownerID), (''name'', name)] w3))))"

definition GetGuild :: "env \<Rightarrow> uuid \<Rightarrow> world \<Rightarrow> guild_error + (Guild \<times> nat)" where
  "GetGuild e guildID w =
     (case q_GetGuildByID (at e 0) guildID w of
        Inl _ \<Rightarrow> Inl ErrGuildNotFound
      | Inr guild \<Rightarrow>
          (case q_CountGuildMembers (at e 1) guildID w of
             Inl x \<Rightarrow> Inl (GuildFailed ''failed to count members'' x)
           | Inr cnt \<Rightarrow> Inr (guild, cnt)))"

definition UpdateGuild ::
    "env \<Rightarrow> uuid \<Rightarrow> uuid \<Rightarrow> UpdateGuildParams \<Rightarrow> world \<Rightarrow> (guild_error + Guild) \<times> world" where
  "UpdateGuild e callerID guildID params w =
     (if \<not> CanManageGuild (at e 0) (pgToStr e callerID) (pgToStr e guildID) w
      then (Inl ErrInsufficientPermissions, w)
      else case q_UpdateGuild (at e 1) guildID params w of
        Inl x \<Rightarrow> (Inl (GuildFailed ''failed to update guild'' x), w)
      | Inr (updated, w1) \<Rightarrow>
          (Inr updated, publishGuildEvent (at e 2) guildID GUILD_EVENT_UPDATE [(''name'', g_name updated)] w1))"

definition DeleteGuild :: "env \<Rightarrow> uuid \<Rightarrow> uuid \<Rightarrow> world \<Rightarrow> (guild_error + unit) \<times> world" where
  "DeleteGuild e callerID guildID w =
     (case q_GetGuildByID (at e 0) guildID w of
        Inl _ \<Rightarrow> (Inl ErrGuildNotFound, w)
      | Inr guild \<Rightarrow>
          if g_owner_id guild \<noteq> callerID then (Inl ErrNotGuildOwner, w)
          else (case q_DeleteGuild (at e 1) guildID w of
             Inl x \<Rightarrow> (Inl (GuildFailed ''failed to delete guild'' x), w)
           | Inr w1 \<Rightarrow> (Inr (), publishGuildEvent (at e 2) guildID GUILD_EVENT_DELETE [] w1)))"

definition ListUserGuilds :: "env \<Rightarrow> uuid \<Rightarrow> world \<Rightarrow> guild_error + Guild list" where
  "ListUserGuilds e userID w =
     (case q_ListUserGuilds e userID w of
        Inl x \<Rightarrow> Inl (GuildFailed ''failed to list guilds'' x)
      | Inr gs \<Rightarrow> Inr gs)"

section \<open>Icons and banners in object storage\<close>

text \<open>
  The object store: whether the client is configured, whether an upload of a key succeeds, and
  the presigner (absent when the signer is nil; a key for which it fails gives None).
\<close>

record guild_storage =
  gs_minio :: bool
  gs_put :: "string \<Rightarrow> bool"
  gs_signer :: "(string \<Rightarrow> string option) option"

definition resolveGuildAssetURL :: "guild_storage \<Rightarrow> string \<Rightarrow> string" where
  "resolveGuildAssetURL st key =
     (if key = [] then []
      else if 7 \<le> length key \<and> (take 7 key = ''http://'' \<or> (8 \<le> length key \<and> take 8 key = ''https://''))
      then key
      else case gs_signer st of
        None \<Rightarrow> []
      | Some sign \<Rightarrow> (case sign key of None \<Rightarrow> [] | Some u \<Rightarrow> u))"

definition ResolveIconURL :: "guild_storage \<Rightarrow> string \<Rightarrow> string" where
  "ResolveIconURL st key = resolveGuildAssetURL st key"

definition ResolveBannerURL :: "guild_storage \<Rightarrow> string \<Rightarrow> string" where
  "ResolveBannerURL st key = resolveGuildAssetURL st key"

definition maxGuildIconSize :: nat where
  "maxGuildIconSize = 5 * 1024 * 1024"

definition maxGuildBannerSize :: nat where
  "maxGuildBannerSize = 10 * 1024 * 1024"

definition allowedIconContentTypes :: "string list" where
  "allowedIconContentTypes = [''image/jpeg'', ''image/png'', ''image/gif'', ''image/webp'']"

text \<open>The uploaded bytes enter only through their number.\<close>

definition UploadGuildIcon ::
    "env \<Rightarrow> guild_storage \<Rightarrow> uuid \<Rightarrow> uuid \<Rightarrow> string \<Rightarrow> string \<Rightarrow> nat \<Rightarrow> world \<Rightarrow>
     (guild_error + (Guild \<times> string)) \<times> world" where
  "UploadGuildIcon e st callerID guildID filename contentType nbytes w =
     (if \<not> gs_minio st then (Inl StorageNotConfigured, w)
      else if \<not> CanManageGuild (at e 0) (pgToStr e callerID) (pgToStr e guildID) w
      then (Inl ErrInsufficientPermissions, w)
      else if nbytes = 0 then (Inl EmptyFile, w)
      else if maxGuildIconSize < nbytes then (Inl (FileTooLarge maxGuildIconSize), w)
      else if contentType \<notin> set allowedIconContentTypes then (Inl (UnsupportedContentType contentType), w)
      else let objectKey = ''guilds/'' @ pgToStr e guildID @ ''/icon_'' @ uuid_string e (fresh e [1]) @ ''_'' @ filename
        in if \<not> gs_put st objectKey then (Inl (UploadFailed ''failed to upload icon''), w)
           else case q_UpdateGuild (at e 2) guildID
                  \<lparr>ug_Name = None, ug_Description = None, ug_IconUrl = Some objectKey, ug_BannerUrl = None\<rparr> w of
             Inl x \<Rightarrow> (Inl (GuildFailed ''failed to update guild icon'' x), w)
           | Inr (updated, w1) \<Rightarrow>
               (let iconURL = ResolveIconURL st objectKey in
                (Inr (updated, iconURL),
                 publishGuildEvent (at e 3) guildID GUILD_EVENT_UPDATE [(''icon_url'', iconURL)] w1)))"

definition UploadGuildBanner ::
    "env \<Rightarrow> guild_storage \<Rightarrow> uuid \<Rightarrow> uuid \<Rightarrow> string \<Rightarrow> string \<Rightarrow> nat \<Rightarrow> world \<Rightarrow>
     (guild_error + (Guild \<times> string)) \<times> world" where
  "UploadGuildBanner e st callerID guildID filename contentType nbytes w =
     (if \<not> gs_minio st then (Inl StorageNotConfigured, w)
      else if \<not> CanManageGuild (at e 0) (pgToStr e callerID) (pgToStr e guildID) w
      then (Inl ErrInsufficientPermissions, w)
      else if nbytes = 0 then (Inl EmptyFile, w)
      else if maxGuildBannerSize < nbytes then (Inl (FileTooLarge maxGuildBannerSize), w)
      else if contentType \<notin> set allowedIconContentTypes then (Inl (UnsupportedContentType contentType), w)
      else let objectKey = ''guilds/'' @ pgToStr e guildID @ ''/banner_'' @ uuid_string e (fresh e [1]) @ ''_'' @ filename
        in if \<not> gs_put st objectKey then (Inl (UploadFailed ''failed to upload banner''), w)
           else case q_UpdateGuild (at e 2) guildID
                  \<lparr>ug_Name = None, ug_Description = None, ug_IconUrl = None, ug_BannerUrl = Some objectKey\<rparr> w of
             Inl x \<Rightarrow> (Inl (GuildFailed ''failed to update guild banner'' x), w)
           | Inr (updated, w1) \<Rightarrow>
               (let bannerURL = ResolveBannerURL st objectKey in
                (Inr (updated, bannerURL),
                 publishGuildEvent (at e 3) guildID GUILD_EVENT_UPDATE [(''banner_url'', bannerURL)] w1)))"


section \<open>Invites\<close>

definition BuildInviteURL :: "string \<Rightarrow> string \<Rightarrow> string" where
  "BuildInviteURL inviteBaseURL code =
     (if inviteBaseURL = [] \<or> code = [] then [] else inviteBaseURL @ ''/'' @ code)"

text \<open>The checks on an invite that joining and previewing share.\<close>

definition invite_refusal :: "time \<Rightarrow> Invite \<Rightarrow> guild_error option" where
  "invite_refusal now invite =
     (if (case i_expires_at invite of None \<Rightarrow> False | Some t \<Rightarrow> t < now) then Some ErrInviteExpired
      else if 0 < i_max_uses invite \<and> i_max_uses invite \<le> i_uses invite then Some ErrInviteMaxUses
      else None)"

record JoinGuildResult =
  jr_Guild :: Guild
  jr_Channels :: "Channel list"
  jr_MemberCount :: nat

record PreviewInviteResult =
  pv_Invite :: Invite
  pv_Guild :: Guild
  pv_MemberCount :: nat
  pv_ChannelCount :: int
  pv_InviterUsername :: string
  pv_AlreadyMember :: bool

definition PreviewInvite ::
    "env \<Rightarrow> uuid option \<Rightarrow> string \<Rightarrow> world \<Rightarrow> guild_error + PreviewInviteResult" where
  "PreviewInvite e callerID inviteCode w =
     (case q_GetInvite (at e 0) inviteCode w of
        Inl _ \<Rightarrow> Inl ErrInviteNotFound
      | Inr invite \<Rightarrow>
          (case invite_refusal (clock e [1]) invite of
             Some err \<Rightarrow> Inl err
           | None \<Rightarrow>
               if (case callerID of None \<Rightarrow> False
                   | Some u \<Rightarrow> is_ok (q_GetBan (at e 2) (i_guild_id invite) u w)) then Inl ErrUserBanned
               else (case q_GetGuildByID (at e 3) (i_guild_id invite) w of
                  Inl _ \<Rightarrow> Inl ErrGuildNotFound
                | Inr guild \<Rightarrow>
                    (case q_CountGuildMembers (at e 4) (i_guild_id invite) w of
                       Inl x \<Rightarrow> Inl (GuildFailed ''failed to count members'' x)
                     | Inr memberCount \<Rightarrow>
                         (case q_ListGuildChannels (at e 5) (i_guild_id invite) w of
                            Inl x \<Rightarrow> Inl (GuildFailed ''failed to list channels'' x)
                          | Inr chans \<Rightarrow>
                              Inr \<lparr>pv_Invite = invite, pv_Guild = guild, pv_MemberCount = memberCount,
                                   pv_ChannelCount = int32 (int (length chans)),
                                   pv_InviterUsername =
                                     (case q_GetUserByID (at e 6) (i_creator_id invite) w of
                                        Inl _ \<Rightarrow> [] | Inr u \<Rightarrow> u_username u),
                                   pv_AlreadyMember =
                                     (case callerID of None \<Rightarrow> False
                                      | Some u \<Rightarrow> is_ok (q_GetGuildMember (at e 7) (i_guild_id invite) u w))\<rparr>)))))"

definition buildJoinResult :: "env \<Rightarrow> uuid \<Rightarrow> world \<Rightarrow> guild_error + JoinGuildResult" where
  "buildJoinResult e guildID w =
     (case q_GetGuildByID (at e 0) guildID w of
        Inl x \<Rightarrow> Inl (GuildFailed ''failed to get guild'' x)
      | Inr guild \<Rightarrow>
          (case q_ListGuildChannels (at e 1) guildID w of
             Inl x \<Rightarrow> Inl (GuildFailed ''failed to list channels'' x)
           | Inr chans \<Rightarrow>
               (case q_CountGuildMembers (at e 2) guildID w of
                  Inl x \<Rightarrow> Inl (GuildFailed ''failed to count members'' x)
                | Inr memberCount \<Rightarrow>
                    Inr \<lparr>jr_Guild = guild, jr_Channels = chans, jr_MemberCount = memberCount\<rparr>)))"

definition JoinGuild ::
    "env \<Rightarrow> uuid \<Rightarrow> string \<Rightarrow> world \<Rightarrow> (guild_error + JoinGuildResult) \<times> world" where
  "JoinGuild e userID inviteCode w =
     (case q_GetInvite (at e 0) inviteCode w of
        Inl _ \<Rightarrow> (Inl ErrInviteNotFound, w)
      | Inr invite \<Rightarrow>
          (case invite_refusal (clock e [1]) invite of
             Some err \<Rightarrow> (Inl err, w)
           | None \<Rightarrow>
               if is_ok (q_GetBan (at e 2) (i_guild_id invite) userID w) then (Inl ErrUserBanned, w)
               else if is_ok (q_GetGuildMember (at e 3) (i_guild_id invite) userID w)
               then (buildJoinResult (at e 4) (i_guild_id invite) w, w)
               else (case q_AddGuildMember (at e 5) (i_guild_id invite) userID [] (Some inviteCode)
                            (Some (i_creator_id invite)) w of
                  Inl x \<Rightarrow> (Inl (GuildFailed ''failed to add guild member'' x), w)
                | Inr w1 \<Rightarrow>
                    (let w2 = keep_on_error w1 (q_IncrementInviteUses (at e 6) inviteCode w1);
                         w3 = keep_on_error w2 (q_RecordInviteUse (at e 7) inviteCode (i_guild_id invite)
                                userID (i_creator_id invite) w2);
                         w4 = assignEveryoneRole (at e 8) (i_guild_id invite) userID w3;
                         w5 = publishGuildEvent (at e 9) (i_guild_id invite) GUILD_EVENT_MEMBER_ADD
                                [(''user_id'', pgToStr e userID)] w4
                     in (buildJoinResult (at e 10) (i_guild_id invite) w5, w5)))))"

text \<open>generateInviteCode: the hexadecimal text of four random bytes, absent when reading them fails.\<close>

definition generateInviteCode :: "32 word option \<Rightarrow> string option" where
  "generateInviteCode b = map_option (\<lambda>x. to_hex 8 (unat x)) b"

definition CreateInvite ::
    "env \<Rightarrow> 32 word option \<Rightarrow> uuid \<Rightarrow> uuid \<Rightarrow> uuid option \<Rightarrow> int \<Rightarrow> int \<Rightarrow> world \<Rightarrow>
     (guild_error + Invite) \<times> world" where
  "CreateInvite e rnd callerID guildID channelID maxUses maxAgeSeconds w =
     (if \<not> is_ok (q_GetGuildMember (at e 0) guildID callerID w) then (Inl ErrNotGuildMember, w)
      else if \<not> CanManageInvites (at e 1) (pgToStr e callerID) (pgToStr e guildID) w
      then (Inl ErrInsufficientPermissions, w)
      else case generateInviteCode rnd of
        None \<Rightarrow> (Inl RandomFailed, w)
      | Some code \<Rightarrow>
          (let expiresAt = (if 0 < maxAgeSeconds then Some (clock e [2] + maxAgeSeconds * 1000000000) else None) in
           case q_CreateInvite (at e 3) code guildID channelID callerID maxUses expiresAt w of
             Inl x \<Rightarrow> (Inl (GuildFailed ''failed to create invite'' x), w)
           | Inr (invite, w1) \<Rightarrow> (Inr invite, w1)))"

section \<open>Membership and bans\<close>

definition LeaveGuild :: "env \<Rightarrow> uuid \<Rightarrow> uuid \<Rightarrow> world \<Rightarrow> (guild_error + unit) \<times> world" where
  "LeaveGuild e userID guildID w =
     (case q_GetGuildByID (at e 0) guildID w of
        Inl _ \<Rightarrow> (Inl ErrGuildNotFound, w)
      | Inr guild \<Rightarrow>
          if g_owner_id guild = userID then (Inl ErrOwnerCannotLeave, w)
          else if \<not> is_ok (q_GetGuildMember (at e 1) guildID userID w) then (Inl ErrNotGuildMember, w)
          else (case q_RemoveGuildMember (at e 2) guildID userID w of
             Inl x \<Rightarrow> (Inl (GuildDb x), w)
           | Inr w1 \<Rightarrow>
               (let w2 = removeEveryoneRole (at e 3) guildID userID w1 in
                (Inr (), publishGuildEvent (at e 4) guildID GUILD_EVENT_MEMBER_REMOVE
                   [(''user_id'', pgToStr e userID)] w2))))"

definition ListMembers :: "env \<Rightarrow> uuid \<Rightarrow> int \<Rightarrow> int \<Rightarrow> world \<Rightarrow> dberr + GuildMember list" where
  "ListMembers e guildID limit offset w =
     q_ListGuildMembers e guildID (if limit \<le> 0 then 50 else limit) offset w"

definition KickMember :: "env \<Rightarrow> uuid \<Rightarrow> uuid \<Rightarrow> uuid \<Rightarrow> world \<Rightarrow> (guild_error + unit) \<times> world" where
  "KickMember e callerID guildID targetID w =
     (if \<not> CanKick (at e 0) (pgToStr e callerID) (pgToStr e guildID) w
      then (Inl ErrInsufficientPermissions, w)
      else if \<not> CanActOn (at e 1) (pgToStr e callerID) (pgToStr e targetID) (pgToStr e guildID) w
      then (Inl ErrInsufficientPermissions, w)
      else case q_GetGuildByID (at e 2) guildID w of
        Inl _ \<Rightarrow> (Inl ErrGuildNotFound, w)
      | Inr guild \<Rightarrow>
          if g_owner_id guild = targetID then (Inl ErrCannotKickOwner, w)
          else if \<not> is_ok (q_GetGuildMember (at e 3) guildID targetID w) then (Inl ErrMemberNotFound, w)
          else (case q_RemoveGuildMember (at e 4) guildID targetID w of
             Inl x \<Rightarrow> (Inl (GuildDb x), w)
           | Inr w1 \<Rightarrow>
               (let w2 = removeEveryoneRole (at e 5) guildID targetID w1 in
                (Inr (), publishGuildEvent (at e 6) guildID GUILD_EVENT_MEMBER_REMOVE
                   [(''user_id'', pgToStr e targetID)] w2))))"

definition BanMember ::
    "env \<Rightarrow> uuid \<Rightarrow> uuid \<Rightarrow> uuid \<Rightarrow> string \<Rightarrow> world \<Rightarrow> (guild_error + unit) \<times> world" where
  "BanMember e callerID guildID targetID reason w =
     (if \<not> CanBan (at e 0) (pgToStr e callerID) (pgToStr e guildID) w
      then (Inl ErrInsufficientPermissions, w)
      else if \<not> CanActOn (at e 1) (pgToStr e callerID) (pgToStr e targetID) (pgToStr e guildID) w
      then (Inl ErrInsufficientPermissions, w)
      else case q_GetGuildByID (at e 2) guildID w of
        Inl _ \<Rightarrow> (Inl ErrGuildNotFound, w)
      | Inr guild \<Rightarrow>
          if g_owner_id guild = targetID then (Inl ErrCannotBanOwner, w)
          else let w1 = keep_on_error w (q_RemoveGuildMember (at e 3) guildID targetID w) in
            (case q_CreateBan (at e 4) guildID targetID reason w1 of
               Inl x \<Rightarrow> (Inl (GuildFailed ''failed to create ban'' x), w1)
             | Inr w2 \<Rightarrow>
                 (let w3 = removeEveryoneRole (at e 5) guildID targetID w2 in
                  (Inr (), publishGuildEvent (at e 6) guildID GUILD_EVENT_MEMBER_BAN
                     [(''user_id'', pgToStr e targetID), (''reason'', reason)] w3))))"

definition UnbanMember :: "env \<Rightarrow> uuid \<Rightarrow> uuid \<Rightarrow> uuid \<Rightarrow> world \<Rightarrow> (guild_error + unit) \<times> world" where
  "UnbanMember e callerID guildID targetID w =
     (if \<not> CanBan (at e 0) (pgToStr e callerID) (pgToStr e guildID) w
      then (Inl ErrInsufficientPermissions, w)
      else if \<not> is_ok (q_GetBan (at e 1) guildID targetID w) then (Inl ErrUserNotBanned, w)
      else case q_DeleteBan (at e 2) guildID targetID w of
        Inl x \<Rightarrow> (Inl (GuildDb x), w)
      | Inr w1 \<Rightarrow>
          (Inr (), publishGuildEvent (at e 3) guildID GUILD_EVENT_MEMBER_UNBAN
             [(''user_id'', pgToStr e targetID)] w1))"

section \<open>Roles and grants\<close>

definition CreateRole ::
    "env \<Rightarrow> uuid \<Rightarrow> uuid \<Rightarrow> string \<Rightarrow> string \<Rightarrow> world \<Rightarrow> (guild_error + Role) \<times> world" where
  "CreateRole e callerID guildID name color w =
     (if \<not> CanManageRoles (at e 0) (pgToStr e callerID) (pgToStr e guildID) w
      then (Inl ErrInsufficientPermissions, w)
      else case q_ListGuildRoles (at e 1) guildID w of
        Inl x \<Rightarrow> (Inl (GuildFailed ''failed to list roles'' x), w)
      | Inr rs \<Rightarrow>
          (case q_CreateRole (at e 2) guildID name color (int32 (int (length rs))) w of
             Inl x \<Rightarrow> (Inl (GuildFailed ''failed to create role'' x), w)
           | Inr (role, w1) \<Rightarrow>
               (Inr role, publishRoleEvent (at e 3) guildID GUILD_EVENT_ROLE_CREATE role [] w1)))"

definition UpdateRole ::
    "env \<Rightarrow> uuid \<Rightarrow> uuid \<Rightarrow> UpdateRoleParams \<Rightarrow> world \<Rightarrow> (guild_error + Role) \<times> world" where
  "UpdateRole e callerID guildID params w =
     (if \<not> CanManageRoles (at e 0) (pgToStr e callerID) (pgToStr e guildID) w
      then (Inl ErrInsufficientPermissions, w)
      else case q_UpdateRole (at e 1) params w of
        Inl x \<Rightarrow> (Inl (GuildFailed ''failed to update role'' x), w)
      | Inr (role, w1) \<Rightarrow>
          (Inr role, publishRoleEvent (at e 2) guildID GUILD_EVENT_ROLE_UPDATE role [] w1))"

definition DeleteRole :: "env \<Rightarrow> uuid \<Rightarrow> uuid \<Rightarrow> uuid \<Rightarrow> world \<Rightarrow> (guild_error + unit) \<times> world" where
  "DeleteRole e callerID guildID roleID w =
     (if \<not> CanManageRoles (at e 0) (pgToStr e callerID) (pgToStr e guildID) w
      then (Inl ErrInsufficientPermissions, w)
      else case q_GetRoleByID (at e 1) roleID w of
        Inl _ \<Rightarrow> (Inl ErrRoleNotFound, w)
      | Inr role \<Rightarrow>
          (case q_DeleteRole (at e 2) roleID w of
             Inl x \<Rightarrow> (Inl (GuildDb x), w)
           | Inr w1 \<Rightarrow>
               (Inr (), publishRoleEvent (at e 3) guildID GUILD_EVENT_ROLE_DELETE role [] w1)))"

definition AssignRole ::
    "env \<Rightarrow> uuid \<Rightarrow> uuid \<Rightarrow> uuid \<Rightarrow> uuid \<Rightarrow> world \<Rightarrow> (guild_error + unit) \<times> world" where
  "AssignRole e callerID guildID targetID roleID w =
     (if \<not> CanManageRoles (at e 0) (pgToStr e callerID) (pgToStr e guildID) w
      then (Inl ErrInsufficientPermissions, w)
      else if \<not> is_ok (q_GetGuildMember (at e 1) guildID targetID w) then (Inl ErrMemberNotFound, w)
      else case q_GetRoleByID (at e 2) roleID w of
        Inl _ \<Rightarrow> (Inl ErrRoleNotFound, w)
      | Inr role \<Rightarrow>
          (case q_AssignRole (at e 3) roleID targetID w of
             Inl x \<Rightarrow> (Inl (GuildDb x), w)
           | Inr w1 \<Rightarrow>
               (let w2 = snd (AddUserToRole (at e 4) (pgToStr e targetID) (pgToStr e roleID) w1) in
                (Inr (), publishRoleEvent (at e 5) guildID GUILD_EVENT_ROLE_ASSIGN role
                   [(''user_id'', pgToStr e targetID)] w2))))"

definition RemoveRole ::
    "env \<Rightarrow> uuid \<Rightarrow> uuid \<Rightarrow> uuid \<Rightarrow> uuid \<Rightarrow> world \<Rightarrow> (guild_error + unit) \<times> world" where
  "RemoveRole e callerID guildID targetID roleID w =
     (if \<not> CanManageRoles (at e 0) (pgToStr e callerID) (pgToStr e guildID) w
      then (Inl ErrInsufficientPermissions, w)
      else case q_GetRoleByID (at e 1) roleID w of
        Inl _ \<Rightarrow> (Inl ErrRoleNotFound, w)
      | Inr role \<Rightarrow>
          (case q_RemoveRole (at e 2) roleID targetID w of
             Inl x \<Rightarrow> (Inl (GuildDb x), w)
           | Inr w1 \<Rightarrow>
               (let w2 = snd (RemoveUserFromRole (at e 3) (pgToStr e targetID) (pgToStr e roleID) w1) in
                (Inr (), publishRoleEvent (at e 4) guildID GUILD_EVENT_ROLE_REMOVE role
                   [(''user_id'', pgToStr e targetID)] w2))))"

definition GrantRolePermission ::
    "env \<Rightarrow> uuid \<Rightarrow> uuid \<Rightarrow> uuid \<Rightarrow> string \<Rightarrow> world \<Rightarrow> (guild_error + unit) \<times> world" where
  "GrantRolePermission e callerID guildID roleID permission w =
     (if \<not> CanManageRoles (at e 0) (pgToStr e callerID) (pgToStr e guildID) w
      then (Inl ErrInsufficientPermissions, w)
      else case map_of PermissionRelation permission of
        None \<Rightarrow> (Inl ErrInvalidPermission, w)
      | Some relation \<Rightarrow>
          if \<not> CanGuildPermission (at e 1) (pgToStr e callerID) (pgToStr e guildID) relation w
          then (Inl ErrInsufficientPermissions, w)
          else (case q_GetRoleByID (at e 2) roleID w of
             Inl _ \<Rightarrow> (Inl ErrRoleNotFound, w)
           | Inr role \<Rightarrow>
               (case Authz_GrantRolePermission (at e 3) (pgToStr e roleID) (pgToStr e guildID) relation w of
                  (Inl x, w1) \<Rightarrow> (Inl (GuildAuthzFailed ''failed to grant role permission'' x), w1)
                | (Inr _, w1) \<Rightarrow>
                    (Inr (), publishRoleEvent (at e 4) guildID GUILD_EVENT_ROLE_UPDATE role [] w1))))"

definition RevokeRolePermission ::
    "env \<Rightarrow> uuid \<Rightarrow> uuid \<Rightarrow> uuid \<Rightarrow> string \<Rightarrow> world \<Rightarrow> (guild_error + unit) \<times> world" where
  "RevokeRolePermission e callerID guildID roleID permission w =
     (if \<not> CanManageRoles (at e 0) (pgToStr e callerID) (pgToStr e guildID) w
      then (Inl ErrInsufficientPermissions, w)
      else case map_of PermissionRelation permission of
        None \<Rightarrow> (Inl ErrInvalidPermission, w)
      | Some relation \<Rightarrow>
          if \<not> CanGuildPermission (at e 1) (pgToStr e callerID) (pgToStr e guildID) relation w
          then (Inl ErrInsufficientPermissions, w)
          else (case q_GetRoleByID (at e 2) roleID w of
             Inl _ \<Rightarrow> (Inl ErrRoleNotFound, w)
           | Inr role \<Rightarrow>
               (case Authz_RevokeRolePermission (at e 3) (pgToStr e roleID) (pgToStr e guildID) relation w of
                  (Inl x, w1) \<Rightarrow> (Inl (GuildAuthzFailed ''failed to revoke role permission'' x), w1)
                | (Inr _, w1) \<Rightarrow>
                    (Inr (), publishRoleEvent (at e 4) guildID GUILD_EVENT_ROLE_UPDATE role [] w1))))"

definition TransferOwnership ::
    "env \<Rightarrow> uuid \<Rightarrow> uuid \<Rightarrow> uuid \<Rightarrow> world \<Rightarrow> (guild_error + Guild) \<times> world" where
  "TransferOwnership e callerID guildID newOwnerID w =
     (case q_GetGuildByID (at e 0) guildID w of
        Inl _ \<Rightarrow> (Inl ErrGuildNotFound, w)
      | Inr guild \<Rightarrow>
          if g_owner_id guild \<noteq> callerID then (Inl ErrNotGuildOwner, w)
          else if \<not> is_ok (q_GetGuildMember (at e 1) guildID newOwnerID w) then (Inl ErrMemberNotFound, w)
          else (case q_TransferGuildOwnership (at e 2) guildID newOwnerID w of
             Inl x \<Rightarrow> (Inl (GuildFailed ''failed to transfer ownership'' x), w)
           | Inr (updated, w1) \<Rightarrow>
               (Inr updated, publishGuildEvent (at e 3) guildID GUILD_EVENT_UPDATE
                  [(''transferred_to'', pgToStr e newOwnerID)] w1)))"

end
