(* ===== verification/GuildLaws.thy ===== *)
theory GuildLaws
  imports Guild
begin

text \<open>
  Properties of the guild service. An abstract roster (who owns, belongs to and is banned from
  each guild) with its own step relation is the specification of membership; every handler, run
  without a failing statement, is a step of it or leaves it alone, and the invariants of the
  roster carry over to the tables. The rest are the exact effects of single handlers, what a
  caller must hold for a handler to act, and how handlers combine.
\<close>

section \<open>Frames\<close>

text \<open>What publishing and the @everyone bookkeeping leave alone.\<close>

lemma publishGuildEvent_frame [simp]:
  "guilds (publishGuildEvent e g a x w) = guilds w"
  "guild_members (publishGuildEvent e g a x w) = guild_members w"
  "bans (publishGuildEvent e g a x w) = bans w" "invites (publishGuildEvent e g a x w) = invites w"
  "roles (publishGuildEvent e g a x w) = roles w"
  "role_members (publishGuildEvent e g a x w) = role_members w"
  "role_permissions (publishGuildEvent e g a x w) = role_permissions w"
  "permissions (publishGuildEvent e g a x w) = permissions w"
  "users (publishGuildEvent e g a x w) = users w" "data (publishGuildEvent e g a x w) = data w"
  by (simp_all add: publishGuildEvent_def Let_def)

lemma publishRoleEvent_frame [simp]:
  "guilds (publishRoleEvent e g a r x w) = guilds w"
  "guild_members (publishRoleEvent e g a r x w) = guild_members w"
  "bans (publishRoleEvent e g a r x w) = bans w" "invites (publishRoleEvent e g a r x w) = invites w"
  "roles (publishRoleEvent e g a r x w) = roles w"
  "role_members (publishRoleEvent e g a r x w) = role_members w"
  "role_permissions (publishRoleEvent e g a r x w) = role_permissions w"
  "permissions (publishRoleEvent e g a r x w) = permissions w"
  "users (publishRoleEvent e g a r x w) = users w" "data (publishRoleEvent e g a r x w) = data w"
  by (simp_all add: publishRoleEvent_def Let_def)

text \<open>The tables the roster is read from, and the invites.\<close>

definition core :: "world \<Rightarrow> Guild list \<times> GuildMember list \<times> Ban list \<times> Invite list \<times> User list" where
  "core w = (guilds w, guild_members w, bans w, invites w, users w)"

lemma core_simps:
  "core w' = core w \<longleftrightarrow> guilds w' = guilds w \<and> guild_members w' = guild_members w \<and> bans w' = bans w \<and>
     invites w' = invites w \<and> users w' = users w"
  by (auto simp: core_def)

lemma core_publish [simp]:
  "core (publishGuildEvent e g a x w) = core w" "core (publishRoleEvent e g a r x w) = core w"
  by (simp_all add: core_simps)

lemma q_AssignRole_core [simp]: "q_AssignRole e r u w = Inr w' \<Longrightarrow> core w' = core w"
  by (auto simp: q_AssignRole_def run_stmt_Inr core_simps split: if_splits)

lemma q_RemoveRole_core [simp]: "q_RemoveRole e r u w = Inr w' \<Longrightarrow> core w' = core w"
  by (auto simp: q_RemoveRole_def run_stmt_Inr core_simps)

lemma q_CreateRole_core [simp]: "q_CreateRole e g n c p w = Inr (r, w') \<Longrightarrow> core w' = core w"
  by (auto simp: q_CreateRole_def run_stmt_Inr core_simps Let_def split: if_splits)

lemma keep_on_error_core: "(\<And>w'. r = Inr w' \<Longrightarrow> core w' = core w) \<Longrightarrow> core (keep_on_error w r) = core w"
  by (cases r) auto

lemma AddUserToRole_core [simp]: "core (snd (AddUserToRole e u r w)) = core w"
  by (auto simp: AddUserToRole_def split: option.splits sum.splits)

lemma RemoveUserFromRole_core [simp]: "core (snd (RemoveUserFromRole e u r w)) = core w"
  by (auto simp: RemoveUserFromRole_def split: option.splits sum.splits)

lemma ensureEveryoneRole_core [simp]: "core (snd (ensureEveryoneRole e g u w)) = core w"
proof -
  have "core (keep_on_error w1 (q_AssignRole (at e 2) r u w1)) = core w1" for r w1
    by (rule keep_on_error_core) simp
  then show ?thesis by (auto simp: ensureEveryoneRole_def split: sum.splits)
qed

lemma assignEveryoneRole_core [simp]: "core (assignEveryoneRole e g u w) = core w"
proof -
  have "core (keep_on_error w (q_AssignRole (at e 2) r u w)) = core w" for r
    by (rule keep_on_error_core) simp
  then show ?thesis by (auto simp: assignEveryoneRole_def Let_def split: sum.splits)
qed

lemma removeEveryoneRole_core [simp]: "core (removeEveryoneRole e g u w) = core w"
proof -
  have "core (keep_on_error w (q_RemoveRole (at e 1) r u w)) = core w" for r
    by (rule keep_on_error_core) simp
  then show ?thesis by (auto simp: removeEveryoneRole_def Let_def split: sum.splits)
qed


section \<open>The roster\<close>

record roster =
  ros_owner :: "uuid \<rightharpoonup> uuid"
  ros_members :: "(uuid \<times> uuid) set"
  ros_banned :: "(uuid \<times> uuid) set"
  ros_known :: "uuid set"

inductive roster_step :: "roster \<Rightarrow> roster \<Rightarrow> bool" where
  create: "g \<notin> ros_known R \<Longrightarrow>
    roster_step R (R\<lparr>ros_owner := (ros_owner R)(g \<mapsto> o'), ros_known := insert g (ros_known R),
                     ros_members := insert (g, o') (ros_members R)\<rparr>)"
| join: "(g, u) \<notin> ros_banned R \<Longrightarrow> g \<in> ros_known R \<Longrightarrow>
    roster_step R (R\<lparr>ros_members := insert (g, u) (ros_members R)\<rparr>)"
| depart: "ros_owner R g = Some o' \<Longrightarrow> u \<noteq> o' \<Longrightarrow>
    roster_step R (R\<lparr>ros_members := ros_members R - {(g, u)}\<rparr>)"
| ban: "ros_owner R g = Some o' \<Longrightarrow> u \<noteq> o' \<Longrightarrow>
    roster_step R (R\<lparr>ros_members := ros_members R - {(g, u)}, ros_banned := insert (g, u) (ros_banned R)\<rparr>)"
| unban: "(g, u) \<in> ros_banned R \<Longrightarrow>
    roster_step R (R\<lparr>ros_banned := ros_banned R - {(g, u)}\<rparr>)"
| transfer: "ros_owner R g = Some o' \<Longrightarrow> (g, n) \<in> ros_members R \<Longrightarrow>
    roster_step R (R\<lparr>ros_owner := (ros_owner R)(g \<mapsto> n)\<rparr>)"
| delete: "ros_owner R g = Some o' \<Longrightarrow>
    roster_step R (R\<lparr>ros_owner := (ros_owner R)(g := None)\<rparr>)"

definition roster_inv :: "roster \<Rightarrow> bool" where
  "roster_inv R \<longleftrightarrow>
     (\<forall>g o'. ros_owner R g = Some o' \<longrightarrow> (g, o') \<in> ros_members R) \<and>
     ros_banned R \<inter> ros_members R = {} \<and>
     fst ` ros_banned R \<subseteq> ros_known R \<and> dom (ros_owner R) \<subseteq> ros_known R"

lemma roster_step_inv: "roster_step R R' \<Longrightarrow> roster_inv R \<Longrightarrow> roster_inv R'"
  by (induction rule: roster_step.induct) (force simp: roster_inv_def image_iff split: if_splits)+

definition abs_roster :: "world \<Rightarrow> roster" where
  "abs_roster w = \<lparr>ros_owner = (\<lambda>g. map_option g_owner_id (live_guild w g)),
     ros_members = {(g, u). is_member w g u}, ros_banned = {(g, u). is_banned w g u},
     ros_known = g_id ` set (guilds w)\<rparr>"

lemma in_abs_roster [simp]:
  "(g, u) \<in> ros_members (abs_roster w) \<longleftrightarrow> is_member w g u"
  "(g, u) \<in> ros_banned (abs_roster w) \<longleftrightarrow> is_banned w g u"
  "g \<in> ros_known (abs_roster w) \<longleftrightarrow> guild_row w g"
  "ros_owner (abs_roster w) g = map_option g_owner_id (live_guild w g)"
  by (auto simp: abs_roster_def guild_row_def list_ex_iff)

lemma abs_roster_core: "core w = core w' \<Longrightarrow> abs_roster w = abs_roster w'"
  by (simp add: abs_roster_def core_def live_guild_def is_member_def is_banned_def)

subsection \<open>Single statements on the roster\<close>

lemma live_guild_append:
  "\<not> guild_row w g \<Longrightarrow> g_id x = g \<Longrightarrow> \<not> g_deleted x \<Longrightarrow>
   live_guild (w\<lparr>guilds := guilds w @ [x]\<rparr>) g' = (if g' = g then Some x else live_guild w g')"
  by (cases "find (\<lambda>x. g_id x = g' \<and> \<not> g_deleted x) (guilds w)")
    (auto simp: live_guild_def find_append_last guild_row_def list_ex_iff dest: find_SomeD)

lemma find_live_update:
  assumes "\<And>x. g_id (f x) = g_id x" and "\<And>x. g_deleted (f x) = g_deleted x"
  shows "find (\<lambda>x. g_id x = g' \<and> \<not> g_deleted x) (update_where (\<lambda>x. g_id x = g) f gs) =
     map_option (\<lambda>x. if g' = g then f x else x) (find (\<lambda>x. g_id x = g' \<and> \<not> g_deleted x) gs)"
  using assms by (induction gs) auto

lemma find_live_delete:
  assumes "\<And>x. g_id (f x) = g_id x" and "\<And>x. g_deleted (f x)"
  shows "find (\<lambda>x. g_id x = g' \<and> \<not> g_deleted x) (update_where (\<lambda>x. g_id x = g) f gs) =
     (if g' = g then None else find (\<lambda>x. g_id x = g' \<and> \<not> g_deleted x) gs)"
  using assms by (induction gs) auto

lemma ids_update_where: "(\<And>x. g_id (f x) = g_id x) \<Longrightarrow> g_id ` set (update_where p f gs) = g_id ` set gs"
  by (induction gs) auto

lemma abs_AddGuildMember:
  assumes "q_AddGuildMember e g u nick code by0 w = Inr w'"
  shows "abs_roster w' = (abs_roster w)\<lparr>ros_members := insert (g, u) (ros_members (abs_roster w))\<rparr>"
    and "guild_row w g" and "users w' = users w"
  using assms
  by (auto simp: q_AddGuildMember_def run_stmt_Inr abs_roster_def live_guild_def is_member_def is_banned_def
      members.live_activate split: if_splits)

lemma abs_RemoveGuildMember:
  assumes "q_RemoveGuildMember e g u w = Inr w'"
  shows "abs_roster w' = (abs_roster w)\<lparr>ros_members := ros_members (abs_roster w) - {(g, u)}\<rparr>"
  using assms
  by (auto simp: q_RemoveGuildMember_def run_stmt_Inr abs_roster_def live_guild_def is_member_def is_banned_def
      members.live_deactivate)

lemma abs_CreateBan:
  assumes "q_CreateBan e g u reason w = Inr w'"
  shows "abs_roster w' = (abs_roster w)\<lparr>ros_banned := insert (g, u) (ros_banned (abs_roster w))\<rparr>"
  using assms
  by (auto simp: q_CreateBan_def run_stmt_Inr abs_roster_def live_guild_def is_member_def is_banned_def
      banned.live_activate split: if_splits)

lemma abs_DeleteBan:
  assumes "q_DeleteBan e g u w = Inr w'"
  shows "abs_roster w' = (abs_roster w)\<lparr>ros_banned := ros_banned (abs_roster w) - {(g, u)}\<rparr>"
  using assms
  by (auto simp: q_DeleteBan_def run_stmt_Inr abs_roster_def live_guild_def is_member_def is_banned_def
      banned.live_deactivate)

lemma abs_CreateGuild:
  assumes "q_CreateGuild e n d i u w = Inr (gd, w')"
  shows "abs_roster w' = (abs_roster w)\<lparr>ros_owner := (ros_owner (abs_roster w))(g_id gd \<mapsto> u),
      ros_known := insert (g_id gd) (ros_known (abs_roster w))\<rparr>"
    and "g_id gd \<notin> ros_known (abs_roster w)" and "guild_row w' (g_id gd)" and "user_row w' u"
proof -
  from assms have new: "\<not> guild_row w (g_id gd)" "\<not> g_deleted gd" "g_owner_id gd = u" "user_row w u"
    and w': "w' = w\<lparr>guilds := guilds w @ [gd]\<rparr>"
    by (auto simp: q_CreateGuild_def run_stmt_Inr Let_def split: if_splits)
  show "abs_roster w' = (abs_roster w)\<lparr>ros_owner := (ros_owner (abs_roster w))(g_id gd \<mapsto> u),
      ros_known := insert (g_id gd) (ros_known (abs_roster w))\<rparr>"
    unfolding w' using new
    by (simp add: abs_roster_def live_guild_append [OF new(1) refl new(2)] is_member_def is_banned_def fun_eq_iff)
  show "g_id gd \<notin> ros_known (abs_roster w)" using new(1)
    by (auto simp: abs_roster_def guild_row_def list_ex_iff)
  show "guild_row w' (g_id gd)" "user_row w' u" using new(4) by (auto simp: w' guild_row_def user_row_def)
qed

lemma abs_UpdateGuild:
  assumes "q_UpdateGuild e g ps w = Inr (gd, w')"
  shows "abs_roster w' = abs_roster w"
proof -
  define f :: "Guild \<Rightarrow> Guild" where "f = (\<lambda>x. x\<lparr>g_name := coalesce (ug_Name ps) (g_name x),
      g_description := coalesce (ug_Description ps) (g_description x),
      g_icon_url := coalesce (ug_IconUrl ps) (g_icon_url x),
      g_banner_url := coalesce (ug_BannerUrl ps) (g_banner_url x)\<rparr>)"
  have f: "\<And>x. g_id (f x) = g_id x" "\<And>x. g_deleted (f x) = g_deleted x" "\<And>x. g_owner_id (f x) = g_owner_id x"
    by (simp_all add: f_def)
  from assms have w': "w' = w\<lparr>guilds := update_where (\<lambda>x. g_id x = g) f (guilds w)\<rparr>"
    by (auto simp: q_UpdateGuild_def f_def run_stmt_Inr update_returning_Inr split: sum.splits)
  show ?thesis
    by (auto simp: w' abs_roster_def live_guild_def is_member_def is_banned_def fun_eq_iff ids_update_where f
        find_live_update option.map_comp comp_def if_distrib cong: if_cong)
qed

lemma abs_TransferGuildOwnership:
  assumes "q_TransferGuildOwnership e g n w = Inr (gd, w')" and "live_guild w g = Some x"
  shows "abs_roster w' = (abs_roster w)\<lparr>ros_owner := (ros_owner (abs_roster w))(g \<mapsto> n)\<rparr>"
proof -
  from assms(1) have w': "w' = w\<lparr>guilds := update_where (\<lambda>x. g_id x = g) (\<lambda>x. x\<lparr>g_owner_id := n\<rparr>) (guilds w)\<rparr>"
    by (auto simp: q_TransferGuildOwnership_def run_stmt_Inr update_returning_Inr split: sum.splits if_splits)
  show ?thesis
    using assms(2)
    by (auto simp: w' abs_roster_def live_guild_def is_member_def is_banned_def fun_eq_iff ids_update_where
        find_live_update option.map_comp comp_def if_distrib)
qed

lemma abs_DeleteGuild:
  assumes "q_DeleteGuild e g w = Inr w'"
  shows "abs_roster w' = (abs_roster w)\<lparr>ros_owner := (ros_owner (abs_roster w))(g := None)\<rparr>"
proof -
  from assms have w': "w' = w\<lparr>guilds := update_where (\<lambda>x. g_id x = g)
      (\<lambda>x. x\<lparr>g_deleted := True, g_updated_at := clock e []\<rparr>) (guilds w)\<rparr>"
    by (auto simp: q_DeleteGuild_def run_stmt_Inr)
  show ?thesis
    by (simp add: w' abs_roster_def live_guild_def is_member_def is_banned_def fun_eq_iff
        find_live_delete ids_update_where)
qed

subsection \<open>Handlers refine the roster\<close>

text \<open>
  One run of a handler in which no statement fails. The handlers that only read are left out;
  uploads, invites, roles and grants are in, and are shown to leave the roster alone.
\<close>

inductive guild_step :: "world \<Rightarrow> world \<Rightarrow> bool" where
  "fault_free e \<Longrightarrow> guild_step w (snd (CreateGuild e u name desc icon w))"
| "fault_free e \<Longrightarrow> guild_step w (snd (UpdateGuild e c g ps w))"
| "fault_free e \<Longrightarrow> guild_step w (snd (DeleteGuild e c g w))"
| "fault_free e \<Longrightarrow> guild_step w (snd (UploadGuildIcon e st c g fname ctype n w))"
| "fault_free e \<Longrightarrow> guild_step w (snd (UploadGuildBanner e st c g fname ctype n w))"
| "fault_free e \<Longrightarrow> guild_step w (snd (JoinGuild e u code w))"
| "fault_free e \<Longrightarrow> guild_step w (snd (LeaveGuild e u g w))"
| "fault_free e \<Longrightarrow> guild_step w (snd (KickMember e c g t w))"
| "fault_free e \<Longrightarrow> guild_step w (snd (BanMember e c g t reason w))"
| "fault_free e \<Longrightarrow> guild_step w (snd (UnbanMember e c g t w))"
| "fault_free e \<Longrightarrow> guild_step w (snd (CreateInvite e rnd c g ch mu ma w))"
| "fault_free e \<Longrightarrow> guild_step w (snd (CreateRole e c g rname col w))"
| "fault_free e \<Longrightarrow> guild_step w (snd (UpdateRole e c g rps w))"
| "fault_free e \<Longrightarrow> guild_step w (snd (DeleteRole e c g r w))"
| "fault_free e \<Longrightarrow> guild_step w (snd (AssignRole e c g t r w))"
| "fault_free e \<Longrightarrow> guild_step w (snd (RemoveRole e c g t r w))"
| "fault_free e \<Longrightarrow> guild_step w (snd (GrantRolePermission e c g r perm w))"
| "fault_free e \<Longrightarrow> guild_step w (snd (RevokeRolePermission e c g r perm w))"
| "fault_free e \<Longrightarrow> guild_step w (snd (TransferOwnership e c g t w))"

lemma live_guild_owner: "live_guild w g = Some x \<Longrightarrow> ros_owner (abs_roster w) g = Some (g_owner_id x)"
  by (simp add: abs_roster_def)

lemma q_GetGuildByID_Inr: "q_GetGuildByID e g w = Inr x \<longleftrightarrow> \<not> fault e [] \<and> live_guild w g = Some x"
  by (simp add: q_GetGuildByID_eq run_stmt_Inr)

lemma abs_publish [simp]:
  "abs_roster (publishGuildEvent e g a x w) = abs_roster w"
  "abs_roster (publishRoleEvent e g a r x w) = abs_roster w"
  "abs_roster (removeEveryoneRole e' g u w) = abs_roster w"
  "abs_roster (assignEveryoneRole e' g u w) = abs_roster w"
  "abs_roster (snd (ensureEveryoneRole e' g u w)) = abs_roster w"
  by (rule abs_roster_core, simp)+

lemma CreateGuild_refines:
  assumes "fault_free e"
  shows "roster_step\<^sup>=\<^sup>= (abs_roster w) (abs_roster (snd (CreateGuild e u name desc icon w)))"
proof (cases "q_CreateGuild (at e 0) name desc icon u w")
  case (Inr p)
  obtain gd w1 where p: "p = (gd, w1)" by (cases p)
  note mk = abs_CreateGuild [OF Inr [unfolded p]]
  obtain w2 where add: "q_AddGuildMember (at e 1) (g_id gd) u [] None None w1 = Inr w2"
    using mk(3,4) assms by (simp add: q_AddGuildMember_def)
  have "abs_roster (snd (CreateGuild e u name desc icon w)) = abs_roster w2"
    by (simp add: CreateGuild_def Inr p add [unfolded One_nat_def] Let_def)
  moreover have "roster_step (abs_roster w) (abs_roster w2)"
    using roster_step.create [OF mk(2), of u] by (simp add: abs_AddGuildMember(1) [OF add] mk(1))
  ultimately show ?thesis by simp
qed (simp add: CreateGuild_def)

lemma JoinGuild_refines:
  assumes "fault_free e"
  shows "roster_step\<^sup>=\<^sup>= (abs_roster w) (abs_roster (snd (JoinGuild e u code w)))"
proof -
  have "roster_step (abs_roster w) (abs_roster w1)"
    if "q_AddGuildMember (at e 5) g u [] (Some code) (Some c) w = Inr w1"
      and "\<not> is_ok (q_GetBan (at e 2) g u w)" for g c w1
  proof -
    have "(g, u) \<notin> ros_banned (abs_roster w)"
      using that(2) assms by (simp add: q_GetBan_ok abs_roster_def)
    moreover have "g \<in> ros_known (abs_roster w)"
      using abs_AddGuildMember(2) [OF that(1)] by (auto simp: abs_roster_def guild_row_def list_ex_iff)
    ultimately show ?thesis using roster_step.join abs_AddGuildMember(1) [OF that(1)] by metis
  qed
  moreover have "abs_roster (keep_on_error w1 (q_IncrementInviteUses e' code w1)) = abs_roster w1" for w1 e'
    by (cases "q_IncrementInviteUses e' code w1")
      (auto simp: q_IncrementInviteUses_def run_stmt_Inr abs_roster_def live_guild_def is_member_def is_banned_def
        split: if_splits)
  moreover have "abs_roster (keep_on_error w1 (q_RecordInviteUse e' code g u c w1)) = abs_roster w1" for w1 e' g c
    by (cases "q_RecordInviteUse e' code g u c w1")
      (auto simp: q_RecordInviteUse_def run_stmt_Inr abs_roster_def live_guild_def is_member_def is_banned_def
        split: if_splits)
  ultimately show ?thesis
    by (auto simp: JoinGuild_def Let_def split: sum.splits option.splits if_splits)
qed

lemma LeaveGuild_refines:
  assumes "fault_free e"
  shows "roster_step\<^sup>=\<^sup>= (abs_roster w) (abs_roster (snd (LeaveGuild e u g w)))"
  using assms
  by (auto simp: LeaveGuild_def q_GetGuildByID_Inr Let_def abs_RemoveGuildMember split: sum.splits
      intro!: roster_step.depart live_guild_owner)

lemma KickMember_refines:
  assumes "fault_free e"
  shows "roster_step\<^sup>=\<^sup>= (abs_roster w) (abs_roster (snd (KickMember e c g t w)))"
  using assms
  by (auto simp: KickMember_def q_GetGuildByID_Inr Let_def abs_RemoveGuildMember split: sum.splits
      intro!: roster_step.depart live_guild_owner)

lemma BanMember_refines:
  assumes "fault_free e"
  shows "roster_step\<^sup>=\<^sup>= (abs_roster w) (abs_roster (snd (BanMember e c g t reason w)))"
proof -
  have "roster_step\<^sup>=\<^sup>= (abs_roster w) (abs_roster w2)"
    if "live_guild w g = Some x" "g_owner_id x \<noteq> t" and w1: "q_RemoveGuildMember (at e 3) g t w = Inr w1"
      and w2: "q_CreateBan (at e 4) g t reason w1 = Inr w2" for x w1 w2
    using roster_step.ban [OF live_guild_owner [OF that(1)], of t] that(2)
    by (simp add: abs_CreateBan [OF w2] abs_RemoveGuildMember [OF w1])
  moreover have "roster_step\<^sup>=\<^sup>= (abs_roster w) (abs_roster w1)"
    if "live_guild w g = Some x" "g_owner_id x \<noteq> t" and w1: "q_RemoveGuildMember (at e 3) g t w = Inr w1" for x w1
    using roster_step.depart [OF live_guild_owner [OF that(1)], of t] that(2)
    by (simp add: abs_RemoveGuildMember [OF w1])
  moreover obtain w1 where "q_RemoveGuildMember (at e 3) g t w = Inr w1"
    using assms by (simp add: q_RemoveGuildMember_def)
  ultimately show ?thesis
    by (auto simp: BanMember_def q_GetGuildByID_Inr Let_def split: sum.splits)
qed

lemma UnbanMember_refines:
  assumes "fault_free e"
  shows "roster_step\<^sup>=\<^sup>= (abs_roster w) (abs_roster (snd (UnbanMember e c g t w)))"
proof -
  have "roster_step (abs_roster w) (abs_roster w1)"
    if "is_ok (q_GetBan e' g t w)" "q_DeleteBan e'' g t w = Inr w1" for e' e'' w1
    using roster_step.unban [of g t "abs_roster w"] that(1)
    by (simp add: abs_DeleteBan [OF that(2)] q_GetBan_ok)
  then show ?thesis by (auto simp: UnbanMember_def split: sum.splits)
qed

lemma TransferOwnership_refines:
  assumes "fault_free e"
  shows "roster_step\<^sup>=\<^sup>= (abs_roster w) (abs_roster (snd (TransferOwnership e c g t w)))"
proof -
  have "roster_step (abs_roster w) (abs_roster w1)"
    if "live_guild w g = Some x" "is_ok (q_GetGuildMember e' g t w)"
      "q_TransferGuildOwnership e'' g t w = Inr (gd, w1)" for e' e'' w1 x gd
    using roster_step.transfer [OF live_guild_owner [OF that(1)], of t] that(2)
    by (simp add: abs_TransferGuildOwnership [OF that(3,1)] q_GetGuildMember_ok)
  then show ?thesis
    by (auto simp: TransferOwnership_def q_GetGuildByID_Inr split: sum.splits)
qed

lemma DeleteGuild_refines:
  assumes "fault_free e"
  shows "roster_step\<^sup>=\<^sup>= (abs_roster w) (abs_roster (snd (DeleteGuild e c g w)))"
  by (auto simp: DeleteGuild_def q_GetGuildByID_Inr abs_DeleteGuild split: sum.splits
      intro!: roster_step.delete live_guild_owner)

lemma metadata_refines:
  "abs_roster (snd (UpdateGuild e c g ps w)) = abs_roster w"
  "abs_roster (snd (UploadGuildIcon e st c g fname ctype n w)) = abs_roster w"
  "abs_roster (snd (UploadGuildBanner e st c g fname ctype n w)) = abs_roster w"
  by (auto simp: UpdateGuild_def UploadGuildIcon_def UploadGuildBanner_def Let_def abs_UpdateGuild
      split: sum.splits)

lemma CreateInvite_refines: "abs_roster (snd (CreateInvite e rnd c g ch mu ma w)) = abs_roster w"
  by (auto simp: CreateInvite_def q_CreateInvite_def run_stmt_Inr Let_def abs_roster_def live_guild_def
      is_member_def is_banned_def split: sum.splits option.splits if_splits)

lemma q_UpdateRole_core: "q_UpdateRole e ps w = Inr (r, w') \<Longrightarrow> core w' = core w"
  by (auto simp: q_UpdateRole_def run_stmt_Inr core_simps split: sum.splits)

lemma q_DeleteRole_core: "q_DeleteRole e r w = Inr w' \<Longrightarrow> core w' = core w"
  by (auto simp: q_DeleteRole_def run_stmt_Inr core_simps)

lemma Authz_grant_core:
  "core (snd (Authz_GrantRolePermission e r g rel w)) = core w"
  "core (snd (Authz_RevokeRolePermission e r g rel w)) = core w"
  by (auto simp: Authz_GrantRolePermission_def Authz_RevokeRolePermission_def run_stmt_Inr core_simps
      split: option.splits sum.splits if_splits)

lemma roles_core:
  "core (snd (CreateRole e c g rname col w)) = core w"
  "core (snd (UpdateRole e c g rps w)) = core w"
  "core (snd (DeleteRole e c g r w)) = core w"
  "core (snd (AssignRole e c g t r w)) = core w"
  "core (snd (RemoveRole e c g t r w)) = core w"
  by (auto simp: CreateRole_def UpdateRole_def DeleteRole_def AssignRole_def RemoveRole_def Let_def
      q_UpdateRole_core q_DeleteRole_core split: sum.splits)

lemma grants_core:
  "core (snd (GrantRolePermission e c g r perm w)) = core w"
  "core (snd (RevokeRolePermission e c g r perm w)) = core w"
  using Authz_grant_core(1) [of "at e 3" "pgToStr e r" "pgToStr e g" _ w]
    Authz_grant_core(2) [of "at e 3" "pgToStr e r" "pgToStr e g" _ w]
  by (auto simp: GrantRolePermission_def RevokeRolePermission_def split: sum.splits option.splits prod.splits)
    (metis snd_conv)+

lemmas guild_handlers_refine =
  CreateGuild_refines JoinGuild_refines LeaveGuild_refines KickMember_refines BanMember_refines
  UnbanMember_refines TransferOwnership_refines DeleteGuild_refines

lemma guild_step_refines: "guild_step w w' \<Longrightarrow> roster_step\<^sup>=\<^sup>= (abs_roster w) (abs_roster w')"
  by (induction rule: guild_step.induct)
    (assumption | rule guild_handlers_refine | simp add: metadata_refines CreateInvite_refines |
     simp add: roles_core [THEN abs_roster_core] grants_core [THEN abs_roster_core])+

text \<open>
  C1: refinement. Every run of a handler of the guild service in which no statement fails is,
  read through the roster, one step of the roster or no change of it: guilds come into being with
  their owner as a member, only users who are not banned join, the owner never departs and is
  never banned, ownership passes to members only.
\<close>

theorem guild_service_refines_roster:
  assumes "guild_step w w'"
  shows "abs_roster w' = abs_roster w \<or> roster_step (abs_roster w) (abs_roster w')"
  using guild_step_refines [OF assms] by auto

text \<open>One registered user, no guild.\<close>

definition one_user :: "uuid \<Rightarrow> User" where
  "one_user u = \<lparr>u_id = u, u_username = ''ann'', u_email = [], u_password_hash = [], u_avatar_url = [],
     u_bio = [], u_status = [], u_verified = True, u_deleted = False, u_background_color = [],
     u_display_name = [], u_updated_at = 0\<rparr>"

definition lone_world :: world where
  "lone_world = empty_world\<lparr>users := [one_user 5]\<rparr>"

lemma lone_world_step:
  "guild_step lone_world (snd (CreateGuild (text_env (\<lambda>_. 9) (\<lambda>_. 0)) 5 ''home'' [] [] lone_world))"
  by (rule guild_step.intros) simp

theorem guild_service_refines_roster_witness:
  "let w' = snd (CreateGuild (text_env (\<lambda>_. 9) (\<lambda>_. 0)) 5 ''home'' [] [] lone_world) in
   abs_roster w' = abs_roster lone_world \<or> roster_step (abs_roster lone_world) (abs_roster w')"
  unfolding Let_def by (rule guild_service_refines_roster [OF lone_world_step])

lemma roster_steps_inv: "guild_step\<^sup>*\<^sup>* w w' \<Longrightarrow> roster_inv (abs_roster w) \<Longrightarrow> roster_inv (abs_roster w')"
proof (induction rule: rtranclp_induct)
  case (step y z)
  then show ?case using guild_step_refines [OF step.hyps(2)] roster_step_inv by auto
qed

text \<open>
  C2: after any sequence of guild requests in which no statement fails, from a state that satisfies the
  roster invariant, the owner of every live guild is one of its members and no banned user is a member.
  (A request one of whose statements fails can break it: a ban is two statements without a transaction.)
\<close>

theorem guild_reachable_roster:
  assumes "guild_step\<^sup>*\<^sup>* w w'" and "roster_inv (abs_roster w)"
  shows "(live_guild w' g = Some x \<longrightarrow> is_member w' g (g_owner_id x)) \<and>
    (is_banned w' g u \<longrightarrow> \<not> is_member w' g u)"
  using roster_steps_inv [OF assms] unfolding roster_inv_def disjoint_iff by auto

theorem guild_reachable_roster_witness:
  "is_member (snd (CreateGuild (text_env (\<lambda>_. 9) (\<lambda>_. 0)) 5 ''home'' [] [] lone_world)) 9 5 \<and>
   \<not> is_banned (snd (CreateGuild (text_env (\<lambda>_. 9) (\<lambda>_. 0)) 5 ''home'' [] [] lone_world)) 9 5"
proof -
  let ?w = "snd (CreateGuild (text_env (\<lambda>_. 9) (\<lambda>_. 0)) 5 ''home'' [] [] lone_world)"
  have inv: "roster_inv (abs_roster lone_world)"
    by (simp add: roster_inv_def abs_roster_def lone_world_def empty_world_def live_guild_def is_member_def
        is_banned_def live_member_def live_ban_def)
  have "map_option g_owner_id (live_guild ?w 9) = Some 5"
    by (simp add: live_guild_def CreateGuild_def q_CreateGuild_def q_AddGuildMember_def lone_world_def
        empty_world_def user_row_def guild_row_def one_user_def Let_def core_simps
        ensureEveryoneRole_core [unfolded core_simps])
  then obtain x where x: "live_guild ?w 9 = Some x" "g_owner_id x = 5" by auto
  from guild_reachable_roster [OF r_into_rtranclp [of guild_step, OF lone_world_step] inv]
  have "is_member ?w 9 (g_owner_id x)" "is_banned ?w 9 5 \<longrightarrow> \<not> is_member ?w 9 5" using x(1) by blast+
  with x(2) show ?thesis by metis
qed

section \<open>What a caller must hold\<close>

interpretation update_guild: gated
  "\<lambda>w. CanManageGuild (at e 0) (pgToStr e c) (pgToStr e g) w" "\<lambda>w. UpdateGuild e c g ps w"
  ErrInsufficientPermissions for e c g ps
  by unfold_locales (simp add: UpdateGuild_def)

interpretation kick: gated
  "\<lambda>w. CanKick (at e 0) (pgToStr e c) (pgToStr e g) w \<and>
       CanActOn (at e 1) (pgToStr e c) (pgToStr e t) (pgToStr e g) w"
  "\<lambda>w. KickMember e c g t w" ErrInsufficientPermissions for e c g t
  by unfold_locales (auto simp: KickMember_def)

interpretation ban: gated
  "\<lambda>w. CanBan (at e 0) (pgToStr e c) (pgToStr e g) w \<and>
       CanActOn (at e 1) (pgToStr e c) (pgToStr e t) (pgToStr e g) w"
  "\<lambda>w. BanMember e c g t reason w" ErrInsufficientPermissions for e c g t reason
  by unfold_locales (auto simp: BanMember_def)

interpretation unban: gated
  "\<lambda>w. CanBan (at e 0) (pgToStr e c) (pgToStr e g) w" "\<lambda>w. UnbanMember e c g t w"
  ErrInsufficientPermissions for e c g t
  by unfold_locales (simp add: UnbanMember_def)

interpretation create_role: gated
  "\<lambda>w. CanManageRoles (at e 0) (pgToStr e c) (pgToStr e g) w" "\<lambda>w. CreateRole e c g name col w"
  ErrInsufficientPermissions for e c g name col
  by unfold_locales (simp add: CreateRole_def)

interpretation update_role: gated
  "\<lambda>w. CanManageRoles (at e 0) (pgToStr e c) (pgToStr e g) w" "\<lambda>w. UpdateRole e c g ps w"
  ErrInsufficientPermissions for e c g ps
  by unfold_locales (simp add: UpdateRole_def)

interpretation delete_role: gated
  "\<lambda>w. CanManageRoles (at e 0) (pgToStr e c) (pgToStr e g) w" "\<lambda>w. DeleteRole e c g r w"
  ErrInsufficientPermissions for e c g r
  by unfold_locales (simp add: DeleteRole_def)

interpretation assign_role: gated
  "\<lambda>w. CanManageRoles (at e 0) (pgToStr e c) (pgToStr e g) w" "\<lambda>w. AssignRole e c g t r w"
  ErrInsufficientPermissions for e c g t r
  by unfold_locales (simp add: AssignRole_def)

interpretation remove_role: gated
  "\<lambda>w. CanManageRoles (at e 0) (pgToStr e c) (pgToStr e g) w" "\<lambda>w. RemoveRole e c g t r w"
  ErrInsufficientPermissions for e c g t r
  by unfold_locales (simp add: RemoveRole_def)

interpretation grant: gated
  "\<lambda>w. CanManageRoles (at e 0) (pgToStr e c) (pgToStr e g) w" "\<lambda>w. GrantRolePermission e c g r perm w"
  ErrInsufficientPermissions for e c g r perm
  by unfold_locales (simp add: GrantRolePermission_def)

interpretation revoke: gated
  "\<lambda>w. CanManageRoles (at e 0) (pgToStr e c) (pgToStr e g) w" "\<lambda>w. RevokeRolePermission e c g r perm w"
  ErrInsufficientPermissions for e c g r perm
  by unfold_locales (simp add: RevokeRolePermission_def)

text \<open>What the guild-level tests say of the tables when the client is present.\<close>

lemma catalogue_lookups:
  "relationToName ''can_manage_guild'' = Some ''MANAGE_GUILD''"
  "relationToName ''can_kick'' = Some ''KICK_MEMBERS''" "relationToName ''can_ban'' = Some ''BAN_MEMBERS''"
  "relationToName ''can_manage_roles'' = Some ''MANAGE_ROLES''"
  "relationToName ''can_manage_invites'' = Some ''MANAGE_INVITES''"
  "relationToName ''can_manage_channels'' = Some ''MANAGE_CHANNELS''"
  unfolding relationToName_Some PermissionRelation_def by simp_all

lemma guild_tests:
  assumes "codec_ok e" and "\<not> authz_nil e"
  shows "CanManageGuild e (uuid_string e c) (uuid_string e g) w \<longleftrightarrow> \<not> fault e [] \<and> permitted w c g ''MANAGE_GUILD''"
    and "CanKick e (uuid_string e c) (uuid_string e g) w \<longleftrightarrow> \<not> fault e [] \<and> permitted w c g ''KICK_MEMBERS''"
    and "CanBan e (uuid_string e c) (uuid_string e g) w \<longleftrightarrow> \<not> fault e [] \<and> permitted w c g ''BAN_MEMBERS''"
    and "CanManageRoles e (uuid_string e c) (uuid_string e g) w \<longleftrightarrow> \<not> fault e [] \<and> permitted w c g ''MANAGE_ROLES''"
    and "CanManageInvites e (uuid_string e c) (uuid_string e g) w \<longleftrightarrow> \<not> fault e [] \<and> permitted w c g ''MANAGE_INVITES''"
    and "CanManageChannels e (uuid_string e c) (uuid_string e g) w \<longleftrightarrow> \<not> fault e [] \<and> permitted w c g ''MANAGE_CHANNELS''"
    and "CanActOn e (uuid_string e c) (uuid_string e t) (uuid_string e g) w \<longleftrightarrow> \<not> fault e [] \<and> outranks w g c t"
  using assms
  by (simp_all add: CanManageGuild_def CanKick_def CanBan_def CanManageRoles_def CanManageInvites_def
      CanManageChannels_def Check_keys catalogue_lookups CanActOn_iff)

lemma guild_tests_at:
  assumes "codec_ok e" and "\<not> authz_nil e"
  shows "CanManageGuild (at e i) (pgToStr e c) (pgToStr e g) w \<longleftrightarrow> \<not> fault e [i] \<and> permitted w c g ''MANAGE_GUILD''"
    and "CanKick (at e i) (pgToStr e c) (pgToStr e g) w \<longleftrightarrow> \<not> fault e [i] \<and> permitted w c g ''KICK_MEMBERS''"
    and "CanBan (at e i) (pgToStr e c) (pgToStr e g) w \<longleftrightarrow> \<not> fault e [i] \<and> permitted w c g ''BAN_MEMBERS''"
    and "CanManageRoles (at e i) (pgToStr e c) (pgToStr e g) w \<longleftrightarrow> \<not> fault e [i] \<and> permitted w c g ''MANAGE_ROLES''"
    and "CanManageInvites (at e i) (pgToStr e c) (pgToStr e g) w \<longleftrightarrow> \<not> fault e [i] \<and> permitted w c g ''MANAGE_INVITES''"
    and "CanActOn (at e i) (pgToStr e c) (pgToStr e t) (pgToStr e g) w \<longleftrightarrow> \<not> fault e [i] \<and> outranks w g c t"
  using guild_tests [of "at e i"] assms by (simp_all add: pgToStr_def)

text \<open>The gates one by one: what the tables say when a handler changes anything.\<close>

lemma guild_gates:
  assumes "codec_ok e" and "\<not> authz_nil e"
  shows "snd (UpdateGuild e c g ps w) \<noteq> w \<Longrightarrow> permitted w c g ''MANAGE_GUILD''"
    and "snd (KickMember e c g t w) \<noteq> w \<Longrightarrow> permitted w c g ''KICK_MEMBERS'' \<and> outranks w g c t"
    and "snd (BanMember e c g t reason w) \<noteq> w \<Longrightarrow> permitted w c g ''BAN_MEMBERS'' \<and> outranks w g c t"
    and "snd (UnbanMember e c g t w) \<noteq> w \<Longrightarrow> permitted w c g ''BAN_MEMBERS''"
    and "snd (CreateRole e c g name col w) \<noteq> w \<Longrightarrow> permitted w c g ''MANAGE_ROLES''"
    and "snd (UpdateRole e c g rps w) \<noteq> w \<Longrightarrow> permitted w c g ''MANAGE_ROLES''"
    and "snd (DeleteRole e c g r w) \<noteq> w \<Longrightarrow> permitted w c g ''MANAGE_ROLES''"
    and "snd (AssignRole e c g t r w) \<noteq> w \<Longrightarrow> permitted w c g ''MANAGE_ROLES''"
    and "snd (RemoveRole e c g t r w) \<noteq> w \<Longrightarrow> permitted w c g ''MANAGE_ROLES''"
    and "snd (GrantRolePermission e c g r perm w) \<noteq> w \<Longrightarrow> permitted w c g ''MANAGE_ROLES''"
    and "snd (RevokeRolePermission e c g r perm w) \<noteq> w \<Longrightarrow> permitted w c g ''MANAGE_ROLES''"
  using guild_tests_at [OF assms] update_guild.changed_imp_gate kick.changed_imp_gate ban.changed_imp_gate
    unban.changed_imp_gate create_role.changed_imp_gate update_role.changed_imp_gate
    delete_role.changed_imp_gate assign_role.changed_imp_gate remove_role.changed_imp_gate
    grant.changed_imp_gate revoke.changed_imp_gate
  by (blast | metis)+

text \<open>
  The other gates: an invite needs a member who manages invites, an upload a manager, deletion and
  transfer the owner, leaving a member who is not the owner, joining a live invite that neither
  expired nor ran out, and no ban the query could see.
\<close>

lemma guild_other_gates:
  assumes "codec_ok e" and "\<not> authz_nil e"
  shows "snd (CreateInvite e rnd c g ch mu ma w) \<noteq> w \<Longrightarrow> is_member w g c \<and> permitted w c g ''MANAGE_INVITES''"
    and "snd (UploadGuildIcon e st c g fname ctype n w) \<noteq> w \<Longrightarrow> permitted w c g ''MANAGE_GUILD''"
    and "snd (UploadGuildBanner e st c g fname ctype n w) \<noteq> w \<Longrightarrow> permitted w c g ''MANAGE_GUILD''"
    and "snd (DeleteGuild e c g w) \<noteq> w \<Longrightarrow> \<exists>x. live_guild w g = Some x \<and> g_owner_id x = c"
    and "snd (TransferOwnership e c g t w) \<noteq> w \<Longrightarrow>
           (\<exists>x. live_guild w g = Some x \<and> g_owner_id x = c) \<and> is_member w g t"
    and "snd (LeaveGuild e c g w) \<noteq> w \<Longrightarrow>
           (\<exists>x. live_guild w g = Some x \<and> g_owner_id x \<noteq> c) \<and> is_member w g c"
  using guild_tests_at [OF assms]
  by (auto simp: CreateInvite_def UploadGuildIcon_def UploadGuildBanner_def DeleteGuild_def
      TransferOwnership_def LeaveGuild_def q_GetGuildByID_Inr q_GetGuildMember_ok Let_def
      split: if_splits sum.splits)

lemma JoinGuild_gate:
  assumes "snd (JoinGuild e u code w) \<noteq> w"
  obtains i where "i \<in> set (invites w)" and "i_code i = code" and "\<not> i_deleted i"
    and "invite_refusal (clock e [1]) i = None" and "fault e [2] \<or> \<not> is_banned w (i_guild_id i) u"
proof -
  from assms obtain i where i: "q_GetInvite (at e 0) code w = Inr i" "invite_refusal (clock e [1]) i = None"
      "\<not> is_ok (q_GetBan (at e 2) (i_guild_id i) u w)"
    by (auto simp: JoinGuild_def split: sum.splits option.splits if_splits)
  from i(1) have "find (\<lambda>i. i_code i = code \<and> \<not> i_deleted i) (invites w) = Some i"
    by (auto simp: q_GetInvite_def run_stmt_Inr one_row_def split: option.splits)
  with i(2,3) show ?thesis by (intro that [of i]) (auto simp: find_Some_iff q_GetBan_ok)
qed

text \<open>
  Authorisation of moderation and role management, on every path, failing statements
  included: a handler changes the state (or publishes anything) only for a caller whom the tables
  permit it at that moment; kicking and banning also need the caller to outrank the target.
\<close>

theorem guild_changes_authorised:
  assumes "codec_ok e" and "\<not> authz_nil e"
  shows "(snd (UpdateGuild e c g ps w) \<noteq> w \<longrightarrow> permitted w c g ''MANAGE_GUILD'') \<and>
    (snd (KickMember e c g t w) \<noteq> w \<longrightarrow> permitted w c g ''KICK_MEMBERS'' \<and> outranks w g c t) \<and>
    (snd (BanMember e c g t reason w) \<noteq> w \<longrightarrow> permitted w c g ''BAN_MEMBERS'' \<and> outranks w g c t) \<and>
    (snd (UnbanMember e c g t w) \<noteq> w \<longrightarrow> permitted w c g ''BAN_MEMBERS'') \<and>
    (snd (CreateRole e c g name col w) \<noteq> w \<longrightarrow> permitted w c g ''MANAGE_ROLES'') \<and>
    (snd (UpdateRole e c g rps w) \<noteq> w \<longrightarrow> permitted w c g ''MANAGE_ROLES'') \<and>
    (snd (DeleteRole e c g r w) \<noteq> w \<longrightarrow> permitted w c g ''MANAGE_ROLES'') \<and>
    (snd (AssignRole e c g t r w) \<noteq> w \<longrightarrow> permitted w c g ''MANAGE_ROLES'') \<and>
    (snd (RemoveRole e c g t r w) \<noteq> w \<longrightarrow> permitted w c g ''MANAGE_ROLES'') \<and>
    (snd (GrantRolePermission e c g r perm w) \<noteq> w \<longrightarrow> permitted w c g ''MANAGE_ROLES'') \<and>
    (snd (RevokeRolePermission e c g r perm w) \<noteq> w \<longrightarrow> permitted w c g ''MANAGE_ROLES'')"
  by (intro conjI impI; erule guild_gates [OF assms] guild_gates(2,3) [OF assms, THEN conjunct1]
      guild_gates(2,3) [OF assms, THEN conjunct2])

theorem guild_changes_authorised_witness:
  "snd (KickMember (text_env (\<lambda>_. 9) (\<lambda>_. 0)) 6 9 5 lone_world) = lone_world"
proof -
  have "\<not> permitted lone_world 6 9 ''KICK_MEMBERS''"
    by (simp add: permitted_def owns_guild_def role_names_def lone_world_def empty_world_def)
  then show ?thesis using guild_changes_authorised [of "text_env (\<lambda>_. 9) (\<lambda>_. 0)" 6 9 _ lone_world 5] by auto
qed

end
