(* ===== verification/GuildEffects.thy ===== *)
theory GuildEffects
  imports GuildLaws
begin

text \<open>
  Exact effects of single handlers of the guild service: what creating, joining, kicking and
  banning do to members, roles and invites, how a ban and an invite interact, and how far a grant
  reaches.
\<close>

section \<open>The @everyone role and assignments\<close>

definition everyone_role :: "world \<Rightarrow> uuid \<Rightarrow> Role option" where
  "everyone_role w g =
     find (\<lambda>r. r_guild_id r = g \<and> r_name r = ''@everyone'' \<and> \<not> r_deleted r) (roles w)"

lemma q_GetEveryoneRole_eq: "q_GetEveryoneRole e g w = run_stmt e (one_row (everyone_role w g))"
  by (simp add: q_GetEveryoneRole_def everyone_role_def)

lemma has_role_RemoveRole:
  "q_RemoveRole e r u w = Inr w' \<Longrightarrow> has_role w' u' r' \<longleftrightarrow> has_role w u' r' \<and> \<not> (u' = u \<and> r' = r)"
  by (auto simp: q_RemoveRole_def run_stmt_Inr has_role_def assigned.live_deactivate)

lemma has_role_RemoveUserFromRole:
  assumes "codec_ok e" and "fault_free e" and "\<not> authz_nil e"
  shows "has_role (snd (RemoveUserFromRole e (uuid_string e u) (uuid_string e r) w)) u' r' \<longleftrightarrow>
    has_role w u' r' \<and> \<not> (u' = u \<and> r' = r)"
  using assms has_role_RemoveRole [of e r u w _ u' r']
  by (auto simp: RemoveUserFromRole_def parseUUID_def q_RemoveRole_def)

text \<open>Dropping a user from @everyone, when no statement fails: exactly that assignment ends.\<close>

lemma removeEveryoneRole_has_role:
  assumes "fault_free e" and "codec_ok e"
  shows "has_role (removeEveryoneRole e g u w) u' r' \<longleftrightarrow>
    has_role w u' r' \<and> \<not> (u' = u \<and> map_option r_id (everyone_role w g) = Some r')"
proof (cases "everyone_role w g")
  case None
  then show ?thesis using assms by (simp add: removeEveryoneRole_def q_GetEveryoneRole_eq)
next
  case (Some role)
  obtain w1 where w1: "q_RemoveRole (at e 1) (r_id role) u w = Inr w1"
    using assms by (simp add: q_RemoveRole_def)
  have "has_role (snd (RemoveUserFromRole (at e 2) (pgToStr e u) (pgToStr e (r_id role)) w1)) u' r'
      \<longleftrightarrow> has_role w1 u' r' \<and> \<not> (u' = u \<and> r' = r_id role)"
    using has_role_RemoveUserFromRole [of "at e 2" u "r_id role" w1 u' r'] assms
    by (cases "authz_nil e") (auto simp: pgToStr_def RemoveUserFromRole_def has_role_RemoveRole [OF w1])
  then show ?thesis
    using assms Some has_role_RemoveRole [OF w1, of u' r']
    by (auto simp: removeEveryoneRole_def q_GetEveryoneRole_eq w1 [unfolded One_nat_def] Let_def)
qed

lemma removeEveryoneRole_frame:
  "roles (removeEveryoneRole e g u w) = roles w"
  "role_permissions (removeEveryoneRole e g u w) = role_permissions w"
  "permissions (removeEveryoneRole e g u w) = permissions w"
  by (auto simp: removeEveryoneRole_def RemoveUserFromRole_def q_RemoveRole_def run_stmt_def Let_def
      keep_on_error_def split: sum.splits option.splits if_splits)

section \<open>Kicking\<close>

lemma KickMember_ok:
  assumes "KickMember e c g t w = (Inr (), w1)"
  shows "\<exists>x w0. live_guild w g = Some x \<and> g_owner_id x \<noteq> t \<and> is_member w g t \<and>
    q_RemoveGuildMember (at e 4) g t w = Inr w0 \<and>
    w1 = publishGuildEvent (at e 6) g GUILD_EVENT_MEMBER_REMOVE [(''user_id'', pgToStr e t)]
           (removeEveryoneRole (at e 5) g t w0)"
  using assms
  by (auto simp: KickMember_def q_GetGuildByID_Inr q_GetGuildMember_ok Let_def split: sum.splits if_splits)

text \<open>
  Kicking. In a request in which no statement fails a kick succeeds exactly when the caller is
  permitted to kick and outranks the target, the guild is live and the target is a member of it
  other than the owner; the target then stops being a member and nobody else's membership
  changes.
\<close>

theorem KickMember_effect:
  assumes "fault_free e" and "codec_ok e" and "\<not> authz_nil e"
  shows "(is_ok (fst (KickMember e c g t w)) \<longleftrightarrow>
      permitted w c g ''KICK_MEMBERS'' \<and> outranks w g c t \<and> is_member w g t \<and>
      (\<exists>x. live_guild w g = Some x \<and> g_owner_id x \<noteq> t)) \<and>
    (is_member (snd (KickMember e c g t w)) g' u \<longleftrightarrow>
      is_member w g' u \<and> \<not> (is_ok (fst (KickMember e c g t w)) \<and> (g', u) = (g, t)))"
proof -
  obtain w0 where w0: "q_RemoveGuildMember (at e 4) g t w = Inr w0"
    using assms by (simp add: q_RemoveGuildMember_def)
  have mem: "is_member (publishGuildEvent e1 g a x (removeEveryoneRole e2 g t w0)) g' u \<longleftrightarrow>
      is_member w g' u \<and> (g', u) \<noteq> (g, t)" for e1 e2 a x
  proof -
    have "is_member w' g' u \<longleftrightarrow> (g', u) \<in> ros_members (abs_roster w')" for w' by simp
    then show ?thesis by (simp only: abs_publish abs_RemoveGuildMember [OF w0]) auto
  qed
  show ?thesis
    using assms
    by (cases "live_guild w g")
      (auto simp: KickMember_def guild_tests_at q_GetGuildByID_eq q_GetGuildMember_ok w0 Let_def mem)
qed

text \<open>
  A kick ends the assignment of @everyone and nothing else: every other role assignment of
  the target stays live. Since permission checks read role assignments and not membership, a
  user who is kicked keeps each permission that another role carries.
\<close>

theorem KickMember_keeps_other_roles:
  assumes "fault_free e" and "codec_ok e" and "KickMember e c g t w = (Inr (), w1)"
  shows "(has_role w1 u r \<longleftrightarrow>
      has_role w u r \<and> \<not> (u = t \<and> map_option r_id (everyone_role w g) = Some r)) \<and>
    (role_in_guild w t g r \<and> map_option r_id (everyone_role w g) \<noteq> Some r \<and> name \<in> granted_names w r
      \<longrightarrow> permitted w1 t g name \<and> \<not> is_member w1 g t)"
proof -
  obtain w0 where w0: "q_RemoveGuildMember (at e 4) g t w = Inr w0"
    and w1: "w1 = publishGuildEvent (at e 6) g GUILD_EVENT_MEMBER_REMOVE [(''user_id'', pgToStr e t)]
           (removeEveryoneRole (at e 5) g t w0)"
    using KickMember_ok [OF assms(3)] by blast
  have same: "has_role w0 = has_role w" "everyone_role w0 = everyone_role w" "roles w0 = roles w"
    "role_permissions w0 = role_permissions w" "permissions w0 = permissions w"
    using w0 by (auto simp: q_RemoveGuildMember_def run_stmt_Inr has_role_def everyone_role_def fun_eq_iff)
  have role: "has_role w1 u r \<longleftrightarrow> has_role w u r \<and> \<not> (u = t \<and> map_option r_id (everyone_role w g) = Some r)"
    for u r
    using removeEveryoneRole_has_role [of "at e 5" g t w0 u r] assms(1,2)
    by (simp add: w1 same) (simp add: has_role_def)
  have "\<not> is_member w1 g t"
  proof -
    have "is_member w1 g t \<longleftrightarrow> (g, t) \<in> ros_members (abs_roster w1)" by simp
    then show ?thesis by (simp only: w1 abs_publish abs_RemoveGuildMember [OF w0]) simp
  qed
  moreover have "permitted w1 t g name"
    if "role_in_guild w t g r" "map_option r_id (everyone_role w g) \<noteq> Some r" "name \<in> granted_names w r"
  proof -
    have "role_in_guild w1 t g r"
      using that(1,2) role [of t r] by (simp add: role_in_guild_def w1 removeEveryoneRole_frame same)
    moreover have "granted_names w1 r = granted_names w r"
      by (simp add: granted_names_def w1 removeEveryoneRole_frame same)
    ultimately show ?thesis using that(3) by (auto simp: permitted_def role_names_Union)
  qed
  ultimately show ?thesis using role by blast
qed

text \<open>
  A guild 9 of user 1 with the member 5, who holds @everyone (role 7) and a moderator role 8 that
  carries KICK_MEMBERS, and an invite of the owner.
\<close>

definition mod_world :: world where
  "mod_world = empty_world\<lparr>
     users := [one_user 1, one_user 5, one_user 6],
     guilds := [\<lparr>g_id = 9, g_name = ''home'', g_description = [], g_icon_url = [], g_owner_id = 1,
                 g_deleted = False, g_updated_at = 0, g_banner_url = []\<rparr>],
     guild_members := [\<lparr>gm_guild_id = 9, gm_user_id = 1, gm_nickname = [], gm_joined_at = 0,
                        gm_deleted = False, gm_updated_at = 0, gm_invite_code = None, gm_invited_by = None\<rparr>,
                       \<lparr>gm_guild_id = 9, gm_user_id = 5, gm_nickname = [], gm_joined_at = 0,
                        gm_deleted = False, gm_updated_at = 0, gm_invite_code = None, gm_invited_by = None\<rparr>],
     roles := [\<lparr>r_id = 7, r_guild_id = 9, r_name = ''@everyone'', r_color = [], r_position = 0,
                r_deleted = False, r_updated_at = 0\<rparr>,
               \<lparr>r_id = 8, r_guild_id = 9, r_name = ''mod'', r_color = [], r_position = 1,
                r_deleted = False, r_updated_at = 0\<rparr>],
     role_members := [\<lparr>rm_role_id = 7, rm_user_id = 5, rm_deleted = False, rm_updated_at = 0\<rparr>,
                      \<lparr>rm_role_id = 8, rm_user_id = 5, rm_deleted = False, rm_updated_at = 0\<rparr>],
     permissions := [\<lparr>p_id = 1, p_name = ''KICK_MEMBERS''\<rparr>],
     role_permissions := [\<lparr>rp_role_id = 8, rp_permission_id = 1\<rparr>],
     invites := [\<lparr>i_code = ''c0de'', i_guild_id = 9, i_channel_id = 2, i_creator_id = 1, i_max_uses = 0,
                  i_uses = 0, i_expires_at = None, i_deleted = False, i_updated_at = 0\<rparr>]\<rparr>"

abbreviation tenv :: env where
  "tenv \<equiv> text_env (\<lambda>_. 77) (\<lambda>_. 0)"

lemma mod_world_facts:
  "owns_guild mod_world 1 9" "\<not> owns_guild mod_world 5 9" "is_member mod_world 9 5"
  "live_guild mod_world 9 = Some (hd (guilds mod_world))" "g_owner_id (hd (guilds mod_world)) = 1"
  "everyone_role mod_world 9 = Some (hd (roles mod_world))" "r_id (hd (roles mod_world)) = 7"
  "role_in_guild mod_world 5 9 8" "granted_names mod_world 8 = {''KICK_MEMBERS''}"
  by (auto simp: mod_world_def empty_world_def owns_guild_def is_member_def live_member_def live_guild_def
      everyone_role_def role_in_guild_def has_role_def live_assignment_def granted_names_def)

lemma mod_world_owner: "permitted mod_world 1 9 name" "outranks mod_world 9 1 5"
  using mod_world_facts by (simp_all add: permitted_def outranks_def)

theorem KickMember_effect_witness:
  "is_ok (fst (KickMember tenv 1 9 5 mod_world)) \<and> \<not> is_member (snd (KickMember tenv 1 9 5 mod_world)) 9 5"
proof -
  have "is_ok (fst (KickMember tenv 1 9 5 mod_world))"
    using KickMember_effect [of tenv 1 9 5 mod_world 9 5] mod_world_facts mod_world_owner by simp
  then show ?thesis using KickMember_effect [of tenv 1 9 5 mod_world 9 5] by simp
qed

lemma kick_mod_world: "\<exists>w1. KickMember tenv 1 9 5 mod_world = (Inr (), w1)"
  using mod_world_facts
  by (simp add: KickMember_def guild_tests_at mod_world_owner q_GetGuildByID_eq q_RemoveGuildMember_def Let_def
      q_GetGuildMember_ok)

theorem KickMember_keeps_other_roles_witness:
  "permitted (snd (KickMember tenv 1 9 5 mod_world)) 5 9 ''KICK_MEMBERS'' \<and>
   \<not> is_member (snd (KickMember tenv 1 9 5 mod_world)) 9 5"
proof -
  obtain w1 where w1: "KickMember tenv 1 9 5 mod_world = (Inr (), w1)" using kick_mod_world ..
  from KickMember_keeps_other_roles [OF _ _ w1, of 5 8 "''KICK_MEMBERS''"] mod_world_facts
  show ?thesis by (simp add: w1)
qed

section \<open>Bans and invites\<close>

lemma BanMember_ok:
  assumes "BanMember e c g t reason w = (Inr (), w1)"
  shows "\<exists>w2 w3. w2 = keep_on_error w (q_RemoveGuildMember (at e 3) g t w) \<and>
    q_CreateBan (at e 4) g t reason w2 = Inr w3 \<and>
    w1 = publishGuildEvent (at e 6) g GUILD_EVENT_MEMBER_BAN
           [(''user_id'', pgToStr e t), (''reason'', reason)] (removeEveryoneRole (at e 5) g t w3)"
  using assms by (auto simp: BanMember_def Let_def split: sum.splits if_splits)

lemma BanMember_banned:
  assumes "BanMember e c g t reason w = (Inr (), w1)"
  shows "is_banned w1 g t"
proof -
  obtain w2 w3 where w3: "q_CreateBan (at e 4) g t reason w2 = Inr w3"
    and w1: "w1 = publishGuildEvent (at e 6) g GUILD_EVENT_MEMBER_BAN
           [(''user_id'', pgToStr e t), (''reason'', reason)] (removeEveryoneRole (at e 5) g t w3)"
    using BanMember_ok [OF assms] by blast
  have "(g, t) \<in> ros_banned (abs_roster w1)"
    by (simp only: w1 abs_publish abs_CreateBan [OF w3]) simp
  then show ?thesis by simp
qed

lemma JoinGuild_banned:
  assumes "\<not> fault e [2]" and "q_GetInvite (at e 0) code w = Inr i" and "is_banned w (i_guild_id i) u"
  shows "\<exists>err. JoinGuild e u code w = (Inl err, w)"
proof -
  have "is_ok (q_GetBan (at e 2) (i_guild_id i) u w)" using assms(1,3) by (simp add: q_GetBan_ok)
  with assms(2) show ?thesis
    by (cases "invite_refusal (clock e [1]) i") (auto simp: JoinGuild_def)
qed

text \<open>
  A ban holds against invites. Once a ban has been recorded, and until it is lifted, the banned
  user cannot join the guild with any of its invites: the request is refused and nothing changes,
  whatever happened while the ban was recorded, provided the ban can be looked up when joining.
\<close>

theorem banned_cannot_join:
  assumes "BanMember e c g t reason w = (Inr (), w1)"
    and "\<not> fault e' [2]" and "q_GetInvite (at e' 0) code w1 = Inr i" and "i_guild_id i = g"
  shows "\<exists>err. JoinGuild e' t code w1 = (Inl err, w1)"
  using JoinGuild_banned [OF assms(2,3)] BanMember_banned [OF assms(1)] assms(4) by simp

lemma ban_mod_world: "\<exists>w1. BanMember tenv 1 9 5 ''spam'' mod_world = (Inr (), w1) \<and> invites w1 = invites mod_world"
proof -
  obtain w3 where w3: "q_RemoveGuildMember (at tenv 3) 9 5 mod_world = Inr w3"
    by (simp add: q_RemoveGuildMember_def)
  obtain w4 where w4: "q_CreateBan (at tenv 4) 9 5 ''spam'' w3 = Inr w4" "invites w4 = invites mod_world"
    using w3 by (auto simp: q_RemoveGuildMember_def q_CreateBan_def guild_row_def user_row_def mod_world_def
        empty_world_def one_user_def)
  have "invites (removeEveryoneRole (at tenv 5) 9 5 w4) = invites w4"
    using removeEveryoneRole_core [of "at tenv 5" 9 5 w4] by (simp only: core_simps)
  then show ?thesis
    using mod_world_facts
    by (simp add: BanMember_def guild_tests_at mod_world_owner q_GetGuildByID_eq w3 w4 Let_def)
qed

theorem banned_cannot_join_witness:
  "\<exists>err w1. BanMember tenv 1 9 5 ''spam'' mod_world = (Inr (), w1) \<and>
     JoinGuild tenv 5 ''c0de'' w1 = (Inl err, w1)"
proof -
  obtain w1 where w1: "BanMember tenv 1 9 5 ''spam'' mod_world = (Inr (), w1)"
    and inv: "invites w1 = invites mod_world" using ban_mod_world by blast
  have "q_GetInvite (at tenv 0) ''c0de'' w1 = Inr (hd (invites mod_world))"
    by (simp add: q_GetInvite_def inv) (simp add: mod_world_def empty_world_def)
  moreover have "i_guild_id (hd (invites mod_world)) = 9" by (simp add: mod_world_def empty_world_def)
  ultimately obtain err where "JoinGuild tenv 5 ''c0de'' w1 = (Inl err, w1)"
    using banned_cannot_join [OF w1, of tenv "''c0de''"] by auto
  with w1 show ?thesis by blast
qed

text \<open>
  The preview of an invite tells the caller in advance what joining would refuse: for each of
  the four refusals (unknown, expired, used up, banned) a preview reports it exactly when a join
  by the same caller at the same moment reports it.
\<close>

theorem PreviewInvite_predicts_JoinGuild:
  assumes "err \<in> {ErrInviteNotFound, ErrInviteExpired, ErrInviteMaxUses, ErrUserBanned}"
  shows "PreviewInvite e (Some u) code w = Inl err \<longleftrightarrow> JoinGuild e u code w = (Inl err, w)"
proof (cases "q_GetInvite (at e 0) code w")
  case (Inr i)
  have build: "buildJoinResult e' g w' \<noteq> Inl err" for e' g w'
    using assms by (auto simp: buildJoinResult_def split: sum.splits)
  show ?thesis
  proof (cases "invite_refusal (clock e [1]) i")
    case None
    then show ?thesis
      using Inr assms build
      by (auto simp: PreviewInvite_def JoinGuild_def Let_def split: sum.splits)
  qed (use Inr in \<open>simp add: PreviewInvite_def JoinGuild_def\<close>)
qed (simp add: PreviewInvite_def JoinGuild_def)

theorem PreviewInvite_predicts_JoinGuild_witness:
  "PreviewInvite tenv (Some 6) ''none'' mod_world = Inl ErrInviteNotFound \<longleftrightarrow>
     JoinGuild tenv 6 ''none'' mod_world = (Inl ErrInviteNotFound, mod_world)"
  by (rule PreviewInvite_predicts_JoinGuild) simp

text \<open>Invites within their bounds.\<close>

definition invite_inv :: "world \<Rightarrow> bool" where
  "invite_inv w \<longleftrightarrow> distinct (map i_code (invites w)) \<and>
     (\<forall>i\<in>set (invites w). 0 \<le> i_uses i \<and> (0 < i_max_uses i \<longrightarrow> i_uses i \<le> i_max_uses i))"

lemma invites_assignEveryoneRole [simp]: "invites (assignEveryoneRole e g u w) = invites w"
  using assignEveryoneRole_core [of e g u w] by (simp only: core_simps)

lemma invites_AddGuildMember: "q_AddGuildMember e g u n c b w = Inr w' \<Longrightarrow> invites w' = invites w"
  by (auto simp: q_AddGuildMember_def run_stmt_Inr split: if_splits)

lemma invites_RecordInviteUse [simp]:
  "invites (keep_on_error w (q_RecordInviteUse e c g u b w)) = invites w"
  by (cases "q_RecordInviteUse e c g u b w") (auto simp: q_RecordInviteUse_def run_stmt_Inr split: if_splits)

lemma invites_IncrementInviteUses:
  "invites (keep_on_error w (q_IncrementInviteUses e c w)) = invites w \<or>
   invites (keep_on_error w (q_IncrementInviteUses e c w)) =
     update_where (\<lambda>i. i_code i = c) (\<lambda>i. i\<lparr>i_uses := i_uses i + 1\<rparr>) (invites w)"
  by (cases "q_IncrementInviteUses e c w") (auto simp: q_IncrementInviteUses_def run_stmt_Inr split: if_splits)

lemma JoinGuild_invites:
  "invites (snd (JoinGuild e u code w)) = invites w \<or>
   (\<exists>i. find (\<lambda>i. i_code i = code \<and> \<not> i_deleted i) (invites w) = Some i \<and>
      invite_refusal (clock e [1]) i = None \<and>
      invites (snd (JoinGuild e u code w)) =
        update_where (\<lambda>i. i_code i = code) (\<lambda>i. i\<lparr>i_uses := i_uses i + 1\<rparr>) (invites w))"
proof -
  have "invites (keep_on_error w1 (q_IncrementInviteUses (at e 6) code w1)) = invites w \<or>
      invites (keep_on_error w1 (q_IncrementInviteUses (at e 6) code w1)) =
        update_where (\<lambda>i. i_code i = code) (\<lambda>i. i\<lparr>i_uses := i_uses i + 1\<rparr>) (invites w)"
    if "q_AddGuildMember e' g u [] c b w = Inr w1" for e' g c b w1
    using invites_IncrementInviteUses [of w1 "at e 6" code] by (simp only: invites_AddGuildMember [OF that])
  then show ?thesis
    by (auto simp: JoinGuild_def q_GetInvite_def run_stmt_Inr Let_def split: sum.splits option.splits)
qed

text \<open>
  C39: the counter of an invite. If codes are unique and no limited invite is past its limit, the
  same holds after a join, whichever of its statements fail.
\<close>

theorem JoinGuild_invite_inv:
  assumes "invite_inv w"
  shows "invite_inv (snd (JoinGuild e u code w))"
proof -
  have "invite_inv (w\<lparr>invites := update_where (\<lambda>i. i_code i = code) (\<lambda>i. i\<lparr>i_uses := i_uses i + 1\<rparr>) (invites w)\<rparr>)"
    if f: "find (\<lambda>i. i_code i = code \<and> \<not> i_deleted i) (invites w) = Some i" "invite_refusal now i = None" for i now
  proof -
    have i: "i \<in> set (invites w)" "i_code i = code" using find_SomeD [OF f(1)] by auto
    have "x = i" if "x \<in> set (invites w)" "i_code x = code" for x
      using that i assms by (auto simp: invite_inv_def distinct_map dest: inj_onD)
    moreover have "0 < i_max_uses i \<longrightarrow> i_uses i < i_max_uses i"
      using f(2) by (auto simp: invite_refusal_def split: if_splits)
    ultimately show ?thesis
      using assms by (auto simp: invite_inv_def in_set_update_where map_key_update_where)
  qed
  note grown = this
  have eq: "invite_inv w' = invite_inv v" if "invites w' = invites v" for w' v
    using that by (simp add: invite_inv_def)
  show ?thesis using JoinGuild_invites [of e u code w]
  proof (elim disjE exE conjE)
    fix i
    assume i: "find (\<lambda>i. i_code i = code \<and> \<not> i_deleted i) (invites w) = Some i"
      "invite_refusal (clock e [1]) i = None"
      and "invites (snd (JoinGuild e u code w)) =
        update_where (\<lambda>i. i_code i = code) (\<lambda>i. i\<lparr>i_uses := i_uses i + 1\<rparr>) (invites w)"
    then show ?thesis using grown [OF i] by (subst eq) simp_all
  qed (use assms eq in blast)
qed

theorem JoinGuild_invite_inv_witness: "invite_inv (snd (JoinGuild tenv 6 ''c0de'' mod_world))"
  by (rule JoinGuild_invite_inv) (simp add: invite_inv_def mod_world_def empty_world_def)

text \<open>
  Joining. With a usable invite, for a user who is registered, not banned and not yet a member, a
  join in which no statement fails makes the user a member of the guild of the invite, changes no
  other membership and no ban, and succeeds exactly when that guild is live: on a deleted guild
  the user is recorded as a member although the request reports an error.
\<close>

theorem JoinGuild_effect:
  assumes "fault_free e" and "find (\<lambda>i. i_code i = code \<and> \<not> i_deleted i) (invites w) = Some i"
    and "invite_refusal (clock e [1]) i = None" and "g = i_guild_id i"
    and "\<not> is_banned w g u" and "\<not> is_member w g u"
    and "guild_row w g" and "user_row w u" and "user_row w (i_creator_id i)"
  shows "(is_member (snd (JoinGuild e u code w)) g' u' \<longleftrightarrow> (g', u') = (g, u) \<or> is_member w g' u') \<and>
    (is_banned (snd (JoinGuild e u code w)) g' u' \<longleftrightarrow> is_banned w g' u') \<and>
    (is_ok (fst (JoinGuild e u code w)) \<longleftrightarrow> live_guild w g \<noteq> None)"
proof -
  obtain w1 where w1: "q_AddGuildMember (at e 5) g u [] (Some code) (Some (i_creator_id i)) w = Inr w1"
    using assms(1,7-9) by (simp add: q_AddGuildMember_def)
  define w2 where "w2 = keep_on_error w1 (q_IncrementInviteUses (at e 6) code w1)"
  define w3 where "w3 = keep_on_error w2 (q_RecordInviteUse (at e 7) code g u (i_creator_id i) w2)"
  define w5 where "w5 = publishGuildEvent (at e 9) g GUILD_EVENT_MEMBER_ADD [(''user_id'', pgToStr e u)]
     (assignEveryoneRole (at e 8) g u w3)"
  have "JoinGuild e u code w = (buildJoinResult (at e 10) g w5, w5)"
    using assms
    by (simp add: JoinGuild_def q_GetInvite_def q_GetBan_ok q_GetGuildMember_ok
        w1 [unfolded assms(4)] w2_def w3_def w5_def Let_def)
  note join = this
  have "abs_roster w2 = abs_roster w1"
    unfolding w2_def by (cases "q_IncrementInviteUses (at e 6) code w1")
      (auto simp: q_IncrementInviteUses_def run_stmt_Inr abs_roster_def live_guild_def is_member_def is_banned_def
        split: if_splits)
  moreover have "abs_roster w3 = abs_roster w2"
    unfolding w3_def by (cases "q_RecordInviteUse (at e 7) code g u (i_creator_id i) w2")
      (auto simp: q_RecordInviteUse_def run_stmt_Inr abs_roster_def live_guild_def is_member_def is_banned_def
        split: if_splits)
  ultimately have abs: "abs_roster w5 = (abs_roster w)\<lparr>ros_members := insert (g, u) (ros_members (abs_roster w))\<rparr>"
    by (simp add: w5_def abs_AddGuildMember(1) [OF w1])
  have "is_member w5 g' u' \<longleftrightarrow> (g', u') \<in> ros_members (abs_roster w5)"
    "is_banned w5 g' u' \<longleftrightarrow> (g', u') \<in> ros_banned (abs_roster w5)"
    "live_guild w5 g = None \<longleftrightarrow> ros_owner (abs_roster w5) g = None" by simp_all
  then have "is_member w5 g' u' \<longleftrightarrow> (g', u') = (g, u) \<or> is_member w g' u'"
    "is_banned w5 g' u' \<longleftrightarrow> is_banned w g' u'" "live_guild w5 g = None \<longleftrightarrow> live_guild w g = None"
    unfolding abs by auto
  moreover have "is_ok (buildJoinResult (at e 10) g w5) \<longleftrightarrow> live_guild w5 g \<noteq> None"
    using assms(1)
    by (cases "live_guild w5 g")
      (simp_all add: buildJoinResult_def q_GetGuildByID_eq q_ListGuildChannels_def q_CountGuildMembers_def)
  ultimately show ?thesis unfolding join by simp
qed

theorem JoinGuild_effect_witness:
  "is_member (snd (JoinGuild tenv 6 ''c0de'' mod_world)) 9 6 \<and> is_ok (fst (JoinGuild tenv 6 ''c0de'' mod_world))"
proof -
  have "find (\<lambda>i. i_code i = ''c0de'' \<and> \<not> i_deleted i) (invites mod_world) = Some (hd (invites mod_world))"
    by (simp add: mod_world_def empty_world_def)
  note join = JoinGuild_effect [OF _ this, of tenv 9 6 9 6]
  have i: "invite_refusal 0 (hd (invites mod_world)) = None" "i_guild_id (hd (invites mod_world)) = 9"
    "i_creator_id (hd (invites mod_world)) = 1"
    by (simp_all add: mod_world_def empty_world_def invite_refusal_def)
  have "\<not> is_banned mod_world 9 6" "\<not> is_member mod_world 9 6" "guild_row mod_world 9" "user_row mod_world 6"
    "user_row mod_world 1"
    by (simp_all add: mod_world_def empty_world_def is_banned_def live_ban_def is_member_def live_member_def
        guild_row_def user_row_def one_user_def)
  with join i mod_world_facts(4) show ?thesis by simp
qed

text \<open>
  Invite codes: eight characters, and different random bytes give different codes.
\<close>

theorem generateInviteCode_distinct:
  "length (the (generateInviteCode (Some a))) = 8 \<and>
   (generateInviteCode (Some a) = generateInviteCode (Some b) \<longleftrightarrow> a = b)"
proof -
  have "of_hex (to_hex 8 (unat x)) = unat x" for x :: "32 word"
  proof -
    have "unat x < 2 ^ 32" using unsigned_less [of x] by simp
    then show ?thesis by (simp add: of_hex_to_hex)
  qed
  then have "to_hex 8 (unat a) = to_hex 8 (unat b) \<longleftrightarrow> a = b" by (metis word_unat_eq_iff)
  then show ?thesis by (simp add: generateInviteCode_def)
qed

section \<open>Ownership\<close>

text \<open>
  Deletion and transfer belong to the owner. Whatever fails, a delete or a transfer changes the
  state only when the caller owns the live guild; a transfer that succeeds hands it to a member,
  who from then on holds every permission there, and takes the ownership from everybody else.
\<close>

theorem ownership_operations:
  assumes "distinct (map g_id (guilds w))"
  shows "(snd (DeleteGuild e c g w) \<noteq> w \<longrightarrow> owns_guild w c g) \<and>
    (snd (TransferOwnership e c g n w) \<noteq> w \<longrightarrow> owns_guild w c g) \<and>
    (is_ok (fst (TransferOwnership e c g n w)) \<longrightarrow>
      is_member w g n \<and> (owns_guild (snd (TransferOwnership e c g n w)) u g \<longleftrightarrow> u = n))"
proof -
  have owner: "owns_guild v u g \<longleftrightarrow> (\<exists>x. live_guild v g = Some x \<and> g_owner_id x = u)"
    if d: "distinct (map g_id (guilds v))" for v u
  proof
    assume "owns_guild v u g"
    then obtain x where x: "x \<in> set (guilds v)" "g_id x = g" "g_owner_id x = u" "\<not> g_deleted x"
      by (auto simp: owns_guild_iff)
    then have "live_guild v g = Some x"
      unfolding live_guild_def by (intro find_unique_key [OF d]) auto
    with x show "\<exists>x. live_guild v g = Some x \<and> g_owner_id x = u" by blast
  qed (auto simp: live_guild_def owns_guild_iff dest: find_SomeD)
  have "owns_guild w c g" if "snd (DeleteGuild e c g w) \<noteq> w"
    using that assms by (auto simp: DeleteGuild_def q_GetGuildByID_Inr owner split: sum.splits if_splits)
  moreover have "owns_guild w c g" if "snd (TransferOwnership e c g n w) \<noteq> w"
    using that assms by (auto simp: TransferOwnership_def q_GetGuildByID_Inr owner split: sum.splits if_splits)
  moreover have "is_member w g n \<and> (owns_guild (snd (TransferOwnership e c g n w)) u g \<longleftrightarrow> u = n)"
    if ok: "is_ok (fst (TransferOwnership e c g n w))"
  proof -
    from ok obtain x y w1 where x: "live_guild w g = Some x" and mem: "is_member w g n"
      and w1: "q_TransferGuildOwnership (at e 2) g n w = Inr (y, w1)"
      and res: "snd (TransferOwnership e c g n w) = publishGuildEvent (at e 3) g GUILD_EVENT_UPDATE
        [(''transferred_to'', pgToStr e n)] w1"
      by (auto simp: TransferOwnership_def q_GetGuildByID_Inr q_GetGuildMember_ok split: sum.splits if_splits)
    have "map g_id (guilds w1) = map g_id (guilds w)"
      using w1 by (auto simp: q_TransferGuildOwnership_def run_stmt_Inr update_returning_Inr map_key_update_where
          split: sum.splits if_splits)
    then have d: "distinct (map g_id (guilds (snd (TransferOwnership e c g n w))))"
      using assms by (simp add: res)
    have "ros_owner (abs_roster (snd (TransferOwnership e c g n w))) g = Some n"
      by (simp only: res abs_publish abs_TransferGuildOwnership [OF w1 x]) simp
    with mem show ?thesis by (auto simp: owner [OF d])
  qed
  ultimately show ?thesis by blast
qed

theorem ownership_operations_witness:
  "owns_guild (snd (TransferOwnership tenv 1 9 5 mod_world)) 5 9"
proof -
  have d: "distinct (map g_id (guilds mod_world))" by (simp add: mod_world_def empty_world_def)
  have u: "user_row mod_world 5" by (simp add: mod_world_def empty_world_def user_row_def one_user_def)
  have "find (\<lambda>g. g_id g = 9) (guilds mod_world) = Some (hd (guilds mod_world))"
    by (simp add: mod_world_def empty_world_def)
  then have "is_ok (fst (TransferOwnership tenv 1 9 5 mod_world))"
    using mod_world_facts u
    by (simp add: TransferOwnership_def q_GetGuildByID_eq q_GetGuildMember_ok q_TransferGuildOwnership_def
        update_returning_def)
  then show ?thesis using ownership_operations [OF d, of tenv 1 9 5 5] by blast
qed

section \<open>How far a grant reaches\<close>

text \<open>
  No escalation within a guild. A grant or a revocation of a permission through the service
  succeeds only for a caller who may manage roles in the named guild and holds that permission there
  (as owner, by a role, or as an administrator), and only for a permission of the catalogue.
\<close>

theorem grants_need_the_permission:
  assumes "codec_ok e" and "\<not> authz_nil e"
    and "is_ok (fst (GrantRolePermission e c g r perm w)) \<or> is_ok (fst (RevokeRolePermission e c g r perm w))"
  shows "permitted w c g ''MANAGE_ROLES'' \<and> permitted w c g perm \<and> perm \<in> fst ` set PermissionRelation"
proof -
  have "\<exists>relation. map_of PermissionRelation perm = Some relation \<and>
      CanGuildPermission (at e 1) (pgToStr e c) (pgToStr e g) relation w \<and>
      CanManageRoles (at e 0) (pgToStr e c) (pgToStr e g) w"
    using assms(3)
    by (cases "CanManageRoles (at e 0) (pgToStr e c) (pgToStr e g) w"; cases "map_of PermissionRelation perm")
      (auto simp: GrantRolePermission_def RevokeRolePermission_def split: if_splits)
  then obtain relation where rel: "map_of PermissionRelation perm = Some relation"
    and can: "CanGuildPermission (at e 1) (pgToStr e c) (pgToStr e g) relation w"
    and roles: "permitted w c g ''MANAGE_ROLES''"
    using guild_tests_at(4) [OF assms(1,2)] by blast
  have "relationToName relation = Some perm"
    using map_of_SomeD [OF rel] by (simp add: relationToName_Some)
  then have "permitted w c g perm"
    using can assms(1,2) by (auto simp: CanGuildPermission_def Check_keys pgToStr_def)
  with roles map_of_SomeD [OF rel] show ?thesis by (force simp: image_iff)
qed

lemma grant_mod_world:
  "is_ok (fst (GrantRolePermission tenv 1 9 8 ''KICK_MEMBERS'' mod_world))"
proof -
  have rel: "map_of PermissionRelation ''KICK_MEMBERS'' = Some ''can_kick''"
    using catalogue_distinct(1) kick_catalogued by (rule map_of_is_SomeI)
  have can: "CanGuildPermission (at tenv 1) (pgToStr tenv 1) (pgToStr tenv 9) ''can_kick'' mod_world"
    using mod_world_owner(1) by (simp add: CanGuildPermission_def Check_keys pgToStr_def catalogue_lookups)
  have role: "q_GetRoleByID (at tenv 2) 8 mod_world = Inr (roles mod_world ! 1)"
    by (simp add: q_GetRoleByID_def mod_world_def empty_world_def)
  have grant: "fst (Authz_GrantRolePermission (at tenv 3) (pgToStr tenv 8) (pgToStr tenv 9) ''can_kick'' mod_world) = Inr ()"
    by (simp add: Authz_GrantRolePermission_def catalogue_lookups parseUUID_def pgToStr_def)
      (simp add: mod_world_def empty_world_def role_row_def)
  obtain w1 where w1: "Authz_GrantRolePermission (at tenv 3) (pgToStr tenv 8) (pgToStr tenv 9) ''can_kick'' mod_world = (Inr (), w1)"
    using grant by (cases "Authz_GrantRolePermission (at tenv 3) (pgToStr tenv 8) (pgToStr tenv 9) ''can_kick'' mod_world") auto
  show ?thesis
    unfolding GrantRolePermission_def rel
    using can role by (simp add: guild_tests_at mod_world_owner w1)
qed

theorem grants_need_the_permission_witness:
  "permitted mod_world 1 9 ''MANAGE_ROLES'' \<and> permitted mod_world 1 9 ''KICK_MEMBERS'' \<and>
   ''KICK_MEMBERS'' \<in> fst ` set PermissionRelation"
  by (rule grants_need_the_permission [of tenv _ _ 8]) (simp_all add: grant_mod_world)

text \<open>
  The named guild is not compared with the guild of the role. The owner of any guild can grant any
  catalogued permission to a role of a different guild: the request succeeds and every holder of
  the role has the permission in that other guild.
\<close>

theorem grant_crosses_guilds:
  assumes "fault_free e" and "codec_ok e" and "\<not> authz_nil e"
    and "owns_guild w c g" and "(perm, rel) \<in> set PermissionRelation"
    and "perm \<in> p_name ` set (permissions w)" and "permissions_unique w"
    and "role_in_guild w u g2 r"
  shows "is_ok (fst (GrantRolePermission e c g r perm w)) \<and>
    permitted (snd (GrantRolePermission e c g r perm w)) u g2 perm"
proof -
  have rel: "map_of PermissionRelation perm = Some rel"
    using catalogue_distinct(1) assms(5) by (rule map_of_is_SomeI)
  have name: "relationToName rel = Some perm" using assms(5) by (simp add: relationToName_Some)
  have own: "permitted w c g n" for n using assms(4) by (simp add: permitted_def)
  have can: "CanGuildPermission (at e 1) (pgToStr e c) (pgToStr e g) rel w"
    using assms(1-3) own by (simp add: CanGuildPermission_def Check_keys pgToStr_def name)
  obtain x where x: "x \<in> set (roles w)" "r_id x = r" "\<not> r_deleted x"
    using assms(8) by (auto simp: role_in_guild_def)
  obtain role where role: "q_GetRoleByID (at e 2) r w = Inr role"
    using assms(1) x
    by (cases "find (\<lambda>r'. r_id r' = r \<and> \<not> r_deleted r') (roles w)") (auto simp: q_GetRoleByID_def find_None_set)
  have "role_row w r" using x by (auto simp: role_row_def list_ex_iff)
  then obtain w1 where w1: "Authz_GrantRolePermission (at e 3) (pgToStr e r) (pgToStr e g) rel w = (Inr (), w1)"
    using assms(1-3) by (simp add: Authz_GrantRolePermission_def name parseUUID_def pgToStr_def)
  have res: "GrantRolePermission e c g r perm w =
      (Inr (), publishRoleEvent (at e 4) g GUILD_EVENT_ROLE_UPDATE role [] w1)"
    using assms(1-3) can role own by (simp add: GrantRolePermission_def rel guild_tests_at w1)
  obtain name' rid where grant: "relationToName rel = Some name'" "uuid_scan (at e 3) (pgToStr e r) = Some rid"
    and w1': "w1 = w\<lparr>role_permissions := insert_grants rid (permission_ids w name') (role_permissions w)\<rparr>"
    using GrantRolePermission_ok [OF w1] assms(3) by auto
  have "granted_names w1 r = granted_names w r \<union> {perm}"
    using granted_names_grant [OF assms(7,6), of w1 rid r] grant name assms(2) by (simp add: w1' pgToStr_def)
  moreover have "role_in_guild w1 u g2 r" using assms(8) by (simp add: w1')
  ultimately have "perm \<in> role_names w1 u g2" by (auto simp: role_names_Union)
  moreover have "role_names (publishRoleEvent e' g a ro x w1) = role_names w1" for e' a ro x
    by (simp add: role_names_def fun_eq_iff)
  ultimately show ?thesis by (simp add: res permitted_def)
qed

text \<open>The guild of the last section and a second guild 10 owned by user 6.\<close>

definition two_guilds :: world where
  "two_guilds = mod_world\<lparr>guilds := \<lparr>g_id = 10, g_name = ''other'', g_description = [], g_icon_url = [],
     g_owner_id = 6, g_deleted = False, g_updated_at = 0, g_banner_url = []\<rparr> # guilds mod_world\<rparr>"

theorem grant_crosses_guilds_witness:
  "is_ok (fst (GrantRolePermission tenv 6 10 7 ''KICK_MEMBERS'' two_guilds)) \<and>
   permitted (snd (GrantRolePermission tenv 6 10 7 ''KICK_MEMBERS'' two_guilds)) 5 9 ''KICK_MEMBERS''"
  by (rule grant_crosses_guilds [where rel = "''can_kick''"])
    (simp_all add: kick_catalogued two_guilds_def mod_world_def empty_world_def owns_guild_def
      permissions_unique_def role_in_guild_def has_role_def live_assignment_def)

end
