(* ===== verification/Channel.thy ===== *)
theory Channel
  imports GuildEffects
begin

text \<open>
  The channel service, internal/features/channel/service.go: guild channels, permission overrides
  on them, direct-message and group channels, and the resolvers other services use. The queries
  of gen/db/channels.sql.go come first.
\<close>

section \<open>Queries\<close>

definition q_CreateChannel ::
    "env \<Rightarrow> uuid \<Rightarrow> string \<Rightarrow> int \<Rightarrow> string \<Rightarrow> int \<Rightarrow> uuid option \<Rightarrow> world \<Rightarrow> dberr + (Channel \<times> world)" where
  "q_CreateChannel e guildID name ty topic position parentID w =
     run_stmt e
       (if \<not> guild_row w guildID \<or> (case parentID of None \<Rightarrow> False | Some p \<Rightarrow> \<not> channel_row w p)
        then Inl FkViolation
        else if channel_row w (fresh e []) then Inl UniqueViolation
        else let c = \<lparr>c_id = fresh e [], c_guild_id = Some guildID, c_name = name, c_type = ty,
                      c_topic = topic, c_position = position, c_parent_id = parentID, c_deleted = False,
                      c_updated_at = clock e []\<rparr>
             in Inr (c, w\<lparr>channels := channels w @ [c]\<rparr>))"

definition q_CreateDMChannel :: "env \<Rightarrow> string \<Rightarrow> int \<Rightarrow> world \<Rightarrow> dberr + (Channel \<times> world)" where
  "q_CreateDMChannel e name ty w =
     run_stmt e
       (if channel_row w (fresh e []) then Inl UniqueViolation
        else let c = \<lparr>c_id = fresh e [], c_guild_id = None, c_name = name, c_type = ty,
                      c_topic = [], c_position = 0, c_parent_id = None, c_deleted = False,
                      c_updated_at = clock e []\<rparr>
             in Inr (c, w\<lparr>channels := channels w @ [c]\<rparr>))"

definition live_channel :: "world \<Rightarrow> uuid \<Rightarrow> Channel option" where
  "live_channel w c = find (\<lambda>x. c_id x = c \<and> \<not> c_deleted x) (channels w)"

definition q_GetChannelByID :: "env \<Rightarrow> uuid \<Rightarrow> world \<Rightarrow> dberr + Channel" where
  "q_GetChannelByID e c w = run_stmt e (one_row (live_channel w c))"

definition q_DeleteChannel :: "env \<Rightarrow> uuid \<Rightarrow> world \<Rightarrow> dberr + world" where
  "q_DeleteChannel e c w =
     run_stmt e (Inr (w\<lparr>channels := update_where (\<lambda>x. c_id x = c)
       (\<lambda>x. x\<lparr>c_deleted := True, c_updated_at := clock e []\<rparr>) (channels w)\<rparr>))"

record UpdateChannelParams =
  uc_ID :: uuid
  uc_Name :: "string option"
  uc_Topic :: "string option"
  uc_Position :: "int option"
  uc_ParentID :: "uuid option"

definition q_UpdateChannel :: "env \<Rightarrow> UpdateChannelParams \<Rightarrow> world \<Rightarrow> dberr + (Channel \<times> world)" where
  "q_UpdateChannel e params w =
     run_stmt e
       (case update_returning (\<lambda>x. c_id x = uc_ID params)
               (\<lambda>x. x\<lparr>c_name := coalesce (uc_Name params) (c_name x),
                      c_topic := coalesce (uc_Topic params) (c_topic x),
                      c_position := coalesce (uc_Position params) (c_position x),
                      c_parent_id := (case uc_ParentID params of None \<Rightarrow> c_parent_id x | Some p \<Rightarrow> Some p)\<rparr>)
               (channels w) of
          Inl x \<Rightarrow> Inl x
        | Inr (c, cs) \<Rightarrow>
            if (case uc_ParentID params of None \<Rightarrow> False | Some p \<Rightarrow> \<not> channel_row w p) then Inl FkViolation
            else Inr (c, w\<lparr>channels := cs\<rparr>))"

definition dm_on :: "time \<Rightarrow> uuid \<times> uuid \<Rightarrow> DmChannelMember list \<Rightarrow> DmChannelMember list" where
  "dm_on now k t =
     upsert (\<lambda>m. (dm_channel_id m, dm_user_id m) = k) (\<lambda>m. m\<lparr>dm_deleted := False, dm_updated_at := now\<rparr>)
       \<lparr>dm_channel_id = fst k, dm_user_id = snd k, dm_deleted = False, dm_updated_at = now\<rparr> t"

definition dm_off :: "time \<Rightarrow> uuid \<times> uuid \<Rightarrow> DmChannelMember list \<Rightarrow> DmChannelMember list" where
  "dm_off now k t = update_where (\<lambda>m. (dm_channel_id m, dm_user_id m) = k)
     (\<lambda>m. m\<lparr>dm_deleted := True, dm_updated_at := now\<rparr>) t"

interpretation dm: soft_table live_dm_member dm_on dm_off
proof
  fix a :: time and k k' t
  show "live_dm_member (dm_on a k t) k' \<longleftrightarrow> k' = k \<or> live_dm_member t k'"
    unfolding live_dm_member_def dm_on_def
    by (simp add: live_upsert_key [where key = "\<lambda>m. (dm_channel_id m, dm_user_id m)"])
next
  fix b :: time and k k' t
  show "live_dm_member (dm_off b k t) k' \<longleftrightarrow> k' \<noteq> k \<and> live_dm_member t k'"
    unfolding live_dm_member_def dm_off_def
    by (simp add: live_update_key [where key = "\<lambda>m. (dm_channel_id m, dm_user_id m)"])
qed

definition q_AddDMChannelMember :: "env \<Rightarrow> uuid \<Rightarrow> uuid \<Rightarrow> world \<Rightarrow> dberr + world" where
  "q_AddDMChannelMember e c u w =
     run_stmt e (if \<not> channel_row w c \<or> \<not> user_row w u then Inl FkViolation
       else Inr (w\<lparr>dm_channel_members := dm_on (clock e []) (c, u) (dm_channel_members w)\<rparr>))"

definition q_RemoveDMChannelMember :: "env \<Rightarrow> uuid \<Rightarrow> uuid \<Rightarrow> world \<Rightarrow> dberr + world" where
  "q_RemoveDMChannelMember e c u w =
     run_stmt e (Inr (w\<lparr>dm_channel_members := dm_off (clock e []) (c, u) (dm_channel_members w)\<rparr>))"

definition q_IsDMChannelMember :: "env \<Rightarrow> uuid \<Rightarrow> uuid \<Rightarrow> world \<Rightarrow> dberr + bool" where
  "q_IsDMChannelMember e c u w = run_stmt e (Inr (live_dm_member (dm_channel_members w) (c, u)))"

definition q_GetDMChannelMembers :: "env \<Rightarrow> uuid \<Rightarrow> world \<Rightarrow> dberr + uuid list" where
  "q_GetDMChannelMembers e c w =
     run_stmt e (Inr (map dm_user_id (filter (\<lambda>m. dm_channel_id m = c \<and> \<not> dm_deleted m) (dm_channel_members w))))"

text \<open>The rows of GetDMChannelMemberProfiles are users; the service reads five of the columns.\<close>

definition q_GetDMChannelMemberProfiles :: "env \<Rightarrow> uuid \<Rightarrow> world \<Rightarrow> dberr + User list" where
  "q_GetDMChannelMemberProfiles e c w =
     run_stmt e (Inr [u. m \<leftarrow> dm_channel_members w, dm_channel_id m = c \<and> \<not> dm_deleted m,
                         u \<leftarrow> users w, u_id u = dm_user_id m \<and> \<not> u_deleted u])"

definition q_ListDMChannels :: "env \<Rightarrow> uuid \<Rightarrow> world \<Rightarrow> dberr + Channel list" where
  "q_ListDMChannels e u w =
     run_stmt e (Inr [c. c \<leftarrow> channels w, (c_type c = 5 \<or> c_type c = 6) \<and> \<not> c_deleted c,
                         m \<leftarrow> dm_channel_members w,
                         dm_channel_id m = c_id c \<and> dm_user_id m = u \<and> \<not> dm_deleted m])"

definition q_GetDMChannelBetweenUsers :: "env \<Rightarrow> uuid \<Rightarrow> uuid \<Rightarrow> world \<Rightarrow> dberr + Channel" where
  "q_GetDMChannelBetweenUsers e u1 u2 w =
     run_stmt e (one_row (find (\<lambda>c. c_type c = 5 \<and> \<not> c_deleted c \<and>
       live_dm_member (dm_channel_members w) (c_id c, u1) \<and>
       live_dm_member (dm_channel_members w) (c_id c, u2)) (channels w)))"

section \<open>Errors and text of identifiers\<close>

datatype channel_error =
    ErrChannelNotFound | ErrGuildIDRequired | ErrNameRequired | ChErrNotGuildMember
  | ErrInvalidChannelType | ErrRecipientRequired | ErrInvalidUUID | ChErrInsufficientPermissions
  | ErrNotGroupDM | ErrNotDMChannelMember | ErrAlreadyDMChannelMember
  | OverridesOnlyOnGuildChannels | UnknownPermission string | InvalidParentID
  | ChFailed string dberr | ChAuthz azerr | ChDb dberr

text \<open>uuidToString prints the bytes with %08x-%04x-%04x-%04x-%012x, empty for NULL.\<close>

definition uuidToString :: "uuid option \<Rightarrow> string" where
  "uuidToString u = (case u of None \<Rightarrow> [] | Some x \<Rightarrow> uuid_text x)"

section \<open>Overrides\<close>

definition broadcastChannelChange :: "env \<Rightarrow> string \<Rightarrow> string \<Rightarrow> string \<Rightarrow> int \<Rightarrow> world \<Rightarrow> world" where
  "broadcastChannelChange e guildID channelID name channelType w =
     (if lpb_nil e then w
      else Publish (GuildEvents guildID)
        (GuildEvt ((guild_event GUILD_EVENT_CHANNEL_UPDATE guildID)\<lparr>ge_ChannelId := channelID,
           ge_Name := name, ge_Type := channelType\<rparr>)) w)"

definition SetChannelOverride ::
    "env \<Rightarrow> string \<Rightarrow> string \<Rightarrow> string \<Rightarrow> string \<Rightarrow> string \<Rightarrow> string \<Rightarrow> world \<Rightarrow>
     (channel_error + unit) \<times> world" where
  "SetChannelOverride e userID channelID targetType targetID permission effect w =
     (case parseUUID e channelID of
        None \<Rightarrow> (Inl ErrInvalidUUID, w)
      | Some chUUID \<Rightarrow>
          (case q_GetChannelByID (at e 0) chUUID w of
             Inl _ \<Rightarrow> (Inl ErrChannelNotFound, w)
           | Inr ch \<Rightarrow>
               if c_guild_id ch = None then (Inl OverridesOnlyOnGuildChannels, w)
               else let guildID = uuidToString (c_guild_id ch) in
                 if \<not> CanManageChannels (at e 1) userID guildID w then (Inl ChErrInsufficientPermissions, w)
                 else (case map_of PermissionRelation permission of
                    None \<Rightarrow> (Inl (UnknownPermission permission), w)
                  | Some relation \<Rightarrow>
                      (case Authz_SetChannelOverride (at e 2) channelID targetType targetID relation effect w of
                         (Inl x, w1) \<Rightarrow> (Inl (ChAuthz x), w1)
                       | (Inr _, w1) \<Rightarrow>
                           (Inr (), broadcastChannelChange e guildID channelID (c_name ch) (c_type ch) w1)))))"

definition DeleteChannelOverride ::
    "env \<Rightarrow> string \<Rightarrow> string \<Rightarrow> string \<Rightarrow> string \<Rightarrow> string \<Rightarrow> world \<Rightarrow>
     (channel_error + unit) \<times> world" where
  "DeleteChannelOverride e userID channelID targetType targetID permission w =
     (case parseUUID e channelID of
        None \<Rightarrow> (Inl ErrInvalidUUID, w)
      | Some chUUID \<Rightarrow>
          (case q_GetChannelByID (at e 0) chUUID w of
             Inl _ \<Rightarrow> (Inl ErrChannelNotFound, w)
           | Inr ch \<Rightarrow>
               if c_guild_id ch = None then (Inl OverridesOnlyOnGuildChannels, w)
               else let guildID = uuidToString (c_guild_id ch) in
                 if \<not> CanManageChannels (at e 1) userID guildID w then (Inl ChErrInsufficientPermissions, w)
                 else (case map_of PermissionRelation permission of
                    None \<Rightarrow> (Inl (UnknownPermission permission), w)
                  | Some relation \<Rightarrow>
                      (case Authz_DeleteChannelOverride (at e 2) channelID targetType targetID relation w of
                         (Inl x, w1) \<Rightarrow> (Inl (ChAuthz x), w1)
                       | (Inr _, w1) \<Rightarrow>
                           (Inr (), broadcastChannelChange e guildID channelID (c_name ch) (c_type ch) w1)))))"

definition ListChannelOverrides ::
    "env \<Rightarrow> string \<Rightarrow> string \<Rightarrow> world \<Rightarrow> (channel_error + ChannelOverride list) \<times> world" where
  "ListChannelOverrides e userID channelID w =
     (case CanViewChannel (at e 0) userID channelID w of
        (False, w1) \<Rightarrow> (Inl ChErrInsufficientPermissions, w1)
      | (True, w1) \<Rightarrow>
          (case Authz_ListChannelOverrides (at e 1) channelID w1 of
             Inl x \<Rightarrow> (Inl (ChAuthz x), w1)
           | Inr l \<Rightarrow> (Inr l, w1)))"

section \<open>Guild channels\<close>

text \<open>The guild event of a channel: Event is set, Action keeps its zero value.\<close>

definition channel_event :: "GuildEventType \<Rightarrow> string \<Rightarrow> Channel \<Rightarrow> GuildEvent" where
  "channel_event ty gid ch =
     (guild_event ty gid)\<lparr>ge_Action := GUILD_EVENT_UNSPECIFIED, ge_ChannelId := uuidToString (Some (c_id ch)),
        ge_Name := c_name ch, ge_Type := c_type ch, ge_Topic := c_topic ch, ge_Position := c_position ch,
        ge_ParentId := uuidToString (c_parent_id ch)\<rparr>"

definition CreateChannel ::
    "env \<Rightarrow> string \<Rightarrow> string \<Rightarrow> string \<Rightarrow> int \<Rightarrow> string \<Rightarrow> string \<Rightarrow> world \<Rightarrow>
     (channel_error + Channel) \<times> world" where
  "CreateChannel e userID guildID name channelType topic parentID w =
     (if name = [] then (Inl ErrNameRequired, w)
      else case parseUUID e guildID of
        None \<Rightarrow> (Inl ErrGuildIDRequired, w)
      | Some guildUUID \<Rightarrow>
          (case parseUUID e userID of
             None \<Rightarrow> (Inl ErrInvalidUUID, w)
           | Some userUUID \<Rightarrow>
               if \<not> is_ok (q_GetGuildMember (at e 0) guildUUID userUUID w) then (Inl ChErrNotGuildMember, w)
               else if \<not> CanManageChannels (at e 1) userID guildID w then (Inl ChErrInsufficientPermissions, w)
               else if parentID \<noteq> [] \<and> parseUUID e parentID = None then (Inl InvalidParentID, w)
               else let parent = (if parentID = [] then None else parseUUID e parentID) in
                 (case q_CreateChannel (at e 2) guildUUID name channelType topic 0 parent w of
                    Inl x \<Rightarrow> (Inl (ChFailed ''failed to create channel'' x), w)
                  | Inr (ch, w1) \<Rightarrow>
                      (Inr ch, Publish (GuildEvents guildID)
                         (GuildEvt (channel_event GUILD_EVENT_CHANNEL_CREATE guildID ch)) w1))))"

definition GetChannel :: "env \<Rightarrow> string \<Rightarrow> world \<Rightarrow> channel_error + Channel" where
  "GetChannel e channelID w =
     (case parseUUID e channelID of
        None \<Rightarrow> Inl ErrInvalidUUID
      | Some c \<Rightarrow>
          (case q_GetChannelByID e c w of Inl _ \<Rightarrow> Inl ErrChannelNotFound | Inr ch \<Rightarrow> Inr ch))"

definition UpdateChannel ::
    "env \<Rightarrow> string \<Rightarrow> string \<Rightarrow> string option \<Rightarrow> string option \<Rightarrow> int option \<Rightarrow> string option \<Rightarrow>
     world \<Rightarrow> (channel_error + Channel) \<times> world" where
  "UpdateChannel e userID channelID name topic position parentID w =
     (case parseUUID e channelID of
        None \<Rightarrow> (Inl ErrInvalidUUID, w)
      | Some c \<Rightarrow>
          (case q_GetChannelByID (at e 0) c w of
             Inl _ \<Rightarrow> (Inl ErrChannelNotFound, w)
           | Inr existing \<Rightarrow>
               if c_guild_id existing \<noteq> None \<and>
                  \<not> CanManageChannels (at e 1) userID (uuidToString (c_guild_id existing)) w
               then (Inl ChErrInsufficientPermissions, w)
               else (case (case parentID of None \<Rightarrow> Some None
                           | Some p \<Rightarrow> map_option Some (parseUUID e p)) of
                  None \<Rightarrow> (Inl InvalidParentID, w)
                | Some parent \<Rightarrow>
                    (case q_UpdateChannel (at e 2) \<lparr>uc_ID = c, uc_Name = name, uc_Topic = topic,
                            uc_Position = position, uc_ParentID = parent\<rparr> w of
                       Inl x \<Rightarrow> (Inl (ChFailed ''failed to update channel'' x), w)
                     | Inr (ch, w1) \<Rightarrow>
                         (Inr ch,
                          if c_guild_id ch \<noteq> None
                          then let gid = uuidToString (c_guild_id ch) in
                            Publish (GuildEvents gid) (GuildEvt (channel_event GUILD_EVENT_CHANNEL_UPDATE gid ch)) w1
                          else w1)))))"

definition ListGuildChannels :: "env \<Rightarrow> string \<Rightarrow> world \<Rightarrow> channel_error + Channel list" where
  "ListGuildChannels e guildID w =
     (case parseUUID e guildID of
        None \<Rightarrow> Inl ErrInvalidUUID
      | Some g \<Rightarrow>
          (case q_ListGuildChannels e g w of
             Inl x \<Rightarrow> Inl (ChFailed ''failed to list guild channels'' x)
           | Inr cs \<Rightarrow> Inr cs))"


section \<open>Direct messages and groups\<close>

definition dmChannelMemberIDs :: "env \<Rightarrow> uuid \<Rightarrow> world \<Rightarrow> string list" where
  "dmChannelMemberIDs e c w =
     (case q_GetDMChannelMembers e c w of Inl _ \<Rightarrow> [] | Inr us \<Rightarrow> map (\<lambda>u. uuidToString (Some u)) us)"

definition publishDMChannelEvent ::
    "env \<Rightarrow> ChannelLifecycleType \<Rightarrow> Channel \<Rightarrow> string list \<Rightarrow> world \<Rightarrow> world" where
  "publishDMChannelEvent e eventType ch memberIDs w =
     (if lpb_nil e then w
      else case (if eventType \<noteq> CHANNEL_LIFECYCLE_DELETE
                 then q_GetDMChannelMemberProfiles e (c_id ch) w else Inr []) of
        Inl _ \<Rightarrow> w
      | Inr profiles \<Rightarrow>
          (let payload = \<lparr>dce_Type = eventType, dce_Id = uuidToString (Some (c_id ch)), dce_Name = c_name ch,
                 dce_ChannelType = c_type ch,
                 dce_Members = map (\<lambda>p. \<lparr>dcm_Id = uuidToString (Some (u_id p)), dcm_Username = u_username p,
                   dcm_DisplayName = u_display_name p, dcm_AvatarUrl = u_avatar_url p,
                   dcm_Status = u_status p\<rparr>) profiles\<rparr>
           in fold (\<lambda>mid. Publish (DmChannels mid) (DmChannelEvt payload)) memberIDs w))"

definition publishDMChannelCreated :: "env \<Rightarrow> Channel \<Rightarrow> string list \<Rightarrow> world \<Rightarrow> world" where
  "publishDMChannelCreated e ch memberIDs w =
     publishDMChannelEvent e CHANNEL_LIFECYCLE_CREATE ch memberIDs w"

definition DeleteChannel :: "env \<Rightarrow> string \<Rightarrow> string \<Rightarrow> world \<Rightarrow> (channel_error + unit) \<times> world" where
  "DeleteChannel e userID channelID w =
     (case parseUUID e channelID of
        None \<Rightarrow> (Inl ErrInvalidUUID, w)
      | Some c \<Rightarrow>
          (case q_GetChannelByID (at e 0) c w of
             Inl _ \<Rightarrow> (Inl ErrChannelNotFound, w)
           | Inr ch \<Rightarrow>
               if c_guild_id ch \<noteq> None \<and>
                  \<not> CanManageChannels (at e 1) userID (uuidToString (c_guild_id ch)) w
               then (Inl ChErrInsufficientPermissions, w)
               else let isDM = (c_guild_id ch = None \<and> (c_type ch = 5 \<or> c_type ch = 6));
                        dmMembers = (if isDM then dmChannelMemberIDs (at e 2) c w else [])
                 in (case q_DeleteChannel (at e 3) c w of
                    Inl x \<Rightarrow> (Inl (ChFailed ''failed to delete channel'' x), w)
                  | Inr w1 \<Rightarrow>
                      (let w2 = (if c_guild_id ch \<noteq> None
                                 then let gid = uuidToString (c_guild_id ch) in
                                   Publish (GuildEvents gid)
                                     (GuildEvt ((guild_event GUILD_EVENT_CHANNEL_DELETE gid)
                                        \<lparr>ge_Action := GUILD_EVENT_UNSPECIFIED, ge_ChannelId := channelID\<rparr>)) w1
                                 else w1)
                       in (Inr (), if isDM then publishDMChannelEvent (at e 4) CHANNEL_LIFECYCLE_DELETE ch dmMembers w2
                                   else w2)))))"

text \<open>The loop that adds the recipients; the statement of recipient i is at site i.\<close>

fun add_recipients ::
    "env \<Rightarrow> nat \<Rightarrow> uuid \<Rightarrow> string list \<Rightarrow> world \<Rightarrow> (channel_error + unit) \<times> world" where
  "add_recipients e i c [] w = (Inr (), w)"
| "add_recipients e i c (rid # rids) w =
     (case parseUUID e rid of
        None \<Rightarrow> (Inl ErrInvalidUUID, w)
      | Some r \<Rightarrow>
          (case q_AddDMChannelMember (at e i) c r w of
             Inl x \<Rightarrow> (Inl (ChFailed ''failed to add recipient to DM channel'' x), w)
           | Inr w1 \<Rightarrow> add_recipients e (i + 1) c rids w1))"

definition new_dm_channel ::
    "env \<Rightarrow> string \<Rightarrow> uuid \<Rightarrow> string list \<Rightarrow> world \<Rightarrow> (channel_error + Channel) \<times> world" where
  "new_dm_channel e userID userUUID recipientIDs w =
     (case q_CreateDMChannel (at e 1) ''DM'' (if 1 < length recipientIDs then 6 else 5) w of
        Inl x \<Rightarrow> (Inl (ChFailed ''failed to create DM channel'' x), w)
      | Inr (ch, w1) \<Rightarrow>
          (case q_AddDMChannelMember (at e 2) (c_id ch) userUUID w1 of
             Inl x \<Rightarrow> (Inl (ChFailed ''failed to add creator to DM channel'' x), w1)
           | Inr w2 \<Rightarrow>
               (case add_recipients (at e 3) 0 (c_id ch) recipientIDs w2 of
                  (Inl x, w3) \<Rightarrow> (Inl x, w3)
                | (Inr _, w3) \<Rightarrow> (Inr ch, publishDMChannelCreated (at e 4) ch (userID # recipientIDs) w3))))"

definition CreateDMChannel ::
    "env \<Rightarrow> string \<Rightarrow> string list \<Rightarrow> world \<Rightarrow> (channel_error + Channel) \<times> world" where
  "CreateDMChannel e userID recipientIDs w =
     (if recipientIDs = [] then (Inl ErrRecipientRequired, w)
      else case parseUUID e userID of
        None \<Rightarrow> (Inl ErrInvalidUUID, w)
      | Some userUUID \<Rightarrow>
          if length recipientIDs = 1 then
            (case parseUUID e (hd recipientIDs) of
               None \<Rightarrow> (Inl ErrInvalidUUID, w)
             | Some recipientUUID \<Rightarrow>
                 (case q_GetDMChannelBetweenUsers (at e 0) userUUID recipientUUID w of
                    Inr existing \<Rightarrow> (Inr existing, w)
                  | Inl _ \<Rightarrow> new_dm_channel e userID userUUID recipientIDs w))
          else new_dm_channel e userID userUUID recipientIDs w)"

definition ListDMChannels :: "env \<Rightarrow> string \<Rightarrow> world \<Rightarrow> channel_error + Channel list" where
  "ListDMChannels e userID w =
     (case parseUUID e userID of
        None \<Rightarrow> Inl ErrInvalidUUID
      | Some u \<Rightarrow>
          (case q_ListDMChannels e u w of
             Inl x \<Rightarrow> Inl (ChFailed ''failed to list DM channels'' x)
           | Inr cs \<Rightarrow> Inr cs))"

definition ListDMChannelMembers :: "env \<Rightarrow> string \<Rightarrow> string \<Rightarrow> world \<Rightarrow> channel_error + User list" where
  "ListDMChannelMembers e callerID channelID w =
     (case parseUUID e channelID of
        None \<Rightarrow> Inl ErrInvalidUUID
      | Some c \<Rightarrow>
          (case parseUUID e callerID of
             None \<Rightarrow> Inl ErrInvalidUUID
           | Some u \<Rightarrow>
               (case q_IsDMChannelMember (at e 0) c u w of
                  Inl x \<Rightarrow> Inl (ChFailed ''failed to check membership'' x)
                | Inr isMember \<Rightarrow>
                    if \<not> isMember then Inl ErrNotDMChannelMember
                    else (case q_GetDMChannelMemberProfiles (at e 1) c w of
                       Inl x \<Rightarrow> Inl (ChDb x) | Inr us \<Rightarrow> Inr us))))"

record DMChannelWithMembers =
  dw_Channel :: Channel
  dw_Members :: "User list"

fun load_members ::
    "env \<Rightarrow> nat \<Rightarrow> Channel list \<Rightarrow> world \<Rightarrow> channel_error + DMChannelWithMembers list" where
  "load_members e i [] w = Inr []"
| "load_members e i (ch # chs) w =
     (case q_GetDMChannelMemberProfiles (at e i) (c_id ch) w of
        Inl x \<Rightarrow> Inl (ChFailed ''failed to load members for channel'' x)
      | Inr us \<Rightarrow>
          (case load_members e (i + 1) chs w of
             Inl x \<Rightarrow> Inl x
           | Inr rest \<Rightarrow> Inr (\<lparr>dw_Channel = ch, dw_Members = us\<rparr> # rest)))"

definition ListDMChannelsWithMembers ::
    "env \<Rightarrow> string \<Rightarrow> world \<Rightarrow> channel_error + DMChannelWithMembers list" where
  "ListDMChannelsWithMembers e userID w =
     (case parseUUID e userID of
        None \<Rightarrow> Inl ErrInvalidUUID
      | Some u \<Rightarrow>
          (case q_ListDMChannels (at e 0) u w of
             Inl x \<Rightarrow> Inl (ChFailed ''failed to list DM channels'' x)
           | Inr cs \<Rightarrow> load_members (at e 1) 0 cs w))"

definition AddDMGroupMember ::
    "env \<Rightarrow> string \<Rightarrow> string \<Rightarrow> string \<Rightarrow> world \<Rightarrow> (channel_error + unit) \<times> world" where
  "AddDMGroupMember e callerID channelID userID w =
     (case parseUUID e channelID of
        None \<Rightarrow> (Inl ErrInvalidUUID, w)
      | Some c \<Rightarrow>
          (case q_GetChannelByID (at e 0) c w of
             Inl _ \<Rightarrow> (Inl ErrChannelNotFound, w)
           | Inr ch \<Rightarrow>
               if c_type ch \<noteq> 6 then (Inl ErrNotGroupDM, w)
               else (case parseUUID e callerID of
                  None \<Rightarrow> (Inl ErrInvalidUUID, w)
                | Some caller \<Rightarrow>
                    if q_IsDMChannelMember (at e 1) c caller w \<noteq> Inr True then (Inl ErrNotDMChannelMember, w)
                    else (case parseUUID e userID of
                       None \<Rightarrow> (Inl ErrInvalidUUID, w)
                     | Some target \<Rightarrow>
                         if q_IsDMChannelMember (at e 2) c target w = Inr True
                         then (Inl ErrAlreadyDMChannelMember, w)
                         else (case q_AddDMChannelMember (at e 3) c target w of
                            Inl x \<Rightarrow> (Inl (ChFailed ''failed to add member to group DM'' x), w)
                          | Inr w1 \<Rightarrow>
                              (Inr (), publishDMChannelEvent (at e 5) CHANNEL_LIFECYCLE_UPDATE ch
                                 (dmChannelMemberIDs (at e 4) c w1) w1))))))"

definition RemoveDMGroupMember ::
    "env \<Rightarrow> string \<Rightarrow> string \<Rightarrow> string \<Rightarrow> world \<Rightarrow> (channel_error + unit) \<times> world" where
  "RemoveDMGroupMember e callerID channelID userID w =
     (case parseUUID e channelID of
        None \<Rightarrow> (Inl ErrInvalidUUID, w)
      | Some c \<Rightarrow>
          (case q_GetChannelByID (at e 0) c w of
             Inl _ \<Rightarrow> (Inl ErrChannelNotFound, w)
           | Inr ch \<Rightarrow>
               if c_type ch \<noteq> 6 then (Inl ErrNotGroupDM, w)
               else (case parseUUID e callerID of
                  None \<Rightarrow> (Inl ErrInvalidUUID, w)
                | Some caller \<Rightarrow>
                    if q_IsDMChannelMember (at e 1) c caller w \<noteq> Inr True then (Inl ErrNotDMChannelMember, w)
                    else (case parseUUID e userID of
                       None \<Rightarrow> (Inl ErrInvalidUUID, w)
                     | Some target \<Rightarrow>
                         if q_IsDMChannelMember (at e 2) c target w \<noteq> Inr True
                         then (Inl ErrNotDMChannelMember, w)
                         else let beforeMembers = dmChannelMemberIDs (at e 3) c w in
                           (case q_RemoveDMChannelMember (at e 4) c target w of
                              Inl x \<Rightarrow> (Inl (ChFailed ''failed to remove member from group DM'' x), w)
                            | Inr w1 \<Rightarrow>
                                (Inr (), publishDMChannelEvent (at e 5) CHANNEL_LIFECYCLE_UPDATE ch
                                   beforeMembers w1))))))"

section \<open>Resolvers\<close>

definition GetOrCreateDMChannel ::
    "env \<Rightarrow> string \<Rightarrow> string list \<Rightarrow> world \<Rightarrow> (channel_error + string) \<times> world" where
  "GetOrCreateDMChannel e userID recipientIDs w =
     (case CreateDMChannel e userID recipientIDs w of
        (Inl x, w1) \<Rightarrow> (Inl x, w1)
      | (Inr ch, w1) \<Rightarrow> (Inr (uuidToString (Some (c_id ch))), w1))"

definition IsDMMember :: "env \<Rightarrow> string \<Rightarrow> string \<Rightarrow> world \<Rightarrow> channel_error + bool" where
  "IsDMMember e channelID userID w =
     (case parseUUID e channelID of
        None \<Rightarrow> Inl ErrInvalidUUID
      | Some c \<Rightarrow>
          (case parseUUID e userID of
             None \<Rightarrow> Inl ErrInvalidUUID
           | Some u \<Rightarrow>
               (case q_IsDMChannelMember e c u w of Inl x \<Rightarrow> Inl (ChDb x) | Inr b \<Rightarrow> Inr b)))"

definition DMMembers :: "env \<Rightarrow> string \<Rightarrow> world \<Rightarrow> channel_error + string list" where
  "DMMembers e channelID w =
     (case parseUUID e channelID of
        None \<Rightarrow> Inl ErrInvalidUUID
      | Some c \<Rightarrow> Inr (dmChannelMemberIDs e c w))"

definition GetChannelGuildID :: "env \<Rightarrow> string \<Rightarrow> world \<Rightarrow> string" where
  "GetChannelGuildID e channelID w =
     (case GetChannel e channelID w of Inl _ \<Rightarrow> [] | Inr ch \<Rightarrow> uuidToString (c_guild_id ch))"

definition GetDMChannelMemberIDs :: "env \<Rightarrow> string \<Rightarrow> world \<Rightarrow> channel_error + string list" where
  "GetDMChannelMemberIDs e channelID w =
     (case parseUUID e channelID of
        None \<Rightarrow> Inl ErrInvalidUUID
      | Some c \<Rightarrow>
          (case q_GetDMChannelMembers e c w of
             Inl x \<Rightarrow> Inl (ChDb x) | Inr us \<Rightarrow> Inr (map (\<lambda>u. uuidToString (Some u)) us)))"

definition GetUserDMChannelIDs :: "env \<Rightarrow> string \<Rightarrow> world \<Rightarrow> channel_error + string list" where
  "GetUserDMChannelIDs e userID w =
     (case parseUUID e userID of
        None \<Rightarrow> Inl ErrInvalidUUID
      | Some u \<Rightarrow>
          (case q_ListDMChannels e u w of
             Inl x \<Rightarrow> Inl (ChDb x) | Inr cs \<Rightarrow> Inr (map (\<lambda>c. uuidToString (Some (c_id c))) cs)))"

end
