(* ===== verification/ChannelLaws.thy ===== *)
theory ChannelLaws
  imports Channel
begin

text \<open>
  Properties of the channel service: who may change a guild channel, that a direct message
  between two users is opened once, what adding and removing group members does, and what a
  removed member can still reach.
\<close>

section \<open>Frames\<close>

lemma fold_Publish_frame [simp]:
  "channels (fold (\<lambda>m. Publish (f m) v) ms w) = channels w"
  "dm_channel_members (fold (\<lambda>m. Publish (f m) v) ms w) = dm_channel_members w"
  "users (fold (\<lambda>m. Publish (f m) v) ms w) = users w"
  "chanGuildCache (fold (\<lambda>m. Publish (f m) v) ms w) = chanGuildCache w"
  "data (fold (\<lambda>m. Publish (f m) v) ms w) = data w"
  by (induction ms arbitrary: w) simp_all

lemma publishDM_frame [simp]:
  "channels (publishDMChannelEvent e t ch ms w) = channels w"
  "dm_channel_members (publishDMChannelEvent e t ch ms w) = dm_channel_members w"
  "users (publishDMChannelEvent e t ch ms w) = users w"
  "chanGuildCache (publishDMChannelEvent e t ch ms w) = chanGuildCache w"
  "data (publishDMChannelEvent e t ch ms w) = data w"
  by (auto simp: publishDMChannelEvent_def Let_def split: sum.splits)

lemma q_GetChannelByID_Inr: "q_GetChannelByID e c w = Inr ch \<longleftrightarrow> \<not> fault e [] \<and> live_channel w c = Some ch"
  by (simp add: q_GetChannelByID_def run_stmt_Inr)

section \<open>Opening a direct message\<close>

definition dm_between :: "world \<Rightarrow> uuid \<Rightarrow> uuid \<Rightarrow> Channel option" where
  "dm_between w u r = find (\<lambda>c. c_type c = 5 \<and> \<not> c_deleted c \<and>
     live_dm_member (dm_channel_members w) (c_id c, u) \<and>
     live_dm_member (dm_channel_members w) (c_id c, r)) (channels w)"

lemma dm_between_sym: "dm_between w u r = dm_between w r u"
  unfolding dm_between_def by (rule arg_cong2 [where f = find]) auto

lemma q_GetDMChannelBetweenUsers_eq:
  "q_GetDMChannelBetweenUsers e u r w = run_stmt e (one_row (dm_between w u r))"
  by (simp add: q_GetDMChannelBetweenUsers_def dm_between_def)

lemma CreateDMChannel_existing:
  assumes "fault_free e" and "uuid_scan e us = Some u" and "uuid_scan e rs = Some r" and "dm_between w u r = Some ch"
  shows "CreateDMChannel e us [rs] w = (Inr ch, w)"
  using assms by (simp add: CreateDMChannel_def parseUUID_def q_GetDMChannelBetweenUsers_eq)

lemma AddDMChannelMember_Inr:
  assumes "q_AddDMChannelMember e c u w = Inr w'"
  shows "channels w' = channels w" "users w' = users w"
    "live_dm_member (dm_channel_members w') k \<longleftrightarrow> k = (c, u) \<or> live_dm_member (dm_channel_members w) k"
  using assms by (auto simp: q_AddDMChannelMember_def run_stmt_Inr dm.live_activate split: if_splits)

lemma new_dm_between:
  assumes "new_dm_channel e us u [rs] w = (Inr ch, w1)" and "uuid_scan e rs = Some r"
    and none: "dm_between w u r = None"
  shows "dm_between w1 u r = Some ch"
proof -
  from assms(1,2) obtain wa wb wc where
    mk: "q_CreateDMChannel (at e 1) ''DM'' 5 w = Inr (ch, wa)"
    and a: "q_AddDMChannelMember (at e 2) (c_id ch) u wa = Inr wb"
    and b: "q_AddDMChannelMember (at (at e 3) 0) (c_id ch) r wb = Inr wc"
    and w1: "w1 = publishDMChannelCreated (at e 4) ch [us, rs] wc"
    by (auto simp: new_dm_channel_def parseUUID_def split: sum.splits prod.splits if_splits option.splits)
  from mk have new: "\<not> channel_row w (c_id ch)" "c_type ch = 5" "\<not> c_deleted ch"
    and wa: "wa = w\<lparr>channels := channels w @ [ch]\<rparr>"
    by (auto simp: q_CreateDMChannel_def run_stmt_Inr Let_def split: if_splits)
  have live: "live_dm_member (dm_channel_members w1) k \<longleftrightarrow>
      k = (c_id ch, u) \<or> k = (c_id ch, r) \<or> live_dm_member (dm_channel_members w) k" for k
    using AddDMChannelMember_Inr(3) [OF a, of k] AddDMChannelMember_Inr(3) [OF b, of k]
    by (auto simp: w1 publishDMChannelCreated_def wa)
  have chs: "channels w1 = channels w @ [ch]"
    using AddDMChannelMember_Inr(1) [OF a] AddDMChannelMember_Inr(1) [OF b]
    by (simp add: w1 publishDMChannelCreated_def wa)
  have "c_id x \<noteq> c_id ch" if "x \<in> set (channels w)" for x
    using that new(1) by (auto simp: channel_row_def list_ex_iff)
  then have "find (\<lambda>c. c_type c = 5 \<and> \<not> c_deleted c \<and> live_dm_member (dm_channel_members w1) (c_id c, u) \<and>
      live_dm_member (dm_channel_members w1) (c_id c, r)) (channels w) = None"
    using none by (auto simp: dm_between_def find_None_set live)
  then show ?thesis using new(2,3) by (simp add: dm_between_def chs find_append_last live)
qed

text \<open>
  A direct message between two users is opened once. After a request to open one has succeeded
  without failing statements, asking again from either side returns the same channel and changes
  nothing.
\<close>

theorem CreateDMChannel_idempotent:
  assumes "fault_free e" and "fault_free e2" and "uuid_scan e2 = uuid_scan e"
    and ok: "CreateDMChannel e us [rs] w = (Inr ch, w1)"
  shows "CreateDMChannel e2 us [rs] w1 = (Inr ch, w1) \<and> CreateDMChannel e2 rs [us] w1 = (Inr ch, w1)"
proof -
  from ok obtain u r where ids: "uuid_scan e us = Some u" "uuid_scan e rs = Some r"
    by (auto simp: CreateDMChannel_def parseUUID_def split: option.splits)
  have "dm_between w1 u r = Some ch"
  proof (cases "dm_between w u r")
    case None
    then have "new_dm_channel e us u [rs] w = (Inr ch, w1)"
      using ok ids assms(1) by (simp add: CreateDMChannel_def parseUUID_def q_GetDMChannelBetweenUsers_eq)
    then show ?thesis using ids(2) None by (rule new_dm_between)
  qed (use CreateDMChannel_existing [OF assms(1) ids] ok in simp)
  then show ?thesis
    using CreateDMChannel_existing [OF assms(2), of us u rs r w1 ch]
      CreateDMChannel_existing [OF assms(2), of rs r us u w1 ch] ids assms(3)
    by (simp add: dm_between_sym [of w1 r u])
qed

definition pair_world :: world where
  "pair_world = empty_world\<lparr>users := [one_user 5, one_user 6]\<rparr>"

theorem CreateDMChannel_idempotent_witness:
  "\<exists>ch w1. CreateDMChannel tenv (uuid_text 5) [uuid_text 6] pair_world = (Inr ch, w1) \<and>
     CreateDMChannel tenv (uuid_text 6) [uuid_text 5] w1 = (Inr ch, w1)"
proof -
  have "\<exists>ch w1. CreateDMChannel tenv (uuid_text 5) [uuid_text 6] pair_world = (Inr ch, w1)"
    by (simp add: CreateDMChannel_def parseUUID_def text_scan q_GetDMChannelBetweenUsers_def new_dm_channel_def
        q_CreateDMChannel_def q_AddDMChannelMember_def pair_world_def empty_world_def channel_row_def user_row_def
        one_user_def Let_def)
  then obtain ch w1 where "CreateDMChannel tenv (uuid_text 5) [uuid_text 6] pair_world = (Inr ch, w1)" by blast
  with CreateDMChannel_idempotent [OF _ _ _ this, of tenv] show ?thesis by auto
qed

text \<open>
  The search for an existing direct message does not ask that its two members differ: a user
  who asks for a direct message with themself is given, unchanged, one they already have with somebody.
\<close>

theorem CreateDMChannel_self:
  assumes "fault_free e" and "uuid_scan e us = Some u"
    and "c \<in> set (channels w)" and "c_type c = 5" and "\<not> c_deleted c"
    and "live_dm_member (dm_channel_members w) (c_id c, u)"
  shows "\<exists>ch\<in>set (channels w). CreateDMChannel e us [us] w = (Inr ch, w) \<and> c_type ch = 5 \<and>
    live_dm_member (dm_channel_members w) (c_id ch, u)"
proof -
  obtain ch where ch: "dm_between w u u = Some ch"
    using assms(3-6) by (cases "dm_between w u u") (auto simp: dm_between_def find_None_set)
  from find_SomeD [OF ch [unfolded dm_between_def]] CreateDMChannel_existing [OF assms(1,2,2) ch]
  show ?thesis by auto
qed

theorem CreateDMChannel_self_witness:
  "\<exists>ch\<in>set (channels chan_world). CreateDMChannel tenv (uuid_text 5) [uuid_text 5] chan_world = (Inr ch, chan_world) \<and>
     c_type ch = 5 \<and> live_dm_member (dm_channel_members chan_world) (c_id ch, 5)"
  by (rule CreateDMChannel_self [where c = "channels chan_world ! 1"])
    (simp_all add: text_scan chan_world_def empty_world_def live_dm_member_def)

section \<open>Group members\<close>

lemma q_IsDMChannelMember_ok [simp]:
  "fault_free e \<Longrightarrow> q_IsDMChannelMember (at e i) c u w = Inr b \<longleftrightarrow> live_dm_member (dm_channel_members w) (c, u) = b"
  by (simp add: q_IsDMChannelMember_def)

text \<open>
  Adding to and removing from a group. With no failing statement both are refused unless the channel
  is a live group and the caller is a member of it; adding needs a registered target who is not yet a
  member, removing one who is. The members afterwards are exactly those before with the target
  added or removed; no other channel is touched.
\<close>

theorem group_membership_effect:
  assumes "fault_free e" and "codec_ok e"
  shows "(is_ok (fst (AddDMGroupMember e (uuid_string e a) (uuid_string e c) (uuid_string e t) w)) \<longleftrightarrow>
      (\<exists>ch. live_channel w c = Some ch \<and> c_type ch = 6) \<and> live_dm_member (dm_channel_members w) (c, a) \<and>
      \<not> live_dm_member (dm_channel_members w) (c, t) \<and> user_row w t) \<and>
    (is_ok (fst (RemoveDMGroupMember e (uuid_string e a) (uuid_string e c) (uuid_string e t) w)) \<longleftrightarrow>
      (\<exists>ch. live_channel w c = Some ch \<and> c_type ch = 6) \<and> live_dm_member (dm_channel_members w) (c, a) \<and>
      live_dm_member (dm_channel_members w) (c, t)) \<and>
    (live_dm_member (dm_channel_members (snd (AddDMGroupMember e (uuid_string e a) (uuid_string e c) (uuid_string e t) w))) k \<longleftrightarrow>
      live_dm_member (dm_channel_members w) k \<or>
      is_ok (fst (AddDMGroupMember e (uuid_string e a) (uuid_string e c) (uuid_string e t) w)) \<and> k = (c, t)) \<and>
    (live_dm_member (dm_channel_members (snd (RemoveDMGroupMember e (uuid_string e a) (uuid_string e c) (uuid_string e t) w))) k \<longleftrightarrow>
      live_dm_member (dm_channel_members w) k \<and>
      \<not> (is_ok (fst (RemoveDMGroupMember e (uuid_string e a) (uuid_string e c) (uuid_string e t) w)) \<and> k = (c, t)))"
proof -
  have row: "channel_row w c" if "live_channel w c = Some ch" for ch
    using find_SomeD [OF that [unfolded live_channel_def]] by (auto simp: channel_row_def list_ex_iff)
  have add: "q_AddDMChannelMember (at e i) c t w =
      (if \<not> channel_row w c \<or> \<not> user_row w t then Inl FkViolation
       else Inr (w\<lparr>dm_channel_members := dm_on (clock e [i]) (c, t) (dm_channel_members w)\<rparr>))" for i
    using assms by (simp add: q_AddDMChannelMember_def)
  have rem: "q_RemoveDMChannelMember (at e i) c t w =
      Inr (w\<lparr>dm_channel_members := dm_off (clock e [i]) (c, t) (dm_channel_members w)\<rparr>)" for i
    using assms by (simp add: q_RemoveDMChannelMember_def)
  show ?thesis
  proof (cases "live_channel w c")
    case None
    with assms show ?thesis
      by (simp add: AddDMGroupMember_def RemoveDMGroupMember_def parseUUID_def q_GetChannelByID_def)
  next
    case (Some ch)
    with assms row [OF Some] show ?thesis
      by (intro conjI)
        (auto simp: AddDMGroupMember_def RemoveDMGroupMember_def parseUUID_def q_GetChannelByID_def add rem
          dm.live_activate dm.live_deactivate Let_def)
  qed
qed

text \<open>Channel 4 is a group of users 5 and 6.\<close>

definition group_world :: world where
  "group_world = pair_world\<lparr>
     channels := [\<lparr>c_id = 4, c_guild_id = None, c_name = ''DM'', c_type = 6, c_topic = [], c_position = 0,
                   c_parent_id = None, c_deleted = False, c_updated_at = 0\<rparr>],
     dm_channel_members := [\<lparr>dm_channel_id = 4, dm_user_id = 5, dm_deleted = False, dm_updated_at = 0\<rparr>,
                            \<lparr>dm_channel_id = 4, dm_user_id = 6, dm_deleted = False, dm_updated_at = 0\<rparr>]\<rparr>"

lemma group_world_facts:
  "live_channel group_world 4 = Some (hd (channels group_world))" "c_type (hd (channels group_world)) = 6"
  "c_guild_id (hd (channels group_world)) = None"
  "live_dm_member (dm_channel_members group_world) (4, 5)" "live_dm_member (dm_channel_members group_world) (4, 6)"
  by (simp_all add: group_world_def pair_world_def empty_world_def live_channel_def live_dm_member_def)

theorem group_membership_effect_witness:
  "is_ok (fst (RemoveDMGroupMember tenv (uuid_string tenv 5) (uuid_string tenv 4) (uuid_string tenv 6) group_world)) \<and>
   \<not> live_dm_member (dm_channel_members
      (snd (RemoveDMGroupMember tenv (uuid_string tenv 5) (uuid_string tenv 4) (uuid_string tenv 6) group_world))) (4, 6)"
  using group_membership_effect [of tenv 5 4 6 group_world "(4, 6)"] group_world_facts by auto

text \<open>
  Removal from a group takes effect at the permission layer. Once a member has been removed, a
  later check whether that user may send in the channel denies, unless the channel cache holds a
  wrong entry for it.
\<close>

theorem removed_member_locked_out:
  assumes "RemoveDMGroupMember e (uuid_string e a) (uuid_string e c) (uuid_string e t) w = (Inr (), w1)"
    and "codec_ok e" and "fault_free e2" and "codec_ok e2" and "\<not> authz_nil e2"
    and "live_channel w c = Some ch" and "c_guild_id ch = None"
    and "\<forall>ce. cache_hit (at (at e2 0) 0) (uuid_string e2 c) w1 = Some ce \<longrightarrow> ce_guildID ce = []"
  shows "\<not> fst (CanSendInChannel e2 (uuid_string e2 t) (uuid_string e2 c) w1)"
proof -
  from assms(1,2) obtain e' w0 where w0: "q_RemoveDMChannelMember e' c t w = Inr w0"
    and w1: "channels w1 = channels w0" "dm_channel_members w1 = dm_channel_members w0"
    by (auto simp: RemoveDMGroupMember_def parseUUID_def Let_def split: sum.splits if_splits)
  have "channels w1 = channels w" "\<not> live_dm_member (dm_channel_members w1) (c, t)"
    using w0 by (auto simp: w1 q_RemoveDMChannelMember_def run_stmt_Inr)
  with checkChannel_dm_eq [of e2 c w1 ch t "''can_send_messages''"] assms(3-8) show ?thesis
    by (simp add: CanSendInChannel_def live_channel_def)
qed

theorem removed_member_locked_out_witness:
  "\<not> fst (CanSendInChannel tenv (uuid_string tenv 6) (uuid_string tenv 4)
     (snd (RemoveDMGroupMember tenv (uuid_string tenv 5) (uuid_string tenv 4) (uuid_string tenv 6) group_world)))"
proof -
  obtain w1 where w1: "RemoveDMGroupMember tenv (uuid_string tenv 5) (uuid_string tenv 4) (uuid_string tenv 6) group_world
      = (Inr (), w1)" "chanGuildCache w1 = []"
    using group_world_facts
    by (simp add: RemoveDMGroupMember_def parseUUID_def q_GetChannelByID_def q_RemoveDMChannelMember_def Let_def)
      (simp add: group_world_def pair_world_def empty_world_def)
  show ?thesis
    using removed_member_locked_out [OF w1(1), of tenv "hd (channels group_world)"] group_world_facts w1(2)
    by (simp add: w1(1) cache_hit_def)
qed

section \<open>Who may change a channel\<close>

lemma CanManageChannels_text:
  assumes "codec_ok e" and "uuid_string e = uuid_text" and "\<not> authz_nil e"
  shows "CanManageChannels (at e i) (uuid_text u) (uuidToString (Some g)) w \<longleftrightarrow>
    \<not> fault e [i] \<and> permitted w u g ''MANAGE_CHANNELS''"
  using guild_tests(6) [of "at e i" u g w] assms by (simp add: uuidToString_def)

text \<open>
  Authorisation of guild channels, on every path. Creating a channel changes the state only for a
  member of the guild with MANAGE_CHANNELS; updating or deleting a channel, and setting or deleting
  an override on it, changes the state only when the channel is live and, if it belongs to a
  guild, the caller has MANAGE_CHANNELS in that guild.
\<close>

theorem channel_changes_authorised:
  assumes "codec_ok e" and "uuid_string e = uuid_text" and "\<not> authz_nil e"
  shows "(snd (CreateChannel e (uuid_text u) (uuid_text g) name ty topic parent w) \<noteq> w \<longrightarrow>
      is_member w g u \<and> permitted w u g ''MANAGE_CHANNELS'') \<and>
    (snd (UpdateChannel e (uuid_text u) (uuid_text c) nm tp pos par w) \<noteq> w \<longrightarrow>
      (\<exists>ch. live_channel w c = Some ch \<and> (\<forall>g. c_guild_id ch = Some g \<longrightarrow> permitted w u g ''MANAGE_CHANNELS''))) \<and>
    (snd (DeleteChannel e (uuid_text u) (uuid_text c) w) \<noteq> w \<longrightarrow>
      (\<exists>ch. live_channel w c = Some ch \<and> (\<forall>g. c_guild_id ch = Some g \<longrightarrow> permitted w u g ''MANAGE_CHANNELS''))) \<and>
    (snd (SetChannelOverride e (uuid_text u) (uuid_text c) tt tid perm eff w) \<noteq> w \<longrightarrow>
      (\<exists>ch g. live_channel w c = Some ch \<and> c_guild_id ch = Some g \<and> permitted w u g ''MANAGE_CHANNELS'')) \<and>
    (snd (DeleteChannelOverride e (uuid_text u) (uuid_text c) tt tid perm w) \<noteq> w \<longrightarrow>
      (\<exists>ch g. live_channel w c = Some ch \<and> c_guild_id ch = Some g \<and> permitted w u g ''MANAGE_CHANNELS''))"
proof -
  have scan: "uuid_scan e (uuid_text x) = Some x" for x
    using codec_okD [OF assms(1)] assms(2) by simp
  note can = CanManageChannels_text [OF assms]
  have "is_member w g u \<and> permitted w u g ''MANAGE_CHANNELS''"
    if "snd (CreateChannel e (uuid_text u) (uuid_text g) name ty topic parent w) \<noteq> w"
    using that can [of 1 u g w, unfolded uuidToString_def option.case]
    by (auto simp: CreateChannel_def parseUUID_def scan q_GetGuildMember_ok split: if_splits)
  moreover have "\<exists>ch. live_channel w c = Some ch \<and> (\<forall>g. c_guild_id ch = Some g \<longrightarrow> permitted w u g ''MANAGE_CHANNELS'')"
    if "snd (UpdateChannel e (uuid_text u) (uuid_text c) nm tp pos par w) \<noteq> w"
    using that can [of 1 u]
    by (auto simp: UpdateChannel_def parseUUID_def scan q_GetChannelByID_Inr split: sum.splits if_splits)
  moreover have "\<exists>ch. live_channel w c = Some ch \<and> (\<forall>g. c_guild_id ch = Some g \<longrightarrow> permitted w u g ''MANAGE_CHANNELS'')"
    if "snd (DeleteChannel e (uuid_text u) (uuid_text c) w) \<noteq> w"
    using that can [of 1 u]
    by (auto simp: DeleteChannel_def parseUUID_def scan q_GetChannelByID_Inr split: sum.splits if_splits)
  moreover have "\<exists>ch g. live_channel w c = Some ch \<and> c_guild_id ch = Some g \<and> permitted w u g ''MANAGE_CHANNELS''"
    if "snd (SetChannelOverride e (uuid_text u) (uuid_text c) tt tid perm eff w) \<noteq> w"
    using that can [of 1 u]
    by (auto simp: SetChannelOverride_def parseUUID_def scan q_GetChannelByID_Inr Let_def split: sum.splits if_splits)
  moreover have "\<exists>ch g. live_channel w c = Some ch \<and> c_guild_id ch = Some g \<and> permitted w u g ''MANAGE_CHANNELS''"
    if "snd (DeleteChannelOverride e (uuid_text u) (uuid_text c) tt tid perm w) \<noteq> w"
    using that can [of 1 u]
    by (auto simp: DeleteChannelOverride_def parseUUID_def scan q_GetChannelByID_Inr Let_def split: sum.splits if_splits)
  ultimately show ?thesis by blast
qed

theorem channel_changes_authorised_witness:
  "snd (DeleteChannel tenv (uuid_text 6) (uuid_text 2) chan_world) = chan_world"
proof -
  have "live_channel chan_world 2 = Some (hd (channels chan_world))" "c_guild_id (hd (channels chan_world)) = Some 1"
    by (simp_all add: chan_world_def empty_world_def live_channel_def)
  moreover have "\<not> permitted chan_world 6 1 ''MANAGE_CHANNELS''"
    by (simp add: permitted_def owns_guild_def role_names_def chan_world_def empty_world_def)
  moreover have "uuid_string tenv = uuid_text" by (simp add: text_env_def)
  ultimately show ?thesis using channel_changes_authorised [of tenv 6 _ _ _ _ _ chan_world 2] by auto
qed

text \<open>
  Channels without a guild are not guarded: when no statement fails, any caller can delete
  any live direct-message or group channel by its identifier, member or not.
\<close>

theorem DeleteChannel_dm_unguarded:
  assumes "fault_free e" and "uuid_scan e channelID = Some c"
    and "live_channel w c = Some ch" and "c_guild_id ch = None"
  shows "fst (DeleteChannel e userID channelID w) = Inr () \<and>
    live_channel (snd (DeleteChannel e userID channelID w)) c = None"
proof -
  have "find (\<lambda>x. c_id x = c \<and> \<not> c_deleted x) (update_where (\<lambda>x. c_id x = c) f cs) = None"
    if "\<And>x. c_deleted (f x)" for f :: "Channel \<Rightarrow> Channel" and cs
    using that by (induction cs) auto
  with assms show ?thesis
    by (simp add: DeleteChannel_def parseUUID_def q_GetChannelByID_def q_DeleteChannel_def live_channel_def Let_def)
qed

theorem DeleteChannel_dm_unguarded_witness:
  "live_channel (snd (DeleteChannel tenv (uuid_text 99) (uuid_text 4) group_world)) 4 = None"
  using DeleteChannel_dm_unguarded [of tenv "uuid_text 4" 4 group_world _ "uuid_text 99"] group_world_facts
  by (simp add: text_scan)

end
