(* ===== verification/Friends.thy ===== *)
theory Friends
  imports ChannelLaws
begin

text \<open>
  The user service, internal/features/user (service.go, repository.go, block_checker.go,
  friend_lookup.go): profiles, the choice of a username, friend requests, friends and blocks. A
  friendship is a row under the ordered pair (user_id, friend_id); the lookups and deletions of
  gen/db/friendships.sql.go treat the pair as unordered. The search of users is in UserApi.
\<close>

section \<open>Queries\<close>

definition live_friendship :: "world \<Rightarrow> uuid \<Rightarrow> uuid \<Rightarrow> Friendship option" where
  "live_friendship w a b =
     find (\<lambda>f. ((f_user_id f = a \<and> f_friend_id f = b) \<or> (f_user_id f = b \<and> f_friend_id f = a)) \<and>
               \<not> f_deleted f) (friendships w)"

definition q_GetFriendship :: "env \<Rightarrow> uuid \<Rightarrow> uuid \<Rightarrow> world \<Rightarrow> dberr + Friendship" where
  "q_GetFriendship e a b w = run_stmt e (one_row (live_friendship w a b))"

definition q_CreateFriendship :: "env \<Rightarrow> uuid \<Rightarrow> uuid \<Rightarrow> string \<Rightarrow> world \<Rightarrow> dberr + (Friendship \<times> world)" where
  "q_CreateFriendship e a b st w =
     run_stmt e
       (if \<not> user_row w a \<or> \<not> user_row w b then Inl FkViolation
        else let fs = upsert (\<lambda>f. (f_user_id f, f_friend_id f) = (a, b))
                 (\<lambda>f. f\<lparr>f_deleted := False, f_updated_at := clock e [], f_status := st\<rparr>)
                 \<lparr>f_user_id = a, f_friend_id = b, f_status = st, f_deleted = False, f_updated_at = clock e []\<rparr>
                 (friendships w)
             in Inr (\<lparr>f_user_id = a, f_friend_id = b, f_status = st, f_deleted = False, f_updated_at = clock e []\<rparr>,
                     w\<lparr>friendships := fs\<rparr>))"

definition q_DeleteFriendship :: "env \<Rightarrow> uuid \<Rightarrow> uuid \<Rightarrow> world \<Rightarrow> dberr + world" where
  "q_DeleteFriendship e a b w =
     run_stmt e (Inr (w\<lparr>friendships :=
       update_where (\<lambda>f. (f_user_id f = a \<and> f_friend_id f = b) \<or> (f_user_id f = b \<and> f_friend_id f = a))
         (\<lambda>f. f\<lparr>f_deleted := True, f_updated_at := clock e []\<rparr>) (friendships w)\<rparr>))"

definition q_UpdateFriendshipStatus ::
    "env \<Rightarrow> uuid \<Rightarrow> uuid \<Rightarrow> string \<Rightarrow> world \<Rightarrow> dberr + (Friendship \<times> world)" where
  "q_UpdateFriendshipStatus e a b st w =
     run_stmt e
       (case update_returning (\<lambda>f. f_user_id f = a \<and> f_friend_id f = b) (\<lambda>f. f\<lparr>f_status := st\<rparr>)
               (friendships w) of
          Inl x \<Rightarrow> Inl x
        | Inr (f, fs) \<Rightarrow> Inr (f, w\<lparr>friendships := fs\<rparr>))"

text \<open>
  ListFriends joins each friend with every dm_channel_members row of that friend (a LEFT JOIN, so
  a friend without one appears once): the rows it returns, as the service reads them.
\<close>

definition q_ListFriends :: "env \<Rightarrow> uuid \<Rightarrow> world \<Rightarrow> dberr + User list" where
  "q_ListFriends e uid w =
     run_stmt e (Inr [u. u \<leftarrow> users w,
       d \<leftarrow> (let ds = filter (\<lambda>m. dm_user_id m = u_id u) (dm_channel_members w) in
              if ds = [] then [None] else map Some ds),
       f \<leftarrow> friendships w,
       ((f_friend_id f = u_id u \<and> f_user_id f = uid) \<or> (f_user_id f = u_id u \<and> f_friend_id f = uid)) \<and>
       f_status f = ''accepted'' \<and> \<not> f_deleted f])"

definition q_ListPendingIncoming :: "env \<Rightarrow> uuid \<Rightarrow> world \<Rightarrow> dberr + (Friendship \<times> User) list" where
  "q_ListPendingIncoming e uid w =
     run_stmt e (Inr [(f, u). f \<leftarrow> friendships w, f_friend_id f = uid \<and> f_status f = ''pending'' \<and> \<not> f_deleted f,
                              u \<leftarrow> users w, u_id u = f_user_id f])"

definition q_ListPendingOutgoing :: "env \<Rightarrow> uuid \<Rightarrow> world \<Rightarrow> dberr + (Friendship \<times> User) list" where
  "q_ListPendingOutgoing e uid w =
     run_stmt e (Inr [(f, u). f \<leftarrow> friendships w, f_user_id f = uid \<and> f_status f = ''pending'' \<and> \<not> f_deleted f,
                              u \<leftarrow> users w, u_id u = f_friend_id f])"

definition q_ListBlocked :: "env \<Rightarrow> uuid \<Rightarrow> world \<Rightarrow> dberr + User list" where
  "q_ListBlocked e uid w =
     run_stmt e (Inr [u. u \<leftarrow> users w, f \<leftarrow> friendships w,
                         f_friend_id f = u_id u \<and> f_user_id f = uid \<and> f_status f = ''blocked'' \<and> \<not> f_deleted f])"

record UpdateUserParams =
  uu_ID :: uuid
  uu_Username :: "string option"
  uu_DisplayName :: "string option"
  uu_AvatarUrl :: "string option"
  uu_Bio :: "string option"
  uu_Status :: "string option"
  uu_BackgroundColor :: "string option"

definition user_update :: "uuid \<Rightarrow> UpdateUserParams" where
  "user_update uid = \<lparr>uu_ID = uid, uu_Username = None, uu_DisplayName = None, uu_AvatarUrl = None,
     uu_Bio = None, uu_Status = None, uu_BackgroundColor = None\<rparr>"

text \<open>users.username is UNIQUE: an update to a name that another row has is refused.\<close>

definition q_UpdateUser :: "env \<Rightarrow> UpdateUserParams \<Rightarrow> world \<Rightarrow> dberr + (User \<times> world)" where
  "q_UpdateUser e params w =
     run_stmt e
       (case update_returning (\<lambda>u. u_id u = uu_ID params)
               (\<lambda>u. u\<lparr>u_username := coalesce (uu_Username params) (u_username u),
                      u_display_name := coalesce (uu_DisplayName params) (u_display_name u),
                      u_avatar_url := coalesce (uu_AvatarUrl params) (u_avatar_url u),
                      u_bio := coalesce (uu_Bio params) (u_bio u),
                      u_status := coalesce (uu_Status params) (u_status u),
                      u_background_color := coalesce (uu_BackgroundColor params) (u_background_color u),
                      u_updated_at := clock e []\<rparr>)
               (users w) of
          Inl x \<Rightarrow> Inl x
        | Inr (u, us) \<Rightarrow>
            if (case uu_Username params of None \<Rightarrow> False
                | Some n \<Rightarrow> list_ex (\<lambda>v. u_id v \<noteq> uu_ID params \<and> u_username v = n) (users w))
            then Inl UniqueViolation else Inr (u, w\<lparr>users := us\<rparr>))"

definition q_DeleteUser :: "env \<Rightarrow> uuid \<Rightarrow> world \<Rightarrow> dberr + world" where
  "q_DeleteUser e uid w =
     run_stmt e (Inr (w\<lparr>users := update_where (\<lambda>u. u_id u = uid)
       (\<lambda>u. u\<lparr>u_deleted := True, u_updated_at := clock e []\<rparr>) (users w)\<rparr>))"

definition q_GetUserByUsername :: "env \<Rightarrow> string \<Rightarrow> world \<Rightarrow> dberr + User" where
  "q_GetUserByUsername e name w =
     run_stmt e (one_row (find (\<lambda>u. u_username u = name \<and> \<not> u_deleted u) (users w)))"

section \<open>Collaborators and events\<close>

text \<open>
  What the service is wired with: the public address of the object store, the store itself, the
  opener of direct messages (the channel service when present) and the reader of live presence.
\<close>

record user_deps =
  ud_PublicEndpoint :: string
  ud_Bucket :: string
  ud_minio :: bool
  ud_put :: "string \<Rightarrow> bool"
  ud_dm :: bool
  ud_presence :: "(string \<Rightarrow> string \<times> string) option"

datatype user_error =
    ErrUserNotFound | ErrCannotFriendSelf | ErrAlreadyFriends | ErrFriendRequestExists
  | ErrNoFriendRequest | ErrNotFriends | ErrUserBlocked | ErrAlreadyBlocked | ErrNotBlocked
  | ErrUsernameAlreadySet | UsFailed string dberr | UsDb dberr
  | UsStorageNotConfigured | UsEmptyFile | UsFileTooLarge nat | UsUnsupportedType string | UsUploadFailed
  | HandlesExhausted dberr | UsBadUUID string

definition pgIDToStr :: "env \<Rightarrow> uuid \<Rightarrow> string" where
  "pgIDToStr e u = uuid_string e u"

definition GetMinioBaseURL :: "user_deps \<Rightarrow> string" where
  "GetMinioBaseURL d = ''http://'' @ ud_PublicEndpoint d @ ''/'' @ ud_Bucket d @ ''/''"

definition GetBaseURl :: "user_deps \<Rightarrow> string \<Rightarrow> string" where
  "GetBaseURl d key =
     (if HasPrefix key ''http'' \<or> HasPrefix key ''https'' then key else GetMinioBaseURL d @ key)"

definition ResolveAvatarURL :: "user_deps \<Rightarrow> string \<Rightarrow> string" where
  "ResolveAvatarURL d key = GetBaseURl d key"

definition presenceStatusFromString :: "string \<Rightarrow> PresenceStatus" where
  "presenceStatusFromString s =
     (if s = ''online'' then PRESENCE_STATUS_ONLINE
      else if s = ''idle'' then PRESENCE_STATUS_IDLE
      else if s = ''dnd'' then PRESENCE_STATUS_DND
      else if s = ''offline'' then PRESENCE_STATUS_OFFLINE
      else PRESENCE_STATUS_UNSPECIFIED)"

definition friend_event :: "string \<Rightarrow> FriendActivityEvent" where
  "friend_event uid = \<lparr>fa_Event = FRIEND_EVENT_UNSPECIFIED, fa_UserId = uid, fa_Username = [],
     fa_Status = PRESENCE_STATUS_UNSPECIFIED, fa_CustomStatus = [], fa_AvatarUrl = [], fa_ChannelId = [],
     fa_DisplayName = []\<rparr>"

text \<open>The timestamp that publishFriendActivity adds is not kept.\<close>

definition publishFriendActivity ::
    "env \<Rightarrow> string \<Rightarrow> FriendEventType \<Rightarrow> FriendActivityEvent \<Rightarrow> world \<Rightarrow> world" where
  "publishFriendActivity e toUserID event evt w =
     (if lpb_nil e then w
      else Publish (FriendActivity toUserID) (FriendEvt (evt\<lparr>fa_Event := event\<rparr>)) w)"

definition friendPayload :: "env \<Rightarrow> user_deps \<Rightarrow> uuid \<Rightarrow> world \<Rightarrow> FriendActivityEvent" where
  "friendPayload e d actorID w =
     (case q_GetUserByID e actorID w of
        Inl _ \<Rightarrow> friend_event (pgIDToStr e actorID)
      | Inr u \<Rightarrow>
          (case (case ud_presence d of None \<Rightarrow> (u_status u, u_status u)
                 | Some live \<Rightarrow> (case live (pgIDToStr e (u_id u)) of (st, custom) \<Rightarrow>
                     if st \<noteq> [] then (st, custom) else (u_status u, u_status u))) of
             (statusStr, customStr) \<Rightarrow>
               (friend_event (pgIDToStr e (u_id u)))\<lparr>fa_Username := u_username u,
                  fa_DisplayName := u_display_name u, fa_Status := presenceStatusFromString statusStr,
                  fa_CustomStatus := customStr, fa_AvatarUrl := ResolveAvatarURL d (u_avatar_url u)\<rparr>))"

definition LookupBasicProfile :: "env \<Rightarrow> user_deps \<Rightarrow> string \<Rightarrow> world \<Rightarrow> string \<times> string" where
  "LookupBasicProfile e d userID w =
     (case uuid_scan e userID of
        None \<Rightarrow> ([], [])
      | Some uid \<Rightarrow>
          (case q_GetUserByID e uid w of
             Inl _ \<Rightarrow> ([], [])
           | Inr u \<Rightarrow> (u_username u, ResolveAvatarURL d (u_avatar_url u))))"

definition GetStatusIntent :: "env \<Rightarrow> string \<Rightarrow> world \<Rightarrow> string \<times> string" where
  "GetStatusIntent e userID w =
     (case uuid_scan e userID of
        None \<Rightarrow> (''online'', [])
      | Some uid \<Rightarrow>
          (case q_GetUserByID e uid w of
             Inl _ \<Rightarrow> (''online'', [])
           | Inr u \<Rightarrow> if u_status u = [] then (''online'', []) else (u_status u, u_status u)))"

section \<open>Profiles\<close>

definition maxAvatarSize :: nat where
  "maxAvatarSize = 5 * 1024 * 1024"

definition allowedAvatarContentTypes :: "string list" where
  "allowedAvatarContentTypes = [''image/jpeg'', ''image/png'', ''image/gif'', ''image/webp'']"

definition UploadAvatar ::
    "env \<Rightarrow> user_deps \<Rightarrow> uuid \<Rightarrow> string \<Rightarrow> string \<Rightarrow> nat \<Rightarrow> world \<Rightarrow> (user_error + (User \<times> string)) \<times> world" where
  "UploadAvatar e d userID filename contentType nbytes w =
     (if \<not> ud_minio d then (Inl UsStorageNotConfigured, w)
      else if nbytes = 0 then (Inl UsEmptyFile, w)
      else if maxAvatarSize < nbytes then (Inl (UsFileTooLarge maxAvatarSize), w)
      else if contentType \<notin> set allowedAvatarContentTypes then (Inl (UsUnsupportedType contentType), w)
      else let objectKey = ''users/'' @ uuid_string e userID @ ''/avatar_'' @ uuid_string e (fresh e [0]) @ ''_'' @ filename
        in if \<not> ud_put d objectKey then (Inl UsUploadFailed, w)
           else case q_UpdateUser (at e 1) ((user_update userID)\<lparr>uu_AvatarUrl := Some objectKey\<rparr>) w of
             Inl x \<Rightarrow> (Inl (UsFailed ''failed to update user avatar'' x), w)
           | Inr (updated, w1) \<Rightarrow>
               (let avatarURL = ResolveAvatarURL d objectKey in
                (Inr (updated, avatarURL),
                 publishFriendActivity e (pgIDToStr e (u_id updated)) FRIEND_EVENT_PROFILE_UPDATE
                   ((friend_event (pgIDToStr e (u_id updated)))\<lparr>fa_Username := u_username updated,
                      fa_DisplayName := u_display_name updated, fa_AvatarUrl := avatarURL\<rparr>) w1)))"

definition GetUser :: "env \<Rightarrow> user_deps \<Rightarrow> uuid \<Rightarrow> world \<Rightarrow> user_error + User" where
  "GetUser e d uid w =
     (case q_GetUserByID e uid w of
        Inl _ \<Rightarrow> Inl ErrUserNotFound
      | Inr u \<Rightarrow> Inr (u\<lparr>u_avatar_url := ResolveAvatarURL d (u_avatar_url u)\<rparr>))"

definition GetUserByUsername :: "env \<Rightarrow> user_deps \<Rightarrow> string \<Rightarrow> world \<Rightarrow> user_error + User" where
  "GetUserByUsername e d name w =
     (case q_GetUserByUsername e name w of
        Inl _ \<Rightarrow> Inl ErrUserNotFound
      | Inr u \<Rightarrow> Inr (u\<lparr>u_avatar_url := ResolveAvatarURL d (u_avatar_url u)\<rparr>))"

text \<open>
  randomDiscriminator prints n + 1 with four digits, for a random n below 9999; the numbers drawn
  are a function of the attempt.
\<close>

definition digit :: "nat \<Rightarrow> char" where
  "digit n = char_of (48 + n mod 10)"

definition randomDiscriminator :: "nat \<Rightarrow> string" where
  "randomDiscriminator n = (let m = n + 1 in [digit (m div 1000), digit (m div 100), digit (m div 10), digit m])"

definition maxHandleAttempts :: nat where
  "maxHandleAttempts = 10"

text \<open>The loop over the attempts left, with the number of attempts made and the last error.\<close>

fun allocate_handle ::
    "env \<Rightarrow> (nat \<Rightarrow> nat) \<Rightarrow> uuid \<Rightarrow> string \<Rightarrow> nat \<Rightarrow> nat \<Rightarrow> dberr \<Rightarrow> world \<Rightarrow> (user_error + User) \<times> world" where
  "allocate_handle e rnd uid username 0 i lastErr w = (Inl (HandlesExhausted lastErr), w)"
| "allocate_handle e rnd uid username (Suc n) i lastErr w =
     (case q_UpdateUser (at e i) ((user_update uid)
             \<lparr>uu_Username := Some (username @ ''#'' @ randomDiscriminator (rnd i)), uu_DisplayName := Some username\<rparr>) w of
        Inr (updated, w1) \<Rightarrow> (Inr updated, w1)
      | Inl x \<Rightarrow>
          if x \<noteq> UniqueViolation then (Inl (UsDb x), w)
          else allocate_handle e rnd uid username n (i + 1) x w)"

definition Repository_UpdateUsername ::
    "env \<Rightarrow> (nat \<Rightarrow> nat) \<Rightarrow> uuid \<Rightarrow> string \<Rightarrow> world \<Rightarrow> (user_error + User) \<times> world" where
  "Repository_UpdateUsername e rnd uid username w =
     (case q_GetUserByID (at e 0) uid w of
        Inl x \<Rightarrow> (Inl (UsDb x), w)
      | Inr current \<Rightarrow>
          if u_username current \<noteq> [] then (Inl ErrUsernameAlreadySet, w)
          else allocate_handle (at e 1) rnd uid username maxHandleAttempts 0 NoRows w)"

definition UpdateUsername ::
    "env \<Rightarrow> user_deps \<Rightarrow> (nat \<Rightarrow> nat) \<Rightarrow> uuid \<Rightarrow> string \<Rightarrow> world \<Rightarrow> (user_error + User) \<times> world" where
  "UpdateUsername e d rnd uid username w =
     (case Repository_UpdateUsername e rnd uid username w of
        (Inl x, w1) \<Rightarrow> (Inl x, w1)
      | (Inr user, w1) \<Rightarrow>
          (Inr user, publishFriendActivity e (pgIDToStr e (u_id user)) FRIEND_EVENT_PROFILE_UPDATE
             ((friend_event (pgIDToStr e (u_id user)))\<lparr>fa_Username := u_username user,
                fa_DisplayName := u_display_name user, fa_AvatarUrl := ResolveAvatarURL d (u_avatar_url user)\<rparr>) w1))"

definition profile_event :: "env \<Rightarrow> user_deps \<Rightarrow> User \<Rightarrow> FriendActivityEvent" where
  "profile_event e d user =
     (friend_event (pgIDToStr e (u_id user)))\<lparr>fa_Username := u_username user,
        fa_DisplayName := u_display_name user, fa_Status := presenceStatusFromString (u_status user),
        fa_CustomStatus := u_status user, fa_AvatarUrl := ResolveAvatarURL d (u_avatar_url user)\<rparr>"

definition UpdateUser ::
    "env \<Rightarrow> user_deps \<Rightarrow> UpdateUserParams \<Rightarrow> world \<Rightarrow> (user_error + User) \<times> world" where
  "UpdateUser e d params w =
     (case q_UpdateUser (at e 0) params w of
        Inl x \<Rightarrow> (Inl (UsFailed ''failed to update user'' x), w)
      | Inr (user, w1) \<Rightarrow>
          (Inr user, publishFriendActivity e (pgIDToStr e (u_id user)) FRIEND_EVENT_PROFILE_UPDATE
             (profile_event e d user) w1))"

definition UpdateStatus :: "env \<Rightarrow> user_deps \<Rightarrow> uuid \<Rightarrow> string \<Rightarrow> world \<Rightarrow> (user_error + User) \<times> world" where
  "UpdateStatus e d uid newStatus w =
     (case q_UpdateUser (at e 0) ((user_update uid)\<lparr>uu_Status := Some newStatus\<rparr>) w of
        Inl x \<Rightarrow> (Inl (UsFailed ''failed to update status'' x), w)
      | Inr (user, w1) \<Rightarrow>
          (Inr user, publishFriendActivity e (pgIDToStr e (u_id user)) FRIEND_EVENT_PRESENCE_UPDATE
             (profile_event e d user) w1))"

definition DeleteUser :: "env \<Rightarrow> uuid \<Rightarrow> world \<Rightarrow> (user_error + unit) \<times> world" where
  "DeleteUser e uid w =
     (case q_DeleteUser e uid w of
        Inl x \<Rightarrow> (Inl (UsFailed ''failed to delete user'' x), w)
      | Inr w1 \<Rightarrow> (Inr (), w1))"

section \<open>Friends and blocks\<close>

definition SendFriendRequest ::
    "env \<Rightarrow> user_deps \<Rightarrow> uuid \<Rightarrow> uuid \<Rightarrow> world \<Rightarrow> (user_error + Friendship) \<times> world" where
  "SendFriendRequest e d userID targetID w =
     (if userID = targetID then (Inl ErrCannotFriendSelf, w)
      else case (case q_GetFriendship (at e 0) userID targetID w of
                   Inl _ \<Rightarrow> None
                 | Inr existing \<Rightarrow>
                     if f_status existing = ''accepted'' then Some ErrAlreadyFriends
                     else if f_status existing = ''pending'' then Some ErrFriendRequestExists
                     else if f_status existing = ''blocked'' then Some ErrUserBlocked
                     else None) of
        Some err \<Rightarrow> (Inl err, w)
      | None \<Rightarrow>
          (case q_CreateFriendship (at e 1) userID targetID ''pending'' w of
             Inl x \<Rightarrow> (Inl (UsFailed ''failed to create friend request'' x), w)
           | Inr (friendship, w1) \<Rightarrow>
               (Inr friendship, publishFriendActivity e (pgIDToStr e targetID) FRIEND_EVENT_REQUEST
                  (friendPayload (at e 2) d userID w1) w1)))"

definition AcceptFriendRequest ::
    "env \<Rightarrow> user_deps \<Rightarrow> uuid \<Rightarrow> uuid \<Rightarrow> world \<Rightarrow> (user_error + Friendship) \<times> world" where
  "AcceptFriendRequest e d userID requesterID w =
     (case q_GetFriendship (at e 0) requesterID userID w of
        Inl _ \<Rightarrow> (Inl ErrNoFriendRequest, w)
      | Inr existing \<Rightarrow>
          if f_status existing \<noteq> ''pending'' then (Inl ErrNoFriendRequest, w)
          else if f_user_id existing \<noteq> requesterID \<or> f_friend_id existing \<noteq> userID
          then (Inl ErrNoFriendRequest, w)
          else (case q_UpdateFriendshipStatus (at e 1) requesterID userID ''accepted'' w of
             Inl x \<Rightarrow> (Inl (UsFailed ''failed to accept friend request'' x), w)
           | Inr (friendship, w1) \<Rightarrow>
               (case (if ud_dm d
                      then (case GetOrCreateDMChannel (at e 2) (pgIDToStr e userID) [pgIDToStr e requesterID] w1 of
                              (Inl _, w2) \<Rightarrow> ([], w2) | (Inr c, w2) \<Rightarrow> (c, w2))
                      else ([], w1)) of
                  (dmChannelID, w2) \<Rightarrow>
                    (let w3 = publishFriendActivity e (pgIDToStr e requesterID) FRIEND_EVENT_ACCEPTED
                                ((friendPayload (at e 3) d userID w2)\<lparr>fa_ChannelId := dmChannelID\<rparr>) w2;
                         w4 = publishFriendActivity e (pgIDToStr e userID) FRIEND_EVENT_ACCEPTED
                                ((friendPayload (at e 4) d requesterID w3)\<lparr>fa_ChannelId := dmChannelID\<rparr>) w3
                     in (Inr friendship, w4)))))"

definition DeclineFriendRequest ::
    "env \<Rightarrow> user_deps \<Rightarrow> uuid \<Rightarrow> uuid \<Rightarrow> world \<Rightarrow> (user_error + unit) \<times> world" where
  "DeclineFriendRequest e d userID requesterID w =
     (case q_GetFriendship (at e 0) requesterID userID w of
        Inl _ \<Rightarrow> (Inl ErrNoFriendRequest, w)
      | Inr existing \<Rightarrow>
          if f_status existing \<noteq> ''pending'' then (Inl ErrNoFriendRequest, w)
          else (case q_DeleteFriendship (at e 1) requesterID userID w of
             Inl x \<Rightarrow> (Inl (UsDb x), w)
           | Inr w1 \<Rightarrow>
               (Inr (), publishFriendActivity e (pgIDToStr e requesterID) FRIEND_EVENT_DECLINED
                  (friendPayload (at e 2) d userID w1) w1)))"

definition CancelFriendRequest ::
    "env \<Rightarrow> user_deps \<Rightarrow> uuid \<Rightarrow> uuid \<Rightarrow> world \<Rightarrow> (user_error + unit) \<times> world" where
  "CancelFriendRequest e d userID targetID w =
     (case q_GetFriendship (at e 0) userID targetID w of
        Inl _ \<Rightarrow> (Inl ErrNoFriendRequest, w)
      | Inr existing \<Rightarrow>
          if f_status existing \<noteq> ''pending'' \<or> f_user_id existing \<noteq> userID then (Inl ErrNoFriendRequest, w)
          else (case q_DeleteFriendship (at e 1) userID targetID w of
             Inl x \<Rightarrow> (Inl (UsDb x), w)
           | Inr w1 \<Rightarrow>
               (Inr (), publishFriendActivity e (pgIDToStr e targetID) FRIEND_EVENT_REQUEST_CANCELLED
                  (friendPayload (at e 2) d userID w1) w1)))"

definition RemoveFriend ::
    "env \<Rightarrow> user_deps \<Rightarrow> uuid \<Rightarrow> uuid \<Rightarrow> world \<Rightarrow> (user_error + unit) \<times> world" where
  "RemoveFriend e d userID friendID w =
     (case q_GetFriendship (at e 0) userID friendID w of
        Inl _ \<Rightarrow> (Inl ErrNotFriends, w)
      | Inr existing \<Rightarrow>
          if f_status existing \<noteq> ''accepted'' then (Inl ErrNotFriends, w)
          else (case q_DeleteFriendship (at e 1) userID friendID w of
             Inl x \<Rightarrow> (Inl (UsDb x), w)
           | Inr w1 \<Rightarrow>
               (Inr (), publishFriendActivity e (pgIDToStr e friendID) FRIEND_EVENT_REMOVED
                  (friendPayload (at e 2) d userID w1) w1)))"

definition BlockUser :: "env \<Rightarrow> uuid \<Rightarrow> uuid \<Rightarrow> world \<Rightarrow> (user_error + unit) \<times> world" where
  "BlockUser e userID targetID w =
     (if userID = targetID then (Inl ErrCannotFriendSelf, w)
      else let w1 = keep_on_error w (q_DeleteFriendship (at e 0) userID targetID w) in
        (case q_CreateFriendship (at e 1) userID targetID ''blocked'' w1 of
           Inl x \<Rightarrow> (Inl (UsFailed ''failed to block user'' x), w1)
         | Inr (_, w2) \<Rightarrow> (Inr (), w2)))"

definition UnblockUser :: "env \<Rightarrow> uuid \<Rightarrow> uuid \<Rightarrow> world \<Rightarrow> (user_error + unit) \<times> world" where
  "UnblockUser e userID targetID w =
     (case q_GetFriendship (at e 0) userID targetID w of
        Inl _ \<Rightarrow> (Inl ErrNotBlocked, w)
      | Inr existing \<Rightarrow>
          if f_status existing \<noteq> ''blocked'' \<or> f_user_id existing \<noteq> userID then (Inl ErrNotBlocked, w)
          else (case q_DeleteFriendship (at e 1) userID targetID w of
             Inl x \<Rightarrow> (Inl (UsDb x), w)
           | Inr w1 \<Rightarrow> (Inr (), w1)))"

text \<open>ListFriends copies five columns of each row; the other fields keep their zero values.\<close>

definition ListFriends :: "env \<Rightarrow> user_deps \<Rightarrow> uuid \<Rightarrow> world \<Rightarrow> user_error + User list" where
  "ListFriends e d userID w =
     (case q_ListFriends e userID w of
        Inl x \<Rightarrow> Inl (UsFailed ''failed to list friends'' x)
      | Inr us \<Rightarrow> Inr (map (\<lambda>f. \<lparr>u_id = u_id f, u_username = u_username f, u_email = [], u_password_hash = [],
            u_avatar_url = ResolveAvatarURL d (u_avatar_url f), u_bio = [], u_status = u_status f,
            u_verified = False, u_deleted = False, u_background_color = [],
            u_display_name = u_display_name f, u_updated_at = 0\<rparr>) us))"

definition ListPendingRequests ::
    "env \<Rightarrow> uuid \<Rightarrow> world \<Rightarrow> user_error + ((Friendship \<times> User) list \<times> (Friendship \<times> User) list)" where
  "ListPendingRequests e userID w =
     (case q_ListPendingIncoming (at e 0) userID w of
        Inl x \<Rightarrow> Inl (UsFailed ''failed to list incoming requests'' x)
      | Inr incoming \<Rightarrow>
          (case q_ListPendingOutgoing (at e 1) userID w of
             Inl x \<Rightarrow> Inl (UsFailed ''failed to list outgoing requests'' x)
           | Inr outgoing \<Rightarrow> Inr (incoming, outgoing)))"

definition ListBlocked :: "env \<Rightarrow> uuid \<Rightarrow> world \<Rightarrow> dberr + User list" where
  "ListBlocked e userID w = q_ListBlocked e userID w"

text \<open>BlockChecker.IsBlocked and FriendLookup.GetFriendIDs, used by other services.\<close>

definition IsBlocked :: "env \<Rightarrow> string \<Rightarrow> string \<Rightarrow> world \<Rightarrow> bool" where
  "IsBlocked e userID targetID w =
     (case uuid_scan e userID of
        None \<Rightarrow> False
      | Some uid \<Rightarrow>
          (case uuid_scan e targetID of
             None \<Rightarrow> False
           | Some tid \<Rightarrow>
               (case q_GetFriendship e uid tid w of
                  Inl _ \<Rightarrow> False
                | Inr friendship \<Rightarrow> f_status friendship = ''blocked'')))"

definition GetFriendIDs :: "env \<Rightarrow> string \<Rightarrow> world \<Rightarrow> user_error + string list" where
  "GetFriendIDs e userID w =
     (case uuid_scan e userID of
        None \<Rightarrow> Inl (UsBadUUID userID)
      | Some uid \<Rightarrow>
          (case q_ListFriends e uid w of
             Inl x \<Rightarrow> Inl (UsDb x)
           | Inr us \<Rightarrow> Inr (map (\<lambda>u. uuid_string e (u_id u)) us)))"

end
