(* ===== verification/Redis.thy ===== *)
theory Redis
  imports Friends
begin

text \<open>
  The Redis commands the program uses, on a store that maps a key to its value and the instant it
  expires, if it does. A key whose instant has passed is absent. A value is a string, a counter (a
  string that holds an integer) or a hash. A command on a value of another type is refused. Each
  command can fail in the environment; its instant is the clock of the environment.

  The state of the services that use Redis is the database together with this store.
\<close>

datatype rvalue = RStr string | RInt int | RHash "(string \<times> string) list"

type_synonym redis = "string \<Rightarrow> (rvalue \<times> time option) option"

record server =
  sv_db :: world
  sv_kv :: redis

definition empty_redis :: redis where
  "empty_redis = (\<lambda>_. None)"

definition live_value :: "redis \<Rightarrow> time \<Rightarrow> string \<Rightarrow> rvalue option" where
  "live_value r now k =
     (case r k of
        None \<Rightarrow> None
      | Some (v, None) \<Rightarrow> Some v
      | Some (v, Some t) \<Rightarrow> if now < t then Some v else None)"

definition expiry :: "env \<Rightarrow> time \<Rightarrow> time option" where
  "expiry e ttl = (if ttl = 0 then None else Some (clock e [] + ttl))"

definition r_Set :: "env \<Rightarrow> string \<Rightarrow> string \<Rightarrow> time \<Rightarrow> redis \<Rightarrow> dberr + redis" where
  "r_Set e k v ttl r = run_stmt e (Inr (r(k \<mapsto> (RStr v, expiry e ttl))))"

definition r_Get :: "env \<Rightarrow> string \<Rightarrow> redis \<Rightarrow> dberr + string" where
  "r_Get e k r = run_stmt e
     (case live_value r (clock e []) k of
        None \<Rightarrow> Inl NoRows | Some (RStr v) \<Rightarrow> Inr v | Some _ \<Rightarrow> Inl DbFault)"

definition r_GetInt :: "env \<Rightarrow> string \<Rightarrow> redis \<Rightarrow> dberr + int" where
  "r_GetInt e k r = run_stmt e
     (case live_value r (clock e []) k of
        None \<Rightarrow> Inl NoRows | Some (RInt v) \<Rightarrow> Inr v | Some _ \<Rightarrow> Inl DbFault)"

definition r_SetNX :: "env \<Rightarrow> string \<Rightarrow> int \<Rightarrow> redis \<Rightarrow> dberr + (bool \<times> redis)" where
  "r_SetNX e k v r = run_stmt e
     (Inr (if live_value r (clock e []) k = None then (True, r(k \<mapsto> (RInt v, None))) else (False, r)))"

definition r_Del :: "env \<Rightarrow> string \<Rightarrow> redis \<Rightarrow> dberr + redis" where
  "r_Del e k r = run_stmt e (Inr (r(k := None)))"

text \<open>INCR on a missing key starts at 1 with no expiry; on a live counter it keeps the expiry.\<close>

definition r_Incr :: "env \<Rightarrow> string \<Rightarrow> redis \<Rightarrow> dberr + (int \<times> redis)" where
  "r_Incr e k r = run_stmt e
     (case live_value r (clock e []) k of
        None \<Rightarrow> Inr (1, r(k \<mapsto> (RInt 1, None)))
      | Some (RInt n) \<Rightarrow> Inr (n + 1, r(k \<mapsto> (RInt (n + 1), snd (the (r k)))))
      | Some _ \<Rightarrow> Inl DbFault)"

definition r_Expire :: "env \<Rightarrow> string \<Rightarrow> time \<Rightarrow> redis \<Rightarrow> dberr + redis" where
  "r_Expire e k ttl r = run_stmt e
     (Inr (case live_value r (clock e []) k of
             None \<Rightarrow> r | Some v \<Rightarrow> r(k \<mapsto> (v, Some (clock e [] + ttl)))))"

text \<open>The fields of a hash; a missing key is an empty hash.\<close>

definition hash_of :: "redis \<Rightarrow> time \<Rightarrow> string \<Rightarrow> dberr + (string \<times> string) list" where
  "hash_of r now k =
     (case live_value r now k of
        None \<Rightarrow> Inr [] | Some (RHash fs) \<Rightarrow> Inr fs | Some _ \<Rightarrow> Inl DbFault)"

definition put_field :: "string \<Rightarrow> string \<Rightarrow> (string \<times> string) list \<Rightarrow> (string \<times> string) list" where
  "put_field f v fs = upsert (\<lambda>x. fst x = f) (\<lambda>_. (f, v)) (f, v) fs"

definition kept_expiry :: "redis \<Rightarrow> time \<Rightarrow> string \<Rightarrow> time option" where
  "kept_expiry r now k = (if live_value r now k = None then None else snd (the (r k)))"

definition r_HSet :: "env \<Rightarrow> string \<Rightarrow> (string \<times> string) list \<Rightarrow> redis \<Rightarrow> dberr + redis" where
  "r_HSet e k fvs r = run_stmt e
     (case hash_of r (clock e []) k of
        Inl x \<Rightarrow> Inl x
      | Inr fs \<Rightarrow> Inr (r(k \<mapsto> (RHash (fold (\<lambda>(f, v). put_field f v) fvs fs),
                              kept_expiry r (clock e []) k))))"

definition r_HGet :: "env \<Rightarrow> string \<Rightarrow> string \<Rightarrow> redis \<Rightarrow> dberr + string" where
  "r_HGet e k f r = run_stmt e
     (case hash_of r (clock e []) k of
        Inl x \<Rightarrow> Inl x | Inr fs \<Rightarrow> one_row (map_of fs f))"

definition r_HGetAll :: "env \<Rightarrow> string \<Rightarrow> redis \<Rightarrow> dberr + (string \<times> string) list" where
  "r_HGetAll e k r = run_stmt e (hash_of r (clock e []) k)"

text \<open>Deleting the last field of a hash deletes the key.\<close>

definition r_HDel :: "env \<Rightarrow> string \<Rightarrow> string \<Rightarrow> redis \<Rightarrow> dberr + redis" where
  "r_HDel e k f r = run_stmt e
     (case hash_of r (clock e []) k of
        Inl x \<Rightarrow> Inl x
      | Inr fs \<Rightarrow>
          (let fs' = delete_where (\<lambda>x. fst x = f) fs in
           Inr (if fs' = [] then r(k := None)
                else r(k \<mapsto> (RHash fs', kept_expiry r (clock e []) k)))))"

definition r_HLen :: "env \<Rightarrow> string \<Rightarrow> redis \<Rightarrow> dberr + nat" where
  "r_HLen e k r = run_stmt e
     (case hash_of r (clock e []) k of Inl x \<Rightarrow> Inl x | Inr fs \<Rightarrow> Inr (length fs))"


section \<open>Laws\<close>

lemma live_value_upd [simp]:
  "live_value (r(k \<mapsto> (v, t))) now k' =
     (if k' = k then (case t of None \<Rightarrow> Some v | Some u \<Rightarrow> if now < u then Some v else None)
      else live_value r now k')"
  by (simp add: live_value_def split: option.splits)

lemma live_value_del [simp]:
  "live_value (r(k := None)) now k' = (if k' = k then None else live_value r now k')"
  by (simp add: live_value_def)

lemma map_of_update_field:
  "map_of (update_where (\<lambda>x. fst x = f) (\<lambda>_. (f, v)) fs) f' =
     (if f' = f \<and> list_ex (\<lambda>x. fst x = f) fs then Some v else map_of fs f')"
  by (induction fs) auto

lemma map_of_put_field [simp]: "map_of (put_field f v fs) f' = (if f' = f then Some v else map_of fs f')"
proof (cases "list_ex (\<lambda>x. fst x = f) fs")
  case True
  then show ?thesis
    by (simp add: put_field_def upsert_def map_of_update_field)
next
  case False
  then have "map_of fs f = None"
    by (auto simp: map_of_eq_None_iff list_ex_iff)
  then show ?thesis
    using False by (simp add: put_field_def upsert_def map_add_def split: option.splits)
qed

lemma map_of_delete_field [simp]:
  "map_of (delete_where (\<lambda>x. fst x = f) fs) f' = (if f' = f then None else map_of fs f')"
  by (induction fs) (auto simp: delete_where_def)

end
