(* ===== verification/Decimal.thy ===== *)
theory Decimal
  imports Friends
begin

text \<open>
  The decimal conversions of the Go packages strconv and fmt that the program uses: Itoa (also the
  verb %d), and ParseInt in base 10, which takes an optional sign and at least one digit and
  refuses a number outside the range of its bit size.
\<close>

fun itoa_nat :: "nat \<Rightarrow> string" where
  "itoa_nat n = (if n < 10 then [digit n] else itoa_nat (n div 10) @ [digit n])"

declare itoa_nat.simps [simp del]

definition Itoa :: "int \<Rightarrow> string" where
  "Itoa i = (if i < 0 then CHR ''-'' # itoa_nat (nat (- i)) else itoa_nat (nat i))"

definition digit_value :: "char \<Rightarrow> nat option" where
  "digit_value c = (let n = of_char c in if 48 \<le> n \<and> n \<le> 57 then Some (n - 48) else None)"

fun read_digits :: "nat \<Rightarrow> string \<Rightarrow> nat option" where
  "read_digits acc [] = Some acc"
| "read_digits acc (c # cs) =
     (case digit_value c of None \<Rightarrow> None | Some d \<Rightarrow> read_digits (10 * acc + d) cs)"

definition read_nat :: "string \<Rightarrow> nat option" where
  "read_nat s = (if s = [] then None else read_digits 0 s)"

definition in_range :: "nat \<Rightarrow> int \<Rightarrow> bool" where
  "in_range bits i \<longleftrightarrow> - (2 ^ (bits - 1)) \<le> i \<and> i < 2 ^ (bits - 1)"

definition ranged :: "nat \<Rightarrow> int \<Rightarrow> int option" where
  "ranged bits i = (if in_range bits i then Some i else None)"

text \<open>The number itself, and the check of its range.\<close>

definition read_int :: "string \<Rightarrow> int option" where
  "read_int s =
     (case s of
        [] \<Rightarrow> None
      | c # cs \<Rightarrow>
          if c = CHR ''-'' then map_option (\<lambda>n. - int n) (read_nat cs)
          else if c = CHR ''+'' then map_option int (read_nat cs)
          else map_option int (read_nat s))"

definition ParseInt :: "nat \<Rightarrow> string \<Rightarrow> int option" where
  "ParseInt bits s = Option.bind (read_int s) (ranged bits)"

section \<open>Printing and reading back\<close>

lemma of_char_digit: "of_char (digit n) = 48 + n mod 10"
proof -
  have "48 + n mod 10 < 256" by simp
  then show ?thesis unfolding digit_def by (simp add: of_char_of)
qed

lemma digit_value_digit [simp]: "digit_value (digit n) = Some (n mod 10)"
  by (simp add: digit_value_def of_char_digit)

lemma digit_not_sign [simp]: "digit n \<noteq> CHR ''-''" "digit n \<noteq> CHR ''+''"
  using digit_value_digit [of n] by (auto simp: digit_value_def)

lemma read_digits_append:
  "read_digits acc (xs @ ys) = Option.bind (read_digits acc xs) (\<lambda>a. read_digits a ys)"
  by (induction acc xs rule: read_digits.induct) (auto split: option.splits)

lemma itoa_nat_nonempty [simp]: "itoa_nat n \<noteq> []"
  by (subst itoa_nat.simps) simp

lemma read_digits_itoa: "read_digits 0 (itoa_nat n) = Some n"
proof (induction n rule: itoa_nat.induct)
  case (1 n)
  show ?case
  proof (cases "n < 10")
    case True
    then show ?thesis by (subst itoa_nat.simps) simp
  next
    case False
    with 1 show ?thesis by (subst itoa_nat.simps) (simp add: read_digits_append)
  qed
qed

lemma hd_itoa_nat: "\<exists>m. hd (itoa_nat n) = digit m"
proof (induction n rule: itoa_nat.induct)
  case (1 n)
  then show ?case by (subst itoa_nat.simps) auto
qed

lemma itoa_nat_unsigned: "itoa_nat n = c # cs \<Longrightarrow> c \<noteq> CHR ''-'' \<and> c \<noteq> CHR ''+''"
  by (metis digit_not_sign hd_itoa_nat list.sel(1))

lemma read_int_Itoa: "read_int (Itoa i) = Some i"
proof (cases "i < 0")
  case True
  then show ?thesis by (simp add: read_int_def Itoa_def read_nat_def read_digits_itoa)
next
  case False
  obtain c cs where "itoa_nat (nat i) = c # cs" by (cases "itoa_nat (nat i)") auto
  moreover have "read_nat (itoa_nat (nat i)) = Some (nat i)"
    by (simp add: read_nat_def read_digits_itoa)
  ultimately show ?thesis
    using False itoa_nat_unsigned by (simp add: read_int_def Itoa_def)
qed

lemma ParseInt_Itoa: "ParseInt bits (Itoa i) = ranged bits i"
  by (simp add: ParseInt_def read_int_Itoa)

lemma Itoa_inject: "Itoa i = Itoa j \<longleftrightarrow> i = j"
  by (metis read_int_Itoa option.inject)

end
