(* ===== verification/SqlSplit.thy ===== *)
theory SqlSplit
  imports Prelude
begin

text \<open>
  The migration splitter, internal/shared/sqlutil/split.go: GooseUpSection cuts the Up part out
  of a migration file, SplitStatements cuts SQL text at the semicolons outside comments and
  quotes. The loop of SplitStatements is modelled with its own variables (a record) and one
  function for an iteration of its body; a scanner over the text with one mode at a time is its
  specification, and the loop is shown to refine it.
\<close>

section \<open>GooseUpSection\<close>

definition GooseUpSection :: "string \<Rightarrow> string" where
  "GooseUpSection sql =
     (case Index sql ''-- +goose Up'' of
        None \<Rightarrow> sql
      | Some up \<Rightarrow>
          (let body = drop (up + length ''-- +goose Up'') sql in
           case Index body ''-- +goose Down'' of
             None \<Rightarrow> body
           | Some down \<Rightarrow> take down body))"


section \<open>TrimSpace\<close>

text \<open>The UTF-8 encodings of the white space of unicode.IsSpace, which strings.TrimSpace cuts.\<close>

definition space_runes :: "string list" where
  "space_runes =
     [[CHR 0x09], [CHR 0x0A], [CHR 0x0B], [CHR 0x0C], [CHR 0x0D], [CHR 0x20],
      [CHR 0xC2, CHR 0x85], [CHR 0xC2, CHR 0xA0], [CHR 0xE1, CHR 0x9A, CHR 0x80]]
     @ map (\<lambda>c. [CHR 0xE2, CHR 0x80, c])
         [CHR 0x80, CHR 0x81, CHR 0x82, CHR 0x83, CHR 0x84, CHR 0x85, CHR 0x86, CHR 0x87,
          CHR 0x88, CHR 0x89, CHR 0x8A, CHR 0xA8, CHR 0xA9, CHR 0xAF]
     @ [[CHR 0xE2, CHR 0x81, CHR 0x9F], [CHR 0xE3, CHR 0x80, CHR 0x80]]"

function trim_front :: "string list \<Rightarrow> string \<Rightarrow> string" where
  "trim_front rs s =
     (case find (\<lambda>r. r \<noteq> [] \<and> HasPrefix s r) rs of
        None \<Rightarrow> s
      | Some r \<Rightarrow> trim_front rs (drop (length r) s))"
  by pat_completeness auto
termination
proof (relation "measure (\<lambda>(rs, s). length s)")
  fix rs and s r :: string
  assume "find (\<lambda>r. r \<noteq> [] \<and> HasPrefix s r) rs = Some r"
  then have "r \<noteq> []" "HasPrefix s r" by (auto dest: find_SomeD)
  then show "((rs, drop (length r) s), rs, s) \<in> measure (\<lambda>(rs, s). length s)"
    by (auto simp: HasPrefix_ex)
qed simp

declare trim_front.simps [simp del]

definition TrimSpace :: "string \<Rightarrow> string" where
  "TrimSpace s = rev (trim_front (map rev space_runes) (rev (trim_front space_runes s)))"


section \<open>SplitStatements\<close>

text \<open>The loop of readDollarQuoteTag, from index i.\<close>

definition tag_char :: "nat \<Rightarrow> char \<Rightarrow> bool" where
  "tag_char i c \<longleftrightarrow>
     c = CHR ''_'' \<or> (CHR ''a'' \<le> c \<and> c \<le> CHR ''z'') \<or> (CHR ''A'' \<le> c \<and> c \<le> CHR ''Z'') \<or>
     (1 < i \<and> CHR ''0'' \<le> c \<and> c \<le> CHR ''9'')"

function tag_loop :: "string \<Rightarrow> nat \<Rightarrow> string option" where
  "tag_loop s i =
     (if i < length s then
        (if s ! i = CHR ''$'' then Some (take (i + 1) s)
         else if tag_char i (s ! i) then tag_loop s (i + 1)
         else None)
      else None)"
  by pat_completeness auto
termination
  by (relation "measure (\<lambda>(s, i). length s - i)") auto

declare tag_loop.simps [simp del]

definition readDollarQuoteTag :: "string \<Rightarrow> string option" where
  "readDollarQuoteTag s =
     (if length s < 2 \<or> s ! 0 \<noteq> CHR ''$'' then None else tag_loop s 1)"

lemma tag_loop_Some:
  "tag_loop s i = Some t \<Longrightarrow>
   \<exists>j. i \<le> j \<and> j < length s \<and> s ! j = CHR ''$'' \<and> t = take (j + 1) s \<and>
       (\<forall>l. i \<le> l \<and> l < j \<longrightarrow> tag_char l (s ! l) \<and> s ! l \<noteq> CHR ''$'')"
proof (induction s i rule: tag_loop.induct)
  case (1 s i)
  consider (here) "i < length s" "s ! i = CHR ''$''"
    | (more) "i < length s" "s ! i \<noteq> CHR ''$''" "tag_char i (s ! i)" "tag_loop s (i + 1) = Some t"
    using "1.prems" by (subst (asm) tag_loop.simps) (auto split: if_splits)
  then show ?case
  proof cases
    case here
    with "1.prems" have "t = take (i + 1) s" by (simp add: tag_loop.simps)
    with here show ?thesis by (intro exI [of _ i]) auto
  next
    case more
    then obtain j where j: "i + 1 \<le> j" "j < length s" "s ! j = CHR ''$''" "t = take (j + 1) s"
      "\<forall>l. i + 1 \<le> l \<and> l < j \<longrightarrow> tag_char l (s ! l) \<and> s ! l \<noteq> CHR ''$''"
      using "1.IH" by blast
    have "tag_char l (s ! l) \<and> s ! l \<noteq> CHR ''$''" if "i \<le> l" "l < j" for l
      using that j(5) more by (cases "l = i") auto
    with j show ?thesis by (intro exI [of _ j]) auto
  qed
qed

lemma readDollarQuoteTag_prefix:
  assumes "readDollarQuoteTag s = Some t"
  shows "HasPrefix s t \<and> 2 \<le> length t"
proof -
  from assms have "tag_loop s 1 = Some t"
    by (auto simp: readDollarQuoteTag_def split: if_splits)
  from tag_loop_Some [OF this] show ?thesis
    by (auto simp: HasPrefix_iff min_def)
qed

record split_state =
  ss_statements :: "string list"
  ss_start :: int
  ss_i :: int
  inLineComment :: bool
  inBlockComment :: bool
  inSingleQuote :: bool
  inDoubleQuote :: bool
  dollarQuote :: string

text \<open>The variable next: the byte after i, or 0 at the end.\<close>

definition peek :: "string \<Rightarrow> nat \<Rightarrow> char" where
  "peek sql i = (if i + 1 < length sql then sql ! (i + 1) else CHR 0x00)"

text \<open>
  The body of the loop, for the character at i, then the increment of i. The index is an int, as
  Go's is: the additions of a length less 1 would take it back if the length were 0.
\<close>

text \<open>sql[lo:hi].\<close>

definition Slice :: "string \<Rightarrow> int \<Rightarrow> int \<Rightarrow> string" where
  "Slice s lo hi = take (nat hi - nat lo) (drop (nat lo) s)"

definition split_body :: "string \<Rightarrow> split_state \<Rightarrow> split_state" where
  "split_body sql st =
     (let i = ss_i st; c = sql ! nat i; next = peek sql (nat i) in
      if inLineComment st then
        (if c = CHR 0x0A then st\<lparr>inLineComment := False\<rparr> else st)
      else if inBlockComment st then
        (if c = CHR ''*'' \<and> next = CHR ''/'' then st\<lparr>inBlockComment := False, ss_i := i + 1\<rparr> else st)
      else if dollarQuote st \<noteq> '''' then
        (if HasPrefix (drop (nat i) sql) (dollarQuote st)
         then st\<lparr>ss_i := i + (int (length (dollarQuote st)) - 1), dollarQuote := ''''\<rparr> else st)
      else if inSingleQuote st then
        (if c = CHR 0x27 then
           (if next = CHR 0x27 then st\<lparr>ss_i := i + 1\<rparr> else st\<lparr>inSingleQuote := False\<rparr>)
         else st)
      else if inDoubleQuote st then
        (if c = CHR 0x22 then
           (if next = CHR 0x22 then st\<lparr>ss_i := i + 1\<rparr> else st\<lparr>inDoubleQuote := False\<rparr>)
         else st)
      else if c = CHR ''-'' \<and> next = CHR ''-'' then st\<lparr>inLineComment := True, ss_i := i + 1\<rparr>
      else if c = CHR ''/'' \<and> next = CHR ''*'' then st\<lparr>inBlockComment := True, ss_i := i + 1\<rparr>
      else if c = CHR 0x27 then st\<lparr>inSingleQuote := True\<rparr>
      else if c = CHR 0x22 then st\<lparr>inDoubleQuote := True\<rparr>
      else if c = CHR ''$'' then
        (case readDollarQuoteTag (drop (nat i) sql) of
           None \<Rightarrow> st
         | Some tag \<Rightarrow> st\<lparr>dollarQuote := tag, ss_i := i + (int (length tag) - 1)\<rparr>)
      else if c = CHR '';'' then
        (let stmt = TrimSpace (Slice sql (ss_start st) i) in
         st\<lparr>ss_statements := (if stmt \<noteq> '''' then ss_statements st @ [stmt] else ss_statements st),
            ss_start := i + 1\<rparr>)
      else st)"

definition split_iter :: "string \<Rightarrow> split_state \<Rightarrow> split_state" where
  "split_iter sql st = (let st' = split_body sql st in st'\<lparr>ss_i := ss_i st' + 1\<rparr>)"

text \<open>
  The index grows in every iteration, since a tag that readDollarQuoteTag accepts is not empty.
\<close>

lemma split_iter_progress: "ss_i st < ss_i (split_iter sql st)"
proof -
  have "0 < int (length t)" if "readDollarQuoteTag (drop (nat (ss_i st)) sql) = Some t" for t
    using readDollarQuoteTag_prefix [OF that] by auto
  then show ?thesis
    by (auto simp: split_iter_def split_body_def Let_def split: option.splits)
qed

function split_loop :: "string \<Rightarrow> split_state \<Rightarrow> split_state" where
  "split_loop sql st = (if ss_i st < int (length sql) then split_loop sql (split_iter sql st) else st)"
  by pat_completeness auto
termination
proof (relation "measure (\<lambda>(sql, st). nat (int (length sql) - ss_i st))")
  fix sql :: string and st :: split_state
  assume "ss_i st < int (length sql)"
  with split_iter_progress [of st sql]
  show "((sql, split_iter sql st), sql, st) \<in> measure (\<lambda>(sql, st). nat (int (length sql) - ss_i st))"
    by simp
qed simp

declare split_loop.simps [simp del]

definition split_init :: split_state where
  "split_init = \<lparr>ss_statements = [], ss_start = 0, ss_i = 0, inLineComment = False,
     inBlockComment = False, inSingleQuote = False, inDoubleQuote = False, dollarQuote = ''''\<rparr>"

definition SplitStatements :: "string \<Rightarrow> string list" where
  "SplitStatements sql =
     (let st = split_loop sql split_init;
          stmt = TrimSpace (Slice sql (ss_start st) (int (length sql))) in
      if stmt \<noteq> '''' then ss_statements st @ [stmt] else ss_statements st)"

section \<open>The scanner SplitStatements refines\<close>

text \<open>
  The scanner is in one mode at a time. A token of mode m at the front of a text takes one byte
  and k more, and leaves a mode.
\<close>

datatype lex_mode = Top | LineC | BlockC | SingleQ | DoubleQ | DollarQ string

definition lex_tok :: "lex_mode \<Rightarrow> string \<Rightarrow> nat \<times> lex_mode" where
  "lex_tok m s =
     (case m of
        LineC \<Rightarrow> (0, if hd s = CHR 0x0A then Top else LineC)
      | BlockC \<Rightarrow> if HasPrefix s ''*/'' then (1, Top) else (0, BlockC)
      | DollarQ t \<Rightarrow> if HasPrefix s t then (length t - 1, Top) else (0, DollarQ t)
      | SingleQ \<Rightarrow> if HasPrefix s [CHR 0x27, CHR 0x27] then (1, SingleQ)
                   else (0, if hd s = CHR 0x27 then Top else SingleQ)
      | DoubleQ \<Rightarrow> if HasPrefix s [CHR 0x22, CHR 0x22] then (1, DoubleQ)
                   else (0, if hd s = CHR 0x22 then Top else DoubleQ)
      | Top \<Rightarrow>
          if HasPrefix s ''--'' then (1, LineC)
          else if HasPrefix s ''/*'' then (1, BlockC)
          else if hd s = CHR 0x27 then (0, SingleQ)
          else if hd s = CHR 0x22 then (0, DoubleQ)
          else if hd s = CHR ''$'' then
            (case readDollarQuoteTag s of None \<Rightarrow> (0, Top) | Some t \<Rightarrow> (length t - 1, DollarQ t))
          else (0, Top))"

text \<open>The pieces of a text between its top-level semicolons, acc being the piece so far.\<close>

function raw_pieces :: "lex_mode \<Rightarrow> string \<Rightarrow> string \<Rightarrow> string list" where
  "raw_pieces m acc s =
     (if s = [] then [acc]
      else if m = Top \<and> hd s = CHR '';'' then acc # raw_pieces Top [] (tl s)
      else raw_pieces (snd (lex_tok m s)) (acc @ take (fst (lex_tok m s) + 1) s)
             (drop (fst (lex_tok m s) + 1) s))"
  by pat_completeness auto
termination
  by (relation "measure (\<lambda>(m, acc, s). length s)") (auto simp flip: length_greater_0_conv)

declare raw_pieces.simps [simp del]

lemma raw_pieces_Nil [simp]: "raw_pieces m acc [] = [acc]"
  by (simp add: raw_pieces.simps)

lemma raw_pieces_semi [simp]:
  "raw_pieces Top acc (CHR '';'' # s) = acc # raw_pieces Top [] s"
  by (simp add: raw_pieces.simps)

lemma raw_pieces_tok:
  "s \<noteq> [] \<Longrightarrow> m \<noteq> Top \<or> hd s \<noteq> CHR '';'' \<Longrightarrow> lex_tok m s = (k, m') \<Longrightarrow>
   raw_pieces m acc s = raw_pieces m' (acc @ take (k + 1) s) (drop (k + 1) s)"
  by (subst raw_pieces.simps) auto

text \<open>No byte of the text is lost: the pieces joined by semicolons are the text.\<close>

lemma raw_pieces_not_Nil [simp]: "raw_pieces m acc s \<noteq> []"
  by (induction m acc s rule: raw_pieces.induct) (subst raw_pieces.simps, simp)

lemma Join_raw_pieces: "Join (raw_pieces m acc s) '';'' = acc @ s"
proof (induction m acc s rule: raw_pieces.induct)
  case (1 m acc s)
  consider (nil) "s = []" | (semi) "s \<noteq> []" "m = Top" "hd s = CHR '';''"
    | (tok) "s \<noteq> []" "m \<noteq> Top \<or> hd s \<noteq> CHR '';''"
    by auto
  then show ?case
  proof cases
    case semi
    then obtain t where t: "s = CHR '';'' # t" by (cases s) auto
    with semi "1.IH"(1) have "Join (raw_pieces Top [] t) '';'' = t" by simp
    with semi t show ?thesis by (simp add: Join_Cons)
  next
    case tok
    obtain k m' where km: "lex_tok m s = (k, m')" by fastforce
    have "Join (raw_pieces m' (acc @ take (k + 1) s) (drop (k + 1) s)) '';''
          = (acc @ take (k + 1) s) @ drop (k + 1) s"
      using "1.IH"(2) tok km by auto
    with raw_pieces_tok [OF tok km] show ?thesis by simp
  qed simp
qed

section \<open>The loop refines the scanner\<close>

definition mode_of :: "split_state \<Rightarrow> lex_mode" where
  "mode_of st =
     (if inLineComment st then LineC else if inBlockComment st then BlockC
      else if dollarQuote st \<noteq> '''' then DollarQ (dollarQuote st)
      else if inSingleQuote st then SingleQ else if inDoubleQuote st then DoubleQ else Top)"

text \<open>At most one of the five mode variables is set.\<close>

definition one_mode :: "split_state \<Rightarrow> bool" where
  "one_mode st \<longleftrightarrow>
     (inLineComment st \<longrightarrow> \<not> inBlockComment st \<and> dollarQuote st = '''' \<and> \<not> inSingleQuote st \<and> \<not> inDoubleQuote st) \<and>
     (inBlockComment st \<longrightarrow> dollarQuote st = '''' \<and> \<not> inSingleQuote st \<and> \<not> inDoubleQuote st) \<and>
     (dollarQuote st \<noteq> '''' \<longrightarrow> \<not> inSingleQuote st \<and> \<not> inDoubleQuote st) \<and>
     (inSingleQuote st \<longrightarrow> \<not> inDoubleQuote st)"

lemma mode_frame [simp]:
  "mode_of (st\<lparr>ss_i := n\<rparr>) = mode_of st" "one_mode (st\<lparr>ss_i := n\<rparr>) = one_mode st"
  "mode_of (st\<lparr>ss_start := n\<rparr>) = mode_of st" "one_mode (st\<lparr>ss_start := n\<rparr>) = one_mode st"
  "mode_of (st\<lparr>ss_statements := xs\<rparr>) = mode_of st" "one_mode (st\<lparr>ss_statements := xs\<rparr>) = one_mode st"
  by (simp_all add: mode_of_def one_mode_def)

lemma lex_tok_length:
  assumes "s \<noteq> []" and "lex_tok m s = (k, m')"
  shows "k + 1 \<le> length s"
proof -
  from assms(1) have one: "1 \<le> length s" by (cases s) auto
  have p: "length t - 1 + 1 \<le> length s" if "HasPrefix s t" for t
    using HasPrefix_length [OF that] one by simp
  have q: "length t - 1 + 1 \<le> length s" if "readDollarQuoteTag s = Some t" for t
    using readDollarQuoteTag_prefix [OF that] p by blast
  show ?thesis
    using assms(2) one p [of "''*/''"] p [of "''--''"] p [of "''/*''"] p [of "[CHR 0x27, CHR 0x27]"]
      p [of "[CHR 0x22, CHR 0x22]"]
    by (cases m) (auto simp: lex_tok_def dest: p q split: if_splits option.splits)
qed

text \<open>One iteration is one token, or the end of a statement.\<close>

lemma next_char:
  assumes "drop i sql = c # s" and "d \<noteq> CHR 0x00"
  shows "(peek sql i = d) = HasPrefix s [d]"
proof -
  from assms(1) have i: "i < length sql" by (metis drop_all linorder_not_le list.distinct(1))
  with assms(1) have s: "s = drop (i + 1) sql"
    by (metis Cons_nth_drop_Suc Suc_eq_plus1 list.inject)
  show ?thesis
  proof (cases "i + 1 < length sql")
    case True
    with s have "s = sql ! (i + 1) # drop (i + 2) sql" by (simp add: Cons_nth_drop_Suc)
    with True show ?thesis by (auto simp: peek_def)
  next
    case False
    with s assms(2) show ?thesis by (auto simp: peek_def)
  qed
qed

lemma split_iter_tok:
  assumes i: "drop (nat (ss_i st)) sql = c # s" and nn: "0 \<le> ss_i st" and one: "one_mode st"
    and tok: "mode_of st \<noteq> Top \<or> c \<noteq> CHR '';''" and k: "lex_tok (mode_of st) (c # s) = (k, m')"
  shows "one_mode (split_iter sql st)" "mode_of (split_iter sql st) = m'"
    "ss_i (split_iter sql st) = ss_i st + int k + 1" "ss_start (split_iter sql st) = ss_start st"
    "ss_statements (split_iter sql st) = ss_statements st"
proof -
  have c: "sql ! nat (ss_i st) = c"
    using i by (metis nth_via_drop)
  note nxt = next_char [OF i]
  note defs = split_iter_def split_body_def Let_def c i nxt lex_tok_def one_mode_def mode_of_def
  have len: "t \<noteq> [] \<and> int (length t - Suc 0) = int (length t) - 1" if "readDollarQuoteTag (c # s) = Some t" for t
    using readDollarQuoteTag_prefix [OF that] by auto
  have "one_mode (split_iter sql st) \<and> mode_of (split_iter sql st) = m' \<and>
    ss_i (split_iter sql st) = ss_i st + int k + 1 \<and> ss_start (split_iter sql st) = ss_start st \<and>
    ss_statements (split_iter sql st) = ss_statements st"
  proof (cases "mode_of st")
    case Top
    with one have f: "\<not> inLineComment st" "\<not> inBlockComment st" "dollarQuote st = []"
      "\<not> inSingleQuote st" "\<not> inDoubleQuote st"
      by (auto simp: mode_of_def split: if_splits)
    have n: "c \<noteq> CHR '';''" using tok Top by simp
    show ?thesis
    proof (cases "c = CHR ''-'' \<and> HasPrefix s ''-''")
      case True
      with k Top f show ?thesis by (auto simp: defs)
    next
      case nlc: False
      show ?thesis
      proof (cases "c = CHR ''/'' \<and> HasPrefix s ''*''")
        case True
        with k Top f show ?thesis by (auto simp: defs)
      next
        case nbc: False
        show ?thesis
        proof (cases "c = CHR ''$''")
          case True
          show ?thesis
          proof (cases "readDollarQuoteTag (c # s)")
            case None
            with True k Top f show ?thesis by (auto simp: defs)
          next
            case (Some t)
            with True k Top f len [OF Some] show ?thesis by (auto simp: defs)
          qed
        next
          case False
          have "split_body sql st = (if c = CHR 0x27 then st\<lparr>inSingleQuote := True\<rparr>
              else if c = CHR 0x22 then st\<lparr>inDoubleQuote := True\<rparr> else st)"
            using f n nlc nbc False by (auto simp: split_body_def Let_def c nxt)
          moreover have "(k, m') = (0, if c = CHR 0x27 then SingleQ
              else if c = CHR 0x22 then DoubleQ else Top)"
            using k Top nlc nbc False by (simp add: lex_tok_def split: if_splits)
          ultimately show ?thesis using f
            by (cases "c = CHR 0x27"; cases "c = CHR 0x22")
              (simp_all add: split_iter_def Let_def one_mode_def mode_of_def)
        qed
      qed
    qed
  next
    case LineC
    with one have f: "inLineComment st" "\<not> inBlockComment st" "dollarQuote st = []"
      "\<not> inSingleQuote st" "\<not> inDoubleQuote st"
      by (auto simp: mode_of_def one_mode_def split: if_splits)
    show ?thesis using k LineC f by (auto simp: defs split: if_splits)
  next
    case BlockC
    with one have f: "\<not> inLineComment st" "inBlockComment st" "dollarQuote st = []"
      "\<not> inSingleQuote st" "\<not> inDoubleQuote st"
      by (auto simp: mode_of_def one_mode_def split: if_splits)
    show ?thesis using k BlockC f by (auto simp: defs split: if_splits)
  next
    case SingleQ
    with one have f: "\<not> inLineComment st" "\<not> inBlockComment st" "dollarQuote st = []"
      "inSingleQuote st" "\<not> inDoubleQuote st"
      by (auto simp: mode_of_def one_mode_def split: if_splits)
    show ?thesis using k SingleQ f by (auto simp: defs split: if_splits)
  next
    case DoubleQ
    with one have f: "\<not> inLineComment st" "\<not> inBlockComment st" "dollarQuote st = []"
      "\<not> inSingleQuote st" "inDoubleQuote st"
      by (auto simp: mode_of_def one_mode_def split: if_splits)
    show ?thesis using k DoubleQ f by (auto simp: defs split: if_splits)
  next
    case (DollarQ t)
    with one have f: "\<not> inLineComment st" "\<not> inBlockComment st" "dollarQuote st = t" "t \<noteq> []"
      "\<not> inSingleQuote st" "\<not> inDoubleQuote st"
      by (auto simp: mode_of_def one_mode_def split: if_splits)
    then have "int (length t - Suc 0) = int (length t) - 1" by (cases t) auto
    with k DollarQ f show ?thesis by (auto simp: defs split: if_splits)
  qed
  then show "one_mode (split_iter sql st)" "mode_of (split_iter sql st) = m'"
    "ss_i (split_iter sql st) = ss_i st + int k + 1" "ss_start (split_iter sql st) = ss_start st"
    "ss_statements (split_iter sql st) = ss_statements st"
    by auto
qed

lemma split_iter_semi:
  assumes i: "drop (nat (ss_i st)) sql = CHR '';'' # s" and "mode_of st = Top"
  shows "split_iter sql st = st\<lparr>
      ss_statements := ss_statements st
        @ filter (\<lambda>x. x \<noteq> []) [TrimSpace (Slice sql (ss_start st) (ss_i st))],
      ss_start := ss_i st + 1, ss_i := ss_i st + 1\<rparr>"
proof -
  have c: "sql ! nat (ss_i st) = CHR '';''" using i by (metis nth_via_drop)
  have f: "\<not> inLineComment st" "\<not> inBlockComment st" "dollarQuote st = []"
    "\<not> inSingleQuote st" "\<not> inDoubleQuote st"
    using assms(2) by (auto simp: mode_of_def split: if_splits)
  show ?thesis by (simp add: split_iter_def split_body_def Let_def c f)
qed

definition nonblank :: "string list \<Rightarrow> string list" where
  "nonblank ps = filter (\<lambda>s. s \<noteq> []) (map TrimSpace ps)"

lemma nonblank_simps [simp]:
  "nonblank [] = []" "nonblank (p # ps) = filter (\<lambda>s. s \<noteq> []) [TrimSpace p] @ nonblank ps"
  by (simp_all add: nonblank_def)

text \<open>The index and the start offset stay in the text.\<close>

definition in_text :: "string \<Rightarrow> split_state \<Rightarrow> bool" where
  "in_text sql st \<longleftrightarrow> one_mode st \<and> 0 \<le> ss_start st \<and> ss_start st \<le> ss_i st \<and> ss_i st \<le> int (length sql)"

lemma Slice_extend:
  assumes "0 \<le> a" "a \<le> b" "drop (nat b) sql = s"
  shows "Slice sql a (b + int n) = Slice sql a b @ take n s"
proof -
  have n: "nat (b + int n) - nat a = (nat b - nat a) + n" and d: "drop (nat b - nat a) (drop (nat a) sql) = s"
    using assms by auto
  show ?thesis unfolding Slice_def n take_add d ..
qed

lemma Slice_empty [simp]: "Slice sql a a = []"
  by (simp add: Slice_def)

text \<open>The statements found so far and those of the text still to be read.\<close>

definition pending :: "string \<Rightarrow> split_state \<Rightarrow> string list" where
  "pending sql st = ss_statements st @
     nonblank (raw_pieces (mode_of st) (Slice sql (ss_start st) (ss_i st)) (drop (nat (ss_i st)) sql))"

lemma split_iter_step:
  assumes st: "in_text sql st" and lt: "ss_i st < int (length sql)"
  shows "in_text sql (split_iter sql st) \<and> pending sql (split_iter sql st) = pending sql st"
proof -
  from st have nn: "0 \<le> ss_i st" and one: "one_mode st" and start: "0 \<le> ss_start st" "ss_start st \<le> ss_i st"
    by (auto simp: in_text_def)
  obtain c s where Cons: "drop (nat (ss_i st)) sql = c # s"
    using lt nn by (cases "drop (nat (ss_i st)) sql") auto
  have rest: "drop (nat (ss_i st + int k)) sql = drop k (c # s)" for k
    using nn by (simp add: nat_add_distrib add.commute flip: Cons drop_drop)
  show ?thesis
  proof (cases "mode_of st = Top \<and> c = CHR '';''")
    case True
    with Cons have it: "split_iter sql st = st\<lparr>
        ss_statements := ss_statements st @ filter (\<lambda>x. x \<noteq> []) [TrimSpace (Slice sql (ss_start st) (ss_i st))],
        ss_start := ss_i st + 1, ss_i := ss_i st + 1\<rparr>"
      by (intro split_iter_semi) auto
    have "pending sql (split_iter sql st) = pending sql st"
      using True Cons rest [of 1] by (simp add: pending_def it)
    with one nn lt show ?thesis by (simp add: in_text_def it)
  next
    case False
    obtain k m' where km: "lex_tok (mode_of st) (c # s) = (k, m')" by fastforce
    note it = split_iter_tok [OF Cons nn one _ km]
    have "int (length (c # s)) = int (length sql) - ss_i st"
      using nn lt by (simp flip: Cons)
    with lex_tok_length [OF _ km] have le: "ss_i st + int k + 1 \<le> int (length sql)" by simp
    have slice: "Slice sql (ss_start st) (ss_i st + int k + 1) = Slice sql (ss_start st) (ss_i st) @ take (k + 1) (c # s)"
      using Slice_extend [OF start Cons, of "k + 1"] by (simp add: algebra_simps)
    have "pending sql (split_iter sql st) = pending sql st"
      using it False slice rest [of "k + 1"] Cons
        raw_pieces_tok [of "c # s" "mode_of st" k m', OF _ _ km]
      by (simp add: pending_def algebra_simps del: take_Suc_Cons drop_Suc_Cons)
    with it False le start show ?thesis by (simp add: in_text_def)
  qed
qed

lemma split_loop_refines:
  assumes "in_text sql st"
  shows "ss_statements (split_loop sql st) @ nonblank [Slice sql (ss_start (split_loop sql st)) (int (length sql))]
    = pending sql st"
  using assms
proof (induction sql st rule: split_loop.induct)
  case (1 sql st)
  show ?case
  proof (cases "ss_i st < int (length sql)")
    case True
    then have "split_loop sql st = split_loop sql (split_iter sql st)" by (subst split_loop.simps) simp
    with "1.IH" [OF True] split_iter_step [OF "1.prems" True] show ?thesis by simp
  next
    case False
    with "1.prems" show ?thesis by (simp add: split_loop.simps in_text_def pending_def)
  qed
qed

lemma in_text_init: "in_text sql split_init"
  by (simp add: in_text_def one_mode_def split_init_def)

lemma SplitStatements_refines: "SplitStatements sql = nonblank (raw_pieces Top [] sql)"
proof -
  have "pending sql split_init = nonblank (raw_pieces Top [] sql)"
    by (simp add: pending_def split_init_def mode_of_def)
  with split_loop_refines [OF in_text_init, of sql] show ?thesis
    by (auto simp: SplitStatements_def Let_def)
qed

section \<open>Properties\<close>

text \<open>TrimSpace returns an infix of its argument with no white space at either end.\<close>

lemma trim_front_suffix: "\<exists>a. s = a @ trim_front rs s"
proof (induction rs s rule: trim_front.induct)
  case (1 rs s)
  show ?case
  proof (cases "find (\<lambda>r. r \<noteq> [] \<and> HasPrefix s r) rs")
    case None
    then show ?thesis by (subst trim_front.simps) simp
  next
    case (Some r)
    then obtain a where "drop (length r) s = a @ trim_front rs (drop (length r) s)"
      using "1.IH" by blast
    moreover have "trim_front rs s = trim_front rs (drop (length r) s)"
      using Some by (subst trim_front.simps) simp
    ultimately have "s = (take (length r) s @ a) @ trim_front rs s"
      by (metis append.assoc append_take_drop_id)
    then show ?thesis by blast
  qed
qed

lemma trim_front_done: "r \<in> set rs \<Longrightarrow> r \<noteq> [] \<Longrightarrow> \<not> HasPrefix (trim_front rs s) r"
proof (induction rs s rule: trim_front.induct)
  case (1 rs s)
  show ?case
  proof (cases "find (\<lambda>r. r \<noteq> [] \<and> HasPrefix s r) rs")
    case None
    then have "trim_front rs s = s" by (subst trim_front.simps) simp
    with None "1.prems" show ?thesis by (auto simp: find_None_set)
  next
    case (Some q)
    then have "trim_front rs s = trim_front rs (drop (length q) s)"
      by (subst trim_front.simps) simp
    with "1.IH" [OF Some] "1.prems" show ?thesis by simp
  qed
qed

lemma trim_front_id:
  "(\<And>r. r \<in> set rs \<Longrightarrow> r \<noteq> [] \<Longrightarrow> \<not> HasPrefix s r) \<Longrightarrow> trim_front rs s = s"
  by (subst trim_front.simps) (auto split: option.splits dest: find_SomeD)

lemma TrimSpace_infix: "\<exists>a b. s = a @ TrimSpace s @ b"
proof -
  obtain a where "s = a @ trim_front space_runes s" using trim_front_suffix by blast
  moreover obtain b where "rev (trim_front space_runes s)
      = b @ trim_front (map rev space_runes) (rev (trim_front space_runes s))"
    using trim_front_suffix by blast
  then have "trim_front space_runes s = TrimSpace s @ rev b"
    unfolding TrimSpace_def by (metis rev_append rev_rev_ident)
  ultimately show ?thesis by metis
qed

lemma TrimSpace_front:
  assumes "r \<in> set space_runes"
  shows "\<not> HasPrefix (TrimSpace s) r"
proof
  assume "HasPrefix (TrimSpace s) r"
  moreover obtain b where "rev (trim_front space_runes s)
      = b @ trim_front (map rev space_runes) (rev (trim_front space_runes s))"
    using trim_front_suffix by blast
  then have "trim_front space_runes s = TrimSpace s @ rev b"
    unfolding TrimSpace_def by (metis rev_append rev_rev_ident)
  ultimately have "HasPrefix (trim_front space_runes s) r" by (auto simp: HasPrefix_ex)
  moreover have "r \<noteq> []" using assms by (auto simp: space_runes_def)
  ultimately show False using trim_front_done assms by blast
qed

text \<open>
  C35: the loop of SplitStatements, with its index, start offset and five mode variables,
  computes the statements of the one-mode scanner: the text is cut at its top-level semicolons,
  each piece is trimmed, and blank pieces are dropped.
\<close>

theorem SplitStatements_spec:
  "SplitStatements sql = filter (\<lambda>s. s \<noteq> []) (map TrimSpace (raw_pieces Top [] sql))"
  by (simp add: SplitStatements_refines nonblank_def)

text \<open>
  C36: SplitStatements drops nothing but white space and the separating semicolons: the text is
  some pieces joined by semicolons, and the statements are these pieces, trimmed, without the
  blank ones. A trimmed piece is an infix of the piece and does not begin with white space.
\<close>

theorem SplitStatements_lossless:
  "\<exists>ps. Join ps '';'' = sql \<and> SplitStatements sql = filter (\<lambda>s. s \<noteq> []) (map TrimSpace ps) \<and>
        list_all (\<lambda>p. (\<exists>a b. p = a @ TrimSpace p @ b) \<and>
                      \<not> list_ex (HasPrefix (TrimSpace p)) space_runes) ps"
  using Join_raw_pieces [of Top "[]" sql] TrimSpace_infix TrimSpace_front
  by (intro exI [of _ "raw_pieces Top [] sql"])
    (auto simp: SplitStatements_refines nonblank_def list_all_iff list_ex_iff)

lemma raw_pieces_quoted:
  "CHR 0x27 \<notin> set w \<Longrightarrow> \<not> HasPrefix rest [CHR 0x27] \<Longrightarrow>
   raw_pieces SingleQ acc (w @ CHR 0x27 # rest) = raw_pieces Top (acc @ w @ [CHR 0x27]) rest"
proof (induction w arbitrary: acc)
  case Nil
  then have "lex_tok SingleQ (CHR 0x27 # rest) = (0, Top)" by (simp add: lex_tok_def)
  from raw_pieces_tok [OF _ _ this] show ?case by simp
next
  case (Cons c w)
  then have "lex_tok SingleQ (c # w @ CHR 0x27 # rest) = (0, SingleQ)" by (auto simp: lex_tok_def)
  from raw_pieces_tok [OF _ _ this] Cons show ?case by simp
qed

lemma TrimSpace_quoted: "TrimSpace (CHR 0x27 # w @ [CHR 0x27]) = CHR 0x27 # w @ [CHR 0x27]"
proof -
  have "trim_front space_runes (CHR 0x27 # v) = CHR 0x27 # v"
    "trim_front (map rev space_runes) (CHR 0x27 # v) = CHR 0x27 # v" for v
    by (rule trim_front_id, auto simp: space_runes_def)+
  then show ?thesis by (simp add: TrimSpace_def)
qed

text \<open>
  A single-quoted literal is one unit: whatever text without a quote stands in it, its
  semicolons included, SplitStatements keeps the literal whole and splits at the semicolon
  after it.
\<close>

theorem SplitStatements_literal:
  assumes "CHR 0x27 \<notin> set w"
  shows "SplitStatements (CHR 0x27 # w @ CHR 0x27 # CHR '';'' # rest)
    = (CHR 0x27 # w @ [CHR 0x27]) # SplitStatements rest"
proof -
  have "lex_tok Top (CHR 0x27 # w @ CHR 0x27 # CHR '';'' # rest) = (0, SingleQ)"
    by (simp add: lex_tok_def)
  from raw_pieces_tok [OF _ _ this, of "[]"]
  have "raw_pieces Top [] (CHR 0x27 # w @ CHR 0x27 # CHR '';'' # rest)
    = raw_pieces SingleQ [CHR 0x27] (w @ CHR 0x27 # CHR '';'' # rest)" by simp
  also have "\<dots> = (CHR 0x27 # w @ [CHR 0x27]) # raw_pieces Top [] rest"
    using raw_pieces_quoted [OF assms, of "CHR '';'' # rest" "[CHR 0x27]"] by simp
  finally show ?thesis by (simp add: SplitStatements_refines TrimSpace_quoted)
qed

theorem SplitStatements_literal_witness:
  "CHR 0x27 \<notin> set ''semi;colon'' \<and>
   SplitStatements (CHR 0x27 # ''semi;colon'' @ CHR 0x27 # '';'')
     = [CHR 0x27 # ''semi;colon'' @ [CHR 0x27]]"
proof -
  have "trim_front rs [] = []" for rs by (rule trim_front_id) auto
  then have "SplitStatements [] = []"
    by (simp add: SplitStatements_refines TrimSpace_def)
  moreover have "CHR 0x27 \<notin> set ''semi;colon''" by simp
  ultimately show ?thesis
    using SplitStatements_literal [of "''semi;colon''" "[]"] by simp
qed

text \<open>
  GooseUpSection returns exactly the text between the first Up marker and the first Down
  marker after it.
\<close>

theorem GooseUpSection_between:
  assumes "Index (pre @ ''-- +goose Up'' @ body @ ''-- +goose Down'' @ post) ''-- +goose Up''
             = Some (length pre)"
    and "Index (body @ ''-- +goose Down'' @ post) ''-- +goose Down'' = Some (length body)"
  shows "GooseUpSection (pre @ ''-- +goose Up'' @ body @ ''-- +goose Down'' @ post) = body"
  using assms by (simp add: GooseUpSection_def)

theorem GooseUpSection_between_witness:
  "GooseUpSection (''-- +goose Up'' @ '' create; '' @ ''-- +goose Down'' @ '' drop;'') = '' create; ''"
  using GooseUpSection_between [of "[]" "'' create; ''" "'' drop;''"] by simp

lemma split_iter_iterates: "ss_i st + int n \<le> ss_i ((split_iter sql ^^ n) st)"
proof (induction n)
  case (Suc n)
  then show ?case using split_iter_progress [of "(split_iter sql ^^ n) st" sql] by simp
qed simp

lemma split_iter_in_text:
  "\<forall>k<n. ss_i ((split_iter sql ^^ k) split_init) < int (length sql) \<Longrightarrow> in_text sql ((split_iter sql ^^ n) split_init)"
  by (induction n) (simp_all add: in_text_init split_iter_step)

lemma split_loop_unroll:
  "\<forall>k<n. ss_i ((split_iter sql ^^ k) st) < int (length sql) \<Longrightarrow>
   split_loop sql st = split_loop sql ((split_iter sql ^^ n) st)"
proof (induction n)
  case (Suc n)
  then have "split_loop sql ((split_iter sql ^^ n) st) = split_loop sql ((split_iter sql ^^ Suc n) st)"
    by (subst split_loop.simps) simp
  with Suc show ?case by simp
qed simp

text \<open>
  C40: SplitStatements ends and never reads outside the text. Its loop stops after at most as many
  iterations as the text has bytes, with the index exactly at the end; before every iteration the index
  is a position of the text, and the start offset lies between 0 and the index, so that every
  sql[i], sql[i:], sql[start:i] and the last sql[start:] is in range. The index is a signed integer, as in
  Go: that it grows rests on the tags of readDollarQuoteTag being at least two bytes long.
\<close>

theorem SplitStatements_terminates:
  "\<exists>n\<le>length sql.
     list_all (\<lambda>k. 0 \<le> ss_start ((split_iter sql ^^ k) split_init) \<and>
        ss_start ((split_iter sql ^^ k) split_init) \<le> ss_i ((split_iter sql ^^ k) split_init) \<and>
        ss_i ((split_iter sql ^^ k) split_init) < int (length sql)) [0..<n] \<and>
     split_loop sql split_init = (split_iter sql ^^ n) split_init \<and>
     ss_i (split_loop sql split_init) = int (length sql) \<and>
     0 \<le> ss_start (split_loop sql split_init) \<and> ss_start (split_loop sql split_init) \<le> int (length sql)"
proof -
  define st where "st k = (split_iter sql ^^ k) split_init" for k
  define n where "n = (LEAST k. int (length sql) \<le> ss_i (st k))"
  have len: "int (length sql) \<le> ss_i (st (length sql))"
    using split_iter_iterates [of split_init "length sql" sql] by (simp add: st_def split_init_def)
  have inside: "ss_i (st k) < int (length sql)" if "k < n" for k
    using that not_less_Least unfolding n_def by force
  have n: "int (length sql) \<le> ss_i (st n)" "n \<le> length sql"
    using len by (auto simp: n_def intro: LeastI Least_le)
  have inv: "in_text sql (st k)" if "k \<le> n" for k
    using that inside unfolding st_def by (intro split_iter_in_text) auto
  have "split_loop sql split_init = split_loop sql (st n)"
    using inside unfolding st_def by (intro split_loop_unroll) auto
  also have "\<dots> = st n" using n by (subst split_loop.simps) simp
  finally have loop: "split_loop sql split_init = st n" .
  have "ss_start (st n) \<le> int (length sql)" using inv [of n] by (auto simp: in_text_def)
  with n inside inv [of n] inv loop show ?thesis unfolding st_def [symmetric] in_text_def
    by (intro exI [of _ n]) (auto simp: order_antisym list_all_iff)
qed

end
