(* ===== verification/Middleware.thy ===== *)
theory Middleware
  imports Redis Decimal SqlSplit
begin

text \<open>
  The gRPC interceptors, internal/shared/middleware: ratelimit.go, auth.go, validation.go,
  modules.go (the chain) and the client address of http.go. LoggingInterceptor only observes: it
  calls the handler and returns what it returned.

  A unary handler is a function from the context of the call and the state to a response or a
  status, with the state it leaves. The context holds the peer address, the metadata and the value
  under UserIDKey. The JWT library, golang-jwt/jwt, and the protovalidate rules are parameters.
\<close>

section \<open>Contexts, statuses, handlers\<close>

datatype Code =
    InvalidArgument | NotFound | AlreadyExists | PermissionDenied | ResourceExhausted
  | FailedPrecondition | OutOfRange | Unimplemented | Internal | Unavailable | Unauthenticated

datatype status = Status (st_code: Code) (st_message: string)

record rpc_ctx =
  peer_addr :: "string option"
  incoming_md :: "(string \<times> string list) list option"
  UserIDKey :: "string option"

type_synonym ('s, 'r) UnaryHandler = "rpc_ctx \<Rightarrow> 's \<Rightarrow> (status + 'r) \<times> 's"

definition UserIDFromContext :: "rpc_ctx \<Rightarrow> string" where
  "UserIDFromContext ctx = (case UserIDKey ctx of Some v \<Rightarrow> v | None \<Rightarrow> [])"

text \<open>strings.LastIndex for a separator of one byte.\<close>

fun LastIndex :: "string \<Rightarrow> char \<Rightarrow> nat option" where
  "LastIndex [] c = None"
| "LastIndex (x # xs) c =
     (case LastIndex xs c of Some i \<Rightarrow> Some (Suc i) | None \<Rightarrow> if x = c then Some 0 else None)"

definition strip_port :: "string \<Rightarrow> string" where
  "strip_port addr = (case LastIndex addr (CHR '':'') of Some i \<Rightarrow> take i addr | None \<Rightarrow> addr)"

definition peerIP :: "rpc_ctx \<Rightarrow> string" where
  "peerIP ctx = (case peer_addr ctx of Some addr \<Rightarrow> strip_port addr | None \<Rightarrow> ''unknown'')"

section \<open>Rate limits\<close>

record rateLimit =
  limit :: int
  window :: time

definition Minute :: time where
  "Minute = 60 * 1000000000"

definition authRateLimits :: "string \<Rightarrow> rateLimit option" where
  "authRateLimits = map_of
     [(''/auth.v1.AuthService/Register'', \<lparr>limit = 100, window = Minute\<rparr>),
      (''/auth.v1.AuthService/Login'', \<lparr>limit = 100, window = Minute\<rparr>),
      (''/auth.v1.AuthService/VerifyOTP'', \<lparr>limit = 100, window = Minute\<rparr>),
      (''/auth.v1.AuthService/ResendOTP'', \<lparr>limit = 100, window = Minute\<rparr>)]"

definition messageSendMethods :: "string list" where
  "messageSendMethods =
     [''/message.v1.MessageService/SendMessage'', ''/message.v1.MessageService/SendDirectMessage'']"

definition friendRequestMethods :: "string list" where
  "friendRequestMethods = [''/user.v1.UserService/SendFriendRequest'']"

definition defaultLimit :: rateLimit where
  "defaultLimit = \<lparr>limit = 60, window = Minute\<rparr>"

definition messageSendLimit :: rateLimit where
  "messageSendLimit = \<lparr>limit = 30, window = Minute\<rparr>"

definition friendRequestLimit :: rateLimit where
  "friendRequestLimit = \<lparr>limit = 10, window = Minute\<rparr>"

definition resolveRateLimit :: "rpc_ctx \<Rightarrow> string \<Rightarrow> string \<times> rateLimit" where
  "resolveRateLimit ctx rpc =
     (case authRateLimits rpc of
        Some rl \<Rightarrow> (peerIP ctx, rl)
      | None \<Rightarrow>
          (let identity = (if UserIDFromContext ctx = [] then peerIP ctx else UserIDFromContext ctx) in
           if rpc \<in> set messageSendMethods then (identity, messageSendLimit)
           else if rpc \<in> set friendRequestMethods then (identity, friendRequestLimit)
           else (identity, defaultLimit)))"

text \<open>
  The two commands travel in one pipeline, Exec: Redis runs both at one instant, the second also
  when the first reports an error, and Exec reports the first error. When the pipeline itself
  fails nothing runs.
\<close>

definition checkRateLimit :: "env \<Rightarrow> string \<Rightarrow> rateLimit \<Rightarrow> redis \<Rightarrow> (dberr + bool) \<times> redis" where
  "checkRateLimit e key rl r =
     (if fault e [] then (Inl DbFault, r)
      else case r_Incr e key r of
        Inl x \<Rightarrow> (Inl x, keep_on_error r (r_Expire e key (window rl) r))
      | Inr (cnt, r1) \<Rightarrow>
          (case r_Expire e key (window rl) r1 of
             Inl x \<Rightarrow> (Inl x, r1)
           | Inr r2 \<Rightarrow> (Inr (cnt \<le> limit rl), r2)))"

text \<open>The text of a duration of whole seconds, at least a minute and below an hour: the windows above.\<close>

definition Duration_String :: "time \<Rightarrow> string" where
  "Duration_String d = (let secs = d div 1000000000 in Itoa (secs div 60) @ ''m'' @ Itoa (secs mod 60) @ ''s'')"

definition exempt :: "string \<Rightarrow> bool" where
  "exempt rpc \<longleftrightarrow> HasPrefix rpc ''/grpc.reflection.'' \<or> HasPrefix rpc ''/grpc.health.''"

definition rate_key :: "string \<Rightarrow> string \<Rightarrow> string" where
  "rate_key identity rpc = ''ratelimit:'' @ identity @ '':'' @ rpc"

definition RateLimitInterceptor ::
    "env \<Rightarrow> string \<Rightarrow> (server, 'r) UnaryHandler \<Rightarrow> (server, 'r) UnaryHandler" where
  "RateLimitInterceptor e rpc handler ctx s =
     (if exempt rpc then handler ctx s
      else case resolveRateLimit ctx rpc of
        (identity, rl) \<Rightarrow>
          (case checkRateLimit e (rate_key identity rpc) rl (sv_kv s) of
             (Inl _, r) \<Rightarrow> handler ctx (s\<lparr>sv_kv := r\<rparr>)
           | (Inr True, r) \<Rightarrow> handler ctx (s\<lparr>sv_kv := r\<rparr>)
           | (Inr False, r) \<Rightarrow> (Inl (Status ResourceExhausted (''rate limit exceeded: '' @ Itoa (limit rl) @ '' requests per '' @
                                Duration_String (window rl))), s\<lparr>sv_kv := r\<rparr>)))"

section \<open>Authentication\<close>

text \<open>
  The JWT library. Parse is given the key function of the caller, which sees the signing method of
  the token; it answers with the token or an error. SignedString signs claims with a key. A claim
  is a JSON value, of which the program tells strings apart.
\<close>

datatype SigningMethod = SigningMethodHMAC | SigningMethodRSA | SigningMethodECDSA | SigningMethodNone

datatype claim = CStr string | CNum int | COther

record Token =
  tok_Valid :: bool
  tok_Claims :: "(string \<times> claim) list option"

record jwt_lib =
  jwt_Parse :: "(SigningMethod \<Rightarrow> string option) \<Rightarrow> time \<Rightarrow> string \<Rightarrow> Token option"
  SignedString :: "SigningMethod \<Rightarrow> (string \<times> claim) list \<Rightarrow> string \<Rightarrow> string option"

definition hmac_key :: "string \<Rightarrow> SigningMethod \<Rightarrow> string option" where
  "hmac_key secret m = (if m = SigningMethodHMAC then Some secret else None)"

definition publicMethods :: "string list" where
  "publicMethods =
     [''/auth.v1.AuthService/Register'', ''/auth.v1.AuthService/VerifyOTP'',
      ''/auth.v1.AuthService/ResendOTP'', ''/auth.v1.AuthService/Login'',
      ''/auth.v1.AuthService/RefreshToken'', ''/auth.v1.AuthService/ValidateToken'',
      ''/guild.v1.GuildService/PreviewInvite'']"

text \<open>What a token says when its claims carry a string under sub.\<close>

definition token_subject :: "Token \<Rightarrow> string option" where
  "token_subject t =
     (case tok_Claims t of
        None \<Rightarrow> None
      | Some cl \<Rightarrow>
          if \<not> tok_Valid t then None
          else (case map_of cl ''sub'' of Some (CStr u) \<Rightarrow> Some u | _ \<Rightarrow> None))"

definition extractUserID :: "jwt_lib \<Rightarrow> time \<Rightarrow> string \<Rightarrow> rpc_ctx \<Rightarrow> status + string" where
  "extractUserID J now secret ctx =
     (case incoming_md ctx of
        None \<Rightarrow> Inl (Status Unauthenticated ''missing metadata'')
      | Some md \<Rightarrow>
          (case map_of md ''authorization'' of
             None \<Rightarrow> Inl (Status Unauthenticated ''missing authorization header'')
           | Some [] \<Rightarrow> Inl (Status Unauthenticated ''missing authorization header'')
           | Some (authHeader # _) \<Rightarrow>
               (case jwt_Parse J (hmac_key secret) now (TrimPrefix authHeader ''Bearer '') of
                  None \<Rightarrow> Inl (Status Unauthenticated ''invalid token'')
                | Some token \<Rightarrow>
                    (case tok_Claims token of
                       None \<Rightarrow> Inl (Status Unauthenticated ''invalid token claims'')
                     | Some claims \<Rightarrow>
                         if \<not> tok_Valid token then Inl (Status Unauthenticated ''invalid token claims'')
                         else (case map_of claims ''sub'' of
                                 Some (CStr userID) \<Rightarrow> Inr userID
                               | _ \<Rightarrow> Inl (Status Unauthenticated ''missing user id in token''))))))"

definition AuthInterceptor ::
    "jwt_lib \<Rightarrow> time \<Rightarrow> string \<Rightarrow> string \<Rightarrow> ('s, 'r) UnaryHandler \<Rightarrow> ('s, 'r) UnaryHandler" where
  "AuthInterceptor J now secret rpc handler ctx s =
     (if rpc \<in> set publicMethods \<or> exempt rpc then handler ctx s
      else case extractUserID J now secret ctx of
        Inl err \<Rightarrow> (Inl err, s)
      | Inr userID \<Rightarrow> handler (ctx\<lparr>UserIDKey := Some userID\<rparr>) s)"

text \<open>
  StreamAuthInterceptor wraps the stream so that its context carries the user; a stream handler is
  its context and state transformer with an error for a result.
\<close>

definition StreamAuthInterceptor ::
    "jwt_lib \<Rightarrow> time \<Rightarrow> string \<Rightarrow> string \<Rightarrow> ('s, unit) UnaryHandler \<Rightarrow> ('s, unit) UnaryHandler" where
  "StreamAuthInterceptor J now secret rpc handler ctx s =
     (if rpc \<in> set publicMethods \<or> exempt rpc then handler ctx s
      else case extractUserID J now secret ctx of
        Inl err \<Rightarrow> (Inl err, s)
      | Inr userID \<Rightarrow> handler (ctx\<lparr>UserIDKey := Some userID\<rparr>) s)"

section \<open>Validation and the chain\<close>

text \<open>The rules of the request: the error text, if it breaks one; None when it is no proto message.\<close>

definition ValidationInterceptor ::
    "string option \<Rightarrow> ('s, 'r) UnaryHandler \<Rightarrow> ('s, 'r) UnaryHandler" where
  "ValidationInterceptor violation handler ctx s =
     (case violation of
        Some msg \<Rightarrow> (Inl (Status InvalidArgument msg), s)
      | None \<Rightarrow> handler ctx s)"

definition LoggingInterceptor :: "('s, 'r) UnaryHandler \<Rightarrow> ('s, 'r) UnaryHandler" where
  "LoggingInterceptor handler ctx s = handler ctx s"

text \<open>The chain of NewGRPCInterceptors, the first interceptor outermost.\<close>

definition unary_chain ::
    "jwt_lib \<Rightarrow> env \<Rightarrow> string \<Rightarrow> string option \<Rightarrow> string \<Rightarrow> (server, 'r) UnaryHandler \<Rightarrow> (server, 'r) UnaryHandler" where
  "unary_chain J e secret violation rpc handler =
     LoggingInterceptor
       (RateLimitInterceptor (at e 0) rpc
          (AuthInterceptor J (clock e [1]) secret rpc
             (ValidationInterceptor violation handler)))"

section \<open>The address behind a proxy\<close>

record http_request =
  X_Forwarded_For :: string
  X_Real_IP :: string
  RemoteAddr :: string

fun IndexByte :: "string \<Rightarrow> char \<Rightarrow> nat option" where
  "IndexByte [] c = None"
| "IndexByte (x # xs) c = (if x = c then Some 0 else map_option Suc (IndexByte xs c))"

definition httpPeerIP :: "http_request \<Rightarrow> string" where
  "httpPeerIP r =
     (if X_Forwarded_For r \<noteq> [] then
        (case IndexByte (X_Forwarded_For r) (CHR '','') of
           Some comma \<Rightarrow>
             if 0 < comma then TrimSpace (take comma (X_Forwarded_For r))
             else TrimSpace (X_Forwarded_For r)
         | None \<Rightarrow> TrimSpace (X_Forwarded_For r))
      else if X_Real_IP r \<noteq> [] then TrimSpace (X_Real_IP r)
      else strip_port (RemoteAddr r))"


section \<open>The counter of a key over time\<close>

text \<open>
  A sequence of requests under one key, each in its own environment, and which are allowed. The
  reference: a burst is a sequence of requests each less than a window after the one before; it
  keeps the position of a request in its burst.
\<close>

fun rate_run :: "env list \<Rightarrow> string \<Rightarrow> rateLimit \<Rightarrow> redis \<Rightarrow> (dberr + bool) list" where
  "rate_run [] key rl r = []"
| "rate_run (e # es) key rl r =
     (case checkRateLimit e key rl r of (res, r') \<Rightarrow> res # rate_run es key rl r')"

fun burst_pos :: "time \<Rightarrow> (int \<times> time) option \<Rightarrow> time list \<Rightarrow> int list" where
  "burst_pos w st [] = []"
| "burst_pos w st (t # ts) =
     (let n = (case st of Some (n, u) \<Rightarrow> if t < u + w then n + 1 else 1 | None \<Rightarrow> 1)
      in n # burst_pos w (Some (n, t)) ts)"

definition rate_state :: "time \<Rightarrow> (int \<times> time) option \<Rightarrow> (rvalue \<times> time option) option" where
  "rate_state w st = map_option (\<lambda>(n, u). (RInt n, Some (u + w))) st"

lemma checkRateLimit_step:
  assumes "\<not> fault e []" and "r key = rate_state (window rl) st" and "0 < window rl"
    and "n = (case st of Some (n, u) \<Rightarrow> if clock e [] < u + window rl then n + 1 else 1 | None \<Rightarrow> 1)"
  shows "checkRateLimit e key rl r =
           (Inr (n \<le> limit rl), r(key := rate_state (window rl) (Some (n, clock e []))))"
  using assms
  by (auto simp: checkRateLimit_def r_Incr_def r_Expire_def live_value_def rate_state_def
      split: option.splits if_splits)

lemma rate_run_burst:
  assumes "\<forall>e\<in>set es. \<not> fault e []" and "r key = rate_state (window rl) st" and "0 < window rl"
  shows "rate_run es key rl r =
           map (\<lambda>n. Inr (n \<le> limit rl)) (burst_pos (window rl) st (map (\<lambda>e. clock e []) es))"
  using assms
proof (induction es arbitrary: r st)
  case (Cons e es)
  then show ?case
    by (simp add: checkRateLimit_step [OF _ _ _ refl] Let_def)
qed simp

lemma length_burst_pos [simp]: "length (burst_pos w st ts) = length ts"
  by (induction ts arbitrary: st) (auto simp: Let_def)

lemma burst_pos_chain:
  assumes "\<forall>i. Suc i < length ts \<longrightarrow> ts ! Suc i < ts ! i + w" and "i < length ts"
    and "ts \<noteq> [] \<Longrightarrow> (case st of Some (n, u) \<Rightarrow> if hd ts < u + w then n + 1 else 1 | None \<Rightarrow> 1) = k"
  shows "burst_pos w st ts ! i = k + int i"
  using assms
proof (induction ts arbitrary: st i k)
  case (Cons t ts)
  show ?case
  proof (cases i)
    case 0
    with Cons.prems(3) show ?thesis by (auto simp: Let_def split: option.splits)
  next
    case (Suc j)
    have gaps: "\<forall>i. Suc i < length ts \<longrightarrow> ts ! Suc i < ts ! i + w"
      using Cons.prems(1) by (metis Suc_less_eq length_Cons nth_Cons_Suc)
    have "hd ts < t + w" if "ts \<noteq> []"
      using Cons.prems(1) that by (cases ts) (auto dest: spec [of _ 0])
    then have "burst_pos w (Some (k, t)) ts ! j = (k + 1) + int j"
      using Cons.prems(2) Suc by (intro Cons.IH [OF gaps]) auto
    with Cons.prems(3) Suc show ?thesis by (auto simp: Let_def split: option.splits)
  qed
qed simp

lemma burst_pos_take: "take m (burst_pos w st ts) = burst_pos w st (take m ts)"
proof (induction ts arbitrary: st m)
  case (Cons t ts)
  then show ?case by (cases m) (auto simp: Let_def)
qed simp

definition st_ok :: "(int \<times> time) option \<Rightarrow> bool" where
  "st_ok st = (case st of None \<Rightarrow> True | Some (n, _) \<Rightarrow> 0 \<le> n)"

lemma burst_pos_drop:
  "st_ok st \<Longrightarrow> \<exists>st'. st_ok st' \<and> drop m (burst_pos w st ts) = burst_pos w st' (drop m ts)"
proof (induction ts arbitrary: st m)
  case (Cons t ts)
  show ?case
  proof (cases m)
    case (Suc k)
    define n where "n = (case st of Some (n, u) \<Rightarrow> if t < u + w then n + 1 else 1 | None \<Rightarrow> 1)"
    have "st_ok (Some (n, t))"
      using Cons.prems by (auto simp: st_ok_def n_def split: option.splits)
    from Cons.IH [OF this, of k] Suc show ?thesis by (simp add: Let_def n_def)
  qed (use Cons.prems in auto)
qed (auto simp: st_ok_def)

lemma filter_upto_bound:
  "1 \<le> K \<Longrightarrow> int (length (filter (\<lambda>n. n \<le> L) (map (\<lambda>k. K + int k) [0..<m]))) \<le> max 0 L"
proof (induction m)
  case (Suc m)
  have "length (filter (\<lambda>n. n \<le> L) (map (\<lambda>k. K + int k) [0..<m])) \<le> m"
    by (rule order_trans [OF length_filter_le]) simp
  with Suc show ?case by simp
qed simp

lemma sorted_gap:
  assumes "sorted (ts :: time list)" and "ts \<noteq> []" and "last ts < hd ts + w" and "Suc i < length ts"
  shows "ts ! Suc i < ts ! i + w"
proof -
  have "ts ! Suc i \<le> last ts" "hd ts \<le> ts ! i"
    using assms by (auto simp: last_conv_nth hd_conv_nth intro!: sorted_nth_mono)
  with assms(3) show ?thesis by simp
qed

lemma burst_bound:
  assumes "sorted ts" and "ts \<noteq> [] \<Longrightarrow> last ts < hd ts + w" and "st_ok st"
  shows "int (length (filter (\<lambda>n. n \<le> L) (burst_pos w st ts))) \<le> max 0 L"
proof (cases "ts = []")
  case False
  define K where "K = (case st of Some (n, u) \<Rightarrow> if hd ts < u + w then n + 1 else 1 | None \<Rightarrow> 1)"
  have "1 \<le> K" using assms(3) by (auto simp: K_def st_ok_def split: option.splits)
  have "burst_pos w st ts ! i = K + int i" if "i < length ts" for i
    using that sorted_gap [OF assms(1) False assms(2) [OF False]]
    by (intro burst_pos_chain) (auto simp: K_def)
  then have "burst_pos w st ts = map (\<lambda>k. K + int k) [0..<length ts]"
    by (auto intro: nth_equalityI)
  with filter_upto_bound [OF \<open>1 \<le> K\<close>] show ?thesis by simp
qed simp


section \<open>What the limiter promises\<close>

lemma rate_run_fresh:
  assumes "\<forall>e\<in>set es. \<not> fault e []" and "r key = None" and "0 < window rl"
  shows "rate_run es key rl r =
           map (\<lambda>n. Inr (n \<le> limit rl)) (burst_pos (window rl) None (map (\<lambda>e. clock e []) es))"
  using assms by (intro rate_run_burst) (simp_all add: rate_state_def)

text \<open>
  C18: while no Redis command fails (the limiter lets a request through when one does), at most limit
  requests of a key pass in any span of time shorter than the window: among the requests from the i-th
  on, m of them, when the last comes less than a window after the first, no more than limit are
  allowed. The key may be fresh at the start or hold a counter, with any expiry, left by earlier requests.
\<close>

theorem rate_limit_window:
  assumes "\<forall>e\<in>set es. \<not> fault e []"
    and "r key = None \<or> (\<exists>n u. 0 \<le> n \<and> r key = Some (RInt n, Some u))" and "0 < window rl"
    and "sorted (map (\<lambda>e. clock e []) es)"
    and "i + m < length es" and "clock (es ! (i + m)) [] < clock (es ! i) [] + window rl"
  shows "int (length (filter (\<lambda>x. x = Inr True) (take (Suc m) (drop i (rate_run es key rl r)))))
           \<le> max 0 (limit rl)"
proof -
  obtain st0 where st0: "r key = rate_state (window rl) st0" "st_ok st0"
  proof (cases "r key")
    case None
    then show ?thesis by (intro that [of None]) (simp_all add: rate_state_def st_ok_def)
  next
    case (Some v)
    with assms(2) obtain n u where "0 \<le> n" "r key = Some (RInt n, Some u)" by auto
    then show ?thesis by (intro that [of "Some (n, u - window rl)"]) (simp_all add: rate_state_def st_ok_def)
  qed
  let ?ts = "map (\<lambda>e. clock e []) es"
  let ?seg = "take (Suc m) (drop i ?ts)"
  obtain st where st: "st_ok st"
    "drop i (burst_pos (window rl) st0 ?ts) = burst_pos (window rl) st (drop i ?ts)"
    using burst_pos_drop [OF st0(2), of i "window rl" ?ts] by auto
  have seg: "take (Suc m) (drop i (burst_pos (window rl) st0 ?ts)) = burst_pos (window rl) st ?seg"
    by (simp only: st(2) burst_pos_take)
  have "sorted ?seg" using assms(4) sorted_wrt_drop sorted_wrt_take by blast
  moreover have "last ?seg < hd ?seg + window rl"
  proof -
    have "length ?seg = Suc m" using assms(5) by auto
    then have "last ?seg = ?seg ! m" by (metis last_conv_nth diff_Suc_1 list.size(3) nat.distinct(1))
    then show ?thesis using assms(5,6) by (simp add: hd_conv_nth)
  qed
  ultimately have "int (length (filter (\<lambda>n. n \<le> limit rl) (burst_pos (window rl) st ?seg))) \<le> max 0 (limit rl)"
    using st(1) by (intro burst_bound) auto
  then have "int (length (filter (\<lambda>x. x = Inr True) (map (\<lambda>n. Inr (n \<le> limit rl) :: dberr + bool)
      (take (Suc m) (drop i (burst_pos (window rl) st0 ?ts)))))) \<le> max 0 (limit rl)"
    by (simp only: seg filter_map comp_def length_map sum.inject eq_True)
  then show ?thesis
    by (simp only: rate_run_burst [of es r key rl, OF assms(1) st0(1) assms(3)] drop_map take_map)
qed

text \<open>
  The counter never drains while requests keep coming: every request renews the expiry, a refused
  one too. In a run of requests each less than a window after the one before, exactly the first
  limit are allowed and every later one is refused, however slowly they come.
\<close>

theorem rate_limit_starves:
  assumes "\<forall>e\<in>set es. \<not> fault e []" and "r key = None" and "0 < window rl"
    and "\<forall>i. Suc i < length es \<longrightarrow> clock (es ! Suc i) [] < clock (es ! i) [] + window rl"
    and "i < length es"
  shows "rate_run es key rl r ! i = Inr (int i < limit rl)"
proof -
  have "burst_pos (window rl) None (map (\<lambda>e. clock e []) es) ! i = 1 + int i"
    using assms(4,5) by (intro burst_pos_chain) auto
  with rate_run_fresh [of es r key rl, OF assms(1-3)] assms(5) show ?thesis by auto
qed

lemma burst_pos_reset:
  assumes "Suc i < length ts" and "ts ! i + w \<le> ts ! Suc i"
  shows "burst_pos w st ts ! Suc i = 1"
  using assms
proof (induction ts arbitrary: st i)
  case (Cons t ts)
  show ?case
  proof (cases i)
    case 0
    with Cons.prems show ?thesis by (cases ts) (auto simp: Let_def)
  next
    case (Suc j)
    with Cons.prems Cons.IH [of j] show ?thesis by (simp add: Let_def)
  qed
qed simp

text \<open>
  A key that stays idle for a whole window is served again: the next request is allowed.
\<close>

theorem rate_limit_recovers:
  assumes "\<forall>e\<in>set es. \<not> fault e []" and "r key = None" and "0 < window rl" and "1 \<le> limit rl"
    and "Suc i < length es" and "clock (es ! i) [] + window rl \<le> clock (es ! Suc i) []"
  shows "rate_run es key rl r ! Suc i = Inr True"
proof -
  have "burst_pos (window rl) None (map (\<lambda>e. clock e []) es) ! Suc i = 1"
    using assms(5,6) by (intro burst_pos_reset) auto
  with rate_run_fresh [of es r key rl, OF assms(1-3)] assms(4,5) show ?thesis by auto
qed

text \<open>Requests at the given instants, and a burst of four a second apart under a limit of two.\<close>

definition request_at :: "time \<Rightarrow> env" where
  "request_at t = \<lparr>uuid_string = (\<lambda>_. []), uuid_scan = (\<lambda>_. None), fault = (\<lambda>_. False),
     fresh = (\<lambda>_. 0), clock = (\<lambda>_. t), authz_nil = True, lpb_nil = True\<rparr>"

lemma request_at_simps [simp]: "fault (request_at t) p = False" "clock (request_at t) p = t"
  by (simp_all add: request_at_def)

definition two_per_window :: rateLimit where
  "two_per_window = \<lparr>limit = 2, window = 10\<rparr>"

theorem rate_limit_window_witness:
  "int (length (filter (\<lambda>x. x = Inr True)
     (take (Suc 3) (drop 1 (rate_run (map request_at [0, 20, 21, 22, 23]) ''k'' two_per_window empty_redis))))) \<le> max 0 2"
  using rate_limit_window [of "map request_at [0, 20, 21, 22, 23]" empty_redis "''k''" two_per_window 1 3]
  by (simp add: empty_redis_def two_per_window_def)

theorem rate_limit_starves_witness:
  "rate_run (map request_at [0, 9, 18, 27]) ''k'' two_per_window empty_redis ! 3 = Inr False"
proof -
  have "\<forall>i. Suc i < length (map request_at [0, 9, 18, 27]) \<longrightarrow>
      clock (map request_at [0, 9, 18, 27] ! Suc i) [] < clock (map request_at [0, 9, 18, 27] ! i) [] + 10"
    by (auto simp: less_Suc_eq)
  then show ?thesis
    using rate_limit_starves [of "map request_at [0, 9, 18, 27]" empty_redis "''k''" two_per_window 3]
    by (simp add: empty_redis_def two_per_window_def)
qed

theorem rate_limit_recovers_witness:
  "rate_run (map request_at [0, 1, 2, 12]) ''k'' two_per_window empty_redis ! Suc 2 = Inr True"
  using rate_limit_recovers [of "map request_at [0, 1, 2, 12]" empty_redis "''k''" two_per_window 2]
  by (simp add: empty_redis_def two_per_window_def)


section \<open>What the chain promises\<close>

text \<open>
  What the limiter does to a request: the handler runs on the state with the counter moved, or the
  request is refused. The limiter never touches the database.
\<close>

definition limited :: "env \<Rightarrow> string \<Rightarrow> rpc_ctx \<Rightarrow> server \<Rightarrow> bool \<times> server" where
  "limited e rpc ctx s =
     (if exempt rpc then (True, s)
      else case resolveRateLimit ctx rpc of
        (identity, rl) \<Rightarrow>
          (case checkRateLimit e (rate_key identity rpc) rl (sv_kv s) of
             (res, r) \<Rightarrow> (res \<noteq> Inr False, s\<lparr>sv_kv := r\<rparr>)))"

lemma RateLimitInterceptor_cases:
  "RateLimitInterceptor e rpc handler ctx s =
     (case limited e rpc ctx s of
        (True, s') \<Rightarrow> handler ctx s'
      | (False, s') \<Rightarrow> (Inl (Status ResourceExhausted (''rate limit exceeded: '' @
            Itoa (limit (snd (resolveRateLimit ctx rpc))) @ '' requests per '' @
            Duration_String (window (snd (resolveRateLimit ctx rpc))))), s'))"
  by (auto simp: RateLimitInterceptor_def limited_def split: prod.splits sum.splits bool.splits)

lemma limited_db [simp]: "limited e rpc ctx s = (b, s') \<Longrightarrow> sv_db s' = sv_db s"
  by (auto simp: limited_def split: prod.splits if_splits)

lemma token_subject_iff:
  "token_subject t = Some u \<longleftrightarrow>
     (\<exists>cl. tok_Claims t = Some cl \<and> tok_Valid t \<and> map_of cl ''sub'' = Some (CStr u))"
  by (auto simp: token_subject_def split: option.splits claim.splits)

lemma extractUserID_iff:
  "extractUserID J now secret ctx = Inr u \<longleftrightarrow>
     (\<exists>md h hs t. incoming_md ctx = Some md \<and> map_of md ''authorization'' = Some (h # hs) \<and>
        jwt_Parse J (hmac_key secret) now (TrimPrefix h ''Bearer '') = Some t \<and> token_subject t = Some u)"
  by (auto simp: extractUserID_def token_subject_iff split: option.splits list.splits claim.splits if_splits)

lemma extractUserID_refusal:
  "extractUserID J now secret ctx = Inl x \<Longrightarrow> st_code x = Unauthenticated"
  by (auto simp: extractUserID_def split: option.splits list.splits claim.splits if_splits)

text \<open>
  The chain in one equation: on a method that is not public the handler runs for the user of the
  token, on the database as it was, or the call is refused and the database is as it was.
\<close>

lemma unary_chain_runs:
  assumes "rpc \<notin> set publicMethods" and "\<not> exempt rpc"
  obtains u s' where "extractUserID J (clock e [1]) secret ctx = Inr u" and "sv_db s' = sv_db s"
      and "unary_chain J e secret violation rpc handler ctx s = handler (ctx\<lparr>UserIDKey := Some u\<rparr>) s'"
    | x s' where "unary_chain J e secret violation rpc handler ctx s = (Inl x, s')" and "sv_db s' = sv_db s"
      and "st_code x \<in> {ResourceExhausted, Unauthenticated, InvalidArgument}"
proof -
  obtain b s' where lim: "limited (at e 0) rpc ctx s = (b, s')" by (cases "limited (at e 0) rpc ctx s")
  then have db: "sv_db s' = sv_db s" by simp
  note chain = unary_chain_def LoggingInterceptor_def RateLimitInterceptor_cases AuthInterceptor_def
    ValidationInterceptor_def
  show ?thesis
    using lim assms
    by (cases b; cases "extractUserID J (clock e [1]) secret ctx"; cases violation)
      (auto simp: chain extractUserID_refusal intro: that(1) [OF _ db] that(2) [OF _ db])
qed

lemma unary_chain_public:
  assumes "rpc \<in> set publicMethods"
  obtains s' where "sv_db s' = sv_db s"
      and "unary_chain J e secret violation rpc handler ctx s = handler ctx s'"
    | x s' where "unary_chain J e secret violation rpc handler ctx s = (Inl x, s')" and "sv_db s' = sv_db s"
proof -
  obtain b s' where lim: "limited (at e 0) rpc ctx s = (b, s')" by (cases "limited (at e 0) rpc ctx s")
  then have db: "sv_db s' = sv_db s" by simp
  show ?thesis
    using lim assms
    by (cases b; cases violation)
      (auto simp: unary_chain_def LoggingInterceptor_def RateLimitInterceptor_cases AuthInterceptor_def
        ValidationInterceptor_def intro: that(1) [OF db] that(2) [OF _ db])
qed

text \<open>
  C16: the chain authenticates: on a method that is not public, either the handler runs on the database
  as it was, with the user under whose name a valid token of the request was signed (a token the
  library accepts for the HMAC method with the server's secret), or it does not run, the request
  is refused as exhausted, unauthenticated or invalid, and the database is as it was.
\<close>

theorem unary_chain_authenticates:
  assumes "rpc \<notin> set publicMethods" and "\<not> exempt rpc"
  shows "(\<exists>u s' md h hs t. sv_db s' = sv_db s \<and>
            incoming_md ctx = Some md \<and> map_of md ''authorization'' = Some (h # hs) \<and>
            jwt_Parse J (hmac_key secret) (clock e [1]) (TrimPrefix h ''Bearer '') = Some t \<and>
            token_subject t = Some u \<and>
            unary_chain J e secret violation rpc handler ctx s = handler (ctx\<lparr>UserIDKey := Some u\<rparr>) s') \<or>
         (\<exists>x s'. unary_chain J e secret violation rpc handler ctx s = (Inl x, s') \<and> sv_db s' = sv_db s \<and>
            st_code x \<in> {ResourceExhausted, Unauthenticated, InvalidArgument})"
proof (cases rule: unary_chain_runs [OF assms, where J = J and e = e and secret = secret and ctx = ctx and
      s = s and violation = violation and handler = handler])
  case (1 u s')
  with extractUserID_iff [of J "clock e [1]" secret ctx u] show ?thesis by blast
next
  case (2 x s')
  then show ?thesis by blast
qed

section \<open>A JWT library\<close>

text \<open>
  What the program relies on of the library: a token that carries a subject and an expiry and was
  signed by the HMAC method is accepted with the same key until it expires, with its subject, and
  not after; a token whose method the key function refuses is refused.
\<close>

definition user_claims :: "string \<Rightarrow> int \<Rightarrow> int \<Rightarrow> (string \<times> claim) list" where
  "user_claims u iat exp = [(''sub'', CStr u), (''iat'', CNum iat), (''exp'', CNum exp)]"

definition jwt_ok :: "jwt_lib \<Rightarrow> bool" where
  "jwt_ok J \<longleftrightarrow>
     (\<forall>u iat exp key tok kf now.
        SignedString J SigningMethodHMAC (user_claims u iat exp) key = Some tok \<longrightarrow>
        (now < exp * 1000000000 \<longrightarrow> kf SigningMethodHMAC = Some key \<longrightarrow>
           (\<exists>t. jwt_Parse J kf now tok = Some t \<and> token_subject t = Some u)) \<and>
        (exp * 1000000000 \<le> now \<longrightarrow> jwt_Parse J kf now tok = None) \<and>
        (kf SigningMethodHMAC = None \<longrightarrow> jwt_Parse J kf now tok = None))"

lemma jwt_ok_accepts:
  assumes "jwt_ok J" and "SignedString J SigningMethodHMAC (user_claims u iat exp) key = Some tok"
    and "now < exp * 1000000000"
  shows "\<exists>t. jwt_Parse J (hmac_key key) now tok = Some t \<and> token_subject t = Some u"
  using assms by (auto simp: jwt_ok_def hmac_key_def)

lemma jwt_ok_expired:
  assumes "jwt_ok J" and "SignedString J SigningMethodHMAC (user_claims u iat exp) key = Some tok"
    and "exp * 1000000000 \<le> now"
  shows "jwt_Parse J kf now tok = None"
  using assms by (auto simp: jwt_ok_def)

text \<open>
  A library with these laws, for the witnesses: the token is the expiry, the length of the key, the
  key and the subject.
\<close>

definition plain_sign :: "SigningMethod \<Rightarrow> (string \<times> claim) list \<Rightarrow> string \<Rightarrow> string option" where
  "plain_sign m cl key =
     (case (m, map_of cl ''sub'', map_of cl ''exp'') of
        (SigningMethodHMAC, Some (CStr u), Some (CNum exp)) \<Rightarrow>
          Some (Itoa exp @ ''.'' @ Itoa (int (length key)) @ ''.'' @ key @ u)
      | _ \<Rightarrow> None)"

definition before_dot :: "string \<Rightarrow> string" where
  "before_dot s = takeWhile (\<lambda>c. c \<noteq> CHR ''.'') s"

definition after_dot :: "string \<Rightarrow> string" where
  "after_dot s = tl (dropWhile (\<lambda>c. c \<noteq> CHR ''.'') s)"

definition plain_parse :: "(SigningMethod \<Rightarrow> string option) \<Rightarrow> time \<Rightarrow> string \<Rightarrow> Token option" where
  "plain_parse kf now s =
     (case (read_int (before_dot s), read_int (before_dot (after_dot s)), kf SigningMethodHMAC) of
        (Some exp, Some n, Some key) \<Rightarrow>
          if now < exp * 1000000000 \<and> take (nat n) (after_dot (after_dot s)) = key
          then Some \<lparr>tok_Valid = True, tok_Claims = Some [(''sub'', CStr (drop (nat n) (after_dot (after_dot s))))]\<rparr>
          else None
      | _ \<Rightarrow> None)"

definition plain_jwt :: jwt_lib where
  "plain_jwt = \<lparr>jwt_Parse = plain_parse, SignedString = plain_sign\<rparr>"

lemma digit_not_dot: "digit n \<noteq> CHR ''.''"
  using of_char_digit [of n] by auto

lemma itoa_nat_no_dot: "CHR ''.'' \<notin> set (itoa_nat n)"
proof (induction n rule: itoa_nat.induct)
  case (1 n)
  then show ?case by (subst itoa_nat.simps) (simp add: digit_not_dot [symmetric])
qed

lemma Itoa_no_dot: "CHR ''.'' \<notin> set (Itoa i)"
  by (simp add: Itoa_def itoa_nat_no_dot)

lemma dot_split [simp]:
  "before_dot (Itoa i @ CHR ''.'' # s) = Itoa i" "after_dot (Itoa i @ CHR ''.'' # s) = s"
proof -
  have "\<forall>c\<in>set (Itoa i). c \<noteq> CHR ''.''" using Itoa_no_dot by metis
  then show "before_dot (Itoa i @ CHR ''.'' # s) = Itoa i" "after_dot (Itoa i @ CHR ''.'' # s) = s"
    by (simp_all add: before_dot_def after_dot_def takeWhile_append2 dropWhile_append2)
qed

lemma plain_jwt_ok: "jwt_ok plain_jwt"
  by (auto simp: jwt_ok_def plain_jwt_def plain_sign_def plain_parse_def user_claims_def token_subject_def
      read_int_Itoa split: if_splits option.splits)

text \<open>A call by user u1 with a token that runs out at second 100.\<close>

definition call_ctx :: "string \<Rightarrow> rpc_ctx" where
  "call_ctx tok = \<lparr>peer_addr = Some ''10.0.0.1:5000'',
     incoming_md = Some [(''authorization'', [''Bearer '' @ tok])], UserIDKey = None\<rparr>"

definition u1_token :: string where
  "u1_token = the (SignedString plain_jwt SigningMethodHMAC (user_claims ''u1'' 0 100) ''k'')"

definition whoami :: "(server, string) UnaryHandler" where
  "whoami ctx s = (Inr (UserIDFromContext ctx), s)"

definition empty_server :: server where
  "empty_server = \<lparr>sv_db = empty_world, sv_kv = empty_redis\<rparr>"

theorem unary_chain_authenticates_witness:
  "(\<exists>u s' md h hs t. sv_db s' = empty_world \<and>
       incoming_md (call_ctx u1_token) = Some md \<and> map_of md ''authorization'' = Some (h # hs) \<and>
       jwt_Parse plain_jwt (hmac_key ''k'') 5 (TrimPrefix h ''Bearer '') = Some t \<and>
       token_subject t = Some u \<and>
       unary_chain plain_jwt (request_at 5) ''k'' None ''/user.v1.UserService/GetMe'' whoami
         (call_ctx u1_token) empty_server = whoami ((call_ctx u1_token)\<lparr>UserIDKey := Some u\<rparr>) s') \<or>
   (\<exists>x s'. unary_chain plain_jwt (request_at 5) ''k'' None ''/user.v1.UserService/GetMe'' whoami
         (call_ctx u1_token) empty_server = (Inl x, s') \<and> sv_db s' = empty_world \<and>
       st_code x \<in> {ResourceExhausted, Unauthenticated, InvalidArgument})"
proof -
  have "''/user.v1.UserService/GetMe'' \<notin> set publicMethods" "\<not> exempt ''/user.v1.UserService/GetMe''"
    by (simp_all add: publicMethods_def exempt_def)
  then show ?thesis
    using unary_chain_authenticates [of "''/user.v1.UserService/GetMe''" empty_server "call_ctx u1_token"
        plain_jwt "''k''" "request_at 5" None whoami]
    by (simp add: empty_server_def)
qed

text \<open>
  In the chain the limiter runs before the user is known, so that a request counts under the
  address of its peer, whatever token it carries: the counter that moves is the same for all the
  users behind one address, and no other counter moves.
\<close>

theorem unary_chain_counts_by_peer:
  assumes "UserIDKey ctx = None" and "\<not> exempt rpc" and "\<And>c s. sv_kv (snd (handler c s)) = sv_kv s"
  shows "sv_kv (snd (unary_chain J e secret violation rpc handler ctx s)) =
           snd (checkRateLimit (at e 0) (rate_key (peerIP ctx) rpc) (snd (resolveRateLimit ctx rpc)) (sv_kv s))"
proof -
  have id: "fst (resolveRateLimit ctx rpc) = peerIP ctx"
    using assms(1) by (simp add: resolveRateLimit_def UserIDFromContext_def Let_def split: option.splits)
  show ?thesis
    using assms(2,3) id
    by (cases "checkRateLimit (at e 0) (rate_key (peerIP ctx) rpc) (snd (resolveRateLimit ctx rpc)) (sv_kv s)")
      (auto simp: unary_chain_def LoggingInterceptor_def RateLimitInterceptor_def AuthInterceptor_def
         ValidationInterceptor_def split_beta split: sum.splits bool.splits option.splits)
qed

theorem unary_chain_counts_by_peer_witness:
  "sv_kv (snd (unary_chain plain_jwt (request_at 5) ''k'' None ''/m'' whoami (call_ctx u1_token) empty_server)) =
     snd (checkRateLimit (at (request_at 5) 0) (rate_key (peerIP (call_ctx u1_token)) ''/m'')
            (snd (resolveRateLimit (call_ctx u1_token) ''/m'')) empty_redis)"
  using unary_chain_counts_by_peer [of "call_ctx u1_token" "''/m''" whoami plain_jwt "request_at 5" "''k''" None empty_server]
  by (simp add: call_ctx_def exempt_def whoami_def empty_server_def)

end
