(* ===== verification/FriendLaws.thy ===== *)
theory FriendLaws
  imports Friends
begin

text \<open>
  Properties of friendships. The relation between two users is a state machine (none, requested,
  friends, blocked); each handler run without a failing statement is one of its transitions. Then
  what blocking does and does not guarantee, and the choice of a username.
\<close>

section \<open>The relation between two users\<close>

text \<open>The live row between two users, as who entered it and its status.\<close>

definition relation :: "world \<Rightarrow> uuid \<Rightarrow> uuid \<Rightarrow> (uuid \<times> string) option" where
  "relation w a b = map_option (\<lambda>f. (f_user_id f, f_status f)) (live_friendship w a b)"

definition same_pair :: "uuid \<Rightarrow> uuid \<Rightarrow> uuid \<Rightarrow> uuid \<Rightarrow> bool" where
  "same_pair a b x y \<longleftrightarrow> (x = a \<and> y = b) \<or> (x = b \<and> y = a)"

definition set_relation ::
    "(uuid \<Rightarrow> uuid \<Rightarrow> (uuid \<times> string) option) \<Rightarrow> uuid \<Rightarrow> uuid \<Rightarrow> (uuid \<times> string) option \<Rightarrow>
     (uuid \<Rightarrow> uuid \<Rightarrow> (uuid \<times> string) option)" where
  "set_relation R a b v = (\<lambda>x y. if same_pair a b x y then v else R x y)"

text \<open>
  The requests, each with the user who makes it first, and when the relation permits one: only the
  addressee accepts, only the author of a request cancels it, only the author of a block lifts it;
  either side declines a pending request or ends a friendship. reg holds of the registered users.
\<close>

datatype friend_request =
    SendReq uuid uuid | AcceptReq uuid uuid | DeclineReq uuid uuid | CancelReq uuid uuid
  | RemoveReq uuid uuid | BlockReq uuid uuid | UnblockReq uuid uuid

fun friend_allowed ::
    "(uuid \<Rightarrow> bool) \<Rightarrow> friend_request \<Rightarrow> (uuid \<Rightarrow> uuid \<Rightarrow> (uuid \<times> string) option) \<Rightarrow> bool" where
  "friend_allowed reg (SendReq u t) R \<longleftrightarrow> u \<noteq> t \<and> R u t = None \<and> reg u \<and> reg t"
| "friend_allowed reg (AcceptReq u r) R \<longleftrightarrow> R r u = Some (r, ''pending'')"
| "friend_allowed reg (DeclineReq u r) R \<longleftrightarrow> (R r u = Some (r, ''pending'') \<or> R r u = Some (u, ''pending''))"
| "friend_allowed reg (CancelReq u t) R \<longleftrightarrow> R u t = Some (u, ''pending'')"
| "friend_allowed reg (RemoveReq u t) R \<longleftrightarrow> (R u t = Some (u, ''accepted'') \<or> R u t = Some (t, ''accepted''))"
| "friend_allowed reg (BlockReq u t) R \<longleftrightarrow> u \<noteq> t \<and> reg u \<and> reg t"
| "friend_allowed reg (UnblockReq u t) R \<longleftrightarrow> R u t = Some (u, ''blocked'')"

fun friend_effect ::
    "friend_request \<Rightarrow> (uuid \<Rightarrow> uuid \<Rightarrow> (uuid \<times> string) option) \<Rightarrow> (uuid \<Rightarrow> uuid \<Rightarrow> (uuid \<times> string) option)" where
  "friend_effect (SendReq u t) R = set_relation R u t (Some (u, ''pending''))"
| "friend_effect (AcceptReq u r) R = set_relation R r u (Some (r, ''accepted''))"
| "friend_effect (DeclineReq u r) R = set_relation R u r None"
| "friend_effect (CancelReq u t) R = set_relation R u t None"
| "friend_effect (RemoveReq u t) R = set_relation R u t None"
| "friend_effect (BlockReq u t) R = set_relation R u t (Some (u, ''blocked''))"
| "friend_effect (UnblockReq u t) R = set_relation R u t None"

text \<open>A history of requests: which succeed, and the relation at the end.\<close>

fun relation_history ::
    "(uuid \<Rightarrow> bool) \<Rightarrow> friend_request list \<Rightarrow> (uuid \<Rightarrow> uuid \<Rightarrow> (uuid \<times> string) option) \<Rightarrow>
     bool list \<times> (uuid \<Rightarrow> uuid \<Rightarrow> (uuid \<times> string) option)" where
  "relation_history reg [] R = ([], R)"
| "relation_history reg (q # qs) R =
     (case relation_history reg qs (if friend_allowed reg q R then friend_effect q R else R) of
        (oks, R') \<Rightarrow> (friend_allowed reg q R # oks, R'))"

lemma live_friendship_sym: "live_friendship w a b = live_friendship w b a"
  unfolding live_friendship_def by (rule arg_cong2 [where f = find]) auto

lemma relation_sym: "relation w a b = relation w b a"
  by (simp add: relation_def live_friendship_sym [of w a b])

lemma relation_frame: "friendships w' = friendships w \<Longrightarrow> relation w' = relation w"
  by (simp add: relation_def live_friendship_def fun_eq_iff)

text \<open>The rows of a pair; which pairs share a row.\<close>

definition on_pair :: "uuid \<Rightarrow> uuid \<Rightarrow> Friendship \<Rightarrow> bool" where
  "on_pair a b f \<longleftrightarrow> (f_user_id f = a \<and> f_friend_id f = b) \<or> (f_user_id f = b \<and> f_friend_id f = a)"

lemma on_pair_same: "same_pair a b x y \<Longrightarrow> on_pair x y = on_pair a b"
  by (auto simp: same_pair_def on_pair_def fun_eq_iff)

lemma on_pair_other: "on_pair a b f \<Longrightarrow> \<not> same_pair a b x y \<Longrightarrow> \<not> on_pair x y f"
  by (auto simp: same_pair_def on_pair_def)

lemma live_friendship_on_pair: "live_friendship w a b = find (\<lambda>f. on_pair a b f \<and> \<not> f_deleted f) (friendships w)"
  by (simp add: live_friendship_def on_pair_def)

lemma relation_DeleteFriendship:
  assumes "q_DeleteFriendship e a b w = Inr w'"
  shows "relation w' = set_relation (relation w) a b None"
proof (intro ext)
  fix x y
  define g :: "Friendship \<Rightarrow> Friendship" where "g = (\<lambda>f. f\<lparr>f_deleted := True, f_updated_at := clock e []\<rparr>)"
  have g: "on_pair x y (g f) \<longleftrightarrow> on_pair x y f" "f_deleted (g f)" for x y f
    by (simp_all add: g_def on_pair_def)
  have w': "friendships w' = update_where (on_pair a b) g (friendships w)"
    using assms by (auto simp: q_DeleteFriendship_def run_stmt_Inr g_def on_pair_def [abs_def])
  have "find (\<lambda>f. on_pair x y f \<and> \<not> f_deleted f) (update_where (on_pair a b) g fs) =
      (if same_pair a b x y then None else find (\<lambda>f. on_pair x y f \<and> \<not> f_deleted f) fs)" for fs
  proof (cases "same_pair a b x y")
    case True
    show ?thesis unfolding on_pair_same [OF True] by (induction fs) (simp_all add: g True)
  next
    case False
    then show ?thesis by (induction fs) (auto simp: g dest: on_pair_other [OF _ False])
  qed
  then show "relation w' x y = set_relation (relation w) a b None x y"
    by (simp add: relation_def set_relation_def live_friendship_on_pair w')
qed

lemma relation_CreateFriendship:
  assumes "q_CreateFriendship e a b st w = Inr (f, w')" and "relation w a b = None"
  shows "relation w' = set_relation (relation w) a b (Some (a, st))"
proof (intro ext)
  fix x y
  define g :: "Friendship \<Rightarrow> Friendship" where "g = (\<lambda>f. f\<lparr>f_deleted := False, f_updated_at := clock e [], f_status := st\<rparr>)"
  define k where "k f \<longleftrightarrow> (f_user_id f, f_friend_id f) = (a, b)" for f :: Friendship
  define r where "r = \<lparr>f_user_id = a, f_friend_id = b, f_status = st, f_deleted = False, f_updated_at = clock e []\<rparr>"
  have g: "on_pair x y (g f) \<longleftrightarrow> on_pair x y f" "\<not> f_deleted (g f)" "f_status (g f) = st" "f_user_id (g f) = f_user_id f"
    for x y f by (simp_all add: g_def on_pair_def)
  have k: "k f \<Longrightarrow> on_pair a b f" "k f \<Longrightarrow> f_user_id f = a" for f by (simp_all add: k_def on_pair_def)
  have r: "on_pair a b r" "\<not> f_deleted r" "f_user_id r = a" "f_status r = st" by (simp_all add: r_def on_pair_def)
  have w': "friendships w' = upsert k g r (friendships w)"
    using assms(1) by (auto simp: q_CreateFriendship_def run_stmt_Inr Let_def g_def k_def [abs_def] r_def split: if_splits)
  have none: "\<forall>f\<in>set (friendships w). on_pair a b f \<longrightarrow> f_deleted f"
    using assms(2) by (auto simp: relation_def live_friendship_on_pair find_None_set)
  have upd: "map_option (\<lambda>f. (f_user_id f, f_status f)) (find (\<lambda>f. on_pair x y f \<and> \<not> f_deleted f) (update_where k g fs)) =
      (if same_pair a b x y then (if list_ex k fs then Some (a, st) else None)
       else map_option (\<lambda>f. (f_user_id f, f_status f)) (find (\<lambda>f. on_pair x y f \<and> \<not> f_deleted f) fs))"
    if "\<forall>f\<in>set fs. on_pair a b f \<longrightarrow> f_deleted f" for fs
  proof (cases "same_pair a b x y")
    case True
    have "map_option (\<lambda>f. (f_user_id f, f_status f)) (find (\<lambda>f. on_pair a b f \<and> \<not> f_deleted f) (update_where k g fs)) =
        (if list_ex k fs then Some (a, st) else None)"
      using that by (induction fs) (use k in \<open>auto simp: g\<close>)
    with True show ?thesis unfolding on_pair_same [OF True] by simp
  next
    case False
    have "find (\<lambda>f. on_pair x y f \<and> \<not> f_deleted f) (update_where k g fs) = find (\<lambda>f. on_pair x y f \<and> \<not> f_deleted f) fs"
      by (induction fs) (auto simp: g dest: on_pair_other [OF k(1) False])
    with False show ?thesis by simp
  qed
  have ins: "find (\<lambda>f. on_pair x y f \<and> \<not> f_deleted f) (friendships w @ [r]) =
      (if same_pair a b x y then Some r else find (\<lambda>f. on_pair x y f \<and> \<not> f_deleted f) (friendships w))"
  proof (cases "same_pair a b x y")
    case True
    then have "find (\<lambda>f. on_pair x y f \<and> \<not> f_deleted f) (friendships w) = None"
      using none unfolding on_pair_same [OF True] by (simp add: find_None_set)
    with True r show ?thesis unfolding on_pair_same [OF True] by (simp add: find_append_last)
  next
    case False
    then show ?thesis using on_pair_other [OF r(1) False] by (simp add: find_append_last split: option.split)
  qed
  show "relation w' x y = set_relation (relation w) a b (Some (a, st)) x y"
  proof (cases "list_ex k (friendships w)")
    case True
    then show ?thesis
      by (simp only: relation_def set_relation_def live_friendship_on_pair w' upsert_def upd [OF none] if_True)
  next
    case False
    then show ?thesis
      by (simp add: relation_def set_relation_def live_friendship_on_pair w' upsert_def ins r)
  qed
qed

lemma relation_UpdateFriendshipStatus:
  assumes "q_UpdateFriendshipStatus e a b st w = Inr (f, w')"
    and "live_friendship w a b = Some x" "f_user_id x = a" "f_friend_id x = b"
  shows "relation w' = set_relation (relation w) a b (Some (a, st))"
proof (intro ext)
  fix u v
  define g :: "Friendship \<Rightarrow> Friendship" where "g = (\<lambda>f. f\<lparr>f_status := st\<rparr>)"
  define k where "k f \<longleftrightarrow> f_user_id f = a \<and> f_friend_id f = b" for f :: Friendship
  have g: "on_pair x y (g f) \<longleftrightarrow> on_pair x y f" "f_deleted (g f) = f_deleted f" "f_status (g f) = st"
    "f_user_id (g f) = f_user_id f" for x y f by (simp_all add: g_def on_pair_def)
  have k: "k f \<Longrightarrow> on_pair a b f" for f by (simp add: k_def on_pair_def)
  have w': "friendships w' = update_where k g (friendships w)"
    using assms(1) by (auto simp: q_UpdateFriendshipStatus_def run_stmt_Inr update_returning_Inr g_def k_def [abs_def]
        split: sum.splits)
  have same: "find (\<lambda>f. on_pair u v f \<and> \<not> f_deleted f) (update_where k g fs) =
      map_option (\<lambda>f. if k f then g f else f) (find (\<lambda>f. on_pair u v f \<and> \<not> f_deleted f) fs)" for fs u v
    by (induction fs) (auto simp: g)
  have xk: "k x" using assms(3,4) by (simp add: k_def)
  show "relation w' u v = set_relation (relation w) a b (Some (a, st)) u v"
  proof (cases "same_pair a b u v")
    case True
    then have "find (\<lambda>f. on_pair u v f \<and> \<not> f_deleted f) (friendships w) = Some x"
      using assms(2) unfolding on_pair_same [OF True] by (simp add: live_friendship_on_pair)
    with True xk assms(3) show ?thesis
      by (simp add: relation_def set_relation_def live_friendship_on_pair w' same g)
  next
    case False
    have "\<not> k f" if "find (\<lambda>f. on_pair u v f \<and> \<not> f_deleted f) (friendships w) = Some f" for f
      using find_SomeD [OF that] on_pair_other [OF k False] by blast
    with False show ?thesis
      by (cases "find (\<lambda>f. on_pair u v f \<and> \<not> f_deleted f) (friendships w)")
        (simp_all add: relation_def set_relation_def live_friendship_on_pair w' same)
  qed
qed

section \<open>Handlers\<close>

lemma publishFriendActivity_frame [simp]:
  "friendships (publishFriendActivity e t ev x w) = friendships w"
  "users (publishFriendActivity e t ev x w) = users w"
  "data (publishFriendActivity e t ev x w) = data w"
  by (simp_all add: publishFriendActivity_def)

lemma relation_publish [simp]: "relation (publishFriendActivity e t ev x w) = relation w"
  by (rule relation_frame) simp

text \<open>The tables of users and friendships, which opening a direct message leaves alone.\<close>

definition accounts :: "world \<Rightarrow> User list \<times> Friendship list" where
  "accounts w = (users w, friendships w)"

lemma accounts_Publish [simp]: "accounts (Publish s v w) = accounts w"
  by (simp add: accounts_def)

lemma accounts_fold_Publish [simp]: "accounts (fold (\<lambda>m. Publish (f m) v) ms w) = accounts w"
  by (induction ms arbitrary: w) simp_all

lemma accounts_publishDM [simp]: "accounts (publishDMChannelEvent e t ch ms w) = accounts w"
  by (auto simp: publishDMChannelEvent_def Let_def split: sum.splits)

lemma accounts_AddDMChannelMember: "q_AddDMChannelMember e c u w = Inr w' \<Longrightarrow> accounts w' = accounts w"
  by (auto simp: q_AddDMChannelMember_def run_stmt_Inr accounts_def split: if_splits)

lemma accounts_add_recipients: "accounts (snd (add_recipients e i c rs w)) = accounts w"
  by (induction e i c rs w rule: add_recipients.induct)
    (auto simp: accounts_AddDMChannelMember split: option.splits sum.splits)

lemma accounts_new_dm: "accounts (snd (new_dm_channel e us u rs w)) = accounts w"
proof -
  have "q_CreateDMChannel e' n t w = Inr (ch, w1) \<Longrightarrow> accounts w1 = accounts w" for e' n t ch w1
    by (auto simp: q_CreateDMChannel_def run_stmt_Inr Let_def accounts_def split: if_splits)
  moreover have "add_recipients e' i c rs w1 = (r, w2) \<Longrightarrow> accounts w2 = accounts w1" for e' i c r w1 w2
    using accounts_add_recipients [of e' i c rs w1] by simp
  ultimately show ?thesis
    by (auto simp: new_dm_channel_def publishDMChannelCreated_def accounts_AddDMChannelMember
        split: sum.splits prod.splits)
qed

lemma accounts_GetOrCreateDMChannel: "accounts (snd (GetOrCreateDMChannel e us rs w)) = accounts w"
proof -
  have "accounts (snd (CreateDMChannel e us rs w)) = accounts w"
    by (auto simp: CreateDMChannel_def accounts_new_dm split: option.splits sum.splits)
  then show ?thesis by (auto simp: GetOrCreateDMChannel_def split: sum.splits prod.splits)
qed

lemmas friendships_GetOrCreateDMChannel =
  accounts_GetOrCreateDMChannel [unfolded accounts_def prod.inject, THEN conjunct2]

text \<open>Friendships refer to registered users, as the foreign keys have it.\<close>

definition friend_refs :: "world \<Rightarrow> bool" where
  "friend_refs w \<longleftrightarrow> (\<forall>f\<in>set (friendships w). user_row w (f_user_id f) \<and> user_row w (f_friend_id f))"

text \<open>A request to the service, with whether it succeeded.\<close>

fun friend_run :: "env \<Rightarrow> user_deps \<Rightarrow> friend_request \<Rightarrow> world \<Rightarrow> bool \<times> world" where
  "friend_run e d (SendReq u t) w = (case SendFriendRequest e d u t w of (r, w') \<Rightarrow> (is_ok r, w'))"
| "friend_run e d (AcceptReq u r) w = (case AcceptFriendRequest e d u r w of (x, w') \<Rightarrow> (is_ok x, w'))"
| "friend_run e d (DeclineReq u r) w = (case DeclineFriendRequest e d u r w of (x, w') \<Rightarrow> (is_ok x, w'))"
| "friend_run e d (CancelReq u t) w = (case CancelFriendRequest e d u t w of (r, w') \<Rightarrow> (is_ok r, w'))"
| "friend_run e d (RemoveReq u t) w = (case RemoveFriend e d u t w of (r, w') \<Rightarrow> (is_ok r, w'))"
| "friend_run e d (BlockReq u t) w = (case BlockUser e u t w of (r, w') \<Rightarrow> (is_ok r, w'))"
| "friend_run e d (UnblockReq u t) w = (case UnblockUser e u t w of (r, w') \<Rightarrow> (is_ok r, w'))"

fun friend_history :: "user_deps \<Rightarrow> (env \<times> friend_request) list \<Rightarrow> world \<Rightarrow> bool list \<times> world" where
  "friend_history d [] w = ([], w)"
| "friend_history d ((e, q) # qs) w =
     (case friend_run e d q w of (ok, w1) \<Rightarrow>
       (case friend_history d qs w1 of (oks, w2) \<Rightarrow> (ok # oks, w2)))"

lemma q_GetFriendship_Inr: "q_GetFriendship e a b w = Inr f \<longleftrightarrow> \<not> fault e [] \<and> live_friendship w a b = Some f"
  by (simp add: q_GetFriendship_def run_stmt_Inr)

lemma relation_live: "live_friendship w a b = Some f \<Longrightarrow> relation w a b = Some (f_user_id f, f_status f)"
  by (simp add: relation_def)

definition known_status :: "string \<Rightarrow> bool" where
  "known_status st \<longleftrightarrow> st = ''pending'' \<or> st = ''accepted'' \<or> st = ''blocked''"

definition known_statuses :: "world \<Rightarrow> bool" where
  "known_statuses w \<longleftrightarrow> (\<forall>f\<in>set (friendships w). known_status (f_status f))"

definition friend_wf :: "world \<Rightarrow> bool" where
  "friend_wf w \<longleftrightarrow> friend_refs w \<and> known_statuses w"

lemma accounts_frame:
  assumes "accounts w' = accounts w"
  shows "relation w' = relation w" "friend_wf w' = friend_wf w" "user_row w' = user_row w"
  using assms
  by (auto simp: accounts_def relation_def live_friendship_def friend_wf_def friend_refs_def
      known_statuses_def user_row_def fun_eq_iff)

lemma user_row_users: "users w' = users w \<Longrightarrow> user_row w' = user_row w"
  by (simp add: user_row_def fun_eq_iff)

lemmas friend_wf_defs = friend_wf_def friend_refs_def known_statuses_def in_set_update_where

lemma CreateFriendship_wf:
  assumes "q_CreateFriendship e a b st w = Inr (f, w')" and "friend_wf w" and "known_status st"
  shows "friend_wf w' \<and> user_row w' = user_row w"
proof -
  from assms(1) have u: "users w' = users w" and rows: "user_row w a" "user_row w b"
    by (auto simp: q_CreateFriendship_def run_stmt_Inr Let_def split: if_splits)
  have "friend_wf w'"
    using assms unfolding friend_wf_defs user_row_users [OF u]
    by (auto simp: q_CreateFriendship_def run_stmt_Inr Let_def upsert_def in_set_update_where split: if_splits)
  with user_row_users [OF u] show ?thesis by simp
qed

lemma DeleteFriendship_wf:
  assumes "q_DeleteFriendship e a b w = Inr w'" and "friend_wf w"
  shows "friend_wf w' \<and> user_row w' = user_row w"
proof -
  from assms(1) have u: "users w' = users w" by (auto simp: q_DeleteFriendship_def run_stmt_Inr)
  have "friend_wf w'"
    using assms unfolding friend_wf_defs user_row_users [OF u]
    by (fastforce simp: q_DeleteFriendship_def run_stmt_Inr in_set_update_where)
  with user_row_users [OF u] show ?thesis by simp
qed

lemma UpdateFriendshipStatus_wf:
  assumes "q_UpdateFriendshipStatus e a b st w = Inr (f, w')" and "friend_wf w" and "known_status st"
  shows "friend_wf w' \<and> user_row w' = user_row w"
proof -
  from assms(1) have u: "users w' = users w"
    by (auto simp: q_UpdateFriendshipStatus_def run_stmt_Inr split: sum.splits)
  have "friend_wf w'"
    using assms unfolding friend_wf_defs user_row_users [OF u]
    by (fastforce simp: q_UpdateFriendshipStatus_def run_stmt_Inr update_returning_Inr in_set_update_where
        split: sum.splits)
  with user_row_users [OF u] show ?thesis by simp
qed

lemma known_status_simps [simp]: "known_status ''pending''" "known_status ''accepted''" "known_status ''blocked''"
  by (simp_all add: known_status_def)

text \<open>A request meets the specification: its answer, its effect on the relation, and the well-formedness it keeps.\<close>

definition friend_meets :: "friend_request \<Rightarrow> world \<Rightarrow> bool \<times> world \<Rightarrow> bool" where
  "friend_meets q w p \<longleftrightarrow>
     fst p = friend_allowed (user_row w) q (relation w) \<and>
     relation (snd p) = (if friend_allowed (user_row w) q (relation w) then friend_effect q (relation w) else relation w) \<and>
     friend_wf (snd p) \<and> user_row (snd p) = user_row w"

lemma friend_meets_refused:
  "\<not> friend_allowed (user_row w) q (relation w) \<Longrightarrow> friend_wf w \<Longrightarrow> friend_meets q w (False, w)"
  by (simp add: friend_meets_def)

lemma friend_meets_done:
  "friend_allowed (user_row w) q (relation w) \<Longrightarrow> relation w1 = friend_effect q (relation w) \<Longrightarrow>
   friend_wf w1 \<and> user_row w1 = user_row w \<Longrightarrow> accounts w2 = accounts w1 \<Longrightarrow> friend_meets q w (True, w2)"
  using accounts_frame [of w2 w1] by (simp add: friend_meets_def)

lemma live_row:
  assumes "live_friendship w a b = Some f"
  shows "on_pair a b f" "f \<in> set (friendships w)"
  using find_SomeD [OF assms [unfolded live_friendship_on_pair]] by auto

text \<open>A request that ends by deleting the row of the pair.\<close>

lemma accounts_publishFriendActivity [simp]: "accounts (publishFriendActivity e t ev x w) = accounts w"
  by (simp add: accounts_def)

lemma SendFriendRequest_meets:
  assumes "fault_free e" and "friend_wf w"
  shows "friend_meets (SendReq u t) w (friend_run e d (SendReq u t) w)"
proof (cases "live_friendship w u t")
  case None
  then have none: "relation w u t = None" by (simp add: relation_def)
  show ?thesis
  proof (cases "u = t \<or> \<not> user_row w u \<or> \<not> user_row w t")
    case True
    then have "friend_run e d (SendReq u t) w = (False, w)"
      using assms(1) None by (auto simp: SendFriendRequest_def q_GetFriendship_def q_CreateFriendship_def)
    with True assms(2) show ?thesis by (auto intro: friend_meets_refused)
  next
    case False
    then obtain f w1 where w1: "q_CreateFriendship (at e 1) u t ''pending'' w = Inr (f, w1)"
      using assms(1) by (simp add: q_CreateFriendship_def Let_def)
    then have "friend_run e d (SendReq u t) w = (True, publishFriendActivity e (pgIDToStr e t) FRIEND_EVENT_REQUEST
        (friendPayload (at e 2) d u w1) w1)"
      using False assms(1) None by (simp add: SendFriendRequest_def q_GetFriendship_def)
    with False none relation_CreateFriendship [OF w1 none] CreateFriendship_wf [OF w1 assms(2)]
    show ?thesis by (auto intro: friend_meets_done)
  qed
next
  case (Some f)
  with assms(2) have "f_status f = ''pending'' \<or> f_status f = ''accepted'' \<or> f_status f = ''blocked''"
    using live_row [OF Some] by (simp add: friend_wf_def known_statuses_def known_status_def)
  then have "friend_run e d (SendReq u t) w = (False, w)"
    using Some assms(1) by (auto simp: SendFriendRequest_def q_GetFriendship_def)
  with Some assms(2) show ?thesis by (auto intro: friend_meets_refused simp: relation_live)
qed

lemma AcceptFriendRequest_meets:
  assumes "fault_free e" and "friend_wf w"
  shows "friend_meets (AcceptReq u r) w (friend_run e d (AcceptReq u r) w)"
proof (cases "\<exists>f. live_friendship w r u = Some f \<and> f_status f = ''pending'' \<and> f_user_id f = r")
  case True
  then obtain f where f: "live_friendship w r u = Some f" "f_status f = ''pending''" "f_user_id f = r" by blast
  with live_row(1) [OF f(1)] have fr: "f_friend_id f = u" by (auto simp: on_pair_def)
  obtain x where "find (\<lambda>f. f_user_id f = r \<and> f_friend_id f = u) (friendships w) = Some x"
    using live_row(2) [OF f(1)] f(3) fr by (cases "find (\<lambda>f. f_user_id f = r \<and> f_friend_id f = u) (friendships w)")
      (auto simp: find_None_set)
  then obtain y w1 where w1: "q_UpdateFriendshipStatus (at e 1) r u ''accepted'' w = Inr (y, w1)"
    using assms(1) by (auto simp: q_UpdateFriendshipStatus_def update_returning_def)
  have dm: "accounts w2 = accounts w1" if "GetOrCreateDMChannel e' a b w1 = (z, w2)" for e' a b z w2
    using accounts_GetOrCreateDMChannel [of e' a b w1] that by simp
  have "fst (friend_run e d (AcceptReq u r) w) \<and> accounts (snd (friend_run e d (AcceptReq u r) w)) = accounts w1"
    using assms(1) f fr w1
    by (auto simp: AcceptFriendRequest_def q_GetFriendship_def Let_def dest!: dm split: sum.splits prod.splits)
  then obtain w2 where run: "friend_run e d (AcceptReq u r) w = (True, w2)" "accounts w2 = accounts w1"
    by (cases "friend_run e d (AcceptReq u r) w") (simp del: friend_run.simps)
  have "relation w1 = set_relation (relation w) r u (Some (r, ''accepted''))"
    by (rule relation_UpdateFriendshipStatus [OF w1 f(1,3) fr])
  with run f UpdateFriendshipStatus_wf [OF w1 assms(2)] show ?thesis
    by (auto intro: friend_meets_done simp: relation_live)
next
  case False
  then have "friend_run e d (AcceptReq u r) w = (False, w)"
    using assms(1) by (cases "live_friendship w r u") (auto simp: AcceptFriendRequest_def q_GetFriendship_def)
  moreover have "relation w r u \<noteq> Some (r, ''pending'')" using False by (auto simp: relation_def)
  ultimately show ?thesis using assms(2) by (auto intro: friend_meets_refused)
qed

text \<open>The requests that end by deleting the rows of the pair.\<close>

lemma friend_meets_delete:
  assumes "fault_free e" and "friend_wf w"
    and ok: "\<And>w1. friend_allowed (user_row w) q (relation w) \<Longrightarrow> q_DeleteFriendship (at e 1) a b w = Inr w1 \<Longrightarrow>
      fst (friend_run e d q w) \<and> accounts (snd (friend_run e d q w)) = accounts w1"
    and no: "\<not> friend_allowed (user_row w) q (relation w) \<Longrightarrow> friend_run e d q w = (False, w)"
    and eff: "friend_effect q (relation w) = set_relation (relation w) a b None"
  shows "friend_meets q w (friend_run e d q w)"
proof (cases "friend_allowed (user_row w) q (relation w)")
  case True
  obtain w1 where w1: "q_DeleteFriendship (at e 1) a b w = Inr w1"
    using assms(1) by (simp add: q_DeleteFriendship_def)
  obtain w2 where "friend_run e d q w = (True, w2)" "accounts w2 = accounts w1"
    using ok [OF True w1] by (cases "friend_run e d q w") auto
  with relation_DeleteFriendship [OF w1] DeleteFriendship_wf [OF w1 assms(2)] eff True show ?thesis
    by (auto intro: friend_meets_done)
qed (use no assms(2) in \<open>auto intro: friend_meets_refused\<close>)

lemma set_relation_swap: "set_relation R b a v = set_relation R a b v"
  by (auto simp: set_relation_def same_pair_def fun_eq_iff)

lemma delete_requests_meet:
  assumes "fault_free e" and "friend_wf w"
  shows "friend_meets (DeclineReq u t) w (friend_run e d (DeclineReq u t) w)"
    "friend_meets (CancelReq u t) w (friend_run e d (CancelReq u t) w)"
    "friend_meets (RemoveReq u t) w (friend_run e d (RemoveReq u t) w)"
    "friend_meets (UnblockReq u t) w (friend_run e d (UnblockReq u t) w)"
proof -
  have pair: "f_user_id f = a \<or> f_user_id f = b" if "live_friendship w a b = Some f" for a b f
    using live_row(1) [OF that] by (auto simp: on_pair_def)
  note meets = friend_meets_delete [OF assms]
  note defs = q_GetFriendship_def relation_def
  show "friend_meets (DeclineReq u t) w (friend_run e d (DeclineReq u t) w)"
  proof (rule meets [of _ t u])
    show "friend_effect (DeclineReq u t) (relation w) = set_relation (relation w) t u None"
      by (simp add: set_relation_swap [of _ t u])
  next
    assume "\<not> friend_allowed (user_row w) (DeclineReq u t) (relation w)"
    then show "friend_run e d (DeclineReq u t) w = (False, w)"
      using assms(1) pair [of t u]
      by (cases "live_friendship w t u") (auto simp: DeclineFriendRequest_def defs)
  qed (use assms(1) in \<open>auto simp: DeclineFriendRequest_def defs\<close>)
  show "friend_meets (CancelReq u t) w (friend_run e d (CancelReq u t) w)"
  proof (rule meets [of _ u t])
    assume "\<not> friend_allowed (user_row w) (CancelReq u t) (relation w)"
    then show "friend_run e d (CancelReq u t) w = (False, w)"
      using assms(1) by (cases "live_friendship w u t") (auto simp: CancelFriendRequest_def defs)
  qed (use assms(1) in \<open>auto simp: CancelFriendRequest_def defs\<close>)
  show "friend_meets (RemoveReq u t) w (friend_run e d (RemoveReq u t) w)"
  proof (rule meets [of _ u t])
    assume "\<not> friend_allowed (user_row w) (RemoveReq u t) (relation w)"
    then show "friend_run e d (RemoveReq u t) w = (False, w)"
      using assms(1) pair [of u t] by (cases "live_friendship w u t") (auto simp: RemoveFriend_def defs)
  qed (use assms(1) in \<open>auto simp: RemoveFriend_def defs\<close>)
  show "friend_meets (UnblockReq u t) w (friend_run e d (UnblockReq u t) w)"
  proof (rule meets [of _ u t])
    assume "\<not> friend_allowed (user_row w) (UnblockReq u t) (relation w)"
    then show "friend_run e d (UnblockReq u t) w = (False, w)"
      using assms(1) by (cases "live_friendship w u t") (auto simp: UnblockUser_def defs)
  qed (use assms(1) in \<open>auto simp: UnblockUser_def defs\<close>)
qed

lemma set_relation_twice: "set_relation (set_relation R a b v) a b v' = set_relation R a b v'"
  by (simp add: set_relation_def fun_eq_iff)

lemma set_relation_same: "R a b = v \<Longrightarrow> R b a = v \<Longrightarrow> set_relation R a b v = R"
  by (auto simp: set_relation_def same_pair_def fun_eq_iff)

lemma BlockUser_relation:
  assumes "fault_free e" and "u \<noteq> t" and "user_row w u" and "user_row w t"
  shows "relation (snd (BlockUser e u t w)) = set_relation (relation w) u t (Some (u, ''blocked''))"
proof -
  obtain w1 where w1: "q_DeleteFriendship (at e 0) u t w = Inr w1" and rows: "users w1 = users w"
    using assms(1) by (simp add: q_DeleteFriendship_def)
  obtain f w2 where w2: "q_CreateFriendship (at e 1) u t ''blocked'' w1 = Inr (f, w2)"
    using assms(1,3,4) rows by (simp add: q_CreateFriendship_def user_row_def Let_def)
  have "relation w1 = set_relation (relation w) u t None" by (rule relation_DeleteFriendship [OF w1])
  moreover from this have "relation w1 u t = None" by (simp add: set_relation_def same_pair_def)
  ultimately have "relation w2 = set_relation (relation w) u t (Some (u, ''blocked''))"
    using relation_CreateFriendship [OF w2] by (simp add: set_relation_twice)
  with w1 w2 assms(2) show ?thesis by (simp add: BlockUser_def w2 [unfolded One_nat_def] Let_def)
qed

lemma BlockUser_meets:
  assumes "fault_free e" and "friend_wf w"
  shows "friend_meets (BlockReq u t) w (friend_run e d (BlockReq u t) w)"
proof -
  obtain w1 where w1: "q_DeleteFriendship (at e 0) u t w = Inr w1"
    using assms(1) by (simp add: q_DeleteFriendship_def)
  note wf1 = DeleteFriendship_wf [OF w1 assms(2)]
  consider "u = t" | (unknown) "u \<noteq> t" "\<not> (user_row w u \<and> user_row w t)" | (known) "u \<noteq> t" "user_row w u" "user_row w t"
    by blast
  then show ?thesis
  proof cases
    case 1
    then show ?thesis using assms(2) by (simp add: BlockUser_def friend_meets_refused)
  next
    case unknown
    then have "friend_run e d (BlockReq u t) w = (False, w1)"
      using assms(1) w1 wf1 by (auto simp: BlockUser_def Let_def q_CreateFriendship_def)
    moreover have "relation w u t = None"
      using unknown assms(2)
      by (auto simp: relation_def live_friendship_on_pair find_None_set friend_wf_def friend_refs_def on_pair_def)
    then have "relation w1 = relation w"
      using relation_DeleteFriendship [OF w1] set_relation_same [of "relation w" u t None] relation_sym [of w t u] by simp
    ultimately show ?thesis using unknown wf1 by (auto simp: friend_meets_def)
  next
    case known
    then obtain f w2 where w2: "q_CreateFriendship (at e 1) u t ''blocked'' w1 = Inr (f, w2)"
      using assms(1) wf1 by (simp add: q_CreateFriendship_def Let_def)
    have "friend_run e d (BlockReq u t) w = (True, w2)"
      using known w1 w2 by (simp add: BlockUser_def Let_def)
    moreover have "relation w2 = set_relation (relation w) u t (Some (u, ''blocked''))"
      using BlockUser_relation [OF assms(1) known] known w1 w2 by (simp add: BlockUser_def Let_def)
    ultimately show ?thesis
      using known CreateFriendship_wf [OF w2] wf1 by (auto intro: friend_meets_done)
  qed
qed

lemma friend_run_meets:
  assumes "fault_free e" and "friend_wf w"
  shows "friend_meets q w (friend_run e d q w)"
  by (cases q) (simp_all only: SendFriendRequest_meets [OF assms] AcceptFriendRequest_meets [OF assms]
      delete_requests_meet [OF assms] BlockUser_meets [OF assms])

text \<open>
  C10: friendship is the state machine of friend_allowed and friend_effect. On tables with valid references and
  statuses, in every history of friend and block requests in which no statement fails, each request
  succeeds exactly when the relation between the two users permits it to the user who makes it, and the relations
  at the end are those of the state machine: a request needs two registered strangers, only the addressee accepts,
  only its author cancels a request, either side declines a pending request or ends a friendship, a block replaces
  whatever there was, and only its author lifts it. A request that is refused changes no relation, and an
  accepted one changes that of its two users alone.
\<close>

theorem friend_service_refines:
  assumes "\<forall>(e, q)\<in>set qs. fault_free e" and "friend_refs w" and "known_statuses w"
  shows "map_prod id relation (friend_history d qs w) = relation_history (user_row w) (map snd qs) (relation w)"
proof -
  have "map_prod id relation (friend_history d qs w) = relation_history (user_row w) (map snd qs) (relation w)"
    if "\<forall>(e, q)\<in>set qs. fault_free e" "friend_wf w"
    using that
  proof (induction qs arbitrary: w)
    case (Cons p qs)
    obtain e q where p: "p = (e, q)" by (cases p)
    obtain ok w1 where run: "friend_run e d q w = (ok, w1)" by (cases "friend_run e d q w")
    from Cons.prems p have "friend_meets q w (friend_run e d q w)" by (intro friend_run_meets) auto
    with run have meets: "ok = friend_allowed (user_row w) q (relation w)"
      "relation w1 = (if ok then friend_effect q (relation w) else relation w)" "friend_wf w1" "user_row w1 = user_row w"
      by (auto simp: friend_meets_def)
    with Cons.IH [of w1] Cons.prems(1) show ?case
      by (auto simp: p run split: prod.splits)
  qed simp
  with assms show ?thesis by (simp add: friend_wf_def)
qed

definition no_deps :: user_deps where
  "no_deps = \<lparr>ud_PublicEndpoint = ''cdn'', ud_Bucket = ''b'', ud_minio = False, ud_put = (\<lambda>_. False), ud_dm = False,
     ud_presence = None\<rparr>"

theorem friend_service_refines_witness:
  "map_prod id relation (friend_history no_deps [(tenv, BlockReq 5 6), (tenv, UnblockReq 6 5), (tenv, UnblockReq 5 6)] pair_world)
   = relation_history (user_row pair_world) [BlockReq 5 6, UnblockReq 6 5, UnblockReq 5 6] (relation pair_world) \<and>
   fst (relation_history (user_row pair_world) [BlockReq 5 6, UnblockReq 6 5, UnblockReq 5 6] (relation pair_world))
   = [True, False, True]"
  using friend_service_refines [of "[(tenv, BlockReq 5 6), (tenv, UnblockReq 6 5), (tenv, UnblockReq 5 6)]" pair_world no_deps]
  by (simp add: friend_refs_def known_statuses_def pair_world_def empty_world_def one_user_def user_row_def
      set_relation_def same_pair_def)

text \<open>
  A block does not bind the blocked user. Whatever the relation is, and in particular when the other
  has blocked them, a user can block in return and unblock again, after which nothing is left between the
  two: the first block is gone without its author's consent.
\<close>

theorem block_can_be_lifted_by_target:
  assumes "fault_free e" and "fault_free e'" and "a \<noteq> b" and "user_row w a" and "user_row w b"
    and "relation w a b = Some (a, ''blocked'')"
  shows "relation (snd (UnblockUser e' b a (snd (BlockUser e b a w)))) a b = None"
proof -
  let ?w1 = "snd (BlockUser e b a w)"
  have r: "relation ?w1 = set_relation (relation w) b a (Some (b, ''blocked''))"
    using BlockUser_relation [OF assms(1), of b a w] assms(3-5) by simp
  then have "relation ?w1 b a = Some (b, ''blocked'')" by (simp add: set_relation_def same_pair_def)
  then obtain f where f: "live_friendship ?w1 b a = Some f" "f_user_id f = b" "f_status f = ''blocked''"
    by (auto simp: relation_def)
  obtain w2 where w2: "q_DeleteFriendship (at e' 1) b a ?w1 = Inr w2"
    using assms(2) by (simp add: q_DeleteFriendship_def)
  have "snd (UnblockUser e' b a ?w1) = w2"
    using f assms(2) by (simp add: UnblockUser_def q_GetFriendship_def w2 [unfolded One_nat_def])
  then show ?thesis
    by (simp add: relation_DeleteFriendship [OF w2] set_relation_def same_pair_def)
qed

theorem block_can_be_lifted_by_target_witness:
  "relation (snd (UnblockUser tenv 6 5 (snd (BlockUser tenv 6 5 (snd (BlockUser tenv 5 6 pair_world)))))) 5 6 = None"
proof -
  have rows: "user_row pair_world 5" "user_row pair_world 6"
    by (simp_all add: pair_world_def empty_world_def user_row_def one_user_def)
  have "relation (snd (BlockUser tenv 5 6 pair_world)) 5 6 = Some (5, ''blocked'')"
    using BlockUser_relation [of tenv 5 6 pair_world] rows by (simp add: set_relation_def same_pair_def)
  moreover have "users (snd (BlockUser tenv 5 6 pair_world)) = users pair_world"
    by (simp add: BlockUser_def q_DeleteFriendship_def q_CreateFriendship_def Let_def)
  then have "user_row (snd (BlockUser tenv 5 6 pair_world)) 5" "user_row (snd (BlockUser tenv 5 6 pair_world)) 6"
    using rows by (simp_all add: user_row_def)
  ultimately show ?thesis by (intro block_can_be_lifted_by_target) simp_all
qed

text \<open>
  The block test of other services is symmetric: it answers yes for a pair as soon as either
  of the two has blocked the other, whichever is asked about first.
\<close>

theorem IsBlocked_symmetric:
  "IsBlocked e a b w = IsBlocked e b a w \<and>
   (IsBlocked e a b w \<longleftrightarrow> (\<exists>u v x. uuid_scan e a = Some u \<and> uuid_scan e b = Some v \<and> \<not> fault e [] \<and>
      relation w u v = Some (x, ''blocked'')))"
proof -
  have iff: "IsBlocked e p q w \<longleftrightarrow> (\<exists>u v x. uuid_scan e p = Some u \<and> uuid_scan e q = Some v \<and> \<not> fault e [] \<and>
      relation w u v = Some (x, ''blocked''))" for p q
    by (auto simp: IsBlocked_def q_GetFriendship_def run_stmt_def one_row_def relation_def split: option.splits)
  then show ?thesis by (metis relation_sym)
qed

section \<open>The choice of a username\<close>

lemma allocate_handle_effect:
  assumes "allocate_handle e rnd uid username n i x w = (r, w')"
  shows "(\<forall>u. r = Inr u \<longrightarrow> (\<exists>k. u_username u = username @ ''#'' @ randomDiscriminator (rnd k)) \<and>
       u_display_name u = username \<and> u_id u = uid \<and> u \<in> set (users w') \<and>
       (\<forall>v\<in>set (users w). u_id v \<noteq> uid \<longrightarrow> u_username v \<noteq> u_username u)) \<and>
    (\<not> is_ok r \<longrightarrow> w' = w)"
  using assms
proof (induction e rnd uid username n i x w rule: allocate_handle.induct)
  case (2 e rnd uid username n i x w)
  show ?case
  proof (cases "q_UpdateUser (at e i) ((user_update uid)
      \<lparr>uu_Username := Some (username @ ''#'' @ randomDiscriminator (rnd i)), uu_DisplayName := Some username\<rparr>) w")
    case (Inl y)
    then show ?thesis using 2 by (auto split: if_splits)
  next
    case (Inr p)
    obtain u w1 where p: "p = (u, w1)" by (cases p)
    with Inr "2.prems" have r: "r = Inr u" "w' = w1" by auto
    from Inr p obtain y where y: "find (\<lambda>u. u_id u = uid) (users w) = Some y"
      and u: "u_username u = username @ ''#'' @ randomDiscriminator (rnd i)" "u_display_name u = username" "u_id u = u_id y"
      and w1: "users w1 = update_where (\<lambda>u. u_id u = uid)
        (\<lambda>v. v\<lparr>u_username := u_username u, u_display_name := username, u_updated_at := clock e [i]\<rparr>) (users w)"
      and uu: "u = y\<lparr>u_username := u_username u, u_display_name := username, u_updated_at := clock e [i]\<rparr>"
      and uniq: "\<forall>v\<in>set (users w). u_id v = uid \<or> u_username v \<noteq> u_username u"
      by (auto simp: q_UpdateUser_def run_stmt_Inr update_returning_Inr user_update_def list_ex_iff
          split: sum.splits if_splits)
    have "u \<in> set (users w1)"
      unfolding w1 in_set_update_where using find_SomeD [OF y] uu by (intro bexI [of _ y]) auto
    with r u uniq find_SomeD [OF y] show ?thesis by auto
  qed
qed auto

text \<open>
  A username is chosen once and stays unique. On every path, choosing a name succeeds only for a
  user who has none yet; the handle is then the base name, a hash and four digits, no other user has it,
  and the base name becomes the display name. In every other case, including ten collisions in a row,
  the users are as they were.
\<close>

theorem UpdateUsername_once:
  "(\<forall>u. fst (UpdateUsername e d rnd uid name w) = Inr u \<longrightarrow>
      (\<exists>v. find (\<lambda>v. u_id v = uid) (users w) = Some v \<and> u_username v = []) \<and>
      (\<exists>k. u_username u = name @ ''#'' @ randomDiscriminator (rnd k)) \<and> length (u_username u) = length name + 5 \<and>
      u_display_name u = name \<and> u_id u = uid \<and> u \<in> set (users (snd (UpdateUsername e d rnd uid name w))) \<and>
      (\<forall>v\<in>set (users w). u_id v \<noteq> uid \<longrightarrow> u_username v \<noteq> u_username u)) \<and>
   (\<not> is_ok (fst (UpdateUsername e d rnd uid name w)) \<longrightarrow> snd (UpdateUsername e d rnd uid name w) = w)"
proof -
  obtain r w' where rw: "Repository_UpdateUsername e rnd uid name w = (r, w')"
    by (cases "Repository_UpdateUsername e rnd uid name w")
  have svc: "fst (UpdateUsername e d rnd uid name w) = r"
    "users (snd (UpdateUsername e d rnd uid name w)) = users w'"
    "\<not> is_ok r \<Longrightarrow> snd (UpdateUsername e d rnd uid name w) = w'"
    using rw by (auto simp: UpdateUsername_def split: sum.splits)
  have len: "length (randomDiscriminator k) = 4" for k by (simp add: randomDiscriminator_def Let_def)
  show ?thesis
  proof (cases "\<exists>v. q_GetUserByID (at e 0) uid w = Inr v \<and> u_username v = []")
    case True
    then obtain v where v: "q_GetUserByID (at e 0) uid w = Inr v" "u_username v = []" by blast
    then have find: "find (\<lambda>v. u_id v = uid) (users w) = Some v"
      by (simp add: q_GetUserByID_def run_stmt_Inr)
    have "allocate_handle (at e 1) rnd uid name maxHandleAttempts 0 NoRows w = (r, w')"
      using rw v by (simp add: Repository_UpdateUsername_def)
    from allocate_handle_effect [OF this] show ?thesis unfolding svc(1,2) using svc(3) find v(2) len by auto
  next
    case False
    then have "\<not> is_ok r \<and> w' = w" using rw
      by (auto simp: Repository_UpdateUsername_def split: sum.splits if_splits)
    then show ?thesis unfolding svc(1,2) using svc(3) by auto
  qed
qed

definition unnamed_world :: world where
  "unnamed_world = empty_world\<lparr>users := [(one_user 5)\<lparr>u_username := []\<rparr>, one_user 6]\<rparr>"

theorem UpdateUsername_once_witness:
  "\<exists>u. fst (UpdateUsername tenv no_deps (\<lambda>_. 41) 5 ''bob'' unnamed_world) = Inr u \<and>
     u_username u = ''bob#0042'' \<and> length (u_username u) = 8 \<and> u_display_name u = ''bob''"
proof -
  obtain u where u: "fst (UpdateUsername tenv no_deps (\<lambda>_. 41) 5 ''bob'' unnamed_world) = Inr u"
    "u_username u = ''bob#'' @ randomDiscriminator 41"
    by (simp add: UpdateUsername_def Repository_UpdateUsername_def q_GetUserByID_def maxHandleAttempts_def eval_nat_numeral
        q_UpdateUser_def update_returning_def user_update_def unnamed_world_def empty_world_def one_user_def)
  moreover have "randomDiscriminator 41 = ''0042''"
    by code_simp
  ultimately show ?thesis using UpdateUsername_once [of tenv no_deps "\<lambda>_. 41" 5 "''bob''" unnamed_world] by auto
qed

end
