(* ===== verification/Presence.thy ===== *)
theory Presence
  imports Middleware FriendLaws
begin

text \<open>
  Live presence, internal/features/presence (service.go, handler.go). The presence of a user is a
  Redis hash with the fields status, custom_status and last_seen; every change is announced on the
  friend-activity subject of the user. The profile resolver is the user service when it is wired.
  The instants that events carry are not kept.
\<close>

section \<open>Presences\<close>

text \<open>presencev1.Status is an int32 enum; any number is a value of it.\<close>

type_synonym pstatus = int

definition STATUS_UNSPECIFIED :: pstatus where "STATUS_UNSPECIFIED = 0"
definition STATUS_ONLINE :: pstatus where "STATUS_ONLINE = 1"
definition STATUS_IDLE :: pstatus where "STATUS_IDLE = 2"
definition STATUS_DND :: pstatus where "STATUS_DND = 3"
definition STATUS_OFFLINE :: pstatus where "STATUS_OFFLINE = 4"

lemmas pstatus_defs = STATUS_UNSPECIFIED_def STATUS_ONLINE_def STATUS_IDLE_def STATUS_DND_def STATUS_OFFLINE_def

record Presence =
  p_UserId :: string
  p_Status :: pstatus
  p_CustomStatus :: string
  p_LastSeen :: "time option"

record presence_deps =
  pd_redis_nil :: bool
  pd_resolver :: "user_deps option"

definition presenceKeyPrefix :: string where
  "presenceKeyPrefix = ''presence:''"

definition statusToString :: "pstatus \<Rightarrow> string" where
  "statusToString st =
     (if st = STATUS_ONLINE then ''online'' else if st = STATUS_IDLE then ''idle''
      else if st = STATUS_DND then ''dnd'' else if st = STATUS_OFFLINE then ''offline'' else [])"

definition statusToStream :: "pstatus \<Rightarrow> PresenceStatus" where
  "statusToStream st =
     (if st = STATUS_ONLINE then PRESENCE_STATUS_ONLINE else if st = STATUS_IDLE then PRESENCE_STATUS_IDLE
      else if st = STATUS_DND then PRESENCE_STATUS_DND else if st = STATUS_OFFLINE then PRESENCE_STATUS_OFFLINE
      else PRESENCE_STATUS_UNSPECIFIED)"

definition stringToStatus :: "string \<Rightarrow> pstatus option" where
  "stringToStatus = map_of [(''online'', STATUS_ONLINE), (''idle'', STATUS_IDLE), (''dnd'', STATUS_DND),
     (''offline'', STATUS_OFFLINE)]"

section \<open>The service\<close>

definition publishPresence ::
    "env \<Rightarrow> presence_deps \<Rightarrow> string \<Rightarrow> pstatus \<Rightarrow> string \<Rightarrow> server \<Rightarrow> server" where
  "publishPresence e d userID st customStatus s =
     (if lpb_nil e then s
      else let payload = (friend_event userID)\<lparr>fa_Event := FRIEND_EVENT_PRESENCE_UPDATE,
                 fa_Status := statusToStream st, fa_CustomStatus := customStatus\<rparr>;
               payload' = (case pd_resolver d of
                   None \<Rightarrow> payload
                 | Some ud \<Rightarrow> (case LookupBasicProfile e ud userID (sv_db s) of
                     (username, avatarURL) \<Rightarrow> payload\<lparr>fa_Username := username, fa_AvatarUrl := avatarURL\<rparr>))
           in s\<lparr>sv_db := Publish (FriendActivity userID) (FriendEvt payload') (sv_db s)\<rparr>)"

definition presence_fields :: "pstatus \<Rightarrow> string \<Rightarrow> time \<Rightarrow> (string \<times> string) list" where
  "presence_fields st customStatus now =
     [(''status'', statusToString st), (''custom_status'', customStatus),
      (''last_seen'', Itoa (now div 1000000000))]"

definition UpdatePresence ::
    "env \<Rightarrow> presence_deps \<Rightarrow> string \<Rightarrow> pstatus \<Rightarrow> string \<Rightarrow> server \<Rightarrow> (dberr + Presence) \<times> server" where
  "UpdatePresence e d userID st customStatus s =
     (let key = presenceKeyPrefix @ userID; now = clock e [0] in
      case r_HSet (at e 1) key (presence_fields st customStatus now) (sv_kv s) of
        Inl x \<Rightarrow> (Inl x, s)
      | Inr r \<Rightarrow>
          (Inr \<lparr>p_UserId = userID, p_Status = st, p_CustomStatus = customStatus, p_LastSeen = Some now\<rparr>,
           publishPresence (at e 2) d userID st customStatus (s\<lparr>sv_kv := r\<rparr>)))"

definition SetOffline :: "env \<Rightarrow> presence_deps \<Rightarrow> string \<Rightarrow> server \<Rightarrow> (dberr + unit) \<times> server" where
  "SetOffline e d userID s =
     (case UpdatePresence e d userID STATUS_OFFLINE [] s of
        (Inl x, s') \<Rightarrow> (Inl x, s') | (Inr _, s') \<Rightarrow> (Inr (), s'))"

definition OnUserConnect :: "env \<Rightarrow> presence_deps \<Rightarrow> string \<Rightarrow> server \<Rightarrow> server" where
  "OnUserConnect e d userID s =
     (case pd_resolver d of
        None \<Rightarrow> s
      | Some ud \<Rightarrow>
          (case GetStatusIntent (at e 0) userID (sv_db s) of
             (st, custom) \<Rightarrow>
               snd (UpdatePresence (at e 1) d userID
                      (case stringToStatus st of Some v \<Rightarrow> v | None \<Rightarrow> STATUS_ONLINE) custom s)))"

definition OnUserDisconnect :: "env \<Rightarrow> presence_deps \<Rightarrow> string \<Rightarrow> server \<Rightarrow> server" where
  "OnUserDisconnect e d userID s = snd (SetOffline e d userID s)"

text \<open>A missing field of the hash reads as the empty string.\<close>

definition field :: "(string \<times> string) list \<Rightarrow> string \<Rightarrow> string" where
  "field vals f = (case map_of vals f of Some v \<Rightarrow> v | None \<Rightarrow> [])"

definition GetLiveStatus :: "env \<Rightarrow> presence_deps \<Rightarrow> string \<Rightarrow> server \<Rightarrow> string \<times> string" where
  "GetLiveStatus e d userID s =
     (if pd_redis_nil d then ([], [])
      else case r_HGetAll e (presenceKeyPrefix @ userID) (sv_kv s) of
        Inl _ \<Rightarrow> (''offline'', [])
      | Inr vals \<Rightarrow> if vals = [] then (''offline'', []) else (field vals ''status'', field vals ''custom_status''))"

definition parsePresence :: "string \<Rightarrow> (string \<times> string) list \<Rightarrow> Presence" where
  "parsePresence userID vals =
     \<lparr>p_UserId = userID,
      p_Status = (case map_of vals ''status'' of
          None \<Rightarrow> STATUS_UNSPECIFIED
        | Some statusVal \<Rightarrow>
            (case stringToStatus statusVal of
               Some st \<Rightarrow> st
             | None \<Rightarrow> (case ParseInt 32 statusVal of Some v \<Rightarrow> v | None \<Rightarrow> STATUS_UNSPECIFIED))),
      p_CustomStatus = field vals ''custom_status'',
      p_LastSeen = (case map_of vals ''last_seen'' of
          None \<Rightarrow> None
        | Some lsStr \<Rightarrow> map_option (\<lambda>ts. ts * 1000000000) (ParseInt 64 lsStr))\<rparr>"

definition offline_presence :: "string \<Rightarrow> Presence" where
  "offline_presence userID =
     \<lparr>p_UserId = userID, p_Status = STATUS_OFFLINE, p_CustomStatus = [], p_LastSeen = None\<rparr>"

definition GetPresence :: "env \<Rightarrow> string \<Rightarrow> server \<Rightarrow> dberr + Presence" where
  "GetPresence e userID s =
     (case r_HGetAll e (presenceKeyPrefix @ userID) (sv_kv s) of
        Inl x \<Rightarrow> Inl x
      | Inr vals \<Rightarrow> Inr (if vals = [] then offline_presence userID else parsePresence userID vals))"

text \<open>
  The commands of the bulk read travel in one pipeline, at one instant; an empty pipeline sends
  nothing. Exec reports the first error of a command.
\<close>

fun bulk_read :: "redis \<Rightarrow> time \<Rightarrow> string list \<Rightarrow> dberr + Presence list" where
  "bulk_read r now [] = Inr []"
| "bulk_read r now (uid # uids) =
     (case hash_of r now (presenceKeyPrefix @ uid) of
        Inl x \<Rightarrow> Inl x
      | Inr vals \<Rightarrow>
          (case bulk_read r now uids of
             Inl x \<Rightarrow> Inl x
           | Inr ps \<Rightarrow> Inr ((if vals = [] then offline_presence uid else parsePresence uid vals) # ps)))"

definition GetBulkPresence :: "env \<Rightarrow> string list \<Rightarrow> server \<Rightarrow> dberr + Presence list" where
  "GetBulkPresence e userIDs s =
     (if userIDs = [] then Inr [] else run_stmt e (bulk_read (sv_kv s) (clock e []) userIDs))"

section \<open>The handler\<close>

text \<open>The text of a database error inside a status message is a parameter.\<close>

definition PresenceHandler_UpdatePresence ::
    "(dberr \<Rightarrow> string) \<Rightarrow> env \<Rightarrow> presence_deps \<Rightarrow> pstatus \<Rightarrow> string \<Rightarrow> (server, Presence) UnaryHandler" where
  "PresenceHandler_UpdatePresence txt e d st custom ctx s =
     (let userID = UserIDFromContext ctx in
      if userID = [] then (Inl (Status Unauthenticated ''missing user id''), s)
      else case UpdatePresence e d userID st custom s of
        (Inl x, s') \<Rightarrow> (Inl (Status Internal (''failed to update presence: failed to set presence: '' @ txt x)), s')
      | (Inr p, s') \<Rightarrow> (Inr p, s'))"

definition PresenceHandler_GetPresence ::
    "(dberr \<Rightarrow> string) \<Rightarrow> env \<Rightarrow> string \<Rightarrow> (server, Presence) UnaryHandler" where
  "PresenceHandler_GetPresence txt e userID ctx s =
     (case GetPresence e userID s of
        Inl x \<Rightarrow> (Inl (Status Internal (''failed to get presence: failed to get presence: '' @ txt x)), s)
      | Inr p \<Rightarrow> (Inr p, s))"

definition PresenceHandler_GetBulkPresence ::
    "(dberr \<Rightarrow> string) \<Rightarrow> env \<Rightarrow> string list \<Rightarrow> (server, Presence list) UnaryHandler" where
  "PresenceHandler_GetBulkPresence txt e userIDs ctx s =
     (case GetBulkPresence e userIDs s of
        Inl x \<Rightarrow> (Inl (Status Internal (''failed to get bulk presence: failed to get bulk presence: '' @ txt x)), s)
      | Inr ps \<Rightarrow> (Inr ps, s))"

section \<open>Reading presence back\<close>

text \<open>
  The fields of a presence hash after an update, under any key. Nothing in the program sets an
  expiry on a presence key.
\<close>

lemma hash_after_set:
  assumes "r_HSet e k fvs r = Inr r'" and "kept_expiry r (clock e []) k = None"
  shows "hash_of r' now k' =
    (if k' = k then map_sum (\<lambda>x. x) (\<lambda>fs. fold (\<lambda>(f, v). put_field f v) fvs fs) (hash_of r (clock e []) k)
     else hash_of r now k')"
  using assms by (auto simp: r_HSet_def run_stmt_Inr hash_of_def split: sum.splits)

lemma put_field_nonempty [simp]: "put_field f v fs \<noteq> []"
  by (cases fs) (auto simp: put_field_def upsert_def)

lemma stringToStatus_empty [simp]: "stringToStatus [] = None"
  by (simp add: stringToStatus_def)

lemma ParseInt_empty [simp]: "ParseInt b [] = None"
  by (simp add: ParseInt_def read_int_def)

text \<open>A status that is one of the four; any other number is stored as the empty string.\<close>

definition stored_status :: "pstatus \<Rightarrow> pstatus" where
  "stored_status st = (if 1 \<le> st \<and> st \<le> 4 then st else STATUS_UNSPECIFIED)"

lemma stored_status_read:
  "(case stringToStatus (statusToString st) of
      Some v \<Rightarrow> v
    | None \<Rightarrow> (case ParseInt 32 (statusToString st) of Some v \<Rightarrow> v | None \<Rightarrow> STATUS_UNSPECIFIED)) = stored_status st"
proof -
  consider "st = 1" | "st = 2" | "st = 3" | "st = 4" | "\<not> (1 \<le> st \<and> st \<le> 4)" by linarith
  then show ?thesis
    by cases (auto simp: statusToString_def pstatus_defs stored_status_def stringToStatus_def)
qed

definition no_expiry :: "redis \<Rightarrow> string \<Rightarrow> bool" where
  "no_expiry r k = (case r k of Some (_, Some _) \<Rightarrow> False | _ \<Rightarrow> True)"

lemma no_expiry_kept [simp]: "no_expiry r k \<Longrightarrow> kept_expiry r now k = None"
  by (auto simp: no_expiry_def kept_expiry_def live_value_def split: option.splits)

lemma publishPresence_kv [simp]: "sv_kv (publishPresence e d u st c s) = sv_kv s"
  by (simp add: publishPresence_def Let_def)

lemma UpdatePresence_kv:
  assumes "UpdatePresence e d u st c s = (Inr p, s')"
  shows "r_HSet (at e 1) (presenceKeyPrefix @ u) (presence_fields st c (clock e [0])) (sv_kv s) = Inr (sv_kv s')"
  using assms by (auto simp: UpdatePresence_def Let_def split: sum.splits)

lemma hash_of_no_expiry:
  "no_expiry r k \<Longrightarrow> hash_of r now k = hash_of r now' k"
  by (auto simp: no_expiry_def hash_of_def live_value_def split: option.splits)

text \<open>The hash of a user after an update, and that the hashes of the others are as they were.\<close>

lemma UpdatePresence_hash:
  assumes "UpdatePresence e d u st c s = (Inr p, s')" and "no_expiry (sv_kv s) (presenceKeyPrefix @ u)"
  shows "\<exists>vals. hash_of (sv_kv s') now (presenceKeyPrefix @ u) = Inr vals \<and> vals \<noteq> [] \<and>
      map_of vals ''status'' = Some (statusToString st) \<and> map_of vals ''custom_status'' = Some c \<and>
      map_of vals ''last_seen'' = Some (Itoa (clock e [0] div 1000000000))"
    and "v \<noteq> u \<Longrightarrow> hash_of (sv_kv s') now (presenceKeyPrefix @ v) = hash_of (sv_kv s) now (presenceKeyPrefix @ v)"
proof -
  note set = UpdatePresence_kv [OF assms(1)]
  have kept: "kept_expiry (sv_kv s) (clock (at e 1) []) (presenceKeyPrefix @ u) = None"
    using assms(2) by simp
  note after = hash_after_set [OF set kept]
  from set obtain fs where "hash_of (sv_kv s) (clock (at e 1) []) (presenceKeyPrefix @ u) = Inr fs"
    by (auto simp: r_HSet_def run_stmt_Inr split: sum.splits)
  then show "\<exists>vals. hash_of (sv_kv s') now (presenceKeyPrefix @ u) = Inr vals \<and> vals \<noteq> [] \<and>
      map_of vals ''status'' = Some (statusToString st) \<and> map_of vals ''custom_status'' = Some c \<and>
      map_of vals ''last_seen'' = Some (Itoa (clock e [0] div 1000000000))"
    by (simp add: after presence_fields_def)
  show "v \<noteq> u \<Longrightarrow> hash_of (sv_kv s') now (presenceKeyPrefix @ v) = hash_of (sv_kv s) now (presenceKeyPrefix @ v)"
    by (simp add: after)
qed

text \<open>
  A presence that was stored is read back: after a successful update, a read of the user gives the
  status (one of the four; any other number reads as unspecified), the custom status and the
  second of the update, and a read of any other user gives what it gave before.
\<close>

theorem UpdatePresence_roundtrip:
  assumes "UpdatePresence e d u st c s = (Inr p, s')" and "no_expiry (sv_kv s) (presenceKeyPrefix @ u)"
    and "in_range 64 (clock e [0] div 1000000000)" and "\<not> fault e' []"
  shows "GetPresence e' v s' =
           (if v = u then Inr \<lparr>p_UserId = u, p_Status = stored_status st, p_CustomStatus = c,
                               p_LastSeen = Some (clock e [0] div 1000000000 * 1000000000)\<rparr>
            else GetPresence e' v s)"
proof (cases "v = u")
  case True
  obtain vals where vals: "hash_of (sv_kv s') (clock e' []) (presenceKeyPrefix @ u) = Inr vals" "vals \<noteq> []"
      "map_of vals ''status'' = Some (statusToString st)" "map_of vals ''custom_status'' = Some c"
      "map_of vals ''last_seen'' = Some (Itoa (clock e [0] div 1000000000))"
    using UpdatePresence_hash(1) [OF assms(1,2)] by blast
  then show ?thesis
    using True assms(3,4) stored_status_read [of st]
    by (simp add: GetPresence_def r_HGetAll_def parsePresence_def field_def ParseInt_Itoa ranged_def)
next
  case False
  then show ?thesis
    using UpdatePresence_hash(2) [OF assms(1,2) False] assms(4)
    by (simp add: GetPresence_def r_HGetAll_def)
qed

theorem UpdatePresence_roundtrip_witness:
  "GetPresence (request_at 9) ''u1''
     (snd (UpdatePresence (request_at 7000000001) \<lparr>pd_redis_nil = False, pd_resolver = None\<rparr> ''u1'' STATUS_DND ''busy'' empty_server))
     = Inr \<lparr>p_UserId = ''u1'', p_Status = STATUS_DND, p_CustomStatus = ''busy'', p_LastSeen = Some 7000000000\<rparr>"
proof -
  let ?d = "\<lparr>pd_redis_nil = False, pd_resolver = None\<rparr>"
  let ?run = "UpdatePresence (request_at 7000000001) ?d ''u1'' STATUS_DND ''busy'' empty_server"
  have "\<exists>p. ?run = (Inr p, snd ?run)"
    by (simp add: UpdatePresence_def r_HSet_def hash_of_def live_value_def empty_server_def empty_redis_def Let_def)
  then obtain p where "?run = (Inr p, snd ?run)" by blast
  from UpdatePresence_roundtrip [OF this, of "request_at 9" "''u1''"] show ?thesis
    by (simp add: no_expiry_def empty_server_def empty_redis_def in_range_def stored_status_def STATUS_DND_def)
qed

text \<open>
  The bulk read agrees with the single reads: it fails when the pipeline fails, and otherwise has
  one presence per user asked for, in order, each what GetPresence returns at that instant.
\<close>

theorem GetBulkPresence_pointwise:
  assumes "\<not> fault e []"
  shows "GetBulkPresence e uids s = Inr ps \<longleftrightarrow>
           length ps = length uids \<and> (\<forall>i<length uids. GetPresence e (uids ! i) s = Inr (ps ! i))"
proof -
  have "bulk_read (sv_kv s) (clock e []) uids = Inr ps \<longleftrightarrow>
      list_all2 (\<lambda>u p. GetPresence e u s = Inr p) uids ps" for ps
  proof (induction uids arbitrary: ps)
    case (Cons u uids)
    have g: "GetPresence e u s = (case hash_of (sv_kv s) (clock e []) (presenceKeyPrefix @ u) of
        Inl x \<Rightarrow> Inl x
      | Inr vals \<Rightarrow> Inr (if vals = [] then offline_presence u else parsePresence u vals))"
      using assms by (simp add: GetPresence_def r_HGetAll_def)
    show ?case
      using Cons.IH [of "tl ps"]
      by (cases ps; cases "bulk_read (sv_kv s) (clock e []) uids") (auto simp: g split: sum.splits)
  qed auto
  with assms show ?thesis
    by (auto simp: GetBulkPresence_def list_all2_conv_all_nth)
qed

theorem GetBulkPresence_pointwise_witness:
  "GetBulkPresence (request_at 1) [''a'', ''b''] empty_server = Inr [offline_presence ''a'', offline_presence ''b''] \<longleftrightarrow>
     length [offline_presence ''a'', offline_presence ''b''] = length [''a'', ''b''] \<and>
     (\<forall>i<length [''a'', ''b'']. GetPresence (request_at 1) ([''a'', ''b''] ! i) empty_server =
        Inr ([offline_presence ''a'', offline_presence ''b''] ! i))"
  using GetBulkPresence_pointwise [of "request_at 1" "[''a'', ''b'']" empty_server "[offline_presence ''a'', offline_presence ''b'']"]
  by simp

lemma UpdatePresence_live:
  assumes "UpdatePresence e d u n c s = (Inr p, s')" and "no_expiry (sv_kv s) (presenceKeyPrefix @ u)"
    and "\<not> fault e' []" and "\<not> pd_redis_nil d"
  shows "GetLiveStatus e' d u s' = (statusToString n, c)"
  using UpdatePresence_hash(1) [OF assms(1,2), of "clock e' []"] assms(3,4)
  by (auto simp: GetLiveStatus_def r_HGetAll_def field_def)

lemma UpdatePresence_ok:
  assumes "\<not> fault e [1]" and "\<forall>now. \<exists>fs. hash_of (sv_kv s) now (presenceKeyPrefix @ u) = Inr fs"
  shows "\<exists>p s'. UpdatePresence e d u n c s = (Inr p, s')"
proof -
  obtain fs where "hash_of (sv_kv s) (clock e [1]) (presenceKeyPrefix @ u) = Inr fs" using assms(2) by blast
  with assms(1) show ?thesis by (simp add: UpdatePresence_def r_HSet_def Let_def)
qed

lemma OnUserDisconnect_live:
  assumes "fault_free e" and "\<not> fault e' []" and "\<not> pd_redis_nil d"
    and "no_expiry (sv_kv s) (presenceKeyPrefix @ u)"
    and "\<forall>now. \<exists>fs. hash_of (sv_kv s) now (presenceKeyPrefix @ u) = Inr fs"
  shows "GetLiveStatus e' d u (OnUserDisconnect e d u s) = (''offline'', [])"
proof -
  obtain p s' where run: "UpdatePresence e d u STATUS_OFFLINE [] s = (Inr p, s')"
    using UpdatePresence_ok [of e s u d] assms(1,5) by fastforce
  with UpdatePresence_live [OF run assms(4,2,3)] show ?thesis
    by (simp add: OnUserDisconnect_def SetOffline_def statusToString_def pstatus_defs)
qed

text \<open>
  A connection shows the user with the status they last chose, and a disconnection takes them
  offline: after OnUserConnect the live status that the other services read is the stored one (or
  online when the stored word is not a status), after OnUserDisconnect it is offline.
\<close>

theorem connection_sets_live_status:
  assumes "fault_free e" and "\<not> fault e' []" and "\<not> pd_redis_nil d" and "pd_resolver d = Some ud"
    and "no_expiry (sv_kv s) (presenceKeyPrefix @ u)"
    and "\<forall>now. \<exists>fs. hash_of (sv_kv s) now (presenceKeyPrefix @ u) = Inr fs"
    and "GetStatusIntent (at e 0) u (sv_db s) = (st, custom)"
  shows "GetLiveStatus e' d u (OnUserConnect e d u s) =
           (if stringToStatus st = None then ''online'' else st, custom) \<and>
         GetLiveStatus e' d u (OnUserDisconnect e d u s) = (''offline'', [])"
proof
  have word: "statusToString (case stringToStatus st of Some v \<Rightarrow> v | None \<Rightarrow> STATUS_ONLINE) =
      (if stringToStatus st = None then ''online'' else st)"
    by (auto simp: stringToStatus_def statusToString_def pstatus_defs split: if_splits)
  obtain p s' where run: "UpdatePresence (at e 1) d u
      (case stringToStatus st of Some v \<Rightarrow> v | None \<Rightarrow> STATUS_ONLINE) custom s = (Inr p, s')"
    using UpdatePresence_ok [of "at e 1" s u d] assms(1,6) by fastforce
  with UpdatePresence_live [OF run assms(5,2,3)] show "GetLiveStatus e' d u (OnUserConnect e d u s) =
           (if stringToStatus st = None then ''online'' else st, custom)"
    using assms(4,7) by (simp add: OnUserConnect_def word)
  show "GetLiveStatus e' d u (OnUserDisconnect e d u s) = (''offline'', [])"
    by (rule OnUserDisconnect_live [OF assms(1-3,5,6)])
qed

theorem connection_sets_live_status_witness:
  "GetLiveStatus (request_at 2) \<lparr>pd_redis_nil = False, pd_resolver = Some no_deps\<rparr> ''u1''
     (OnUserConnect (request_at 1) \<lparr>pd_redis_nil = False, pd_resolver = Some no_deps\<rparr> ''u1'' empty_server) = (''online'', [])
   \<and> GetLiveStatus (request_at 2) \<lparr>pd_redis_nil = False, pd_resolver = Some no_deps\<rparr> ''u1''
     (OnUserDisconnect (request_at 1) \<lparr>pd_redis_nil = False, pd_resolver = Some no_deps\<rparr> ''u1'' empty_server) = (''offline'', [])"
proof -
  have "GetStatusIntent (at (request_at 1) 0) ''u1'' (sv_db empty_server) = (''online'', [])"
    by (simp add: GetStatusIntent_def request_at_def)
  moreover have "fault_free (request_at 1)" by (simp add: fault_free_def)
  ultimately show ?thesis
    using connection_sets_live_status [of "request_at 1" "request_at 2" "\<lparr>pd_redis_nil = False, pd_resolver = Some no_deps\<rparr>"
        no_deps empty_server "''u1''" "''online''" "[]"]
    by (simp add: no_expiry_def empty_server_def empty_redis_def hash_of_def live_value_def)
qed

end
