(* ===== verification/AuthService.thy ===== *)
theory AuthService
  imports Presence
begin

text \<open>
  Accounts and tokens, internal/features/auth (service.go, repository.go, handler.go): registration
  with a one-time password sent by mail, verification, login, and the rotation of refresh tokens.
  Users are rows of the database; one-time passwords and refresh tokens are Redis strings that
  expire. bcrypt, the mail server, the JWT library and the texts of their errors are parameters;
  the random numbers of a request are an argument.
\<close>

section \<open>Queries\<close>

text \<open>users.username and users.email are UNIQUE and id is the primary key.\<close>

definition new_user :: "uuid \<Rightarrow> string \<Rightarrow> string \<Rightarrow> string \<Rightarrow> string \<Rightarrow> time \<Rightarrow> User" where
  "new_user uid username displayName email passwordHash now =
     \<lparr>u_id = uid, u_username = username, u_email = email, u_password_hash = passwordHash,
      u_avatar_url = [], u_bio = [], u_status = ''offline'', u_verified = False, u_deleted = False,
      u_background_color = [], u_display_name = displayName, u_updated_at = now\<rparr>"

definition q_CreateUser ::
    "env \<Rightarrow> string \<Rightarrow> string \<Rightarrow> string \<Rightarrow> string \<Rightarrow> world \<Rightarrow> dberr + (User \<times> world)" where
  "q_CreateUser e username displayName email passwordHash w =
     run_stmt e
       (if list_ex (\<lambda>u. u_id u = fresh e [] \<or> u_username u = username \<or> u_email u = email) (users w)
        then Inl UniqueViolation
        else let u = new_user (fresh e []) username displayName email passwordHash (clock e [])
             in Inr (u, w\<lparr>users := users w @ [u]\<rparr>))"

definition q_GetUserByEmail :: "env \<Rightarrow> string \<Rightarrow> world \<Rightarrow> dberr + User" where
  "q_GetUserByEmail e email w =
     run_stmt e (one_row (find (\<lambda>u. u_email u = email \<and> \<not> u_deleted u) (users w)))"

definition q_VerifyUser :: "env \<Rightarrow> uuid \<Rightarrow> world \<Rightarrow> dberr + (User \<times> world)" where
  "q_VerifyUser e uid w =
     run_stmt e
       (case update_returning (\<lambda>u. u_id u = uid) (\<lambda>u. u\<lparr>u_verified := True, u_updated_at := clock e []\<rparr>) (users w) of
          Inl x \<Rightarrow> Inl x
        | Inr (u, us) \<Rightarrow> Inr (u, w\<lparr>users := us\<rparr>))"

section \<open>The repository\<close>

datatype auth_error =
    ErrInvalidCredentials | ErrInvalidToken | ErrUserExists | ErrInvalidOTP | ErrNotVerified
  | ErrAlreadyVerified
  | AuthFailed string dberr
  | HandleFailed nat dberr
  | CreateFailed dberr
  | HashFailed string
  | SignFailed
  | RandomFailed
  | MailFailed string
  | OtpNotSent string auth_error

text \<open>What the service is wired with.\<close>

record auth_deps =
  ad_bcrypt_hash :: "string \<Rightarrow> string + string"
  ad_bcrypt_match :: "string \<Rightarrow> string \<Rightarrow> bool"
  ad_jwt :: jwt_lib
  ad_Secret :: string
  ad_AccessTokenTTL :: time
  ad_RefreshTokenTTL :: time
  ad_mailer :: "(string \<Rightarrow> string \<Rightarrow> string option) option"
  ad_dberr_text :: "dberr \<Rightarrow> string"
  ad_presence :: "presence_deps option"

text \<open>The random draws of a request; the bytes of the refresh token can fail to be drawn.\<close>

record auth_rand =
  ar_otp :: nat
  ar_refresh :: "string option"
  ar_disc :: "nat \<Rightarrow> nat"

definition auth_handle_attempts :: nat where
  "auth_handle_attempts = 10"

fun create_loop ::
    "env \<Rightarrow> (nat \<Rightarrow> nat) \<Rightarrow> string \<Rightarrow> string \<Rightarrow> string \<Rightarrow> nat \<Rightarrow> nat \<Rightarrow> dberr \<Rightarrow> world \<Rightarrow> (auth_error + User) \<times> world" where
  "create_loop e rnd username email hash 0 i lastErr w = (Inl (HandleFailed auth_handle_attempts lastErr), w)"
| "create_loop e rnd username email hash (Suc n) i lastErr w =
     (case q_CreateUser (at e i) (username @ ''#'' @ randomDiscriminator (rnd i)) username email hash w of
        Inr (user, w1) \<Rightarrow> (Inr user, w1)
      | Inl x \<Rightarrow>
          if x \<noteq> UniqueViolation then (Inl (CreateFailed x), w)
          else create_loop e rnd username email hash n (i + 1) x w)"

definition CreateUserWithUsername ::
    "env \<Rightarrow> (nat \<Rightarrow> nat) \<Rightarrow> string \<Rightarrow> string \<Rightarrow> string \<Rightarrow> world \<Rightarrow> (auth_error + User) \<times> world" where
  "CreateUserWithUsername e rnd username email hash w =
     create_loop e rnd username email hash auth_handle_attempts 0 NoRows w"

definition refresh_key :: "string \<Rightarrow> string" where
  "refresh_key token = ''refresh:'' @ token"

definition otp_key :: "string \<Rightarrow> string" where
  "otp_key email = ''otp:'' @ email"

definition StoreRefreshToken :: "env \<Rightarrow> string \<Rightarrow> string \<Rightarrow> time \<Rightarrow> redis \<Rightarrow> dberr + redis" where
  "StoreRefreshToken e userID token ttl r = r_Set e (refresh_key token) userID ttl r"

definition GetRefreshToken :: "env \<Rightarrow> string \<Rightarrow> redis \<Rightarrow> dberr + string" where
  "GetRefreshToken e token r = r_Get e (refresh_key token) r"

definition DeleteRefreshToken :: "env \<Rightarrow> string \<Rightarrow> redis \<Rightarrow> dberr + redis" where
  "DeleteRefreshToken e token r = r_Del e (refresh_key token) r"

definition StoreOTP :: "env \<Rightarrow> string \<Rightarrow> string \<Rightarrow> redis \<Rightarrow> dberr + redis" where
  "StoreOTP e email otp r = r_Set e (otp_key email) otp (5 * Minute) r"

definition GetOTP :: "env \<Rightarrow> string \<Rightarrow> redis \<Rightarrow> dberr + string" where
  "GetOTP e email r = r_Get e (otp_key email) r"

definition DeleteOTP :: "env \<Rightarrow> string \<Rightarrow> redis \<Rightarrow> dberr + redis" where
  "DeleteOTP e email r = r_Del e (otp_key email) r"

section \<open>The service\<close>

record TokenPair =
  tp_AccessToken :: string
  tp_RefreshToken :: string

text \<open>generateOTP prints a random number below 999999 with six digits.\<close>

definition generateOTP :: "nat \<Rightarrow> string" where
  "generateOTP n = [digit (n div 100000), digit (n div 10000), digit (n div 1000), digit (n div 100),
     digit (n div 10), digit n]"

definition EncodeToString :: "string \<Rightarrow> string" where
  "EncodeToString bs = concat (map (\<lambda>b. to_hex 2 (of_char b)) bs)"

definition generateTokens ::
    "env \<Rightarrow> auth_deps \<Rightarrow> auth_rand \<Rightarrow> string \<Rightarrow> server \<Rightarrow> (auth_error + TokenPair) \<times> server" where
  "generateTokens e d rnd userID s =
     (let now = clock e [0] in
      case SignedString (ad_jwt d) SigningMethodHMAC
             (user_claims userID (now div 1000000000) ((now + ad_AccessTokenTTL d) div 1000000000)) (ad_Secret d) of
        None \<Rightarrow> (Inl SignFailed, s)
      | Some accessStr \<Rightarrow>
          (case ar_refresh rnd of
             None \<Rightarrow> (Inl RandomFailed, s)
           | Some refreshBytes \<Rightarrow>
               (let refreshStr = EncodeToString refreshBytes in
                case StoreRefreshToken (at e 1) userID refreshStr (ad_RefreshTokenTTL d) (sv_kv s) of
                  Inl x \<Rightarrow> (Inl (AuthFailed ''failed to store refresh token: '' x), s)
                | Inr r \<Rightarrow> (Inr \<lparr>tp_AccessToken = accessStr, tp_RefreshToken = refreshStr\<rparr>, s\<lparr>sv_kv := r\<rparr>))))"

definition sendOTP :: "env \<Rightarrow> auth_deps \<Rightarrow> auth_rand \<Rightarrow> string \<Rightarrow> server \<Rightarrow> (auth_error + unit) \<times> server" where
  "sendOTP e d rnd email s =
     (let otp = generateOTP (ar_otp rnd) in
      case StoreOTP e email otp (sv_kv s) of
        Inl x \<Rightarrow> (Inl (AuthFailed ''failed to store OTP: '' x), s)
      | Inr r \<Rightarrow>
          (case ad_mailer d of
             None \<Rightarrow> (Inr (), s\<lparr>sv_kv := r\<rparr>)
           | Some SendOTP \<Rightarrow>
               (case SendOTP email otp of
                  Some err \<Rightarrow> (Inl (MailFailed (''failed to send OTP email: '' @ err)), s\<lparr>sv_kv := r\<rparr>)
                | None \<Rightarrow> (Inr (), s\<lparr>sv_kv := r\<rparr>))))"

text \<open>When the mail cannot be sent Register returns the identifier together with the error.\<close>

definition Register ::
    "env \<Rightarrow> auth_deps \<Rightarrow> auth_rand \<Rightarrow> string \<Rightarrow> string \<Rightarrow> string \<Rightarrow> server \<Rightarrow> (auth_error + string) \<times> server" where
  "Register e d rnd username email password s =
     (case ad_bcrypt_hash d password of
        Inl err \<Rightarrow> (Inl (HashFailed err), s)
      | Inr hash \<Rightarrow>
          (case CreateUserWithUsername (at e 0) (ar_disc rnd) username email hash (sv_db s) of
             (Inl x, w) \<Rightarrow> (Inl x, s\<lparr>sv_db := w\<rparr>)
           | (Inr user, w) \<Rightarrow>
               (case sendOTP (at e 1) d rnd email (s\<lparr>sv_db := w\<rparr>) of
                  (Inl x, s2) \<Rightarrow> (Inl (OtpNotSent (uuid_string e (u_id user)) x), s2)
                | (Inr _, s2) \<Rightarrow> (Inr (uuid_string e (u_id user)), s2))))"

text \<open>
  uuid.Parse of the identifier just printed; its error is dropped and a failure leaves the nil UUID.
\<close>

definition VerifyOTP ::
    "env \<Rightarrow> auth_deps \<Rightarrow> auth_rand \<Rightarrow> string \<Rightarrow> string \<Rightarrow> server \<Rightarrow> (auth_error + (string \<times> TokenPair)) \<times> server" where
  "VerifyOTP e d rnd email otp s =
     (case GetOTP (at e 0) email (sv_kv s) of
        Inl _ \<Rightarrow> (Inl ErrInvalidOTP, s)
      | Inr storedOTP \<Rightarrow>
          if storedOTP \<noteq> otp then (Inl ErrInvalidOTP, s)
          else (case q_GetUserByEmail (at e 1) email (sv_db s) of
             Inl _ \<Rightarrow> (Inl ErrInvalidCredentials, s)
           | Inr user \<Rightarrow>
               (let uid = (case uuid_scan e (uuid_string e (u_id user)) of Some v \<Rightarrow> v | None \<Rightarrow> 0) in
                case q_VerifyUser (at e 2) uid (sv_db s) of
                  Inl x \<Rightarrow> (Inl (AuthFailed ''failed to verify user: '' x), s)
                | Inr (_, w) \<Rightarrow>
                    (let s1 = s\<lparr>sv_db := w, sv_kv := keep_on_error (sv_kv s) (DeleteOTP (at e 3) email (sv_kv s))\<rparr> in
                     case generateTokens (at e 4) d rnd (uuid_string e (u_id user)) s1 of
                       (Inl x, s2) \<Rightarrow> (Inl x, s2)
                     | (Inr pair, s2) \<Rightarrow> (Inr (uuid_string e (u_id user), pair), s2)))))"

definition ResendOTP :: "env \<Rightarrow> auth_deps \<Rightarrow> auth_rand \<Rightarrow> string \<Rightarrow> server \<Rightarrow> (auth_error + unit) \<times> server" where
  "ResendOTP e d rnd email s =
     (case q_GetUserByEmail (at e 0) email (sv_db s) of
        Inl _ \<Rightarrow> (Inl ErrInvalidCredentials, s)
      | Inr _ \<Rightarrow> sendOTP (at e 1) d rnd email s)"

definition Login ::
    "env \<Rightarrow> auth_deps \<Rightarrow> auth_rand \<Rightarrow> string \<Rightarrow> string \<Rightarrow> server \<Rightarrow> (auth_error + (string \<times> TokenPair)) \<times> server" where
  "Login e d rnd email password s =
     (case q_GetUserByEmail (at e 0) email (sv_db s) of
        Inl _ \<Rightarrow> (Inl ErrInvalidCredentials, s)
      | Inr user \<Rightarrow>
          if \<not> ad_bcrypt_match d (u_password_hash user) password then (Inl ErrInvalidCredentials, s)
          else if \<not> u_verified user then (Inl ErrNotVerified, s)
          else (case generateTokens (at e 1) d rnd (uuid_string e (u_id user)) s of
             (Inl x, s2) \<Rightarrow> (Inl x, s2)
           | (Inr pair, s2) \<Rightarrow> (Inr (uuid_string e (u_id user), pair), s2)))"

definition RefreshToken ::
    "env \<Rightarrow> auth_deps \<Rightarrow> auth_rand \<Rightarrow> string \<Rightarrow> server \<Rightarrow> (auth_error + TokenPair) \<times> server" where
  "RefreshToken e d rnd refreshToken s =
     (case GetRefreshToken (at e 0) refreshToken (sv_kv s) of
        Inl _ \<Rightarrow> (Inl ErrInvalidToken, s)
      | Inr userID \<Rightarrow>
          (case DeleteRefreshToken (at e 1) refreshToken (sv_kv s) of
             Inl x \<Rightarrow> (Inl (AuthFailed ''failed to delete old refresh token: '' x), s)
           | Inr r \<Rightarrow> generateTokens (at e 2) d rnd userID (s\<lparr>sv_kv := r\<rparr>)))"

definition Logout :: "env \<Rightarrow> string \<Rightarrow> server \<Rightarrow> (auth_error + unit) \<times> server" where
  "Logout e refreshToken s =
     (case DeleteRefreshToken e refreshToken (sv_kv s) of
        Inl x \<Rightarrow> (Inl (AuthFailed [] x), s)
      | Inr r \<Rightarrow> (Inr (), s\<lparr>sv_kv := r\<rparr>))"

definition ValidateToken :: "auth_deps \<Rightarrow> time \<Rightarrow> string \<Rightarrow> string \<times> bool" where
  "ValidateToken d now accessToken =
     (case jwt_Parse (ad_jwt d) (hmac_key (ad_Secret d)) now accessToken of
        None \<Rightarrow> ([], False)
      | Some token \<Rightarrow>
          (case tok_Claims token of
             None \<Rightarrow> ([], False)
           | Some claims \<Rightarrow>
               if \<not> tok_Valid token then ([], False)
               else (case map_of claims ''sub'' of Some (CStr userID) \<Rightarrow> (userID, True) | _ \<Rightarrow> ([], False))))"

section \<open>The handler\<close>

definition Contains :: "string \<Rightarrow> string \<Rightarrow> bool" where
  "Contains s sub \<longleftrightarrow> Index s sub \<noteq> None"

text \<open>The text of the errors that Register returns.\<close>

fun register_text :: "auth_deps \<Rightarrow> auth_error \<Rightarrow> string" where
  "register_text d (HashFailed err) = ''failed to hash password: '' @ err"
| "register_text d (CreateFailed x) = ''failed to create user: '' @ ad_dberr_text d x"
| "register_text d (HandleFailed n x) =
     ''failed to create user: failed to allocate unique handle after '' @ Itoa (int n) @ '' attempts: '' @ ad_dberr_text d x"
| "register_text d (OtpNotSent _ x) = ''user created but failed to send OTP: '' @ register_text d x"
| "register_text d (AuthFailed what x) = what @ ad_dberr_text d x"
| "register_text d (MailFailed err) = err"
| "register_text d _ = []"

definition AuthHandler_Register ::
    "env \<Rightarrow> auth_deps \<Rightarrow> auth_rand \<Rightarrow> string \<Rightarrow> string \<Rightarrow> string \<Rightarrow> (server, string \<times> string) UnaryHandler" where
  "AuthHandler_Register e d rnd username email password ctx s =
     (case Register e d rnd username email password s of
        (Inl err, s') \<Rightarrow>
          (Inl (if err = ErrUserExists then Status AlreadyExists ''user already exists''
                else let errMsg = register_text d err in
                  if Contains errMsg ''duplicate key'' \<or> Contains errMsg ''unique'' \<or> Contains errMsg ''23505''
                  then Status AlreadyExists ''user already exists''
                  else Status Internal ''failed to register''), s')
      | (Inr userID, s') \<Rightarrow>
          (Inr (userID, ''OTP sent to '' @ email @ ''. Please verify to complete registration.''), s'))"

definition AuthHandler_VerifyOTP ::
    "env \<Rightarrow> auth_deps \<Rightarrow> auth_rand \<Rightarrow> string \<Rightarrow> string \<Rightarrow> (server, string \<times> TokenPair) UnaryHandler" where
  "AuthHandler_VerifyOTP e d rnd email otp ctx s =
     (case VerifyOTP e d rnd email otp s of
        (Inl err, s') \<Rightarrow>
          (Inl (if err = ErrInvalidOTP then Status InvalidArgument ''invalid or expired OTP''
                else Status Internal ''failed to verify OTP''), s')
      | (Inr res, s') \<Rightarrow> (Inr res, s'))"

definition AuthHandler_ResendOTP ::
    "env \<Rightarrow> auth_deps \<Rightarrow> auth_rand \<Rightarrow> string \<Rightarrow> (server, string) UnaryHandler" where
  "AuthHandler_ResendOTP e d rnd email ctx s =
     (case ResendOTP e d rnd email s of
        (Inl err, s') \<Rightarrow>
          (Inl (if err = ErrInvalidCredentials then Status NotFound ''user not found''
                else Status Internal ''failed to resend OTP''), s')
      | (Inr _, s') \<Rightarrow> (Inr (''OTP sent to '' @ email), s'))"

definition AuthHandler_Login ::
    "env \<Rightarrow> auth_deps \<Rightarrow> auth_rand \<Rightarrow> string \<Rightarrow> string \<Rightarrow> (server, string \<times> TokenPair) UnaryHandler" where
  "AuthHandler_Login e d rnd email password ctx s =
     (case Login e d rnd email password s of
        (Inl err, s') \<Rightarrow>
          (Inl (if err = ErrInvalidCredentials then Status Unauthenticated ''invalid credentials''
                else if err = ErrNotVerified then Status FailedPrecondition ''email not verified. Please verify OTP first.''
                else Status Internal ''failed to login''), s')
      | (Inr res, s') \<Rightarrow> (Inr res, s'))"

definition AuthHandler_RefreshToken ::
    "env \<Rightarrow> auth_deps \<Rightarrow> auth_rand \<Rightarrow> string \<Rightarrow> (server, TokenPair) UnaryHandler" where
  "AuthHandler_RefreshToken e d rnd token ctx s =
     (case RefreshToken e d rnd token s of
        (Inl err, s') \<Rightarrow>
          (Inl (if err = ErrInvalidToken then Status Unauthenticated ''invalid refresh token''
                else Status Internal ''failed to refresh token''), s')
      | (Inr pair, s') \<Rightarrow> (Inr pair, s'))"

definition AuthHandler_Logout :: "env \<Rightarrow> auth_deps \<Rightarrow> string \<Rightarrow> (server, unit) UnaryHandler" where
  "AuthHandler_Logout e d token ctx s =
     (case Logout (at e 0) token s of
        (Inl _, s') \<Rightarrow> (Inl (Status Internal ''failed to logout''), s')
      | (Inr _, s') \<Rightarrow>
          (case ad_presence d of
             None \<Rightarrow> (Inr (), s')
           | Some pd \<Rightarrow>
               if UserIDFromContext ctx = [] then (Inr (), s')
               else (Inr (), snd (SetOffline (at e 1) pd (UserIDFromContext ctx) s'))))"

definition AuthHandler_ValidateToken :: "auth_deps \<Rightarrow> time \<Rightarrow> string \<Rightarrow> (server, string \<times> bool) UnaryHandler" where
  "AuthHandler_ValidateToken d now token ctx s = (Inr (ValidateToken d now token), s)"

section \<open>Tokens\<close>

lemma ValidateToken_iff:
  "ValidateToken d now tok = (u, True) \<longleftrightarrow>
     (\<exists>t. jwt_Parse (ad_jwt d) (hmac_key (ad_Secret d)) now tok = Some t \<and> token_subject t = Some u)"
  by (auto simp: ValidateToken_def token_subject_iff split: option.splits claim.splits if_splits)

lemma generateTokens_Inr:
  assumes "generateTokens e d rnd u s = (Inr pair, s')"
  shows "SignedString (ad_jwt d) SigningMethodHMAC
           (user_claims u (clock e [0] div 1000000000) ((clock e [0] + ad_AccessTokenTTL d) div 1000000000))
           (ad_Secret d) = Some (tp_AccessToken pair)"
    and "sv_db s' = sv_db s"
    and "sv_kv s' = (sv_kv s)(refresh_key (tp_RefreshToken pair) \<mapsto> (RStr u, expiry (at e 1) (ad_RefreshTokenTTL d)))"
    and "\<exists>bs. ar_refresh rnd = Some bs \<and> tp_RefreshToken pair = EncodeToString bs"
  using assms
  by (auto simp: generateTokens_def StoreRefreshToken_def r_Set_def run_stmt_Inr Let_def
      split: option.splits sum.splits)

text \<open>
  C15: the token that a login, a verification or a refresh hands out is the user's: until the access
  lifetime has passed (counted in whole seconds) ValidateToken accepts it with that user, and the
  interceptor lets a call that carries it through as that user; from then on both refuse it.
\<close>

theorem access_token_roundtrip:
  assumes "jwt_ok (ad_jwt d)" and "generateTokens e d rnd u s = (Inr pair, s')"
    and "exp = (clock e [0] + ad_AccessTokenTTL d) div 1000000000 * 1000000000"
    and "incoming_md ctx = Some md" and "map_of md ''authorization'' = Some [''Bearer '' @ tp_AccessToken pair]"
  shows "ValidateToken d now (tp_AccessToken pair) = (if now < exp then (u, True) else ([], False)) \<and>
         extractUserID (ad_jwt d) now (ad_Secret d) ctx =
           (if now < exp then Inr u else Inl (Status Unauthenticated ''invalid token''))"
proof -
  have trim: "TrimPrefix (''Bearer '' @ tp_AccessToken pair) ''Bearer '' = tp_AccessToken pair"
    by (rule TrimPrefix_append)
  show ?thesis
  proof (cases "now < exp")
    case True
    then obtain t where t: "jwt_Parse (ad_jwt d) (hmac_key (ad_Secret d)) now (tp_AccessToken pair) = Some t"
        "token_subject t = Some u"
      using jwt_ok_accepts [OF assms(1) generateTokens_Inr(1) [OF assms(2)]] assms(3) by auto
    have "ValidateToken d now (tp_AccessToken pair) = (u, True)"
      using t by (simp add: ValidateToken_iff)
    moreover have "extractUserID (ad_jwt d) now (ad_Secret d) ctx = Inr u"
      unfolding extractUserID_iff
      by (intro exI conjI, rule assms(4), rule assms(5), subst trim, rule t(1), rule t(2))
    ultimately show ?thesis using True by simp
  next
    case False
    then have none: "jwt_Parse (ad_jwt d) (hmac_key (ad_Secret d)) now (tp_AccessToken pair) = None"
      using jwt_ok_expired [OF assms(1) generateTokens_Inr(1) [OF assms(2)]] assms(3) by auto
    have "extractUserID (ad_jwt d) now (ad_Secret d) ctx = Inl (Status Unauthenticated ''invalid token'')"
      unfolding extractUserID_def assms(4,5) option.case list.case trim none by (rule refl)
    with none False show ?thesis by (simp add: ValidateToken_def)
  qed
qed

section \<open>Refresh tokens\<close>

lemma refresh_key_inject [simp]: "refresh_key a = refresh_key b \<longleftrightarrow> a = b"
  by (simp add: refresh_key_def)

lemma otp_key_inject [simp]: "otp_key a = otp_key b \<longleftrightarrow> a = b"
  by (simp add: otp_key_def)

lemma otp_refresh_keys [simp]: "otp_key a \<noteq> refresh_key b" "refresh_key b \<noteq> otp_key a"
  by (simp_all add: otp_key_def refresh_key_def)

text \<open>
  C14: a refresh token is used once: when a refresh succeeds the token presented named a user in the
  store, a second refresh with it is refused as invalid whenever it comes, the new token refreshes
  for the same user until its lifetime has passed, and every other token is as it was.
\<close>

theorem RefreshToken_rotates:
  assumes "RefreshToken e d rnd tok s = (Inr pair, s')" and "tp_RefreshToken pair \<noteq> tok"
    and "0 < ad_RefreshTokenTTL d" and "\<not> fault e' [0]"
  shows "\<exists>u. GetRefreshToken (at e 0) tok (sv_kv s) = Inr u \<and>
           RefreshToken e' d rnd' tok s' = (Inl ErrInvalidToken, s') \<and>
           GetRefreshToken (at e' 0) (tp_RefreshToken pair) (sv_kv s') =
             (if clock e' [0] < clock e [2, 1] + ad_RefreshTokenTTL d then Inr u else Inl NoRows) \<and>
           (\<forall>other. other \<noteq> tok \<longrightarrow> other \<noteq> tp_RefreshToken pair \<longrightarrow>
              GetRefreshToken (at e' 0) other (sv_kv s') = GetRefreshToken (at e' 0) other (sv_kv s))"
proof -
  obtain u where u: "GetRefreshToken (at e 0) tok (sv_kv s) = Inr u"
    and gen: "generateTokens (at e 2) d rnd u (s\<lparr>sv_kv := (sv_kv s)(refresh_key tok := None)\<rparr>) = (Inr pair, s')"
    using assms(1) by (auto simp: RefreshToken_def DeleteRefreshToken_def r_Del_def run_stmt_Inr split: sum.splits)
  have kv: "sv_kv s' = (sv_kv s)(refresh_key tok := None,
      refresh_key (tp_RefreshToken pair) \<mapsto> (RStr u, Some (clock e [2, 1] + ad_RefreshTokenTTL d)))"
    using generateTokens_Inr(3) [OF gen] assms(3) by (simp add: expiry_def)
  have get: "GetRefreshToken (at e' 0) x r = (case live_value r (clock e' [0]) (refresh_key x) of
      None \<Rightarrow> Inl NoRows | Some (RStr v) \<Rightarrow> Inr v | Some _ \<Rightarrow> Inl DbFault)" for x r
    using assms(4) by (simp add: GetRefreshToken_def r_Get_def)
  have "RefreshToken e' d rnd' tok s' = (Inl ErrInvalidToken, s')"
    using assms(2) by (simp add: RefreshToken_def get kv live_value_def)
  with u assms(2) show ?thesis by (auto simp: get kv live_value_def)
qed

section \<open>Registration\<close>

lemma create_loop_taken:
  assumes "fault_free e" and "list_ex (\<lambda>u. u_email u = email) (users w)"
  shows "create_loop e rnd username email hash n i x w =
           (Inl (HandleFailed auth_handle_attempts (if n = 0 then x else UniqueViolation)), w)"
proof (induction n arbitrary: i x)
  case (Suc n)
  have "list_ex (\<lambda>u. u_id u = a \<or> u_username u = b \<or> u_email u = email) (users w)" for a b
    using assms(2) by (auto simp: list_ex_iff)
  with Suc assms(1) show ?case by (simp add: q_CreateUser_def)
qed simp

lemma Contains_unique: "Contains (''failed to create user: failed to allocate unique handle after '' @ s) ''unique''"
  by (simp add: Contains_def)

text \<open>
  An address registers once: a registration with the e-mail of an existing row, a deleted one too,
  changes nothing, and the caller is told that the user exists. The repository makes all its ten
  attempts first, for every unique violation counts as a collision of handles.
\<close>

theorem Register_taken_email:
  assumes "fault_free e" and "list_ex (\<lambda>u. u_email u = email) (users (sv_db s))"
    and "ad_bcrypt_hash d password = Inr hash"
  shows "Register e d rnd username email password s =
           (Inl (HandleFailed auth_handle_attempts UniqueViolation), s) \<and>
         AuthHandler_Register e d rnd username email password ctx s =
           (Inl (Status AlreadyExists ''user already exists''), s)"
proof -
  have reg: "Register e d rnd username email password s =
      (Inl (HandleFailed auth_handle_attempts UniqueViolation), s)"
    using assms by (simp add: Register_def CreateUserWithUsername_def create_loop_taken auth_handle_attempts_def)
  have "Contains (register_text d (HandleFailed auth_handle_attempts UniqueViolation)) ''unique''"
    using Contains_unique by (simp only: register_text.simps append_assoc)
  with reg show ?thesis by (simp only: AuthHandler_Register_def prod.case sum.case Let_def) simp
qed

lemma create_loop_Inr:
  assumes "create_loop e rnd username email hash n i x w = (Inr user, w')"
  shows "w' = w\<lparr>users := users w @ [user]\<rparr> \<and>
      (\<exists>j. user = new_user (fresh e [j]) (username @ ''#'' @ randomDiscriminator (rnd j)) username email hash (clock e [j])) \<and>
      (\<forall>u\<in>set (users w). u_id u \<noteq> u_id user \<and> u_username u \<noteq> u_username user \<and> u_email u \<noteq> u_email user)"
  using assms
proof (induction n arbitrary: i x)
  case (Suc n)
  show ?case
  proof (cases "q_CreateUser (at e i) (username @ ''#'' @ randomDiscriminator (rnd i)) username email hash w")
    case (Inl y)
    with Suc show ?thesis by (auto split: if_splits)
  next
    case (Inr r)
    with Suc.prems show ?thesis
      by (auto simp: q_CreateUser_def run_stmt_Inr new_user_def Let_def list_ex_iff split: if_splits)
  qed
qed simp

lemma create_loop_Inl: "create_loop e rnd username email hash n i x w = (Inl err, w') \<Longrightarrow> w' = w"
  by (induction n arbitrary: i x) (auto split: sum.splits if_splits)

lemma sendOTP_db [simp]: "sv_db (snd (sendOTP e d rnd email s)) = sv_db s"
  by (simp add: sendOTP_def Let_def split: sum.splits option.splits)

lemma generateTokens_db [simp]: "sv_db (snd (generateTokens e d rnd u s)) = sv_db s"
  by (simp add: generateTokens_def Let_def split: sum.splits option.splits)

lemma sendOTP_dbD: "sendOTP e d rnd email s = (r, s') \<Longrightarrow> sv_db s' = sv_db s"
  by (metis sendOTP_db snd_conv)

lemma generateTokens_dbD: "generateTokens e d rnd u s = (r, s') \<Longrightarrow> sv_db s' = sv_db s"
  by (metis generateTokens_db snd_conv)

section \<open>Accounts over time\<close>

text \<open>
  Every operation of the auth and user services that writes the table of users, and the auth
  operations that only touch Redis, as steps of the server.
\<close>

definition on_db :: "(world \<Rightarrow> 'a \<times> world) \<Rightarrow> server \<Rightarrow> server" where
  "on_db f s = s\<lparr>sv_db := snd (f (sv_db s))\<rparr>"

inductive account_step :: "server \<Rightarrow> server \<Rightarrow> bool" where
  "account_step s (snd (Register e d rnd username email password s))"
| "account_step s (snd (VerifyOTP e d rnd email otp s))"
| "account_step s (snd (ResendOTP e d rnd email s))"
| "account_step s (snd (Login e d rnd email password s))"
| "account_step s (snd (RefreshToken e d rnd tok s))"
| "account_step s (snd (Logout e tok s))"
| "account_step s (on_db (UpdateUsername e ud rn uid name) s)"
| "account_step s (on_db (UpdateUser e ud params) s)"
| "account_step s (on_db (UploadAvatar e ud uid filename contentType nbytes) s)"
| "account_step s (on_db (UpdateStatus e ud uid newStatus) s)"
| "account_step s (on_db (DeleteUser e uid) s)"

definition accounts_inv :: "world \<Rightarrow> bool" where
  "accounts_inv w \<longleftrightarrow> distinct (map u_id (users w)) \<and> distinct (map u_username (users w)) \<and>
     distinct (map u_email (users w))"

definition accounts_kept :: "world \<Rightarrow> world \<Rightarrow> bool" where
  "accounts_kept w w' \<longleftrightarrow>
     (\<forall>u\<in>set (users w). \<exists>u'\<in>set (users w'). u_id u' = u_id u \<and> u_email u' = u_email u \<and>
        u_password_hash u' = u_password_hash u \<and> (u_verified u \<longrightarrow> u_verified u') \<and> (u_deleted u \<longrightarrow> u_deleted u'))"

lemma accounts_kept_refl [simp]: "accounts_kept w w"
  by (auto simp: accounts_kept_def)

lemma accounts_kept_trans: "accounts_kept a b \<Longrightarrow> accounts_kept b c \<Longrightarrow> accounts_kept a c"
  by (fastforce simp: accounts_kept_def)

text \<open>An update of the rows of one user that keeps the key columns and only ever sets the flags.\<close>

definition keeps_keys :: "(User \<Rightarrow> User) \<Rightarrow> bool" where
  "keeps_keys f \<longleftrightarrow> (\<forall>u. u_id (f u) = u_id u \<and> u_email (f u) = u_email u \<and> u_password_hash (f u) = u_password_hash u \<and>
     (u_verified u \<longrightarrow> u_verified (f u)) \<and> (u_deleted u \<longrightarrow> u_deleted (f u)))"

lemma update_where_kept:
  assumes "keeps_keys f" and "users w' = update_where p f (users w)"
  shows "accounts_kept w w'" and "map u_id (users w') = map u_id (users w)"
    and "map u_email (users w') = map u_email (users w)"
  using assms by (auto simp: accounts_kept_def keeps_keys_def update_where_def)

lemma distinct_name_update:
  assumes "distinct (map u_id xs)" and "distinct (map u_username xs)"
    and "\<forall>v\<in>set xs. u_id v \<noteq> uid \<longrightarrow> u_username v \<noteq> n" and "\<And>u. u_username (f u) = n"
  shows "distinct (map u_username (update_where (\<lambda>u. u_id u = uid) f xs))"
  using assms
proof (induction xs)
  case (Cons x xs)
  have sub: "set (map u_username (update_where (\<lambda>u. u_id u = uid) f xs)) \<subseteq>
      u_username ` {v \<in> set xs. u_id v \<noteq> uid} \<union> {n}"
    using assms(4) by (auto simp: update_where_def)
  show ?case
  proof (cases "u_id x = uid")
    case True
    then have "update_where (\<lambda>u. u_id u = uid) f xs = xs"
      using Cons.prems(1) by (auto simp: update_where_def image_iff intro!: map_idI)
    then show ?thesis using True Cons.prems by (fastforce simp: image_iff)
  next
    case False
    with Cons sub show ?thesis by auto
  qed
qed simp

lemma distinct_name_same:
  assumes "\<And>u. u_username (f u) = u_username u"
  shows "map u_username (update_where p f xs) = map u_username xs"
  using assms by (rule map_key_update_where)

lemma q_UpdateUser_accounts:
  assumes "q_UpdateUser e params w = Inr (u, w')"
  shows "accounts_kept w w' \<and> (accounts_inv w \<longrightarrow> accounts_inv w')"
proof -
  define f where "f = (\<lambda>u :: User. u\<lparr>u_username := coalesce (uu_Username params) (u_username u),
    u_display_name := coalesce (uu_DisplayName params) (u_display_name u),
    u_avatar_url := coalesce (uu_AvatarUrl params) (u_avatar_url u),
    u_bio := coalesce (uu_Bio params) (u_bio u), u_status := coalesce (uu_Status params) (u_status u),
    u_background_color := coalesce (uu_BackgroundColor params) (u_background_color u),
    u_updated_at := clock e []\<rparr>)"
  have f: "keeps_keys f" "users w' = update_where (\<lambda>u. u_id u = uu_ID params) f (users w)"
    "\<And>u. u_username (f u) = coalesce (uu_Username params) (u_username u)"
    using assms
    by (auto simp: f_def q_UpdateUser_def run_stmt_Inr update_returning_Inr keeps_keys_def split: sum.splits if_splits)
  have names: "distinct (map u_username (users w'))" if "accounts_inv w"
  proof (cases "uu_Username params")
    case None
    with f(3) have "map u_username (users w') = map u_username (users w)"
      unfolding f(2) by (intro distinct_name_same) (simp add: coalesce_def)
    with that show ?thesis by (simp add: accounts_inv_def)
  next
    case (Some n)
    with assms have "\<forall>v\<in>set (users w). u_id v \<noteq> uu_ID params \<longrightarrow> u_username v \<noteq> n"
      by (auto simp: q_UpdateUser_def run_stmt_Inr list_ex_iff split: sum.splits if_splits)
    with that Some f(3) show ?thesis
      unfolding f(2) by (intro distinct_name_update) (simp_all add: accounts_inv_def coalesce_def)
  qed
  with update_where_kept [OF f(1,2)] show ?thesis by (simp add: accounts_inv_def)
qed

lemma kept_data: "users a = users b \<Longrightarrow> accounts_kept w a = accounts_kept w b \<and> accounts_inv a = accounts_inv b"
  by (simp add: accounts_kept_def accounts_inv_def)

lemma publishFriendActivity_users [simp]: "users (publishFriendActivity e u ev evt w) = users w"
  by (simp add: publishFriendActivity_def)

lemma allocate_handle_accounts:
  "allocate_handle e rnd uid name n i x w = (r, w') \<Longrightarrow> accounts_kept w w' \<and> (accounts_inv w \<longrightarrow> accounts_inv w')"
proof (induction n arbitrary: i x)
  case (Suc n)
  show ?case
  proof (cases "q_UpdateUser (at e i) ((user_update uid)
      \<lparr>uu_Username := Some (name @ ''#'' @ randomDiscriminator (rnd i)), uu_DisplayName := Some name\<rparr>) w")
    case (Inl y)
    with Suc show ?thesis by (auto split: if_splits)
  next
    case (Inr p)
    with Suc.prems q_UpdateUser_accounts show ?thesis by (cases p) auto
  qed
qed simp

lemma user_ops_accounts:
  "accounts_kept w (snd (UpdateUsername e ud rn uid name w)) \<and> (accounts_inv w \<longrightarrow> accounts_inv (snd (UpdateUsername e ud rn uid name w)))"
  "accounts_kept w (snd (UpdateUser e ud params w)) \<and> (accounts_inv w \<longrightarrow> accounts_inv (snd (UpdateUser e ud params w)))"
  "accounts_kept w (snd (UploadAvatar e ud uid fn ct nb w)) \<and> (accounts_inv w \<longrightarrow> accounts_inv (snd (UploadAvatar e ud uid fn ct nb w)))"
  "accounts_kept w (snd (UpdateStatus e ud uid st w)) \<and> (accounts_inv w \<longrightarrow> accounts_inv (snd (UpdateStatus e ud uid st w)))"
proof -
  note pub = kept_data [OF publishFriendActivity_users]
  show "accounts_kept w (snd (UpdateUsername e ud rn uid name w)) \<and> (accounts_inv w \<longrightarrow> accounts_inv (snd (UpdateUsername e ud rn uid name w)))"
    by (auto simp: UpdateUsername_def Repository_UpdateUsername_def pub split: sum.splits prod.splits
        dest: allocate_handle_accounts)
  show "accounts_kept w (snd (UpdateUser e ud params w)) \<and> (accounts_inv w \<longrightarrow> accounts_inv (snd (UpdateUser e ud params w)))"
    by (auto simp: UpdateUser_def pub split: sum.splits dest: q_UpdateUser_accounts)
  show "accounts_kept w (snd (UploadAvatar e ud uid fn ct nb w)) \<and> (accounts_inv w \<longrightarrow> accounts_inv (snd (UploadAvatar e ud uid fn ct nb w)))"
    by (auto simp: UploadAvatar_def pub Let_def split: sum.splits dest: q_UpdateUser_accounts)
  show "accounts_kept w (snd (UpdateStatus e ud uid st w)) \<and> (accounts_inv w \<longrightarrow> accounts_inv (snd (UpdateStatus e ud uid st w)))"
    by (auto simp: UpdateStatus_def pub split: sum.splits dest: q_UpdateUser_accounts)
qed

lemma flag_update_accounts:
  assumes "keeps_keys f" and "\<And>u. u_username (f u) = u_username u" and "users w' = update_where p f (users w)"
  shows "accounts_kept w w' \<and> (accounts_inv w \<longrightarrow> accounts_inv w')"
  using update_where_kept [OF assms(1,3)] distinct_name_same [of f p "users w", OF assms(2)] assms(3)
  by (simp add: accounts_inv_def)

lemma DeleteUser_accounts:
  "accounts_kept w (snd (DeleteUser e uid w)) \<and> (accounts_inv w \<longrightarrow> accounts_inv (snd (DeleteUser e uid w)))"
proof (cases "q_DeleteUser e uid w")
  case (Inr w')
  then have "users w' = update_where (\<lambda>u. u_id u = uid) (\<lambda>u. u\<lparr>u_deleted := True, u_updated_at := clock e []\<rparr>) (users w)"
    by (auto simp: q_DeleteUser_def run_stmt_Inr)
  from flag_update_accounts [OF _ _ this] Inr show ?thesis
    by (simp add: DeleteUser_def keeps_keys_def)
qed (simp add: DeleteUser_def)

lemma q_VerifyUser_accounts:
  assumes "q_VerifyUser e uid w = Inr (u, w')"
  shows "accounts_kept w w' \<and> (accounts_inv w \<longrightarrow> accounts_inv w')"
proof -
  have "users w' = update_where (\<lambda>u. u_id u = uid) (\<lambda>u. u\<lparr>u_verified := True, u_updated_at := clock e []\<rparr>) (users w)"
    using assms by (auto simp: q_VerifyUser_def run_stmt_Inr update_returning_Inr split: sum.splits)
  from flag_update_accounts [OF _ _ this] show ?thesis by (simp add: keeps_keys_def)
qed

lemma key_fresh: "\<forall>u\<in>A. k u \<noteq> k y \<Longrightarrow> k y \<notin> k ` A"
  by auto

lemma Register_accounts:
  "accounts_kept (sv_db s) (sv_db (snd (Register e d rnd n m pw s))) \<and>
   (accounts_inv (sv_db s) \<longrightarrow> accounts_inv (sv_db (snd (Register e d rnd n m pw s))))"
proof (cases "ad_bcrypt_hash d pw")
  case (Inr hash)
  obtain r w where run: "create_loop (at e 0) (ar_disc rnd) n m hash auth_handle_attempts 0 NoRows (sv_db s) = (r, w)"
    by fastforce
  have "sv_db (snd (Register e d rnd n m pw s)) = w"
    using Inr run
    by (auto simp: Register_def CreateUserWithUsername_def split: sum.splits prod.splits dest: sendOTP_dbD)
  moreover have "accounts_kept (sv_db s) w \<and> (accounts_inv (sv_db s) \<longrightarrow> accounts_inv w)"
  proof (cases r)
    case (Inl x)
    with run create_loop_Inl show ?thesis by fastforce
  next
    case (Inr user)
    from run have "create_loop (at e 0) (ar_disc rnd) n m hash auth_handle_attempts 0 NoRows (sv_db s) = (Inr user, w)"
      by (simp only: Inr)
    note new = create_loop_Inr [OF this]
    then have "users w = users (sv_db s) @ [user]" by simp
    moreover have "accounts_kept (sv_db s) w"
      unfolding accounts_kept_def calculation by (auto intro: bexI)
    moreover have "u_id user \<notin> u_id ` set (users (sv_db s)) \<and> u_username user \<notin> u_username ` set (users (sv_db s)) \<and>
        u_email user \<notin> u_email ` set (users (sv_db s))"
      by (intro conjI key_fresh ballI; drule bspec [OF new [THEN conjunct2, THEN conjunct2]]; elim conjE; assumption)
    ultimately show ?thesis by (simp add: accounts_inv_def)
  qed
  ultimately show ?thesis by simp
qed (simp add: Register_def)

lemma VerifyOTP_accounts:
  "accounts_kept (sv_db s) (sv_db (snd (VerifyOTP e d rnd m otp s))) \<and>
   (accounts_inv (sv_db s) \<longrightarrow> accounts_inv (sv_db (snd (VerifyOTP e d rnd m otp s))))"
proof -
  have "sv_db (snd (VerifyOTP e d rnd m otp s)) = sv_db s \<or>
      (\<exists>e' uid u. q_VerifyUser e' uid (sv_db s) = Inr (u, sv_db (snd (VerifyOTP e d rnd m otp s))))"
    by (fastforce simp: VerifyOTP_def Let_def split: sum.splits prod.splits dest: generateTokens_dbD)
  then show ?thesis using q_VerifyUser_accounts by (metis accounts_kept_refl)
qed

lemma account_step_accounts:
  assumes "account_step s s'"
  shows "accounts_kept (sv_db s) (sv_db s') \<and> (accounts_inv (sv_db s) \<longrightarrow> accounts_inv (sv_db s'))"
  using assms
proof cases
  case (1 e d rnd username email password)
  then show ?thesis using Register_accounts by simp
next
  case (2 e d rnd email otp)
  then show ?thesis using VerifyOTP_accounts by simp
next
  case (3 e d rnd email)
  then show ?thesis by (simp add: ResendOTP_def split: sum.splits)
next
  case (4 e d rnd email password)
  then have "sv_db s' = sv_db s"
    by (auto simp: Login_def split: sum.splits prod.splits dest: generateTokens_dbD)
  then show ?thesis by simp
next
  case (5 e d rnd tok)
  then show ?thesis by (simp add: RefreshToken_def split: sum.splits)
next
  case (6 e tok)
  then show ?thesis by (simp add: Logout_def split: sum.splits)
next
  case (11 e uid)
  then show ?thesis using DeleteUser_accounts by (simp add: on_db_def)
qed (simp_all add: on_db_def user_ops_accounts)

text \<open>
  C13: accounts over any history of auth and user operations: identifiers, usernames and e-mail
  addresses stay unique, and no account is lost: each keeps its row with its identifier, address
  and password hash, verified once it is verified and deleted once it is deleted.
\<close>

theorem accounts_invariant:
  assumes "account_step\<^sup>*\<^sup>* s s'" and "accounts_inv (sv_db s)"
  shows "accounts_inv (sv_db s') \<and> accounts_kept (sv_db s) (sv_db s')"
  using assms(1)
proof (induction rule: rtranclp_induct)
  case base
  then show ?case using assms(2) by simp
next
  case (step y z)
  with account_step_accounts [of y z] accounts_kept_trans show ?case by blast
qed

text \<open>A wiring for the witnesses: the hash is the password itself and mail is always sent.\<close>

definition plain_deps :: auth_deps where
  "plain_deps = \<lparr>ad_bcrypt_hash = (\<lambda>p. Inr p), ad_bcrypt_match = (\<lambda>h p. h = p), ad_jwt = plain_jwt,
     ad_Secret = ''k'', ad_AccessTokenTTL = 60 * Minute, ad_RefreshTokenTTL = 100 * Minute,
     ad_mailer = Some (\<lambda>_ _. None), ad_dberr_text = (\<lambda>_. ''db''), ad_presence = None\<rparr>"

definition draws :: "string \<Rightarrow> auth_rand" where
  "draws bs = \<lparr>ar_otp = 123456, ar_refresh = Some bs, ar_disc = (\<lambda>i. i)\<rparr>"

text \<open>A request whose UUID text is that of the codec.\<close>

definition text_at :: "time \<Rightarrow> env" where
  "text_at t = (request_at t)\<lparr>uuid_string := uuid_text, uuid_scan := uuid_read\<rparr>"

lemma uuid_read_Nil: "uuid_read [] = None"
  by (simp add: uuid_read_def)

lemma text_at_simps [simp]:
  "uuid_string (text_at t) = uuid_text" "uuid_scan (text_at t) = uuid_read" "fault (text_at t) p = False"
  "fresh (text_at t) p = 0" "clock (text_at t) p = t" "fault_free (text_at t)" "codec_ok (text_at t)"
  by (simp_all add: text_at_def request_at_def fault_free_def codec_ok_def uuid_read_text uuid_read_Nil)

theorem accounts_invariant_witness:
  "accounts_inv (sv_db (snd (Register (text_at 1) plain_deps (draws ''r'') ''ann'' ''a@x'' ''pw'' empty_server))) \<and>
   accounts_kept (sv_db empty_server)
     (sv_db (snd (Register (text_at 1) plain_deps (draws ''r'') ''ann'' ''a@x'' ''pw'' empty_server)))"
  by (rule accounts_invariant)
    (auto intro: account_step.intros simp: accounts_inv_def empty_server_def empty_world_def)

theorem Register_taken_email_witness:
  "Register (text_at 2) plain_deps (draws ''r'') ''bob'' ''a@x'' ''pw'' (empty_server\<lparr>sv_db := empty_world\<lparr>users :=
       [new_user 7 ''ann#0001'' ''ann'' ''a@x'' ''pw'' 0]\<rparr>\<rparr>) =
     (Inl (HandleFailed auth_handle_attempts UniqueViolation), empty_server\<lparr>sv_db := empty_world\<lparr>users :=
       [new_user 7 ''ann#0001'' ''ann'' ''a@x'' ''pw'' 0]\<rparr>\<rparr>)"
proof -
  let ?s = "empty_server\<lparr>sv_db := empty_world\<lparr>users := [new_user 7 ''ann#0001'' ''ann'' ''a@x'' ''pw'' 0]\<rparr>\<rparr>"
  have "list_ex (\<lambda>u. u_email u = ''a@x'') (users (sv_db ?s))" by (simp add: new_user_def)
  moreover have "ad_bcrypt_hash plain_deps ''pw'' = Inr ''pw''" by (simp add: plain_deps_def)
  ultimately show ?thesis
    using Register_taken_email [of "text_at 2" "''a@x''" ?s plain_deps "''pw''" "''pw''" "draws ''r''" "''bob''"] by simp
qed

section \<open>From registration to login\<close>

text \<open>The collaborators work: the mail is sent, tokens are signed and random bytes are drawn.\<close>

definition collaborators_ok :: "auth_deps \<Rightarrow> auth_rand \<Rightarrow> bool" where
  "collaborators_ok d rnd \<longleftrightarrow>
     (case ad_mailer d of None \<Rightarrow> True | Some SendOTP \<Rightarrow> (\<forall>email otp. SendOTP email otp = None)) \<and>
     (\<forall>u iat exp. SignedString (ad_jwt d) SigningMethodHMAC (user_claims u iat exp) (ad_Secret d) \<noteq> None) \<and>
     ar_refresh rnd \<noteq> None"

lemma generateTokens_ok:
  assumes "collaborators_ok d rnd" and "\<not> fault e [1]"
  shows "\<exists>pair s'. generateTokens e d rnd u s = (Inr pair, s')"
  using assms
  by (auto simp: generateTokens_def collaborators_ok_def StoreRefreshToken_def r_Set_def Let_def split: option.splits)

lemma sendOTP_ok:
  assumes "collaborators_ok d rnd" and "\<not> fault e []"
  shows "sendOTP e d rnd email s = (Inr (), s\<lparr>sv_kv := (sv_kv s)(otp_key email \<mapsto>
           (RStr (generateOTP (ar_otp rnd)), Some (clock e [] + 5 * Minute)))\<rparr>)"
  using assms
  by (auto simp: sendOTP_def collaborators_ok_def StoreOTP_def r_Set_def expiry_def Minute_def Let_def split: option.splits)

lemma Register_ok:
  assumes "fault_free e" and "collaborators_ok d rnd" and "ad_bcrypt_hash d password = Inr hash"
    and "\<forall>u\<in>set (users (sv_db s)). u_id u \<noteq> fresh e [0, 0] \<and> u_email u \<noteq> email \<and>
           u_username u \<noteq> username @ ''#'' @ randomDiscriminator (ar_disc rnd 0)"
  shows "Register e d rnd username email password s =
    (Inr (uuid_string e (fresh e [0, 0])),
     \<lparr>sv_db = (sv_db s)\<lparr>users := users (sv_db s) @ [new_user (fresh e [0, 0])
          (username @ ''#'' @ randomDiscriminator (ar_disc rnd 0)) username email hash (clock e [0, 0])]\<rparr>,
      sv_kv = (sv_kv s)(otp_key email \<mapsto> (RStr (generateOTP (ar_otp rnd)), Some (clock e [1] + 5 * Minute)))\<rparr>)"
proof -
  have clash: "\<not> list_ex (\<lambda>u. u_id u = fresh e [0, 0] \<or>
      u_username u = username @ ''#'' @ randomDiscriminator (ar_disc rnd 0) \<or> u_email u = email) (users (sv_db s))"
    using assms(4) by (simp add: list_ex_iff)
  have make: "CreateUserWithUsername (at e 0) (ar_disc rnd) username email hash (sv_db s) =
      (Inr (new_user (fresh e [0, 0]) (username @ ''#'' @ randomDiscriminator (ar_disc rnd 0)) username email hash (clock e [0, 0])),
       (sv_db s)\<lparr>users := users (sv_db s) @ [new_user (fresh e [0, 0])
          (username @ ''#'' @ randomDiscriminator (ar_disc rnd 0)) username email hash (clock e [0, 0])]\<rparr>)"
    unfolding CreateUserWithUsername_def auth_handle_attempts_def
    using assms(1) clash by (simp add: eval_nat_numeral q_CreateUser_def Let_def)
  show ?thesis
    by (simp add: Register_def assms(1,3) make sendOTP_ok [OF assms(2)] new_user_def)
qed

text \<open>A user found by address, and what verification does to the table.\<close>

lemma find_last_email:
  assumes "\<forall>u\<in>set us. u_email u \<noteq> email" and "u_email v = email" and "\<not> u_deleted v"
  shows "find (\<lambda>u. u_email u = email \<and> \<not> u_deleted u) (us @ [v]) = Some v"
proof -
  have "find (\<lambda>u. u_email u = email \<and> \<not> u_deleted u) us = None"
    using assms(1) by (simp add: find_None_set)
  then show ?thesis using assms(2,3) by (simp add: find_append_last)
qed

lemma verify_last:
  assumes "\<forall>u\<in>set us. u_id u \<noteq> u_id v" and "\<not> fault e []"
  shows "q_VerifyUser e (u_id v) (w\<lparr>users := us @ [v]\<rparr>) =
    Inr (v\<lparr>u_verified := True, u_updated_at := clock e []\<rparr>,
         w\<lparr>users := us @ [v\<lparr>u_verified := True, u_updated_at := clock e []\<rparr>]\<rparr>)"
proof -
  have "find (\<lambda>u. u_id u = u_id v) us = None" using assms(1) by (simp add: find_None_set)
  moreover have "update_where (\<lambda>u. u_id u = u_id v) f us = us" for f
    using assms(1) by (auto simp: update_where_def intro!: map_idI)
  moreover have "update_where (\<lambda>u. u_id u = u_id v) f (us @ [v]) = update_where (\<lambda>u. u_id u = u_id v) f us @ [f v]" for f
    by (simp add: update_where_def)
  ultimately show ?thesis
    using assms(2) by (simp add: q_VerifyUser_def update_returning_def find_append_last)
qed

lemma VerifyOTP_new:
  assumes "fault_free e" and "codec_ok e" and "collaborators_ok d rnd"
    and "\<forall>u\<in>set us. u_id u \<noteq> u_id v \<and> u_email u \<noteq> email" and "u_email v = email" and "\<not> u_deleted v"
    and "sv_db s = w\<lparr>users := us @ [v]\<rparr>" and "sv_kv s (otp_key email) = Some (RStr code, Some t)" and "clock e [0] < t"
  shows "\<exists>pair s'. VerifyOTP e d rnd email code s = (Inr (uuid_string e (u_id v), pair), s') \<and>
      sv_db s' = w\<lparr>users := us @ [v\<lparr>u_verified := True, u_updated_at := clock e [2]\<rparr>]\<rparr> \<and>
      sv_kv s' (otp_key email) = None"
proof -
  have get: "GetOTP (at e 0) email (sv_kv s) = Inr code"
    using assms(1,8,9) by (simp add: GetOTP_def r_Get_def live_value_def)
  have user: "q_GetUserByEmail (at e 1) email (sv_db s) = Inr v"
    using assms(1,4-7) find_last_email [of us email v] by (simp add: q_GetUserByEmail_def)
  define s1 where "s1 = s\<lparr>sv_db := w\<lparr>users := us @ [v\<lparr>u_verified := True, u_updated_at := clock e [2]\<rparr>]\<rparr>,
      sv_kv := (sv_kv s)(otp_key email := None)\<rparr>"
  obtain pair s' where gen: "generateTokens (at e 4) d rnd (uuid_string e (u_id v)) s1 = (Inr pair, s')"
    using generateTokens_ok [OF assms(3)] assms(1) by fastforce
  have ver: "q_VerifyUser (at e 2) (u_id v) (sv_db s) =
      Inr (v\<lparr>u_verified := True, u_updated_at := clock e [2]\<rparr>,
           w\<lparr>users := us @ [v\<lparr>u_verified := True, u_updated_at := clock e [2]\<rparr>]\<rparr>)"
    using verify_last [of us v "at e 2" w] assms(1,4,7) by simp
  have "VerifyOTP e d rnd email code s = (Inr (uuid_string e (u_id v), pair), s')"
    using gen assms(1,2) by (simp add: VerifyOTP_def get user [simplified] ver DeleteOTP_def r_Del_def s1_def Let_def)
  moreover have "sv_db s' = sv_db s1" "sv_kv s' (otp_key email) = None"
    using generateTokens_Inr(2,3) [OF gen] by (simp_all add: s1_def)
  ultimately show ?thesis by (simp add: s1_def)
qed

lemma Login_new:
  assumes "fault_free e" and "collaborators_ok d rnd" and "\<forall>u\<in>set us. u_email u \<noteq> email"
    and "u_email v = email" and "\<not> u_deleted v" and "ad_bcrypt_match d (u_password_hash v) password"
    and "sv_db s = w\<lparr>users := us @ [v]\<rparr>"
  shows "if u_verified v then \<exists>pair s'. Login e d rnd email password s = (Inr (uuid_string e (u_id v), pair), s')
         else Login e d rnd email password s = (Inl ErrNotVerified, s)"
proof -
  have user: "q_GetUserByEmail (at e 0) email (sv_db s) = Inr v"
    using assms(1,3-5,7) find_last_email [of us email v] by (simp add: q_GetUserByEmail_def)
  obtain pair s' where "generateTokens (at e 1) d rnd (uuid_string e (u_id v)) s = (Inr pair, s')"
    using generateTokens_ok [OF assms(2)] assms(1) by fastforce
  with assms(6) user show ?thesis by (simp add: Login_def)
qed

text \<open>
  C12: a registration leads to a login: with an address, a handle and an identifier that no row has and
  collaborators that work, Register returns the new identifier; until the address is verified a
  login with the right password is refused as unverified; the code that was mailed, presented
  within five minutes, verifies the account and returns tokens for it; the code does not work a
  second time; and from then on a login with the password succeeds for that identifier.
\<close>

theorem registration_leads_to_login:
  assumes "fault_free e1" "fault_free e2" "fault_free e3" and "codec_ok e1"
    and "uuid_string e2 = uuid_string e1" "uuid_scan e2 = uuid_scan e1" "uuid_string e3 = uuid_string e1"
    and "collaborators_ok d rnd" and "collaborators_ok d rnd'"
    and "ad_bcrypt_hash d password = Inr hash" and "ad_bcrypt_match d hash password"
    and "\<forall>u\<in>set (users (sv_db s)). u_id u \<noteq> fresh e1 [0, 0] \<and> u_email u \<noteq> email \<and>
           u_username u \<noteq> username @ ''#'' @ randomDiscriminator (ar_disc rnd 0)"
    and "clock e2 [0] < clock e1 [1] + 5 * Minute"
  shows "\<exists>uid s1 pair s2 pair' s3.
           Register e1 d rnd username email password s = (Inr uid, s1) \<and>
           Login e2 d rnd' email password s1 = (Inl ErrNotVerified, s1) \<and>
           VerifyOTP e2 d rnd' email (generateOTP (ar_otp rnd)) s1 = (Inr (uid, pair), s2) \<and>
           VerifyOTP e3 d rnd' email (generateOTP (ar_otp rnd)) s2 = (Inl ErrInvalidOTP, s2) \<and>
           Login e3 d rnd' email password s2 = (Inr (uid, pair'), s3)"
proof -
  let ?us = "users (sv_db s)"
  define v where "v = new_user (fresh e1 [0, 0]) (username @ ''#'' @ randomDiscriminator (ar_disc rnd 0))
      username email hash (clock e1 [0, 0])"
  define s1 where "s1 = \<lparr>sv_db = (sv_db s)\<lparr>users := ?us @ [v]\<rparr>, sv_kv = (sv_kv s)(otp_key email \<mapsto>
      (RStr (generateOTP (ar_otp rnd)), Some (clock e1 [1] + 5 * Minute)))\<rparr>"
  have v: "u_id v = fresh e1 [0, 0]" "u_email v = email" "\<not> u_deleted v" "u_password_hash v = hash" "\<not> u_verified v"
    by (simp_all add: v_def new_user_def)
  have reg: "Register e1 d rnd username email password s = (Inr (uuid_string e1 (u_id v)), s1)"
    unfolding v(1) unfolding s1_def v_def by (rule Register_ok [OF assms(1,8,10,12)])
  have fresh: "\<forall>u\<in>set ?us. u_id u \<noteq> u_id v \<and> u_email u \<noteq> email" "\<forall>u\<in>set ?us. u_email u \<noteq> email"
    using assms(12) by (simp_all add: v(1))
  have codec2: "codec_ok e2" using assms(4) unfolding codec_ok_def assms(5,6) .
  obtain pair s2 where ver: "VerifyOTP e2 d rnd' email (generateOTP (ar_otp rnd)) s1 = (Inr (uuid_string e1 (u_id v), pair), s2)"
    and s2: "sv_db s2 = (sv_db s)\<lparr>users := ?us @ [v\<lparr>u_verified := True, u_updated_at := clock e2 [2]\<rparr>]\<rparr>"
      "sv_kv s2 (otp_key email) = None"
    using VerifyOTP_new [OF assms(2) codec2 assms(9) fresh(1) v(2,3), of s1 "sv_db s" "generateOTP (ar_otp rnd)"
        "clock e1 [1] + 5 * Minute"] assms(5,13)
    by (auto simp: s1_def)
  have "Login e2 d rnd' email password s1 = (Inl ErrNotVerified, s1)"
    using Login_new [OF assms(2,9) fresh(2) v(2,3), of password s1 "sv_db s"] assms(11) v(4,5) by (simp add: s1_def)
  moreover have "VerifyOTP e3 d rnd' email (generateOTP (ar_otp rnd)) s2 = (Inl ErrInvalidOTP, s2)"
    using assms(3) s2(2) by (simp add: VerifyOTP_def GetOTP_def r_Get_def live_value_def)
  moreover obtain pair' s3 where "Login e3 d rnd' email password s2 = (Inr (uuid_string e1 (u_id v), pair'), s3)"
    using Login_new [OF assms(3,9) fresh(2), of "v\<lparr>u_verified := True, u_updated_at := clock e2 [2]\<rparr>" password s2 "sv_db s"]
      assms(7,11) v(2-4) s2(1) by auto
  ultimately show ?thesis using reg ver by blast
qed

lemma plain_collaborators [simp]: "collaborators_ok plain_deps (draws bs)"
  by (simp add: collaborators_ok_def plain_deps_def draws_def plain_jwt_def plain_sign_def user_claims_def)

theorem registration_leads_to_login_witness:
  "\<exists>uid s1 pair s2 pair' s3.
     Register (text_at 0) plain_deps (draws ''r'') ''ann'' ''a@x'' ''pw'' empty_server = (Inr uid, s1) \<and>
     Login (text_at 60) plain_deps (draws ''q'') ''a@x'' ''pw'' s1 = (Inl ErrNotVerified, s1) \<and>
     VerifyOTP (text_at 60) plain_deps (draws ''q'') ''a@x'' (generateOTP 123456) s1 = (Inr (uid, pair), s2) \<and>
     VerifyOTP (text_at 70) plain_deps (draws ''q'') ''a@x'' (generateOTP 123456) s2 = (Inl ErrInvalidOTP, s2) \<and>
     Login (text_at 70) plain_deps (draws ''q'') ''a@x'' ''pw'' s2 = (Inr (uid, pair'), s3)"
  using registration_leads_to_login [of "text_at 0" "text_at 60" "text_at 70" plain_deps "draws ''r''" "draws ''q''"
      "''pw''" "''pw''" empty_server "''a@x''" "''ann''"]
  by (simp add: empty_server_def empty_world_def Minute_def) (simp add: plain_deps_def draws_def)

text \<open>A session of user u1 with one refresh token.\<close>

definition u1_session :: server where
  "u1_session = empty_server\<lparr>sv_kv := empty_redis(refresh_key ''t'' \<mapsto> (RStr ''u1'', None))\<rparr>"

lemma u1_refresh: "\<exists>pair s'. RefreshToken (text_at 5) plain_deps (draws ''q'') ''t'' u1_session = (Inr pair, s') \<and>
    tp_RefreshToken pair = EncodeToString ''q''"
proof -
  obtain pair s' where gen: "generateTokens (at (text_at 5) 2) plain_deps (draws ''q'') ''u1''
      (u1_session\<lparr>sv_kv := (sv_kv u1_session)(refresh_key ''t'' := None)\<rparr>) = (Inr pair, s')"
    using generateTokens_ok [of plain_deps "draws ''q''" "at (text_at 5) 2"] by fastforce
  then have "RefreshToken (text_at 5) plain_deps (draws ''q'') ''t'' u1_session = (Inr pair, s')"
    by (simp add: RefreshToken_def GetRefreshToken_def r_Get_def DeleteRefreshToken_def r_Del_def u1_session_def live_value_def)
  moreover from generateTokens_Inr(4) [OF gen] have "tp_RefreshToken pair = EncodeToString ''q''"
    by (simp add: draws_def)
  ultimately show ?thesis by blast
qed

theorem RefreshToken_rotates_witness:
  "\<exists>pair s' u. RefreshToken (text_at 5) plain_deps (draws ''q'') ''t'' u1_session = (Inr pair, s') \<and>
     GetRefreshToken (at (text_at 5) 0) ''t'' (sv_kv u1_session) = Inr u \<and>
     RefreshToken (text_at 9) plain_deps (draws ''z'') ''t'' s' = (Inl ErrInvalidToken, s')"
proof -
  obtain pair s' where run: "RefreshToken (text_at 5) plain_deps (draws ''q'') ''t'' u1_session = (Inr pair, s')"
    and tok: "tp_RefreshToken pair = EncodeToString ''q''" using u1_refresh by blast
  have "length (EncodeToString ''q'') \<noteq> length ''t''" by (simp add: EncodeToString_def)
  then have "tp_RefreshToken pair \<noteq> ''t''" unfolding tok by metis
  from RefreshToken_rotates [OF run this, of "text_at 9" "draws ''z''"] run show ?thesis
    by (auto simp: plain_deps_def Minute_def)
qed

theorem access_token_roundtrip_witness:
  "\<exists>pair s'. generateTokens (text_at 5) plain_deps (draws ''q'') ''u1'' empty_server = (Inr pair, s') \<and>
     ValidateToken plain_deps 6 (tp_AccessToken pair) = (''u1'', True)"
proof -
  obtain pair s' where gen: "generateTokens (text_at 5) plain_deps (draws ''q'') ''u1'' empty_server = (Inr pair, s')"
    using generateTokens_ok [of plain_deps "draws ''q''" "text_at 5"] by fastforce
  have "jwt_ok (ad_jwt plain_deps)" by (simp add: plain_deps_def plain_jwt_ok)
  from access_token_roundtrip [OF this gen refl, of "call_ctx (tp_AccessToken pair)"
      "[(''authorization'', [''Bearer '' @ tp_AccessToken pair])]" 6] gen
  show ?thesis by (simp add: call_ctx_def plain_deps_def Minute_def)
qed

end
