(* ===== verification/Api.thy ===== *)
theory Api
  imports Middleware
begin

text \<open>
  What the gRPC handlers of the features share: the caller of the context, the identifiers of the
  request, and the status an error of the service becomes. A handler runs on the state of its
  service; on_sv_db runs a handler of the relational store on the server.

  uuid.Parse of google/uuid is a parameter of the handlers: the identifier a text denotes, if any.
\<close>

type_synonym uuid_parser = "string \<Rightarrow> uuid option"

definition map_error :: "('x \<Rightarrow> status) \<Rightarrow> ('x + 'r) \<times> 's \<Rightarrow> (status + 'r) \<times> 's" where
  "map_error f rs = (case fst rs of Inl x \<Rightarrow> Inl (f x) | Inr r \<Rightarrow> Inr r, snd rs)"

text \<open>The answer a handler builds of the result of its service and the state after it.\<close>

definition respond :: "('a \<Rightarrow> 's \<Rightarrow> 'r) \<Rightarrow> (status + 'a) \<times> 's \<Rightarrow> (status + 'r) \<times> 's" where
  "respond f rs = (case fst rs of Inl x \<Rightarrow> Inl x | Inr a \<Rightarrow> Inr (f a (snd rs)), snd rs)"

definition with_caller_text :: "(string \<Rightarrow> ('s, 'r) UnaryHandler) \<Rightarrow> ('s, 'r) UnaryHandler" where
  "with_caller_text h ctx s =
     (if UserIDFromContext ctx = [] then (Inl (Status Unauthenticated ''not authenticated''), s)
      else h (UserIDFromContext ctx) ctx s)"

definition with_caller :: "uuid_parser \<Rightarrow> (uuid \<Rightarrow> ('s, 'r) UnaryHandler) \<Rightarrow> ('s, 'r) UnaryHandler" where
  "with_caller P h = with_caller_text (\<lambda>callerID ctx s.
     (case P callerID of
        None \<Rightarrow> (Inl (Status Internal ''invalid caller id''), s)
      | Some c \<Rightarrow> h c ctx s))"

definition with_id :: "uuid_parser \<Rightarrow> string \<Rightarrow> string \<Rightarrow> (uuid \<Rightarrow> ('s, 'r) UnaryHandler) \<Rightarrow> ('s, 'r) UnaryHandler" where
  "with_id P name txt h ctx s =
     (case P txt of
        None \<Rightarrow> (Inl (Status InvalidArgument (''invalid '' @ name)), s)
      | Some x \<Rightarrow> h x ctx s)"

text \<open>The answer of a method as one of the answers of its service.\<close>

definition answer :: "('r \<Rightarrow> 't) \<Rightarrow> ('s, 'r) UnaryHandler \<Rightarrow> ('s, 't) UnaryHandler" where
  "answer f h ctx s = respond (\<lambda>r _. f r) (h ctx s)"

definition on_sv_db :: "(world, 'r) UnaryHandler \<Rightarrow> (server, 'r) UnaryHandler" where
  "on_sv_db h ctx s = (case h ctx (sv_db s) of (r, w) \<Rightarrow> (r, s\<lparr>sv_db := w\<rparr>))"

section \<open>What the parts do to the state\<close>

lemma map_error_snd [simp]: "snd (map_error f rs) = snd rs"
  by (simp add: map_error_def)

lemma respond_snd [simp]: "snd (respond f rs) = snd rs"
  by (simp add: respond_def)

lemma answer_snd [simp]: "snd (answer f h ctx s) = snd (h ctx s)"
  by (simp add: answer_def)

lemma map_error_refused [simp]: "map_error f (Inl x, s) = (Inl (f x), s)"
  and respond_refused [simp]: "respond g (Inl st, s) = (Inl st, s)"
  by (simp_all add: map_error_def respond_def)

lemma fst_map_error:
  "fst (map_error f rs) = Inl st \<longleftrightarrow> (\<exists>x. fst rs = Inl x \<and> st = f x)"
  "fst (map_error f rs) = Inr r \<longleftrightarrow> fst rs = Inr r"
  by (auto simp: map_error_def split: sum.splits)

lemma fst_respond:
  "fst (respond g rs) = Inl st \<longleftrightarrow> fst rs = Inl st"
  "fst (respond g rs) = Inr r \<longleftrightarrow> (\<exists>a. fst rs = Inr a \<and> r = g a (snd rs))"
  by (auto simp: respond_def split: sum.splits)

lemma sv_db_on_sv_db [simp]: "sv_db (snd (on_sv_db h ctx s)) = snd (h ctx (sv_db s))"
  and fst_on_sv_db [simp]: "fst (on_sv_db h ctx s) = fst (h ctx (sv_db s))"
  by (simp_all add: on_sv_db_def split: prod.splits)

lemma with_caller_known:
  assumes "UserIDKey ctx = Some u" and "u \<noteq> []" and "P u = Some c"
  shows "with_caller P h ctx s = h c ctx s"
  using assms by (simp add: with_caller_def with_caller_text_def UserIDFromContext_def)

lemma with_id_known [simp]: "P txt = Some x \<Longrightarrow> with_id P name txt h ctx s = h x ctx s"
  by (simp add: with_id_def)

lemma with_caller_anonymous:
  "UserIDFromContext ctx = [] \<Longrightarrow> with_caller P h ctx s = (Inl (Status Unauthenticated ''not authenticated''), s)"
  by (simp add: with_caller_def with_caller_text_def)

text \<open>The state a guarded handler leaves.\<close>

lemma snd_with_caller:
  "snd (with_caller P h ctx s) =
     (if UserIDFromContext ctx = [] then s
      else case P (UserIDFromContext ctx) of None \<Rightarrow> s | Some c \<Rightarrow> snd (h c ctx s))"
  by (simp add: with_caller_def with_caller_text_def split: option.splits)

lemma snd_with_caller_text:
  "snd (with_caller_text h ctx s) =
     (if UserIDFromContext ctx = [] then s else snd (h (UserIDFromContext ctx) ctx s))"
  by (simp add: with_caller_text_def)

lemma snd_with_id: "snd (with_id P name txt h ctx s) = (case P txt of None \<Rightarrow> s | Some x \<Rightarrow> snd (h x ctx s))"
  by (simp add: with_id_def split: option.splits)

lemmas snd_guards = snd_with_caller snd_with_caller_text snd_with_id

text \<open>The text denotes an identifier of which Q holds.\<close>

definition on_id :: "uuid_parser \<Rightarrow> string \<Rightarrow> (uuid \<Rightarrow> bool) \<Rightarrow> bool" where
  "on_id P txt Q = (case P txt of None \<Rightarrow> False | Some x \<Rightarrow> Q x)"

lemma on_id_Some [simp]: "P txt = Some x \<Longrightarrow> on_id P txt Q = Q x"
  by (simp add: on_id_def)

section \<open>A service behind the interceptors\<close>

text \<open>
  The interface of a service whose handlers run on the relational store: the name of the method of
  a request, the handler, and what must hold of the user, the request and the states before and
  after whenever a handler changes anything. Methods that need no token change nothing.
\<close>

locale guarded_api =
  fixes rpc_name :: "'q \<Rightarrow> string"
    and handler :: "'q \<Rightarrow> (world, 'r) UnaryHandler"
    and allowed :: "string \<Rightarrow> 'q \<Rightarrow> world \<Rightarrow> world \<Rightarrow> bool"
  assumes not_exempt: "\<not> exempt (rpc_name q)"
    and public_reads: "rpc_name q \<in> set publicMethods \<Longrightarrow> snd (handler q ctx w) = w"
    and changed_allowed: "snd (handler q ctx w) \<noteq> w \<Longrightarrow> allowed (UserIDFromContext ctx) q w (snd (handler q ctx w))"
begin

lemma served_allowed:
  fixes J e secret violation q ctx s
  defines "s' \<equiv> snd (unary_chain J e secret violation (rpc_name q) (on_sv_db (handler q)) ctx s)"
  assumes "sv_db s' \<noteq> sv_db s"
  shows "\<exists>u. extractUserID J (clock e [1]) secret ctx = Inr u \<and> allowed u q (sv_db s) (sv_db s')"
proof (cases "rpc_name q \<in> set publicMethods")
  case True
  then show ?thesis
    by (cases rule: unary_chain_public [where J = J and e = e and secret = secret and ctx = ctx and s = s
          and violation = violation and handler = "on_sv_db (handler q)"])
      (use True assms public_reads in auto)
next
  case False
  show ?thesis
  proof (cases rule: unary_chain_runs [OF False not_exempt, where J = J and e = e and secret = secret and ctx = ctx
        and s = s and violation = violation and handler = "on_sv_db (handler q)"])
    case (1 u s1)
    then have eq: "sv_db s' = snd (handler q (ctx\<lparr>UserIDKey := Some u\<rparr>) (sv_db s))"
      by (simp add: assms(1))
    with assms(2) have "allowed (UserIDFromContext (ctx\<lparr>UserIDKey := Some u\<rparr>)) q (sv_db s) (sv_db s')"
      using changed_allowed [of q "ctx\<lparr>UserIDKey := Some u\<rparr>" "sv_db s"] by simp
    with 1(1) show ?thesis by (simp add: UserIDFromContext_def)
  qed (use assms in simp)
qed

end

section \<open>A call for the witnesses\<close>

text \<open>A server with one user and no counter, and the call of the user of a token to it.\<close>

definition token_for :: "string \<Rightarrow> string" where
  "token_for u = the (SignedString plain_jwt SigningMethodHMAC (user_claims u 0 100) ''k'')"

lemma token_for_accepted: "extractUserID plain_jwt 5 ''k'' (call_ctx (token_for u)) = Inr u"
proof -
  have "SignedString plain_jwt SigningMethodHMAC (user_claims u 0 100) ''k'' = Some (token_for u)"
    by (simp add: token_for_def plain_jwt_def plain_sign_def user_claims_def)
  from jwt_ok_accepts [OF plain_jwt_ok this, of 5] show ?thesis
    by (auto simp: extractUserID_iff call_ctx_def TrimPrefix_append [of "''Bearer ''", simplified])
qed

definition lone_server :: server where
  "lone_server = \<lparr>sv_db = lone_world, sv_kv = empty_redis\<rparr>"

lemma lone_server_db [simp]: "sv_db lone_server = lone_world"
  by (simp add: lone_server_def)

lemma resolved_limit: "1 \<le> limit (snd (resolveRateLimit ctx rpc))"
proof -
  have "rl \<in> {\<lparr>limit = 100, window = Minute\<rparr>}" if "authRateLimits rpc = Some rl" for rl
    using map_of_SomeD [OF that [unfolded authRateLimits_def]] by auto
  then show ?thesis
    by (auto simp: resolveRateLimit_def Let_def defaultLimit_def messageSendLimit_def friendRequestLimit_def
        split: option.split)
qed

lemma first_call:
  assumes "rpc \<notin> set publicMethods" and "\<not> exempt rpc" and "sv_kv s = empty_redis"
  shows "\<exists>r. unary_chain plain_jwt (text_env ids (\<lambda>_. 5)) ''k'' None rpc h (call_ctx (token_for u)) s =
    h ((call_ctx (token_for u))\<lparr>UserIDKey := Some u\<rparr>) (s\<lparr>sv_kv := r\<rparr>)"
proof -
  obtain identity rl where rl: "resolveRateLimit (call_ctx (token_for u)) rpc = (identity, rl)" by fastforce
  then have "1 \<le> limit rl" using resolved_limit [of "call_ctx (token_for u)" rpc] by simp
  then have "\<exists>r. checkRateLimit (at (text_env ids (\<lambda>_. 5)) 0) key rl empty_redis = (Inr True, r)" for key
    by (simp add: checkRateLimit_def r_Incr_def r_Expire_def live_value_def empty_redis_def run_stmt_def text_env_def)
  then obtain r where "checkRateLimit (at (text_env ids (\<lambda>_. 5)) 0) (rate_key identity rpc) rl empty_redis = (Inr True, r)"
    by blast
  with assms rl show ?thesis
    by (auto simp: unary_chain_def LoggingInterceptor_def RateLimitInterceptor_def AuthInterceptor_def
        ValidationInterceptor_def token_for_accepted)
qed

lemma lone_call:
  assumes "rpc \<notin> set publicMethods" and "\<not> exempt rpc"
  shows "sv_db (snd (unary_chain plain_jwt (text_env ids (\<lambda>_. 5)) ''k'' None rpc (on_sv_db h) (call_ctx (token_for u)) lone_server)) =
    snd (h ((call_ctx (token_for u))\<lparr>UserIDKey := Some u\<rparr>) lone_world)"
  using first_call [OF assms, of lone_server ids "on_sv_db h" u] by (auto simp: lone_server_def)

end
