(* ===== verification/Voice.thy ===== *)
theory Voice
  imports AuthService Api
begin

text \<open>
  Voice channels and direct-message calls, internal/features/voice (state.go, service.go,
  webhook.go, handler.go). The participants of a channel are a Redis hash from the user to the JSON
  text of a ParticipantState; the instant the room became active is a Redis counter.

  The LiveKit server is a parameter: what it answers to a call, and the commands it was sent are
  kept in a log. The JSON codec of a ParticipantState, the reader of room metadata and the order in
  which Go walks a map are parameters too. The instants that events carry are not kept.
\<close>

section \<open>State and collaborators\<close>

record ParticipantState =
  ps_UserID :: string
  ps_Username :: string
  ps_DisplayName :: string
  ps_AvatarURL :: string
  ps_GuildID :: string
  ps_ChannelID :: string
  ps_SelfMute :: bool
  ps_SelfDeaf :: bool
  ps_Video :: bool
  ps_ScreenShare :: bool

record roomMeta =
  rm_GuildID :: string
  rm_ChannelID :: string

datatype TrackSource = UNKNOWN | CAMERA | MICROPHONE | SCREEN_SHARE | SCREEN_SHARE_AUDIO

record TrackInfo =
  ti_Source :: TrackSource
  ti_Muted :: bool

record ParticipantInfo =
  pi_Identity :: string
  pi_Name :: string
  pi_Sid :: string
  pi_Metadata :: string
  pi_JoinedAt :: int
  pi_Tracks :: "TrackInfo list"

text \<open>The commands sent to LiveKit: CreateRoom (with its timeout, size and metadata), RemoveParticipant
  and UpdateParticipant (with the permissions to publish and to subscribe).\<close>

datatype lk_cmd =
    LkCreateRoom string nat nat string
  | LkRemoveParticipant string string
  | LkUpdateParticipant string string bool bool

record vstate =
  vs_sv :: server
  vs_lk :: "lk_cmd list"
  vs_metas :: "string \<Rightarrow> roomMeta option"

record voice_deps =
  vd_roomClient :: bool
  vd_URL :: string
  vd_CreateRoom :: "string \<Rightarrow> bool"
  vd_ListParticipants :: "string \<Rightarrow> ParticipantInfo list option"
  vd_UpdateParticipant :: "string \<Rightarrow> string \<Rightarrow> bool"
  vd_ToJWT :: "string \<Rightarrow> string \<Rightarrow> string option \<Rightarrow> string option"
  vd_redis_nil :: bool
  vd_dm :: bool
  vd_profile :: "user_deps option"
  vd_Marshal :: "ParticipantState \<Rightarrow> string option"
  vd_Unmarshal :: "string \<Rightarrow> ParticipantState option"
  vd_UnmarshalMeta :: "string \<Rightarrow> roomMeta"
  vd_map_order :: "(string \<times> string) list \<Rightarrow> (string \<times> string) list"

datatype voice_error =
    VErrInsufficientPermissions | ErrLiveKitUnavailable | ErrNotDMMember | ErrDMResolverMissing
  | VNotInChannel | VRoomFailed | VTokenFailed | VMembership channel_error | VDb dberr | VMarshal | VLiveKit

definition set_kv :: "redis \<Rightarrow> vstate \<Rightarrow> vstate" where
  "set_kv r s = s\<lparr>vs_sv := (vs_sv s)\<lparr>sv_kv := r\<rparr>\<rparr>"

definition set_db :: "world \<Rightarrow> vstate \<Rightarrow> vstate" where
  "set_db w s = s\<lparr>vs_sv := (vs_sv s)\<lparr>sv_db := w\<rparr>\<rparr>"

definition lk_send :: "lk_cmd \<Rightarrow> vstate \<Rightarrow> vstate" where
  "lk_send c s = s\<lparr>vs_lk := vs_lk s @ [c]\<rparr>"

definition v_publish :: "string \<Rightarrow> event \<Rightarrow> vstate \<Rightarrow> vstate" where
  "v_publish subj evt s = set_db (Publish subj evt (sv_db (vs_sv s))) s"

abbreviation "kv s \<equiv> sv_kv (vs_sv s)"
abbreviation "db s \<equiv> sv_db (vs_sv s)"

section \<open>Participants, state.go\<close>

definition voiceKey :: "string \<Rightarrow> string" where
  "voiceKey channelID = ''voice:'' @ channelID"

definition voiceActiveSinceKey :: "string \<Rightarrow> string" where
  "voiceActiveSinceKey channelID = ''voice:'' @ channelID @ '':active_since''"

definition EnsureActiveSince :: "env \<Rightarrow> voice_deps \<Rightarrow> string \<Rightarrow> vstate \<Rightarrow> (dberr + int) \<times> vstate" where
  "EnsureActiveSince e d channelID s =
     (if vd_redis_nil d then (Inr 0, s)
      else let now = clock e [0] div 1000000000 in
        case r_SetNX (at e 1) (voiceActiveSinceKey channelID) now (kv s) of
          Inl x \<Rightarrow> (Inl x, s)
        | Inr (True, r) \<Rightarrow> (Inr now, set_kv r s)
        | Inr (False, r) \<Rightarrow> (r_GetInt (at e 2) (voiceActiveSinceKey channelID) r, set_kv r s))"

definition GetActiveSince :: "env \<Rightarrow> voice_deps \<Rightarrow> string \<Rightarrow> vstate \<Rightarrow> int" where
  "GetActiveSince e d channelID s =
     (if vd_redis_nil d then 0
      else case r_GetInt e (voiceActiveSinceKey channelID) (kv s) of Inl _ \<Rightarrow> 0 | Inr v \<Rightarrow> v)"

definition ClearActiveSince :: "env \<Rightarrow> voice_deps \<Rightarrow> string \<Rightarrow> vstate \<Rightarrow> vstate" where
  "ClearActiveSince e d channelID s =
     (if vd_redis_nil d then s
      else set_kv (keep_on_error (kv s) (r_Del e (voiceActiveSinceKey channelID) (kv s))) s)"

definition SetParticipant :: "env \<Rightarrow> voice_deps \<Rightarrow> ParticipantState \<Rightarrow> vstate \<Rightarrow> (voice_error + unit) \<times> vstate" where
  "SetParticipant e d ps s =
     (if vd_redis_nil d then (Inr (), s)
      else case vd_Marshal d ps of
        None \<Rightarrow> (Inl VMarshal, s)
      | Some text \<Rightarrow>
          (case r_HSet e (voiceKey (ps_ChannelID ps)) [(ps_UserID ps, text)] (kv s) of
             Inl x \<Rightarrow> (Inl (VDb x), s)
           | Inr r \<Rightarrow> (Inr (), set_kv r s)))"

text \<open>A missing entry is no error: the participant is nil.\<close>

definition GetParticipant ::
    "env \<Rightarrow> voice_deps \<Rightarrow> string \<Rightarrow> string \<Rightarrow> vstate \<Rightarrow> voice_error + ParticipantState option" where
  "GetParticipant e d channelID userID s =
     (if vd_redis_nil d then Inr None
      else case r_HGet e (voiceKey channelID) userID (kv s) of
        Inl NoRows \<Rightarrow> Inr None
      | Inl x \<Rightarrow> Inl (VDb x)
      | Inr text \<Rightarrow> (case vd_Unmarshal d text of None \<Rightarrow> Inl VMarshal | Some ps \<Rightarrow> Inr (Some ps)))"

definition voice_event :: "VoiceAction \<Rightarrow> VoiceStateEvent" where
  "voice_event a = \<lparr>ve_Event = VOICE_EVENT_UNSPECIFIED, ve_GuildId = [], ve_ChannelId = [], ve_UserId = [],
     ve_SelfMute = False, ve_SelfDeaf = False, ve_Video = False, ve_Streaming = False, ve_Action = a, ve_Sid = [],
     ve_Name = [], ve_Metadata = [], ve_TrackType = VOICE_TRACK_UNSPECIFIED, ve_Published = False,
     ve_RoomActiveSince = 0\<rparr>"

definition RemoveParticipant ::
    "env \<Rightarrow> voice_deps \<Rightarrow> string \<Rightarrow> string \<Rightarrow> vstate \<Rightarrow> (voice_error + unit) \<times> vstate" where
  "RemoveParticipant e d channelID userID s =
     (if vd_redis_nil d then (Inr (), s)
      else let guildID = (case GetParticipant (at e 0) d channelID userID s of
               Inr (Some ps) \<Rightarrow> ps_GuildID ps | _ \<Rightarrow> []) in
        case r_HDel (at e 1) (voiceKey channelID) userID (kv s) of
          Inl x \<Rightarrow> (Inl (VDb x), s)
        | Inr r \<Rightarrow>
            (let s1 = set_kv r s;
                 s2 = (if guildID \<noteq> [] \<and> \<not> lpb_nil e
                       then v_publish (GuildChannelVoice guildID channelID)
                         (VoiceEvt ((voice_event VOICE_ACTION_LEAVE)\<lparr>ve_Event := VOICE_EVENT_STATE_UPDATE,
                            ve_ChannelId := channelID, ve_GuildId := guildID, ve_UserId := userID,
                            ve_RoomActiveSince := GetActiveSince (at e 2) d channelID s1\<rparr>)) s1
                       else s1) in
             (Inr (),
              case r_HLen (at e 3) (voiceKey channelID) (kv s2) of
                Inl _ \<Rightarrow> s2
              | Inr n \<Rightarrow>
                  if n = 0
                  then ClearActiveSince (at e 5) d channelID
                         (set_kv (keep_on_error (kv s2) (r_Del (at e 4) (voiceKey channelID) (kv s2))) s2)
                  else s2)))"

definition ClearChannel :: "env \<Rightarrow> voice_deps \<Rightarrow> string \<Rightarrow> vstate \<Rightarrow> vstate" where
  "ClearChannel e d channelID s =
     (if vd_redis_nil d then s
      else set_kv (keep_on_error (kv s) (r_Del e (voiceKey channelID) (kv s))) s)"

text \<open>Texts that do not decode are skipped; the order is that of a walk over a Go map.\<close>

definition GetChannelState ::
    "env \<Rightarrow> voice_deps \<Rightarrow> string \<Rightarrow> vstate \<Rightarrow> dberr + ParticipantState list" where
  "GetChannelState e d channelID s =
     (if vd_redis_nil d then Inr []
      else case r_HGetAll e (voiceKey channelID) (kv s) of
        Inl x \<Rightarrow> Inl x
      | Inr fs \<Rightarrow> Inr (List.map_filter (\<lambda>fv. vd_Unmarshal d (snd fv)) (vd_map_order d fs)))"

definition participant_meta :: "ParticipantState \<Rightarrow> string" where
  "participant_meta ps =
     CHR ''{'' # [CHR 0x22] @ ''userId'' @ [CHR 0x22, CHR '':'', CHR 0x22] @ ps_UserID ps @
     [CHR 0x22, CHR '','', CHR 0x22] @ ''username'' @ [CHR 0x22, CHR '':'', CHR 0x22] @ ps_Username ps @
     [CHR 0x22, CHR '','', CHR 0x22] @ ''displayName'' @ [CHR 0x22, CHR '':'', CHR 0x22] @ ps_DisplayName ps @
     [CHR 0x22, CHR '','', CHR 0x22] @ ''avatarUrl'' @ [CHR 0x22, CHR '':'', CHR 0x22] @ ps_AvatarURL ps @
     [CHR 0x22, CHR ''}'']"

definition broadcastParticipant :: "env \<Rightarrow> voice_deps \<Rightarrow> ParticipantState \<Rightarrow> vstate \<Rightarrow> vstate" where
  "broadcastParticipant e d ps s =
     (if ps_GuildID ps = [] then s
      else v_publish (GuildChannelVoice (ps_GuildID ps) (ps_ChannelID ps))
        (VoiceEvt ((voice_event VOICE_ACTION_STATE_UPDATE)\<lparr>ve_Event := VOICE_EVENT_STATE_UPDATE,
           ve_ChannelId := ps_ChannelID ps, ve_GuildId := ps_GuildID ps, ve_UserId := ps_UserID ps,
           ve_Name := ps_DisplayName ps, ve_SelfMute := ps_SelfMute ps, ve_SelfDeaf := ps_SelfDeaf ps,
           ve_Video := ps_Video ps, ve_Streaming := ps_ScreenShare ps, ve_Metadata := participant_meta ps,
           ve_RoomActiveSince := GetActiveSince e d (ps_ChannelID ps) s\<rparr>)) s)"

definition broadcastChannelState ::
    "env \<Rightarrow> voice_deps \<Rightarrow> string \<Rightarrow> vstate \<Rightarrow> (dberr + ParticipantState list) \<times> vstate" where
  "broadcastChannelState e d channelID s =
     (case GetChannelState (at e 0) d channelID s of
        Inl x \<Rightarrow> (Inl x, s)
      | Inr states \<Rightarrow>
          (Inr states, fold (\<lambda>(i, ps). broadcastParticipant (at (at e 1) i) d ps) (enumerate 0 states) s))"

definition toggleField ::
    "env \<Rightarrow> voice_deps \<Rightarrow> string \<Rightarrow> string \<Rightarrow> (ParticipantState \<Rightarrow> ParticipantState) \<Rightarrow> vstate \<Rightarrow>
       (voice_error + ParticipantState list) \<times> vstate" where
  "toggleField e d userID channelID mutate s =
     (case GetParticipant (at e 0) d channelID userID s of
        Inl _ \<Rightarrow> (Inl VNotInChannel, s)
      | Inr None \<Rightarrow> (Inl VNotInChannel, s)
      | Inr (Some ps) \<Rightarrow>
          (case SetParticipant (at e 1) d (mutate ps) s of
             (Inl x, s1) \<Rightarrow> (Inl x, s1)
           | (Inr _, s1) \<Rightarrow>
               (let s2 = broadcastParticipant (at e 2) d (mutate ps) s1 in
                (case GetChannelState (at e 3) d channelID s2 of Inl x \<Rightarrow> Inl (VDb x) | Inr l \<Rightarrow> Inr l, s2))))"

definition Mute where
  "Mute e d userID channelID = toggleField e d userID channelID (\<lambda>ps. ps\<lparr>ps_SelfMute := True\<rparr>)"

definition Unmute where
  "Unmute e d userID channelID = toggleField e d userID channelID (\<lambda>ps. ps\<lparr>ps_SelfMute := False\<rparr>)"

definition Deafen where
  "Deafen e d userID channelID =
     toggleField e d userID channelID (\<lambda>ps. ps\<lparr>ps_SelfDeaf := True, ps_SelfMute := True\<rparr>)"

definition Undeafen where
  "Undeafen e d userID channelID =
     toggleField e d userID channelID (\<lambda>ps. ps\<lparr>ps_SelfDeaf := False, ps_SelfMute := False\<rparr>)"

definition requireStreamPerm :: "env \<Rightarrow> voice_deps \<Rightarrow> string \<Rightarrow> string \<Rightarrow> vstate \<Rightarrow> bool" where
  "requireStreamPerm e d userID channelID s =
     (if authz_nil e then True
      else case GetParticipant (at e 0) d channelID userID s of
        Inr (Some ps) \<Rightarrow>
          if ps_GuildID ps = [] then True else CanStream (at e 1) userID (ps_GuildID ps) (db s)
      | _ \<Rightarrow> True)"

definition EnableVideo where
  "EnableVideo e d userID channelID s =
     (if \<not> requireStreamPerm (at e 0) d userID channelID s then (Inl VErrInsufficientPermissions, s)
      else toggleField (at e 1) d userID channelID (\<lambda>ps. ps\<lparr>ps_Video := True\<rparr>) s)"

definition DisableVideo where
  "DisableVideo e d userID channelID = toggleField e d userID channelID (\<lambda>ps. ps\<lparr>ps_Video := False\<rparr>)"

definition StartScreenShare where
  "StartScreenShare e d userID channelID s =
     (if \<not> requireStreamPerm (at e 0) d userID channelID s then (Inl VErrInsufficientPermissions, s)
      else toggleField (at e 1) d userID channelID (\<lambda>ps. ps\<lparr>ps_ScreenShare := True\<rparr>) s)"

definition StopScreenShare where
  "StopScreenShare e d userID channelID = toggleField e d userID channelID (\<lambda>ps. ps\<lparr>ps_ScreenShare := False\<rparr>)"

section \<open>Rooms and tokens, service.go\<close>

definition tokenTTL :: time where
  "tokenTTL = 60 * Minute"

record JoinChannelResult =
  jc_URL :: string
  jc_Token :: string
  jc_Room :: string
  jc_ExpiresIn :: int

definition profile_of :: "env \<Rightarrow> voice_deps \<Rightarrow> string \<Rightarrow> vstate \<Rightarrow> string \<times> string" where
  "profile_of e d userID s =
     (case vd_profile d of None \<Rightarrow> ([], []) | Some ud \<Rightarrow> LookupBasicProfile e ud userID (db s))"

definition token_meta :: "string \<Rightarrow> string \<Rightarrow> string \<Rightarrow> string" where
  "token_meta identity username avatarURL =
     CHR ''{'' # [CHR 0x22] @ ''userId'' @ [CHR 0x22, CHR '':'', CHR 0x22] @ identity @
     [CHR 0x22, CHR '','', CHR 0x22] @ ''username'' @ [CHR 0x22, CHR '':'', CHR 0x22] @ username @
     [CHR 0x22, CHR '','', CHR 0x22] @ ''avatarUrl'' @ [CHR 0x22, CHR '':'', CHR 0x22] @ avatarURL @
     [CHR 0x22, CHR ''}'']"

definition room_meta_text :: "string \<Rightarrow> string \<Rightarrow> string" where
  "room_meta_text guildID channelID =
     CHR ''{'' # [CHR 0x22] @ ''guildId'' @ [CHR 0x22, CHR '':'', CHR 0x22] @ guildID @
     [CHR 0x22, CHR '','', CHR 0x22] @ ''channelId'' @ [CHR 0x22, CHR '':'', CHR 0x22] @ channelID @
     [CHR 0x22, CHR ''}'']"

text \<open>The token grants joining the room, publishing and subscribing, for tokenTTL.\<close>

definition buildToken :: "env \<Rightarrow> voice_deps \<Rightarrow> string \<Rightarrow> string \<Rightarrow> vstate \<Rightarrow> string option" where
  "buildToken e d room identity s =
     vd_ToJWT d room identity
       (case vd_profile d of
          None \<Rightarrow> None
        | Some ud \<Rightarrow>
            (case LookupBasicProfile e ud identity (db s) of
               (username, avatarURL) \<Rightarrow> Some (token_meta identity username avatarURL)))"

definition join_result :: "voice_deps \<Rightarrow> string \<Rightarrow> string \<Rightarrow> JoinChannelResult" where
  "join_result d room token =
     \<lparr>jc_URL = vd_URL d, jc_Token = token, jc_Room = room, jc_ExpiresIn = int32 (tokenTTL div 1000000000)\<rparr>"

text \<open>The gate of JoinChannel: both permissions, the second checked when the first holds.\<close>

definition may_join :: "env \<Rightarrow> string \<Rightarrow> string \<Rightarrow> string \<Rightarrow> vstate \<Rightarrow> bool \<times> vstate" where
  "may_join e userID guildID channelID s =
     (if guildID \<noteq> [] \<and> \<not> authz_nil e
      then (case CanViewChannel (at e 0) userID channelID (db s) of
              (ok, w) \<Rightarrow> (ok \<and> CanConnect (at e 1) userID guildID w, set_db w s))
      else (True, s))"

definition joined_state :: "string \<Rightarrow> string \<Rightarrow> string \<Rightarrow> string \<Rightarrow> string \<Rightarrow> ParticipantState" where
  "joined_state userID username avatarURL guildID channelID =
     \<lparr>ps_UserID = userID, ps_Username = username, ps_DisplayName = username, ps_AvatarURL = avatarURL,
      ps_GuildID = guildID, ps_ChannelID = channelID, ps_SelfMute = False, ps_SelfDeaf = False,
      ps_Video = False, ps_ScreenShare = False\<rparr>"

definition v_JoinChannel ::
    "env \<Rightarrow> voice_deps \<Rightarrow> string \<Rightarrow> string \<Rightarrow> string \<Rightarrow> vstate \<Rightarrow> (voice_error + JoinChannelResult) \<times> vstate" where
  "v_JoinChannel e d userID guildID channelID s =
     (if \<not> vd_roomClient d then (Inl ErrLiveKitUnavailable, s)
      else case may_join (at e 0) userID guildID channelID s of
        (False, s1) \<Rightarrow> (Inl VErrInsufficientPermissions, s1)
      | (True, s1) \<Rightarrow>
          (let s2 = lk_send (LkCreateRoom channelID 300 100 (room_meta_text guildID channelID)) s1 in
           if \<not> vd_CreateRoom d channelID then (Inl VRoomFailed, s2)
           else case buildToken (at e 1) d channelID userID s2 of
             None \<Rightarrow> (Inl VTokenFailed, s2)
           | Some token \<Rightarrow>
               (case profile_of (at e 2) d userID s2 of
                  (username, avatarURL) \<Rightarrow>
                    (let s3 = snd (SetParticipant (at e 3) d (joined_state userID username avatarURL guildID channelID) s2);
                         s4 = snd (EnsureActiveSince (at e 4) d channelID s3);
                         s5 = snd (broadcastChannelState (at e 5) d channelID s4)
                     in (Inr (join_result d channelID token), s5)))))"

definition v_LeaveChannel ::
    "env \<Rightarrow> voice_deps \<Rightarrow> string \<Rightarrow> string \<Rightarrow> string \<Rightarrow> vstate \<Rightarrow> (voice_error + unit) \<times> vstate" where
  "v_LeaveChannel e d userID guildID channelID s =
     (if \<not> vd_roomClient d then (Inl ErrLiveKitUnavailable, s)
      else let s1 = lk_send (LkRemoveParticipant channelID userID) s;
               s2 = snd (RemoveParticipant (at e 0) d channelID userID s1)
           in (Inr (), snd (broadcastChannelState (at e 1) d channelID s2)))"

record VoiceParticipant =
  vp_UserId :: string
  vp_Identity :: string
  vp_Sid :: string
  vp_Name :: string
  vp_JoinedAt :: "time option"
  vp_SelfMute :: bool
  vp_SelfDeaf :: bool
  vp_Video :: bool
  vp_ScreenShare :: bool

definition live_participant :: "ParticipantInfo \<Rightarrow> VoiceParticipant" where
  "live_participant p = \<lparr>vp_UserId = pi_Identity p, vp_Identity = pi_Identity p, vp_Sid = pi_Sid p,
     vp_Name = pi_Name p, vp_JoinedAt = (if 0 < pi_JoinedAt p then Some (pi_JoinedAt p * 1000000000) else None),
     vp_SelfMute = False, vp_SelfDeaf = False, vp_Video = False, vp_ScreenShare = False\<rparr>"

definition v_GetChannelParticipants :: "voice_deps \<Rightarrow> string \<Rightarrow> voice_error + VoiceParticipant list" where
  "v_GetChannelParticipants d channelID =
     (if \<not> vd_roomClient d then Inl ErrLiveKitUnavailable
      else case vd_ListParticipants d channelID of
        None \<Rightarrow> Inl VLiveKit
      | Some ps \<Rightarrow> Inr (map live_participant ps))"

definition v_ServerMuteUser :: "voice_deps \<Rightarrow> string \<Rightarrow> string \<Rightarrow> bool \<Rightarrow> vstate \<Rightarrow> (voice_error + unit) \<times> vstate" where
  "v_ServerMuteUser d channelID targetID muted s =
     (if \<not> vd_roomClient d then (Inl ErrLiveKitUnavailable, s)
      else (if vd_UpdateParticipant d channelID targetID then Inr () else Inl VLiveKit,
            lk_send (LkUpdateParticipant channelID targetID (\<not> muted) True) s))"

definition v_ServerDeafenUser :: "voice_deps \<Rightarrow> string \<Rightarrow> string \<Rightarrow> bool \<Rightarrow> vstate \<Rightarrow> (voice_error + unit) \<times> vstate" where
  "v_ServerDeafenUser d channelID targetID deafened s =
     (if \<not> vd_roomClient d then (Inl ErrLiveKitUnavailable, s)
      else (if vd_UpdateParticipant d channelID targetID then Inr () else Inl VLiveKit,
            lk_send (LkUpdateParticipant channelID targetID (\<not> deafened) (\<not> deafened)) s))"

definition v_DisconnectUser :: "voice_deps \<Rightarrow> string \<Rightarrow> string \<Rightarrow> vstate \<Rightarrow> (voice_error + unit) \<times> vstate" where
  "v_DisconnectUser d channelID targetID s =
     (if \<not> vd_roomClient d then (Inl ErrLiveKitUnavailable, s)
      else (Inr (), lk_send (LkRemoveParticipant channelID targetID) s))"

section \<open>What a new subscriber is shown, VoiceSnapshot\<close>

definition snapshot_event :: "string \<Rightarrow> int \<Rightarrow> ParticipantState \<Rightarrow> VoiceStateEvent" where
  "snapshot_event channelID since rs =
     (voice_event VOICE_ACTION_STATE_SYNC)\<lparr>ve_Event := VOICE_EVENT_STATE_UPDATE, ve_ChannelId := channelID,
        ve_GuildId := ps_GuildID rs, ve_UserId := ps_UserID rs, ve_Name := ps_DisplayName rs,
        ve_SelfMute := ps_SelfMute rs, ve_SelfDeaf := ps_SelfDeaf rs, ve_Video := ps_Video rs,
        ve_Streaming := ps_ScreenShare rs, ve_Metadata := participant_meta rs, ve_RoomActiveSince := since\<rparr>"

text \<open>The map of the live participants by identity, a later one replacing an earlier one.\<close>

definition by_identity :: "ParticipantInfo list \<Rightarrow> (string \<times> ParticipantInfo) list" where
  "by_identity ps = map (\<lambda>i. (i, the (find (\<lambda>p. pi_Identity p = i) (rev ps)))) (remdups (map pi_Identity ps))"

definition by_user :: "ParticipantState list \<Rightarrow> (string \<times> ParticipantState) list" where
  "by_user ss = map (\<lambda>i. (i, the (find (\<lambda>p. ps_UserID p = i) (rev ss)))) (remdups (map ps_UserID ss))"

definition live_event ::
    "string \<Rightarrow> int \<Rightarrow> (string \<times> ParticipantState) list \<Rightarrow> string \<times> ParticipantInfo \<Rightarrow> VoiceStateEvent" where
  "live_event channelID since redisMap = (\<lambda>(uid, lp).
     let evt = (voice_event VOICE_ACTION_STATE_SYNC)\<lparr>ve_Event := VOICE_EVENT_STATE_UPDATE,
           ve_ChannelId := channelID, ve_UserId := uid, ve_Name := pi_Name lp, ve_Sid := pi_Sid lp,
           ve_Metadata := pi_Metadata lp, ve_RoomActiveSince := since\<rparr> in
     case map_of redisMap uid of
       None \<Rightarrow> evt
     | Some rs \<Rightarrow> evt\<lparr>ve_GuildId := ps_GuildID rs, ve_Name := ps_DisplayName rs, ve_SelfMute := ps_SelfMute rs,
         ve_SelfDeaf := ps_SelfDeaf rs, ve_Video := ps_Video rs, ve_Streaming := ps_ScreenShare rs,
         ve_Metadata := participant_meta rs\<rparr>)"

definition drop_stale ::
    "env \<Rightarrow> voice_deps \<Rightarrow> string \<Rightarrow> string list \<Rightarrow> (string \<times> ParticipantState) list \<Rightarrow> vstate \<Rightarrow> vstate" where
  "drop_stale e d channelID present redisMap s =
     fold (\<lambda>(i, uid) s. if uid \<in> set present then s
                        else snd (RemoveParticipant (at e i) d channelID uid s))
       (enumerate 0 (map fst redisMap)) s"

text \<open>The two maps are walked in the order their keys were entered.\<close>

definition Snapshot_GetChannelParticipants ::
    "env \<Rightarrow> voice_deps \<Rightarrow> string \<Rightarrow> vstate \<Rightarrow> VoiceStateEvent list \<times> vstate" where
  "Snapshot_GetChannelParticipants e d channelID s =
     (let live = (if vd_roomClient d then (case vd_ListParticipants d channelID of
                     None \<Rightarrow> [] | Some ps \<Rightarrow> by_identity ps) else []);
          since = GetActiveSince (at e 0) d channelID s in
      if live = []
      then (map (snapshot_event channelID (GetActiveSince (at e 2) d channelID s))
              (case GetChannelState (at e 1) d channelID s of Inl _ \<Rightarrow> [] | Inr l \<Rightarrow> l), s)
      else let redisMap = by_user (case GetChannelState (at e 1) d channelID s of Inl _ \<Rightarrow> [] | Inr l \<Rightarrow> l) in
        (map (live_event channelID since redisMap) live,
         drop_stale (at e 3) d channelID (map fst live) redisMap s))"

text \<open>
  The channels of a guild with somebody in them: keys is what the scan of voice:* yields, in its
  order, perhaps with repetitions.
\<close>

fun guild_channels ::
    "env \<Rightarrow> voice_deps \<Rightarrow> string \<Rightarrow> nat \<Rightarrow> string list \<Rightarrow> string list \<Rightarrow> vstate \<Rightarrow> string list" where
  "guild_channels e d guildID i seen [] s = seen"
| "guild_channels e d guildID i seen (key # keys) s =
     (let chID = drop 6 key in
      if chID \<in> set seen then guild_channels e d guildID (i + 1) seen keys s
      else case GetChannelState (at e i) d chID s of
        Inl _ \<Rightarrow> guild_channels e d guildID (i + 1) seen keys s
      | Inr [] \<Rightarrow> guild_channels e d guildID (i + 1) seen keys s
      | Inr (ps # _) \<Rightarrow>
          if ps_GuildID ps = guildID then guild_channels e d guildID (i + 1) (seen @ [chID]) keys s
          else guild_channels e d guildID (i + 1) seen keys s)"

definition GetGuildVoiceChannelIDs ::
    "env \<Rightarrow> voice_deps \<Rightarrow> string list \<Rightarrow> string \<Rightarrow> vstate \<Rightarrow> string list" where
  "GetGuildVoiceChannelIDs e d keys guildID s =
     (if vd_redis_nil d then [] else guild_channels e d guildID 0 [] keys s)"

section \<open>Direct-message calls\<close>

definition dm_call :: "DmCallType \<Rightarrow> string \<Rightarrow> DmCallEvent" where
  "dm_call t channelID = \<lparr>dc_Type = t, dc_ChannelId = channelID, dc_CallerId = [], dc_ParticipantId = [], dc_Video = False\<rparr>"

definition ring :: "string list \<Rightarrow> DmCallEvent \<Rightarrow> vstate \<Rightarrow> vstate" where
  "ring members payload s = fold (\<lambda>mid. v_publish (DmCall mid) (DmCallEvt payload)) members s"

definition call_members :: "env \<Rightarrow> string \<Rightarrow> vstate \<Rightarrow> string list" where
  "call_members e channelID s = (case DMMembers e channelID (db s) of Inl _ \<Rightarrow> [] | Inr ms \<Rightarrow> ms)"

text \<open>The membership check that starts every call operation.\<close>

definition dm_gate :: "env \<Rightarrow> voice_deps \<Rightarrow> string \<Rightarrow> string \<Rightarrow> vstate \<Rightarrow> voice_error option" where
  "dm_gate e d userID channelID s =
     (if \<not> vd_dm d then Some ErrDMResolverMissing
      else case IsDMMember e channelID userID (db s) of
        Inl x \<Rightarrow> Some (VMembership x)
      | Inr ok \<Rightarrow> if ok then None else Some ErrNotDMMember)"

definition StartDMCall ::
    "env \<Rightarrow> voice_deps \<Rightarrow> string \<Rightarrow> string \<Rightarrow> bool \<Rightarrow> vstate \<Rightarrow> (voice_error + JoinChannelResult) \<times> vstate" where
  "StartDMCall e d callerID channelID video s =
     (if \<not> vd_roomClient d then (Inl ErrLiveKitUnavailable, s)
      else case dm_gate (at e 0) d callerID channelID s of
        Some x \<Rightarrow> (Inl x, s)
      | None \<Rightarrow>
          (let s1 = lk_send (LkCreateRoom channelID 60 10 []) s in
           if \<not> vd_CreateRoom d channelID then (Inl VRoomFailed, s1)
           else case buildToken (at e 1) d channelID callerID s1 of
             None \<Rightarrow> (Inl VTokenFailed, s1)
           | Some token \<Rightarrow>
               (Inr (join_result d channelID token),
                ring (call_members (at e 2) channelID s1)
                  ((dm_call DM_CALL_INCOMING channelID)\<lparr>dc_CallerId := callerID, dc_Video := video\<rparr>) s1)))"

definition JoinDMCall ::
    "env \<Rightarrow> voice_deps \<Rightarrow> string \<Rightarrow> string \<Rightarrow> bool \<Rightarrow> vstate \<Rightarrow> (voice_error + JoinChannelResult) \<times> vstate" where
  "JoinDMCall e d userID channelID video s =
     (if \<not> vd_roomClient d then (Inl ErrLiveKitUnavailable, s)
      else case dm_gate (at e 0) d userID channelID s of
        Some x \<Rightarrow> (Inl x, s)
      | None \<Rightarrow>
          (let s1 = lk_send (LkCreateRoom channelID 60 10 []) s in
           if \<not> vd_CreateRoom d channelID then (Inl VRoomFailed, s1)
           else case buildToken (at e 1) d channelID userID s1 of
             None \<Rightarrow> (Inl VTokenFailed, s1)
           | Some token \<Rightarrow>
               (Inr (join_result d channelID token),
                ring (call_members (at e 2) channelID s1)
                  ((dm_call DM_CALL_ACCEPTED channelID)\<lparr>dc_ParticipantId := userID, dc_Video := video\<rparr>) s1)))"

definition RejectDMCall ::
    "env \<Rightarrow> voice_deps \<Rightarrow> string \<Rightarrow> string \<Rightarrow> vstate \<Rightarrow> (voice_error + unit) \<times> vstate" where
  "RejectDMCall e d userID channelID s =
     (case dm_gate (at e 0) d userID channelID s of
        Some x \<Rightarrow> (Inl x, s)
      | None \<Rightarrow>
          (Inr (), ring (call_members (at e 1) channelID s)
             ((dm_call DM_CALL_REJECTED channelID)\<lparr>dc_ParticipantId := userID\<rparr>) s))"

definition LeaveDMCall ::
    "env \<Rightarrow> voice_deps \<Rightarrow> string \<Rightarrow> string \<Rightarrow> vstate \<Rightarrow> (voice_error + unit) \<times> vstate" where
  "LeaveDMCall e d userID channelID s =
     (if \<not> vd_roomClient d then (Inl ErrLiveKitUnavailable, s)
      else case dm_gate (at e 0) d userID channelID s of
        Some x \<Rightarrow> (Inl x, s)
      | None \<Rightarrow>
          (let s1 = lk_send (LkRemoveParticipant channelID userID) s;
               members = call_members (at e 1) channelID s1;
               s2 = ring members ((dm_call DM_CALL_PARTICIPANT_LEFT channelID)\<lparr>dc_ParticipantId := userID\<rparr>) s1
           in (Inr (),
               if vd_ListParticipants d channelID = Some []
               then ring members (dm_call DM_CALL_ENDED channelID) s2 else s2)))"

section \<open>LiveKit events, webhook.go\<close>

record Room =
  room_Name :: string
  room_Metadata :: string

record WebhookEvent =
  wh_Event :: string
  wh_Room :: "Room option"
  wh_Participant :: "ParticipantInfo option"
  wh_Track :: "TrackInfo option"

text \<open>vd_UnmarshalMeta gives what json.Unmarshal leaves in the struct; its error is dropped.\<close>

definition parseRoomMeta :: "voice_deps \<Rightarrow> Room option \<Rightarrow> roomMeta" where
  "parseRoomMeta d r =
     (case r of
        None \<Rightarrow> \<lparr>rm_GuildID = [], rm_ChannelID = []\<rparr>
      | Some room \<Rightarrow>
          (let m = vd_UnmarshalMeta d (room_Metadata room) in
           if rm_ChannelID m = [] then m\<lparr>rm_ChannelID := room_Name room\<rparr> else m))"

definition resolveRoomMeta :: "voice_deps \<Rightarrow> WebhookEvent \<Rightarrow> vstate \<Rightarrow> roomMeta \<times> vstate" where
  "resolveRoomMeta d event s =
     (let meta = parseRoomMeta d (wh_Room event) in
      if rm_GuildID meta \<noteq> [] then (meta, s\<lparr>vs_metas := (vs_metas s)(rm_ChannelID meta \<mapsto> meta)\<rparr>)
      else case vs_metas s (rm_ChannelID meta) of
        Some cached \<Rightarrow> (cached, s)
      | None \<Rightarrow> (meta, s))"

definition hook_publish :: "env \<Rightarrow> voice_deps \<Rightarrow> roomMeta \<Rightarrow> VoiceStateEvent \<Rightarrow> vstate \<Rightarrow> vstate" where
  "hook_publish e d meta evt s =
     (let evt1 = evt\<lparr>ve_Event := VOICE_EVENT_STATE_UPDATE, ve_ChannelId := rm_ChannelID meta,
            ve_GuildId := rm_GuildID meta\<rparr>;
          evt2 = (if ve_RoomActiveSince evt1 = 0 \<and> rm_ChannelID meta \<noteq> []
                  then evt1\<lparr>ve_RoomActiveSince := GetActiveSince e d (rm_ChannelID meta) s\<rparr> else evt1) in
      if rm_GuildID meta \<noteq> []
      then v_publish (GuildChannelVoice (rm_GuildID meta) (rm_ChannelID meta)) (VoiceEvt evt2) s
      else if ve_UserId evt2 \<noteq> [] then v_publish (DmCall (ve_UserId evt2)) (VoiceEvt evt2) s
      else s)"

definition hasActiveAudio :: "ParticipantInfo \<Rightarrow> bool" where
  "hasActiveAudio p = list_ex (\<lambda>t. ti_Source t = MICROPHONE \<and> \<not> ti_Muted t) (pi_Tracks p)"

definition hasActiveVideo :: "ParticipantInfo \<Rightarrow> bool" where
  "hasActiveVideo p = list_ex (\<lambda>t. ti_Source t = CAMERA \<and> \<not> ti_Muted t) (pi_Tracks p)"

definition merge_state :: "ParticipantState \<Rightarrow> VoiceStateEvent \<Rightarrow> VoiceStateEvent" where
  "merge_state ps evt = evt\<lparr>ve_SelfMute := ps_SelfMute ps, ve_SelfDeaf := ps_SelfDeaf ps, ve_Video := ps_Video ps,
     ve_Streaming := ps_ScreenShare ps, ve_Name := ps_DisplayName ps\<rparr>"

definition publishTrackEvent ::
    "env \<Rightarrow> voice_deps \<Rightarrow> roomMeta \<Rightarrow> ParticipantInfo \<Rightarrow> TrackInfo \<Rightarrow> bool \<Rightarrow> vstate \<Rightarrow> vstate" where
  "publishTrackEvent e d meta p t published s =
     (let trackType = (case ti_Source t of
            CAMERA \<Rightarrow> VOICE_TRACK_VIDEO
          | SCREEN_SHARE \<Rightarrow> VOICE_TRACK_SCREEN_SHARE
          | SCREEN_SHARE_AUDIO \<Rightarrow> VOICE_TRACK_SCREEN_SHARE
          | MICROPHONE \<Rightarrow> VOICE_TRACK_AUDIO
          | UNKNOWN \<Rightarrow> VOICE_TRACK_UNSPECIFIED);
          evt = (voice_event VOICE_ACTION_TRACK_UPDATE)\<lparr>ve_UserId := pi_Identity p, ve_TrackType := trackType,
            ve_Published := published, ve_Metadata := pi_Metadata p\<rparr>;
          evt' = (case GetParticipant (at e 0) d (rm_ChannelID meta) (pi_Identity p) s of
              Inr (Some ps) \<Rightarrow> merge_state ps evt
            | _ \<Rightarrow> evt\<lparr>ve_SelfMute := \<not> hasActiveAudio p, ve_Video := hasActiveVideo p\<rparr>)
      in hook_publish (at e 1) d meta evt' s)"

definition publishParticipantState ::
    "env \<Rightarrow> voice_deps \<Rightarrow> roomMeta \<Rightarrow> ParticipantInfo \<Rightarrow> vstate \<Rightarrow> vstate" where
  "publishParticipantState e d meta p s =
     (let evt = (voice_event VOICE_ACTION_STATE_SYNC)\<lparr>ve_UserId := pi_Identity p, ve_Name := pi_Name p,
            ve_Metadata := pi_Metadata p\<rparr>;
          evt' = (case GetParticipant (at e 0) d (rm_ChannelID meta) (pi_Identity p) s of
              Inr (Some ps) \<Rightarrow> merge_state ps evt | _ \<Rightarrow> evt)
      in hook_publish (at e 1) d meta evt' s)"

definition handleEvent :: "env \<Rightarrow> voice_deps \<Rightarrow> WebhookEvent \<Rightarrow> vstate \<Rightarrow> vstate" where
  "handleEvent e d event s =
     (case resolveRoomMeta d event s of
        (meta, s1) \<Rightarrow>
          if wh_Event event = ''room_started''
          then hook_publish (at e 0) d meta (voice_event VOICE_ACTION_ROOM_STARTED) s1
          else if wh_Event event = ''room_finished''
          then let s2 = ClearActiveSince (at e 1) d (rm_ChannelID meta) (ClearChannel (at e 0) d (rm_ChannelID meta) s1);
                   s3 = hook_publish (at e 2) d meta (voice_event VOICE_ACTION_ROOM_FINISHED) s2
               in s3\<lparr>vs_metas := (vs_metas s3)(rm_ChannelID meta := None)\<rparr>
          else case wh_Participant event of
            None \<Rightarrow> s1
          | Some p \<Rightarrow>
              if wh_Event event = ''participant_joined''
              then hook_publish (at e 0) d meta ((voice_event VOICE_ACTION_JOIN)\<lparr>ve_UserId := pi_Identity p,
                     ve_Name := pi_Name p, ve_Sid := pi_Sid p, ve_Metadata := pi_Metadata p\<rparr>) s1
              else if wh_Event event = ''participant_left''
              then let s2 = snd (RemoveParticipant (at e 0) d (rm_ChannelID meta) (pi_Identity p) s1);
                       s3 = snd (broadcastChannelState (at e 1) d (rm_ChannelID meta) s2)
                   in hook_publish (at e 2) d meta ((voice_event VOICE_ACTION_LEAVE)\<lparr>ve_UserId := pi_Identity p\<rparr>) s3
              else if wh_Event event = ''participant_active''
              then publishParticipantState e d meta p s1
              else case wh_Track event of
                None \<Rightarrow> s1
              | Some t \<Rightarrow>
                  if wh_Event event = ''track_published'' then publishTrackEvent e d meta p t True s1
                  else if wh_Event event = ''track_unpublished'' then publishTrackEvent e d meta p t False s1
                  else s1)"

text \<open>ServeHTTP: ReceiveWebhookEvent checks the signature of the request; None when it refuses it.\<close>

definition ServeHTTP :: "env \<Rightarrow> voice_deps \<Rightarrow> WebhookEvent option \<Rightarrow> vstate \<Rightarrow> nat \<times> vstate" where
  "ServeHTTP e d received s =
     (case received of None \<Rightarrow> (401, s) | Some event \<Rightarrow> (200, handleEvent e d event s))"

section \<open>The handler\<close>

text \<open>
  The texts of the errors are a parameter. Each handler first needs the user of the context.
\<close>

definition with_user :: "(string \<Rightarrow> (vstate, 'r) UnaryHandler) \<Rightarrow> (vstate, 'r) UnaryHandler" where
  "with_user h ctx s =
     (if UserIDFromContext ctx = [] then (Inl (Status Unauthenticated ''missing user id''), s)
      else h (UserIDFromContext ctx) ctx s)"

definition VoiceHandler_JoinChannel where
  "VoiceHandler_JoinChannel txt e d guildID channelID = with_user (\<lambda>userID ctx s.
     map_error (\<lambda>x. if x = VErrInsufficientPermissions then Status PermissionDenied (txt x)
                    else Status Internal (''failed to join channel: '' @ txt x))
       (v_JoinChannel e d userID guildID channelID s))"

definition VoiceHandler_LeaveChannel where
  "VoiceHandler_LeaveChannel txt e d guildID channelID = with_user (\<lambda>userID ctx s.
     map_error (\<lambda>x. Status Internal (''failed to leave channel: '' @ txt x))
       (v_LeaveChannel e d userID guildID channelID s))"

definition mapDMCallError :: "(voice_error \<Rightarrow> string) \<Rightarrow> voice_error \<Rightarrow> status" where
  "mapDMCallError txt x =
     (if x = ErrNotDMMember then Status PermissionDenied (txt x)
      else if x = ErrDMResolverMissing \<or> x = ErrLiveKitUnavailable then Status FailedPrecondition (txt x)
      else Status Internal (''dm call failed: '' @ txt x))"

definition VoiceHandler_StartDMCall where
  "VoiceHandler_StartDMCall txt e d channelID video = with_user (\<lambda>userID ctx s.
     map_error (mapDMCallError txt) (StartDMCall e d userID channelID video s))"

definition VoiceHandler_JoinDMCall where
  "VoiceHandler_JoinDMCall txt e d channelID video = with_user (\<lambda>userID ctx s.
     map_error (mapDMCallError txt) (JoinDMCall e d userID channelID video s))"

definition VoiceHandler_RejectDMCall where
  "VoiceHandler_RejectDMCall txt e d channelID = with_user (\<lambda>userID ctx s.
     map_error (mapDMCallError txt) (RejectDMCall e d userID channelID s))"

definition VoiceHandler_LeaveDMCall where
  "VoiceHandler_LeaveDMCall txt e d channelID = with_user (\<lambda>userID ctx s.
     map_error (mapDMCallError txt) (LeaveDMCall e d userID channelID s))"

definition statesToProto :: "ParticipantState list \<Rightarrow> VoiceParticipant list" where
  "statesToProto = map (\<lambda>p. \<lparr>vp_UserId = ps_UserID p, vp_Identity = ps_UserID p, vp_Sid = [],
     vp_Name = ps_DisplayName p, vp_JoinedAt = None, vp_SelfMute = ps_SelfMute p, vp_SelfDeaf = ps_SelfDeaf p,
     vp_Video = ps_Video p, vp_ScreenShare = ps_ScreenShare p\<rparr>)"

text \<open>The eight self controls are voiceToggle at Mute, Unmute, Deafen, Undeafen and the video and share toggles.\<close>

definition voiceToggle ::
    "(voice_error \<Rightarrow> string) \<Rightarrow> string \<Rightarrow>
     (string \<Rightarrow> string \<Rightarrow> vstate \<Rightarrow> (voice_error + ParticipantState list) \<times> vstate) \<Rightarrow>
     (vstate, VoiceParticipant list) UnaryHandler" where
  "voiceToggle txt channelID act = with_user (\<lambda>userID ctx s.
     (case act userID channelID s of
        (Inl x, s') \<Rightarrow> (Inl (Status Internal (txt x)), s')
      | (Inr states, s') \<Rightarrow> (Inr (statesToProto states), s')))"

definition VoiceHandler_ServerMuteUser where
  "VoiceHandler_ServerMuteUser txt d channelID targetID muted = with_user (\<lambda>userID ctx s.
     map_error (\<lambda>x. Status Internal (''server mute failed: '' @ txt x)) (v_ServerMuteUser d channelID targetID muted s))"

definition VoiceHandler_ServerDeafenUser where
  "VoiceHandler_ServerDeafenUser txt d channelID targetID deafened = with_user (\<lambda>userID ctx s.
     map_error (\<lambda>x. Status Internal (''server deafen failed: '' @ txt x)) (v_ServerDeafenUser d channelID targetID deafened s))"

definition VoiceHandler_DisconnectUser where
  "VoiceHandler_DisconnectUser txt d channelID targetID = with_user (\<lambda>userID ctx s.
     map_error (\<lambda>x. Status Internal (''disconnect failed: '' @ txt x)) (v_DisconnectUser d channelID targetID s))"

definition VoiceHandler_GetChannelParticipants ::
    "(voice_error \<Rightarrow> string) \<Rightarrow> voice_deps \<Rightarrow> string \<Rightarrow> (vstate, VoiceParticipant list) UnaryHandler" where
  "VoiceHandler_GetChannelParticipants txt d channelID ctx s =
     map_error (\<lambda>x. Status Internal (''failed to get participants: '' @ txt x)) (v_GetChannelParticipants d channelID, s)"

end
