(* ===== verification/VoiceLaws.thy ===== *)
theory VoiceLaws
  imports Voice
begin

text \<open>
  What the voice service promises. The roster of a channel is the map from a user to the state
  shown for them; the operations are refined to updates of the roster, the roster and the
  active-since mark of a room appear and disappear together, and the gates of joining, calling and
  moderating are described.
\<close>

section \<open>The roster of a channel\<close>

definition room_fields :: "redis \<Rightarrow> string \<Rightarrow> (string \<times> string) list" where
  "room_fields r c = (case r (voiceKey c) of Some (RHash fs, _) \<Rightarrow> fs | _ \<Rightarrow> [])"

definition roster_of :: "voice_deps \<Rightarrow> vstate \<Rightarrow> string \<Rightarrow> string \<Rightarrow> ParticipantState option" where
  "roster_of d s c u = Option.bind (map_of (room_fields (kv s) c) u) (vd_Unmarshal d)"

text \<open>
  What is relied on of encoding/json: a state that is encoded decodes to itself (its strings are
  valid UTF-8, as gRPC and the database ensure).
\<close>

definition json_ok :: "voice_deps \<Rightarrow> bool" where
  "json_ok d \<longleftrightarrow> (\<forall>ps. \<exists>t. vd_Marshal d ps = Some t \<and> vd_Unmarshal d t = Some ps)"

text \<open>Channel identifiers are UUIDs: they have no colon, so that the keys of two rooms differ.\<close>

definition plain_id :: "string \<Rightarrow> bool" where
  "plain_id c \<longleftrightarrow> CHR '':'' \<notin> set c"

text \<open>
  A room is empty, with neither hash nor mark, or it has a hash with at least one entry, each the
  state of its user in this channel, and a mark; neither expires.
\<close>

definition room_ok :: "voice_deps \<Rightarrow> redis \<Rightarrow> string \<Rightarrow> bool" where
  "room_ok d r c =
     (case r (voiceKey c) of
        None \<Rightarrow> r (voiceActiveSinceKey c) = None
      | Some (RHash fs, None) \<Rightarrow>
          fs \<noteq> [] \<and> distinct (map fst fs) \<and>
          list_all (\<lambda>(u, t). case vd_Unmarshal d t of
            Some ps \<Rightarrow> ps_UserID ps = u \<and> ps_ChannelID ps = c | None \<Rightarrow> False) fs \<and>
          (case r (voiceActiveSinceKey c) of Some (RInt _, None) \<Rightarrow> True | _ \<Rightarrow> False)
      | _ \<Rightarrow> False)"

definition voice_inv :: "voice_deps \<Rightarrow> vstate \<Rightarrow> bool" where
  "voice_inv d s \<longleftrightarrow> (\<forall>c. plain_id c \<longrightarrow> room_ok d (kv s) c)"

lemma voice_invD: "voice_inv d s \<Longrightarrow> plain_id c \<Longrightarrow> room_ok d (kv s) c"
  by (simp add: voice_inv_def)

subsection \<open>Keys\<close>

lemma voiceKey_inject [simp]: "voiceKey a = voiceKey b \<longleftrightarrow> a = b"
  by (simp add: voiceKey_def)

lemma activeKey_inject [simp]: "voiceActiveSinceKey a = voiceActiveSinceKey b \<longleftrightarrow> a = b"
  by (simp add: voiceActiveSinceKey_def)

lemma keys_differ [simp]:
  assumes "plain_id a"
  shows "voiceKey a \<noteq> voiceActiveSinceKey b" "voiceActiveSinceKey b \<noteq> voiceKey a"
proof -
  have "a \<noteq> b @ '':active_since''"
  proof
    assume "a = b @ '':active_since''"
    then have "CHR '':'' \<in> set a" by (metis UnCI list.set_intros(1) set_append)
    with assms show False by (simp add: plain_id_def)
  qed
  then show "voiceKey a \<noteq> voiceActiveSinceKey b" "voiceActiveSinceKey b \<noteq> voiceKey a"
    by (auto simp: voiceKey_def voiceActiveSinceKey_def)
qed

subsection \<open>State accessors\<close>

lemma kv_simps [simp]:
  "kv (set_kv r s) = r" "db (set_kv r s) = db s" "kv (set_db w s) = kv s" "db (set_db w s) = w"
  "kv (lk_send c s) = kv s" "db (lk_send c s) = db s" "kv (v_publish subj evt s) = kv s"
  "vs_lk (set_kv r s) = vs_lk s" "vs_lk (set_db w s) = vs_lk s" "vs_lk (v_publish subj evt s) = vs_lk s"
  "vs_lk (lk_send c s) = vs_lk s @ [c]"
  "vs_metas (set_kv r s) = vs_metas s" "vs_metas (set_db w s) = vs_metas s" "vs_metas (lk_send c s) = vs_metas s"
  "vs_metas (v_publish subj evt s) = vs_metas s"
  "kv (s\<lparr>vs_metas := m\<rparr>) = kv s"
  by (simp_all add: set_kv_def set_db_def lk_send_def v_publish_def)

lemma broadcastParticipant_kv [simp]:
  "kv (broadcastParticipant e d ps s) = kv s" "vs_lk (broadcastParticipant e d ps s) = vs_lk s"
  by (simp_all add: broadcastParticipant_def)

lemma fold_broadcast_kv [simp]:
  "kv (fold (\<lambda>(i, ps). broadcastParticipant (f i) d ps) xs s) = kv s"
  "vs_lk (fold (\<lambda>(i, ps). broadcastParticipant (f i) d ps) xs s) = vs_lk s"
  by (induction xs arbitrary: s) (simp_all add: prod.case_eq_if)

lemma broadcastChannelState_kv [simp]:
  "kv (snd (broadcastChannelState e d c s)) = kv s" "vs_lk (snd (broadcastChannelState e d c s)) = vs_lk s"
  by (simp_all add: broadcastChannelState_def split: sum.splits)

lemma ring_kv [simp]: "kv (ring ms p s) = kv s" "vs_lk (ring ms p s) = vs_lk s"
  unfolding ring_def by (induction ms arbitrary: s) simp_all

lemma hook_publish_kv [simp]: "kv (hook_publish e d m evt s) = kv s" "vs_metas (hook_publish e d m evt s) = vs_metas s"
  by (simp_all add: hook_publish_def Let_def)

lemma may_join_kv [simp]: "may_join e u g c s = (b, s') \<Longrightarrow> kv s' = kv s \<and> vs_lk s' = vs_lk s"
  by (auto simp: may_join_def split: if_splits prod.splits)

lemma roster_of_cong: "kv s = kv s' \<Longrightarrow> roster_of d s = roster_of d s'"
  by (intro ext) (simp add: roster_of_def)

subsection \<open>The hash and the mark of a room\<close>

lemma room_cases:
  assumes "room_ok d r c"
  obtains "r (voiceKey c) = None" "r (voiceActiveSinceKey c) = None" "room_fields r c = []"
  | fs n where "r (voiceKey c) = Some (RHash fs, None)" "r (voiceActiveSinceKey c) = Some (RInt n, None)"
      "room_fields r c = fs" "fs \<noteq> []"
  using assms by (auto simp: room_ok_def room_fields_def split: option.splits prod.splits rvalue.splits)

lemma hash_of_room: "room_ok d r c \<Longrightarrow> hash_of r now (voiceKey c) = Inr (room_fields r c)"
  by (auto simp: room_ok_def room_fields_def hash_of_def live_value_def split: option.splits prod.splits rvalue.splits)

lemma kept_room: "room_ok d r c \<Longrightarrow> kept_expiry r now (voiceKey c) = None"
  by (auto simp: room_ok_def kept_expiry_def live_value_def split: option.splits prod.splits rvalue.splits)

lemma GetParticipant_roster:
  assumes "\<not> fault e []" and "\<not> vd_redis_nil d" and "room_ok d (kv s) c"
  shows "GetParticipant e d c u s = Inr (roster_of d s c u)"
proof -
  have "vd_Unmarshal d t \<noteq> None" if "map_of (room_fields (kv s) c) u = Some t" for t
    using assms(3) map_of_SomeD [OF that]
    by (auto simp: room_ok_def room_fields_def list_all_iff split: option.splits prod.splits rvalue.splits)
  with assms(1,2) show ?thesis
    by (auto simp: GetParticipant_def r_HGet_def hash_of_room [OF assms(3)] roster_of_def one_row_def
        split: option.splits)
qed

lemma SetParticipant_kv:
  assumes "\<not> fault e []" and "\<not> vd_redis_nil d" and "room_ok d (kv s) (ps_ChannelID ps)" and "vd_Marshal d ps = Some t"
  shows "SetParticipant e d ps s = (Inr (), set_kv ((kv s)(voiceKey (ps_ChannelID ps) \<mapsto>
           (RHash (put_field (ps_UserID ps) t (room_fields (kv s) (ps_ChannelID ps))), None))) s)"
  using assms by (simp add: SetParticipant_def r_HSet_def hash_of_room [OF assms(3)] kept_room [OF assms(3)])

text \<open>The store after a participant is removed.\<close>

definition removed :: "redis \<Rightarrow> string \<Rightarrow> string \<Rightarrow> redis" where
  "removed r c u =
     (let fs = delete_where (\<lambda>x. fst x = u) (room_fields r c) in
      if fs = [] then r(voiceKey c := None, voiceActiveSinceKey c := None)
      else r(voiceKey c \<mapsto> (RHash fs, None)))"

lemma RemoveParticipant_kv:
  assumes "fault_free e" and "\<not> vd_redis_nil d" and "room_ok d (kv s) c" and "plain_id c"
  shows "kv (snd (RemoveParticipant e d c u s)) = removed (kv s) c u" "fst (RemoveParticipant e d c u s) = Inr ()"
proof -
  let ?fs = "delete_where (\<lambda>x. fst x = u) (room_fields (kv s) c)"
  let ?r = "if ?fs = [] then (kv s)(voiceKey c := None) else (kv s)(voiceKey c \<mapsto> (RHash ?fs, None))"
  have del: "r_HDel (at e 1) (voiceKey c) u (kv s) = Inr ?r"
    using assms(1) by (simp add: r_HDel_def hash_of_room [OF assms(3)] kept_room [OF assms(3)] Let_def)
  have len: "r_HLen (at e 3) (voiceKey c) (r(voiceKey c := None)) = Inr 0"
      "r_HLen (at e 3) (voiceKey c) (r(voiceKey c \<mapsto> (RHash fs, None))) = Inr (length fs)" for r fs
    using assms(1) by (simp_all add: r_HLen_def hash_of_def)
  show "fst (RemoveParticipant e d c u s) = Inr ()"
    using assms(2) by (simp add: RemoveParticipant_def del [simplified] Let_def)
  show "kv (snd (RemoveParticipant e d c u s)) = removed (kv s) c u"
    using assms(1,2)
    by (simp add: RemoveParticipant_def del [simplified] len removed_def Let_def ClearActiveSince_def r_Del_def)
qed

subsection \<open>Updates of the roster\<close>

lemma room_ok_local:
  "r' (voiceKey c) = r (voiceKey c) \<Longrightarrow> r' (voiceActiveSinceKey c) = r (voiceActiveSinceKey c) \<Longrightarrow> room_ok d r' c = room_ok d r c"
  by (simp only: room_ok_def)

lemma set_put_field: "set (put_field u t fs) \<subseteq> insert (u, t) (set fs)"
  by (auto simp: put_field_def in_set_upsert split: if_splits)

lemma distinct_put_field: "distinct (map fst fs) \<Longrightarrow> distinct (map fst (put_field u t fs))"
  unfolding put_field_def by (rule distinct_key_upsert) auto

lemma room_ok_put:
  assumes "room_ok d r c" and "vd_Unmarshal d t = Some ps" and "ps_UserID ps = u" and "ps_ChannelID ps = c"
    and "r' (voiceKey c) = Some (RHash (put_field u t (room_fields r c)), None)"
    and "r' (voiceActiveSinceKey c) = Some (RInt n, None)"
  shows "room_ok d r' c"
proof -
  have "distinct (map fst (room_fields r c))" "list_all (\<lambda>(u, t). case vd_Unmarshal d t of
      Some ps \<Rightarrow> ps_UserID ps = u \<and> ps_ChannelID ps = c | None \<Rightarrow> False) (room_fields r c)"
    using assms(1) by (auto simp: room_ok_def room_fields_def split: option.splits prod.splits rvalue.splits)
  moreover have "list_all (\<lambda>(u, t). case vd_Unmarshal d t of
      Some ps \<Rightarrow> ps_UserID ps = u \<and> ps_ChannelID ps = c | None \<Rightarrow> False) (put_field u t (room_fields r c))"
    using calculation(2) set_put_field [of u t "room_fields r c"] assms(2-4) unfolding list_all_iff by fastforce
  ultimately show ?thesis
    using assms(5,6) distinct_put_field by (simp add: room_ok_def)
qed

lemma delete_where_Nil: "delete_where p [] = []"
  by (simp add: delete_where_def)

lemma room_ok_removed:
  assumes "room_ok d r c" and "plain_id c"
  shows "room_ok d (removed r c u) c"
  using assms
  by (auto simp: room_ok_def removed_def room_fields_def Let_def list_all_iff distinct_key_delete_where delete_where_Nil
      split: option.splits prod.splits rvalue.splits)

lemma removed_other:
  "c' \<noteq> c \<Longrightarrow> plain_id c \<Longrightarrow> plain_id c' \<Longrightarrow>
     removed r c u (voiceKey c') = r (voiceKey c') \<and> removed r c u (voiceActiveSinceKey c') = r (voiceActiveSinceKey c')"
  by (simp add: removed_def Let_def)

lemma roster_of_put:
  assumes "\<And>c'. plain_id c' \<Longrightarrow> kv s' (voiceKey c') = (if c' = c then Some (RHash (put_field u t (room_fields (kv s) c)), None)
             else kv s (voiceKey c'))"
    and "vd_Unmarshal d t = Some ps" and "plain_id c'"
  shows "roster_of d s' c' u' = (if c' = c \<and> u' = u then Some ps else roster_of d s c' u')"
  using assms(1) [OF assms(3)] assms(2) by (simp add: roster_of_def room_fields_def)

lemma roster_of_removed:
  assumes "kv s' = removed (kv s) c u" and "plain_id c" and "plain_id c'"
  shows "roster_of d s' c' u' = (if c' = c \<and> u' = u then None else roster_of d s c' u')"
proof (cases "c' = c")
  case True
  have "room_fields (kv s') c = delete_where (\<lambda>x. fst x = u) (room_fields (kv s) c)"
    using assms(1,2) by (simp add: removed_def room_fields_def Let_def)
  with True show ?thesis by (simp add: roster_of_def)
next
  case False
  with removed_other [OF False assms(2,3)] assms(1) show ?thesis by (simp add: roster_of_def room_fields_def)
qed

lemma EnsureActiveSince_kv:
  assumes "fault_free e" and "\<not> vd_redis_nil d"
    and "kv s (voiceActiveSinceKey c) = None \<or> (\<exists>n. kv s (voiceActiveSinceKey c) = Some (RInt n, None))"
  shows "\<exists>n. kv (snd (EnsureActiveSince e d c s)) = (kv s)(voiceActiveSinceKey c \<mapsto> (RInt n, None)) \<and>
           (kv s (voiceActiveSinceKey c) \<noteq> None \<longrightarrow> kv (snd (EnsureActiveSince e d c s)) = kv s)"
proof (cases "kv s (voiceActiveSinceKey c)")
  case None
  with assms(1,2) show ?thesis by (auto simp: EnsureActiveSince_def r_SetNX_def live_value_def Let_def)
next
  case (Some v)
  with assms have "kv (snd (EnsureActiveSince e d c s)) = kv s"
    by (auto simp: EnsureActiveSince_def r_SetNX_def live_value_def Let_def)
  with Some assms(3) show ?thesis by (metis fun_upd_triv option.distinct(1))
qed

text \<open>
  The three ways the service changes rooms: it puts a state that decodes under its own user and
  channel into a room (and marks the room when it was not), it removes a user, or it clears a room.
\<close>

lemma voice_inv_put:
  assumes "voice_inv d s" and "plain_id c" and "vd_Unmarshal d t = Some ps" and "ps_UserID ps = u" and "ps_ChannelID ps = c"
    and "kv s' = (kv s)(voiceKey c \<mapsto> (RHash (put_field u t (room_fields (kv s) c)), None),
                        voiceActiveSinceKey c \<mapsto> (RInt n, None))"
  shows "voice_inv d s'"
  unfolding voice_inv_def
proof (intro allI impI)
  fix c' assume c': "plain_id c'"
  show "room_ok d (kv s') c'"
  proof (cases "c' = c")
    case True
    show ?thesis unfolding True
      by (rule room_ok_put [OF voice_invD [OF assms(1,2)] assms(3-5)]) (simp_all add: assms(2,6))
  next
    case False
    with c' assms(2,6) have "room_ok d (kv s') c' = room_ok d (kv s) c'" by (intro room_ok_local) simp_all
    with voice_invD [OF assms(1) c'] show ?thesis by simp
  qed
qed

lemma voice_inv_removed:
  assumes "voice_inv d s" and "plain_id c" and "kv s' = removed (kv s) c u"
  shows "voice_inv d s'"
  unfolding voice_inv_def
proof (intro allI impI)
  fix c' assume c': "plain_id c'"
  show "room_ok d (kv s') c'"
  proof (cases "c' = c")
    case True
    with room_ok_removed [OF voice_invD [OF assms(1,2)] assms(2)] assms(3) show ?thesis by simp
  next
    case False
    then have "room_ok d (kv s') c' = room_ok d (kv s) c'"
      using removed_other [OF False assms(2) c'] assms(3) by (intro room_ok_local) simp_all
    with voice_invD [OF assms(1) c'] show ?thesis by simp
  qed
qed

lemma voice_inv_cleared:
  assumes "voice_inv d s" and "plain_id c" and "kv s' = (kv s)(voiceKey c := None, voiceActiveSinceKey c := None)"
  shows "voice_inv d s'"
  unfolding voice_inv_def
proof (intro allI impI)
  fix c' assume c': "plain_id c'"
  show "room_ok d (kv s') c'"
  proof (cases "c' = c")
    case True
    with assms(2,3) show ?thesis by (simp add: room_ok_def)
  next
    case False
    with c' assms(2,3) have "room_ok d (kv s') c' = room_ok d (kv s) c'" by (intro room_ok_local) simp_all
    with voice_invD [OF assms(1) c'] show ?thesis by simp
  qed
qed

lemma voice_inv_same: "kv s' = kv s \<Longrightarrow> voice_inv d s' = voice_inv d s"
  by (simp add: voice_inv_def)

section \<open>The operations on the roster\<close>

lemma roster_entry:
  assumes "room_ok d (kv s) c" and "roster_of d s c u = Some ps"
  shows "ps_UserID ps = u \<and> ps_ChannelID ps = c"
proof -
  obtain t where "map_of (room_fields (kv s) c) u = Some t" "vd_Unmarshal d t = Some ps"
    using assms(2) by (auto simp: roster_of_def split: Option.bind_splits)
  with assms(1) map_of_SomeD [OF this(1)] show ?thesis
    by (fastforce simp: room_ok_def room_fields_def list_all_iff split: option.splits prod.splits rvalue.splits)
qed

definition keeps_place :: "(ParticipantState \<Rightarrow> ParticipantState) \<Rightarrow> bool" where
  "keeps_place f \<longleftrightarrow> (\<forall>ps. ps_UserID (f ps) = ps_UserID ps \<and> ps_ChannelID (f ps) = ps_ChannelID ps)"

text \<open>The state after a participant was put into a room that has its mark.\<close>

definition put_state :: "voice_deps \<Rightarrow> string \<Rightarrow> string \<Rightarrow> ParticipantState \<Rightarrow> vstate \<Rightarrow> vstate \<Rightarrow> bool" where
  "put_state d c u ps s s' \<longleftrightarrow>
     (\<exists>t n. vd_Unmarshal d t = Some ps \<and>
        kv s' = (kv s)(voiceKey c \<mapsto> (RHash (put_field u t (room_fields (kv s) c)), None),
                       voiceActiveSinceKey c \<mapsto> (RInt n, None)))"

lemma put_state_roster:
  assumes "put_state d c u ps s s'" and "plain_id c" and "plain_id c'"
  shows "roster_of d s' c' u' = (if c' = c \<and> u' = u then Some ps else roster_of d s c' u')"
proof -
  obtain t n where t: "vd_Unmarshal d t = Some ps"
    "kv s' = (kv s)(voiceKey c \<mapsto> (RHash (put_field u t (room_fields (kv s) c)), None), voiceActiveSinceKey c \<mapsto> (RInt n, None))"
    using assms(1) by (auto simp: put_state_def)
  show ?thesis by (rule roster_of_put [OF _ t(1) assms(3)]) (simp add: t(2))
qed

lemma put_state_inv:
  assumes "put_state d c u ps s s'" and "voice_inv d s" and "plain_id c" and "ps_UserID ps = u" and "ps_ChannelID ps = c"
  shows "voice_inv d s'"
  using assms(1) voice_inv_put [OF assms(2,3) _ assms(4,5)] by (auto simp: put_state_def)

lemma put_state_kv: "kv s' = kv s'' \<Longrightarrow> put_state d c u ps s s' = put_state d c u ps s s''"
  by (simp add: put_state_def)

lemma toggleField_roster:
  assumes "fault_free e" and "json_ok d" and "\<not> vd_redis_nil d" and "voice_inv d s" and "plain_id c" and "keeps_place f"
  shows "case roster_of d s c u of
           None \<Rightarrow> toggleField e d u c f s = (Inl VNotInChannel, s)
         | Some ps \<Rightarrow> is_ok (fst (toggleField e d u c f s)) \<and> put_state d c u (f ps) s (snd (toggleField e d u c f s))"
proof (cases "roster_of d s c u")
  case None
  then show ?thesis
    using assms GetParticipant_roster [of "at e 0" d s c u, OF _ _ voice_invD] by (simp add: toggleField_def)
next
  case (Some ps)
  have room: "room_ok d (kv s) c" using assms(4,5) by (rule voice_invD)
  have get: "GetParticipant (at e 0) d c u s = Inr (Some ps)"
    using GetParticipant_roster [of "at e 0" d s c u] assms(1,3) room Some by simp
  have at_f: "ps_UserID (f ps) = u" "ps_ChannelID (f ps) = c"
    using roster_entry [OF room Some] assms(6) by (auto simp: keeps_place_def)
  obtain t where t: "vd_Marshal d (f ps) = Some t" "vd_Unmarshal d t = Some (f ps)"
    using assms(2) by (auto simp: json_ok_def)
  define s1 where "s1 = set_kv ((kv s)(voiceKey c \<mapsto> (RHash (put_field u t (room_fields (kv s) c)), None))) s"
  have set: "SetParticipant (at e 1) d (f ps) s = (Inr (), s1)"
    using SetParticipant_kv [of "at e 1" d s "f ps" t] assms(1,3) room t(1) by (simp add: at_f s1_def)
  obtain n where n: "kv s (voiceActiveSinceKey c) = Some (RInt n, None)"
    using room Some by (cases rule: room_cases) (auto simp: roster_of_def)
  have upd: "kv s1 = (kv s)(voiceKey c \<mapsto> (RHash (put_field u t (room_fields (kv s) c)), None), voiceActiveSinceKey c \<mapsto> (RInt n, None))"
    using n assms(5) by (auto simp: s1_def fun_eq_iff)
  have "GetChannelState (at e 3) d c s2 \<noteq> Inl x" if "kv s2 = kv s1" for s2 x
    using that assms(1) by (simp add: GetChannelState_def r_HGetAll_def hash_of_def s1_def)
  then have "is_ok (fst (toggleField e d u c f s))"
    by (auto simp: toggleField_def get set [simplified] Let_def is_ok_def split: sum.splits)
  moreover have "kv (snd (toggleField e d u c f s)) = kv s1"
    by (simp add: toggleField_def get set [simplified] Let_def)
  ultimately show ?thesis using Some t(2) upd unfolding put_state_def by auto
qed

lemma EnsureActiveSince_put:
  assumes "fault_free e" and "\<not> vd_redis_nil d" and "room_ok d (kv s) c" and "plain_id c"
    and "kv s1 = (kv s)(voiceKey c \<mapsto> h)"
  shows "\<exists>n. kv (snd (EnsureActiveSince e d c s1)) = (kv s)(voiceKey c \<mapsto> h, voiceActiveSinceKey c \<mapsto> (RInt n, None))"
proof -
  have "kv s1 (voiceActiveSinceKey c) = None \<or> (\<exists>n. kv s1 (voiceActiveSinceKey c) = Some (RInt n, None))"
    using assms(3,4,5) by (cases rule: room_cases [OF assms(3)]) auto
  from EnsureActiveSince_kv [OF assms(1,2) this] assms(5) show ?thesis by auto
qed

lemma v_JoinChannel_put:
  assumes "fault_free e" and "json_ok d" and "\<not> vd_redis_nil d" and "voice_inv d s" and "plain_id c"
    and "v_JoinChannel e d u g c s = (Inr res, s')"
  shows "\<exists>name avatar. put_state d c u (joined_state u name avatar g c) s s'"
proof -
  obtain s1 where join: "may_join (at e 0) u g c s = (True, s1)"
    using assms(6) by (auto simp: v_JoinChannel_def split: if_splits prod.splits bool.splits)
  define s2 where "s2 = lk_send (LkCreateRoom c 300 100 (room_meta_text g c)) s1"
  obtain name avatar where prof: "profile_of (at e 2) d u s2 = (name, avatar)" by fastforce
  have kv2: "kv s2 = kv s" using join by (simp add: s2_def)
  let ?ps = "joined_state u name avatar g c"
  obtain t where t: "vd_Marshal d ?ps = Some t" "vd_Unmarshal d t = Some ?ps" using assms(2) by (auto simp: json_ok_def)
  have room: "room_ok d (kv s) c" using assms(4,5) by (rule voice_invD)
  define s3 where "s3 = set_kv ((kv s)(voiceKey c \<mapsto> (RHash (put_field u t (room_fields (kv s) c)), None))) s2"
  have set: "SetParticipant (at e 3) d ?ps s2 = (Inr (), s3)"
    using SetParticipant_kv [of "at e 3" d s2 ?ps t] assms(1,3) room t(1) kv2
    by (simp add: s3_def) (simp add: joined_state_def)
  have "s' = snd (broadcastChannelState (at e 5) d c (snd (EnsureActiveSince (at e 4) d c s3)))"
    using assms(6) join prof set
    by (auto simp: v_JoinChannel_def s2_def [symmetric] Let_def split: if_splits option.splits)
  then have "kv s' = kv (snd (EnsureActiveSince (at e 4) d c s3))" by simp
  moreover obtain n where "kv (snd (EnsureActiveSince (at e 4) d c s3)) = (kv s)(voiceKey c \<mapsto>
      (RHash (put_field u t (room_fields (kv s) c)), None), voiceActiveSinceKey c \<mapsto> (RInt n, None))"
    using EnsureActiveSince_put [OF _ assms(3) room assms(5), of "at e 4" s3] assms(1) by (auto simp: s3_def)
  ultimately show ?thesis using t(2) unfolding put_state_def by auto
qed

lemma leave_kv:
  assumes "fault_free e" and "\<not> vd_redis_nil d" and "vd_roomClient d" and "voice_inv d s" and "plain_id c"
  shows "kv (snd (v_LeaveChannel e d u g c s)) = removed (kv s) c u"
  using RemoveParticipant_kv(1) [of "at e 0" d "lk_send (LkRemoveParticipant c u) s" c u] assms(1-3,5)
    voice_invD [OF assms(4,5)]
  by (simp add: v_LeaveChannel_def Let_def)

text \<open>
  The self controls that need no permission, each with what it does to the state of its user, and
  the two that need the permission to stream.
\<close>

definition controls :: "((env \<Rightarrow> voice_deps \<Rightarrow> string \<Rightarrow> string \<Rightarrow> vstate \<Rightarrow> (voice_error + ParticipantState list) \<times> vstate) \<times>
    (ParticipantState \<Rightarrow> ParticipantState)) list" where
  "controls =
     [(Mute, \<lambda>ps. ps\<lparr>ps_SelfMute := True\<rparr>), (Unmute, \<lambda>ps. ps\<lparr>ps_SelfMute := False\<rparr>),
      (Deafen, \<lambda>ps. ps\<lparr>ps_SelfDeaf := True, ps_SelfMute := True\<rparr>),
      (Undeafen, \<lambda>ps. ps\<lparr>ps_SelfDeaf := False, ps_SelfMute := False\<rparr>),
      (DisableVideo, \<lambda>ps. ps\<lparr>ps_Video := False\<rparr>), (StopScreenShare, \<lambda>ps. ps\<lparr>ps_ScreenShare := False\<rparr>)]"

definition stream_controls :: "((env \<Rightarrow> voice_deps \<Rightarrow> string \<Rightarrow> string \<Rightarrow> vstate \<Rightarrow> (voice_error + ParticipantState list) \<times> vstate) \<times>
    (ParticipantState \<Rightarrow> ParticipantState)) list" where
  "stream_controls =
     [(EnableVideo, \<lambda>ps. ps\<lparr>ps_Video := True\<rparr>), (StartScreenShare, \<lambda>ps. ps\<lparr>ps_ScreenShare := True\<rparr>)]"

lemma controls_toggle:
  "(run, f) \<in> set controls \<Longrightarrow> run e d u c s = toggleField e d u c f s"
  "(run, f) \<in> set controls \<Longrightarrow> keeps_place f"
  by (auto simp: controls_def Mute_def Unmute_def Deafen_def Undeafen_def DisableVideo_def StopScreenShare_def keeps_place_def)

lemma stream_controls_toggle:
  "(run, f) \<in> set stream_controls \<Longrightarrow> run e d u c s =
     (if requireStreamPerm (at e 0) d u c s then toggleField (at e 1) d u c f s else (Inl VErrInsufficientPermissions, s))"
  "(run, f) \<in> set stream_controls \<Longrightarrow> keeps_place f"
  by (auto simp: stream_controls_def EnableVideo_def StartScreenShare_def keeps_place_def)

text \<open>
  All eight, each with whether it needs the permission to stream. Who may stream: everybody while no
  authorisation client is configured; else, for an entry that names a guild, the users with the
  permission there.
\<close>

definition self_controls :: "(bool \<times> (env \<Rightarrow> voice_deps \<Rightarrow> string \<Rightarrow> string \<Rightarrow> vstate \<Rightarrow> (voice_error + ParticipantState list) \<times> vstate) \<times>
    (ParticipantState \<Rightarrow> ParticipantState)) list" where
  "self_controls = map (Pair False) controls @ map (Pair True) stream_controls"

definition may_stream :: "env \<Rightarrow> voice_deps \<Rightarrow> string \<Rightarrow> string \<Rightarrow> vstate \<Rightarrow> bool" where
  "may_stream e d u c s \<longleftrightarrow> authz_nil e \<or>
     (\<forall>ps. roster_of d s c u = Some ps \<longrightarrow> ps_GuildID ps = [] \<or> CanStream (at (at e 0) 1) u (ps_GuildID ps) (db s))"

lemma requireStreamPerm_roster:
  assumes "fault_free e" and "\<not> vd_redis_nil d" and "voice_inv d s" and "plain_id c"
  shows "requireStreamPerm (at e 0) d u c s = may_stream e d u c s"
  using GetParticipant_roster [of "at (at e 0) 0" d s c u, OF _ assms(2) voice_invD [OF assms(3,4)]] assms(1)
  by (auto simp: requireStreamPerm_def may_stream_def split: option.splits)

lemma self_controls_toggle:
  assumes "fault_free e" and "\<not> vd_redis_nil d" and "voice_inv d s" and "plain_id c"
    and "(needs, run, f) \<in> set self_controls"
  shows "keeps_place f"
    and "\<exists>e'. fault_free e' \<and> run e d u c s =
      (if needs \<longrightarrow> may_stream e d u c s then toggleField e' d u c f s else (Inl VErrInsufficientPermissions, s))"
proof -
  let ?run = "\<exists>e'. fault_free e' \<and> run e d u c s =
      (if needs \<longrightarrow> may_stream e d u c s then toggleField e' d u c f s else (Inl VErrInsufficientPermissions, s))"
  from assms(5) consider "\<not> needs" "(run, f) \<in> set controls" | "needs" "(run, f) \<in> set stream_controls"
    by (auto simp: self_controls_def)
  then have "keeps_place f \<and> ?run"
  proof cases
    case 1
    then show ?thesis using assms(1) controls_toggle [OF 1(2)] by auto
  next
    case 2
    have "fault_free (at e 1)" using assms(1) by simp
    then have ?run
      using 2(1) stream_controls_toggle(1) [OF 2(2)] requireStreamPerm_roster [OF assms(1-4)]
      by (intro exI [of _ "at e 1"]) simp
    with stream_controls_toggle(2) [OF 2(2)] show ?thesis by simp
  qed
  then show "keeps_place f" and ?run by blast+
qed

text \<open>
  C19: the voice operations refine updates of the roster: on a store where every room is well formed and
  nothing fails, a successful join enters the user with all flags clear, a leave removes the user, and each of
  the eight self controls (mute, deafen, camera and screen share, on and off) changes exactly its flags of a user
  who is in the room. A control is refused for a user who is not there, and switching on the camera or the screen
  share also for one who may not stream in the guild. Every other entry of every room stays as it was.
\<close>

theorem voice_refines_roster:
  assumes "fault_free e" and "json_ok d" and "\<not> vd_redis_nil d" and "vd_roomClient d" and "voice_inv d s"
    and "plain_id c" and "plain_id c'" and "(needs, run, f) \<in> set self_controls"
  shows "(v_JoinChannel e d u g c s = (Inr res, s1) \<longrightarrow>
            (\<exists>name avatar. roster_of d s1 c' u' =
               (if c' = c \<and> u' = u then Some (joined_state u name avatar g c) else roster_of d s c' u'))) \<and>
         roster_of d (snd (v_LeaveChannel e d u g c s)) c' u' =
           (if c' = c \<and> u' = u then None else roster_of d s c' u') \<and>
         roster_of d (snd (run e d u c s)) c' u' =
           (if c' = c \<and> u' = u \<and> (needs \<longrightarrow> may_stream e d u c s) then map_option f (roster_of d s c u)
            else roster_of d s c' u') \<and>
         (is_ok (fst (run e d u c s)) \<longleftrightarrow> roster_of d s c u \<noteq> None \<and> (needs \<longrightarrow> may_stream e d u c s))"
proof -
  have "roster_of d (snd (v_LeaveChannel e d u g c s)) c' u' = (if c' = c \<and> u' = u then None else roster_of d s c' u')"
    by (rule roster_of_removed [OF leave_kv [OF assms(1,3-6)] assms(6,7)])
  moreover have "\<exists>name avatar. roster_of d s1 c' u' =
      (if c' = c \<and> u' = u then Some (joined_state u name avatar g c) else roster_of d s c' u')"
    if "v_JoinChannel e d u g c s = (Inr res, s1)"
    using v_JoinChannel_put [OF assms(1-3,5,6) that] put_state_roster [OF _ assms(6,7)] by blast
  moreover note ctl = self_controls_toggle [OF assms(1,3,5,6,8)]
  from ctl(2) [of u] obtain e' where e': "fault_free e'" and run: "run e d u c s =
      (if needs \<longrightarrow> may_stream e d u c s then toggleField e' d u c f s else (Inl VErrInsufficientPermissions, s))"
    by blast
  note toggleField_roster [OF e' assms(2,3,5,6) ctl(1), of u]
  then have "roster_of d (snd (run e d u c s)) c' u' =
      (if c' = c \<and> u' = u \<and> (needs \<longrightarrow> may_stream e d u c s) then map_option f (roster_of d s c u)
       else roster_of d s c' u')"
    "is_ok (fst (run e d u c s)) \<longleftrightarrow> roster_of d s c u \<noteq> None \<and> (needs \<longrightarrow> may_stream e d u c s)"
    using put_state_roster [OF _ assms(6,7)] run by (auto split: option.splits)
  ultimately show ?thesis by blast
qed

section \<open>Reachable rooms\<close>

text \<open>
  Everything that writes a room: joins, leaves, the self controls, the events of LiveKit and the
  clean-up of a snapshot, each without a failing statement and on channels with plain identifiers.
\<close>

inductive voice_step :: "voice_deps \<Rightarrow> vstate \<Rightarrow> vstate \<Rightarrow> bool" for d where
  join: "fault_free e \<Longrightarrow> plain_id c \<Longrightarrow> voice_step d s (snd (v_JoinChannel e d u g c s))"
| leave: "fault_free e \<Longrightarrow> plain_id c \<Longrightarrow> voice_step d s (snd (v_LeaveChannel e d u g c s))"
| control: "fault_free e \<Longrightarrow> plain_id c \<Longrightarrow> (run, f) \<in> set controls \<Longrightarrow> voice_step d s (snd (run e d u c s))"
| stream: "fault_free e \<Longrightarrow> plain_id c \<Longrightarrow> (run, f) \<in> set stream_controls \<Longrightarrow> voice_step d s (snd (run e d u c s))"
| moderate: "voice_step d s (snd (v_ServerMuteUser d c u b s))"
| deafen: "voice_step d s (snd (v_ServerDeafenUser d c u b s))"
| disconnect: "voice_step d s (snd (v_DisconnectUser d c u s))"
| call: "voice_step d s (snd (StartDMCall e d u c v s))"
| accept: "voice_step d s (snd (JoinDMCall e d u c v s))"
| reject: "voice_step d s (snd (RejectDMCall e d u c s))"
| hang_up: "voice_step d s (snd (LeaveDMCall e d u c s))"
| webhook: "fault_free e \<Longrightarrow> plain_id (rm_ChannelID (fst (resolveRoomMeta d event s))) \<Longrightarrow>
    voice_step d s (handleEvent e d event s)"
| snapshot: "fault_free e \<Longrightarrow> plain_id c \<Longrightarrow> voice_step d s (snd (Snapshot_GetChannelParticipants e d c s))"

lemma v_JoinChannel_failed_kv:
  "v_JoinChannel e d u g c s = (Inl x, s') \<Longrightarrow> kv s' = kv s"
  by (auto simp: v_JoinChannel_def Let_def split: if_splits prod.splits bool.splits option.splits dest: may_join_kv)

lemma resolveRoomMeta_kv: "resolveRoomMeta d event s = (m, s') \<Longrightarrow> kv s' = kv s"
  by (auto simp: resolveRoomMeta_def Let_def split: if_splits option.splits)

lemma call_kv:
  "kv (snd (StartDMCall e d u c v s)) = kv s" "kv (snd (JoinDMCall e d u c v s)) = kv s"
  "kv (snd (RejectDMCall e d u c s)) = kv s" "kv (snd (LeaveDMCall e d u c s)) = kv s"
  by (simp_all add: StartDMCall_def JoinDMCall_def RejectDMCall_def LeaveDMCall_def Let_def split: option.splits)

lemma moderation_kv:
  "kv (snd (v_ServerMuteUser d c u b s)) = kv s" "kv (snd (v_ServerDeafenUser d c u b s)) = kv s"
  "kv (snd (v_DisconnectUser d c u s)) = kv s"
  by (simp_all add: v_ServerMuteUser_def v_ServerDeafenUser_def v_DisconnectUser_def)

lemma toggle_inv:
  assumes "fault_free e" and "json_ok d" and "\<not> vd_redis_nil d" and "voice_inv d s" and "plain_id c" and "keeps_place f"
  shows "voice_inv d (snd (toggleField e d u c f s))"
proof (cases "roster_of d s c u")
  case None
  with toggleField_roster [OF assms, of u] assms(4) show ?thesis by simp
next
  case (Some ps)
  with toggleField_roster [OF assms, of u] have "put_state d c u (f ps) s (snd (toggleField e d u c f s))" by simp
  moreover have "ps_UserID (f ps) = u \<and> ps_ChannelID (f ps) = c"
    using roster_entry [OF voice_invD [OF assms(4,5)] Some] assms(6) by (simp add: keeps_place_def)
  ultimately show ?thesis using put_state_inv [OF _ assms(4,5)] by blast
qed

lemma RemoveParticipant_inv:
  assumes "fault_free e" and "\<not> vd_redis_nil d" and "voice_inv d s" and "plain_id c"
  shows "voice_inv d (snd (RemoveParticipant e d c u s))"
  by (rule voice_inv_removed [OF assms(3,4) RemoveParticipant_kv(1) [OF assms(1,2) voice_invD [OF assms(3,4)] assms(4)]])

lemma drop_stale_inv:
  assumes "fault_free e" and "\<not> vd_redis_nil d" and "voice_inv d s" and "plain_id c"
  shows "voice_inv d (drop_stale e d c present redisMap s)"
proof -
  have "voice_inv d (fold (\<lambda>(i, uid) s. if uid \<in> set present then s else snd (RemoveParticipant (at e i) d c uid s)) xs s)" for xs
    using assms(3)
  proof (induction xs arbitrary: s)
    case (Cons x xs)
    then show ?case using RemoveParticipant_inv [OF _ assms(2) _ assms(4)] assms(1) by (simp add: prod.case_eq_if)
  qed simp
  then show ?thesis by (simp add: drop_stale_def)
qed

lemma handleEvent_inv:
  assumes "fault_free e" and "\<not> vd_redis_nil d" and "voice_inv d s" and "plain_id (rm_ChannelID (fst (resolveRoomMeta d event s)))"
  shows "voice_inv d (handleEvent e d event s)"
proof -
  obtain m s1 where res: "resolveRoomMeta d event s = (m, s1)" by fastforce
  have inv: "voice_inv d s1" using voice_inv_same [OF resolveRoomMeta_kv [OF res]] assms(3) by simp
  have plain: "plain_id (rm_ChannelID m)" using assms(4) res by simp
  have same: "voice_inv d s2" if "kv s2 = kv s1" for s2 using voice_inv_same [OF that] inv by simp
  have clear: "voice_inv d s2" if "kv s2 = (kv s1)(voiceKey (rm_ChannelID m) := None, voiceActiveSinceKey (rm_ChannelID m) := None)" for s2
    using voice_inv_cleared [OF inv plain that] .
  have gone: "voice_inv d s2" if "kv s2 = kv (snd (RemoveParticipant (at e 0) d (rm_ChannelID m) u s1))" for s2 u
    using voice_inv_same [OF that] RemoveParticipant_inv [OF _ assms(2) inv plain] assms(1) by simp
  note ev = handleEvent_def res prod.case
  have "''participant_joined'' \<noteq> ''participant_left''" by simp
  then consider (start) "wh_Event event = ''room_started''"
    | (finish) "wh_Event event \<noteq> ''room_started''" "wh_Event event = ''room_finished''"
    | (left) "wh_Event event \<noteq> ''room_started''" "wh_Event event \<noteq> ''room_finished''"
        "wh_Event event \<noteq> ''participant_joined''" "wh_Event event = ''participant_left''"
    | (other) "wh_Event event \<noteq> ''room_started''" "wh_Event event \<noteq> ''room_finished''" "wh_Event event \<noteq> ''participant_left''"
    by metis
  then show ?thesis
  proof cases
    case start
    show ?thesis unfolding ev if_P [OF start] by (rule same) simp
  next
    case finish
    show ?thesis unfolding ev if_not_P [OF finish(1)] if_P [OF finish(2)] Let_def
      by (rule clear) (use assms(1,2) in \<open>simp add: ClearActiveSince_def ClearChannel_def r_Del_def\<close>)
  next
    case left
    show ?thesis
      unfolding ev if_not_P [OF left(1)] if_not_P [OF left(2)] if_not_P [OF left(3)] if_P [OF left(4)] Let_def
    proof (cases "wh_Participant event")
      case None
      then show "voice_inv d (case wh_Participant event of None \<Rightarrow> s1 | Some p \<Rightarrow> hook_publish (at e 2) d m
          ((voice_event VOICE_ACTION_LEAVE)\<lparr>ve_UserId := pi_Identity p\<rparr>) (snd (broadcastChannelState (at e 1) d (rm_ChannelID m)
            (snd (RemoveParticipant (at e 0) d (rm_ChannelID m) (pi_Identity p) s1)))))"
        using inv by simp
    next
      case (Some p)
      show "voice_inv d (case wh_Participant event of None \<Rightarrow> s1 | Some p \<Rightarrow> hook_publish (at e 2) d m
          ((voice_event VOICE_ACTION_LEAVE)\<lparr>ve_UserId := pi_Identity p\<rparr>) (snd (broadcastChannelState (at e 1) d (rm_ChannelID m)
            (snd (RemoveParticipant (at e 0) d (rm_ChannelID m) (pi_Identity p) s1)))))"
        unfolding Some option.case by (rule gone) simp
    qed
  next
    case other
    show ?thesis
      unfolding ev if_not_P [OF other(1)] if_not_P [OF other(2)] if_not_P [OF other(3)]
      by (rule same) (simp add: publishTrackEvent_def publishParticipantState_def Let_def split: option.split)
  qed
qed

text \<open>
  C20: rooms stay well formed: from a store where they are, every state that the voice service and the
  events of LiveKit reach, in a run in which no Redis command or statement fails, has in each room either nobody and no active-since mark, or at least one
  participant, each entry readable and under its own user and channel, and a mark.
\<close>

theorem voice_rooms_invariant:
  assumes "(voice_step d)\<^sup>*\<^sup>* s s'" and "voice_inv d s" and "json_ok d" and "\<not> vd_redis_nil d"
  shows "voice_inv d s'"
  using assms(1,2)
proof (induction rule: rtranclp_induct)
  case (step y z)
  then have y: "voice_inv d y" by simp
  from step.hyps(2) show ?case
  proof cases
    case (join e c u g)
    show ?thesis
    proof (cases "v_JoinChannel e d u g c y")
      case (Pair r w)
      show ?thesis
      proof (cases r)
        case (Inl x)
        then show ?thesis using Pair join(1) voice_inv_same [OF v_JoinChannel_failed_kv [of e d u g c y x w]] y by simp
      next
        case (Inr res)
        with Pair have run: "v_JoinChannel e d u g c y = (Inr res, w)" by simp
        obtain name avatar where "put_state d c u (joined_state u name avatar g c) y w"
          using v_JoinChannel_put [OF join(2) assms(3,4) y join(3) run] by blast
        from put_state_inv [OF this y join(3)] run join(1) show ?thesis by (simp add: joined_state_def)
      qed
    qed
  next
    case (leave e c u g)
    show ?thesis
    proof (cases "vd_roomClient d")
      case True
      from voice_inv_removed [OF y leave(3) leave_kv [OF leave(2) assms(4) True y leave(3)]] leave(1) show ?thesis by simp
    next
      case False
      with y leave(1) show ?thesis by (simp add: v_LeaveChannel_def)
    qed
  next
    case (control e c run f u)
    then show ?thesis
      using toggle_inv [OF control(2) assms(3,4) y control(3) controls_toggle(2)] controls_toggle(1) by simp
  next
    case (stream e c run f u)
    have "voice_inv d (snd (toggleField (at e 1) d u c f y))"
      using toggle_inv [OF _ assms(3,4) y stream(3) stream_controls_toggle(2) [OF stream(4)], of "at e 1" u] stream(2) by simp
    with y stream(1) stream_controls_toggle(1) [OF stream(4), of e d u c y] show ?thesis by simp
  next
    case (webhook e event)
    then show ?thesis using handleEvent_inv [OF _ assms(4) y] by simp
  next
    case (snapshot e c)
    then show ?thesis
      using drop_stale_inv [of "at e 3" d y c] assms(4) y
      by (simp add: Snapshot_GetChannelParticipants_def Let_def)
  qed (use y in \<open>simp_all add: voice_inv_same [OF call_kv(1)] voice_inv_same [OF call_kv(2)] voice_inv_same [OF call_kv(3)]
      voice_inv_same [OF call_kv(4)] voice_inv_same [OF moderation_kv(1)] voice_inv_same [OF moderation_kv(2)]
      voice_inv_same [OF moderation_kv(3)]\<close>)
qed simp

section \<open>Gates\<close>

text \<open>
  C21: who may join a voice channel of a guild: a join that names a guild succeeds only for a user who
  may view the channel and has the connect permission in that guild; otherwise it is refused,
  LiveKit is not called and the rooms stay as they are.
\<close>

theorem JoinChannel_guild_gate:
  assumes "g \<noteq> []" and "\<not> authz_nil e" and "vd_roomClient d"
    and "CanViewChannel (at (at e 0) 0) u c (db s) = (view, w)"
  shows "(is_ok (fst (v_JoinChannel e d u g c s)) \<longrightarrow> view \<and> CanConnect (at (at e 0) 1) u g w) \<and>
         (\<not> (view \<and> CanConnect (at (at e 0) 1) u g w) \<longrightarrow>
            v_JoinChannel e d u g c s = (Inl VErrInsufficientPermissions, set_db w s))"
proof -
  have join: "may_join (at e 0) u g c s = (view \<and> CanConnect (at (at e 0) 1) u g w, set_db w s)"
    using assms(1,2,4) by (simp add: may_join_def)
  then show ?thesis
    using assms(3) by (cases "view \<and> CanConnect (at (at e 0) 1) u g w") (auto simp: v_JoinChannel_def)
qed

text \<open>
  The gate is the caller's word: a join that names no guild is not checked at all. Whatever the
  channel and the permissions of the user, when LiveKit answers it returns a token for the room of
  that channel.
\<close>

theorem JoinChannel_no_guild_unguarded:
  assumes "vd_roomClient d" and "vd_CreateRoom d c" and "\<And>m. vd_ToJWT d c u m = Some token"
  shows "\<exists>s'. v_JoinChannel e d u [] c s = (Inr (join_result d c token), s') \<and>
           vs_lk s' = vs_lk s @ [LkCreateRoom c 300 100 (room_meta_text [] c)]"
proof -
  let ?s2 = "lk_send (LkCreateRoom c 300 100 (room_meta_text [] c)) s"
  have lk: "vs_lk (snd (SetParticipant e' d ps s')) = vs_lk s'" "vs_lk (snd (EnsureActiveSince e' d c s')) = vs_lk s'" for e' ps s'
    by (simp_all add: SetParticipant_def EnsureActiveSince_def Let_def split: option.splits sum.splits prod.splits bool.splits)
  have tok: "buildToken (at e 1) d c u ?s2 = Some token" using assms(3) by (simp add: buildToken_def)
  obtain name avatar where prof: "profile_of (at e 2) d u ?s2 = (name, avatar)" by fastforce
  have "v_JoinChannel e d u [] c s = (Inr (join_result d c token), snd (broadcastChannelState (at e 5) d c
      (snd (EnsureActiveSince (at e 4) d c (snd (SetParticipant (at e 3) d (joined_state u name avatar [] c) ?s2))))))"
    by (simp add: v_JoinChannel_def may_join_def assms(1,2) tok prof Let_def del: One_nat_def)
  then show ?thesis by (simp add: lk)
qed

text \<open>
  C22: calls ring the members and nobody else may touch them: each of the four call operations is
  refused for a user who is not a member of the channel and then changes nothing; a call that
  starts rings exactly the members, in order, with the caller and the video flag.
\<close>

theorem dm_call_members_only:
  assumes "vd_roomClient d" and "vd_dm d"
  shows "(IsDMMember (at e 0) c u (db s) = Inr False \<longrightarrow>
            StartDMCall e d u c v s = (Inl ErrNotDMMember, s) \<and> JoinDMCall e d u c v s = (Inl ErrNotDMMember, s) \<and>
            RejectDMCall e d u c s = (Inl ErrNotDMMember, s) \<and> LeaveDMCall e d u c s = (Inl ErrNotDMMember, s)) \<and>
         (StartDMCall e d u c v s = (Inr res, s') \<longrightarrow>
            IsDMMember (at e 0) c u (db s) = Inr True \<and>
            outbox (db s') = outbox (db s) @ map (\<lambda>m. (DmCall m, DmCallEvt ((dm_call DM_CALL_INCOMING c)
              \<lparr>dc_CallerId := u, dc_Video := v\<rparr>))) (call_members (at e 2) c s))"
proof -
  have rung: "outbox (db (ring ms p t)) = outbox (db t) @ map (\<lambda>m. (DmCall m, DmCallEvt p)) ms" for ms p t
    unfolding ring_def
  proof (induction ms arbitrary: t)
    case (Cons m ms)
    then show ?case by (simp add: v_publish_def outbox_Publish)
  qed simp
  have members: "call_members e' c (lk_send x t) = call_members e' c t" for e' x t
    by (simp add: call_members_def)
  show ?thesis
    using assms
    by (auto simp: StartDMCall_def JoinDMCall_def RejectDMCall_def LeaveDMCall_def dm_gate_def rung members Let_def
        split: option.splits sum.splits if_splits)
qed

text \<open>
  Moderation is open to every user: the handlers that mute, deafen and disconnect another
  participant send their command to LiveKit for any caller with a user id, whatever their
  permissions in the guild of the channel.
\<close>

theorem voice_moderation_unguarded:
  assumes "vd_roomClient d" and "vd_UpdateParticipant d c target" and "UserIDFromContext ctx \<noteq> []"
  shows "VoiceHandler_ServerMuteUser txt d c target True ctx s =
           (Inr (), lk_send (LkUpdateParticipant c target False True) s) \<and>
         VoiceHandler_ServerDeafenUser txt d c target True ctx s =
           (Inr (), lk_send (LkUpdateParticipant c target False False) s) \<and>
         VoiceHandler_DisconnectUser txt d c target ctx s = (Inr (), lk_send (LkRemoveParticipant c target) s)"
  using assms
  by (simp add: VoiceHandler_ServerMuteUser_def VoiceHandler_ServerDeafenUser_def VoiceHandler_DisconnectUser_def
      with_user_def map_error_def v_ServerMuteUser_def v_ServerDeafenUser_def v_DisconnectUser_def)

section \<open>Witnesses\<close>

text \<open>A codec of states with the law asked of JSON: each string with its length before it.\<close>

definition enc_str :: "string \<Rightarrow> string" where
  "enc_str s = Itoa (int (length s)) @ CHR ''.'' # s"

definition dec_str :: "string \<Rightarrow> (string \<times> string) option" where
  "dec_str s = map_option (\<lambda>n. (take (nat n) (after_dot s), drop (nat n) (after_dot s))) (read_int (before_dot s))"

lemma dec_enc_str: "dec_str (enc_str s @ r) = Some (s, r)"
  by (simp add: dec_str_def enc_str_def read_int_Itoa)

fun enc_strs :: "string list \<Rightarrow> string" where
  "enc_strs [] = []"
| "enc_strs (x # xs) = enc_str x @ enc_strs xs"

fun dec_strs :: "nat \<Rightarrow> string \<Rightarrow> string list option" where
  "dec_strs 0 s = Some []"
| "dec_strs (Suc n) s = (case dec_str s of None \<Rightarrow> None | Some (x, r) \<Rightarrow> map_option ((#) x) (dec_strs n r))"

lemma dec_enc_strs: "dec_strs (length xs) (enc_strs xs) = Some xs"
  by (induction xs) (simp_all add: dec_enc_str)

definition flag_text :: "bool \<Rightarrow> string" where
  "flag_text b = (if b then ''t'' else ''f'')"

definition plain_Marshal :: "ParticipantState \<Rightarrow> string option" where
  "plain_Marshal p = Some (enc_strs [ps_UserID p, ps_Username p, ps_DisplayName p, ps_AvatarURL p, ps_GuildID p,
     ps_ChannelID p, flag_text (ps_SelfMute p), flag_text (ps_SelfDeaf p), flag_text (ps_Video p), flag_text (ps_ScreenShare p)])"

definition plain_Unmarshal :: "string \<Rightarrow> ParticipantState option" where
  "plain_Unmarshal s =
     (case dec_strs 10 s of
        Some [a, b, c, d, e, f, g, h, i, j] \<Rightarrow>
          Some \<lparr>ps_UserID = a, ps_Username = b, ps_DisplayName = c, ps_AvatarURL = d, ps_GuildID = e, ps_ChannelID = f,
             ps_SelfMute = (g = ''t''), ps_SelfDeaf = (h = ''t''), ps_Video = (i = ''t''), ps_ScreenShare = (j = ''t'')\<rparr>
      | _ \<Rightarrow> None)"

lemma flag_text_t [simp]: "flag_text b = ''t'' \<longleftrightarrow> b"
  by (simp add: flag_text_def)

definition voice_world :: voice_deps where
  "voice_world = \<lparr>vd_roomClient = True, vd_URL = ''ws'', vd_CreateRoom = (\<lambda>_. True), vd_ListParticipants = (\<lambda>_. Some []),
     vd_UpdateParticipant = (\<lambda>_ _. True), vd_ToJWT = (\<lambda>_ _ _. Some ''tok''), vd_redis_nil = False, vd_dm = True,
     vd_profile = None, vd_Marshal = plain_Marshal, vd_Unmarshal = plain_Unmarshal,
     vd_UnmarshalMeta = (\<lambda>_. \<lparr>rm_GuildID = [], rm_ChannelID = []\<rparr>), vd_map_order = (\<lambda>xs. xs)\<rparr>"

lemma voice_world_json: "json_ok voice_world"
proof -
  have "plain_Unmarshal (enc_strs [a, b, c, d, e, f, flag_text g, flag_text h, flag_text i, flag_text j]) =
      Some \<lparr>ps_UserID = a, ps_Username = b, ps_DisplayName = c, ps_AvatarURL = d, ps_GuildID = e, ps_ChannelID = f,
        ps_SelfMute = g, ps_SelfDeaf = h, ps_Video = i, ps_ScreenShare = j\<rparr>" for a b c d e f g h i j
  proof -
    let ?xs = "[a, b, c, d, e, f, flag_text g, flag_text h, flag_text i, flag_text j]"
    have "length ?xs = 10" by simp
    then have "dec_strs 10 (enc_strs ?xs) = Some ?xs" using dec_enc_strs [of ?xs] by (simp only:)
    then show ?thesis by (simp only: plain_Unmarshal_def option.case list.case flag_text_t)
  qed
  then show ?thesis by (simp add: json_ok_def voice_world_def plain_Marshal_def del: enc_strs.simps)
qed

definition no_rooms :: vstate where
  "no_rooms = \<lparr>vs_sv = empty_server, vs_lk = [], vs_metas = (\<lambda>_. None)\<rparr>"

lemma no_rooms_inv: "voice_inv d no_rooms"
  by (simp add: voice_inv_def room_ok_def no_rooms_def empty_server_def empty_redis_def)

lemma voice_world_simps [simp]: "\<not> vd_redis_nil voice_world" "vd_roomClient voice_world" "vd_dm voice_world"
  by (simp_all add: voice_world_def)

theorem voice_refines_roster_witness:
  "roster_of voice_world (snd (v_LeaveChannel (request_at 0) voice_world ''u'' ''g'' ''c'' no_rooms)) ''c'' ''u'' = None \<and>
   \<not> is_ok (fst (Mute (request_at 0) voice_world ''u'' ''c'' no_rooms))"
proof -
  have "(False, Mute, \<lambda>ps. ps\<lparr>ps_SelfMute := True\<rparr>) \<in> set self_controls"
    by (simp add: self_controls_def controls_def)
  from voice_refines_roster [OF _ voice_world_json _ _ no_rooms_inv _ _ this, of "request_at 0" "''c''" "''c''" "''u''" "''g''"]
  show ?thesis
    by (simp add: fault_free_def plain_id_def) (simp add: roster_of_def room_fields_def no_rooms_def empty_server_def empty_redis_def)
qed

theorem voice_rooms_invariant_witness:
  "voice_inv voice_world (snd (v_JoinChannel (request_at 0) voice_world ''u'' [] ''c'' no_rooms))"
proof -
  have "voice_step voice_world no_rooms (snd (v_JoinChannel (request_at 0) voice_world ''u'' [] ''c'' no_rooms))"
    by (rule voice_step.join) (simp_all add: fault_free_def plain_id_def)
  then have "(voice_step voice_world)\<^sup>*\<^sup>* no_rooms (snd (v_JoinChannel (request_at 0) voice_world ''u'' [] ''c'' no_rooms))"
    by (rule r_into_rtranclp)
  from voice_rooms_invariant [OF this no_rooms_inv voice_world_json] show ?thesis by simp
qed

theorem JoinChannel_no_guild_unguarded_witness:
  "\<exists>s'. v_JoinChannel (request_at 0) voice_world ''u'' [] ''c'' no_rooms = (Inr (join_result voice_world ''c'' ''tok''), s') \<and>
     vs_lk s' = vs_lk no_rooms @ [LkCreateRoom ''c'' 300 100 (room_meta_text [] ''c'')]"
  by (rule JoinChannel_no_guild_unguarded) (simp_all add: voice_world_def)

theorem voice_moderation_unguarded_witness:
  "VoiceHandler_DisconnectUser (\<lambda>_. []) voice_world ''c'' ''v''
     \<lparr>peer_addr = None, incoming_md = None, UserIDKey = Some ''u''\<rparr> no_rooms = (Inr (), lk_send (LkRemoveParticipant ''c'' ''v'') no_rooms)"
  using voice_moderation_unguarded [of voice_world "''c''" "''v''" "\<lparr>peer_addr = None, incoming_md = None, UserIDKey = Some ''u''\<rparr>"
      "\<lambda>_. []" no_rooms]
  by (simp add: voice_world_def UserIDFromContext_def)

text \<open>Requests that carry the codec of UUIDs and an authorisation client, and that answer no permission to a stranger.\<close>

definition guarded_at :: env where
  "guarded_at = (text_at 0)\<lparr>authz_nil := False\<rparr>"

theorem JoinChannel_guild_gate_witness:
  "\<not> is_ok (fst (v_JoinChannel guarded_at voice_world ''u'' ''g'' ''c'' no_rooms))"
proof -
  have "\<not> CanConnect (at (at guarded_at 0) 1) ''u'' ''g'' w" for w
  proof -
    have "parseUUID (at (at guarded_at 0) 1) ''u'' = None"
      by (simp add: parseUUID_def guarded_at_def) (simp add: uuid_read_def)
    moreover have "TrimPrefix (UserKey ''u'') ''user:'' = ''u''" by (simp add: UserKey_def TrimPrefix_def)
    moreover have "\<not> authz_nil (at (at guarded_at 0) 1)" by (simp add: guarded_at_def)
    ultimately show ?thesis unfolding CanConnect_def Check_def Let_def by (simp split: option.splits)
  qed
  moreover obtain view w where "CanViewChannel (at (at guarded_at 0) 0) ''u'' ''c'' (db no_rooms) = (view, w)" by fastforce
  ultimately show ?thesis
    using JoinChannel_guild_gate [of "''g''" guarded_at voice_world "''u''" "''c''" no_rooms view w]
    by (auto simp: guarded_at_def text_at_def request_at_def)
qed

theorem dm_call_members_only_witness:
  "(IsDMMember (at (text_at 0) 0) (uuid_text 1) (uuid_text 2) (db no_rooms) = Inr False \<and>
    StartDMCall (text_at 0) voice_world (uuid_text 2) (uuid_text 1) True no_rooms = (Inl ErrNotDMMember, no_rooms))"
proof -
  have "IsDMMember (at (text_at 0) 0) (uuid_text 1) (uuid_text 2) (db no_rooms) = Inr False"
    by (simp add: IsDMMember_def parseUUID_def uuid_read_text q_IsDMChannelMember_def live_dm_member_def no_rooms_def empty_server_def empty_world_def)
  with dm_call_members_only [of voice_world "text_at 0" "uuid_text 1" "uuid_text 2" no_rooms True] show ?thesis by simp
qed

end
