(* ===== verification/EventStream.thy ===== *)
theory EventStream
  imports VoiceLaws
begin

text \<open>
  Event streams, internal/features/stream (handler.go, resolver.go) and the subscriptions of
  internal/shared/realtime/nats.go. A stream opens subscriptions on subjects and forwards what
  arrives until the client leaves; the messages that arrive meanwhile are an argument, each the
  subject it was published on and its JSON text. A stream reads every text as its own type of event,
  whatever type was published, and the cache keeps the text. NATS matches a subject against a subscription token by token, an
  asterisk matching any one token, and delivers a message once per matching subscription;
  subscribing and sending are taken to succeed. encoding/json
  is a parameter: the text of an event, and the event of a type that a text is read as.
\<close>

section \<open>Subscriptions, nats.go\<close>

definition subject_matches :: "string \<Rightarrow> string \<Rightarrow> bool" where
  "subject_matches pat subj = list_all2 (\<lambda>p t. p = ''*'' \<or> p = t) (tokens pat) (tokens subj)"

text \<open>
  The events the streams send. Two types are read but never published: DmChatEvent, which has the fields of
  TextChannelEvent less the guild, and VoiceChatEvent, which has all of them.
\<close>

record DmChatEvent =
  de_Type :: ChatEventType
  de_ChannelId :: string
  de_MessageId :: string
  de_SenderId :: string
  de_AuthorId :: string
  de_Content :: string
  de_ReplyToId :: string
  de_Attachments :: "ChatAttachment list"
  de_MsgType :: int
  de_Pinned :: bool
  de_Deleted :: bool
  de_Emoji :: string
  de_EditedAt :: "time option"
  de_CreatedAt :: "time option"
  de_MentionUserIds :: "string list"
  de_Reactions :: "ChatReactionCount list"
  de_ForwardedFrom :: "(string \<times> string \<times> string) option"

type_synonym VoiceChatEvent = TextChannelEvent

datatype stream_event = DmChatMsg DmChatEvent | VoiceChatMsg VoiceChatEvent | Msg event

datatype stream_type =
    AsDmChat | AsDmChannel | AsDmCall | AsTextChannel | AsVoiceChat | AsGuild | AsVoiceState | AsTyping | AsFriendActivity

record stream_deps =
  sd_viewer :: bool
  sd_snapshot :: "voice_deps option"
  sd_scan :: "string list"
  sd_presence :: "presence_deps option"
  sd_Marshal :: "event \<Rightarrow> string"
  sd_Unmarshal :: "stream_type \<Rightarrow> string \<Rightarrow> stream_event option"

type_synonym keep = "env \<Rightarrow> stream_event \<Rightarrow> world \<Rightarrow> bool \<times> world"

definition cache_key :: "string list \<Rightarrow> string" where
  "cache_key subjects = ''nats:subscribe:'' @ Join subjects '':''"

text \<open>
  One callback: a text that is not an event of the stream's type is dropped; else the handler of the
  stream decides what to send, and then the text is cached.
\<close>

definition on_message ::
    "env \<Rightarrow> stream_deps \<Rightarrow> stream_type \<Rightarrow> string list \<Rightarrow> bool \<Rightarrow> keep \<Rightarrow> string \<Rightarrow> vstate \<Rightarrow>
       stream_event list \<times> vstate" where
  "on_message e d T subjects isCache keep msg s =
     (case sd_Unmarshal d T msg of
        None \<Rightarrow> ([], s)
      | Some evt \<Rightarrow>
          (case keep (at e 0) evt (db s) of
             (ok, w) \<Rightarrow>
               (if ok then [evt] else [],
                if isCache
                then set_kv (keep_on_error (kv s) (r_Set (at e 1) (cache_key subjects) msg (5 * Minute) (kv s)))
                       (set_db w s)
                else set_db w s)))"

definition replay ::
    "env \<Rightarrow> stream_deps \<Rightarrow> stream_type \<Rightarrow> string list \<Rightarrow> keep \<Rightarrow> vstate \<Rightarrow> stream_event list \<times> vstate" where
  "replay e d T subjects keep s =
     (case r_Get (at e 0) (cache_key subjects) (kv s) of
        Inl _ \<Rightarrow> ([], s)
      | Inr msg \<Rightarrow>
          (case sd_Unmarshal d T msg of
             None \<Rightarrow> ([], s)
           | Some evt \<Rightarrow>
               (case keep (at e 1) evt (db s) of (ok, w) \<Rightarrow> (if ok then [evt] else [], set_db w s))))"

fun callbacks ::
    "env \<Rightarrow> stream_deps \<Rightarrow> stream_type \<Rightarrow> string list \<Rightarrow> bool \<Rightarrow> keep \<Rightarrow> string \<Rightarrow> nat \<Rightarrow> vstate \<Rightarrow>
       stream_event list \<times> vstate" where
  "callbacks e d T subjects isCache keep msg 0 s = ([], s)"
| "callbacks e d T subjects isCache keep msg (Suc k) s =
     (case on_message (at e k) d T subjects isCache keep msg s of
        (x, s1) \<Rightarrow> (case callbacks e d T subjects isCache keep msg k s1 of (y, s2) \<Rightarrow> (x @ y, s2)))"

definition matching :: "string list \<Rightarrow> string \<Rightarrow> nat" where
  "matching subjects subj = length (filter (\<lambda>p. subject_matches p subj) subjects)"

fun receive ::
    "env \<Rightarrow> nat \<Rightarrow> stream_deps \<Rightarrow> stream_type \<Rightarrow> string list \<Rightarrow> bool \<Rightarrow> keep \<Rightarrow> (string \<times> string) list \<Rightarrow> vstate \<Rightarrow>
       stream_event list \<times> vstate" where
  "receive e i d T subjects isCache keep [] s = ([], s)"
| "receive e i d T subjects isCache keep ((subj, msg) # msgs) s =
     (case callbacks (at e i) d T subjects isCache keep msg (matching subjects subj) s of
        (x, s1) \<Rightarrow> (case receive e (i + 1) d T subjects isCache keep msgs s1 of (y, s2) \<Rightarrow> (x @ y, s2)))"

definition MultiSubscribe ::
    "env \<Rightarrow> stream_deps \<Rightarrow> stream_type \<Rightarrow> string list \<Rightarrow> bool \<Rightarrow> keep \<Rightarrow> (string \<times> string) list \<Rightarrow> vstate \<Rightarrow>
       stream_event list \<times> vstate" where
  "MultiSubscribe e d T subjects isCache keep msgs s =
     (case (if isCache then replay (at e 0) d T subjects keep s else ([], s)) of
        (x, s1) \<Rightarrow> (case receive (at e 1) 0 d T subjects isCache keep msgs s1 of (y, s2) \<Rightarrow> (x @ y, s2)))"

section \<open>Whose streams, resolver.go\<close>

definition GetUserGuildIDs :: "env \<Rightarrow> string \<Rightarrow> world \<Rightarrow> dberr option + string list" where
  "GetUserGuildIDs e userID w =
     (case uuid_scan e userID of
        None \<Rightarrow> Inl None
      | Some uid \<Rightarrow>
          (case q_ListUserGuilds e uid w of
             Inl x \<Rightarrow> Inl (Some x)
           | Inr gs \<Rightarrow> Inr (map (\<lambda>g. uuid_string e (g_id g)) gs)))"

definition GetUserFriendIDs :: "env \<Rightarrow> string \<Rightarrow> world \<Rightarrow> dberr option + string list" where
  "GetUserFriendIDs e userID w =
     (case uuid_scan e userID of
        None \<Rightarrow> Inl None
      | Some uid \<Rightarrow>
          (case q_ListFriends e uid w of
             Inl x \<Rightarrow> Inl (Some x)
           | Inr us \<Rightarrow> Inr (map (\<lambda>u. uuid_string e (u_id u)) us)))"

section \<open>The streams, handler.go\<close>

definition event_channel :: "stream_event \<Rightarrow> string" where
  "event_channel evt =
     (case evt of
        DmChatMsg x \<Rightarrow> de_ChannelId x
      | VoiceChatMsg x \<Rightarrow> tc_ChannelId x
      | Msg v \<Rightarrow> (case v of TextEvt x \<Rightarrow> tc_ChannelId x | VoiceEvt x \<Rightarrow> ve_ChannelId x
          | TypingEvt x \<Rightarrow> ty_ChannelId x | GuildEvt x \<Rightarrow> ge_ChannelId x | DmCallEvt x \<Rightarrow> dc_ChannelId x
          | FriendEvt x \<Rightarrow> fa_ChannelId x | DmChannelEvt x \<Rightarrow> dce_Id x))"

definition canSeeChannel :: "env \<Rightarrow> stream_deps \<Rightarrow> string \<Rightarrow> string \<Rightarrow> world \<Rightarrow> bool \<times> world" where
  "canSeeChannel e d userID channelID w =
     (if \<not> sd_viewer d \<or> channelID = [] then (True, w) else CanViewChannel e userID channelID w)"

definition keep_all :: keep where
  "keep_all e evt w = (True, w)"

definition keep_visible :: "stream_deps \<Rightarrow> string \<Rightarrow> keep" where
  "keep_visible d userID e evt w = canSeeChannel e d userID (event_channel evt) w"

definition keep_typing :: "stream_deps \<Rightarrow> string \<Rightarrow> keep" where
  "keep_typing d userID e evt w =
     (if (case evt of Msg (TypingEvt x) \<Rightarrow> ty_GuildId x = [] | _ \<Rightarrow> False) then (True, w)
      else canSeeChannel e d userID (event_channel evt) w)"

definition not_authenticated :: status where
  "not_authenticated = Status Unauthenticated ''not authenticated''"

definition StreamDmChat where
  "StreamDmChat e d ctx msgs s =
     (let userID = UserIDFromContext ctx in
      if userID = [] then (Inl not_authenticated, s)
      else apfst Inr (MultiSubscribe e d AsDmChat [DmAllMessages userID] True keep_all msgs s))"

definition StreamDmChannels where
  "StreamDmChannels e d ctx msgs s =
     (let userID = UserIDFromContext ctx in
      if userID = [] then (Inl not_authenticated, s)
      else apfst Inr (MultiSubscribe e d AsDmChannel [DmChannels userID] True keep_all msgs s))"

definition StreamDmCalls where
  "StreamDmCalls e d ctx msgs s =
     (let userID = UserIDFromContext ctx in
      if userID = [] then (Inl not_authenticated, s)
      else apfst Inr (MultiSubscribe e d AsDmCall [DmCall userID] True keep_all msgs s))"

text \<open>The streams of the user's guilds: one subject per guild the user is in when the stream opens.\<close>

definition guild_stream ::
    "stream_type \<Rightarrow> (string \<Rightarrow> string) \<Rightarrow> (string \<Rightarrow> keep) \<Rightarrow> env \<Rightarrow> stream_deps \<Rightarrow> rpc_ctx \<Rightarrow>
       (string \<times> string) list \<Rightarrow> vstate \<Rightarrow> (status + stream_event list) \<times> vstate" where
  "guild_stream T subject keep e d ctx msgs s =
     (let userID = UserIDFromContext ctx in
      if userID = [] then (Inl not_authenticated, s)
      else case GetUserGuildIDs (at e 0) userID (db s) of
        Inl _ \<Rightarrow> (Inl (Status Internal ''failed to get guilds''), s)
      | Inr guildIDs \<Rightarrow> apfst Inr (MultiSubscribe (at e 1) d T (map subject guildIDs) True (keep userID) msgs s))"

definition StreamTextChannels where
  "StreamTextChannels e d = guild_stream AsTextChannel GuildAllMessages (keep_visible d) e d"

definition StreamVoiceChat where
  "StreamVoiceChat e d = guild_stream AsVoiceChat GuildAllVoiceChat (keep_visible d) e d"

definition StreamGuildEvents where
  "StreamGuildEvents e d = guild_stream AsGuild GuildEvents (\<lambda>_. keep_all) e d"

text \<open>
  The snapshot that opens StreamVoiceState: for every guild and every channel of it with somebody
  in it that the user can see, the participants, under that guild. The send of an event that fails
  ends the stream; it is taken to succeed.
\<close>

fun snapshot_channels ::
    "env \<Rightarrow> nat \<Rightarrow> stream_deps \<Rightarrow> voice_deps \<Rightarrow> string \<Rightarrow> string \<Rightarrow> string list \<Rightarrow> vstate \<Rightarrow> stream_event list \<times> vstate" where
  "snapshot_channels e i d vd userID gid [] s = ([], s)"
| "snapshot_channels e i d vd userID gid (chID # chs) s =
     (case canSeeChannel (at (at e i) 0) d userID chID (db s) of
        (ok, w) \<Rightarrow>
          (case (if ok then (case Snapshot_GetChannelParticipants (at (at e i) 1) vd chID (set_db w s) of
                    (evts, s1) \<Rightarrow> (map (\<lambda>v. Msg (VoiceEvt (v\<lparr>ve_GuildId := gid\<rparr>))) evts, s1))
                 else ([], set_db w s)) of
             (x, s1) \<Rightarrow> (case snapshot_channels e (i + 1) d vd userID gid chs s1 of (y, s2) \<Rightarrow> (x @ y, s2))))"

fun snapshot_guilds ::
    "env \<Rightarrow> nat \<Rightarrow> stream_deps \<Rightarrow> voice_deps \<Rightarrow> string \<Rightarrow> string list \<Rightarrow> vstate \<Rightarrow> stream_event list \<times> vstate" where
  "snapshot_guilds e i d vd userID [] s = ([], s)"
| "snapshot_guilds e i d vd userID (gid # gids) s =
     (case snapshot_channels (at (at e i) 1) 0 d vd userID gid
             (GetGuildVoiceChannelIDs (at (at e i) 0) vd (sd_scan d) gid s) s of
        (x, s1) \<Rightarrow> (case snapshot_guilds e (i + 1) d vd userID gids s1 of (y, s2) \<Rightarrow> (x @ y, s2)))"

definition StreamVoiceState where
  "StreamVoiceState e d ctx msgs s =
     (let userID = UserIDFromContext ctx in
      if userID = [] then (Inl not_authenticated, s)
      else case GetUserGuildIDs (at e 0) userID (db s) of
        Inl _ \<Rightarrow> (Inl (Status Internal ''failed to get guilds''), s)
      | Inr guildIDs \<Rightarrow>
          (case (case sd_snapshot d of None \<Rightarrow> ([], s) | Some vd \<Rightarrow> snapshot_guilds (at e 1) 0 d vd userID guildIDs s) of
             (x, s1) \<Rightarrow>
               (case MultiSubscribe (at e 2) d AsVoiceState (map GuildAllVoice guildIDs) True (keep_visible d userID) msgs s1 of
                  (y, s2) \<Rightarrow> (Inr (x @ y), s2))))"

definition StreamTyping where
  "StreamTyping e d ctx msgs s =
     (let userID = UserIDFromContext ctx in
      if userID = [] then (Inl not_authenticated, s)
      else let guildIDs = (case GetUserGuildIDs (at e 0) userID (db s) of Inl _ \<Rightarrow> [] | Inr gs \<Rightarrow> gs) in
        apfst Inr (MultiSubscribe (at e 1) d AsTyping (DmAllTyping userID # map GuildAllTyping guildIDs) False
          (keep_typing d userID) msgs s))"

definition set_sv :: "server \<Rightarrow> vstate \<Rightarrow> vstate" where
  "set_sv v s = s\<lparr>vs_sv := v\<rparr>"

definition StreamFriendActivity where
  "StreamFriendActivity e d ctx msgs s =
     (let userID = UserIDFromContext ctx in
      if userID = [] then (Inl not_authenticated, s)
      else let s1 = (case sd_presence d of None \<Rightarrow> s
                     | Some pd \<Rightarrow> set_sv (OnUserConnect (at e 0) pd userID (vs_sv s)) s);
               friendIDs = (case GetUserFriendIDs (at e 1) userID (db s1) of Inl _ \<Rightarrow> [] | Inr fs \<Rightarrow> fs) in
        case MultiSubscribe (at e 2) d AsFriendActivity (FriendActivity userID # map FriendActivity friendIDs) True keep_all msgs s1 of
          (sent, s2) \<Rightarrow>
            (Inr sent,
             case sd_presence d of None \<Rightarrow> s2
             | Some pd \<Rightarrow> set_sv (OnUserDisconnect (at e 3) pd userID (vs_sv s2)) s2))"

section \<open>What is delivered\<close>

text \<open>Identifiers are UUIDs: no dot, and not the wildcard.\<close>

definition token_id :: "string \<Rightarrow> bool" where
  "token_id x \<longleftrightarrow> CHR ''.'' \<notin> set x \<and> x \<noteq> ''*''"

lemma dm_subject_matches:
  assumes "token_id v" and "token_id u" and "token_id c"
  shows "subject_matches (DmAllMessages v) (DmMessage u c) \<longleftrightarrow> u = v"
proof -
  have "tokens (DmAllMessages v) = [''dm'', v, ''message'', ''*'']" "tokens (DmMessage u c) = [''dm'', u, ''message'', c]"
    using assms tokens_one_id [of v] tokens_guild_channel [of u c] by (simp_all add: token_id_def)
  then show ?thesis using assms(1) by (auto simp: subject_matches_def token_id_def)
qed

lemma guild_subject_matches:
  assumes "token_id g" and "token_id g'" and "token_id c"
  shows "subject_matches (GuildAllMessages g) (GuildChannelMessage g' c) \<longleftrightarrow> g' = g"
proof -
  have "tokens (GuildAllMessages g) = [''guild'', g, ''channel'', ''message'', ''*'']"
    "tokens (GuildChannelMessage g' c) = [''guild'', g', ''channel'', ''message'', c]"
    using assms tokens_one_id [of g] tokens_guild_channel [of g' c] by (simp_all add: token_id_def)
  then show ?thesis using assms(1) by (auto simp: subject_matches_def token_id_def)
qed

text \<open>
  What a direct-message stream makes of an event: the fields of DmChatEvent are those of TextChannelEvent with
  the same JSON names. Of encoding/json it is relied on that the text of an event of the message service is read so.
\<close>

definition as_dm_chat :: "TextChannelEvent \<Rightarrow> DmChatEvent" where
  "as_dm_chat x = \<lparr>de_Type = tc_Type x, de_ChannelId = tc_ChannelId x, de_MessageId = tc_MessageId x,
     de_SenderId = tc_SenderId x, de_AuthorId = tc_AuthorId x, de_Content = tc_Content x,
     de_ReplyToId = tc_ReplyToId x, de_Attachments = tc_Attachments x, de_MsgType = tc_MsgType x,
     de_Pinned = tc_Pinned x, de_Deleted = tc_Deleted x, de_Emoji = tc_Emoji x, de_EditedAt = tc_EditedAt x,
     de_CreatedAt = tc_CreatedAt x, de_MentionUserIds = tc_MentionUserIds x, de_Reactions = tc_Reactions x,
     de_ForwardedFrom = tc_ForwardedFrom x\<rparr>"

definition reads_as_dm :: "stream_deps \<Rightarrow> TextChannelEvent \<Rightarrow> bool" where
  "reads_as_dm d x \<longleftrightarrow> sd_Unmarshal d AsDmChat (sd_Marshal d (TextEvt x)) = Some (DmChatMsg (as_dm_chat x))"

text \<open>Direct-message events (addressee, channel, event) as they arrive, and those addressed to a user.\<close>

definition dm_wire :: "stream_deps \<Rightarrow> (string \<times> string \<times> TextChannelEvent) list \<Rightarrow> (string \<times> string) list" where
  "dm_wire d xs = map (\<lambda>(u, c, x). (DmMessage u c, sd_Marshal d (TextEvt x))) xs"

definition addressed :: "string \<Rightarrow> (string \<times> string \<times> TextChannelEvent) list \<Rightarrow> TextChannelEvent list" where
  "addressed v xs = map (\<lambda>(u, c, x). x) (filter (\<lambda>(u, c, x). u = v) xs)"

lemma addressed_simps [simp]:
  "addressed v [] = []"
  "addressed v ((u, c, x) # xs) = (if u = v then x # addressed v xs else addressed v xs)"
  "addressed v (xs @ ys) = addressed v xs @ addressed v ys"
  by (simp_all add: addressed_def)

text \<open>What the cache holds under the key of a user's stream was addressed to that user.\<close>

definition dm_cached :: "stream_deps \<Rightarrow> (string \<Rightarrow> TextChannelEvent set) \<Rightarrow> redis \<Rightarrow> bool" where
  "dm_cached d A r \<longleftrightarrow>
     (\<forall>v t ex. r (cache_key [DmAllMessages v]) = Some (RStr t, ex) \<longrightarrow> (\<exists>x\<in>A v. t = sd_Marshal d (TextEvt x)))"

lemma dm_cache_key_inj: "cache_key [DmAllMessages u] = cache_key [DmAllMessages v] \<longleftrightarrow> u = v"
  by (simp add: cache_key_def DmAllMessages_def)

lemma dm_on_message:
  assumes "reads_as_dm d x" and "dm_cached d A (kv s)" and "x \<in> A v"
  shows "fst (on_message e d AsDmChat [DmAllMessages v] True keep_all (sd_Marshal d (TextEvt x)) s) = [DmChatMsg (as_dm_chat x)]"
    "dm_cached d A (kv (snd (on_message e d AsDmChat [DmAllMessages v] True keep_all (sd_Marshal d (TextEvt x)) s)))"
  using assms
  by (auto simp: on_message_def reads_as_dm_def keep_all_def dm_cached_def r_Set_def run_stmt_def keep_on_error_def
      dm_cache_key_inj)

lemma dm_receive:
  assumes "token_id v" and "\<forall>(u, c, x)\<in>set xs. token_id u \<and> token_id c \<and> reads_as_dm d x"
    and "dm_cached d A (kv s)" and "\<forall>u. set (addressed u xs) \<subseteq> A u"
  shows "fst (receive e i d AsDmChat [DmAllMessages v] True keep_all (dm_wire d xs) s) =
      map (\<lambda>x. DmChatMsg (as_dm_chat x)) (addressed v xs) \<and>
    dm_cached d A (kv (snd (receive e i d AsDmChat [DmAllMessages v] True keep_all (dm_wire d xs) s)))"
  using assms(2-)
proof (induction xs arbitrary: i s)
  case (Cons m xs)
  obtain u c x where m: "m = (u, c, x)" by (cases m)
  have m1: "matching [DmAllMessages v] (DmMessage u c) = (if u = v then Suc 0 else 0)"
    using assms(1) Cons.prems(1) dm_subject_matches [of v u c] by (auto simp: matching_def m)
  have rest: "\<forall>u. set (addressed u xs) \<subseteq> A u" "\<forall>(u, c, x)\<in>set xs. token_id u \<and> token_id c \<and> reads_as_dm d x"
    using Cons.prems(1,3) by (auto simp: m split: if_splits)
  have x: "x \<in> A u" using Cons.prems(3) by (auto simp: m dest: spec [of _ u])
  show ?case
  proof (cases "u = v")
    case True
    with x have xv: "x \<in> A v" by simp
    have r: "reads_as_dm d x" using Cons.prems(1) by (simp add: m)
    note msg = dm_on_message [OF r Cons.prems(2) xv, of "at (at e i) 0"]
    show ?thesis
      using Cons.IH [OF rest(2) msg(2) rest(1), of "i + 1"] msg(1) True m1
      by (simp add: m dm_wire_def prod.case_eq_if)
  next
    case False
    with Cons.IH [OF rest(2) Cons.prems(2) rest(1), of "i + 1"] m1 show ?thesis
      by (simp add: m dm_wire_def prod.case_eq_if)
  qed
qed (use assms(3) in \<open>simp add: dm_wire_def\<close>)

definition user_ctx :: "string \<Rightarrow> rpc_ctx" where
  "user_ctx u = \<lparr>peer_addr = None, incoming_md = None, UserIDKey = Some u\<rparr>"

lemma user_ctx_simps [simp]: "UserIDFromContext (user_ctx u) = u"
  by (simp add: user_ctx_def UserIDFromContext_def)

lemma dm_session:
  assumes "v \<noteq> []" and "token_id v" and "\<forall>(u, c, x)\<in>set xs. token_id u \<and> token_id c \<and> reads_as_dm d x"
    and "dm_cached d A (kv s)" and "\<forall>x\<in>A v. reads_as_dm d x"
  shows "\<exists>old. fst (StreamDmChat e d (user_ctx v) (dm_wire d xs) s) =
      Inr (map (\<lambda>x. DmChatMsg (as_dm_chat x)) (old @ addressed v xs)) \<and> length old \<le> 1 \<and> set old \<subseteq> A v \<and>
    dm_cached d (\<lambda>u. A u \<union> set (addressed u xs)) (kv (snd (StreamDmChat e d (user_ctx v) (dm_wire d xs) s)))"
proof -
  obtain o1 s1 where replay: "replay (at e 0) d AsDmChat [DmAllMessages v] keep_all s = (o1, s1)"
    by fastforce
  have "\<exists>old. o1 = map (\<lambda>x. DmChatMsg (as_dm_chat x)) old \<and> length old \<le> 1 \<and> set old \<subseteq> A v"
  proof (cases "r_Get (at (at e 0) 0) (cache_key [DmAllMessages v]) (kv s)")
    case (Inl err)
    with replay show ?thesis by (simp add: replay_def)
  next
    case (Inr t)
    then obtain ex where "kv s (cache_key [DmAllMessages v]) = Some (RStr t, ex)"
      by (auto simp: r_Get_def run_stmt_Inr live_value_def split: option.splits rvalue.splits if_splits)
    with assms(4) obtain x where "x \<in> A v" "t = sd_Marshal d (TextEvt x)" unfolding dm_cached_def by blast
    with Inr replay assms(5) show ?thesis
      by (intro exI [of _ "[x]"]) (auto simp: replay_def reads_as_dm_def keep_all_def)
  qed
  then obtain old where old: "o1 = map (\<lambda>x. DmChatMsg (as_dm_chat x)) old" "length old \<le> 1" "set old \<subseteq> A v" by blast
  have kv: "kv s1 = kv s" using replay by (auto simp: replay_def keep_all_def split: sum.splits option.splits)
  have "dm_cached d (\<lambda>u. A u \<union> set (addressed u xs)) (kv s1)"
    using assms(4) unfolding dm_cached_def kv by blast
  from dm_receive [OF assms(2,3) this, of "at e 1" 0] old assms(1) replay show ?thesis
    by (intro exI [of _ old])
      (simp add: StreamDmChat_def Let_def MultiSubscribe_def prod.case_eq_if apfst_def map_prod_def)
qed

text \<open>Sessions one after the other, of any users: what each sends.\<close>

fun dm_sessions ::
    "stream_deps \<Rightarrow> (env \<times> string \<times> (string \<times> string \<times> TextChannelEvent) list) list \<Rightarrow> vstate \<Rightarrow>
       (status + stream_event list) list" where
  "dm_sessions d [] s = []"
| "dm_sessions d ((e, v, xs) # ss) s =
     (case StreamDmChat e d (user_ctx v) (dm_wire d xs) s of (sent, s') \<Rightarrow> sent # dm_sessions d ss s')"

definition arrived ::
    "(env \<times> string \<times> (string \<times> string \<times> TextChannelEvent) list) list \<Rightarrow> (string \<times> string \<times> TextChannelEvent) list" where
  "arrived ss = concat (map (\<lambda>(e, v, xs). xs) ss)"

lemma arrived_simps [simp]: "arrived [] = []" "arrived ((e, v, xs) # ss) = xs @ arrived ss"
  by (simp_all add: arrived_def)

lemma dm_sessions_private:
  assumes "\<forall>(e, v, xs)\<in>set ss. v \<noteq> [] \<and> token_id v \<and> (\<forall>(u, c, x)\<in>set xs. token_id u \<and> token_id c \<and> reads_as_dm d x)"
    and "dm_cached d A (kv s)" and "\<forall>v. \<forall>x\<in>A v. reads_as_dm d x" and "k < length ss" and "ss ! k = (e, v, xs)"
  shows "\<exists>old. dm_sessions d ss s ! k = Inr (map (\<lambda>x. DmChatMsg (as_dm_chat x)) (old @ addressed v xs)) \<and>
    length old \<le> 1 \<and> set old \<subseteq> A v \<union> set (addressed v (arrived (take k ss)))"
  using assms
proof (induction ss arbitrary: s k A)
  case (Cons q ss)
  obtain e1 v1 xs1 where q: "q = (e1, v1, xs1)" by (cases q)
  let ?A = "\<lambda>u. A u \<union> set (addressed u xs1)"
  have q1: "v1 \<noteq> []" "token_id v1" "\<forall>(u, c, x)\<in>set xs1. token_id u \<and> token_id c \<and> reads_as_dm d x"
    using Cons.prems(1) by (auto simp: q)
  from dm_session [OF q1 Cons.prems(2), of e1] Cons.prems(3)
  obtain old where old: "fst (StreamDmChat e1 d (user_ctx v1) (dm_wire d xs1) s) =
      Inr (map (\<lambda>x. DmChatMsg (as_dm_chat x)) (old @ addressed v1 xs1))" "length old \<le> 1" "set old \<subseteq> A v1"
    and inv: "dm_cached d ?A (kv (snd (StreamDmChat e1 d (user_ctx v1) (dm_wire d xs1) s)))" by auto
  show ?case
  proof (cases k)
    case 0
    with Cons.prems(5) old show ?thesis
      by (intro exI [of _ old]) (auto simp: q prod.case_eq_if)
  next
    case (Suc j)
    have "\<forall>v. \<forall>x\<in>?A v. reads_as_dm d x"
      using Cons.prems(3) q1(3) by (auto simp: addressed_def)
    from Cons.IH [OF _ inv this, of j] Cons.prems(1,4,5) Suc show ?thesis
      by (auto simp: q prod.case_eq_if Un_assoc)
  qed
qed simp

text \<open>
  C24: direct messages are private. Users open and close their direct-message streams any number of times, one
  session after the other, with nothing cached for these streams at first; Redis may fail. Each session of a
  user sends exactly the events that arrive on that user's subjects while it is open, each once and in order,
  after at most one older event from the cache, and that one too arrived on this user's subjects in an
  earlier session. Nobody is sent an event that was published to somebody else.
\<close>

theorem StreamDmChat_private:
  assumes "\<forall>(e, v, xs)\<in>set ss. v \<noteq> [] \<and> token_id v \<and> (\<forall>(u, c, x)\<in>set xs. token_id u \<and> token_id c \<and> reads_as_dm d x)"
    and "\<forall>v. kv s (cache_key [DmAllMessages v]) = None" and "k < length ss" and "ss ! k = (e, v, xs)"
  shows "\<exists>old. dm_sessions d ss s ! k = Inr (map (\<lambda>x. DmChatMsg (as_dm_chat x)) (old @ addressed v xs)) \<and>
    length old \<le> 1 \<and> set old \<subseteq> set (addressed v (arrived (take k ss)))"
proof -
  have "dm_cached d (\<lambda>_. {}) (kv s)" using assms(2) by (simp add: dm_cached_def)
  from dm_sessions_private [OF assms(1) this _ assms(3,4)] show ?thesis by simp
qed

text \<open>
  While a stream is open its checks run in environments of the same request, and leave the database
  as it was apart from the cache of channel guilds, which stays truthful.
\<close>

definition calm :: "env \<Rightarrow> env \<Rightarrow> bool" where
  "calm e0 e \<longleftrightarrow> uuid_string e = uuid_string e0 \<and> uuid_scan e = uuid_scan e0 \<and> fault_free e \<and> \<not> authz_nil e"

definition same_data :: "env \<Rightarrow> world \<Rightarrow> world \<Rightarrow> bool" where
  "same_data e0 w w' \<longleftrightarrow> (\<exists>m. w' = w\<lparr>chanGuildCache := m\<rparr>) \<and> cache_inv e0 w'"

lemma calm_at [simp]: "calm e0 e \<Longrightarrow> calm e0 (at e i)"
  by (simp add: calm_def)

lemma calm_cache_inv: "calm e0 e \<Longrightarrow> cache_inv e = cache_inv e0"
  by (simp add: calm_def cache_inv_def cache_entry_ok_def uuidToStr_def fun_eq_iff cong: option.case_cong)

lemma cache_restored:
  assumes "v\<lparr>chanGuildCache := x\<rparr> = (w :: world)"
  shows "v = w\<lparr>chanGuildCache := chanGuildCache v\<rparr>"
  unfolding assms [symmetric] by (cases v) simp

lemma CanViewChannel_same_data:
  assumes "calm e0 e" and "same_data e0 w0 w"
  shows "same_data e0 w0 (snd (CanViewChannel e u c w))"
proof -
  let ?w = "snd (CanViewChannel e u c w)"
  have "cache_inv e w" using assms calm_cache_inv by (simp add: same_data_def)
  from checkChannel_cache_kept [OF this] have inv: "cache_inv e ?w" and "?w\<lparr>chanGuildCache := chanGuildCache w\<rparr> = w"
    by (auto simp: CanViewChannel_def)
  from cache_restored [OF this(2)] have "?w = w\<lparr>chanGuildCache := chanGuildCache ?w\<rparr>" .
  moreover obtain m where "w = w0\<lparr>chanGuildCache := m\<rparr>" using assms(2) by (auto simp: same_data_def)
  ultimately have "?w = w0\<lparr>chanGuildCache := chanGuildCache ?w\<rparr>" by simp
  with inv show ?thesis unfolding same_data_def calm_cache_inv [OF assms(1)] by blast
qed

text \<open>A filter that keeps the data and lets through only events with a property.\<close>

definition filters :: "env \<Rightarrow> world \<Rightarrow> (stream_event \<Rightarrow> bool) \<Rightarrow> keep \<Rightarrow> bool" where
  "filters e0 w0 P keep \<longleftrightarrow> (\<forall>e evt w. calm e0 e \<longrightarrow> same_data e0 w0 w \<longrightarrow>
     same_data e0 w0 (snd (keep e evt w)) \<and> (fst (keep e evt w) \<longrightarrow> P evt))"

lemma filtersD:
  "filters e0 w0 P keep \<Longrightarrow> calm e0 e \<Longrightarrow> same_data e0 w0 w \<Longrightarrow>
     same_data e0 w0 (snd (keep e evt w)) \<and> (fst (keep e evt w) \<longrightarrow> P evt)"
  by (simp add: filters_def)

lemma on_message_filters:
  assumes "filters e0 w0 P keep" and "calm e0 e" and "same_data e0 w0 (db s)"
  shows "list_all P (fst (on_message e d T subjects b keep msg s)) \<and>
    same_data e0 w0 (db (snd (on_message e d T subjects b keep msg s)))"
  using filtersD [OF assms(1) calm_at [OF assms(2), of 0] assms(3)] assms(3)
  by (auto simp: on_message_def prod.case_eq_if split: option.splits)

lemma callbacks_filters:
  assumes "filters e0 w0 P keep" and "calm e0 e" and "same_data e0 w0 (db s)"
  shows "list_all P (fst (callbacks e d T subjects b keep msg k s)) \<and>
    same_data e0 w0 (db (snd (callbacks e d T subjects b keep msg k s)))"
  using assms(3)
proof (induction k arbitrary: s)
  case (Suc k)
  then show ?case
    using on_message_filters [OF assms(1) calm_at [OF assms(2), of k] Suc.prems, of d T subjects b msg]
      Suc.IH [of "snd (on_message (at e k) d T subjects b keep msg s)"]
    by (simp add: prod.case_eq_if)
qed simp

lemma receive_filters:
  assumes "filters e0 w0 P keep" and "calm e0 e" and "same_data e0 w0 (db s)"
  shows "list_all P (fst (receive e i d T subjects b keep msgs s)) \<and>
    same_data e0 w0 (db (snd (receive e i d T subjects b keep msgs s)))"
  using assms(3)
proof (induction msgs arbitrary: i s)
  case (Cons m msgs)
  obtain subj msg where m: "m = (subj, msg)" by fastforce
  show ?case
    using callbacks_filters [OF assms(1) calm_at [OF assms(2), of i] Cons.prems, of d T subjects b msg "matching subjects subj"]
      Cons.IH [of "snd (callbacks (at e i) d T subjects b keep msg (matching subjects subj) s)" "i + 1"]
    by (simp add: m prod.case_eq_if)
qed simp

lemma MultiSubscribe_filters:
  assumes "filters e0 w0 P keep" and "calm e0 e" and "same_data e0 w0 (db s)"
  shows "list_all P (fst (MultiSubscribe e d T subjects b keep msgs s)) \<and>
    same_data e0 w0 (db (snd (MultiSubscribe e d T subjects b keep msgs s)))"
proof -
  let ?r = "if b then replay (at e 0) d T subjects keep s else ([], s)"
  have c: "calm e0 (at (at e 0) 1)" using assms(2) by (intro calm_at)
  have "list_all P (fst ?r) \<and> same_data e0 w0 (db (snd ?r))"
    using assms(3) filtersD [OF assms(1) c assms(3)]
    by (auto simp: replay_def prod.case_eq_if split: sum.splits option.splits)
  then show ?thesis
    using receive_filters [OF assms(1) calm_at [OF assms(2), of 1], of "snd ?r" 0 d T subjects b msgs]
    by (simp add: MultiSubscribe_def prod.case_eq_if)
qed

text \<open>The guild channels of a database that a user may view.\<close>

definition visible :: "env \<Rightarrow> world \<Rightarrow> string \<Rightarrow> stream_event \<Rightarrow> bool" where
  "visible e w userID evt \<longleftrightarrow> (\<forall>u c ch g. userID = uuid_string e u \<longrightarrow> event_channel evt = uuid_string e c \<longrightarrow>
     find (\<lambda>x. c_id x = c \<and> \<not> c_deleted x) (channels w) = Some ch \<longrightarrow> c_guild_id ch = Some g \<longrightarrow>
     owns_guild w u g \<or> ''ADMINISTRATOR'' \<in> role_names w u g \<or> channel_decision w u g c ''VIEW_CHANNELS'')"

lemma cache_tables:
  "guilds (w\<lparr>chanGuildCache := m\<rparr>) = guilds w" "roles (w\<lparr>chanGuildCache := m\<rparr>) = roles w"
  "role_members (w\<lparr>chanGuildCache := m\<rparr>) = role_members w" "permissions (w\<lparr>chanGuildCache := m\<rparr>) = permissions w"
  "role_permissions (w\<lparr>chanGuildCache := m\<rparr>) = role_permissions w" "overwrites (w\<lparr>chanGuildCache := m\<rparr>) = overwrites w"
  by simp_all

lemma view_frames [simp]:
  "owns_guild (w\<lparr>chanGuildCache := m\<rparr>) = owns_guild w" "role_names (w\<lparr>chanGuildCache := m\<rparr>) = role_names w"
  "channel_decision (w\<lparr>chanGuildCache := m\<rparr>) = channel_decision w"
  "valid_overwrites (w\<lparr>chanGuildCache := m\<rparr>) = valid_overwrites w"
  by (simp_all only: fun_eq_iff owns_guild_def role_names_def permitted_def channel_decision_def
      override_on_def role_in_guild_def has_role_def valid_overwrites_def cache_tables simp_thms)

lemma CanViewChannel_sound:
  assumes "codec_ok e0" and "calm e0 e" and "valid_overwrites w0" and "distinct (map c_id (channels w0))"
    and "same_data e0 w0 w" and "fst (CanViewChannel e (uuid_string e0 u) (uuid_string e0 c) w)"
    and ch: "find (\<lambda>x. c_id x = c \<and> \<not> c_deleted x) (channels w0) = Some ch" "c_guild_id ch = Some g"
  shows "owns_guild w0 u g \<or> ''ADMINISTRATOR'' \<in> role_names w0 u g \<or> channel_decision w0 u g c ''VIEW_CHANNELS''"
proof -
  obtain m where w: "w = w0\<lparr>chanGuildCache := m\<rparr>" using assms(5) unfolding same_data_def by blast
  have c: "uuid_string e = uuid_string e0" "uuid_scan e = uuid_scan e0" "fault_free e" "\<not> authz_nil e"
    using assms(2) unfolding calm_def by blast+
  have e: "codec_ok e" "uuid_string e = uuid_string e0" "fault_free e" "\<not> authz_nil e"
    using assms(1) c unfolding codec_ok_def c by blast+
  have inv: "cache_inv e w" using assms(2,5) calm_cache_inv by (simp add: same_data_def)
  have hit: "ce_guildID ce = uuid_string e g"
    if "cache_hit (at (at e 0) 0) (uuid_string e c) w = Some ce" for ce
  proof -
    have "(uuid_string e c, ce) \<in> set (chanGuildCache w)"
      using that by (auto simp: cache_hit_def dest: map_of_SomeD split: option.splits if_splits)
    then have "cache_entry_ok e w (uuid_string e c, ce)" using inv unfolding cache_inv_def by blast
    then obtain x where x: "x \<in> set (channels w)" "c_id x = c" "ce_guildID ce = uuidToStr e (c_guild_id x)"
      unfolding cache_entry_ok_def fst_conv snd_conv codec_okD [OF e(1)] option.inject by blast
    have "ch \<in> set (channels w0)" "c_id ch = c" using find_SomeD [OF ch(1)] by auto
    then have "x = ch" using assms(4) x w by (auto simp: distinct_map inj_on_def)
    with x ch(2) show ?thesis by (simp add: uuidToStr_def)
  qed
  have pr: "(''VIEW_CHANNELS'', ''can_view_channels'') \<in> set PermissionRelation" by (simp add: PermissionRelation_def)
  show ?thesis
    using checkChannel_guild_eq [OF e(1) e(3,4) _ pr, of w c ch g u] hit assms(3,6) ch
    by (simp add: CanViewChannel_def e(2) w)
qed

lemma keep_visible_filters:
  assumes "sd_viewer d" and "codec_ok e0" and "valid_overwrites w0" and "distinct (map c_id (channels w0))"
  shows "filters e0 w0 (visible e0 w0 u) (keep_visible d u)"
proof -
  have "same_data e0 w0 (snd (keep_visible d u e evt w)) \<and> (fst (keep_visible d u e evt w) \<longrightarrow> visible e0 w0 u evt)"
    if c: "calm e0 e" and w: "same_data e0 w0 w" for e evt w
  proof (cases "event_channel evt = []")
    case True
    then have "\<not> (\<exists>c. event_channel evt = uuid_string e0 c)" using assms(2) by (metis codec_okD codec_ok_empty option.distinct(1))
    with True w show ?thesis by (auto simp: keep_visible_def canSeeChannel_def visible_def)
  next
    case False
    then have k: "keep_visible d u e evt w = CanViewChannel e u (event_channel evt) w"
      using assms(1) by (simp add: keep_visible_def canSeeChannel_def)
    have "visible e0 w0 u evt" if "fst (CanViewChannel e u (event_channel evt) w)"
      unfolding visible_def
    proof (intro allI impI, goal_cases)
      case (1 v chan ch g)
      from that have "fst (CanViewChannel e (uuid_string e0 v) (uuid_string e0 chan) w)" by (simp only: 1(1,2))
      from CanViewChannel_sound [OF assms(2) c assms(3,4) w this 1(3,4)] show ?case .
    qed
    with CanViewChannel_same_data [OF c w] show ?thesis unfolding k by simp
  qed
  then show ?thesis by (simp add: filters_def)
qed

text \<open>
  C23: a private channel stays private on the wire, as long as no statement fails: when the text stream
  or the voice-chat stream of a user forwards an event of a guild channel, a cached one too, the user owns
  the guild, is an administrator of it, or is granted VIEW_CHANNELS there once roles and overrides are
  applied. (When a query of the overrides fails, the check falls back on the permission in the guild.)
\<close>

theorem stream_only_visible_channels:
  assumes "sd_viewer d" and "codec_ok e" and "fault_free e" and "\<not> authz_nil e"
    and "valid_overwrites (db s)" and "distinct (map c_id (channels (db s)))" and "cache_inv e (db s)"
    and "StreamTextChannels e d ctx msgs s = (Inr sent, s') \<or> StreamVoiceChat e d ctx msgs s = (Inr sent, s')"
    and "evt \<in> set sent" and "UserIDFromContext ctx = uuid_string e u" and "event_channel evt = uuid_string e c"
    and "find (\<lambda>x. c_id x = c \<and> \<not> c_deleted x) (channels (db s)) = Some ch" and "c_guild_id ch = Some g"
  shows "owns_guild (db s) u g \<or> ''ADMINISTRATOR'' \<in> role_names (db s) u g \<or>
    channel_decision (db s) u g c ''VIEW_CHANNELS''"
proof -
  let ?P = "visible e (db s) (UserIDFromContext ctx)"
  have "calm e e" using assms(3,4) by (simp add: calm_def)
  moreover have "db s = (db s)\<lparr>chanGuildCache := chanGuildCache (db s)\<rparr>" by simp
  then have "same_data e (db s) (db s)" using assms(7) unfolding same_data_def by blast
  ultimately have "list_all ?P (fst (MultiSubscribe (at e 1) d T subjects True (keep_visible d (UserIDFromContext ctx)) msgs s))" for T subjects
    using MultiSubscribe_filters [OF keep_visible_filters [OF assms(1,2,5,6)] calm_at] by blast
  then have "list_all ?P sent" if "guild_stream T subj (keep_visible d) e d ctx msgs s = (Inr sent, s')" for T subj
    using that by (auto simp: guild_stream_def Let_def apfst_def map_prod_def split: if_splits sum.splits prod.splits)
      (metis fst_conv)
  then have "list_all ?P sent"
    using assms(8) by (auto simp: StreamTextChannels_def StreamVoiceChat_def)
  with assms(9-) show ?thesis by (auto simp: list_all_iff visible_def)
qed

section \<open>Presence while a stream is open\<close>

lemma presence_not_cache: "presenceKeyPrefix @ u \<noteq> cache_key subjects"
  by (simp add: presenceKeyPrefix_def cache_key_def)

lemma on_message_kv:
  "k \<noteq> cache_key subjects \<Longrightarrow> kv (snd (on_message e d T subjects b keep msg s)) k = kv s k"
  by (auto simp: on_message_def r_Set_def run_stmt_def keep_on_error_def prod.case_eq_if split: option.splits)

lemma callbacks_kv:
  "k \<noteq> cache_key subjects \<Longrightarrow> kv (snd (callbacks e d T subjects b keep msg n s)) k = kv s k"
  by (induction n arbitrary: s) (simp_all add: prod.case_eq_if on_message_kv)

lemma receive_kv:
  assumes "k \<noteq> cache_key subjects"
  shows "kv (snd (receive e i d T subjects b keep msgs s)) k = kv s k"
proof (induction msgs arbitrary: i s)
  case (Cons m msgs)
  then show ?case using assms by (cases m) (simp add: prod.case_eq_if callbacks_kv)
qed simp

lemma MultiSubscribe_kv:
  assumes "k \<noteq> cache_key subjects"
  shows "kv (snd (MultiSubscribe e d T subjects b keep msgs s)) k = kv s k"
proof -
  have "kv (snd (replay e' d T subjects keep s)) = kv s" for e'
    by (simp add: replay_def prod.case_eq_if split: sum.splits option.splits)
  then show ?thesis using receive_kv [OF assms] by (simp add: MultiSubscribe_def prod.case_eq_if)
qed

text \<open>The presence entry of a user holds a hash that does not expire.\<close>

definition presence_entry :: "redis \<Rightarrow> string \<Rightarrow> bool" where
  "presence_entry r u = (case r (presenceKeyPrefix @ u) of None \<Rightarrow> True | Some (RHash _, None) \<Rightarrow> True | _ \<Rightarrow> False)"

lemma presence_entryD:
  "presence_entry r u \<Longrightarrow> no_expiry r (presenceKeyPrefix @ u) \<and> (\<forall>now. \<exists>fs. hash_of r now (presenceKeyPrefix @ u) = Inr fs)"
  by (auto simp: presence_entry_def no_expiry_def hash_of_def live_value_def split: option.splits prod.splits rvalue.splits)

lemma UpdatePresence_entry:
  assumes "presence_entry (sv_kv s) u"
  shows "presence_entry (sv_kv (snd (UpdatePresence e d u st c s))) u"
proof (cases "r_HSet (at e 1) (presenceKeyPrefix @ u) (presence_fields st c (clock e [0])) (sv_kv s)")
  case (Inl x)
  with assms show ?thesis by (simp add: UpdatePresence_def Let_def)
next
  case (Inr r)
  have "kept_expiry (sv_kv s) (clock e [1]) (presenceKeyPrefix @ u) = None"
    using presence_entryD [OF assms] by simp
  with Inr have "\<exists>fs. r (presenceKeyPrefix @ u) = Some (RHash fs, None)"
    by (auto simp: r_HSet_def run_stmt_Inr split: sum.splits)
  with Inr show ?thesis by (auto simp: UpdatePresence_def Let_def presence_entry_def)
qed

lemma OnUserConnect_entry: "presence_entry (sv_kv s) u \<Longrightarrow> presence_entry (sv_kv (OnUserConnect e d u s)) u"
  by (simp add: OnUserConnect_def prod.case_eq_if UpdatePresence_entry split: option.splits)

text \<open>
  A user is shown offline once their activity stream has closed: whatever arrived meanwhile, the
  live status that other services read after the stream is offline, with no custom status.
\<close>

theorem StreamFriendActivity_offline_after:
  assumes "fault_free e" and "sd_presence d = Some pd" and "\<not> pd_redis_nil pd" and "\<not> fault e' []"
    and "UserIDFromContext ctx = u" and "u \<noteq> []" and "presence_entry (kv s) u"
  shows "GetLiveStatus e' pd u (vs_sv (snd (StreamFriendActivity e d ctx msgs s))) = (''offline'', [])"
proof -
  define s1 where "s1 = set_sv (OnUserConnect (at e 0) pd u (vs_sv s)) s"
  define subs where "subs = FriendActivity u # map FriendActivity
      (case GetUserFriendIDs (at e 1) u (db s1) of Inl _ \<Rightarrow> [] | Inr fs \<Rightarrow> fs)"
  define s2 where "s2 = snd (MultiSubscribe (at e 2) d AsFriendActivity subs True keep_all msgs s1)"
  have "presence_entry (kv s1) u" using OnUserConnect_entry assms(7) by (simp add: s1_def set_sv_def)
  moreover have "kv s2 (presenceKeyPrefix @ u) = kv s1 (presenceKeyPrefix @ u)"
    unfolding s2_def by (rule MultiSubscribe_kv [OF presence_not_cache])
  ultimately have "presence_entry (kv s2) u" by (simp add: presence_entry_def)
  then have "GetLiveStatus e' pd u (OnUserDisconnect (at e 3) pd u (vs_sv s2)) = (''offline'', [])"
    using presence_entryD assms(1,3,4) by (intro OnUserDisconnect_live) auto
  then show ?thesis
    using assms(2,5,6)
    by (simp add: StreamFriendActivity_def Let_def prod.case_eq_if s1_def s2_def subs_def set_sv_def)
qed

section \<open>Witnesses\<close>

definition quiet_stream :: stream_deps where
  "quiet_stream = \<lparr>sd_viewer = True, sd_snapshot = None, sd_scan = [],
     sd_presence = Some \<lparr>pd_redis_nil = False, pd_resolver = None\<rparr>, sd_Marshal = (\<lambda>_. []), sd_Unmarshal = (\<lambda>_ _. None)\<rparr>"

definition text_event :: "string \<Rightarrow> string \<Rightarrow> TextChannelEvent" where
  "text_event c m = \<lparr>tc_Type = CHAT_EVENT_CREATE, tc_MessageId = m, tc_ChannelId = c, tc_GuildId = [], tc_AuthorId = ''u'',
     tc_SenderId = ''u'', tc_Content = ''hi'', tc_MsgType = 0, tc_Pinned = False, tc_Deleted = False, tc_Reactions = [],
     tc_ReplyToId = [], tc_EditedAt = None, tc_CreatedAt = None, tc_Attachments = [], tc_ForwardedFrom = None,
     tc_MentionUserIds = [], tc_Emoji = []\<rparr>"

text \<open>A codec for the events of channel c: the text is the identifier of the message.\<close>

definition id_stream :: "string \<Rightarrow> stream_deps" where
  "id_stream c = quiet_stream\<lparr>
     sd_Marshal := (\<lambda>evt. case evt of TextEvt x \<Rightarrow> tc_MessageId x | _ \<Rightarrow> []),
     sd_Unmarshal := (\<lambda>T m. Some (if T = AsDmChat then DmChatMsg (as_dm_chat (text_event c m)) else Msg (TextEvt (text_event c m))))\<rparr>"

lemma id_stream_reads: "reads_as_dm (id_stream c) (text_event c m)"
  by (simp add: reads_as_dm_def id_stream_def text_event_def)

theorem StreamDmChat_private_witness:
  "\<exists>old. dm_sessions (id_stream ''c'') [(request_at 0, ''u'', [(''u'', ''c'', text_event ''c'' ''1'')]),
        (request_at 0, ''v'', [(''u'', ''c'', text_event ''c'' ''2''), (''v'', ''c'', text_event ''c'' ''3'')])] no_rooms ! 1
    = Inr (map (\<lambda>x. DmChatMsg (as_dm_chat x)) (old @ [text_event ''c'' ''3''])) \<and> old = []"
proof -
  let ?ss = "[(request_at 0, ''u'', [(''u'', ''c'', text_event ''c'' ''1'')]),
        (request_at 0, ''v'', [(''u'', ''c'', text_event ''c'' ''2''), (''v'', ''c'', text_event ''c'' ''3'')])]"
  have "\<forall>(e, v, xs)\<in>set ?ss. v \<noteq> [] \<and> token_id v \<and>
      (\<forall>(u, c, x)\<in>set xs. token_id u \<and> token_id c \<and> reads_as_dm (id_stream ''c'') x)"
    by (simp add: token_id_def id_stream_reads)
  from StreamDmChat_private [OF this, of no_rooms 1 "request_at 0" "''v''" "[(''u'', ''c'', text_event ''c'' ''2''), (''v'', ''c'', text_event ''c'' ''3'')]"]
  show ?thesis by (simp add: no_rooms_def empty_server_def empty_redis_def)
qed

text \<open>A guild with one channel, and the stream of its owner.\<close>

lemma uuid_text_nonempty': "uuid_text u \<noteq> []"
  by (metis uuid_read_text uuid_read_Nil option.distinct(1))

lemma token_id_uuid_text: "token_id (uuid_text u)"
proof -
  have h: "CHR ''.'' \<notin> set (to_hex n k)" for n k
  proof (induction n arbitrary: k)
    case (Suc n)
    have "48 \<le> (of_char (hex_digit (k mod 16)) :: nat)"
      by (auto simp: hex_digit_def intro: less_imp_le order_trans [of _ "k mod 16 + 48"])
    then have "hex_digit (k mod 16) \<noteq> CHR ''.''" by auto
    then show ?case using Suc by auto
  qed simp
  have "CHR ''.'' \<notin> set (uuid_text u)"
    using h [of 32 "unat u"] by (auto simp: uuid_text_def Let_def dest: in_set_takeD in_set_dropD)
  moreover have "length (uuid_text u) = 36" by (simp add: uuid_text_def Let_def)
  then have "uuid_text u \<noteq> ''*''" by auto
  ultimately show ?thesis by (simp add: token_id_def)
qed

definition guild_env :: env where
  "guild_env = text_env (\<lambda>_. 0) (\<lambda>_. 0)"

lemma guild_env_simps [simp]:
  "codec_ok guild_env" "fault_free guild_env" "\<not> authz_nil guild_env" "uuid_string guild_env = uuid_text"
  "uuid_scan guild_env (uuid_text u) = Some u" "fault guild_env p = False"
  by (simp_all add: guild_env_def text_env_def uuid_read_text fault_free_def codec_ok_def uuid_read_Nil)

definition one_guild :: vstate where
  "one_guild = set_db (empty_world\<lparr>
     guilds := [\<lparr>g_id = 1, g_name = ''n'', g_description = [], g_icon_url = [], g_owner_id = 5, g_deleted = False,
                 g_updated_at = 0, g_banner_url = []\<rparr>],
     guild_members := [\<lparr>gm_guild_id = 1, gm_user_id = 5, gm_nickname = [], gm_joined_at = 0, gm_deleted = False,
                 gm_updated_at = 0, gm_invite_code = None, gm_invited_by = None\<rparr>],
     channels := [\<lparr>c_id = 2, c_guild_id = Some 1, c_name = ''general'', c_type = 0, c_topic = [],
                 c_position = 0, c_parent_id = None, c_deleted = False, c_updated_at = 0\<rparr>]\<rparr>) no_rooms"

lemma one_guild_facts:
  "valid_overwrites (db one_guild)" "distinct (map c_id (channels (db one_guild)))" "cache_inv e (db one_guild)"
  "find (\<lambda>x. c_id x = 2 \<and> \<not> c_deleted x) (channels (db one_guild)) = Some (hd (channels (db one_guild)))"
  "c_guild_id (hd (channels (db one_guild))) = Some 1" "owns_guild (db one_guild) 5 1"
  "kv one_guild = empty_redis" "chanGuildCache (db one_guild) = []"
  by (simp_all add: one_guild_def empty_world_def valid_overwrites_def cache_inv_def owns_guild_def no_rooms_def empty_server_def)

lemma one_guild_view:
  assumes "codec_ok e" and "fault_free e" and "\<not> authz_nil e" and "uuid_string e = uuid_text"
  shows "fst (CanViewChannel e (uuid_text 5) (uuid_text 2) (db one_guild))"
  using checkChannel_guild_eq [OF assms(1-3) one_guild_facts(1), of "''VIEW_CHANNELS''" "''can_view_channels''" 2
      "hd (channels (db one_guild))" 1 5] one_guild_facts assms(4)
  by (simp add: CanViewChannel_def PermissionRelation_def cache_hit_def)

lemma one_guild_stream:
  "\<exists>s'. StreamTextChannels guild_env (id_stream (uuid_text 2)) (user_ctx (uuid_text 5))
     [(GuildChannelMessage (uuid_text 1) (uuid_text 2), ''m'')] one_guild =
     (Inr [Msg (TextEvt (text_event (uuid_text 2) ''m''))], s')"
proof -
  have g: "GetUserGuildIDs (at guild_env 0) (uuid_text 5) (db one_guild) = Inr [uuid_text 1]"
    by (simp add: GetUserGuildIDs_def q_ListUserGuilds_def one_guild_def)
  have m: "matching [GuildAllMessages (uuid_text 1)] (GuildChannelMessage (uuid_text 1) (uuid_text 2)) = Suc 0"
    using guild_subject_matches [OF token_id_uuid_text token_id_uuid_text token_id_uuid_text] by (simp add: matching_def)
  have k: "fst (keep_visible (id_stream (uuid_text 2)) (uuid_text 5) e (Msg (TextEvt (text_event (uuid_text 2) ''m''))) (db one_guild))"
    if "codec_ok e" "fault_free e" "\<not> authz_nil e" "uuid_string e = uuid_text" for e
    using one_guild_view [OF that] uuid_text_nonempty' [of 2]
    by (auto simp: keep_visible_def canSeeChannel_def event_channel_def text_event_def id_stream_def)
  have decode: "sd_Unmarshal (id_stream (uuid_text 2)) AsTextChannel ''m'' = Some (Msg (TextEvt (text_event (uuid_text 2) ''m'')))"
    by (simp add: id_stream_def)
  have n: "uuid_text 5 \<noteq> []" using uuid_text_nonempty' by simp
  have "fst (MultiSubscribe (at guild_env 1) (id_stream (uuid_text 2)) AsTextChannel [GuildAllMessages (uuid_text 1)] True
      (keep_visible (id_stream (uuid_text 2)) (uuid_text 5)) [(GuildChannelMessage (uuid_text 1) (uuid_text 2), ''m'')]
      one_guild) = [Msg (TextEvt (text_event (uuid_text 2) ''m''))]"
    by (simp add: MultiSubscribe_def replay_def r_Get_def live_value_def run_stmt_def one_guild_facts empty_redis_def
        m on_message_def prod.case_eq_if k decode)
  then show ?thesis
    by (simp add: StreamTextChannels_def guild_stream_def g n Let_def apfst_def map_prod_def prod.case_eq_if)
qed

theorem stream_only_visible_channels_witness:
  "owns_guild (db one_guild) 5 1 \<or> ''ADMINISTRATOR'' \<in> role_names (db one_guild) 5 1 \<or>
    channel_decision (db one_guild) 5 1 2 ''VIEW_CHANNELS''"
proof -
  obtain s' where "StreamTextChannels guild_env (id_stream (uuid_text 2)) (user_ctx (uuid_text 5))
     [(GuildChannelMessage (uuid_text 1) (uuid_text 2), ''m'')] one_guild =
     (Inr [Msg (TextEvt (text_event (uuid_text 2) ''m''))], s')"
    using one_guild_stream by blast
  from stream_only_visible_channels [OF _ _ _ _ _ _ _ disjI1 [OF this], of "Msg (TextEvt (text_event (uuid_text 2) ''m''))" 5 2
      "hd (channels (db one_guild))" 1] show ?thesis
    by (simp add: quiet_stream_def text_event_def id_stream_def event_channel_def one_guild_facts)
qed

theorem StreamFriendActivity_offline_after_witness:
  "GetLiveStatus (request_at 9) \<lparr>pd_redis_nil = False, pd_resolver = None\<rparr> ''u''
     (vs_sv (snd (StreamFriendActivity (request_at 0) quiet_stream (user_ctx ''u'') [] no_rooms))) = (''offline'', [])"
  by (rule StreamFriendActivity_offline_after)
    (simp_all add: quiet_stream_def fault_free_def presence_entry_def no_rooms_def empty_server_def empty_redis_def)

end
