(* ===== verification/ChatStore.thy ===== *)
theory ChatStore
  imports Channel Friends
begin

text \<open>
  The state behind the message and media services: the relational database of the other services,
  the table media_files, the tables of the ScyllaDB keyspace (gen/scylladb/models.go) and the
  typing keys of Redis, with the queries of gen/scylladb/message.go and gen/db/media.sql.go.

  A CQL INSERT or UPDATE writes the named columns of the row with the given key and creates the
  row when there is none; the other columns of a created row are null. TIMESTAMP columns keep
  milliseconds. Where a statement is refused by the server for a reason the statement does not
  show (a UUID that is no TIMEUUID among them) the statement fails in the environment.
\<close>

section \<open>Rows\<close>

record MediaFile =
  mf_id :: uuid
  mf_uploader_id :: uuid
  mf_filename :: string
  mf_content_type :: string
  mf_size :: int
  mf_bucket_key :: string
  mf_confirmed :: bool
  mf_deleted :: bool
  mf_updated_at :: time

record Messages =
  m_ChannelId :: "uuid option"
  m_Id :: "uuid option"
  m_AuthorId :: "uuid option"
  m_Content :: "string option"
  m_Type :: "int option"
  m_ReplyToId :: "uuid option"
  m_Pinned :: "bool option"
  m_Deleted :: "bool option"
  m_EditedAt :: "time option"
  m_UpdatedAt :: "time option"
  m_CreatedAt :: "time option"
  m_ForwardedFromChannelId :: "uuid option"
  m_ForwardedFromMessageId :: "uuid option"
  m_ForwardedFromAuthorId :: "uuid option"
  m_MentionUserIds :: "uuid list option"

record MessageAttachments =
  at_ChannelId :: "uuid option"
  at_MessageId :: "uuid option"
  at_Id :: "uuid option"
  at_Filename :: "string option"
  at_Url :: "string option"
  at_ContentType :: "string option"
  at_Size :: "int option"

record MessageReactions =
  re_ChannelId :: uuid
  re_MessageId :: uuid
  re_Emoji :: string
  re_UserId :: uuid

record ReadStates =
  rs_UserId :: "uuid option"
  rs_ChannelId :: "uuid option"
  rs_LastReadMessageId :: "uuid option"
  rs_MentionCount :: "int option"

record MessageEditHistory =
  eh_ChannelId :: "uuid option"
  eh_MessageId :: "uuid option"
  eh_OldContent :: "string option"
  eh_EditedAt :: "time option"

record chat =
  pg :: world
  media_files :: "MediaFile list"
  messages :: "Messages list"
  message_attachments :: "MessageAttachments list"
  message_reactions :: "MessageReactions list"
  read_states :: "ReadStates list"
  message_edit_history :: "MessageEditHistory list"
  typing :: "(string \<times> string \<times> time) list"

text \<open>
  What the message service takes from outside: the clustering orders of TIMEUUID and UUID columns,
  the UUID reader of the ScyllaDB driver, the order in which a range over a Go map visits its keys,
  the Unicode lower-case mapping, which of the optional collaborators are wired, and the base URL of the media service when it is.
\<close>

record message_deps =
  md_timeuuid :: "uuid \<Rightarrow> nat"
  md_uuid :: "uuid \<Rightarrow> nat"
  md_ParseUUID :: "string \<Rightarrow> uuid option"
  md_map_order :: "string list \<Rightarrow> string list"
  md_ToLower :: "string \<Rightarrow> string"
  md_dmResolver :: bool
  md_blockChecker :: bool
  md_dmChannelList :: bool
  md_media :: "string option"

text \<open>The readers of nullable columns in message/model.go; a missing time is the year 1.\<close>

definition uuidValue :: "uuid option \<Rightarrow> uuid" where
  "uuidValue v = (case v of None \<Rightarrow> 0 | Some x \<Rightarrow> x)"

definition stringValue :: "string option \<Rightarrow> string" where
  "stringValue v = (case v of None \<Rightarrow> [] | Some x \<Rightarrow> x)"

definition boolValue :: "bool option \<Rightarrow> bool" where
  "boolValue v = (case v of None \<Rightarrow> False | Some x \<Rightarrow> x)"

definition int64Value :: "int option \<Rightarrow> int" where
  "int64Value v = (case v of None \<Rightarrow> 0 | Some x \<Rightarrow> x)"

definition zero_time :: time where
  "zero_time = - 62135596800 * 1000000000"

definition timeValue :: "time option \<Rightarrow> time" where
  "timeValue v = (case v of None \<Rightarrow> zero_time | Some x \<Rightarrow> x)"

definition uuidSliceValue :: "uuid list option \<Rightarrow> uuid list" where
  "uuidSliceValue v = (case v of None \<Rightarrow> [] | Some x \<Rightarrow> x)"

lemma value_simps [simp]:
  "uuidValue (Some u) = u" "uuidValue None = 0" "stringValue (Some s) = s" "stringValue None = []"
  "boolValue (Some b) = b" "boolValue None = False" "int64Value (Some n) = n" "int64Value None = 0"
  "timeValue (Some t) = t" "uuidSliceValue (Some us) = us" "uuidSliceValue None = []"
  by (simp_all add: uuidValue_def stringValue_def boolValue_def int64Value_def timeValue_def
      uuidSliceValue_def)

lemma boolValue_iff: "boolValue v \<longleftrightarrow> v = Some True"
  by (cases v) auto


section \<open>Messages\<close>

definition cql_put :: "('r \<Rightarrow> bool) \<Rightarrow> ('r \<Rightarrow> 'r) \<Rightarrow> 'r \<Rightarrow> 'r list \<Rightarrow> 'r list" where
  "cql_put p f r t = upsert p f (f r) t"

definition cql_time :: "time \<Rightarrow> time" where
  "cql_time t = t - t mod 1000000"

definition cql_set :: "message_deps \<Rightarrow> uuid list \<Rightarrow> uuid list option" where
  "cql_set d us = (case sort_key (md_uuid d) (remdups us) of [] \<Rightarrow> None | vs \<Rightarrow> Some vs)"

definition message_key :: "uuid \<Rightarrow> uuid \<Rightarrow> Messages \<Rightarrow> bool" where
  "message_key ch i m = (m_ChannelId m = Some ch \<and> m_Id m = Some i)"

definition blank_message :: "uuid \<Rightarrow> uuid \<Rightarrow> Messages" where
  "blank_message ch i = \<lparr>m_ChannelId = Some ch, m_Id = Some i, m_AuthorId = None, m_Content = None,
     m_Type = None, m_ReplyToId = None, m_Pinned = None, m_Deleted = None, m_EditedAt = None,
     m_UpdatedAt = None, m_CreatedAt = None, m_ForwardedFromChannelId = None,
     m_ForwardedFromMessageId = None, m_ForwardedFromAuthorId = None, m_MentionUserIds = None\<rparr>"

definition put_message :: "uuid \<Rightarrow> uuid \<Rightarrow> (Messages \<Rightarrow> Messages) \<Rightarrow> chat \<Rightarrow> chat" where
  "put_message ch i f c =
     c\<lparr>messages := cql_put (message_key ch i) f (blank_message ch i) (messages c)\<rparr>"

definition stored_message :: "chat \<Rightarrow> uuid \<Rightarrow> uuid \<Rightarrow> Messages option" where
  "stored_message c ch i = find (message_key ch i) (messages c)"

record CreatemessageParams =
  cm_ChannelId :: uuid
  cm_Id :: uuid
  cm_AuthorId :: uuid
  cm_Content :: string
  cm_Type :: int
  cm_ReplyToId :: uuid
  cm_Pinned :: bool
  cm_CreatedAt :: time
  cm_ForwardedFromChannelId :: uuid
  cm_ForwardedFromMessageId :: uuid
  cm_ForwardedFromAuthorId :: uuid
  cm_MentionUserIds :: "uuid list"

definition q_Createmessage :: "env \<Rightarrow> message_deps \<Rightarrow> CreatemessageParams \<Rightarrow> chat \<Rightarrow> dberr + chat" where
  "q_Createmessage e d arg c =
     run_stmt e (Inr (put_message (cm_ChannelId arg) (cm_Id arg)
       (\<lambda>m. m\<lparr>m_AuthorId := Some (cm_AuthorId arg), m_Content := Some (cm_Content arg),
              m_Type := Some (cm_Type arg), m_ReplyToId := Some (cm_ReplyToId arg),
              m_Pinned := Some (cm_Pinned arg), m_CreatedAt := Some (cql_time (cm_CreatedAt arg)),
              m_ForwardedFromChannelId := Some (cm_ForwardedFromChannelId arg),
              m_ForwardedFromMessageId := Some (cm_ForwardedFromMessageId arg),
              m_ForwardedFromAuthorId := Some (cm_ForwardedFromAuthorId arg),
              m_MentionUserIds := cql_set d (cm_MentionUserIds arg)\<rparr>) c))"

definition q_Getmessage :: "env \<Rightarrow> uuid \<Rightarrow> uuid \<Rightarrow> chat \<Rightarrow> dberr + Messages" where
  "q_Getmessage e ch i c = run_stmt e (one_row (stored_message c ch i))"

definition q_Updatemessagecontent :: "env \<Rightarrow> string \<Rightarrow> time \<Rightarrow> uuid \<Rightarrow> uuid \<Rightarrow> chat \<Rightarrow> dberr + chat" where
  "q_Updatemessagecontent e content editedAt ch i c =
     run_stmt e (Inr (put_message ch i
       (\<lambda>m. m\<lparr>m_Content := Some content, m_EditedAt := Some (cql_time editedAt)\<rparr>) c))"

definition q_Deletemessage :: "env \<Rightarrow> time \<Rightarrow> uuid \<Rightarrow> uuid \<Rightarrow> chat \<Rightarrow> dberr + chat" where
  "q_Deletemessage e updatedAt ch i c =
     run_stmt e (Inr (put_message ch i
       (\<lambda>m. m\<lparr>m_Deleted := Some True, m_UpdatedAt := Some (cql_time updatedAt)\<rparr>) c))"

definition q_Setpinned :: "env \<Rightarrow> bool \<Rightarrow> uuid \<Rightarrow> uuid \<Rightarrow> chat \<Rightarrow> dberr + chat" where
  "q_Setpinned e pinned ch i c =
     run_stmt e (Inr (put_message ch i (\<lambda>m. m\<lparr>m_Pinned := Some pinned\<rparr>) c))"

text \<open>A SELECT of a partition in clustering order; a LIMIT has to be positive.\<close>

definition message_rank :: "message_deps \<Rightarrow> Messages \<Rightarrow> int" where
  "message_rank d m = int (md_timeuuid d (uuidValue (m_Id m)))"

definition partition_of :: "uuid \<Rightarrow> chat \<Rightarrow> Messages list" where
  "partition_of ch c = filter (\<lambda>m. m_ChannelId m = Some ch) (messages c)"

definition newest_first :: "message_deps \<Rightarrow> Messages list \<Rightarrow> Messages list" where
  "newest_first d ms = sort_key (\<lambda>m. - message_rank d m) ms"

definition oldest_first :: "message_deps \<Rightarrow> Messages list \<Rightarrow> Messages list" where
  "oldest_first d ms = sort_key (message_rank d) ms"

definition with_limit :: "int \<Rightarrow> 'a list \<Rightarrow> dberr + 'a list" where
  "with_limit n xs = (if n \<le> 0 then Inl DbFault else Inr (take (nat n) xs))"

definition q_Listmessagesbefore ::
    "env \<Rightarrow> message_deps \<Rightarrow> uuid \<Rightarrow> uuid \<Rightarrow> int \<Rightarrow> chat \<Rightarrow> dberr + Messages list" where
  "q_Listmessagesbefore e d ch i n c = run_stmt e (with_limit n (newest_first d
     (filter (\<lambda>m. message_rank d m < int (md_timeuuid d i)) (partition_of ch c))))"

definition q_Listmessagesafter ::
    "env \<Rightarrow> message_deps \<Rightarrow> uuid \<Rightarrow> uuid \<Rightarrow> int \<Rightarrow> chat \<Rightarrow> dberr + Messages list" where
  "q_Listmessagesafter e d ch i n c = run_stmt e (with_limit n (oldest_first d
     (filter (\<lambda>m. int (md_timeuuid d i) < message_rank d m) (partition_of ch c))))"

definition q_Listrecentmessages ::
    "env \<Rightarrow> message_deps \<Rightarrow> uuid \<Rightarrow> int \<Rightarrow> chat \<Rightarrow> dberr + Messages list" where
  "q_Listrecentmessages e d ch n c =
     run_stmt e (with_limit n (newest_first d (partition_of ch c)))"

definition q_Getmessagessince ::
    "env \<Rightarrow> message_deps \<Rightarrow> uuid \<Rightarrow> time \<Rightarrow> chat \<Rightarrow> dberr + Messages list" where
  "q_Getmessagessince e d ch since c = run_stmt e (Inr (newest_first d
     (filter (\<lambda>m. case m_UpdatedAt m of None \<Rightarrow> False | Some t \<Rightarrow> cql_time since < t) (partition_of ch c))))"

definition q_Countunreadmessages ::
    "env \<Rightarrow> message_deps \<Rightarrow> uuid \<Rightarrow> uuid \<Rightarrow> chat \<Rightarrow> dberr + Messages list" where
  "q_Countunreadmessages e d ch i c = run_stmt e (Inr (newest_first d
     (filter (\<lambda>m. int (md_timeuuid d i) < message_rank d m) (partition_of ch c))))"

definition q_Countallmessages ::
    "env \<Rightarrow> message_deps \<Rightarrow> uuid \<Rightarrow> chat \<Rightarrow> dberr + Messages list" where
  "q_Countallmessages e d ch c = run_stmt e (Inr (newest_first d (partition_of ch c)))"


section \<open>Attachments, reactions, read states, edit history\<close>

definition q_Addmessageattachment ::
    "env \<Rightarrow> uuid \<Rightarrow> uuid \<Rightarrow> uuid \<Rightarrow> string \<Rightarrow> string \<Rightarrow> string \<Rightarrow> int \<Rightarrow> chat \<Rightarrow> dberr + chat" where
  "q_Addmessageattachment e ch i aid filename url contentType sz c =
     (let row = \<lparr>at_ChannelId = Some ch, at_MessageId = Some i, at_Id = Some aid, at_Filename = Some filename,
                 at_Url = Some url, at_ContentType = Some contentType, at_Size = Some sz\<rparr> in
      run_stmt e (Inr (c\<lparr>message_attachments := cql_put
        (\<lambda>a. at_ChannelId a = Some ch \<and> at_MessageId a = Some i \<and> at_Id a = Some aid) (\<lambda>_. row) row
        (message_attachments c)\<rparr>)))"

definition attachments_of :: "uuid \<Rightarrow> uuid \<Rightarrow> chat \<Rightarrow> MessageAttachments list" where
  "attachments_of ch i c =
     filter (\<lambda>a. at_ChannelId a = Some ch \<and> at_MessageId a = Some i) (message_attachments c)"

definition q_Getmessageattachments ::
    "env \<Rightarrow> message_deps \<Rightarrow> uuid \<Rightarrow> uuid \<Rightarrow> chat \<Rightarrow> dberr + MessageAttachments list" where
  "q_Getmessageattachments e d ch i c =
     run_stmt e (Inr (sort_key (\<lambda>a. md_uuid d (uuidValue (at_Id a))) (attachments_of ch i c)))"

definition q_Deletemessageattachments :: "env \<Rightarrow> uuid \<Rightarrow> uuid \<Rightarrow> chat \<Rightarrow> dberr + chat" where
  "q_Deletemessageattachments e ch i c =
     run_stmt e (Inr (c\<lparr>message_attachments := delete_where
       (\<lambda>a. at_ChannelId a = Some ch \<and> at_MessageId a = Some i) (message_attachments c)\<rparr>))"

definition q_Addreaction :: "env \<Rightarrow> uuid \<Rightarrow> uuid \<Rightarrow> string \<Rightarrow> uuid \<Rightarrow> chat \<Rightarrow> dberr + chat" where
  "q_Addreaction e ch i emoji u c =
     (let row = \<lparr>re_ChannelId = ch, re_MessageId = i, re_Emoji = emoji, re_UserId = u\<rparr> in
      run_stmt e (Inr (c\<lparr>message_reactions := cql_put (\<lambda>r. r = row) (\<lambda>r. r) row (message_reactions c)\<rparr>)))"

definition q_Removereaction :: "env \<Rightarrow> uuid \<Rightarrow> uuid \<Rightarrow> string \<Rightarrow> uuid \<Rightarrow> chat \<Rightarrow> dberr + chat" where
  "q_Removereaction e ch i emoji u c =
     (let row = \<lparr>re_ChannelId = ch, re_MessageId = i, re_Emoji = emoji, re_UserId = u\<rparr> in
      run_stmt e (Inr (c\<lparr>message_reactions := delete_where (\<lambda>r. r = row) (message_reactions c)\<rparr>)))"

definition reactions_of :: "uuid \<Rightarrow> uuid \<Rightarrow> chat \<Rightarrow> MessageReactions list" where
  "reactions_of ch i c = filter (\<lambda>r. re_ChannelId r = ch \<and> re_MessageId r = i) (message_reactions c)"

definition q_Getreactions ::
    "env \<Rightarrow> message_deps \<Rightarrow> uuid \<Rightarrow> uuid \<Rightarrow> chat \<Rightarrow> dberr + (string \<times> uuid) list" where
  "q_Getreactions e d ch i c =
     run_stmt e (Inr (map (\<lambda>r. (re_Emoji r, re_UserId r))
       (sort_key re_Emoji (sort_key (\<lambda>r. md_uuid d (re_UserId r)) (reactions_of ch i c)))))"

definition q_Deletemessagereactions :: "env \<Rightarrow> uuid \<Rightarrow> uuid \<Rightarrow> chat \<Rightarrow> dberr + chat" where
  "q_Deletemessagereactions e ch i c =
     run_stmt e (Inr (c\<lparr>message_reactions := delete_where
       (\<lambda>r. re_ChannelId r = ch \<and> re_MessageId r = i) (message_reactions c)\<rparr>))"

text \<open>Getreadstate scans into plain values: a null column reads as zero.\<close>

definition q_Getreadstate :: "env \<Rightarrow> uuid \<Rightarrow> uuid \<Rightarrow> chat \<Rightarrow> dberr + (int \<times> uuid)" where
  "q_Getreadstate e u ch c =
     run_stmt e (one_row (map_option (\<lambda>r. (int64Value (rs_MentionCount r), uuidValue (rs_LastReadMessageId r)))
       (find (\<lambda>r. rs_UserId r = Some u \<and> rs_ChannelId r = Some ch) (read_states c))))"

definition q_Upsertreadstate :: "env \<Rightarrow> uuid \<Rightarrow> uuid \<Rightarrow> uuid \<Rightarrow> int \<Rightarrow> chat \<Rightarrow> dberr + chat" where
  "q_Upsertreadstate e u ch lastRead mentions c =
     (let row = \<lparr>rs_UserId = Some u, rs_ChannelId = Some ch, rs_LastReadMessageId = Some lastRead,
                 rs_MentionCount = Some mentions\<rparr> in
      run_stmt e (Inr (c\<lparr>read_states := cql_put
        (\<lambda>r. rs_UserId r = Some u \<and> rs_ChannelId r = Some ch) (\<lambda>_. row) row (read_states c)\<rparr>)))"

definition q_Getuserreadstates :: "env \<Rightarrow> message_deps \<Rightarrow> uuid \<Rightarrow> chat \<Rightarrow> dberr + ReadStates list" where
  "q_Getuserreadstates e d u c =
     run_stmt e (Inr (sort_key (\<lambda>r. md_uuid d (uuidValue (rs_ChannelId r)))
       (filter (\<lambda>r. rs_UserId r = Some u) (read_states c))))"

definition q_Saveedithistory :: "env \<Rightarrow> uuid \<Rightarrow> uuid \<Rightarrow> string \<Rightarrow> time \<Rightarrow> chat \<Rightarrow> dberr + chat" where
  "q_Saveedithistory e ch i oldContent editedAt c =
     (let row = \<lparr>eh_ChannelId = Some ch, eh_MessageId = Some i, eh_OldContent = Some oldContent,
                 eh_EditedAt = Some (cql_time editedAt)\<rparr> in
      run_stmt e (Inr (c\<lparr>message_edit_history := cql_put
        (\<lambda>h. eh_ChannelId h = Some ch \<and> eh_MessageId h = Some i \<and> eh_EditedAt h = Some (cql_time editedAt))
        (\<lambda>_. row) row (message_edit_history c)\<rparr>)))"

definition q_Getedithistory :: "env \<Rightarrow> uuid \<Rightarrow> uuid \<Rightarrow> chat \<Rightarrow> dberr + MessageEditHistory list" where
  "q_Getedithistory e ch i c =
     run_stmt e (Inr (sort_key (\<lambda>h. - timeValue (eh_EditedAt h))
       (filter (\<lambda>h. eh_ChannelId h = Some ch \<and> eh_MessageId h = Some i) (message_edit_history c))))"

definition q_Deleteedithistory :: "env \<Rightarrow> uuid \<Rightarrow> uuid \<Rightarrow> chat \<Rightarrow> dberr + chat" where
  "q_Deleteedithistory e ch i c =
     run_stmt e (Inr (c\<lparr>message_edit_history := delete_where
       (\<lambda>h. eh_ChannelId h = Some ch \<and> eh_MessageId h = Some i) (message_edit_history c)\<rparr>))"


section \<open>Media files\<close>

definition q_CreateMediaFile ::
    "env \<Rightarrow> uuid \<Rightarrow> string \<Rightarrow> string \<Rightarrow> int \<Rightarrow> string \<Rightarrow> chat \<Rightarrow> dberr + (MediaFile \<times> chat)" where
  "q_CreateMediaFile e uploader filename contentType sz bucketKey c =
     run_stmt e
       (if \<not> user_row (pg c) uploader then Inl FkViolation
        else if list_ex (\<lambda>f. mf_id f = fresh e []) (media_files c) then Inl UniqueViolation
        else let f = \<lparr>mf_id = fresh e [], mf_uploader_id = uploader, mf_filename = filename,
                      mf_content_type = contentType, mf_size = sz, mf_bucket_key = bucketKey,
                      mf_confirmed = False, mf_deleted = False, mf_updated_at = clock e []\<rparr>
             in Inr (f, c\<lparr>media_files := media_files c @ [f]\<rparr>))"

definition q_ConfirmMediaFile :: "env \<Rightarrow> uuid \<Rightarrow> chat \<Rightarrow> dberr + (MediaFile \<times> chat)" where
  "q_ConfirmMediaFile e fid c =
     run_stmt e
       (case update_returning (\<lambda>f. mf_id f = fid) (\<lambda>f. f\<lparr>mf_confirmed := True\<rparr>) (media_files c) of
          Inl x \<Rightarrow> Inl x
        | Inr (f, t) \<Rightarrow> Inr (f, c\<lparr>media_files := t\<rparr>))"

definition q_GetMediaFile :: "env \<Rightarrow> uuid \<Rightarrow> chat \<Rightarrow> dberr + MediaFile" where
  "q_GetMediaFile e fid c =
     run_stmt e (one_row (find (\<lambda>f. mf_id f = fid \<and> \<not> mf_deleted f) (media_files c)))"

definition q_DeleteMediaFile :: "env \<Rightarrow> uuid \<Rightarrow> chat \<Rightarrow> dberr + chat" where
  "q_DeleteMediaFile e fid c =
     run_stmt e (Inr (c\<lparr>media_files := update_where (\<lambda>f. mf_id f = fid)
       (\<lambda>f. f\<lparr>mf_deleted := True, mf_updated_at := clock e []\<rparr>) (media_files c)\<rparr>))"

end
