(* ===== verification/Media.thy ===== *)
theory Media
  imports ChatStore
begin

text \<open>
  The media service, internal/features/media (service.go, repository.go): an upload is recorded
  unconfirmed, confirmed, resolved into an attachment or a download URL, and deleted. The object
  store is a parameter: the presigner and whether removing an object succeeds.
\<close>

datatype media_error =
    ErrFileTooLarge
  | ErrInvalidContentType
  | MediaBadUUID string
  | MediaFailed string dberr
  | MediaStorage string
  | MediaNotConfirmed
  | MediaNotOwner

definition maxFileSize :: int where
  "maxFileSize = 25 * 1024 * 1024"

definition allowedContentTypes :: "string list" where
  "allowedContentTypes = [''image/jpeg'', ''image/png'', ''image/gif'', ''image/webp'', ''video/mp4'',
     ''audio/ogg'', ''audio/mpeg'', ''application/pdf'']"

definition publicURL :: "string \<Rightarrow> string \<Rightarrow> string" where
  "publicURL base key = base @ key"

definition Repository_GetMediaFile :: "env \<Rightarrow> string \<Rightarrow> chat \<Rightarrow> media_error + MediaFile" where
  "Repository_GetMediaFile e fileID c =
     (case parseUUID e fileID of
        None \<Rightarrow> Inl (MediaBadUUID fileID)
      | Some fid \<Rightarrow>
          (case q_GetMediaFile e fid c of
             Inl x \<Rightarrow> Inl (MediaFailed ''failed to get media file'' x) | Inr f \<Rightarrow> Inr f))"

text \<open>
  The object key of RequestUpload carries a UUID of google/uuid, the fresh identifier of site 1;
  the text of a file identifier is the one uuidToString of the service prints.
\<close>

definition RequestUpload ::
    "env \<Rightarrow> (string \<Rightarrow> string option) \<Rightarrow> string \<Rightarrow> string \<Rightarrow> string \<Rightarrow> int \<Rightarrow> chat \<Rightarrow>
     (media_error + (string \<times> string)) \<times> chat" where
  "RequestUpload e presign userID filename contentType sz c =
     (if maxFileSize < sz then (Inl ErrFileTooLarge, c)
      else if contentType \<notin> set allowedContentTypes then (Inl ErrInvalidContentType, c)
      else let objectKey = ''uploads/'' @ userID @ ''/'' @ uuid_string e (fresh (at e 1) []) @ ''_'' @ filename in
        (case parseUUID e userID of
           None \<Rightarrow> (Inl (MediaBadUUID userID), c)
         | Some uid \<Rightarrow>
             (case q_CreateMediaFile (at e 0) uid filename contentType sz objectKey c of
                Inl x \<Rightarrow> (Inl (MediaFailed ''failed to create media file record'' x), c)
              | Inr (f, c1) \<Rightarrow>
                  (case presign objectKey of
                     None \<Rightarrow> (Inl (MediaStorage ''failed to generate presigned PUT URL''), c1)
                   | Some url \<Rightarrow> (Inr (uuid_text (mf_id f), url), c1)))))"

definition ConfirmUpload ::
    "env \<Rightarrow> string \<Rightarrow> string \<Rightarrow> chat \<Rightarrow> (media_error + (string \<times> string)) \<times> chat" where
  "ConfirmUpload e base uploadID c =
     (case parseUUID e uploadID of
        None \<Rightarrow> (Inl (MediaBadUUID uploadID), c)
      | Some fid \<Rightarrow>
          (case q_ConfirmMediaFile e fid c of
             Inl x \<Rightarrow> (Inl (MediaFailed ''failed to confirm media file'' x), c)
           | Inr (f, c1) \<Rightarrow> (Inr (uuid_text (mf_id f), publicURL base (mf_bucket_key f)), c1)))"

definition GetDownloadURL :: "env \<Rightarrow> string \<Rightarrow> string \<Rightarrow> chat \<Rightarrow> media_error + (string \<times> time)" where
  "GetDownloadURL e base fileID c =
     (case Repository_GetMediaFile (at e 0) fileID c of
        Inl x \<Rightarrow> Inl x
      | Inr f \<Rightarrow>
          if \<not> mf_confirmed f then Inl MediaNotConfirmed
          else Inr (publicURL base (mf_bucket_key f), clock (at e 1) [] + 365 * 24 * 3600 * 1000000000))"

definition ResolveAttachment ::
    "env \<Rightarrow> string \<Rightarrow> string \<Rightarrow> string \<Rightarrow> chat \<Rightarrow> media_error + (string \<times> string \<times> string \<times> int)" where
  "ResolveAttachment e base fileID uploaderID c =
     (case Repository_GetMediaFile e fileID c of
        Inl x \<Rightarrow> Inl x
      | Inr f \<Rightarrow>
          if \<not> mf_confirmed f then Inl MediaNotConfirmed
          else if uploaderID \<noteq> [] \<and> uuid_string e (mf_uploader_id f) \<noteq> uploaderID \<and>
                  uuid_scan e uploaderID \<noteq> Some (mf_uploader_id f)
          then Inl MediaNotOwner
          else Inr (mf_filename f, publicURL base (mf_bucket_key f), mf_content_type f, mf_size f))"

definition DeleteFile :: "env \<Rightarrow> (string \<Rightarrow> bool) \<Rightarrow> string \<Rightarrow> chat \<Rightarrow> (media_error + unit) \<times> chat" where
  "DeleteFile e remove fileID c =
     (case Repository_GetMediaFile (at e 0) fileID c of
        Inl x \<Rightarrow> (Inl x, c)
      | Inr f \<Rightarrow>
          if \<not> remove (mf_bucket_key f) then (Inl (MediaStorage ''failed to remove object from MinIO''), c)
          else (case parseUUID e fileID of
             None \<Rightarrow> (Inl (MediaBadUUID fileID), c)
           | Some fid \<Rightarrow>
               (case q_DeleteMediaFile (at e 1) fid c of
                  Inl x \<Rightarrow> (Inl (MediaFailed ''failed to delete media file record'' x), c)
                | Inr c1 \<Rightarrow> (Inr (), c1))))"

end
