(* ===== verification/Message.thy ===== *)
theory Message
  imports Media
begin

text \<open>
  The message service, internal/features/message (service.go, repository.go, model.go): sending,
  editing, deleting, listing, pinning and reacting, direct messages, unread counts, search and
  threads.

  A dereference of a nil pointer, which stops the Go handler with a panic, is the error NilDeref.
  Times in events are kept as instants, not as their RFC 3339 text. The driver's UUID.String
  prints the same canonical text as the other UUID packages; its reader is md_ParseUUID.
\<close>

datatype message_error =
    ErrMessageNotFound
  | ErrInvalidUUID
  | ErrChannelRequired
  | ErrContentRequired
  | ErrNotMessageAuthor
  | ErrEmojiRequired
  | ErrMessageRequired
  | ErrInsufficientPermissions
  | ErrUserBlocked
  | ErrReplyParentNotFound
  | ErrEditWindowExpired
  | ErrForwardSourceNotFound
  | MsgText string
  | MsgFailed string dberr
  | MsgDb dberr
  | MsgDM channel_error
  | NilDeref

definition EditWindow :: time where
  "EditWindow = 24 * 3600 * 1000000000"

record ReactionCount =
  rc_user_id :: "string list"
  rc_Emoji :: string
  rc_Count :: int
  rc_Me :: bool


section \<open>Mentions\<close>

fun dedup_loop :: "string \<Rightarrow> string list \<Rightarrow> string list \<Rightarrow> string list \<Rightarrow> string list" where
  "dedup_loop authorID [] seen out = out"
| "dedup_loop authorID (i # ids) seen out =
     (if i = [] \<or> i = authorID \<or> i \<in> set seen then dedup_loop authorID ids seen out
      else dedup_loop authorID ids (i # seen) (out @ [i]))"

definition dedupMentions :: "string list \<Rightarrow> string \<Rightarrow> string list" where
  "dedupMentions ids authorID = (if ids = [] then [] else dedup_loop authorID ids [] [])"

definition isAlnum :: "char \<Rightarrow> bool" where
  "isAlnum b = ((CHR ''0'' \<le> b \<and> b \<le> CHR ''9'') \<or> (CHR ''A'' \<le> b \<and> b \<le> CHR ''Z'') \<or>
     (CHR ''a'' \<le> b \<and> b \<le> CHR ''z'') \<or> b = CHR ''_'')"

function index_loop :: "string \<Rightarrow> string \<Rightarrow> nat \<Rightarrow> nat option" where
  "index_loop s sub i =
     (if i + length sub \<le> length s
      then if take (length sub) (drop i s) = sub then Some i else index_loop s sub (Suc i)
      else None)"
  by pat_completeness auto
termination
  by (relation "measure (\<lambda>(s, sub, i). Suc (length s) - i)") auto

declare index_loop.simps [simp del]

definition indexOf :: "string \<Rightarrow> string \<Rightarrow> nat \<Rightarrow> nat option" where
  "indexOf s sub from = (if length s \<le> from then None else index_loop s sub from)"

lemma index_loop_Some:
  "index_loop s sub i = Some j \<Longrightarrow> i \<le> j \<and> j + length sub \<le> length s"
  by (induction s sub i rule: index_loop.induct) (subst (asm) (2) index_loop.simps, fastforce split: if_splits)

lemma indexOf_Some: "indexOf s sub i = Some j \<Longrightarrow> i \<le> j \<and> j + length sub \<le> length s"
  by (auto simp: indexOf_def dest: index_loop_Some split: if_splits)

text \<open>
  The search for one tag. Both tags are non-empty, which is what makes the search advance; on an
  empty tag, which no caller passes, the definition gives up.
\<close>

function mention_loop :: "string \<Rightarrow> string \<Rightarrow> nat \<Rightarrow> bool" where
  "mention_loop content tag idx =
     (if tag = [] then False
      else case indexOf content tag idx of
        None \<Rightarrow> False
      | Some i \<Rightarrow>
          (let stop = i + length tag in
           if (stop = length content \<or> \<not> isAlnum (content ! stop)) \<and>
              (i = 0 \<or> \<not> isAlnum (content ! (i - 1)))
           then True
           else mention_loop content tag stop))"
  by pat_completeness auto
termination
proof (relation "measure (\<lambda>(content, tag, idx). length content - idx)", goal_cases)
  case (2 content tag idx i stop)
  then show ?case
    using indexOf_Some [of content tag idx i] by (cases tag) auto
qed simp

declare mention_loop.simps [simp del]

definition containsEveryoneMention :: "string \<Rightarrow> bool" where
  "containsEveryoneMention content = list_ex (\<lambda>tag. mention_loop content tag 0) [''@everyone'', ''@here'']"

section \<open>The repository\<close>

definition gocqlParseUUID :: "message_deps \<Rightarrow> string \<Rightarrow> uuid option" where
  "gocqlParseUUID d s = md_ParseUUID d s"

definition Repository_GetMessage :: "env \<Rightarrow> uuid \<Rightarrow> uuid \<Rightarrow> chat \<Rightarrow> dberr + Messages" where
  "Repository_GetMessage e ch i c =
     (case q_Getmessage e ch i c of
        Inl x \<Rightarrow> Inl x
      | Inr m \<Rightarrow> if boolValue (m_Deleted m) then Inl NoRows else Inr m)"

definition Repository_DeleteMessage :: "env \<Rightarrow> uuid \<Rightarrow> uuid \<Rightarrow> chat \<Rightarrow> dberr + chat" where
  "Repository_DeleteMessage e ch i c = q_Deletemessage e (clock e []) ch i c"

definition IncrementMentionCount :: "env \<Rightarrow> uuid \<Rightarrow> uuid \<Rightarrow> chat \<Rightarrow> dberr + chat" where
  "IncrementMentionCount e u ch c =
     (case q_Getreadstate (at e 0) u ch c of
        Inl NoRows \<Rightarrow> q_Upsertreadstate (at e 1) u ch 0 1 c
      | Inl x \<Rightarrow> Inl x
      | Inr (mentions, lastRead) \<Rightarrow> q_Upsertreadstate (at e 1) u ch lastRead (mentions + 1) c)"

definition CascadeDeleteChildren :: "env \<Rightarrow> uuid \<Rightarrow> uuid \<Rightarrow> chat \<Rightarrow> chat" where
  "CascadeDeleteChildren e ch i c =
     (let c1 = keep_on_error c (q_Deletemessageattachments (at e 0) ch i c);
          c2 = keep_on_error c1 (q_Deletemessagereactions (at e 1) ch i c1)
      in keep_on_error c2 (q_Deleteedithistory (at e 2) ch i c2))"

text \<open>
  The loop shared by the listings: rows that are deleted or not wanted are skipped, and the loop
  stops when it holds limit rows. A listing fetches fetchLimit rows before it filters.
\<close>

fun keep_loop :: "(Messages \<Rightarrow> bool) \<Rightarrow> int \<Rightarrow> Messages list \<Rightarrow> Messages list \<Rightarrow> Messages list" where
  "keep_loop wanted limit [] results = results"
| "keep_loop wanted limit (m # ms) results =
     (if boolValue (m_Deleted m) then keep_loop wanted limit ms results
      else if wanted m
      then let results = results @ [m] in
           if limit \<le> int (length results) then results else keep_loop wanted limit ms results
      else keep_loop wanted limit ms results)"

definition fetchLimit :: "int \<Rightarrow> int" where
  "fetchLimit limit = (if limit * 2 < limit then limit else limit * 2)"

definition Repository_ListMessages ::
    "env \<Rightarrow> message_deps \<Rightarrow> uuid \<Rightarrow> uuid option \<Rightarrow> uuid option \<Rightarrow> int \<Rightarrow> chat \<Rightarrow> message_error + Messages list" where
  "Repository_ListMessages e d ch before after limit c =
     (case (case before of
              Some b \<Rightarrow> q_Listmessagesbefore e d ch b (fetchLimit limit) c
            | None \<Rightarrow>
                (case after of
                   Some a \<Rightarrow> q_Listmessagesafter e d ch a (fetchLimit limit) c
                 | None \<Rightarrow> q_Listrecentmessages e d ch (fetchLimit limit) c)) of
        Inl x \<Rightarrow> Inl (MsgFailed ''failed to list messages'' x)
      | Inr ms \<Rightarrow> Inr (keep_loop (\<lambda>_. True) limit ms []))"

definition ListMessagesAfter ::
    "env \<Rightarrow> message_deps \<Rightarrow> uuid \<Rightarrow> uuid \<Rightarrow> int \<Rightarrow> chat \<Rightarrow> message_error + Messages list" where
  "ListMessagesAfter e d ch afterID limit c =
     (case q_Listmessagesafter e d ch afterID (fetchLimit limit) c of
        Inl x \<Rightarrow> Inl (MsgFailed ''failed to list messages after'' x)
      | Inr ms \<Rightarrow> Inr (keep_loop (\<lambda>_. True) limit ms []))"

definition ListRecentMessages ::
    "env \<Rightarrow> message_deps \<Rightarrow> uuid \<Rightarrow> int \<Rightarrow> chat \<Rightarrow> message_error + Messages list" where
  "ListRecentMessages e d ch limit c =
     (case q_Listrecentmessages e d ch (fetchLimit limit) c of
        Inl x \<Rightarrow> Inl (MsgFailed ''failed to list recent messages'' x)
      | Inr ms \<Rightarrow> Inr (keep_loop (\<lambda>_. True) limit ms []))"

definition Repository_SearchMessages ::
    "env \<Rightarrow> message_deps \<Rightarrow> uuid \<Rightarrow> string \<Rightarrow> int \<Rightarrow> chat \<Rightarrow> message_error + Messages list" where
  "Repository_SearchMessages e d ch query limit c =
     (case q_Listrecentmessages e d ch (limit * 5) c of
        Inl x \<Rightarrow> Inl (MsgFailed ''failed to search messages'' x)
      | Inr ms \<Rightarrow> Inr (keep_loop
          (\<lambda>m. Index (md_ToLower d (stringValue (m_Content m))) (md_ToLower d query) \<noteq> None) limit ms []))"

definition Repository_GetThreadMessages ::
    "env \<Rightarrow> message_deps \<Rightarrow> uuid \<Rightarrow> uuid \<Rightarrow> int \<Rightarrow> chat \<Rightarrow> message_error + Messages list" where
  "Repository_GetThreadMessages e d ch parentID n c =
     (let limit = (if n \<le> 0 \<or> 100 < n then 100 else n) in
      case q_Listrecentmessages e d ch (limit * 10) c of
        Inl x \<Rightarrow> Inl (MsgFailed ''failed to list recent messages for thread'' x)
      | Inr ms \<Rightarrow> Inr (keep_loop (\<lambda>m. uuidValue (m_ReplyToId m) = parentID) limit ms []))"

text \<open>The result of a count: how many live rows, and the newest of them.\<close>

definition count_live :: "Messages list \<Rightarrow> int \<times> uuid \<times> time" where
  "count_live rows =
     (case filter (\<lambda>m. \<not> boolValue (m_Deleted m)) rows of
        [] \<Rightarrow> (0, 0, zero_time)
      | m # ms \<Rightarrow> (1 + int (length ms), uuidValue (m_Id m), timeValue (m_CreatedAt m)))"

definition CountUnreadMessages ::
    "env \<Rightarrow> message_deps \<Rightarrow> uuid \<Rightarrow> uuid \<Rightarrow> chat \<Rightarrow> message_error + (int \<times> uuid \<times> time)" where
  "CountUnreadMessages e d ch afterID c =
     (case q_Countunreadmessages e d ch afterID c of
        Inl x \<Rightarrow> Inl (MsgFailed ''failed to count unread messages'' x)
      | Inr rows \<Rightarrow> Inr (count_live rows))"

definition CountAllMessages ::
    "env \<Rightarrow> message_deps \<Rightarrow> uuid \<Rightarrow> chat \<Rightarrow> message_error + (int \<times> uuid \<times> time)" where
  "CountAllMessages e d ch c =
     (case q_Countallmessages e d ch c of
        Inl x \<Rightarrow> Inl (MsgFailed ''failed to count all messages'' x)
      | Inr rows \<Rightarrow> Inr (count_live rows))"

text \<open>
  GetReactions groups the rows by emoji. The list of users starts with one empty string per user,
  since the slice is made with that length and then appended to, and it ends at the current user.
\<close>

fun reaction_users :: "env \<Rightarrow> uuid \<Rightarrow> uuid list \<Rightarrow> string list \<Rightarrow> string list \<times> bool" where
  "reaction_users e cur [] acc = (acc, False)"
| "reaction_users e cur (u # us) acc =
     (if u = cur then (acc @ [uuid_string e u], True)
      else reaction_users e cur us (acc @ [uuid_string e u]))"

definition Repository_GetReactions ::
    "env \<Rightarrow> message_deps \<Rightarrow> uuid \<Rightarrow> uuid \<Rightarrow> uuid \<Rightarrow> chat \<Rightarrow> message_error + ReactionCount list" where
  "Repository_GetReactions e d ch i cur c =
     (case q_Getreactions e d ch i c of
        Inl x \<Rightarrow> Inl (MsgFailed ''failed to get reactions'' x)
      | Inr rows \<Rightarrow>
          Inr (map (\<lambda>em.
            let us = map snd (filter (\<lambda>r. fst r = em) rows);
                r = reaction_users e cur us (replicate (length us) [])
            in \<lparr>rc_user_id = fst r, rc_Emoji = em, rc_Count = int32 (int (length us)), rc_Me = snd r\<rparr>)
            (md_map_order d (remdups (map fst rows)))))"

fun bulk_delete :: "env \<Rightarrow> nat \<Rightarrow> uuid \<Rightarrow> uuid list \<Rightarrow> chat \<Rightarrow> int \<times> chat" where
  "bulk_delete e n ch [] c = (0, c)"
| "bulk_delete e n ch (i # is) c =
     (case Repository_DeleteMessage (at e n) ch i c of
        Inl _ \<Rightarrow> bulk_delete e (Suc n) ch is c
      | Inr c1 \<Rightarrow> (case bulk_delete e (Suc n) ch is c1 of (k, c2) \<Rightarrow> (k + 1, c2)))"

definition GetMessagesSince ::
    "env \<Rightarrow> message_deps \<Rightarrow> uuid \<Rightarrow> time \<Rightarrow> chat \<Rightarrow> dberr + Messages list" where
  "GetMessagesSince e d ch since c = q_Getmessagessince e d ch since c"


section \<open>Events\<close>

definition loadAttachments ::
    "env \<Rightarrow> message_deps \<Rightarrow> uuid \<Rightarrow> uuid \<Rightarrow> chat \<Rightarrow> MessageAttachments list" where
  "loadAttachments e d ch i c =
     (case q_Getmessageattachments e d ch i c of Inl _ \<Rightarrow> [] | Inr atts \<Rightarrow> atts)"

definition text_event :: "ChatEventType \<Rightarrow> string \<Rightarrow> string \<Rightarrow> string \<Rightarrow> string \<Rightarrow> string \<Rightarrow> TextChannelEvent" where
  "text_event ty messageID channelID guildID authorID senderID =
     \<lparr>tc_Type = ty, tc_MessageId = messageID, tc_ChannelId = channelID, tc_GuildId = guildID,
      tc_AuthorId = authorID, tc_SenderId = senderID, tc_Content = [], tc_MsgType = 0, tc_Pinned = False,
      tc_Deleted = False, tc_Reactions = [], tc_ReplyToId = [], tc_EditedAt = None, tc_CreatedAt = None,
      tc_Attachments = [], tc_ForwardedFrom = None, tc_MentionUserIds = [], tc_Emoji = []\<rparr>"

definition buildMessageEvent ::
    "env \<Rightarrow> message_deps \<Rightarrow> ChatEventType \<Rightarrow> string \<Rightarrow> string \<Rightarrow> string \<Rightarrow> Messages \<Rightarrow> MessageAttachments list \<Rightarrow>
     chat \<Rightarrow> message_error + TextChannelEvent" where
  "buildMessageEvent e d evtType channelID guildID userID msg atts c =
     (case (m_Content msg, m_Type msg, m_Pinned msg) of
        (Some content, Some ty, Some pinned) \<Rightarrow>
          Inr ((text_event evtType (uuid_string e (uuidValue (m_Id msg))) channelID guildID
                  (uuid_string e (uuidValue (m_AuthorId msg))) userID)
            \<lparr>tc_Content := content, tc_MsgType := int32 ty, tc_Pinned := pinned,
             tc_Deleted := (m_Deleted msg = Some True),
             tc_Reactions :=
               (case Repository_GetReactions e d (uuidValue (m_ChannelId msg)) (uuidValue (m_Id msg))
                       (uuidValue (m_AuthorId msg)) c of
                  Inl _ \<Rightarrow> []
                | Inr rs \<Rightarrow> map (\<lambda>r. \<lparr>cr_User = rc_user_id r, cr_Emoji = rc_Emoji r, cr_Count = rc_Count r,
                                      cr_Me = rc_Me r\<rparr>) rs),
             tc_ReplyToId := (if uuidValue (m_ReplyToId msg) \<noteq> 0
                              then uuid_string e (uuidValue (m_ReplyToId msg)) else []),
             tc_EditedAt := m_EditedAt msg,
             tc_CreatedAt := (if timeValue (m_CreatedAt msg) = zero_time then None
                              else Some (timeValue (m_CreatedAt msg))),
             tc_Attachments := map (\<lambda>a. \<lparr>ca_Id = uuid_string e (uuidValue (at_Id a)),
               ca_Filename = stringValue (at_Filename a), ca_Url = stringValue (at_Url a),
               ca_ContentType = stringValue (at_ContentType a), ca_Size = int64Value (at_Size a)\<rparr>) atts,
             tc_ForwardedFrom :=
               (if uuidValue (m_ForwardedFromMessageId msg) \<noteq> 0
                then Some (uuid_string e (uuidValue (m_ForwardedFromChannelId msg)),
                           uuid_string e (uuidValue (m_ForwardedFromMessageId msg)),
                           uuid_string e (uuidValue (m_ForwardedFromAuthorId msg)))
                else None),
             tc_MentionUserIds := map (uuid_string e) (uuidSliceValue (m_MentionUserIds msg))\<rparr>)
      | _ \<Rightarrow> Inl NilDeref)"

definition publishChannelEvent ::
    "env \<Rightarrow> message_deps \<Rightarrow> string \<Rightarrow> string \<Rightarrow> TextChannelEvent \<Rightarrow> chat \<Rightarrow> chat" where
  "publishChannelEvent e d guildID channelID payload c =
     (if lpb_nil e then c
      else if guildID \<noteq> []
      then c\<lparr>pg := Publish (GuildChannelMessage guildID channelID) (TextEvt payload) (pg c)\<rparr>
      else if \<not> md_dmChannelList d then c
      else case GetDMChannelMemberIDs e channelID (pg c) of
        Inl _ \<Rightarrow> c
      | Inr members \<Rightarrow>
          c\<lparr>pg := fold (\<lambda>mid. Publish (DmMessage mid channelID) (TextEvt payload)) members (pg c)\<rparr>)"

text \<open>Building the event of a message and publishing it, the last step of most handlers.\<close>

definition announce ::
    "env \<Rightarrow> message_deps \<Rightarrow> ChatEventType \<Rightarrow> string \<Rightarrow> string \<Rightarrow> string \<Rightarrow> Messages \<Rightarrow> MessageAttachments list \<Rightarrow>
     (TextChannelEvent \<Rightarrow> TextChannelEvent) \<Rightarrow> 'a \<Rightarrow> chat \<Rightarrow> (message_error + 'a) \<times> chat" where
  "announce e d evtType channelID guildID userID msg atts adjust r c =
     (case buildMessageEvent (at e 0) d evtType channelID guildID userID msg atts c of
        Inl x \<Rightarrow> (Inl x, c)
      | Inr payload \<Rightarrow> (Inr r, publishChannelEvent (at e 1) d guildID channelID (adjust payload) c))"

section \<open>Sending\<close>

record ForwardSource =
  fs_ChannelID :: string
  fs_MessageID :: string

text \<open>The guild permission cascade at the head of SendMessage.\<close>

definition send_allowed :: "env \<Rightarrow> string \<Rightarrow> string \<Rightarrow> string \<Rightarrow> string \<Rightarrow> string list \<Rightarrow> world \<Rightarrow> bool \<times> world" where
  "send_allowed e userID channelID guildID content attachmentIDs w =
     (if guildID = [] then (True, w)
      else case CanSendInChannel (at e 0) userID channelID w of
        (ok, w1) \<Rightarrow>
          (ok \<and> (attachmentIDs = [] \<or> CanAttachFiles (at e 1) userID guildID w1) \<and>
           (\<not> containsEveryoneMention content \<or> CanMentionEveryone (at e 2) userID guildID w1), w1))"

definition parse_mentions :: "message_deps \<Rightarrow> string list \<Rightarrow> uuid list" where
  "parse_mentions d ids = List.map_filter (gocqlParseUUID d) ids"

text \<open>The row to insert, before a forward or a reply completes it.\<close>

definition new_message ::
    "env \<Rightarrow> message_deps \<Rightarrow> uuid \<Rightarrow> uuid \<Rightarrow> string \<Rightarrow> int \<Rightarrow> string \<Rightarrow> string list \<Rightarrow> CreatemessageParams" where
  "new_message e d ch author content msgType userID mentionIDs =
     \<lparr>cm_ChannelId = ch, cm_Id = fresh e [], cm_AuthorId = author, cm_Content = content, cm_Type = msgType,
      cm_ReplyToId = 0, cm_Pinned = False, cm_CreatedAt = clock e [], cm_ForwardedFromChannelId = 0,
      cm_ForwardedFromMessageId = 0, cm_ForwardedFromAuthorId = 0,
      cm_MentionUserIds = parse_mentions d (dedupMentions mentionIDs userID)\<rparr>"

text \<open>The source of a forward: the identifiers and content to copy, and its attachments.\<close>

definition send_forward ::
    "env \<Rightarrow> message_deps \<Rightarrow> ForwardSource option \<Rightarrow> CreatemessageParams \<Rightarrow> chat \<Rightarrow>
     message_error + (CreatemessageParams \<times> MessageAttachments list)" where
  "send_forward e d forward create c =
     (case forward of
        None \<Rightarrow> Inr (create, [])
      | Some f \<Rightarrow>
          (case (gocqlParseUUID d (fs_ChannelID f), gocqlParseUUID d (fs_MessageID f)) of
             (Some srcCh, Some srcMsg) \<Rightarrow>
               (case Repository_GetMessage (at e 0) srcCh srcMsg c of
                  Inl _ \<Rightarrow> Inl ErrForwardSourceNotFound
                | Inr src \<Rightarrow>
                    (case (m_ChannelId src, m_Id src, m_AuthorId src) of
                       (Some fch, Some fid, Some fau) \<Rightarrow>
                         if cm_Content create = [] \<and> m_Content src = None then Inl NilDeref
                         else Inr (create\<lparr>cm_ForwardedFromChannelId := fch, cm_ForwardedFromMessageId := fid,
                               cm_ForwardedFromAuthorId := fau,
                               cm_Content := (if cm_Content create = [] then stringValue (m_Content src)
                                              else cm_Content create)\<rparr>,
                             loadAttachments (at e 1) d srcCh srcMsg c)
                     | _ \<Rightarrow> Inl NilDeref))
           | _ \<Rightarrow> Inl ErrInvalidUUID))"

definition send_reply ::
    "env \<Rightarrow> message_deps \<Rightarrow> string \<Rightarrow> CreatemessageParams \<Rightarrow> chat \<Rightarrow> message_error + CreatemessageParams" where
  "send_reply e d replyToID create c =
     (if replyToID = [] then Inr create
      else case gocqlParseUUID d replyToID of
        None \<Rightarrow> Inl ErrInvalidUUID
      | Some r \<Rightarrow>
          (case Repository_GetMessage e (cm_ChannelId create) r c of
             Inl _ \<Rightarrow> Inl ErrReplyParentNotFound
           | Inr _ \<Rightarrow> Inr (create\<lparr>cm_ReplyToId := r\<rparr>)))"

text \<open>The in-memory message returned to the caller: the row as written, before the store rounds it.\<close>

definition sent_message :: "CreatemessageParams \<Rightarrow> bool \<Rightarrow> Messages" where
  "sent_message create fwd =
     (blank_message (cm_ChannelId create) (cm_Id create))
       \<lparr>m_AuthorId := Some (cm_AuthorId create), m_Content := Some (cm_Content create),
        m_Type := Some (cm_Type create), m_ReplyToId := Some (cm_ReplyToId create),
        m_Pinned := Some False, m_Deleted := Some False, m_CreatedAt := Some (cm_CreatedAt create),
        m_ForwardedFromChannelId := (if fwd then Some (cm_ForwardedFromChannelId create) else None),
        m_ForwardedFromMessageId := (if fwd then Some (cm_ForwardedFromMessageId create) else None),
        m_ForwardedFromAuthorId := (if fwd then Some (cm_ForwardedFromAuthorId create) else None),
        m_MentionUserIds := Some (cm_MentionUserIds create)\<rparr>"

text \<open>
  One attachment row under a fresh random identifier. The row handed back has no channel and no
  message identifier. A failure of the random source or of the statement skips the attachment.
\<close>

definition add_attachment ::
    "env \<Rightarrow> uuid \<Rightarrow> uuid \<Rightarrow> string \<times> string \<times> string \<times> int \<Rightarrow> chat \<Rightarrow> MessageAttachments option \<times> chat" where
  "add_attachment e ch i meta c =
     (case meta of (filename, url, contentType, sz) \<Rightarrow>
        if fault (at e 0) [] then (None, c)
        else let aid = fresh (at e 0) [] in
          (case q_Addmessageattachment (at e 1) ch i aid filename url contentType sz c of
             Inl _ \<Rightarrow> (None, c)
           | Inr c1 \<Rightarrow>
               (Some \<lparr>at_ChannelId = None, at_MessageId = None, at_Id = Some aid, at_Filename = Some filename,
                      at_Url = Some url, at_ContentType = Some contentType, at_Size = Some sz\<rparr>, c1)))"

fun attach_files ::
    "env \<Rightarrow> nat \<Rightarrow> string \<Rightarrow> uuid \<Rightarrow> uuid \<Rightarrow> string \<Rightarrow> string list \<Rightarrow> chat \<Rightarrow> MessageAttachments list \<times> chat" where
  "attach_files e n base ch i userID [] c = ([], c)"
| "attach_files e n base ch i userID (fid # fids) c =
     (case ResolveAttachment (at (at e n) 2) base fid userID c of
        Inl _ \<Rightarrow> attach_files e (Suc n) base ch i userID fids c
      | Inr meta \<Rightarrow>
          (case add_attachment (at e n) ch i meta c of
             (None, c1) \<Rightarrow> attach_files e (Suc n) base ch i userID fids c1
           | (Some a, c1) \<Rightarrow>
               (case attach_files e (Suc n) base ch i userID fids c1 of (as, c2) \<Rightarrow> (a # as, c2))))"

fun copy_attachments ::
    "env \<Rightarrow> nat \<Rightarrow> uuid \<Rightarrow> uuid \<Rightarrow> MessageAttachments list \<Rightarrow> chat \<Rightarrow> MessageAttachments list \<times> chat" where
  "copy_attachments e n ch i [] c = ([], c)"
| "copy_attachments e n ch i (a # as) c =
     (case add_attachment (at e n) ch i
             (stringValue (at_Filename a), stringValue (at_Url a), stringValue (at_ContentType a),
              int64Value (at_Size a)) c of
        (None, c1) \<Rightarrow> copy_attachments e (Suc n) ch i as c1
      | (Some b, c1) \<Rightarrow>
          (case copy_attachments e (Suc n) ch i as c1 of (bs, c2) \<Rightarrow> (b # bs, c2)))"

fun bump_mentions :: "env \<Rightarrow> nat \<Rightarrow> uuid \<Rightarrow> uuid list \<Rightarrow> chat \<Rightarrow> chat" where
  "bump_mentions e n ch [] c = c"
| "bump_mentions e n ch (u # us) c =
     bump_mentions e (Suc n) ch us (keep_on_error c (IncrementMentionCount (at e n) u ch c))"

text \<open>The second half of SendMessage, once the row to insert is complete.\<close>

definition send_created ::
    "env \<Rightarrow> message_deps \<Rightarrow> string \<Rightarrow> string \<Rightarrow> string \<Rightarrow> string list \<Rightarrow> bool \<Rightarrow> MessageAttachments list \<Rightarrow>
     CreatemessageParams \<Rightarrow> chat \<Rightarrow> (message_error + (Messages \<times> MessageAttachments list)) \<times> chat" where
  "send_created e d userID channelID guildID attachmentIDs fwd srcAtts create c =
     (case q_Createmessage (at e 0) d create c of
        Inl x \<Rightarrow> (Inl (MsgFailed ''failed to create message'' x), c)
      | Inr c1 \<Rightarrow>
          (let ch = cm_ChannelId create; i = cm_Id create in
           case (case md_media d of
                   None \<Rightarrow> ([], c1)
                 | Some base \<Rightarrow> attach_files (at e 1) 0 base ch i userID attachmentIDs c1) of
             (as, c2) \<Rightarrow>
               (case copy_attachments (at e 2) 0 ch i srcAtts c2 of
                  (bs, c3) \<Rightarrow>
                    (let msg = sent_message create fwd;
                         c4 = bump_mentions (at e 3) 0 ch (cm_MentionUserIds create) c3
                     in announce (at e 4) d CHAT_EVENT_CREATE channelID guildID userID msg (as @ bs)
                          (\<lambda>x. x) (msg, as @ bs) c4))))"

definition SendMessage ::
    "env \<Rightarrow> message_deps \<Rightarrow> string \<Rightarrow> string \<Rightarrow> string \<Rightarrow> string \<Rightarrow> int \<Rightarrow> string \<Rightarrow> string list \<Rightarrow>
     ForwardSource option \<Rightarrow> string list \<Rightarrow> chat \<Rightarrow>
     (message_error + (Messages \<times> MessageAttachments list)) \<times> chat" where
  "SendMessage e d userID channelID guildID content msgType replyToID attachmentIDs forward mentionIDs c =
     (if channelID = [] then (Inl ErrChannelRequired, c)
      else if content = [] \<and> attachmentIDs = [] \<and> forward = None then (Inl ErrContentRequired, c)
      else case send_allowed (at e 0) userID channelID guildID content attachmentIDs (pg c) of
        (False, w1) \<Rightarrow> (Inl ErrInsufficientPermissions, c\<lparr>pg := w1\<rparr>)
      | (True, w1) \<Rightarrow>
          (let c1 = c\<lparr>pg := w1\<rparr> in
           case (gocqlParseUUID d channelID, gocqlParseUUID d userID) of
             (Some ch, Some author) \<Rightarrow>
               (case send_forward (at e 2) d forward
                       (new_message (at e 1) d ch author content msgType userID mentionIDs) c1 of
                  Inl x \<Rightarrow> (Inl x, c1)
                | Inr (create1, srcAtts) \<Rightarrow>
                    (case send_reply (at e 3) d replyToID create1 c1 of
                       Inl x \<Rightarrow> (Inl x, c1)
                     | Inr create2 \<Rightarrow>
                         send_created (at e 4) d userID channelID guildID attachmentIDs (forward \<noteq> None)
                           srcAtts create2 c1))
           | _ \<Rightarrow> (Inl ErrInvalidUUID, c1)))"

definition SendDirectMessage ::
    "env \<Rightarrow> message_deps \<Rightarrow> string \<Rightarrow> string \<Rightarrow> string \<Rightarrow> chat \<Rightarrow> (message_error + (string \<times> Messages)) \<times> chat" where
  "SendDirectMessage e d senderID recipientID content c =
     (if recipientID = [] then (Inl (MsgText ''recipient_id is required''), c)
      else if content = [] then (Inl ErrContentRequired, c)
      else if \<not> md_dmResolver d then (Inl (MsgText ''DM not configured''), c)
      else if md_blockChecker d \<and> (IsBlocked (at e 0) senderID recipientID (pg c) \<or>
                                  IsBlocked (at e 1) recipientID senderID (pg c))
      then (Inl ErrUserBlocked, c)
      else case GetOrCreateDMChannel (at e 2) senderID [recipientID] (pg c) of
        (Inl x, w1) \<Rightarrow> (Inl (MsgDM x), c\<lparr>pg := w1\<rparr>)
      | (Inr channelID, w1) \<Rightarrow>
          (case SendMessage (at e 3) d senderID channelID [] content 1 [] [] None [] (c\<lparr>pg := w1\<rparr>) of
             (Inl x, c2) \<Rightarrow> (Inl x, c2)
           | (Inr (msg, _), c2) \<Rightarrow> (Inr (channelID, msg), c2)))"

section \<open>Reading, editing, deleting\<close>

definition GetMessage :: "env \<Rightarrow> message_deps \<Rightarrow> string \<Rightarrow> string \<Rightarrow> chat \<Rightarrow> message_error + Messages" where
  "GetMessage e d channelID messageID c =
     (case (gocqlParseUUID d channelID, gocqlParseUUID d messageID) of
        (Some ch, Some i) \<Rightarrow>
          (case Repository_GetMessage e ch i c of Inl _ \<Rightarrow> Inl ErrMessageNotFound | Inr m \<Rightarrow> Inr m)
      | _ \<Rightarrow> Inl ErrInvalidUUID)"

definition GetAttachments ::
    "env \<Rightarrow> message_deps \<Rightarrow> string \<Rightarrow> string \<Rightarrow> chat \<Rightarrow> message_error + MessageAttachments list" where
  "GetAttachments e d channelID messageID c =
     (case (gocqlParseUUID d channelID, gocqlParseUUID d messageID) of
        (Some ch, Some i) \<Rightarrow>
          (case q_Getmessageattachments e d ch i c of Inl x \<Rightarrow> Inl (MsgDb x) | Inr as \<Rightarrow> Inr as)
      | _ \<Rightarrow> Inl ErrInvalidUUID)"

text \<open>
  The exemption from the author rule: the caller named a guild and may manage the channel. Without
  a guild the permission is not asked for.
\<close>

definition manages :: "env \<Rightarrow> string \<Rightarrow> string \<Rightarrow> string \<Rightarrow> world \<Rightarrow> bool \<times> world" where
  "manages e userID channelID guildID w =
     (if guildID = [] then (False, w) else CanManageChannel e userID channelID w)"

text \<open>
  time.Since caps its result at the largest duration, far above the edit window, so the
  comparison is that of the exact difference.
\<close>

definition EditMessage ::
    "env \<Rightarrow> message_deps \<Rightarrow> string \<Rightarrow> string \<Rightarrow> string \<Rightarrow> string \<Rightarrow> string \<Rightarrow> chat \<Rightarrow>
     (message_error + Messages) \<times> chat" where
  "EditMessage e d userID channelID guildID messageID content c =
     (case (gocqlParseUUID d channelID, gocqlParseUUID d messageID, gocqlParseUUID d userID) of
        (Some ch, Some i, Some author) \<Rightarrow>
          (case Repository_GetMessage (at e 0) ch i c of
             Inl _ \<Rightarrow> (Inl ErrMessageNotFound, c)
           | Inr existing \<Rightarrow>
               (case (if uuidValue (m_AuthorId existing) \<noteq> author
                      then (case manages (at e 1) userID channelID guildID (pg c) of
                              (ok, w1) \<Rightarrow> (if ok then None else Some ErrNotMessageAuthor, w1))
                      else (if EditWindow < clock (at e 2) [] - timeValue (m_CreatedAt existing)
                            then Some ErrEditWindowExpired else None, pg c)) of
                  (Some x, w1) \<Rightarrow> (Inl x, c\<lparr>pg := w1\<rparr>)
                | (None, w1) \<Rightarrow>
                    (let c1 = c\<lparr>pg := w1\<rparr>; now = clock (at e 3) [] in
                     case q_Updatemessagecontent (at e 4) content now ch i c1 of
                       Inl x \<Rightarrow> (Inl (MsgFailed ''failed to edit message'' x), c1)
                     | Inr c2 \<Rightarrow>
                         (let c3 = keep_on_error c2
                                (q_Saveedithistory (at e 5) ch i (stringValue (m_Content existing)) now c2);
                              edited = existing\<lparr>m_Content := Some content, m_EditedAt := Some now\<rparr>
                          in announce (at e 7) d CHAT_EVENT_UPDATE channelID guildID userID edited
                               (loadAttachments (at e 6) d ch i c3) (\<lambda>x. x) edited c3))))
      | _ \<Rightarrow> (Inl ErrInvalidUUID, c))"

definition DeleteMessage ::
    "env \<Rightarrow> message_deps \<Rightarrow> string \<Rightarrow> string \<Rightarrow> string \<Rightarrow> string \<Rightarrow> chat \<Rightarrow> (message_error + unit) \<times> chat" where
  "DeleteMessage e d userID channelID guildID messageID c =
     (case (gocqlParseUUID d channelID, gocqlParseUUID d messageID, gocqlParseUUID d userID) of
        (Some ch, Some i, Some author) \<Rightarrow>
          (case Repository_GetMessage (at e 0) ch i c of
             Inl _ \<Rightarrow> (Inl ErrMessageNotFound, c)
           | Inr existing \<Rightarrow>
               (case (if uuidValue (m_AuthorId existing) \<noteq> author
                      then manages (at e 1) userID channelID guildID (pg c) else (True, pg c)) of
                  (False, w1) \<Rightarrow> (Inl ErrNotMessageAuthor, c\<lparr>pg := w1\<rparr>)
                | (True, w1) \<Rightarrow>
                    (let c1 = c\<lparr>pg := w1\<rparr> in
                     case Repository_DeleteMessage (at e 2) ch i c1 of
                       Inl x \<Rightarrow> (Inl (MsgFailed ''failed to delete message'' x), c1)
                     | Inr c2 \<Rightarrow>
                         announce (at e 4) d CHAT_EVENT_DELETE channelID guildID userID
                           (existing\<lparr>m_Deleted := Some True\<rparr>) [] (\<lambda>x. x) ()
                           (CascadeDeleteChildren (at e 3) ch i c2))))
      | _ \<Rightarrow> (Inl ErrInvalidUUID, c))"

definition canReadChannel :: "env \<Rightarrow> message_deps \<Rightarrow> string \<Rightarrow> string \<Rightarrow> world \<Rightarrow> bool \<times> world" where
  "canReadChannel e d userID channelID w =
     (case (if authz_nil e then (False, w) else CanViewChannel (at e 0) userID channelID w) of
        (True, w1) \<Rightarrow> (True, w1)
      | (False, w1) \<Rightarrow>
          (md_dmChannelList d \<and>
             (case GetDMChannelMemberIDs (at e 1) channelID w1 of
                Inl _ \<Rightarrow> False | Inr members \<Rightarrow> userID \<in> set members) \<or>
           authz_nil e \<and> \<not> md_dmChannelList d, w1))"

definition clamp_limit :: "int \<Rightarrow> int" where
  "clamp_limit l = (if l \<le> 0 \<or> 100 < l then 50 else l)"

text \<open>An optional cursor: absent when empty, an error when it is not a UUID.\<close>

definition cursor :: "message_deps \<Rightarrow> string \<Rightarrow> message_error + uuid option" where
  "cursor d s = (if s = [] then Inr None
     else case gocqlParseUUID d s of None \<Rightarrow> Inl ErrInvalidUUID | Some u \<Rightarrow> Inr (Some u))"

definition ListMessages ::
    "env \<Rightarrow> message_deps \<Rightarrow> string \<Rightarrow> string \<Rightarrow> string \<Rightarrow> string \<Rightarrow> int \<Rightarrow> chat \<Rightarrow>
     (message_error + Messages list) \<times> chat" where
  "ListMessages e d userID channelID before after limit c =
     (case canReadChannel (at e 0) d userID channelID (pg c) of
        (False, w1) \<Rightarrow> (Inl ErrInsufficientPermissions, c\<lparr>pg := w1\<rparr>)
      | (True, w1) \<Rightarrow>
          (let c1 = c\<lparr>pg := w1\<rparr> in
           (case gocqlParseUUID d channelID of
              None \<Rightarrow> Inl ErrInvalidUUID
            | Some ch \<Rightarrow>
                (case cursor d before of
                   Inl x \<Rightarrow> Inl x
                 | Inr b \<Rightarrow>
                     (case cursor d after of
                        Inl x \<Rightarrow> Inl x
                      | Inr a \<Rightarrow> Repository_ListMessages (at e 1) d ch b a (clamp_limit limit) c1)), c1)))"


section \<open>Pins, reactions, read receipts, typing\<close>

definition setPinned ::
    "env \<Rightarrow> message_deps \<Rightarrow> string \<Rightarrow> string \<Rightarrow> string \<Rightarrow> string \<Rightarrow> bool \<Rightarrow> chat \<Rightarrow> (message_error + unit) \<times> chat" where
  "setPinned e d userID channelID guildID messageID pinned c =
     (if guildID \<noteq> [] \<and> \<not> CanPinMessages (at e 0) userID guildID (pg c)
      then (Inl ErrInsufficientPermissions, c)
      else case (gocqlParseUUID d channelID, gocqlParseUUID d messageID) of
        (Some ch, Some i) \<Rightarrow>
          (case q_Setpinned (at e 1) pinned ch i c of
             Inl x \<Rightarrow> (Inl (MsgDb x), c)
           | Inr c1 \<Rightarrow>
               (case Repository_GetMessage (at e 2) ch i c1 of
                  Inl _ \<Rightarrow> (Inr (), c1)
                | Inr msg \<Rightarrow>
                    announce (at e 4) d (if pinned then CHAT_EVENT_PIN else CHAT_EVENT_UNPIN) channelID
                      guildID userID (msg\<lparr>m_Pinned := Some pinned\<rparr>)
                      (loadAttachments (at e 3) d ch i c1) (\<lambda>x. x) () c1))
      | _ \<Rightarrow> (Inl ErrInvalidUUID, c))"

definition PinMessage ::
    "env \<Rightarrow> message_deps \<Rightarrow> string \<Rightarrow> string \<Rightarrow> string \<Rightarrow> string \<Rightarrow> chat \<Rightarrow> (message_error + unit) \<times> chat" where
  "PinMessage e d userID channelID guildID messageID c = setPinned e d userID channelID guildID messageID True c"

definition UnpinMessage ::
    "env \<Rightarrow> message_deps \<Rightarrow> string \<Rightarrow> string \<Rightarrow> string \<Rightarrow> string \<Rightarrow> chat \<Rightarrow> (message_error + unit) \<times> chat" where
  "UnpinMessage e d userID channelID guildID messageID c = setPinned e d userID channelID guildID messageID False c"

definition toggleReaction ::
    "env \<Rightarrow> message_deps \<Rightarrow> string \<Rightarrow> string \<Rightarrow> string \<Rightarrow> string \<Rightarrow> string \<Rightarrow> bool \<Rightarrow> chat \<Rightarrow>
     (message_error + unit) \<times> chat" where
  "toggleReaction e d userID channelID guildID messageID emoji add c =
     (if emoji = [] then (Inl ErrEmojiRequired, c)
      else if add \<and> guildID \<noteq> [] \<and> \<not> CanAddReactions (at e 0) userID guildID (pg c)
      then (Inl ErrInsufficientPermissions, c)
      else case (gocqlParseUUID d channelID, gocqlParseUUID d messageID, gocqlParseUUID d userID) of
        (Some ch, Some i, Some u) \<Rightarrow>
          (case Repository_GetMessage (at e 1) ch i c of
             Inl _ \<Rightarrow> (Inl ErrMessageNotFound, c)
           | Inr msg \<Rightarrow>
               (case (if add then q_Addreaction (at e 2) ch i emoji u c
                      else q_Removereaction (at e 2) ch i emoji u c) of
                  Inl x \<Rightarrow> (Inl (MsgDb x), c)
                | Inr c1 \<Rightarrow>
                    announce (at e 4) d
                      (if add then CHAT_EVENT_REACTION_ADD else CHAT_EVENT_REACTION_REMOVE) channelID guildID
                      userID msg (loadAttachments (at e 3) d ch i c1) (\<lambda>x. x\<lparr>tc_Emoji := emoji\<rparr>) () c1))
      | _ \<Rightarrow> (Inl ErrInvalidUUID, c))"

definition AddReaction ::
    "env \<Rightarrow> message_deps \<Rightarrow> string \<Rightarrow> string \<Rightarrow> string \<Rightarrow> string \<Rightarrow> string \<Rightarrow> chat \<Rightarrow> (message_error + unit) \<times> chat" where
  "AddReaction e d userID channelID guildID messageID emoji c =
     toggleReaction e d userID channelID guildID messageID emoji True c"

definition RemoveReaction ::
    "env \<Rightarrow> message_deps \<Rightarrow> string \<Rightarrow> string \<Rightarrow> string \<Rightarrow> string \<Rightarrow> string \<Rightarrow> chat \<Rightarrow> (message_error + unit) \<times> chat" where
  "RemoveReaction e d userID channelID guildID messageID emoji c =
     toggleReaction e d userID channelID guildID messageID emoji False c"

definition GetReactions ::
    "env \<Rightarrow> message_deps \<Rightarrow> string \<Rightarrow> string \<Rightarrow> string \<Rightarrow> chat \<Rightarrow> message_error + ReactionCount list" where
  "GetReactions e d channelID messageID currentUserID c =
     (case (gocqlParseUUID d channelID, gocqlParseUUID d messageID, gocqlParseUUID d currentUserID) of
        (Some ch, Some i, Some cur) \<Rightarrow> Repository_GetReactions e d ch i cur c
      | _ \<Rightarrow> Inl ErrInvalidUUID)"

definition AckMessage ::
    "env \<Rightarrow> message_deps \<Rightarrow> string \<Rightarrow> string \<Rightarrow> string \<Rightarrow> string \<Rightarrow> chat \<Rightarrow> (message_error + unit) \<times> chat" where
  "AckMessage e d userID channelID guildID messageID c =
     (case (gocqlParseUUID d userID, gocqlParseUUID d channelID, gocqlParseUUID d messageID) of
        (Some u, Some ch, Some i) \<Rightarrow>
          (case q_Upsertreadstate (at e 0) u ch i 0 c of
             Inl x \<Rightarrow> (Inl (MsgDb x), c)
           | Inr c1 \<Rightarrow>
               (Inr (), publishChannelEvent (at e 2) d guildID channelID
                  ((text_event CHAT_EVENT_READ_RECEIPT messageID channelID guildID userID userID)
                     \<lparr>tc_EditedAt := Some (clock (at e 1) [])\<rparr>) c1))
      | _ \<Rightarrow> (Inl ErrInvalidUUID, c))"

text \<open>The typing key of a channel holds the last user, for eight seconds.\<close>

definition StartTyping ::
    "env \<Rightarrow> message_deps \<Rightarrow> string \<Rightarrow> string \<Rightarrow> string \<Rightarrow> string \<Rightarrow> chat \<Rightarrow> (message_error + unit) \<times> chat" where
  "StartTyping e d name userID channelID guildID c =
     (if channelID = [] then (Inl ErrChannelRequired, c)
      else if fault (at e 0) [] then (Inl (MsgFailed ''failed to set typing indicator'' DbFault), c)
      else let key = ''typing:'' @ channelID;
               c1 = c\<lparr>typing := (key, userID, clock (at e 0) [] + 8 * 1000000000)
                                # filter (\<lambda>(k, _). k \<noteq> key) (typing c)\<rparr>;
               evt = TypingEvt \<lparr>ty_ChannelId = channelID, ty_GuildId = guildID, ty_UserId = userID,
                                ty_Username = name\<rparr>
           in (Inr (),
               if guildID \<noteq> [] then c1\<lparr>pg := Publish (GuildChannelTyping guildID channelID) evt (pg c1)\<rparr>
               else if \<not> md_dmChannelList d then c1
               else case GetDMChannelMemberIDs (at e 1) channelID (pg c1) of
                 Inl _ \<Rightarrow> c1
               | Inr members \<Rightarrow>
                   c1\<lparr>pg := fold (\<lambda>mid. if mid \<noteq> userID then Publish (DmTyping mid channelID) evt else (\<lambda>w. w))
                               members (pg c1)\<rparr>))"


section \<open>Unread counts, search, threads, moderation, history\<close>

record UnreadInfo =
  ui_ChannelID :: string
  ui_GuildID :: string
  ui_ChannelName :: string
  ui_IsDM :: bool
  ui_SenderID :: string
  ui_SenderName :: string
  ui_LastReadMsgID :: string
  ui_UnreadCount :: int
  ui_MentionCount :: int
  ui_LastMessageID :: string
  ui_LastMessageTime :: time
  ui_RecentMessages :: "Messages list"

definition resolveDMOtherUser :: "env \<Rightarrow> message_deps \<Rightarrow> string \<Rightarrow> string \<Rightarrow> world \<Rightarrow> string" where
  "resolveDMOtherUser e d channelID userID w =
     (if \<not> md_dmChannelList d then []
      else case GetDMChannelMemberIDs e channelID w of
        Inl _ \<Rightarrow> []
      | Inr members \<Rightarrow> (case find (\<lambda>m. m \<noteq> userID) members of None \<Rightarrow> [] | Some m \<Rightarrow> m))"

definition recent_or_none :: "message_error + Messages list \<Rightarrow> Messages list" where
  "recent_or_none r = (case r of Inl _ \<Rightarrow> [] | Inr ms \<Rightarrow> ms)"

text \<open>The channels with a read state: those seen, the entries with unread messages, their total.\<close>

fun unread_states ::
    "env \<Rightarrow> message_deps \<Rightarrow> nat \<Rightarrow> ReadStates list \<Rightarrow> chat \<Rightarrow> UnreadInfo list \<times> int \<Rightarrow> UnreadInfo list \<times> int" where
  "unread_states e d n [] c acc = acc"
| "unread_states e d n (rs # rss) c (results, totalUnread) =
     (let ch = uuidValue (rs_ChannelId rs); lastRead = uuidValue (rs_LastReadMessageId rs) in
      case CountUnreadMessages (at (at e n) 0) d ch lastRead c of
        Inl _ \<Rightarrow> unread_states e d (Suc n) rss c (results, totalUnread)
      | Inr (cnt, lastMsg, lastTime) \<Rightarrow>
          if cnt = 0 then unread_states e d (Suc n) rss c (results, totalUnread)
          else unread_states e d (Suc n) rss c
            (results @ [\<lparr>ui_ChannelID = uuid_string e ch, ui_GuildID = [], ui_ChannelName = [],
               ui_IsDM = False, ui_SenderID = [], ui_SenderName = [],
               ui_LastReadMsgID = uuid_string e lastRead, ui_UnreadCount = int32 cnt,
               ui_MentionCount = int32 (int64Value (rs_MentionCount rs)),
               ui_LastMessageID = uuid_string e lastMsg, ui_LastMessageTime = lastTime,
               ui_RecentMessages = recent_or_none (ListMessagesAfter (at (at e n) 1) d ch lastRead 5 c)\<rparr>],
             int32 (totalUnread + int32 cnt)))"

text \<open>The direct-message channels that were never opened.\<close>

fun unread_dms ::
    "env \<Rightarrow> message_deps \<Rightarrow> nat \<Rightarrow> string \<Rightarrow> string list \<Rightarrow> string list \<Rightarrow> chat \<Rightarrow> UnreadInfo list \<times> int \<Rightarrow>
     UnreadInfo list \<times> int" where
  "unread_dms e d n userID seen [] c acc = acc"
| "unread_dms e d n userID seen (chID # chIDs) c (results, totalUnread) =
     (if chID \<in> set seen then unread_dms e d (Suc n) userID seen chIDs c (results, totalUnread)
      else case gocqlParseUUID d chID of
        None \<Rightarrow> unread_dms e d (Suc n) userID seen chIDs c (results, totalUnread)
      | Some ch \<Rightarrow>
          (case CountAllMessages (at (at e n) 0) d ch c of
             Inl _ \<Rightarrow> unread_dms e d (Suc n) userID seen chIDs c (results, totalUnread)
           | Inr (cnt, lastMsg, lastTime) \<Rightarrow>
               if cnt = 0 then unread_dms e d (Suc n) userID seen chIDs c (results, totalUnread)
               else unread_dms e d (Suc n) userID seen chIDs c
                 (results @ [\<lparr>ui_ChannelID = chID, ui_GuildID = [], ui_ChannelName = [], ui_IsDM = True,
                    ui_SenderID = resolveDMOtherUser (at (at e n) 2) d chID userID (pg c),
                    ui_SenderName = [], ui_LastReadMsgID = [], ui_UnreadCount = int32 cnt,
                    ui_MentionCount = 0, ui_LastMessageID = uuid_string e lastMsg,
                    ui_LastMessageTime = lastTime,
                    ui_RecentMessages = recent_or_none (ListRecentMessages (at (at e n) 1) d ch 5 c)\<rparr>],
                  int32 (totalUnread + int32 cnt))))"

fun mark_dms ::
    "env \<Rightarrow> message_deps \<Rightarrow> nat \<Rightarrow> string \<Rightarrow> string list \<Rightarrow> world \<Rightarrow> UnreadInfo list \<Rightarrow> UnreadInfo list" where
  "mark_dms e d n userID dms w [] = []"
| "mark_dms e d n userID dms w (r # rs) =
     (if ui_ChannelID r \<in> set dms
      then r\<lparr>ui_IsDM := True, ui_SenderID := resolveDMOtherUser (at e n) d (ui_ChannelID r) userID w\<rparr>
      else r) # mark_dms e d (Suc n) userID dms w rs"

definition GetUnreadCounts ::
    "env \<Rightarrow> message_deps \<Rightarrow> string \<Rightarrow> chat \<Rightarrow> message_error + (UnreadInfo list \<times> int)" where
  "GetUnreadCounts e d userID c =
     (case gocqlParseUUID d userID of
        None \<Rightarrow> Inl ErrInvalidUUID
      | Some u \<Rightarrow>
          (let states = (case q_Getuserreadstates (at e 0) d u c of Inl _ \<Rightarrow> [] | Inr rss \<Rightarrow> rss);
               seen = map (\<lambda>rs. uuid_string e (uuidValue (rs_ChannelId rs))) states;
               opened = unread_states (at e 1) d 0 states c ([], 0)
           in if \<not> md_dmChannelList d then Inr opened
              else case GetUserDMChannelIDs (at e 2) userID (pg c) of
                Inl _ \<Rightarrow> Inr opened
              | Inr dms \<Rightarrow>
                  Inr (unread_dms (at e 4) d 0 userID seen dms c
                    (mark_dms (at e 3) d 0 userID dms (pg c) (fst opened), snd opened))))"

definition SearchMessages ::
    "env \<Rightarrow> message_deps \<Rightarrow> string \<Rightarrow> string \<Rightarrow> int \<Rightarrow> chat \<Rightarrow> message_error + Messages list" where
  "SearchMessages e d channelID query limit c =
     (case gocqlParseUUID d channelID of
        None \<Rightarrow> Inl ErrInvalidUUID
      | Some ch \<Rightarrow> Repository_SearchMessages e d ch query limit c)"

definition GetThreadMessages ::
    "env \<Rightarrow> message_deps \<Rightarrow> string \<Rightarrow> string \<Rightarrow> int \<Rightarrow> chat \<Rightarrow> message_error + Messages list" where
  "GetThreadMessages e d channelID parentMsgID limit c =
     (case (gocqlParseUUID d channelID, gocqlParseUUID d parentMsgID) of
        (Some ch, Some parent) \<Rightarrow> Repository_GetThreadMessages e d ch parent limit c
      | _ \<Rightarrow> Inl ErrInvalidUUID)"

definition BulkDeleteMessages ::
    "env \<Rightarrow> message_deps \<Rightarrow> string \<Rightarrow> string \<Rightarrow> string \<Rightarrow> string list \<Rightarrow> chat \<Rightarrow> (message_error + int) \<times> chat" where
  "BulkDeleteMessages e d userID channelID guildID messageIDs c =
     (case (if guildID \<noteq> [] \<and> \<not> authz_nil e then CanManageChannel (at e 0) userID channelID (pg c)
            else (True, pg c)) of
        (False, w1) \<Rightarrow> (Inl ErrInsufficientPermissions, c\<lparr>pg := w1\<rparr>)
      | (True, w1) \<Rightarrow>
          (case gocqlParseUUID d channelID of
             None \<Rightarrow> (Inl ErrInvalidUUID, c\<lparr>pg := w1\<rparr>)
           | Some ch \<Rightarrow>
               (case bulk_delete (at e 1) 0 ch (List.map_filter (gocqlParseUUID d) messageIDs) (c\<lparr>pg := w1\<rparr>) of
                  (deleted, c1) \<Rightarrow> (Inr deleted, c1))))"

definition GetEditHistory ::
    "env \<Rightarrow> message_deps \<Rightarrow> string \<Rightarrow> string \<Rightarrow> chat \<Rightarrow> message_error + MessageEditHistory list" where
  "GetEditHistory e d channelID messageID c =
     (case (gocqlParseUUID d channelID, gocqlParseUUID d messageID) of
        (Some ch, Some i) \<Rightarrow>
          (case q_Getedithistory e ch i c of Inl x \<Rightarrow> Inl (MsgDb x) | Inr hs \<Rightarrow> Inr hs)
      | _ \<Rightarrow> Inl ErrInvalidUUID)"

end
