(* ===== verification/MessageLaws.thy ===== *)
theory MessageLaws
  imports Message FriendLaws
begin

text \<open>
  Properties of the message service: what counts as a mention of everyone, which messages a
  listing returns, who can change a message, and what sending and deleting leave in the store.
\<close>

section \<open>Mentions\<close>

lemma dedup_loop_eq:
  "dedup_loop a ids seen out =
     out @ rev (remdups (rev (filter (\<lambda>i. i \<noteq> [] \<and> i \<noteq> a \<and> i \<notin> set seen) ids)))"
proof (induction a ids seen out rule: dedup_loop.induct)
  case (2 a i ids seen out)
  have drop: "rev (remdups (rev (filter P xs) @ [x])) = x # rev (remdups (rev (filter (\<lambda>y. P y \<and> y \<noteq> x) xs)))"
    for P and x :: string and xs
  proof -
    have "remdups (ys @ [x]) = remdups (filter (\<lambda>y. y \<noteq> x) ys) @ [x]" for ys :: "string list"
      by (induction ys) auto
    then show ?thesis
      by (simp add: rev_filter [symmetric])
  qed
  show ?case
    using 2 by (auto simp: drop intro!: arg_cong [where f = remdups] arg_cong [where f = rev] filter_cong)
qed simp

lemma dedupMentions_eq:
  "dedupMentions ids a = rev (remdups (rev (filter (\<lambda>i. i \<noteq> [] \<and> i \<noteq> a) ids)))"
  by (simp add: dedupMentions_def dedup_loop_eq)

text \<open>An occurrence of tag in s at i, delimited on both sides.\<close>

definition occurs_at :: "string \<Rightarrow> string \<Rightarrow> nat \<Rightarrow> bool" where
  "occurs_at s tag i \<longleftrightarrow> i + length tag \<le> length s \<and> take (length tag) (drop i s) = tag"

definition delimited :: "string \<Rightarrow> string \<Rightarrow> nat \<Rightarrow> bool" where
  "delimited s tag i \<longleftrightarrow>
     (i + length tag = length s \<or> \<not> isAlnum (s ! (i + length tag))) \<and> (i = 0 \<or> \<not> isAlnum (s ! (i - 1)))"

lemma index_loop_step:
  "index_loop s sub i =
     (if occurs_at s sub i then Some i
      else if i + length sub \<le> length s then index_loop s sub (Suc i) else None)"
  by (subst index_loop.simps) (simp add: occurs_at_def)

lemma index_loop_None: "index_loop s sub i = None \<Longrightarrow> i \<le> j \<Longrightarrow> \<not> occurs_at s sub j"
proof (induction s sub i rule: index_loop.induct)
  case (1 s sub i)
  have "\<not> occurs_at s sub i"
    using 1(2) by (subst (asm) index_loop_step) (auto split: if_splits)
  moreover have "\<not> occurs_at s sub j" if "Suc i \<le> j"
  proof (cases "i + length sub \<le> length s")
    case True
    then show ?thesis
      using 1 that calculation by (subst (asm) index_loop_step) (auto simp: occurs_at_def)
  qed (use that in \<open>auto simp: occurs_at_def\<close>)
  ultimately show ?case
    using 1(3) by (metis le_neq_implies_less Suc_leI)
qed

lemma index_loop_least:
  "index_loop s sub i = Some j \<Longrightarrow> occurs_at s sub j \<and> (\<forall>k. i \<le> k \<longrightarrow> k < j \<longrightarrow> \<not> occurs_at s sub k)"
proof (induction s sub i rule: index_loop.induct)
  case (1 s sub i)
  show ?case
  proof (cases "occurs_at s sub i")
    case True
    then show ?thesis using 1(2) by (subst (asm) index_loop_step) auto
  next
    case False
    then have "i + length sub \<le> length s \<and> index_loop s sub (Suc i) = Some j"
      using 1(2) by (subst (asm) index_loop_step) (auto split: if_splits)
    then show ?thesis
      using 1(1) False by (metis (no_types, lifting) Suc_leI le_neq_implies_less occurs_at_def)
  qed
qed

lemma indexOf_None: "sub \<noteq> [] \<Longrightarrow> indexOf s sub i = None \<Longrightarrow> i \<le> j \<Longrightarrow> \<not> occurs_at s sub j"
  by (cases sub) (auto simp: indexOf_def occurs_at_def split: if_splits dest: index_loop_None)

lemma indexOf_least:
  "indexOf s sub i = Some j \<Longrightarrow> occurs_at s sub j \<and> (\<forall>k. i \<le> k \<longrightarrow> k < j \<longrightarrow> \<not> occurs_at s sub k)"
  by (simp add: indexOf_def index_loop_least split: if_splits)

text \<open>A tag whose first byte does not come again cannot overlap itself.\<close>

lemma no_overlap:
  assumes "\<forall>k. 0 < k \<longrightarrow> k < length tag \<longrightarrow> tag ! k \<noteq> tag ! 0" "occurs_at s tag i" "occurs_at s tag j" "i < j"
  shows "i + length tag \<le> j"
proof (rule ccontr)
  assume "\<not> i + length tag \<le> j"
  with assms(4) have "0 < j - i" "j - i < length tag" by auto
  moreover have "s ! (i + (j - i)) = tag ! (j - i)" "s ! (j + 0) = tag ! 0"
    using assms(2,3) calculation unfolding occurs_at_def by (metis add_leD1 nth_drop nth_take less_trans)+
  ultimately show False
    using assms(1,4) by simp
qed

lemma mention_loop_iff:
  assumes "tag \<noteq> []" "\<forall>k. 0 < k \<longrightarrow> k < length tag \<longrightarrow> tag ! k \<noteq> tag ! 0"
  shows "mention_loop s tag idx \<longleftrightarrow> (\<exists>i \<ge> idx. occurs_at s tag i \<and> delimited s tag i)"
  using assms
proof (induction s tag idx rule: mention_loop.induct)
  case (1 s tag idx)
  show ?case
  proof (cases "indexOf s tag idx")
    case None
    then show ?thesis
      using 1(2) indexOf_None [of tag s idx] by (subst mention_loop.simps) auto
  next
    case (Some i)
    note least = indexOf_least [OF Some] and bounds = indexOf_Some [OF Some]
    show ?thesis
    proof (cases "delimited s tag i")
      case True
      then show ?thesis
        using Some 1(2) least bounds by (subst mention_loop.simps) (auto simp: delimited_def Let_def)
    next
      case False
      have "mention_loop s tag idx \<longleftrightarrow> mention_loop s tag (i + length tag)"
        using Some 1(2) False by (subst mention_loop.simps) (auto simp: delimited_def Let_def)
      also have "\<dots> \<longleftrightarrow> (\<exists>j \<ge> i + length tag. occurs_at s tag j \<and> delimited s tag j)"
        using 1(1) [OF 1(2) Some refl] 1(2,3) False by (auto simp: delimited_def)
      also have "\<dots> \<longleftrightarrow> (\<exists>j \<ge> idx. occurs_at s tag j \<and> delimited s tag j)"
        using least bounds False no_overlap [OF 1(3)]
        by (metis (no_types, opaque_lifting) le_trans le_add1 linorder_neqE_nat not_le)
      finally show ?thesis .
    qed
  qed
qed

lemma occurs_delimited_iff:
  "(\<exists>i. occurs_at s tag i \<and> delimited s tag i) \<longleftrightarrow>
     (\<exists>pre post. s = pre @ tag @ post \<and> (pre = [] \<or> \<not> isAlnum (last pre)) \<and> (post = [] \<or> \<not> isAlnum (hd post)))"
  (is "?L \<longleftrightarrow> ?R")
proof
  assume ?L
  then obtain i where i: "occurs_at s tag i" "delimited s tag i" by blast
  define pre post where "pre = take i s" and "post = drop (i + length tag) s"
  have len: "length pre = i" and split: "s = pre @ tag @ post"
    using i(1) append_take_drop_id [of i s] append_take_drop_id [of "length tag" "drop i s"]
    by (auto simp: occurs_at_def pre_def post_def add.commute)
  have "post = [] \<or> hd post = s ! (i + length tag)"
    by (cases "i + length tag < length s") (simp_all add: post_def hd_drop_conv_nth)
  then have "post = [] \<or> \<not> isAlnum (hd post)"
    using i(2) by (auto simp: delimited_def post_def)
  moreover have "pre = [] \<or> last pre = s ! (i - 1)"
    using len last_conv_nth [of pre] by (cases "pre = []") (simp_all add: pre_def)
  then have "pre = [] \<or> \<not> isAlnum (last pre)"
    using i(2) len by (auto simp: delimited_def)
  ultimately show ?R
    using split by blast
next
  assume ?R
  then obtain pre post where p: "s = pre @ tag @ post" "pre = [] \<or> \<not> isAlnum (last pre)"
    "post = [] \<or> \<not> isAlnum (hd post)" by blast
  then have "occurs_at s tag (length pre)" "delimited s tag (length pre)"
    by (auto simp: occurs_at_def delimited_def nth_append last_conv_nth hd_conv_nth)
  then show ?L by blast
qed

lemma tags_no_overlap:
  "tag = ''@everyone'' \<or> tag = ''@here'' \<Longrightarrow> tag \<noteq> [] \<and> (\<forall>k. 0 < k \<longrightarrow> k < length tag \<longrightarrow> tag ! k \<noteq> tag ! 0)"
  by (auto simp: nth_Cons' less_Suc_eq_0_disj numeral_eq_Suc split: if_splits)

text \<open>
  containsEveryoneMention decides exactly whether the content holds @everyone or @here as a
  word: an occurrence with no letter, digit or underscore next to it on either side. The scan
  resumes after an occurrence it rejects, and nothing is missed by that.
\<close>

theorem containsEveryoneMention_iff:
  "containsEveryoneMention s \<longleftrightarrow>
     (\<exists>tag pre post. tag \<in> {''@everyone'', ''@here''} \<and> s = pre @ tag @ post \<and>
        (pre = [] \<or> \<not> isAlnum (last pre)) \<and> (post = [] \<or> \<not> isAlnum (hd post)))"
proof -
  have "mention_loop s tag 0 \<longleftrightarrow>
      (\<exists>pre post. s = pre @ tag @ post \<and> (pre = [] \<or> \<not> isAlnum (last pre)) \<and> (post = [] \<or> \<not> isAlnum (hd post)))"
    if "tag = ''@everyone'' \<or> tag = ''@here''" for tag
    using tags_no_overlap [OF that] mention_loop_iff [of tag s 0] occurs_delimited_iff [of s tag] by simp
  then show ?thesis
    unfolding containsEveryoneMention_def by (simp add: ex_disj_distrib conj_disj_distribR)
qed

theorem containsEveryoneMention_iff_witness: "containsEveryoneMention ''hi @here''"
  unfolding containsEveryoneMention_iff
  by (rule exI [of _ "''@here''"], rule exI [of _ "''hi ''"], rule exI [of _ "[]"]) (simp add: isAlnum_def)

section \<open>Listings\<close>

lemma keep_loop_eq:
  "int (length acc) < limit \<Longrightarrow> keep_loop wanted limit ms acc =
     acc @ take (nat limit - length acc) (filter (\<lambda>m. \<not> boolValue (m_Deleted m) \<and> wanted m) ms)"
proof (induction wanted limit ms acc rule: keep_loop.induct)
  case (2 wanted limit m ms results)
  then show ?case
    by (auto simp: Let_def take_Cons' nat_less_iff split: if_splits)
qed simp

lemma take_filter_window:
  assumes "length (filter (\<lambda>x. \<not> P x) (take (2 * l) xs)) \<le> l"
  shows "take l (filter P (take (2 * l) xs)) = take l (filter P xs)"
proof (cases "length xs \<le> 2 * l")
  case False
  have "length (filter P (take (2 * l) xs)) + length (filter (\<lambda>x. \<not> P x) (take (2 * l) xs)) = 2 * l"
    using False by (simp add: sum_length_filter_compl)
  then have "l \<le> length (filter P (take (2 * l) xs))"
    using assms by simp
  moreover have "filter P xs = filter P (take (2 * l) xs) @ filter P (drop (2 * l) xs)"
    by (metis append_take_drop_id filter_append)
  ultimately show ?thesis
    by simp
qed simp

text \<open>The rows a listing is about, in the order it reads them.\<close>

definition listing :: "message_deps \<Rightarrow> uuid \<Rightarrow> uuid option \<Rightarrow> uuid option \<Rightarrow> chat \<Rightarrow> Messages list" where
  "listing d ch before after c =
     (case (before, after) of
        (Some b, _) \<Rightarrow> newest_first d (filter (\<lambda>m. message_rank d m < int (md_timeuuid d b)) (partition_of ch c))
      | (None, Some a) \<Rightarrow> oldest_first d (filter (\<lambda>m. int (md_timeuuid d a) < message_rank d m) (partition_of ch c))
      | (None, None) \<Rightarrow> newest_first d (partition_of ch c))"

abbreviation live_msg :: "Messages \<Rightarrow> bool" where
  "live_msg m \<equiv> \<not> boolValue (m_Deleted m)"

lemma clamp_limit_bounds: "0 < clamp_limit l" "clamp_limit l \<le> 100"
  by (simp_all add: clamp_limit_def)

lemma Repository_ListMessages_eq:
  assumes "\<not> fault e []" and "0 < limit"
  shows "Repository_ListMessages e d ch before after limit c =
    Inr (take (nat limit) (filter live_msg (take (2 * nat limit) (listing d ch before after c))))"
  using assms
  by (auto simp: Repository_ListMessages_def listing_def q_Listmessagesbefore_def q_Listmessagesafter_def
      q_Listrecentmessages_def with_limit_def fetchLimit_def keep_loop_eq nat_mult_distrib mult.commute
      split: option.splits)

lemma ListMessages_OK:
  assumes "ListMessages e d us chs before after limit c = (Inr ms, c')"
  obtains ch b a w1 where "canReadChannel (at e 0) d us chs (pg c) = (True, w1)" "c' = c\<lparr>pg := w1\<rparr>"
    "gocqlParseUUID d chs = Some ch" "cursor d before = Inr b" "cursor d after = Inr a"
    "Repository_ListMessages (at e 1) d ch b a (clamp_limit limit) c' = Inr ms"
  using assms by (auto simp: ListMessages_def Let_def split: prod.splits bool.splits option.splits sum.splits)

lemma partition_pg [simp]: "partition_of ch (c\<lparr>pg := w\<rparr>) = partition_of ch c"
  by (simp add: partition_of_def)

lemma listing_pg [simp]: "listing d ch b a (c\<lparr>pg := w\<rparr>) = listing d ch b a c"
  by (simp add: listing_def cong: option.case_cong)

lemma Repository_ListMessages_fault:
  "fault e [] \<Longrightarrow> Repository_ListMessages e d ch b a limit c = Inl (MsgFailed ''failed to list messages'' DbFault)"
  by (simp add: Repository_ListMessages_def q_Listmessagesbefore_def q_Listmessagesafter_def
      q_Listrecentmessages_def run_stmt_def split: option.splits)

text \<open>
  C9: a listing that succeeds returns live messages only, at most as many as its limit (1 to 100),
  in clustering order, from a window of twice the limit. It returns the first live messages of the
  channel beyond the cursor, without a gap, when no more than limit messages of the window are
  deleted; with more deletions than that it can come back short although live messages remain.
\<close>

theorem ListMessages_window:
  assumes "ListMessages e d us chs before after limit c = (Inr ms, c')"
    and "gocqlParseUUID d chs = Some ch" and "cursor d before = Inr b" and "cursor d after = Inr a"
    and rows: "rows = listing d ch b a c" and l: "l = nat (clamp_limit limit)"
  shows "ms = take l (filter live_msg (take (2 * l) rows)) \<and> length ms \<le> l \<and> l \<le> 100 \<and>
    (length (filter (\<lambda>m. \<not> live_msg m) (take (2 * l) rows)) \<le> l \<longrightarrow> ms = take l (filter live_msg rows))"
proof -
  obtain w1 where "Repository_ListMessages (at e 1) d ch b a (clamp_limit limit) (c\<lparr>pg := w1\<rparr>) = Inr ms"
    using ListMessages_OK [OF assms(1)] assms(2-4) by auto
  then have ms: "ms = take l (filter live_msg (take (2 * l) rows))"
    using Repository_ListMessages_eq [of "at e 1" "clamp_limit limit" d ch b a "c\<lparr>pg := w1\<rparr>"]
      Repository_ListMessages_fault [of "at e 1"] clamp_limit_bounds rows l
    by (cases "fault (at e 1) []") auto
  moreover have "length ms \<le> l"
    unfolding ms by simp
  moreover have "l \<le> 100"
    using clamp_limit_bounds [of limit] l by simp
  ultimately show ?thesis
    using take_filter_window [of live_msg l rows] by blast
qed

text \<open>A group channel with three messages, the second deleted, used in the witnesses.\<close>

definition chat_deps :: message_deps where
  "chat_deps = \<lparr>md_timeuuid = unat, md_uuid = unat, md_ParseUUID = uuid_read, md_map_order = (\<lambda>ks. ks),
     md_ToLower = (\<lambda>s. s), md_dmResolver = True, md_blockChecker = True, md_dmChannelList = True,
     md_media = Some ''http://media/''\<rparr>"

definition plain_message :: "uuid \<Rightarrow> uuid \<Rightarrow> string \<Rightarrow> Messages" where
  "plain_message i author content = (blank_message 4 i)\<lparr>m_AuthorId := Some author, m_Content := Some content,
     m_Type := Some 1, m_Pinned := Some False, m_CreatedAt := Some 0\<rparr>"

definition chat_world :: chat where
  "chat_world = \<lparr>pg = group_world, media_files = [],
     messages = [plain_message 11 5 ''a'', (plain_message 12 5 ''b'')\<lparr>m_Deleted := Some True\<rparr>,
                 plain_message 13 6 ''c''],
     message_attachments = [], message_reactions = [], read_states = [], message_edit_history = [], typing = []\<rparr>"

lemma chat_parse [simp]: "gocqlParseUUID chat_deps (uuid_text u) = Some u"
  by (simp add: gocqlParseUUID_def chat_deps_def uuid_read_text)

lemma tenv_text: "uuid_string (text_env ids now) = uuid_text"
  by (simp add: text_env_def)

lemma group_world_cache: "cache_hit e s group_world = None"
  by (simp add: cache_hit_def group_world_def pair_world_def empty_world_def)

lemma chat_read:
  "\<exists>w1. canReadChannel (at tenv 0) chat_deps (uuid_text 5) (uuid_text 4) group_world = (True, w1)"
proof -
  have "fst (CanViewChannel (at (at tenv 0) 0) (uuid_text 5) (uuid_text 4) group_world)"
    using checkChannel_dm_eq [of "at (at tenv 0) 0" 4 group_world "hd (channels group_world)" 5 "''can_view_channels''"]
      group_world_facts
    by (simp add: CanViewChannel_def live_channel_def group_world_cache tenv_text)
  then show ?thesis
    by (auto simp: canReadChannel_def split: prod.splits bool.splits)
qed

theorem ListMessages_window_witness:
  "\<exists>ms c'. ListMessages tenv chat_deps (uuid_text 5) (uuid_text 4) [] [] 0 chat_world = (Inr ms, c') \<and>
     map m_Id ms = [Some 13, Some 11]"
proof -
  have rows: "listing chat_deps 4 None None chat_world = rev (messages chat_world)"
    by (simp add: listing_def newest_first_def partition_of_def chat_world_def plain_message_def blank_message_def
        message_rank_def chat_deps_def)
  obtain w1 where "canReadChannel (at tenv 0) chat_deps (uuid_text 5) (uuid_text 4) (pg chat_world) = (True, w1)"
    using chat_read by (auto simp: chat_world_def)
  then obtain ms where ok: "ListMessages tenv chat_deps (uuid_text 5) (uuid_text 4) [] [] 0 chat_world =
      (Inr ms, chat_world\<lparr>pg := w1\<rparr>)"
    by (simp add: ListMessages_def cursor_def clamp_limit_def Repository_ListMessages_eq)
  moreover have "ms = take 50 (filter live_msg (rev (messages chat_world)))"
    using ListMessages_window [OF ok chat_parse, of None None "rev (messages chat_world)" 50] rows
    by (simp add: cursor_def clamp_limit_def chat_world_def)
  ultimately show ?thesis
    by (simp add: chat_world_def plain_message_def blank_message_def)
qed

section \<open>Frames\<close>

lemma publish_frame [simp]:
  "messages (publishChannelEvent e d g ch p c) = messages c"
  "message_attachments (publishChannelEvent e d g ch p c) = message_attachments c"
  "message_reactions (publishChannelEvent e d g ch p c) = message_reactions c"
  "message_edit_history (publishChannelEvent e d g ch p c) = message_edit_history c"
  by (auto simp: publishChannelEvent_def split: sum.splits)

lemma announce_frame [simp]:
  "messages (snd (announce e d ty ch g u m as f r c)) = messages c"
  "message_attachments (snd (announce e d ty ch g u m as f r c)) = message_attachments c"
  "message_reactions (snd (announce e d ty ch g u m as f r c)) = message_reactions c"
  "message_edit_history (snd (announce e d ty ch g u m as f r c)) = message_edit_history c"
  by (auto simp: announce_def split: sum.splits)

lemma announce_OK:
  "announce e d ty ch g u m as f r c = (Inr r', c') \<Longrightarrow> r' = r \<and> messages c' = messages c"
  by (auto simp: announce_def split: sum.splits)

lemma add_attachment_frame [simp]: "messages (snd (add_attachment e ch i meta c)) = messages c"
  by (auto simp: add_attachment_def q_Addmessageattachment_def run_stmt_def Let_def
      split: prod.splits sum.splits if_splits)

lemma attach_files_frame [simp]: "messages (snd (attach_files e n base ch i u fids c)) = messages c"
  by (induction fids arbitrary: n c) (auto simp: prod.case_eq_if split: sum.splits option.splits)

lemma copy_attachments_frame [simp]: "messages (snd (copy_attachments e n ch i as c)) = messages c"
  by (induction as arbitrary: n c) (auto simp: prod.case_eq_if split: sum.splits option.splits)

lemma Increment_frame: "IncrementMentionCount e u ch c = Inr c' \<Longrightarrow> messages c' = messages c"
  by (auto simp: IncrementMentionCount_def q_Upsertreadstate_def run_stmt_Inr Let_def
      split: sum.splits dberr.splits)

lemma bump_mentions_frame [simp]: "messages (bump_mentions e n ch us c) = messages c"
proof (induction e n ch us c rule: bump_mentions.induct)
  case (2 e n ch u us c)
  then show ?case
    by (cases "IncrementMentionCount (at e n) u ch c") (simp_all add: keep_on_error_def Increment_frame)
qed simp

lemma cascade_frame [simp]: "messages (CascadeDeleteChildren e ch i c) = messages c"
  by (auto simp: CascadeDeleteChildren_def q_Deletemessageattachments_def q_Deletemessagereactions_def
      q_Deleteedithistory_def keep_on_error_def run_stmt_def Let_def split: sum.splits)

text \<open>Writing a message: the row written, and the rows left alone.\<close>

lemma find_cql_put:
  assumes "p r" and "\<And>x. p (f x) \<longleftrightarrow> p x"
  shows "find p (cql_put p f r t) = Some (case find p t of None \<Rightarrow> f r | Some x \<Rightarrow> f x)"
proof (cases "list_ex p t")
  case True
  then have "find p (update_where p f t) = map_option f (find p t)"
    by (induction t) (auto simp: assms(2))
  then show ?thesis
    using True by (auto simp: cql_put_def upsert_def find_None_set list_ex_iff split: option.splits)
next
  case False
  then have "find p t = None"
    by (simp add: find_None_set list_ex_iff)
  then show ?thesis
    using False assms by (simp add: cql_put_def upsert_def find_append_last)
qed

lemma find_cql_put_other:
  assumes "\<And>x. p x \<Longrightarrow> \<not> q x" and "\<not> q (f r)" and "\<And>x. p x \<Longrightarrow> \<not> q (f x)"
  shows "find q (cql_put p f r t) = find q t"
proof (cases "list_ex p t")
  case True
  have "find q (update_where p f t) = find q t"
    using assms by (induction t) auto
  then show ?thesis
    using True by (simp add: cql_put_def upsert_def)
next
  case False
  then show ?thesis
    using assms by (simp add: cql_put_def upsert_def find_append_last split: option.splits)
qed

lemma stored_put:
  assumes "\<And>m. m_ChannelId (f m) = m_ChannelId m" and "\<And>m. m_Id (f m) = m_Id m"
  shows "stored_message (put_message ch i f c) ch' i' =
    (if (ch', i') = (ch, i)
     then Some (f (case stored_message c ch i of None \<Rightarrow> blank_message ch i | Some m \<Rightarrow> m))
     else stored_message c ch' i')"
proof (cases "(ch', i') = (ch, i)")
  case True
  then show ?thesis
    using assms find_cql_put [of "message_key ch i" "blank_message ch i" f "messages c"]
    by (simp add: stored_message_def put_message_def message_key_def blank_message_def split: option.splits)
next
  case False
  then have "find (message_key ch' i') (cql_put (message_key ch i) f (blank_message ch i) (messages c)) =
      find (message_key ch' i') (messages c)"
    using assms by (intro find_cql_put_other) (auto simp: message_key_def blank_message_def)
  then show ?thesis
    using False by (auto simp: stored_message_def put_message_def)
qed

lemma stored_cong: "messages c = messages c' \<Longrightarrow> stored_message c = stored_message c'"
  by (intro ext) (simp add: stored_message_def)

lemma Repository_GetMessage_Inr:
  "Repository_GetMessage e ch i c = Inr m \<longleftrightarrow> \<not> fault e [] \<and> stored_message c ch i = Some m \<and> live_msg m"
  by (auto simp: Repository_GetMessage_def q_Getmessage_def run_stmt_def split: sum.splits)

lemma history_frame [simp]: "messages (keep_on_error c (q_Saveedithistory e ch i s t c)) = messages c"
  by (simp add: q_Saveedithistory_def run_stmt_def Let_def)

lemma put_message_pg [simp]: "messages (put_message ch i f (c\<lparr>pg := w\<rparr>)) = messages (put_message ch i f c)"
  by (simp add: put_message_def)

lemma stored_pg [simp]: "stored_message (c\<lparr>pg := w\<rparr>) ch i = stored_message c ch i"
  by (simp add: stored_message_def)


section \<open>Who may change a message\<close>

text \<open>What an author or a manager of the channel may do to a live message.\<close>

definition may_edit :: "env \<Rightarrow> message_deps \<Rightarrow> string \<Rightarrow> string \<Rightarrow> string \<Rightarrow> string \<Rightarrow> chat \<Rightarrow> (Messages \<Rightarrow> bool) \<Rightarrow> bool" where
  "may_edit e d us chs gs mids c own \<longleftrightarrow>
     (\<exists>ch i u m. gocqlParseUUID d chs = Some ch \<and> gocqlParseUUID d mids = Some i \<and> gocqlParseUUID d us = Some u \<and>
        stored_message c ch i = Some m \<and> live_msg m \<and>
        (uuidValue (m_AuthorId m) = u \<and> own m \<or>
         uuidValue (m_AuthorId m) \<noteq> u \<and> gs \<noteq> [] \<and> fst (CanManageChannel (at e 1) us chs (pg c))))"

text \<open>What the requests of the service change, besides the publications and the typing keys.\<close>

definition chat_tables :: "chat \<Rightarrow> Messages list \<times> MessageAttachments list \<times> MessageReactions list \<times> ReadStates list \<times>
    MessageEditHistory list" where
  "chat_tables c = (messages c, message_attachments c, message_reactions c, read_states c, message_edit_history c)"

lemma chat_tables_pg [simp]: "chat_tables (c\<lparr>pg := w\<rparr>) = chat_tables c"
  by (simp add: chat_tables_def)

lemma messages_changed: "messages c' \<noteq> messages c \<Longrightarrow> chat_tables c' \<noteq> chat_tables c"
  by (simp add: chat_tables_def)

lemma EditMessage_authorised:
  assumes "chat_tables (snd (EditMessage e d us chs gs mids content c)) \<noteq> chat_tables c"
  shows "may_edit e d us chs gs mids c (\<lambda>m. clock e [2] - timeValue (m_CreatedAt m) \<le> EditWindow)"
proof (cases "(gocqlParseUUID d chs, gocqlParseUUID d mids, gocqlParseUUID d us)")
  case (fields p q r)
  show ?thesis
  proof (cases p; cases q; cases r)
    fix ch i u assume pqr: "p = Some ch" "q = Some i" "r = Some u"
    show ?thesis
    proof (cases "Repository_GetMessage (at e 0) ch i c")
      case (Inl x)
      then show ?thesis using assms fields pqr by (simp add: EditMessage_def)
    next
      case (Inr m)
      then have m: "stored_message c ch i = Some m" "live_msg m"
        by (simp_all add: Repository_GetMessage_Inr)
      show ?thesis
      proof (cases "uuidValue (m_AuthorId m) = u")
        case True
        then have "clock e [2] - timeValue (m_CreatedAt m) \<le> EditWindow"
          using assms fields pqr Inr by (auto simp: EditMessage_def split: if_splits)
        then show ?thesis using True fields pqr m by (auto simp: may_edit_def)
      next
        case False
        then have "fst (manages (at e 1) us chs gs (pg c))"
          using assms fields pqr Inr by (auto simp: EditMessage_def split: prod.splits if_splits)
        then show ?thesis using False fields pqr m by (auto simp: may_edit_def manages_def split: if_splits)
      qed
    qed
  qed (use assms fields in \<open>simp_all add: EditMessage_def\<close>)
qed

lemma DeleteMessage_authorised:
  assumes "chat_tables (snd (DeleteMessage e d us chs gs mids c)) \<noteq> chat_tables c"
  shows "may_edit e d us chs gs mids c (\<lambda>m. True)"
proof (cases "(gocqlParseUUID d chs, gocqlParseUUID d mids, gocqlParseUUID d us)")
  case (fields p q r)
  show ?thesis
  proof (cases p; cases q; cases r)
    fix ch i u assume pqr: "p = Some ch" "q = Some i" "r = Some u"
    show ?thesis
    proof (cases "Repository_GetMessage (at e 0) ch i c")
      case (Inl x)
      then show ?thesis using assms fields pqr by (simp add: DeleteMessage_def)
    next
      case (Inr m)
      then have m: "stored_message c ch i = Some m" "live_msg m"
        by (simp_all add: Repository_GetMessage_Inr)
      have "uuidValue (m_AuthorId m) = u \<or> fst (manages (at e 1) us chs gs (pg c))"
        using assms fields pqr Inr by (auto simp: DeleteMessage_def split: prod.splits bool.splits if_splits)
      then show ?thesis
        using fields pqr m by (auto simp: may_edit_def manages_def split: if_splits)
    qed
  qed (use assms fields in \<open>simp_all add: DeleteMessage_def\<close>)
qed

lemma setPinned_authorised:
  assumes "chat_tables (snd (setPinned e d us chs gs mids b c)) \<noteq> chat_tables c"
  shows "gs = [] \<or> CanPinMessages (at e 0) us gs (pg c)"
  using assms by (auto simp: setPinned_def split: if_splits)

lemma BulkDelete_authorised:
  assumes "chat_tables (snd (BulkDeleteMessages e d us chs gs mids c)) \<noteq> chat_tables c"
  shows "gs = [] \<or> authz_nil e \<or> fst (CanManageChannel (at e 0) us chs (pg c))"
  using assms by (auto simp: BulkDeleteMessages_def split: prod.splits bool.splits if_splits)

text \<open>
  An edit or a deletion that changes the messages was made by the author of the live message
  (an edit within the edit window), or by a caller who named a guild and may manage the channel. A
  pin was made with the permission to pin, and a bulk deletion with the permission to manage the
  channel, unless the caller named no guild.
\<close>

theorem message_changes_authorised:
  shows "(messages (snd (EditMessage e d us chs gs mids content c)) \<noteq> messages c \<longrightarrow>
      may_edit e d us chs gs mids c (\<lambda>m. clock e [2] - timeValue (m_CreatedAt m) \<le> EditWindow)) \<and>
    (messages (snd (DeleteMessage e d us chs gs mids c)) \<noteq> messages c \<longrightarrow>
      may_edit e d us chs gs mids c (\<lambda>m. True)) \<and>
    (messages (snd (setPinned e d us chs gs mids b c)) \<noteq> messages c \<longrightarrow>
      gs = [] \<or> CanPinMessages (at e 0) us gs (pg c)) \<and>
    (messages (snd (BulkDeleteMessages e d us chs gs midss c)) \<noteq> messages c \<longrightarrow>
      gs = [] \<or> authz_nil e \<or> fst (CanManageChannel (at e 0) us chs (pg c)))"
  using EditMessage_authorised [of e d us chs gs mids content c] DeleteMessage_authorised [of e d us chs gs mids c]
    setPinned_authorised [of e d us chs gs mids b c] BulkDelete_authorised [of e d us chs gs midss c]
  by (blast dest: messages_changed)

lemma chat_world_11: "stored_message chat_world 4 11 = Some (plain_message 11 5 ''a'')"
  by (simp add: stored_message_def chat_world_def message_key_def plain_message_def blank_message_def)

lemma plain_message_sel [simp]:
  "m_AuthorId (plain_message i a s) = Some a" "m_Content (plain_message i a s) = Some s"
  "m_Deleted (plain_message i a s) = None" "m_CreatedAt (plain_message i a s) = Some 0"
  "m_ChannelId (plain_message i a s) = Some 4" "m_Id (plain_message i a s) = Some i"
  "m_Type (plain_message i a s) = Some 1" "m_Pinned (plain_message i a s) = Some False"
  by (simp_all add: plain_message_def blank_message_def)

theorem message_changes_authorised_witness:
  "may_edit tenv chat_deps (uuid_text 5) (uuid_text 4) [] (uuid_text 11) chat_world (\<lambda>m. True)"
proof -
  have "messages (snd (DeleteMessage tenv chat_deps (uuid_text 5) (uuid_text 4) [] (uuid_text 11) chat_world)) =
      messages (put_message 4 11 (\<lambda>m. m\<lparr>m_Deleted := Some True, m_UpdatedAt := Some (cql_time 0)\<rparr>) chat_world)"
    using chat_world_11
    by (simp add: DeleteMessage_def Repository_GetMessage_def q_Getmessage_def Repository_DeleteMessage_def
        q_Deletemessage_def one_row_def)
  moreover have "\<dots> \<noteq> messages chat_world"
    by (simp add: put_message_def cql_put_def upsert_def chat_world_def message_key_def plain_message_def
        blank_message_def)
  ultimately show ?thesis
    using message_changes_authorised [of tenv chat_deps "uuid_text 5" "uuid_text 4" "[]" "uuid_text 11" _ chat_world]
    by simp
qed


section \<open>Deleting\<close>

definition dead :: "chat \<Rightarrow> uuid \<Rightarrow> uuid \<Rightarrow> bool" where
  "dead c ch i \<longleftrightarrow> (\<exists>m. stored_message c ch i = Some m \<and> boolValue (m_Deleted m))"

lemma delete_stored:
  assumes "\<not> fault e []"
  shows "\<exists>c1. Repository_DeleteMessage e ch i c = Inr c1 \<and> dead c1 ch i \<and>
    (\<forall>ch' i'. (ch', i') \<noteq> (ch, i) \<longrightarrow> stored_message c1 ch' i' = stored_message c ch' i')"
  using assms by (auto simp: Repository_DeleteMessage_def q_Deletemessage_def dead_def stored_put)

lemma bulk_delete_stored:
  assumes "fault_free e"
  shows "fst (bulk_delete e n ch ids c) = int (length ids) \<and>
    (dead (snd (bulk_delete e n ch ids c)) ch' i' \<longleftrightarrow> dead c ch' i' \<or> ch' = ch \<and> i' \<in> set ids) \<and>
    (\<not> (ch' = ch \<and> i' \<in> set ids) \<longrightarrow>
      stored_message (snd (bulk_delete e n ch ids c)) ch' i' = stored_message c ch' i')"
proof (induction ids arbitrary: n c)
  case (Cons i ids)
  obtain c1 where c1: "Repository_DeleteMessage (at e n) ch i c = Inr c1"
    "\<forall>ch' i'. (ch', i') \<noteq> (ch, i) \<longrightarrow> stored_message c1 ch' i' = stored_message c ch' i'" "dead c1 ch i"
    using delete_stored [of "at e n" ch i c] assms by (meson fault_freeD fault_free_at)
  have "dead c1 ch' i' \<longleftrightarrow> dead c ch' i' \<or> (ch', i') = (ch, i)"
    using c1(2,3) by (cases "(ch', i') = (ch, i)") (auto simp: dead_def)
  then show ?case
    using Cons [of "Suc n" c1] c1 by (auto split: prod.splits)
qed simp

lemma GetMessage_eq:
  "fault_free e \<Longrightarrow> gocqlParseUUID d chs = Some ch \<Longrightarrow> gocqlParseUUID d mids = Some i \<Longrightarrow>
    GetMessage e d chs mids c =
      (if dead c ch i then Inl ErrMessageNotFound
       else case stored_message c ch i of None \<Rightarrow> Inl ErrMessageNotFound | Some m \<Rightarrow> Inr m)"
  by (auto simp: GetMessage_def Repository_GetMessage_def q_Getmessage_def one_row_def dead_def split: option.splits)

text \<open>
  Deleting in bulk without naming a guild asks for no permission at all: any caller deletes
  any messages of any channel. Afterwards none of them can be read, and every other message reads
  as before.
\<close>

theorem BulkDeleteMessages_unguarded:
  assumes "fault_free e" and "fault_free e2" and "gocqlParseUUID d chs = Some ch"
    and "ids = List.map_filter (gocqlParseUUID d) mids"
    and "(r, c') = BulkDeleteMessages e d us chs [] mids c"
  shows "r = Inr (int (length ids)) \<and>
    (\<forall>mid i. gocqlParseUUID d mid = Some i \<longrightarrow>
       GetMessage e2 d chs mid c' =
         (if i \<in> set ids then Inl ErrMessageNotFound else GetMessage e2 d chs mid c))"
proof -
  have "r = Inr (int (length ids)) \<and> c' = snd (bulk_delete (at e 1) 0 ch ids c)"
    using assms bulk_delete_stored [of "at e 1" 0 ch ids c] by (auto simp: BulkDeleteMessages_def split: prod.splits)
  moreover have "dead (snd (bulk_delete (at e 1) 0 ch ids c)) ch i \<longleftrightarrow> dead c ch i \<or> i \<in> set ids"
    "i \<notin> set ids \<longrightarrow> stored_message (snd (bulk_delete (at e 1) 0 ch ids c)) ch i = stored_message c ch i" for i
    using bulk_delete_stored [of "at e 1" 0 ch ids c ch i] assms(1) by auto
  ultimately show ?thesis
    using assms(2,3) by (auto simp: GetMessage_eq)
qed

theorem BulkDeleteMessages_unguarded_witness:
  "GetMessage tenv chat_deps (uuid_text 4) (uuid_text 11)
     (snd (BulkDeleteMessages tenv chat_deps ''nobody'' (uuid_text 4) [] [uuid_text 11] chat_world)) =
   Inl ErrMessageNotFound"
  using BulkDeleteMessages_unguarded [of tenv tenv chat_deps "uuid_text 4" 4 "[11]" "[uuid_text 11]"
      "fst (BulkDeleteMessages tenv chat_deps ''nobody'' (uuid_text 4) [] [uuid_text 11] chat_world)"
      "snd (BulkDeleteMessages tenv chat_deps ''nobody'' (uuid_text 4) [] [uuid_text 11] chat_world)"
      "''nobody''" chat_world]
  by (simp add: List.map_filter_simps)

lemma DeleteMessage_OK:
  assumes "DeleteMessage e d us chs gs mids c = (Inr (), c')"
    and "gocqlParseUUID d chs = Some ch" and "gocqlParseUUID d mids = Some i"
  obtains w1 c2 m where "Repository_DeleteMessage (at e 2) ch i (c\<lparr>pg := w1\<rparr>) = Inr c2"
    "c' = snd (announce (at e 4) d CHAT_EVENT_DELETE chs gs us m [] (\<lambda>x. x) () (CascadeDeleteChildren (at e 3) ch i c2))"
  using assms by (auto simp: DeleteMessage_def Let_def split: option.splits sum.splits prod.splits bool.splits)
    (metis snd_conv)+

text \<open>
  A deletion that succeeds leaves a message nobody can read, with its attachments, reactions
  and edit history gone, and leaves every other message as it was.
\<close>

theorem DeleteMessage_effect:
  assumes "DeleteMessage e d us chs gs mids c = (Inr (), c')" and "fault_free e" and "fault_free e2"
    and parse: "gocqlParseUUID d chs = Some ch" "gocqlParseUUID d mids = Some i"
  shows "GetMessage e2 d chs mids c' = Inl ErrMessageNotFound \<and>
    attachments_of ch i c' = [] \<and> reactions_of ch i c' = [] \<and> GetEditHistory e2 d chs mids c' = Inr [] \<and>
    (\<forall>ch' i'. (ch', i') \<noteq> (ch, i) \<longrightarrow> stored_message c' ch' i' = stored_message c ch' i')"
proof -
  obtain w1 c2 m where c2: "Repository_DeleteMessage (at e 2) ch i (c\<lparr>pg := w1\<rparr>) = Inr c2"
    and c': "c' = snd (announce (at e 4) d CHAT_EVENT_DELETE chs gs us m [] (\<lambda>x. x) ()
                    (CascadeDeleteChildren (at e 3) ch i c2))"
    using DeleteMessage_OK [OF assms(1) parse] by blast
  have stored: "stored_message c' = stored_message c2"
    by (rule stored_cong) (simp add: c')
  have "dead c2 ch i" "\<forall>ch' i'. (ch', i') \<noteq> (ch, i) \<longrightarrow> stored_message c2 ch' i' = stored_message c ch' i'"
    using delete_stored [of "at e 2" ch i "c\<lparr>pg := w1\<rparr>"] c2 assms(2) by auto
  moreover have "attachments_of ch i c' = []" "reactions_of ch i c' = []"
    "filter (\<lambda>h. eh_ChannelId h = Some ch \<and> eh_MessageId h = Some i) (message_edit_history c') = []"
    using assms(2)
    by (simp_all add: c' attachments_of_def reactions_of_def CascadeDeleteChildren_def Let_def
        q_Deletemessageattachments_def q_Deletemessagereactions_def q_Deleteedithistory_def delete_where_def
        filter_empty_conv)
  ultimately show ?thesis
    using assms(3) parse stored
    by (simp add: GetMessage_eq GetEditHistory_def q_Getedithistory_def dead_def)
qed

theorem DeleteMessage_effect_witness:
  "GetMessage tenv chat_deps (uuid_text 4) (uuid_text 11)
     (snd (DeleteMessage tenv chat_deps (uuid_text 5) (uuid_text 4) [] (uuid_text 11) chat_world)) =
   Inl ErrMessageNotFound"
proof -
  have "\<exists>c'. DeleteMessage tenv chat_deps (uuid_text 5) (uuid_text 4) [] (uuid_text 11) chat_world = (Inr (), c')"
    using chat_world_11
    by (simp add: DeleteMessage_def Repository_GetMessage_def q_Getmessage_def Repository_DeleteMessage_def
        q_Deletemessage_def one_row_def announce_def buildMessageEvent_def)
  then show ?thesis
    using DeleteMessage_effect [of tenv chat_deps "uuid_text 5" "uuid_text 4" "[]" "uuid_text 11" chat_world _ tenv 4 11]
    by auto
qed


section \<open>Sending\<close>

lemma send_forward_frame:
  "send_forward e d fwd create c = Inr (create', as) \<Longrightarrow>
     cm_ChannelId create' = cm_ChannelId create \<and> cm_Id create' = cm_Id create \<and>
     cm_AuthorId create' = cm_AuthorId create \<and> (cm_Content create \<noteq> [] \<longrightarrow> cm_Content create' = cm_Content create)"
  by (auto simp: send_forward_def split: option.splits sum.splits if_splits)

lemma send_reply_frame:
  "send_reply e d r create c = Inr create' \<Longrightarrow>
     cm_ChannelId create' = cm_ChannelId create \<and> cm_Id create' = cm_Id create \<and>
     cm_AuthorId create' = cm_AuthorId create \<and> cm_Content create' = cm_Content create"
  by (auto simp: send_reply_def split: option.splits sum.splits if_splits)

lemma send_created_OK:
  assumes "send_created e d us chs gs files fwd srcAtts create c = (Inr (msg, atts), c')"
  obtains c1 where "q_Createmessage (at e 0) d create c = Inr c1" "messages c' = messages c1"
    "msg = sent_message create fwd"
proof -
  obtain c1 where c1: "q_Createmessage (at e 0) d create c = Inr c1"
    using assms by (auto simp: send_created_def split: sum.splits)
  define att where "att = (case md_media d of None \<Rightarrow> ([], c1)
      | Some base \<Rightarrow> attach_files (at e 1) 0 base (cm_ChannelId create) (cm_Id create) us files c1)"
  have "messages (snd att) = messages c1"
    by (simp add: att_def split: option.splits)
  moreover obtain as c4 where "announce (at e 4) d CHAT_EVENT_CREATE chs gs us (sent_message create fwd) as
      (\<lambda>x. x) (sent_message create fwd, as) c4 = (Inr (msg, atts), c')"
    "messages c4 = messages (snd att)"
    using assms c1 by (simp add: send_created_def Let_def att_def [symmetric] prod.case_eq_if)
  ultimately show thesis
    using that [OF c1] announce_OK by fastforce
qed

lemma SendMessage_OK:
  assumes "SendMessage e d us chs gs content ty reply files fwd mentions c = (Inr (msg, atts), c')"
    and ch: "gocqlParseUUID d chs = Some ch"
  obtains w1 u create srcAtts where
    "send_allowed (at e 0) us chs gs content files (pg c) = (True, w1)" "gocqlParseUUID d us = Some u"
    "cm_ChannelId create = ch" "cm_Id create = fresh e [1]" "cm_AuthorId create = u"
    "content \<noteq> [] \<longrightarrow> cm_Content create = content"
    "send_created (at e 4) d us chs gs files (fwd \<noteq> None) srcAtts create (c\<lparr>pg := w1\<rparr>) = (Inr (msg, atts), c')"
proof -
  obtain w1 u create1 srcAtts create where
    ok: "send_allowed (at e 0) us chs gs content files (pg c) = (True, w1)" "gocqlParseUUID d us = Some u"
    and fwd: "send_forward (at e 2) d fwd (new_message (at e 1) d ch u content ty us mentions) (c\<lparr>pg := w1\<rparr>)
      = Inr (create1, srcAtts)"
    and reply: "send_reply (at e 3) d reply create1 (c\<lparr>pg := w1\<rparr>) = Inr create"
    and sent: "send_created (at e 4) d us chs gs files (fwd \<noteq> None) srcAtts create (c\<lparr>pg := w1\<rparr>) = (Inr (msg, atts), c')"
    using assms by (auto simp: SendMessage_def Let_def split: if_splits prod.splits bool.splits option.splits sum.splits)
  show thesis
    using that [OF ok _ _ _ _ sent] send_forward_frame [OF fwd] send_reply_frame [OF reply]
    by (simp add: new_message_def)
qed

text \<open>
  C8: a message that is sent can be read back: under its new identifier the store holds a live row
  with the author, the content and the type of the message returned to the caller (the content as
  given, unless it was empty and copied from a forwarded message). No other message changes. In a
  guild the sender passed the check for sending in the channel.
\<close>

theorem SendMessage_roundtrip:
  assumes "SendMessage e d us chs gs content ty reply files fwd mentions c = (Inr (msg, atts), c')"
    and "gocqlParseUUID d chs = Some ch" and "stored_message c ch (fresh e [1]) = None"
  shows "(\<exists>row u. stored_message c' ch (fresh e [1]) = Some row \<and> live_msg row \<and>
       gocqlParseUUID d us = Some u \<and> m_AuthorId row = Some u \<and> m_Content row = m_Content msg \<and>
       m_Type row = m_Type msg \<and> m_Id msg = Some (fresh e [1]) \<and>
       (content \<noteq> [] \<longrightarrow> m_Content row = Some content)) \<and>
    (\<forall>ch' i'. (ch', i') \<noteq> (ch, fresh e [1]) \<longrightarrow> stored_message c' ch' i' = stored_message c ch' i') \<and>
    (gs \<noteq> [] \<longrightarrow> fst (CanSendInChannel (at (at e 0) 0) us chs (pg c)))"
proof -
  obtain w1 u create srcAtts where ok: "send_allowed (at e 0) us chs gs content files (pg c) = (True, w1)"
    "gocqlParseUUID d us = Some u" and create: "cm_ChannelId create = ch" "cm_Id create = fresh e [1]"
    "cm_AuthorId create = u" "content \<noteq> [] \<longrightarrow> cm_Content create = content"
    and sent: "send_created (at e 4) d us chs gs files (fwd \<noteq> None) srcAtts create (c\<lparr>pg := w1\<rparr>) = (Inr (msg, atts), c')"
    using SendMessage_OK [OF assms(1,2)] by metis
  obtain c1 where c1: "q_Createmessage (at (at e 4) 0) d create (c\<lparr>pg := w1\<rparr>) = Inr c1"
    "messages c' = messages c1" "msg = sent_message create (fwd \<noteq> None)"
    using send_created_OK [OF sent] .
  have "stored_message c' = stored_message c1"
    by (rule stored_cong) (simp add: c1(2))
  moreover have "gs \<noteq> [] \<longrightarrow> fst (CanSendInChannel (at (at e 0) 0) us chs (pg c))"
    using ok(1) by (auto simp: send_allowed_def split: prod.splits if_splits)
  ultimately show ?thesis
    using c1(1,3) create ok(2) assms(3)
    by (auto simp: q_Createmessage_def run_stmt_Inr stored_put sent_message_def blank_message_def)
qed

lemma uuid_text_nonempty [simp]: "uuid_text u \<noteq> []"
  using codec_ok_nonempty [of tenv u] by (simp add: tenv_text)

theorem SendMessage_roundtrip_witness:
  "\<exists>row. stored_message (snd (SendMessage tenv chat_deps (uuid_text 5) (uuid_text 4) [] ''hi'' 1 [] [] None [] chat_world))
     4 77 = Some row \<and> m_Content row = Some ''hi''"
proof -
  have "\<exists>msg atts c'. SendMessage tenv chat_deps (uuid_text 5) (uuid_text 4) [] ''hi'' 1 [] [] None [] chat_world =
      (Inr (msg, atts), c')"
    by (simp add: SendMessage_def send_allowed_def send_forward_def send_reply_def send_created_def
        q_Createmessage_def announce_def buildMessageEvent_def sent_message_def blank_message_def new_message_def
        parse_mentions_def dedupMentions_def List.map_filter_simps Let_def split: prod.splits option.splits)
  moreover have "stored_message chat_world 4 77 = None"
    by (simp add: stored_message_def chat_world_def message_key_def plain_message_def blank_message_def)
  ultimately show ?thesis
    using SendMessage_roundtrip [of tenv chat_deps "uuid_text 5" "uuid_text 4" "[]" "''hi''" 1 "[]" "[]" None "[]"
        chat_world _ _ _ 4] by fastforce
qed

text \<open>
  A block in either direction stops a direct message: no channel is opened, nothing is
  stored and nothing is published.
\<close>

theorem SendDirectMessage_blocked:
  assumes "fault_free e" and "codec_ok e" and "md_blockChecker d"
    and "live_friendship (pg c) a b = Some f" and "f_status f = ''blocked''"
    and "(x, y) = (a, b) \<or> (x, y) = (b, a)"
  shows "is_ok (fst (SendDirectMessage e d (uuid_string e x) (uuid_string e y) content c)) = False \<and>
    snd (SendDirectMessage e d (uuid_string e x) (uuid_string e y) content c) = c"
proof -
  have "IsBlocked (at e 0) (uuid_string e a) (uuid_string e b) (pg c)"
    "IsBlocked (at e 1) (uuid_string e a) (uuid_string e b) (pg c)"
    using assms(1,2,4,5) by (simp_all add: IsBlocked_def q_GetFriendship_def one_row_def)
  then show ?thesis
    using assms(3,6) by (auto simp: SendDirectMessage_def is_ok_def)
qed

theorem SendDirectMessage_blocked_witness:
  "\<not> is_ok (fst (SendDirectMessage tenv chat_deps (uuid_text 6) (uuid_text 5) ''hi''
     (chat_world\<lparr>pg := group_world\<lparr>friendships := [\<lparr>f_user_id = 5, f_friend_id = 6, f_status = ''blocked'',
        f_deleted = False, f_updated_at = 0\<rparr>]\<rparr>\<rparr>)))"
  using SendDirectMessage_blocked [of tenv chat_deps
      "chat_world\<lparr>pg := group_world\<lparr>friendships := [\<lparr>f_user_id = 5, f_friend_id = 6, f_status = ''blocked'',
        f_deleted = False, f_updated_at = 0\<rparr>]\<rparr>\<rparr>" 5 6 _ 6 5 "''hi''"]
  by (simp add: tenv_text chat_deps_def live_friendship_def)

text \<open>
  An attachment resolves only to a confirmed upload that is not deleted and belongs to the
  user who attaches it; what is attached is the stored name, type and size.
\<close>

theorem ResolveAttachment_owner:
  assumes "ResolveAttachment e base fileID (uuid_string e u) c = Inr meta" and "codec_ok e"
  shows "\<exists>f \<in> set (media_files c). uuid_scan e fileID = Some (mf_id f) \<and> mf_confirmed f \<and> \<not> mf_deleted f \<and>
    mf_uploader_id f = u \<and>
    meta = (mf_filename f, publicURL base (mf_bucket_key f), mf_content_type f, mf_size f)"
proof -
  obtain f where "Repository_GetMediaFile e fileID c = Inr f" "mf_confirmed f" "mf_uploader_id f = u"
    "meta = (mf_filename f, publicURL base (mf_bucket_key f), mf_content_type f, mf_size f)"
    using assms by (auto simp: ResolveAttachment_def split: sum.splits if_splits)
  then show ?thesis
    by (auto simp: Repository_GetMediaFile_def q_GetMediaFile_def run_stmt_Inr parseUUID_def
        split: option.splits sum.splits dest!: find_SomeD)
qed

theorem ResolveAttachment_owner_witness:
  "\<exists>f. f = \<lparr>mf_id = 8, mf_uploader_id = 5, mf_filename = ''a.png'', mf_content_type = ''image/png'', mf_size = 3,
      mf_bucket_key = ''k'', mf_confirmed = True, mf_deleted = False, mf_updated_at = 0\<rparr> \<and>
    ResolveAttachment tenv ''b/'' (uuid_text 8) (uuid_string tenv 5) (chat_world\<lparr>media_files := [f]\<rparr>) =
      Inr (''a.png'', ''b/k'', ''image/png'', 3) \<and> mf_uploader_id f = 5"
proof -
  define f where "f = \<lparr>mf_id = 8, mf_uploader_id = 5, mf_filename = ''a.png'', mf_content_type = ''image/png'',
      mf_size = 3, mf_bucket_key = ''k'', mf_confirmed = True, mf_deleted = False, mf_updated_at = 0\<rparr>"
  have "ResolveAttachment tenv ''b/'' (uuid_text 8) (uuid_string tenv 5) (chat_world\<lparr>media_files := [f]\<rparr>) =
      Inr (''a.png'', ''b/k'', ''image/png'', 3)"
    by (simp add: ResolveAttachment_def Repository_GetMediaFile_def parseUUID_def text_scan q_GetMediaFile_def
        f_def publicURL_def)
  with ResolveAttachment_owner [OF this] show ?thesis
    by (auto simp: f_def)
qed

end
