(* ===== verification/SyncService.thy ===== *)
theory SyncService
  imports MessageLaws Presence
begin

text \<open>
  Synchronisation of a client, internal/features/sync/handler.go and the queries of
  gen/db/sync.sql.go: every row visible to the user that was stamped after the last sync, and the
  messages of the user's channels. The handler drops the error of each query and leaves that part
  empty; a nil pointer stops it with a panic, which no interceptor recovers. Postgres returns rows
  in the order of insertion where a query asks for none.
\<close>

section \<open>The queries, sync.sql.go\<close>

text \<open>A timestamp reaches Postgres with a precision of a microsecond.\<close>

definition pg_time :: "time \<Rightarrow> time" where
  "pg_time t = t - t mod 1000"

definition live_guild_ids :: "uuid \<Rightarrow> world \<Rightarrow> uuid list" where
  "live_guild_ids u w = map gm_guild_id (filter (\<lambda>m. gm_user_id m = u \<and> \<not> gm_deleted m) (guild_members w))"

definition live_dm_ids :: "uuid \<Rightarrow> world \<Rightarrow> uuid list" where
  "live_dm_ids u w = map dm_channel_id (filter (\<lambda>m. dm_user_id m = u \<and> \<not> dm_deleted m) (dm_channel_members w))"

definition q_SyncUsers :: "env \<Rightarrow> time \<Rightarrow> uuid \<Rightarrow> world \<Rightarrow> dberr + User list" where
  "q_SyncUsers e since u w =
     run_stmt e (Inr (remdups (filter (\<lambda>x. pg_time since < u_updated_at x \<and>
        (u_id x = u
         \<or> u_id x \<in> f_friend_id ` set (filter (\<lambda>f. f_user_id f = u \<and> \<not> f_deleted f) (friendships w))
         \<or> u_id x \<in> f_user_id ` set (filter (\<lambda>f. f_friend_id f = u \<and> \<not> f_deleted f) (friendships w))
         \<or> u_id x \<in> gm_user_id ` set (filter (\<lambda>m. gm_guild_id m \<in> set (live_guild_ids u w)) (guild_members w))))
        (users w))))"

definition q_SyncGuilds :: "env \<Rightarrow> uuid \<Rightarrow> time \<Rightarrow> world \<Rightarrow> dberr + Guild list" where
  "q_SyncGuilds e u since w =
     run_stmt e (Inr [g. g \<leftarrow> guilds w, m \<leftarrow> guild_members w,
       gm_guild_id m = g_id g \<and> gm_user_id m = u \<and> \<not> gm_deleted m \<and> pg_time since < g_updated_at g])"

definition q_SyncChannels :: "env \<Rightarrow> uuid \<Rightarrow> time \<Rightarrow> world \<Rightarrow> dberr + Channel list" where
  "q_SyncChannels e u since w =
     run_stmt e (Inr (filter (\<lambda>c. pg_time since < c_updated_at c \<and>
        ((case c_guild_id c of None \<Rightarrow> False | Some g \<Rightarrow> g \<in> set (live_guild_ids u w)) \<or>
         c_id c \<in> set (live_dm_ids u w))) (channels w)))"

definition q_SyncRoles :: "env \<Rightarrow> uuid \<Rightarrow> time \<Rightarrow> world \<Rightarrow> dberr + Role list" where
  "q_SyncRoles e u since w =
     run_stmt e (Inr (filter (\<lambda>r. pg_time since < r_updated_at r \<and> r_guild_id r \<in> set (live_guild_ids u w)) (roles w)))"

definition q_SyncGuildMembers :: "env \<Rightarrow> uuid \<Rightarrow> time \<Rightarrow> world \<Rightarrow> dberr + GuildMember list" where
  "q_SyncGuildMembers e u since w =
     run_stmt e (Inr (filter (\<lambda>m. pg_time since < gm_updated_at m \<and> gm_guild_id m \<in> set (live_guild_ids u w))
       (guild_members w)))"

definition q_SyncDmMembers :: "env \<Rightarrow> uuid \<Rightarrow> time \<Rightarrow> world \<Rightarrow> dberr + DmChannelMember list" where
  "q_SyncDmMembers e u since w =
     run_stmt e (Inr (filter (\<lambda>m. pg_time since < dm_updated_at m \<and> dm_channel_id m \<in> set (live_dm_ids u w))
       (dm_channel_members w)))"

text \<open>A LEFT JOIN keeps a row without partner, with NULL columns.\<close>

definition left_join :: "('r \<Rightarrow> bool) \<Rightarrow> 'r list \<Rightarrow> 'r option list" where
  "left_join p rs = (case filter p rs of [] \<Rightarrow> [None] | ms \<Rightarrow> map Some ms)"

record SyncFriendshipsRow =
  sf_friendship :: Friendship
  sf_user :: "User option"
  sf_ChannelID :: "uuid option"

definition q_SyncFriendships :: "env \<Rightarrow> uuid \<Rightarrow> world \<Rightarrow> dberr + SyncFriendshipsRow list" where
  "q_SyncFriendships e u w =
     run_stmt e (Inr [\<lparr>sf_friendship = f, sf_user = x, sf_ChannelID = map_option dm_channel_id d\<rparr>.
       f \<leftarrow> filter (\<lambda>f. f_user_id f = u \<or> f_friend_id f = u) (friendships w),
       d \<leftarrow> left_join (\<lambda>m. dm_user_id m = f_friend_id f) (dm_channel_members w),
       x \<leftarrow> left_join (\<lambda>x. u_id x = (if f_user_id f = u then f_friend_id f else f_user_id f)) (users w)])"

section \<open>The response\<close>

record SyncUser =
  su_Id :: string
  su_IsDeleted :: bool
  su_UpdatedAt :: time
  su_Username :: string
  su_Email :: string
  su_AvatarUrl :: string
  su_Bio :: string
  su_Status :: string
  su_Verified :: bool
  su_BackgroundColor :: string

record SyncGuild =
  sg_Id :: string
  sg_IsDeleted :: bool
  sg_UpdatedAt :: time
  sg_Name :: string
  sg_Description :: string
  sg_IconUrl :: string
  sg_OwnerId :: string

record SyncChannel =
  sc_Id :: string
  sc_IsDeleted :: bool
  sc_UpdatedAt :: time
  sc_GuildId :: string
  sc_Name :: string
  sc_Type :: int
  sc_Topic :: string
  sc_Position :: int
  sc_ParentId :: string

record SyncRole =
  sr_Id :: string
  sr_IsDeleted :: bool
  sr_UpdatedAt :: time
  sr_GuildId :: string
  sr_Name :: string
  sr_Color :: string
  sr_Position :: int

record SyncGuildMember =
  sm_GuildId :: string
  sm_UserId :: string
  sm_IsDeleted :: bool
  sm_UpdatedAt :: time
  sm_Nickname :: string

record SyncFriendship =
  sfr_UserId :: string
  sfr_FriendId :: string
  sfr_Status :: string
  sfr_Username :: string
  sfr_AvatarUrl :: string
  sfr_DmId :: string
  sfr_UpdatedAt :: time
  sfr_IsDeleted :: bool

record SyncDmMember =
  sd_ChannelId :: string
  sd_UserId :: string
  sd_IsDeleted :: bool
  sd_UpdatedAt :: time

record SyncMessage =
  smg_ChannelId :: string
  smg_Id :: string
  smg_IsDeleted :: bool
  smg_AuthorId :: string
  smg_Content :: string
  smg_Type :: int
  smg_ReplyToId :: string
  smg_Pinned :: bool
  smg_UpdatedAt :: "time option"

record SyncResponse =
  sy_ServerTime :: time
  sy_Users :: "SyncUser list"
  sy_Guilds :: "SyncGuild list"
  sy_Channels :: "SyncChannel list"
  sy_Roles :: "SyncRole list"
  sy_GuildMembers :: "SyncGuildMember list"
  sy_Friendships :: "SyncFriendship list"
  sy_DmMembers :: "SyncDmMember list"
  sy_Messages :: "SyncMessage list"

datatype sync_error = SyncStatus status | SyncPanic

section \<open>The handler, handler.go\<close>

text \<open>
  uuid.Parse of the UUID package is a parameter; the message repository and the presence reader are
  wired or not.
\<close>

record sync_deps =
  sd_Parse :: "string \<Rightarrow> uuid option"
  sd_msgRepo :: bool
  sd_presenceReader :: "presence_deps option"

definition ustr :: "uuid \<Rightarrow> string" where
  "ustr u = uuid_text u"

definition ustrNullable :: "uuid option \<Rightarrow> string" where
  "ustrNullable u = (case u of None \<Rightarrow> [] | Some x \<Rightarrow> uuid_text x)"

definition rows_of :: "dberr + 'a list \<Rightarrow> 'a list" where
  "rows_of r = (case r of Inl _ \<Rightarrow> [] | Inr xs \<Rightarrow> xs)"

definition sync_status :: "env \<Rightarrow> sync_deps \<Rightarrow> User \<Rightarrow> server \<Rightarrow> string" where
  "sync_status e d u s =
     (case sd_presenceReader d of
        None \<Rightarrow> u_status u
      | Some pd \<Rightarrow> (let live = fst (GetLiveStatus e pd (ustr (u_id u)) s) in if live \<noteq> [] then live else u_status u))"

fun sync_users :: "env \<Rightarrow> nat \<Rightarrow> sync_deps \<Rightarrow> User list \<Rightarrow> server \<Rightarrow> SyncUser list" where
  "sync_users e i d [] s = []"
| "sync_users e i d (u # us) s =
     \<lparr>su_Id = ustr (u_id u), su_IsDeleted = u_deleted u, su_UpdatedAt = u_updated_at u, su_Username = u_username u,
      su_Email = u_email u, su_AvatarUrl = u_avatar_url u, su_Bio = u_bio u, su_Status = sync_status (at e i) d u s,
      su_Verified = u_verified u, su_BackgroundColor = u_background_color u\<rparr>
     # sync_users e (i + 1) d us s"

definition sync_guild :: "Guild \<Rightarrow> SyncGuild" where
  "sync_guild g = \<lparr>sg_Id = ustr (g_id g), sg_IsDeleted = g_deleted g, sg_UpdatedAt = g_updated_at g, sg_Name = g_name g,
     sg_Description = g_description g, sg_IconUrl = g_icon_url g, sg_OwnerId = ustr (g_owner_id g)\<rparr>"

definition sync_channel :: "Channel \<Rightarrow> SyncChannel" where
  "sync_channel c = \<lparr>sc_Id = ustr (c_id c), sc_IsDeleted = c_deleted c, sc_UpdatedAt = c_updated_at c,
     sc_GuildId = ustrNullable (c_guild_id c), sc_Name = c_name c, sc_Type = c_type c, sc_Topic = c_topic c,
     sc_Position = c_position c, sc_ParentId = ustrNullable (c_parent_id c)\<rparr>"

definition sync_role :: "Role \<Rightarrow> SyncRole" where
  "sync_role r = \<lparr>sr_Id = ustr (r_id r), sr_IsDeleted = r_deleted r, sr_UpdatedAt = r_updated_at r,
     sr_GuildId = ustr (r_guild_id r), sr_Name = r_name r, sr_Color = r_color r, sr_Position = r_position r\<rparr>"

definition sync_member :: "GuildMember \<Rightarrow> SyncGuildMember" where
  "sync_member m = \<lparr>sm_GuildId = ustr (gm_guild_id m), sm_UserId = ustr (gm_user_id m), sm_IsDeleted = gm_deleted m,
     sm_UpdatedAt = gm_updated_at m, sm_Nickname = gm_nickname m\<rparr>"

definition sync_dm_member :: "DmChannelMember \<Rightarrow> SyncDmMember" where
  "sync_dm_member m = \<lparr>sd_ChannelId = ustr (dm_channel_id m), sd_UserId = ustr (dm_user_id m),
     sd_IsDeleted = dm_deleted m, sd_UpdatedAt = dm_updated_at m\<rparr>"

definition sync_friendship :: "SyncFriendshipsRow \<Rightarrow> SyncFriendship option" where
  "sync_friendship r =
     (case sf_user r of
        None \<Rightarrow> None
      | Some u \<Rightarrow> (let f = sf_friendship r in
          Some \<lparr>sfr_UserId = ustr (f_user_id f), sfr_FriendId = ustr (f_friend_id f), sfr_Status = f_status f,
            sfr_Username = u_username u, sfr_AvatarUrl = u_avatar_url u, sfr_DmId = ustrNullable (sf_ChannelID r),
            sfr_UpdatedAt = f_updated_at f, sfr_IsDeleted = f_deleted f\<rparr>))"

definition sync_message :: "Messages \<Rightarrow> SyncMessage option" where
  "sync_message m =
     (case (m_ChannelId m, m_Id m, m_Deleted m, m_AuthorId m, m_Content m, m_Type m, m_ReplyToId m, m_Pinned m) of
        (Some ch, Some i, Some deleted, Some author, Some content, Some ty, Some reply, Some pinned) \<Rightarrow>
          Some \<lparr>smg_ChannelId = uuid_text ch, smg_Id = uuid_text i, smg_IsDeleted = deleted,
            smg_AuthorId = uuid_text author, smg_Content = content, smg_Type = int32 ty,
            smg_ReplyToId = uuid_text reply, smg_Pinned = pinned, smg_UpdatedAt = m_UpdatedAt m\<rparr>
      | _ \<Rightarrow> None)"

text \<open>The first nil pointer ends a loop, and with it the handler.\<close>

fun append_all :: "('a \<Rightarrow> 'b option) \<Rightarrow> 'a list \<Rightarrow> 'b list option" where
  "append_all f [] = Some []"
| "append_all f (x # xs) =
     (case f x of None \<Rightarrow> None | Some y \<Rightarrow> (case append_all f xs of None \<Rightarrow> None | Some ys \<Rightarrow> Some (y # ys)))"

fun guild_channel_ids :: "env \<Rightarrow> nat \<Rightarrow> message_deps \<Rightarrow> Guild list \<Rightarrow> world \<Rightarrow> uuid list" where
  "guild_channel_ids e i md [] w = []"
| "guild_channel_ids e i md (g # gs) w =
     List.map_filter (\<lambda>c. gocqlParseUUID md (ustr (c_id c))) (rows_of (q_ListGuildChannels (at e i) (g_id g) w))
     @ guild_channel_ids e (i + 1) md gs w"

definition sync_channel_ids :: "env \<Rightarrow> message_deps \<Rightarrow> uuid \<Rightarrow> world \<Rightarrow> uuid list" where
  "sync_channel_ids e md u w =
     guild_channel_ids (at e 1) 0 md (rows_of (q_SyncGuilds (at e 0) u 0 w)) w
     @ List.map_filter (\<lambda>c. gocqlParseUUID md (ustr (c_id c))) (rows_of (q_ListDMChannels (at e 2) u w))"

fun sync_messages :: "env \<Rightarrow> nat \<Rightarrow> message_deps \<Rightarrow> time \<Rightarrow> uuid list \<Rightarrow> chat \<Rightarrow> SyncMessage list option" where
  "sync_messages e i md since [] c = Some []"
| "sync_messages e i md since (ch # chs) c =
     (case append_all sync_message (rows_of (GetMessagesSince (at e i) md ch since c)) of
        None \<Rightarrow> None
      | Some ms \<Rightarrow> (case sync_messages e (i + 1) md since chs c of None \<Rightarrow> None | Some rest \<Rightarrow> Some (ms @ rest)))"

definition Sync ::
    "env \<Rightarrow> sync_deps \<Rightarrow> message_deps \<Rightarrow> rpc_ctx \<Rightarrow> time option \<Rightarrow> redis \<Rightarrow> chat \<Rightarrow> sync_error + SyncResponse" where
  "Sync e d md ctx LastSyncTime r c =
     (let userID = UserIDFromContext ctx; w = pg c in
      if userID = [] then Inl (SyncStatus (Status Unauthenticated ''not authenticated''))
      else case sd_Parse d userID of
        None \<Rightarrow> Inl (SyncStatus (Status Internal ''invalid user id''))
      | Some uid \<Rightarrow>
          (let lastSync = (case LastSyncTime of None \<Rightarrow> 0 | Some t \<Rightarrow> t) in
           case append_all sync_friendship (rows_of (q_SyncFriendships (at e 7) uid w)) of
             None \<Rightarrow> Inl SyncPanic
           | Some fs \<Rightarrow>
               (case (if sd_msgRepo d
                      then sync_messages (at e 10) 0 md lastSync (sync_channel_ids (at e 9) md uid w) c
                      else Some []) of
                  None \<Rightarrow> Inl SyncPanic
                | Some ms \<Rightarrow>
                    Inr \<lparr>sy_ServerTime = clock e [0],
                      sy_Users = sync_users (at e 2) 0 d (rows_of (q_SyncUsers (at e 1) lastSync uid w)) \<lparr>sv_db = w, sv_kv = r\<rparr>,
                      sy_Guilds = map sync_guild (rows_of (q_SyncGuilds (at e 3) uid lastSync w)),
                      sy_Channels = map sync_channel (rows_of (q_SyncChannels (at e 4) uid lastSync w)),
                      sy_Roles = map sync_role (rows_of (q_SyncRoles (at e 5) uid lastSync w)),
                      sy_GuildMembers = map sync_member (rows_of (q_SyncGuildMembers (at e 6) uid lastSync w)),
                      sy_Friendships = fs,
                      sy_DmMembers = map sync_dm_member (rows_of (q_SyncDmMembers (at e 8) uid lastSync w)),
                      sy_Messages = ms\<rparr>)))"

end
