(* ===== verification/SyncLaws.thy ===== *)
theory SyncLaws
  imports SyncService
begin

text \<open>
  What a synchronisation delivers: a client that applies the changes since its last sync to what it
  has ends up with what a full sync would give, as long as its memberships stayed the same and
  every changed row was stamped; which changes are not stamped; and what becomes of messages.
\<close>

section \<open>Replicas\<close>

text \<open>The client keeps the rows it was sent under their keys; a later row replaces an earlier one.\<close>

definition replica :: "('m \<Rightarrow> 'k) \<Rightarrow> 'm list \<Rightarrow> 'k \<rightharpoonup> 'm" where
  "replica key ms = map_of (map (\<lambda>m. (key m, m)) ms)"

lemma replica_None: "replica key ms k = None \<longleftrightarrow> k \<notin> key ` set ms"
  by (simp add: replica_def map_of_eq_None_iff image_image)

lemma replica_Some:
  assumes "inj_on key (set ms)"
  shows "replica key ms k = Some m \<longleftrightarrow> m \<in> set ms \<and> key m = k"
proof
  assume "replica key ms k = Some m"
  then show "m \<in> set ms \<and> key m = k" by (auto simp: replica_def dest: map_of_SomeD)
next
  assume m: "m \<in> set ms \<and> key m = k"
  then obtain m' where "replica key ms k = Some m'"
    using replica_None [of key ms k] by fastforce
  moreover from this have "m' \<in> set ms \<and> key m' = k" by (auto simp: replica_def dest: map_of_SomeD)
  ultimately show "replica key ms k = Some m" using m assms by (auto dest: inj_onD)
qed

text \<open>
  A table that evolves: rows keep their keys, none vanishes or changes its scope, and a row that is
  new or different carries a stamp after t.
\<close>

definition evolves :: "('r \<Rightarrow> 'k) \<Rightarrow> ('r \<Rightarrow> time) \<Rightarrow> ('r \<Rightarrow> 's) \<Rightarrow> time \<Rightarrow> 'r list \<Rightarrow> 'r list \<Rightarrow> bool" where
  "evolves key stamp scope t old new \<longleftrightarrow> inj_on key (set old) \<and> inj_on key (set new) \<and>
     (\<forall>x\<in>set old. \<exists>y\<in>set new. key y = key x \<and> scope y = scope x) \<and> (\<forall>y\<in>set new. y \<in> set old \<or> t < stamp y)"

lemma evolves_kept:
  "evolves key stamp scope t old new \<Longrightarrow> x \<in> set old \<Longrightarrow> \<exists>y\<in>set new. key y = key x \<and> scope y = scope x"
  by (simp add: evolves_def)

lemma evolves_new: "evolves key stamp scope t old new \<Longrightarrow> y \<in> set new \<Longrightarrow> y \<in> set old \<or> t < stamp y"
  by (simp add: evolves_def)

lemma evolves_inj: "evolves key stamp scope t old new \<Longrightarrow> inj_on key (set old) \<and> inj_on key (set new)"
  by (simp add: evolves_def)

locale synced_table =
  fixes key :: "'r \<Rightarrow> 'k" and stamp :: "'r \<Rightarrow> time" and scope :: "'r \<Rightarrow> 's" and conv :: "'r \<Rightarrow> 'm" and mkey :: "'m \<Rightarrow> 'j"
  assumes mkey: "mkey (conv x) = mkey (conv y) \<longleftrightarrow> key x = key y"
begin

lemma replica_conv:
  assumes "inj_on key (set xs)"
  shows "replica mkey (map conv (filter P xs)) j = Some m \<longleftrightarrow> (\<exists>x\<in>set xs. P x \<and> conv x = m \<and> mkey m = j)"
proof -
  have "inj_on mkey (set (map conv (filter P xs)))"
    using assms mkey by (force simp: inj_on_def)
  from replica_Some [OF this] show ?thesis by auto
qed

lemma converges:
  assumes ev: "evolves key stamp scope t old new" and "since \<le> t"
  shows "replica mkey (map conv (filter (\<lambda>x. S (scope x)) old)) ++
           replica mkey (map conv (filter (\<lambda>x. since < stamp x \<and> S (scope x)) new)) =
         replica mkey (map conv (filter (\<lambda>x. S (scope x)) new))" (is "?old ++ ?delta = ?full")
proof
  fix j
  have inj: "inj_on key (set old)" "inj_on key (set new)" using ev by (auto simp: evolves_def)
  note old = replica_conv [OF inj(1), of "\<lambda>x. S (scope x)" j]
    and delta = replica_conv [OF inj(2), of "\<lambda>x. since < stamp x \<and> S (scope x)" j]
    and full = replica_conv [OF inj(2), of "\<lambda>x. S (scope x)" j]
  show "(?old ++ ?delta) j = ?full j"
  proof (cases "?full j")
    case (Some m)
    then obtain y where y: "y \<in> set new" "S (scope y)" "conv y = m" "mkey m = j" using full by blast
    show ?thesis
    proof (cases "since < stamp y")
      case True
      then have "?delta j = Some m" using y delta by blast
      with Some show ?thesis by simp
    next
      case False
      have "y \<in> set old \<or> t < stamp y" using ev y(1) unfolding evolves_def by blast
      with False assms(2) have "y \<in> set old" by auto
      then have "?old j = Some m" using y old by blast
      moreover have "?delta j = None"
      proof (rule ccontr)
        assume "?delta j \<noteq> None"
        then obtain m' where "?delta j = Some m'" by auto
        from this [unfolded delta] obtain z where z: "z \<in> set new" "since < stamp z" "mkey (conv z) = j" by auto
        then have "key z = key y" using y(3,4) mkey [of z y] by auto
        with inj(2) y(1) z(1) have "z = y" by (simp add: inj_on_def)
        with False z(2) show False by simp
      qed
      ultimately show ?thesis using Some by (simp add: map_add_def)
    qed
  next
    case None
    have "?delta j = None"
      using None full delta by (metis (no_types, lifting) option.exhaust)
    moreover have "?old j = None"
    proof (rule ccontr)
      assume "?old j \<noteq> None"
      then obtain m' where "?old j = Some m'" by auto
      from this [unfolded old] obtain x where x: "x \<in> set old" "S (scope x)" "mkey (conv x) = j" by auto
      then obtain y where "y \<in> set new" "key y = key x" "scope y = scope x" using ev by (auto simp: evolves_def)
      with x mkey [of y x] have "?full j = Some (conv y)" unfolding full by (intro bexI [of _ y]) auto
      with None show False by simp
    qed
    ultimately show ?thesis using None by (simp add: map_add_def)
  qed
qed

end

lemma ustr_inj [simp]: "ustr x = ustr y \<longleftrightarrow> x = y"
  by (metis option.inject uuid_read_text ustr_def)

interpretation guild_table: synced_table g_id g_updated_at g_id sync_guild sg_Id
  by unfold_locales (simp add: sync_guild_def)

interpretation channel_table: synced_table c_id c_updated_at "\<lambda>c. (c_guild_id c, c_id c)" sync_channel sc_Id
  by unfold_locales (simp add: sync_channel_def)

interpretation role_table: synced_table r_id r_updated_at r_guild_id sync_role sr_Id
  by unfold_locales (simp add: sync_role_def)

interpretation member_table:
  synced_table "\<lambda>m. (gm_guild_id m, gm_user_id m)" gm_updated_at gm_guild_id sync_member "\<lambda>m. (sm_GuildId m, sm_UserId m)"
  by unfold_locales (simp add: sync_member_def)

interpretation dm_table:
  synced_table "\<lambda>m. (dm_channel_id m, dm_user_id m)" dm_updated_at dm_channel_id sync_dm_member "\<lambda>m. (sd_ChannelId m, sd_UserId m)"
  by unfold_locales (simp add: sync_dm_member_def)

text \<open>The tables of a sync, all of whose rows were stamped after 1970.\<close>

definition world_evolves :: "time \<Rightarrow> world \<Rightarrow> world \<Rightarrow> bool" where
  "world_evolves t w w' \<longleftrightarrow>
     evolves g_id g_updated_at g_id t (guilds w) (guilds w') \<and>
     evolves c_id c_updated_at (\<lambda>c. (c_guild_id c, c_id c)) t (channels w) (channels w') \<and>
     evolves r_id r_updated_at r_guild_id t (roles w) (roles w') \<and>
     evolves (\<lambda>m. (gm_guild_id m, gm_user_id m)) gm_updated_at gm_guild_id t (guild_members w) (guild_members w') \<and>
     evolves (\<lambda>m. (dm_channel_id m, dm_user_id m)) dm_updated_at dm_channel_id t (dm_channel_members w) (dm_channel_members w')"

definition after_epoch :: "world \<Rightarrow> bool" where
  "after_epoch w \<longleftrightarrow> (\<forall>x\<in>set (guilds w). 0 < g_updated_at x) \<and> (\<forall>x\<in>set (channels w). 0 < c_updated_at x) \<and>
     (\<forall>x\<in>set (roles w). 0 < r_updated_at x) \<and> (\<forall>x\<in>set (guild_members w). 0 < gm_updated_at x) \<and>
     (\<forall>x\<in>set (dm_channel_members w). 0 < dm_updated_at x)"

definition same_memberships :: "uuid \<Rightarrow> world \<Rightarrow> world \<Rightarrow> bool" where
  "same_memberships u w w' \<longleftrightarrow>
     set (live_guild_ids u w) = set (live_guild_ids u w') \<and> set (live_dm_ids u w) = set (live_dm_ids u w')"

lemma pg_time_le: "pg_time t \<le> t"
  by (simp add: pg_time_def)

lemma rows_of_Inr [simp]: "rows_of (Inr xs) = xs"
  by (simp add: rows_of_def)

text \<open>The rows of each part of a response, when no query fails.\<close>

definition channel_scope :: "uuid \<Rightarrow> world \<Rightarrow> uuid option \<times> uuid \<Rightarrow> bool" where
  "channel_scope u w gi = ((case fst gi of None \<Rightarrow> False | Some g \<Rightarrow> g \<in> set (live_guild_ids u w)) \<or> snd gi \<in> set (live_dm_ids u w))"

lemma sync_guild_rows:
  assumes "fault_free e"
  shows "set (rows_of (q_SyncGuilds e u t w)) =
    set (filter (\<lambda>g. pg_time t < g_updated_at g \<and> g_id g \<in> set (live_guild_ids u w)) (guilds w))"
proof -
  have "x \<in> set (rows_of (q_SyncGuilds e u t w)) \<longleftrightarrow> x \<in> set (guilds w) \<and>
     (\<exists>m\<in>set (guild_members w). gm_guild_id m = g_id x \<and> gm_user_id m = u \<and> \<not> gm_deleted m \<and> pg_time t < g_updated_at x)" for x
    using assms by (auto simp: q_SyncGuilds_def split: if_splits)
  then show ?thesis by (force simp: live_guild_ids_def)
qed

lemma sync_rows:
  assumes "fault_free e"
  shows "rows_of (q_SyncChannels e u t w) =
      filter (\<lambda>c. pg_time t < c_updated_at c \<and> channel_scope u w (c_guild_id c, c_id c)) (channels w)"
    and "rows_of (q_SyncRoles e u t w) = filter (\<lambda>r. pg_time t < r_updated_at r \<and> r_guild_id r \<in> set (live_guild_ids u w)) (roles w)"
    and "rows_of (q_SyncGuildMembers e u t w) =
      filter (\<lambda>m. pg_time t < gm_updated_at m \<and> gm_guild_id m \<in> set (live_guild_ids u w)) (guild_members w)"
    and "rows_of (q_SyncDmMembers e u t w) =
      filter (\<lambda>m. pg_time t < dm_updated_at m \<and> dm_channel_id m \<in> set (live_dm_ids u w)) (dm_channel_members w)"
  using assms
  by (simp_all add: q_SyncChannels_def q_SyncRoles_def q_SyncGuildMembers_def q_SyncDmMembers_def channel_scope_def)

lemma Sync_OK:
  assumes "Sync e d md ctx lst r c = Inr resp" and "sd_Parse d (UserIDFromContext ctx) = Some u"
  shows "sy_ServerTime resp = clock e [0]"
    and "sy_Guilds resp = map sync_guild (rows_of (q_SyncGuilds (at e 3) u (case lst of None \<Rightarrow> 0 | Some t \<Rightarrow> t) (pg c)))"
    and "sy_Channels resp = map sync_channel (rows_of (q_SyncChannels (at e 4) u (case lst of None \<Rightarrow> 0 | Some t \<Rightarrow> t) (pg c)))"
    and "sy_Roles resp = map sync_role (rows_of (q_SyncRoles (at e 5) u (case lst of None \<Rightarrow> 0 | Some t \<Rightarrow> t) (pg c)))"
    and "sy_GuildMembers resp = map sync_member (rows_of (q_SyncGuildMembers (at e 6) u (case lst of None \<Rightarrow> 0 | Some t \<Rightarrow> t) (pg c)))"
    and "sy_DmMembers resp = map sync_dm_member (rows_of (q_SyncDmMembers (at e 8) u (case lst of None \<Rightarrow> 0 | Some t \<Rightarrow> t) (pg c)))"
    and "sd_msgRepo d \<Longrightarrow> sync_messages (at e 10) 0 md (case lst of None \<Rightarrow> 0 | Some t \<Rightarrow> t)
          (sync_channel_ids (at e 9) md u (pg c)) c = Some (sy_Messages resp)"
    and "\<not> sd_msgRepo d \<Longrightarrow> sy_Messages resp = []"
  using assms by (auto simp: Sync_def Let_def split: if_splits option.splits)

lemma replica_cong: "set xs = set ys \<Longrightarrow> inj_on key (set xs) \<Longrightarrow> replica key xs = replica key ys"
proof
  fix k
  assume "set xs = set ys" "inj_on key (set xs)"
  then have "replica key xs k = Some m \<longleftrightarrow> replica key ys k = Some m" for m by (simp add: replica_Some)
  then show "replica key xs k = replica key ys k" by (cases "replica key xs k") (metis option.exhaust)+
qed

lemma filter_all: "(\<And>x. x \<in> set xs \<Longrightarrow> P x) \<Longrightarrow> filter (\<lambda>x. P x \<and> Q x) xs = filter Q xs"
  by (induction xs) auto

lemma guild_replica:
  assumes "fault_free e" and "inj_on g_id (set (guilds w))"
  shows "replica sg_Id (map sync_guild (rows_of (q_SyncGuilds e u t w))) =
    replica sg_Id (map sync_guild (filter (\<lambda>g. pg_time t < g_updated_at g \<and> g_id g \<in> set (live_guild_ids u w)) (guilds w)))"
proof (rule replica_cong)
  show "set (map sync_guild (rows_of (q_SyncGuilds e u t w))) =
      set (map sync_guild (filter (\<lambda>g. pg_time t < g_updated_at g \<and> g_id g \<in> set (live_guild_ids u w)) (guilds w)))"
    using sync_guild_rows [OF assms(1)] by simp
  show "inj_on sg_Id (set (map sync_guild (rows_of (q_SyncGuilds e u t w))))"
    using assms(2) sync_guild_rows [OF assms(1), of u t w] by (auto simp: inj_on_def sync_guild_def)
qed

text \<open>
  C25: incremental sync converges, when no statement of the syncs fails (Sync leaves out the part whose query
  fails and answers all the same): a client starts from a full sync and later asks for the changes since
  the server time of that answer. If its memberships are the same at both times, no row has vanished,
  and every row changed in between carries a later stamp, then the guilds, channels, roles, guild
  members and direct-message members it holds after applying the changes are exactly those of a full
  sync at the second time, deletions included.
\<close>

theorem Sync_converges:
  assumes "fault_free e1" and "fault_free e2" and "fault_free e3"
    and "sd_Parse d (UserIDFromContext ctx) = Some u"
    and "Sync e1 d md ctx None r1 c1 = Inr start"
    and "Sync e2 d md ctx (Some (sy_ServerTime start)) r2 c2 = Inr changes"
    and "Sync e3 d md ctx None r2 c2 = Inr full"
    and "same_memberships u (pg c1) (pg c2)" and "world_evolves (sy_ServerTime start) (pg c1) (pg c2)"
    and "after_epoch (pg c1)" and "after_epoch (pg c2)"
  shows "replica sg_Id (sy_Guilds start) ++ replica sg_Id (sy_Guilds changes) = replica sg_Id (sy_Guilds full) \<and>
    replica sc_Id (sy_Channels start) ++ replica sc_Id (sy_Channels changes) = replica sc_Id (sy_Channels full) \<and>
    replica sr_Id (sy_Roles start) ++ replica sr_Id (sy_Roles changes) = replica sr_Id (sy_Roles full) \<and>
    replica (\<lambda>m. (sm_GuildId m, sm_UserId m)) (sy_GuildMembers start) ++
           replica (\<lambda>m. (sm_GuildId m, sm_UserId m)) (sy_GuildMembers changes) =
         replica (\<lambda>m. (sm_GuildId m, sm_UserId m)) (sy_GuildMembers full) \<and>
    replica (\<lambda>m. (sd_ChannelId m, sd_UserId m)) (sy_DmMembers start) ++
           replica (\<lambda>m. (sd_ChannelId m, sd_UserId m)) (sy_DmMembers changes) =
         replica (\<lambda>m. (sd_ChannelId m, sd_UserId m)) (sy_DmMembers full)"
proof (intro conjI)
  let ?t = "sy_ServerTime start"
  note ok = Sync_OK [OF assms(5,4)] Sync_OK [OF assms(6,4)] Sync_OK [OF assms(7,4)]
  note ff = assms(1-3)
  have zero: "pg_time 0 = 0" by (simp add: pg_time_def)
  have ids: "set (live_guild_ids u (pg c1)) = set (live_guild_ids u (pg c2))"
    "set (live_dm_ids u (pg c1)) = set (live_dm_ids u (pg c2))"
    using assms(8) by (auto simp: same_memberships_def)
  then have cs: "channel_scope u (pg c1) = channel_scope u (pg c2)" by (simp add: channel_scope_def fun_eq_iff split: option.split)
  note ev = assms(9) [unfolded world_evolves_def] and ep = assms(10,11) [unfolded after_epoch_def]
  show "replica sg_Id (sy_Guilds start) ++ replica sg_Id (sy_Guilds changes) = replica sg_Id (sy_Guilds full)"
    using guild_table.converges [of ?t "guilds (pg c1)" "guilds (pg c2)" "pg_time ?t" "\<lambda>g. g \<in> set (live_guild_ids u (pg c2))"]
      ev ep pg_time_le ff evolves_inj [of g_id g_updated_at g_id ?t "guilds (pg c1)" "guilds (pg c2)"]
    by (simp add: ok guild_replica ids zero filter_all del: filter.simps)
  show "replica sc_Id (sy_Channels start) ++ replica sc_Id (sy_Channels changes) = replica sc_Id (sy_Channels full)"
    using channel_table.converges [of ?t "channels (pg c1)" "channels (pg c2)" "pg_time ?t" "channel_scope u (pg c2)"] ev ep pg_time_le ff
    by (simp add: ok sync_rows cs zero filter_all)
  show "replica sr_Id (sy_Roles start) ++ replica sr_Id (sy_Roles changes) = replica sr_Id (sy_Roles full)"
    using role_table.converges [of ?t "roles (pg c1)" "roles (pg c2)" "pg_time ?t" "\<lambda>g. g \<in> set (live_guild_ids u (pg c2))"] ev ep pg_time_le ff
    by (simp add: ok sync_rows ids zero filter_all)
  show "replica (\<lambda>m. (sm_GuildId m, sm_UserId m)) (sy_GuildMembers start) ++
           replica (\<lambda>m. (sm_GuildId m, sm_UserId m)) (sy_GuildMembers changes) =
         replica (\<lambda>m. (sm_GuildId m, sm_UserId m)) (sy_GuildMembers full)"
    using member_table.converges [of ?t "guild_members (pg c1)" "guild_members (pg c2)" "pg_time ?t" "\<lambda>g. g \<in> set (live_guild_ids u (pg c2))"] ev ep pg_time_le ff
    by (simp add: ok sync_rows ids zero filter_all)
  show "replica (\<lambda>m. (sd_ChannelId m, sd_UserId m)) (sy_DmMembers start) ++
           replica (\<lambda>m. (sd_ChannelId m, sd_UserId m)) (sy_DmMembers changes) =
         replica (\<lambda>m. (sd_ChannelId m, sd_UserId m)) (sy_DmMembers full)"
    using dm_table.converges [of ?t "dm_channel_members (pg c1)" "dm_channel_members (pg c2)" "pg_time ?t" "\<lambda>g. g \<in> set (live_dm_ids u (pg c2))"] ev ep pg_time_le ff
    by (simp add: ok sync_rows ids zero filter_all)
qed

section \<open>Which statements stamp\<close>

lemma evolves_refl: "inj_on key (set xs) \<Longrightarrow> evolves key stamp scope t xs xs"
  by (auto simp: evolves_def)

lemma evolves_trans:
  assumes "evolves key stamp scope t xs ys" and "evolves key stamp scope t ys zs"
  shows "evolves key stamp scope t xs zs"
proof -
  have "\<exists>z\<in>set zs. key z = key x \<and> scope z = scope x" if x: "x \<in> set xs" for x
  proof -
    obtain y where y: "y \<in> set ys" "key y = key x" "scope y = scope x"
      using evolves_kept [OF assms(1) x] by auto
    moreover obtain z where "z \<in> set zs" "key z = key y" "scope z = scope y"
      using evolves_kept [OF assms(2) y(1)] by auto
    ultimately show ?thesis by (intro bexI [of _ z]) simp_all
  qed
  moreover have "z \<in> set xs \<or> t < stamp z" if "z \<in> set zs" for z
    using evolves_new [OF assms(2) that] evolves_new [OF assms(1)] by auto
  ultimately show ?thesis using evolves_inj [OF assms(1)] evolves_inj [OF assms(2)] by (simp add: evolves_def)
qed

lemma evolves_append:
  assumes "inj_on key (set xs)" and "key r \<notin> key ` set xs" and "t < stamp r"
  shows "evolves key stamp scope t xs (xs @ [r])"
proof -
  have "inj_on key (set (xs @ [r]))" using assms(1,2) by (auto simp: inj_on_insert)
  moreover have "\<exists>y\<in>set (xs @ [r]). key y = key x \<and> scope y = scope x" if "x \<in> set xs" for x
    using that by (intro bexI [of _ x]) simp_all
  ultimately show ?thesis using assms(1,3) by (simp add: evolves_def)
qed

lemma evolves_update_where:
  assumes "inj_on key (set xs)" and "\<And>x. key (f x) = key x" and "\<And>x. scope (f x) = scope x" and "\<And>x. t < stamp (f x)"
  shows "evolves key stamp scope t xs (update_where p f xs)"
proof -
  let ?g = "\<lambda>x. if p x then f x else x"
  have "key \<circ> ?g = key" using assms(2) by (simp add: fun_eq_iff)
  then have "inj_on key (?g ` set xs)" using assms(1) by (intro inj_on_imageI) simp
  then have "inj_on key (set (update_where p f xs))" by (simp add: update_where_def)
  moreover have "\<exists>y\<in>set (update_where p f xs). key y = key x \<and> scope y = scope x" if "x \<in> set xs" for x
    using that assms(2,3) by (intro bexI [of _ "if p x then f x else x"]) (auto simp: update_where_def)
  moreover have "y \<in> set xs \<or> t < stamp y" if "y \<in> set (update_where p f xs)" for y
    using that assms(4) by (auto simp: update_where_def)
  ultimately show ?thesis using assms(1) by (simp add: evolves_def)
qed

lemma evolves_upsert:
  assumes "inj_on key (set xs)" and "\<And>x. key (f x) = key x" and "\<And>x. scope (f x) = scope x" and "\<And>x. t < stamp (f x)"
    and "t < stamp r" and "\<And>x. key x = key r \<Longrightarrow> p x"
  shows "evolves key stamp scope t xs (upsert p f r xs)"
proof (cases "list_ex p xs")
  case True
  then show ?thesis using evolves_update_where [of key xs f scope t stamp p] assms(1-4) by (simp add: upsert_def)
next
  case False
  then have "key r \<notin> key ` set xs" using assms(6) by (force simp: list_ex_iff)
  with False show ?thesis using evolves_append [of key xs r t stamp scope] assms(1,5) by (simp add: upsert_def)
qed

text \<open>The primary keys of the tables that take part in a sync.\<close>

definition sync_keys :: "world \<Rightarrow> bool" where
  "sync_keys w \<longleftrightarrow> inj_on g_id (set (guilds w)) \<and> inj_on c_id (set (channels w)) \<and> inj_on r_id (set (roles w)) \<and>
     inj_on (\<lambda>m. (gm_guild_id m, gm_user_id m)) (set (guild_members w)) \<and>
     inj_on (\<lambda>m. (dm_channel_id m, dm_user_id m)) (set (dm_channel_members w))"

text \<open>A statement on these tables that stamps the rows it writes, run after t.\<close>

inductive stamped_step :: "time \<Rightarrow> world \<Rightarrow> world \<Rightarrow> bool" for t where
  create_guild: "t < clock e [] \<Longrightarrow> q_CreateGuild e n ds ic own w = Inr (g, w') \<Longrightarrow> stamped_step t w w'"
| delete_guild: "t < clock e [] \<Longrightarrow> q_DeleteGuild e gid w = Inr w' \<Longrightarrow> stamped_step t w w'"
| create_channel: "t < clock e [] \<Longrightarrow> q_CreateChannel e gid n ty tp pos par w = Inr (c, w') \<Longrightarrow> stamped_step t w w'"
| create_dm: "t < clock e [] \<Longrightarrow> q_CreateDMChannel e n ty w = Inr (c, w') \<Longrightarrow> stamped_step t w w'"
| delete_channel: "t < clock e [] \<Longrightarrow> q_DeleteChannel e cid w = Inr w' \<Longrightarrow> stamped_step t w w'"
| create_role: "t < clock e [] \<Longrightarrow> q_CreateRole e gid n col pos w = Inr (r, w') \<Longrightarrow> stamped_step t w w'"
| delete_role: "t < clock e [] \<Longrightarrow> q_DeleteRole e rid w = Inr w' \<Longrightarrow> stamped_step t w w'"
| add_member: "t < clock e [] \<Longrightarrow> q_AddGuildMember e gid u n ic iv w = Inr w' \<Longrightarrow> stamped_step t w w'"
| remove_member: "t < clock e [] \<Longrightarrow> q_RemoveGuildMember e gid u w = Inr w' \<Longrightarrow> stamped_step t w w'"
| add_dm_member: "t < clock e [] \<Longrightarrow> q_AddDMChannelMember e cid u w = Inr w' \<Longrightarrow> stamped_step t w w'"
| remove_dm_member: "t < clock e [] \<Longrightarrow> q_RemoveDMChannelMember e cid u w = Inr w' \<Longrightarrow> stamped_step t w w'"

lemmas stamping_queries = q_CreateGuild_def q_DeleteGuild_def q_CreateChannel_def q_CreateDMChannel_def q_DeleteChannel_def
  q_CreateRole_def q_DeleteRole_def q_AddGuildMember_def q_RemoveGuildMember_def q_AddDMChannelMember_def
  q_RemoveDMChannelMember_def

lemma world_evolves_refl: "sync_keys w \<Longrightarrow> world_evolves t w w"
  by (simp add: sync_keys_def world_evolves_def evolves_refl)

lemma world_evolves_trans: "world_evolves t w w' \<Longrightarrow> world_evolves t w' w'' \<Longrightarrow> world_evolves t w w''"
  unfolding world_evolves_def by (elim conjE, intro conjI; rule evolves_trans)

lemma world_evolves_keys: "world_evolves t w w' \<Longrightarrow> sync_keys w'"
  by (simp add: world_evolves_def sync_keys_def evolves_def)

lemma stamped_step_evolves:
  assumes "stamped_step t w w'" and "sync_keys w"
  shows "world_evolves t w w'"
  using assms
  by (induction rule: stamped_step.induct)
   (auto simp: stamping_queries run_stmt_Inr Let_def world_evolves_def sync_keys_def evolves_refl member_on_def
    member_off_def dm_on_def dm_off_def guild_row_def channel_row_def role_row_def list_ex_iff
    intro!: evolves_update_where evolves_upsert evolves_append split: if_splits)

text \<open>
  The discipline that incremental sync rests on: creating and deleting guilds, channels, direct-message
  channels and roles, and adding and removing guild and direct-message members, in any order and number
  after t, keeps every key and leaves each row either as it was or stamped after t.
\<close>

theorem stamped_steps_evolve:
  assumes "(stamped_step t)\<^sup>*\<^sup>* w w'" and "sync_keys w"
  shows "world_evolves t w w' \<and> sync_keys w'"
  using assms
proof (induction rule: rtranclp_induct)
  case base
  then show ?case using world_evolves_refl by blast
next
  case (step w1 w2)
  then have "world_evolves t w1 w2" using stamped_step_evolves by blast
  with step show ?case using world_evolves_trans world_evolves_keys by blast
qed

section \<open>Edits that are not stamped\<close>

definition stamps :: "world \<Rightarrow> time list \<times> time list \<times> time list" where
  "stamps w = (map g_updated_at (guilds w), map c_updated_at (channels w), map r_updated_at (roles w))"

definition no_later_than :: "time \<Rightarrow> time list \<times> time list \<times> time list \<Rightarrow> bool" where
  "no_later_than t ss = (case ss of (gs, cs, rs) \<Rightarrow> \<forall>s\<in>set (gs @ cs @ rs). s \<le> t)"

lemma stamps_Publish [simp]: "stamps (Publish s v w) = stamps w"
  by (simp add: stamps_def)

lemma unstamped_queries:
  "q_UpdateGuild e g ps w = Inr (x, w') \<Longrightarrow> stamps w' = stamps w"
  "q_TransferGuildOwnership e g n w = Inr (x, w') \<Longrightarrow> stamps w' = stamps w"
  "q_UpdateRole e pr w = Inr (y, w') \<Longrightarrow> stamps w' = stamps w"
  "q_UpdateChannel e pc w = Inr (z, w') \<Longrightarrow> stamps w' = stamps w"
  by (auto simp: q_UpdateGuild_def q_TransferGuildOwnership_def q_UpdateRole_def q_UpdateChannel_def run_stmt_Inr
      update_returning_Inr stamps_def map_update_where split: sum.splits if_splits)

lemma unstamped_edits:
  "stamps (snd (UpdateGuild e a g ps w)) = stamps w" "stamps (snd (TransferOwnership e a g n w)) = stamps w"
  "stamps (snd (UpdateRole e a g pr w)) = stamps w" "stamps (snd (UpdateChannel e us cs nm tp po pa w)) = stamps w"
  by (auto simp: UpdateGuild_def TransferOwnership_def UpdateRole_def UpdateChannel_def publishGuildEvent_def
      publishRoleEvent_def Let_def dest: unstamped_queries split: sum.splits option.splits)

text \<open>
  Renames are not synchronised: editing a guild, transferring its ownership, editing a role or editing a
  channel leaves the stamp of the row. A client that is up to date at t, in the sense that no guild,
  channel or role was stamped later, receives no guild, no channel and no role after such an edit.
\<close>

theorem unstamped_edits_missed:
  assumes "fault_free e2" and "sd_Parse d (UserIDFromContext ctx) = Some u"
    and "no_later_than (pg_time t) (stamps w)"
    and "w' \<in> {snd (UpdateGuild e a g ps w), snd (TransferOwnership e a g n w), snd (UpdateRole e a g pr w),
           snd (UpdateChannel e us cs nm tp po pa w)}"
    and "Sync e2 d md ctx (Some t) r c = Inr resp" and "pg c = w'"
  shows "sy_Guilds resp = [] \<and> sy_Channels resp = [] \<and> sy_Roles resp = []"
proof -
  have "stamps w' = stamps w" using assms(4) by (elim insertE) (simp_all add: unstamped_edits)
  then have "no_later_than (pg_time t) (stamps (pg c))" using assms(3,6) by simp
  then have late: "\<forall>x\<in>set (guilds (pg c)). \<not> pg_time t < g_updated_at x"
    "\<forall>x\<in>set (channels (pg c)). \<not> pg_time t < c_updated_at x" "\<forall>x\<in>set (roles (pg c)). \<not> pg_time t < r_updated_at x"
    by (auto simp: no_later_than_def stamps_def ball_Un not_less)
  have "set (rows_of (q_SyncGuilds (at e2 3) u t (pg c))) = {}"
    using late(1) sync_guild_rows [of "at e2 3"] assms(1) by auto
  then show ?thesis
    using late(2,3) assms(1) Sync_OK [OF assms(5,2)] by (simp add: sync_rows filter_empty_conv)
qed

section \<open>Messages\<close>

text \<open>Only a deletion stamps a message.\<close>

definition stamped_dead :: "Messages \<Rightarrow> bool" where
  "stamped_dead m \<longleftrightarrow> (m_UpdatedAt m = None \<or> m_Deleted m = Some True)"

definition stamps_dead :: "chat \<Rightarrow> bool" where
  "stamps_dead c = list_all stamped_dead (messages c)"

lemma stamps_dead_cong: "messages c' = messages c \<Longrightarrow> stamps_dead c' = stamps_dead c"
  by (simp add: stamps_dead_def)

lemma stamps_dead_put:
  assumes "stamps_dead c" and "\<And>m. stamped_dead m \<Longrightarrow> stamped_dead (f m)"
  shows "stamps_dead (put_message ch i f c)"
proof -
  have "stamped_dead (f (blank_message ch i))" by (rule assms(2)) (simp add: stamped_dead_def blank_message_def)
  with assms show ?thesis
    by (auto simp: stamps_dead_def put_message_def cql_put_def upsert_def update_where_def list_all_iff)
qed

lemma stamps_dead_writes:
  "stamps_dead c \<Longrightarrow> q_Createmessage e d arg c = Inr c' \<Longrightarrow> stamps_dead c'"
  "stamps_dead c \<Longrightarrow> q_Updatemessagecontent e s t ch i c = Inr c' \<Longrightarrow> stamps_dead c'"
  "stamps_dead c \<Longrightarrow> q_Deletemessage e t ch i c = Inr c' \<Longrightarrow> stamps_dead c'"
  "stamps_dead c \<Longrightarrow> q_Setpinned e b ch i c = Inr c' \<Longrightarrow> stamps_dead c'"
  by (auto simp: q_Createmessage_def q_Updatemessagecontent_def q_Deletemessage_def q_Setpinned_def run_stmt_Inr
      stamped_dead_def intro!: stamps_dead_put)

lemma stamps_dead_pg [simp]: "stamps_dead (c\<lparr>pg := w\<rparr>) = stamps_dead c"
  by (simp add: stamps_dead_def)

lemma stamps_dead_send_created:
  assumes "stamps_dead c"
  shows "stamps_dead (snd (send_created e d us chs gs files fwd srcAtts create c))"
proof (cases "q_Createmessage (at e 0) d create c")
  case (Inr c1)
  have "messages (snd (send_created e d us chs gs files fwd srcAtts create c)) = messages c1"
    by (simp add: send_created_def Inr Let_def prod.case_eq_if split: option.split)
  with stamps_dead_writes(1) [OF assms Inr] show ?thesis by (simp add: stamps_dead_def)
qed (simp add: send_created_def assms)

lemma stamps_dead_SendMessage:
  "stamps_dead c \<Longrightarrow> stamps_dead (snd (SendMessage e d us chs gs ct ty rp files fwd mts c))"
  by (simp add: SendMessage_def Let_def stamps_dead_send_created split: prod.split bool.split option.split sum.split)

lemma stamps_dead_SendDirectMessage: "stamps_dead c \<Longrightarrow> stamps_dead (snd (SendDirectMessage e d us ru ct c))"
proof -
  assume c: "stamps_dead c"
  have "stamps_dead (snd (SendMessage (at e 3) d us ch [] ct 1 [] [] None [] (c\<lparr>pg := w\<rparr>)))" for ch w
    using c by (simp add: stamps_dead_SendMessage)
  then show ?thesis
    using c by (auto simp: SendDirectMessage_def split: prod.splits sum.splits) (metis snd_conv)+
qed

lemma stamps_dead_bulk: "stamps_dead c \<Longrightarrow> stamps_dead (snd (bulk_delete e n ch is c))"
  by (induction e n ch "is" c rule: bulk_delete.induct)
    (auto simp: Repository_DeleteMessage_def prod.case_eq_if dest: stamps_dead_writes split: sum.splits)

text \<open>The operations of the message service that write.\<close>

inductive message_step :: "chat \<Rightarrow> chat \<Rightarrow> bool" where
  send: "message_step c (snd (SendMessage e d us chs gs ct ty rp files fwd mts c))"
| send_dm: "message_step c (snd (SendDirectMessage e d us ru ct c))"
| edit: "message_step c (snd (EditMessage e d us chs gs mid ct c))"
| delete: "message_step c (snd (DeleteMessage e d us chs gs mid c))"
| bulk: "message_step c (snd (BulkDeleteMessages e d us chs gs mids c))"
| pin: "message_step c (snd (PinMessage e d us chs gs mid c))"
| unpin: "message_step c (snd (UnpinMessage e d us chs gs mid c))"
| react: "message_step c (snd (AddReaction e d us chs gs mid em c))"
| unreact: "message_step c (snd (RemoveReaction e d us chs gs mid em c))"
| ack: "message_step c (snd (AckMessage e d us chs gs mid c))"
| type: "message_step c (snd (StartTyping e d nm us chs gs c))"

lemma stamps_dead_toggle: "stamps_dead c \<Longrightarrow> stamps_dead (snd (toggleReaction e d us chs gs mid em b c))"
  by (auto simp: toggleReaction_def stamps_dead_def q_Addreaction_def q_Removereaction_def run_stmt_def Let_def
      split: option.splits sum.splits if_splits)

lemma stamps_dead_setPinned: "stamps_dead c \<Longrightarrow> stamps_dead (snd (setPinned e d us chs gs mid b c))"
  by (simp add: setPinned_def stamps_dead_cong [OF announce_frame(1)] stamps_dead_writes(4) split: option.split sum.split)

lemma stamps_dead_announced:
  "stamps_dead (snd (announce e d ty ch g u m as f r (keep_on_error c (q_Saveedithistory e2 ch2 i s t c)))) = stamps_dead c"
  "stamps_dead (snd (announce e d ty ch g u m as f r2 (CascadeDeleteChildren e2 ch2 i c))) = stamps_dead c"
  by (simp_all add: stamps_dead_def)

lemma stamps_dead_EditMessage: "stamps_dead c \<Longrightarrow> stamps_dead (snd (EditMessage e d us chs gs mid ct c))"
  by (auto simp: EditMessage_def Let_def stamps_dead_announced dest: stamps_dead_writes(2) [rotated]
      split: option.splits sum.splits prod.splits if_splits)

lemma stamps_dead_DeleteMessage: "stamps_dead c \<Longrightarrow> stamps_dead (snd (DeleteMessage e d us chs gs mid c))"
  by (auto simp: DeleteMessage_def Repository_DeleteMessage_def Let_def stamps_dead_announced dest: stamps_dead_writes(3) [rotated]
      split: option.splits sum.splits prod.splits bool.splits if_splits)

lemma stamps_dead_others:
  "stamps_dead c \<Longrightarrow> stamps_dead (snd (BulkDeleteMessages e d us chs gs mids c))"
  "stamps_dead c \<Longrightarrow> stamps_dead (snd (AckMessage e d us chs gs mid c))"
  "stamps_dead c \<Longrightarrow> stamps_dead (snd (StartTyping e d nm us chs gs c))"
proof -
  assume c: "stamps_dead c"
  show "stamps_dead (snd (BulkDeleteMessages e d us chs gs mids c))"
    using c stamps_dead_bulk [OF c] stamps_dead_bulk [of "c\<lparr>pg := w\<rparr>" for w] by (simp add: BulkDeleteMessages_def prod.case_eq_if split: option.split bool.split)
  have "messages (snd (AckMessage e d us chs gs mid c)) = messages c"
    by (auto simp: AckMessage_def q_Upsertreadstate_def run_stmt_Inr Let_def split: option.split sum.split)
  then show "stamps_dead (snd (AckMessage e d us chs gs mid c))" using c stamps_dead_cong by blast
  show "stamps_dead (snd (StartTyping e d nm us chs gs c))"
    using c by (simp add: StartTyping_def Let_def stamps_dead_def split: sum.split)
qed

lemma message_step_stamps: "message_step c c' \<Longrightarrow> stamps_dead c \<Longrightarrow> stamps_dead c'"
  by (induction rule: message_step.induct)
    (simp_all add: stamps_dead_SendMessage stamps_dead_SendDirectMessage stamps_dead_EditMessage stamps_dead_DeleteMessage
      stamps_dead_others PinMessage_def UnpinMessage_def AddReaction_def RemoveReaction_def stamps_dead_setPinned stamps_dead_toggle)

lemma append_all_Some: "append_all f xs = Some ys \<Longrightarrow> y \<in> set ys \<Longrightarrow> \<exists>x\<in>set xs. f x = Some y"
  by (induction xs arbitrary: ys) (auto split: option.splits)

lemma append_all_None: "append_all f xs = None \<longleftrightarrow> (\<exists>x\<in>set xs. f x = None)"
  by (induction xs) (auto split: option.splits)

lemma sync_messages_Some:
  assumes "sync_messages e i md since chs c = Some ms" and "y \<in> set ms"
  shows "\<exists>ch\<in>set chs. \<exists>m\<in>set (messages c). m_ChannelId m = Some ch \<and> m_UpdatedAt m \<noteq> None \<and> sync_message m = Some y"
  using assms
proof (induction chs arbitrary: i ms)
  case (Cons ch chs)
  from Cons.prems obtain xs rest where xs: "append_all sync_message (rows_of (GetMessagesSince (at e i) md ch since c)) = Some xs"
    and rest: "sync_messages e (i + 1) md since chs c = Some rest" and y: "y \<in> set xs \<or> y \<in> set rest"
    by (auto split: option.splits)
  from y show ?case
  proof
    assume "y \<in> set xs"
    then obtain m where m: "m \<in> set (rows_of (GetMessagesSince (at e i) md ch since c))" "sync_message m = Some y"
      using append_all_Some [OF xs] by blast
    then have "m \<in> set (messages c) \<and> m_ChannelId m = Some ch \<and> m_UpdatedAt m \<noteq> None"
      by (auto simp: rows_of_def GetMessagesSince_def q_Getmessagessince_def run_stmt_def newest_first_def partition_of_def
          split: sum.splits if_splits option.splits)
    with m(2) show ?thesis by auto
  next
    assume "y \<in> set rest"
    from Cons.IH [OF rest this] show ?thesis by auto
  qed
qed simp

text \<open>
  Messages are not synchronised, only their deletions: whatever the message service has done since the
  store was empty, every message that any sync returns is a deleted one.
\<close>

theorem Sync_messages_deleted:
  assumes "message_step\<^sup>*\<^sup>* c0 c" and "messages c0 = []"
    and "sd_Parse d (UserIDFromContext ctx) = Some u" and "Sync e d md ctx lst r c = Inr resp"
    and "m \<in> set (sy_Messages resp)"
  shows "smg_IsDeleted m"
proof -
  have "stamps_dead c"
    using assms(1)
  proof (induction rule: rtranclp_induct)
    case base
    show ?case by (simp add: stamps_dead_def assms(2))
  qed (rule message_step_stamps)
  moreover obtain x where "x \<in> set (messages c)" "m_UpdatedAt x \<noteq> None" "sync_message x = Some m"
  proof (cases "sd_msgRepo d")
    case True
    from sync_messages_Some [OF Sync_OK(7) [OF assms(4,3) True] assms(5)] that show thesis by blast
  next
    case False
    with Sync_OK(8) [OF assms(4,3)] assms(5) show thesis by simp
  qed
  ultimately show ?thesis
    by (auto simp: stamps_dead_def stamped_dead_def list_all_iff sync_message_def split: option.splits)
qed

section \<open>What a sync may touch\<close>

lemma live_guild_ids_iff: "g \<in> set (live_guild_ids u w) \<longleftrightarrow> is_member w g u"
  by (auto simp: live_guild_ids_def is_member_def live_member_def list_ex_iff)

lemma live_dm_ids_iff: "c \<in> set (live_dm_ids u w) \<longleftrightarrow> live_dm_member (dm_channel_members w) (c, u)"
  by (auto simp: live_dm_ids_def live_dm_member_def list_ex_iff)

lemma guild_channel_ids_set:
  assumes "\<forall>x. gocqlParseUUID md (uuid_text x) = Some x" and "ch \<in> set (guild_channel_ids e i md gs w)"
  shows "\<exists>g\<in>set gs. \<exists>c\<in>set (channels w). c_id c = ch \<and> c_guild_id c = Some (g_id g) \<and> \<not> c_deleted c"
  using assms
  by (induction gs arbitrary: i)
    (auto simp: ustr_def List.map_filter_def rows_of_def q_ListGuildChannels_def run_stmt_def split: sum.splits if_splits)

lemma guild_channel_ids_mem:
  assumes "\<forall>x. gocqlParseUUID md (uuid_text x) = Some x" and "fault_free e" and "g \<in> set gs"
    and "c \<in> set (channels w)" and "c_guild_id c = Some (g_id g)" and "\<not> c_deleted c"
  shows "c_id c \<in> set (guild_channel_ids e i md gs w)"
  using assms(3)
proof (induction gs arbitrary: i)
  case (Cons x gs)
  have "c_id c \<in> set (List.map_filter (\<lambda>c. gocqlParseUUID md (ustr (c_id c))) (rows_of (q_ListGuildChannels (at e i) (g_id g) w)))"
    using assms by (auto simp: ustr_def List.map_filter_def q_ListGuildChannels_def)
  with Cons show ?case by auto
qed simp

lemma sync_channel_ids_scope:
  assumes "\<forall>x. gocqlParseUUID md (uuid_text x) = Some x" and "ch \<in> set (sync_channel_ids e md u w)"
  shows "\<exists>cr\<in>set (channels w). c_id cr = ch \<and> \<not> c_deleted cr \<and>
    ((\<exists>g. c_guild_id cr = Some g \<and> is_member w g u) \<or> live_dm_member (dm_channel_members w) (c_id cr, u))"
proof (cases "ch \<in> set (guild_channel_ids (at e 1) 0 md (rows_of (q_SyncGuilds (at e 0) u 0 w)) w)")
  case True
  from guild_channel_ids_set [OF assms(1) this] obtain g cr where
    "g \<in> set (rows_of (q_SyncGuilds (at e 0) u 0 w))" "cr \<in> set (channels w)" "c_id cr = ch"
    "c_guild_id cr = Some (g_id g)" "\<not> c_deleted cr" by blast
  moreover from this(1) have "is_member w (g_id g) u"
    unfolding live_guild_ids_iff [symmetric]
    by (force simp: rows_of_def q_SyncGuilds_def run_stmt_def live_guild_ids_def split: sum.splits if_splits)
  ultimately show ?thesis by blast
next
  case False
  with assms obtain cr where cr: "cr \<in> set (rows_of (q_ListDMChannels (at e 2) u w))" "c_id cr = ch"
    by (auto simp: sync_channel_ids_def ustr_def List.map_filter_def)
  from cr(1) have "cr \<in> set (channels w)" "\<not> c_deleted cr" "live_dm_member (dm_channel_members w) (c_id cr, u)"
    by (auto simp: rows_of_def q_ListDMChannels_def run_stmt_def live_dm_member_def list_ex_iff split: sum.splits if_splits)
  with cr(2) show ?thesis by blast
qed

text \<open>
  C26: the scope of a sync: whatever fails meanwhile, the guilds, roles and guild members returned are those of guilds
  the user is a member of; channels are in such a guild or are direct-message channels of the user;
  direct-message members are those of the user's own channels; and messages come from live channels of
  such a guild or from the user's direct messages.
\<close>

theorem Sync_scope:
  assumes "sd_Parse d (UserIDFromContext ctx) = Some u" and "\<forall>x. gocqlParseUUID md (uuid_text x) = Some x"
    and "Sync e d md ctx lst r c = Inr resp" and "w = pg c"
  shows "(\<forall>x\<in>set (sy_Guilds resp). \<exists>g\<in>set (guilds w). x = sync_guild g \<and> is_member w (g_id g) u) \<and>
    (\<forall>x\<in>set (sy_Channels resp). \<exists>ch\<in>set (channels w). x = sync_channel ch \<and>
       ((\<exists>g. c_guild_id ch = Some g \<and> is_member w g u) \<or> live_dm_member (dm_channel_members w) (c_id ch, u))) \<and>
    (\<forall>x\<in>set (sy_Roles resp). \<exists>rl\<in>set (roles w). x = sync_role rl \<and> is_member w (r_guild_id rl) u) \<and>
    (\<forall>x\<in>set (sy_GuildMembers resp). \<exists>m\<in>set (guild_members w). x = sync_member m \<and> is_member w (gm_guild_id m) u) \<and>
    (\<forall>x\<in>set (sy_DmMembers resp). \<exists>m\<in>set (dm_channel_members w). x = sync_dm_member m \<and>
       live_dm_member (dm_channel_members w) (dm_channel_id m, u)) \<and>
    (\<forall>x\<in>set (sy_Messages resp). \<exists>m\<in>set (messages c). \<exists>ch\<in>set (channels w). sync_message m = Some x \<and>
       m_ChannelId m = Some (c_id ch) \<and> \<not> c_deleted ch \<and>
       ((\<exists>g. c_guild_id ch = Some g \<and> is_member w g u) \<or> live_dm_member (dm_channel_members w) (c_id ch, u)))"
proof (intro conjI)
  note ok = Sync_OK [OF assms(3,1)]
  show "\<forall>x\<in>set (sy_Guilds resp). \<exists>g\<in>set (guilds w). x = sync_guild g \<and> is_member w (g_id g) u"
    unfolding ok assms(4) live_guild_ids_iff [symmetric]
    by (force simp: rows_of_def q_SyncGuilds_def run_stmt_def live_guild_ids_def split: sum.splits if_splits)
  show "\<forall>x\<in>set (sy_Channels resp). \<exists>ch\<in>set (channels w). x = sync_channel ch \<and>
       ((\<exists>g. c_guild_id ch = Some g \<and> is_member w g u) \<or> live_dm_member (dm_channel_members w) (c_id ch, u))"
    unfolding ok assms(4) live_guild_ids_iff [symmetric] live_dm_ids_iff [symmetric]
    by (auto simp: rows_of_def q_SyncChannels_def run_stmt_def split: sum.splits if_splits option.splits)
  show "\<forall>x\<in>set (sy_Roles resp). \<exists>rl\<in>set (roles w). x = sync_role rl \<and> is_member w (r_guild_id rl) u"
    "\<forall>x\<in>set (sy_GuildMembers resp). \<exists>m\<in>set (guild_members w). x = sync_member m \<and> is_member w (gm_guild_id m) u"
    "\<forall>x\<in>set (sy_DmMembers resp). \<exists>m\<in>set (dm_channel_members w). x = sync_dm_member m \<and>
       live_dm_member (dm_channel_members w) (dm_channel_id m, u)"
    unfolding ok assms(4) live_guild_ids_iff [symmetric] live_dm_ids_iff [symmetric]
    by (auto simp: rows_of_def q_SyncRoles_def q_SyncGuildMembers_def q_SyncDmMembers_def run_stmt_def split: sum.splits if_splits)
  show "\<forall>x\<in>set (sy_Messages resp). \<exists>m\<in>set (messages c). \<exists>ch\<in>set (channels w). sync_message m = Some x \<and>
       m_ChannelId m = Some (c_id ch) \<and> \<not> c_deleted ch \<and>
       ((\<exists>g. c_guild_id ch = Some g \<and> is_member w g u) \<or> live_dm_member (dm_channel_members w) (c_id ch, u))"
  proof
    fix x assume x: "x \<in> set (sy_Messages resp)"
    then have "sd_msgRepo d" using ok(8) by (cases "sd_msgRepo d") auto
    from sync_messages_Some [OF ok(7) [OF this] x] obtain ch m where m: "m \<in> set (messages c)" "sync_message m = Some x"
      "m_ChannelId m = Some ch" and ch: "ch \<in> set (sync_channel_ids (at e 9) md u w)" using assms(4) by blast
    from sync_channel_ids_scope [OF assms(2) ch] obtain cr where "cr \<in> set (channels w)" "c_id cr = ch" "\<not> c_deleted cr"
      "(\<exists>g. c_guild_id cr = Some g \<and> is_member w g u) \<or> live_dm_member (dm_channel_members w) (c_id cr, u)" by blast
    with m show "\<exists>m\<in>set (messages c). \<exists>ch\<in>set (channels w). sync_message m = Some x \<and>
       m_ChannelId m = Some (c_id ch) \<and> \<not> c_deleted ch \<and>
       ((\<exists>g. c_guild_id ch = Some g \<and> is_member w g u) \<or> live_dm_member (dm_channel_members w) (c_id ch, u))" by blast
  qed
qed

section \<open>A nil pointer\<close>

lemma sync_messages_None:
  assumes "fault_free e" and "ch \<in> set chs" and "m \<in> set (partition_of ch c)" and "m_UpdatedAt m = Some t"
    and "cql_time since < t" and "sync_message m = None"
  shows "sync_messages e i md since chs c = None"
  using assms(2)
proof (induction chs arbitrary: i)
  case (Cons x chs)
  have "m \<in> set (rows_of (GetMessagesSince (at e i) md ch since c))"
    using assms(1,3-5) by (simp add: GetMessagesSince_def q_Getmessagessince_def newest_first_def)
  then have "append_all sync_message (rows_of (GetMessagesSince (at e i) md ch since c)) = None"
    using assms(6) append_all_None by blast
  with Cons show ?case by (auto split: option.split)
qed simp

lemma put_message_new:
  "stored_message c ch i = None \<Longrightarrow> f (blank_message ch i) \<in> set (messages (put_message ch i f c))"
  by (auto simp: stored_message_def put_message_def cql_put_def upsert_def find_None_set list_ex_iff)

text \<open>
  One request can stop the sync of everybody else: deleting an identifier that was never used, in any
  channel and without any permission when no guild is named, leaves a row that holds nothing but the
  deletion. From then on every sync of a member that asks for changes since before the deletion
  dereferences the missing author and panics.
\<close>

theorem BulkDelete_panics_Sync:
  assumes "fault_free e" and "fault_free e2" and "\<forall>x. gocqlParseUUID md (uuid_text x) = Some x"
    and "gocqlParseUUID md chs = Some (c_id ch)" and "gocqlParseUUID md mid = Some i" and "stored_message c (c_id ch) i = None"
    and "ch \<in> set (channels (pg c))" and "\<not> c_deleted ch" and "c_guild_id ch = Some (g_id g)"
    and "g \<in> set (guilds (pg c))" and "0 < g_updated_at g" and "is_member (pg c) (g_id g) u"
    and "sd_msgRepo d" and "UserIDFromContext ctx \<noteq> []" and "sd_Parse d (UserIDFromContext ctx) = Some u"
    and "cql_time (case lst of None \<Rightarrow> 0 | Some t \<Rightarrow> t) < cql_time (clock e [1, 0])"
  shows "Sync e2 d md ctx lst r (snd (BulkDeleteMessages e md us chs [] [mid] c)) = Inl SyncPanic"
proof -
  define f where "f = (\<lambda>m :: Messages. m\<lparr>m_Deleted := Some True, m_UpdatedAt := Some (cql_time (clock e [1, 0]))\<rparr>)"
  define c' where "c' = put_message (c_id ch) i f c"
  have del: "snd (BulkDeleteMessages e md us chs [] [mid] c) = c'"
    using assms(1,4,5) by (simp add: BulkDeleteMessages_def List.map_filter_def Repository_DeleteMessage_def
        q_Deletemessage_def c'_def f_def)
  have pg: "pg c' = pg c" by (simp add: c'_def put_message_def)
  have row: "f (blank_message (c_id ch) i) \<in> set (partition_of (c_id ch) c')"
    using put_message_new [OF assms(6), of f] by (simp add: c'_def partition_of_def f_def blank_message_def)
  have "g \<in> set (rows_of (q_SyncGuilds (at (at e2 9) 0) u 0 (pg c)))"
    using assms(2,10-12) sync_guild_rows [of "at (at e2 9) 0" u 0 "pg c"] by (simp add: live_guild_ids_iff pg_time_def)
  from guild_channel_ids_mem [OF assms(3) _ this assms(7,9,8)] have "c_id ch \<in> set (sync_channel_ids (at e2 9) md u (pg c'))"
    using assms(2) by (simp add: sync_channel_ids_def pg)
  from sync_messages_None [OF _ this row, of "at e2 10"] have
    "sync_messages (at e2 10) 0 md (case lst of None \<Rightarrow> 0 | Some t \<Rightarrow> t) (sync_channel_ids (at e2 9) md u (pg c')) c' = None"
    using assms(2,16) by (simp add: f_def sync_message_def blank_message_def)
  then show ?thesis
    unfolding del using assms(13-15) by (simp add: Sync_def Let_def split: option.split)
qed

section \<open>Witnesses\<close>

text \<open>A guild with its owner and one channel, stamped at 10 microseconds.\<close>

definition sync_world :: world where
  "sync_world = empty_world\<lparr>
     guilds := [\<lparr>g_id = 1, g_name = ''n'', g_description = [], g_icon_url = [], g_owner_id = 5, g_deleted = False,
                 g_updated_at = 10000, g_banner_url = []\<rparr>],
     guild_members := [\<lparr>gm_guild_id = 1, gm_user_id = 5, gm_nickname = [], gm_joined_at = 10000, gm_deleted = False,
                 gm_updated_at = 10000, gm_invite_code = None, gm_invited_by = None\<rparr>],
     channels := [\<lparr>c_id = 2, c_guild_id = Some 1, c_name = ''general'', c_type = 0, c_topic = [],
                 c_position = 0, c_parent_id = None, c_deleted = False, c_updated_at = 10000\<rparr>]\<rparr>"

definition sync_chat :: "world \<Rightarrow> chat" where
  "sync_chat w = \<lparr>pg = w, media_files = [], messages = [], message_attachments = [], message_reactions = [],
     read_states = [], message_edit_history = [], typing = []\<rparr>"

definition sync_plain :: sync_deps where
  "sync_plain = \<lparr>sd_Parse = uuid_read, sd_msgRepo = True, sd_presenceReader = None\<rparr>"

definition sync_ctx :: rpc_ctx where
  "sync_ctx = \<lparr>peer_addr = None, incoming_md = None, UserIDKey = Some (uuid_text 5)\<rparr>"

definition sync_at :: "time \<Rightarrow> env" where
  "sync_at t = (text_env (\<lambda>_. 7) (\<lambda>_. t))\<lparr>authz_nil := True\<rparr>"

lemma sync_setup [simp]:
  "UserIDFromContext sync_ctx = uuid_text 5" "sd_Parse sync_plain (uuid_text u) = Some u" "sd_msgRepo sync_plain"
  "fault_free (sync_at t)" "clock (sync_at t) p = t" "fresh (sync_at t) p = 7" "fault (sync_at t) p = False"
  "authz_nil (sync_at t)" "pg (sync_chat w) = w" "messages (sync_chat w) = []"
  by (simp_all add: sync_ctx_def UserIDFromContext_def sync_plain_def uuid_read_text sync_at_def text_env_def
      fault_free_def sync_chat_def)

lemma quiet_sync:
  assumes "friendships w = []"
  shows "\<exists>resp. Sync e sync_plain md sync_ctx lst r (sync_chat w) = Inr resp"
proof -
  have "sync_messages e' i md since chs (sync_chat w) = Some []" for e' i since chs
    by (induction chs arbitrary: i)
      (auto simp: rows_of_def GetMessagesSince_def q_Getmessagessince_def run_stmt_def partition_of_def newest_first_def)
  moreover have "rows_of (q_SyncFriendships e' 5 w) = []" for e'
    using assms by (simp add: rows_of_def q_SyncFriendships_def run_stmt_def)
  ultimately show ?thesis by (simp add: Sync_def Let_def)
qed

definition later_world :: world where
  "later_world = sync_world\<lparr>roles := [\<lparr>r_id = 7, r_guild_id = 1, r_name = ''mods'', r_color = [], r_position = 1,
     r_deleted = False, r_updated_at = 30000\<rparr>]\<rparr>"

lemma sync_world_facts:
  "friendships sync_world = []" "friendships later_world = []" "same_memberships 5 sync_world later_world"
  "world_evolves 20000 sync_world later_world" "after_epoch sync_world" "after_epoch later_world" "sync_keys sync_world"
  by (simp_all add: sync_world_def later_world_def empty_world_def same_memberships_def live_guild_ids_def live_dm_ids_def
      world_evolves_def evolves_def after_epoch_def sync_keys_def)

theorem Sync_converges_witness:
  "\<exists>start changes full. Sync (sync_at 20000) sync_plain chat_deps sync_ctx None empty_redis (sync_chat sync_world) = Inr start \<and>
     Sync (sync_at 40000) sync_plain chat_deps sync_ctx (Some (sy_ServerTime start)) empty_redis (sync_chat later_world) = Inr changes \<and>
     Sync (sync_at 40000) sync_plain chat_deps sync_ctx None empty_redis (sync_chat later_world) = Inr full \<and>
     replica sr_Id (sy_Roles start) ++ replica sr_Id (sy_Roles changes) = replica sr_Id (sy_Roles full)"
proof -
  obtain start where start: "Sync (sync_at 20000) sync_plain chat_deps sync_ctx None empty_redis (sync_chat sync_world) = Inr start"
    using quiet_sync sync_world_facts(1) by blast
  have t: "sy_ServerTime start = 20000" using Sync_OK(1) [OF start] by simp
  obtain changes where changes:
    "Sync (sync_at 40000) sync_plain chat_deps sync_ctx (Some (sy_ServerTime start)) empty_redis (sync_chat later_world) = Inr changes"
    using quiet_sync sync_world_facts(2) by blast
  obtain full where full: "Sync (sync_at 40000) sync_plain chat_deps sync_ctx None empty_redis (sync_chat later_world) = Inr full"
    using quiet_sync sync_world_facts(2) by blast
  have "replica sr_Id (sy_Roles start) ++ replica sr_Id (sy_Roles changes) = replica sr_Id (sy_Roles full)"
    using Sync_converges [OF _ _ _ _ start changes full, of 5] by (simp add: t sync_world_facts)
  with start changes full show ?thesis by blast
qed

theorem stamped_steps_evolve_witness:
  "world_evolves 20000 sync_world (snd (the (case q_CreateRole (sync_at 30000) 1 ''mods'' [] 1 sync_world of Inl _ \<Rightarrow> None | Inr x \<Rightarrow> Some x)))"
proof -
  obtain r w' where q: "q_CreateRole (sync_at 30000) 1 ''mods'' [] 1 sync_world = Inr (r, w')"
    by (simp add: q_CreateRole_def sync_world_def empty_world_def guild_row_def role_row_def Let_def)
  have "stamped_step 20000 sync_world w'" by (rule stamped_step.create_role [OF _ q]) simp
  then have "(stamped_step 20000)\<^sup>*\<^sup>* sync_world w'" by (rule r_into_rtranclp)
  from stamped_steps_evolve [OF this sync_world_facts(7)] show ?thesis by (simp add: q)
qed

theorem unstamped_edits_missed_witness:
  "\<exists>w' resp. map g_name (guilds w') = [''new''] \<and>
     Sync (sync_at 40000) sync_plain chat_deps sync_ctx (Some 20000) empty_redis (sync_chat w') = Inr resp \<and> sy_Guilds resp = []"
proof -
  let ?p = "\<lparr>ug_Name = Some ''new'', ug_Description = None, ug_IconUrl = None, ug_BannerUrl = None\<rparr>"
  define w' where "w' = snd (UpdateGuild (sync_at 30000) 5 1 ?p sync_world)"
  have facts: "map g_name (guilds w') = [''new'']" "friendships w' = []"
    by (simp_all add: w'_def UpdateGuild_def CanManageGuild_def CanGuildPermission_def Check_def q_UpdateGuild_def sync_world_def
        update_returning_def coalesce_def publishGuildEvent_def empty_world_def Let_def)
  obtain resp where resp: "Sync (sync_at 40000) sync_plain chat_deps sync_ctx (Some 20000) empty_redis (sync_chat w') = Inr resp"
    using quiet_sync facts(2) by blast
  have "no_later_than (pg_time 20000) (stamps sync_world)"
    by (simp add: no_later_than_def stamps_def sync_world_def empty_world_def pg_time_def)
  then have "sy_Guilds resp = []"
    using unstamped_edits_missed [OF _ _ _ _ resp, of 5 sync_world w' "sync_at 30000" 5 1 ?p] by (simp add: w'_def)
  with facts(1) resp show ?thesis by (intro exI [of _ w'] exI [of _ resp]) simp
qed

lemma chat_parses: "\<forall>x. gocqlParseUUID chat_deps (uuid_text x) = Some x"
  by simp

theorem BulkDelete_panics_Sync_witness:
  "Sync (sync_at 40000) sync_plain chat_deps sync_ctx None empty_redis
     (snd (BulkDeleteMessages (sync_at 30000000) chat_deps ''anyone'' (uuid_text 2) [] [uuid_text 9] (sync_chat sync_world))) = Inl SyncPanic"
  by (rule BulkDelete_panics_Sync [where i = 9 and ch = "hd (channels sync_world)" and g = "hd (guilds sync_world)" and u = 5])
    (simp_all add: sync_world_def empty_world_def stored_message_def is_member_def live_member_def cql_time_def)

definition sync_md :: message_deps where
  "sync_md = chat_deps\<lparr>md_media := None, md_dmChannelList := False\<rparr>"

lemma sync_md_simps [simp]:
  "md_media sync_md = None" "md_dmChannelList sync_md = False" "gocqlParseUUID sync_md (uuid_text u) = Some u"
  by (simp_all add: sync_md_def chat_deps_def gocqlParseUUID_def uuid_read_text)

lemma announce_quiet: "snd (announce e sync_md ty ch [] u m as f r c) = c"
  by (simp add: announce_def publishChannelEvent_def split: sum.split)

definition sent_chat :: chat where
  "sent_chat = snd (SendMessage (sync_at 30000000) sync_md (uuid_text 5) (uuid_text 2) [] ''hi'' 1 [] [] None [] (sync_chat sync_world))"

lemma sent_chat_facts:
  "messages sent_chat = [(blank_message 2 7)\<lparr>m_AuthorId := Some 5, m_Content := Some ''hi'', m_Type := Some 1,
     m_ReplyToId := Some 0, m_Pinned := Some False, m_CreatedAt := Some 30000000, m_ForwardedFromChannelId := Some 0,
     m_ForwardedFromMessageId := Some 0, m_ForwardedFromAuthorId := Some 0, m_MentionUserIds := None\<rparr>]"
  "guilds (pg sent_chat) = guilds sync_world" "channels (pg sent_chat) = channels sync_world"
  "guild_members (pg sent_chat) = guild_members sync_world" "friendships (pg sent_chat) = []"
  by (simp_all add: sent_chat_def SendMessage_def send_allowed_def send_forward_def send_reply_def new_message_def parse_mentions_def
      dedupMentions_def send_created_def q_Createmessage_def put_message_def cql_put_def upsert_def announce_quiet Let_def cql_time_def
      cql_set_def List.map_filter_def sync_world_facts)

definition dead_chat :: chat where
  "dead_chat = snd (BulkDeleteMessages (sync_at 40000000) sync_md (uuid_text 5) (uuid_text 2) [] [uuid_text 7] sent_chat)"

lemma dead_chat_facts:
  "messages dead_chat = [(hd (messages sent_chat))\<lparr>m_Deleted := Some True, m_UpdatedAt := Some 40000000\<rparr>]"
  "pg dead_chat = pg sent_chat"
  by (simp_all add: dead_chat_def BulkDeleteMessages_def Repository_DeleteMessage_def q_Deletemessage_def put_message_def cql_put_def
      upsert_def message_key_def sent_chat_facts blank_message_def cql_time_def List.map_filter_def)

lemma dead_chat_sync:
  "\<exists>resp m. Sync (sync_at 50000000) sync_plain sync_md sync_ctx None empty_redis dead_chat = Inr resp \<and> m \<in> set (sy_Messages resp)"
proof -
  have "rows_of (q_ListDMChannels e 5 (pg dead_chat)) = []" for e
    by (simp add: q_ListDMChannels_def rows_of_def run_stmt_def dead_chat_facts sent_chat_facts sync_world_def)
  then have "sync_channel_ids (at (sync_at 50000000) 9) sync_md 5 (pg dead_chat) = [2]"
    by (simp add: sync_channel_ids_def q_SyncGuilds_def q_ListGuildChannels_def dead_chat_facts sent_chat_facts sync_world_def
        pg_time_def ustr_def List.map_filter_def)
  moreover have "rows_of (q_SyncFriendships e 5 (pg dead_chat)) = []" for e
    by (simp add: rows_of_def q_SyncFriendships_def run_stmt_def dead_chat_facts sent_chat_facts)
  moreover obtain m where "sync_messages (at (sync_at 50000000) 10) 0 sync_md 0 [2] dead_chat = Some [m]"
    by (simp add: GetMessagesSince_def q_Getmessagessince_def partition_of_def dead_chat_facts sent_chat_facts newest_first_def
        cql_time_def sync_message_def blank_message_def)
  ultimately show ?thesis by (auto simp: Sync_def Let_def simp del: sync_messages.simps)
qed

theorem Sync_messages_deleted_witness:
  "\<exists>resp m. Sync (sync_at 50000000) sync_plain sync_md sync_ctx None empty_redis dead_chat = Inr resp \<and>
     m \<in> set (sy_Messages resp) \<and> smg_IsDeleted m"
proof -
  obtain resp m where resp: "Sync (sync_at 50000000) sync_plain sync_md sync_ctx None empty_redis dead_chat = Inr resp"
    and m: "m \<in> set (sy_Messages resp)" using dead_chat_sync by blast
  have "message_step (sync_chat sync_world) sent_chat" "message_step sent_chat dead_chat"
    unfolding sent_chat_def dead_chat_def by (rule message_step.intros)+
  then have steps: "message_step\<^sup>*\<^sup>* (sync_chat sync_world) dead_chat" by (meson converse_rtranclp_into_rtranclp r_into_rtranclp)
  have "smg_IsDeleted m" by (rule Sync_messages_deleted [OF steps _ _ resp m, where u = 5]) simp_all
  with resp m show ?thesis by blast
qed

theorem Sync_scope_witness:
  "\<exists>resp. Sync (sync_at 50000000) sync_plain sync_md sync_ctx None empty_redis dead_chat = Inr resp \<and> sy_Messages resp \<noteq> [] \<and>
     (\<forall>x\<in>set (sy_Roles resp). \<exists>rl\<in>set (roles (pg dead_chat)). x = sync_role rl \<and> is_member (pg dead_chat) (r_guild_id rl) 5)"
proof -
  obtain resp m where resp: "Sync (sync_at 50000000) sync_plain sync_md sync_ctx None empty_redis dead_chat = Inr resp"
    and m: "m \<in> set (sy_Messages resp)" using dead_chat_sync by blast
  have "\<forall>x. gocqlParseUUID sync_md (uuid_text x) = Some x" by simp
  from Sync_scope [OF _ this resp refl, of 5] have
    "\<forall>x\<in>set (sy_Roles resp). \<exists>rl\<in>set (roles (pg dead_chat)). x = sync_role rl \<and> is_member (pg dead_chat) (r_guild_id rl) 5"
    by simp
  with resp m show ?thesis by auto
qed

end
