(* ===== verification/AuthApi.thy ===== *)
theory AuthApi
  imports AuthService Api
begin

text \<open>
  The gRPC surface of the authentication service: its methods, the handlers behind them, and a call
  through the chain of interceptors. Registration, verification, login and refresh need no token;
  logout does.
\<close>

datatype auth_request =
    RegisterRequest string string string
  | VerifyOTPRequest string string
  | ResendOTPRequest string
  | LoginRequest string string
  | RefreshTokenRequest string
  | LogoutRequest string
  | ValidateTokenRequest string

datatype auth_response =
    RegisterResponse "string \<times> string" | TokensResponse "string \<times> TokenPair" | MessageOnlyResponse string
  | RefreshResponse TokenPair | LogoutResponse | ValidateTokenResponse "string \<times> bool"

fun auth_method :: "auth_request \<Rightarrow> string" where
  "auth_method (RegisterRequest _ _ _) = ''/auth.v1.AuthService/Register''"
| "auth_method (VerifyOTPRequest _ _) = ''/auth.v1.AuthService/VerifyOTP''"
| "auth_method (ResendOTPRequest _) = ''/auth.v1.AuthService/ResendOTP''"
| "auth_method (LoginRequest _ _) = ''/auth.v1.AuthService/Login''"
| "auth_method (RefreshTokenRequest _) = ''/auth.v1.AuthService/RefreshToken''"
| "auth_method (LogoutRequest _) = ''/auth.v1.AuthService/Logout''"
| "auth_method (ValidateTokenRequest _) = ''/auth.v1.AuthService/ValidateToken''"

fun auth_handler :: "env \<Rightarrow> auth_deps \<Rightarrow> auth_rand \<Rightarrow> auth_request \<Rightarrow> (server, auth_response) UnaryHandler" where
  "auth_handler e d rnd (RegisterRequest username email password) =
     answer RegisterResponse (AuthHandler_Register e d rnd username email password)"
| "auth_handler e d rnd (VerifyOTPRequest email otp) = answer TokensResponse (AuthHandler_VerifyOTP e d rnd email otp)"
| "auth_handler e d rnd (ResendOTPRequest email) = answer MessageOnlyResponse (AuthHandler_ResendOTP e d rnd email)"
| "auth_handler e d rnd (LoginRequest email password) = answer TokensResponse (AuthHandler_Login e d rnd email password)"
| "auth_handler e d rnd (RefreshTokenRequest token) = answer RefreshResponse (AuthHandler_RefreshToken e d rnd token)"
| "auth_handler e d rnd (LogoutRequest token) = answer (\<lambda>_. LogoutResponse) (AuthHandler_Logout e d token)"
| "auth_handler e d rnd (ValidateTokenRequest token) =
     answer ValidateTokenResponse (AuthHandler_ValidateToken d (clock e [0]) token)"

definition auth_serve ::
    "jwt_lib \<Rightarrow> env \<Rightarrow> string \<Rightarrow> string option \<Rightarrow> auth_deps \<Rightarrow> auth_rand \<Rightarrow> auth_request \<Rightarrow>
     (server, auth_response) UnaryHandler" where
  "auth_serve J e secret violation d rnd req =
     unary_chain J e secret violation (auth_method req) (auth_handler (at e 2) d rnd req)"

lemma auth_methods:
  "auth_method req \<notin> set publicMethods \<longleftrightarrow> (\<exists>t. req = LogoutRequest t)" "\<not> exempt (auth_method req)"
  by (cases req; simp add: publicMethods_def exempt_def)+

section \<open>From a login to a call\<close>

text \<open>
  Login through the chain answers with tokens only for a user of the store whose address and
  password match and whose address is verified; the tokens are those of generateTokens.
\<close>

lemma login_served:
  assumes "auth_serve J e secret violation d rnd (LoginRequest email password) ctx s = (Inr (TokensResponse (u, pair)), s')"
  obtains s0 s1 user where "sv_db s0 = sv_db s" and "sv_db s' = sv_db s"
    and "q_GetUserByEmail (at (at e 2) 0) email (sv_db s) = Inr user" and "u_verified user"
    and "ad_bcrypt_match d (u_password_hash user) password" and "u = uuid_string e (u_id user)"
    and "generateTokens (at (at e 2) 1) d rnd u s0 = (Inr pair, s1)"
proof -
  have public: "auth_method (LoginRequest email password) \<in> set publicMethods" by (simp add: publicMethods_def)
  obtain s0 where s0: "sv_db s0 = sv_db s"
    and run: "auth_handler (at e 2) d rnd (LoginRequest email password) ctx s0 = (Inr (TokensResponse (u, pair)), s')"
    using assms
    by (cases rule: unary_chain_public [OF public, where J = J and e = e and secret = secret and ctx = ctx
          and s = s and violation = violation and handler = "auth_handler (at e 2) d rnd (LoginRequest email password)"])
      (auto simp: auth_serve_def)
  from run have login: "Login (at e 2) d rnd email password s0 = (Inr (u, pair), s')"
    by (auto simp: answer_def respond_def AuthHandler_Login_def split: sum.splits prod.splits)
  then show ?thesis
    using s0 that [OF s0] generateTokens_Inr(2)
    by (fastforce simp: Login_def split: sum.splits if_splits prod.splits)
qed

lemma chain_lets_in:
  assumes "extractUserID J (clock e [1]) secret ctx = Inr u" and "rpc \<notin> set publicMethods" and "\<not> exempt rpc"
  shows "(\<exists>t'. sv_db t' = sv_db t \<and>
      unary_chain J e secret violation rpc h ctx t = h (ctx\<lparr>UserIDKey := Some u\<rparr>) t') \<or>
    (\<exists>x t'. unary_chain J e secret violation rpc h ctx t = (Inl x, t') \<and> sv_db t' = sv_db t \<and>
      st_code x \<in> {ResourceExhausted, InvalidArgument})"
proof -
  obtain b t' where lim: "limited (at e 0) rpc ctx t = (b, t')" by (cases "limited (at e 0) rpc ctx t")
  then have "sv_db t' = sv_db t" by simp
  with lim assms show ?thesis
    by (cases b; cases violation) (auto simp: unary_chain_def LoggingInterceptor_def RateLimitInterceptor_cases
        AuthInterceptor_def ValidationInterceptor_def intro: exI [of _ t'])
qed

text \<open>
  C17: a login opens a session for its user only. When the login call of the server answers with
  tokens, the store holds an account that is not deleted, with the address given, verified, whose
  password hash matches; and until the lifetime of the access token has passed, every call to a
  method that needs a token and carries this one runs its handler as that account's user, on the
  database as it is, or is refused by the rate limit or as invalid: never as unauthenticated.
\<close>

theorem login_opens_session:
  assumes "jwt_ok (ad_jwt d)"
    and "auth_serve (ad_jwt d) e (ad_Secret d) v d rnd (LoginRequest email password) ctx s =
      (Inr (TokensResponse (u, pair)), s')"
    and "clock e' [1] < (clock e [2, 1, 0] + ad_AccessTokenTTL d) div 1000000000 * 1000000000"
    and "incoming_md ctx' = Some md" and "map_of md ''authorization'' = Some [''Bearer '' @ tp_AccessToken pair]"
    and "rpc \<notin> set publicMethods" and "\<not> exempt rpc"
  shows "(\<exists>a\<in>set (users (sv_db s)). u_email a = email \<and> \<not> u_deleted a \<and> u_verified a \<and>
      ad_bcrypt_match d (u_password_hash a) password \<and> u = uuid_string e (u_id a)) \<and>
    ((\<exists>t'. sv_db t' = sv_db t \<and> unary_chain (ad_jwt d) e' (ad_Secret d) v' rpc h ctx' t =
        h (ctx'\<lparr>UserIDKey := Some u\<rparr>) t') \<or>
     (\<exists>x t'. unary_chain (ad_jwt d) e' (ad_Secret d) v' rpc h ctx' t = (Inl x, t') \<and> sv_db t' = sv_db t \<and>
        st_code x \<in> {ResourceExhausted, InvalidArgument}))"
proof -
  obtain s0 s1 a where a: "q_GetUserByEmail (at (at e 2) 0) email (sv_db s) = Inr a" "u_verified a"
      "ad_bcrypt_match d (u_password_hash a) password" "u = uuid_string e (u_id a)"
    and gen: "generateTokens (at (at e 2) 1) d rnd u s0 = (Inr pair, s1)"
    using login_served [OF assms(2)] by metis
  have "clock e' [1] < (clock (at (at e 2) 1) [0] + ad_AccessTokenTTL d) div 1000000000 * 1000000000"
    using assms(3) by simp
  then obtain tk where "jwt_Parse (ad_jwt d) (hmac_key (ad_Secret d)) (clock e' [1]) (tp_AccessToken pair) = Some tk"
      "token_subject tk = Some u"
    using jwt_ok_accepts [OF assms(1) generateTokens_Inr(1) [OF gen]] by auto
  then have "extractUserID (ad_jwt d) (clock e' [1]) (ad_Secret d) ctx' = Inr u"
    using assms(4,5) TrimPrefix_append [of "''Bearer ''" "tp_AccessToken pair"]
    unfolding extractUserID_iff by auto
  from chain_lets_in [OF this assms(6,7)] a show ?thesis
    by (auto simp: q_GetUserByEmail_def run_stmt_Inr one_row_def find_Some_iff split: option.splits)
qed

lemma first_login:
  "\<exists>pair s'. auth_serve plain_jwt (text_env ids (\<lambda>_. 5)) ''k'' None plain_deps (draws ''q'') (LoginRequest [] [])
     (call_ctx []) lone_server = (Inr (TokensResponse (uuid_text 5, pair)), s')"
proof -
  let ?m = "auth_method (LoginRequest [] [])" and ?e = "text_env ids (\<lambda>_. 5)"
  obtain identity rl where rl: "resolveRateLimit (call_ctx []) ?m = (identity, rl)" by fastforce
  then have "1 \<le> limit rl" using resolved_limit [of "call_ctx []" ?m] by simp
  then have "\<exists>r. checkRateLimit (at ?e 0) key rl empty_redis = (Inr True, r)" for key
    by (simp add: checkRateLimit_def r_Incr_def r_Expire_def live_value_def empty_redis_def run_stmt_def text_env_def)
  then obtain r where "checkRateLimit (at ?e 0) (rate_key identity ?m) rl empty_redis = (Inr True, r)" by blast
  with rl have "auth_serve plain_jwt ?e ''k'' None plain_deps (draws ''q'') (LoginRequest [] []) (call_ctx []) lone_server =
      auth_handler (at ?e 2) plain_deps (draws ''q'') (LoginRequest [] []) (call_ctx []) (lone_server\<lparr>sv_kv := r\<rparr>)"
    by (simp add: auth_serve_def unary_chain_def LoggingInterceptor_def RateLimitInterceptor_def AuthInterceptor_def
        ValidationInterceptor_def publicMethods_def exempt_def lone_server_def)
  moreover obtain pair s' where "generateTokens (at (at ?e 2) 1) plain_deps (draws ''q'') (uuid_text 5)
      (lone_server\<lparr>sv_kv := r\<rparr>) = (Inr pair, s')"
    using generateTokens_ok [of plain_deps "draws ''q''" "at (at ?e 2) 1"] by (fastforce simp: text_env_def)
  ultimately show ?thesis
    by (simp add: answer_def respond_def AuthHandler_Login_def Login_def q_GetUserByEmail_def one_row_def lone_world_def
        one_user_def plain_deps_def text_env_def)
qed

theorem login_opens_session_witness:
  "\<exists>pair s'. auth_serve plain_jwt (text_env (\<lambda>_. 9) (\<lambda>_. 5)) ''k'' None plain_deps (draws ''q'')
       (LoginRequest [] []) (call_ctx []) lone_server = (Inr (TokensResponse (uuid_text 5, pair)), s') \<and>
     ((\<exists>t'. sv_db t' = lone_world \<and>
       unary_chain plain_jwt (text_env (\<lambda>_. 9) (\<lambda>_. 7)) ''k'' None ''/user.v1.UserService/GetUser'' (\<lambda>ctx s. (Inr (UserIDFromContext ctx), s))
         (call_ctx (tp_AccessToken pair)) lone_server = (Inr (uuid_text 5), t')) \<or>
     (\<exists>x t'. unary_chain plain_jwt (text_env (\<lambda>_. 9) (\<lambda>_. 7)) ''k'' None ''/user.v1.UserService/GetUser''
         (\<lambda>ctx s. (Inr (UserIDFromContext ctx), s)) (call_ctx (tp_AccessToken pair)) lone_server = (Inl x, t') \<and>
       st_code x \<in> {ResourceExhausted, InvalidArgument}))"
proof -
  obtain pair s' where login: "auth_serve (ad_jwt plain_deps) (text_env (\<lambda>_. 9) (\<lambda>_. 5)) (ad_Secret plain_deps) None
      plain_deps (draws ''q'') (LoginRequest [] []) (call_ctx []) lone_server = (Inr (TokensResponse (uuid_text 5, pair)), s')"
    using first_login [of "\<lambda>_. 9"] by (auto simp: plain_deps_def)
  have "jwt_ok (ad_jwt plain_deps)" by (simp add: plain_deps_def plain_jwt_ok)
  from login_opens_session [OF this login, where e' = "text_env (\<lambda>_. 9) (\<lambda>_. 7)" and ctx' = "call_ctx (tp_AccessToken pair)" and
      rpc = "''/user.v1.UserService/GetUser''" and t = lone_server and v' = None and
      md = "[(''authorization'', [''Bearer '' @ tp_AccessToken pair])]" and
      h = "\<lambda>ctx s. (Inr (UserIDFromContext ctx), s)"] login
  show ?thesis
    by - (rule exI [of _ pair], rule exI [of _ s'], auto simp: call_ctx_def plain_deps_def Minute_def publicMethods_def
      exempt_def UserIDFromContext_def text_env_def)
qed

end
