(* ===== verification/GuildApi.thy ===== *)
theory GuildApi
  imports Api
begin

text \<open>
  The gRPC surface of the guild service, internal/features/guild/handler.go: the messages of the
  response, one handler per method with the status each error becomes, and the dispatch of a call
  through the interceptors. The created_at fields of the messages are left out, as the columns are.
\<close>

section \<open>Messages\<close>

record GuildProto =
  gp_Id :: string
  gp_Name :: string
  gp_Description :: string
  gp_IconUrl :: string
  gp_BannerUrl :: string
  gp_OwnerId :: string
  gp_MemberCount :: int

record GuildMemberProto =
  mp_UserId :: string
  mp_GuildId :: string
  mp_Nickname :: string
  mp_JoinedAt :: time

record RoleProto =
  rp_Id :: string
  rp_GuildId :: string
  rp_Name :: string
  rp_Color :: string
  rp_Position :: int

record InviteProto =
  ip_Code :: string
  ip_GuildId :: string
  ip_ChannelId :: string
  ip_CreatorId :: string
  ip_MaxUses :: int
  ip_Uses :: int
  ip_Url :: string
  ip_ExpiresAt :: "time option"

record InvitePreview =
  ipv_Code :: string
  ipv_GuildId :: string
  ipv_GuildName :: string
  ipv_GuildIconUrl :: string
  ipv_Description :: string
  ipv_MemberCount :: int
  ipv_ChannelCount :: int
  ipv_InviterUsername :: string
  ipv_MaxUses :: int
  ipv_Uses :: int
  ipv_AlreadyMember :: bool
  ipv_ExpiresAt :: "time option"

record InviteChannelInfo =
  ici_Id :: string
  ici_Name :: string
  ici_Type :: int
  ici_Topic :: string
  ici_Position :: int
  ici_ParentId :: string

record JoinGuildResponse =
  jg_Guild :: GuildProto
  jg_Channels :: "InviteChannelInfo list"
  jg_MemberCount :: int

text \<open>
  What a handler is built with: uuid.Parse, the texts of errors, object storage, the base URL of
  invites, and the random bytes of the invite the call may create.
\<close>

record guild_deps =
  gd_Parse :: uuid_parser
  gd_text :: "guild_error \<Rightarrow> string"
  gd_aztext :: "azerr \<Rightarrow> string"
  gd_storage :: guild_storage
  gd_inviteBaseURL :: string
  gd_random :: "32 word option"

definition dbGuildToProto :: "env \<Rightarrow> Guild \<Rightarrow> int \<Rightarrow> GuildProto" where
  "dbGuildToProto e g memberCount =
     \<lparr>gp_Id = uuid_string e (g_id g), gp_Name = g_name g, gp_Description = g_description g,
      gp_IconUrl = g_icon_url g, gp_BannerUrl = g_banner_url g,
      gp_OwnerId = uuid_string e (g_owner_id g), gp_MemberCount = memberCount\<rparr>"

definition toProto :: "env \<Rightarrow> guild_deps \<Rightarrow> Guild \<Rightarrow> int \<Rightarrow> GuildProto" where
  "toProto e d g memberCount =
     (dbGuildToProto e g memberCount)\<lparr>gp_IconUrl := ResolveIconURL (gd_storage d) (g_icon_url g),
        gp_BannerUrl := ResolveBannerURL (gd_storage d) (g_banner_url g)\<rparr>"

definition dbGuildMemberToProto :: "env \<Rightarrow> GuildMember \<Rightarrow> GuildMemberProto" where
  "dbGuildMemberToProto e m =
     \<lparr>mp_UserId = uuid_string e (gm_user_id m), mp_GuildId = uuid_string e (gm_guild_id m),
      mp_Nickname = gm_nickname m, mp_JoinedAt = gm_joined_at m\<rparr>"

definition dbRoleToProto :: "env \<Rightarrow> Role \<Rightarrow> RoleProto" where
  "dbRoleToProto e r =
     \<lparr>rp_Id = uuid_string e (r_id r), rp_GuildId = uuid_string e (r_guild_id r), rp_Name = r_name r,
      rp_Color = r_color r, rp_Position = r_position r\<rparr>"

definition inviteToProto :: "env \<Rightarrow> guild_deps \<Rightarrow> Invite \<Rightarrow> InviteProto" where
  "inviteToProto e d i =
     \<lparr>ip_Code = i_code i, ip_GuildId = uuid_string e (i_guild_id i),
      ip_ChannelId = uuid_string e (i_channel_id i), ip_CreatorId = uuid_string e (i_creator_id i),
      ip_MaxUses = i_max_uses i, ip_Uses = i_uses i,
      ip_Url = BuildInviteURL (gd_inviteBaseURL d) (i_code i), ip_ExpiresAt = i_expires_at i\<rparr>"

definition dbChannelsToInfos :: "env \<Rightarrow> Channel list \<Rightarrow> InviteChannelInfo list" where
  "dbChannelsToInfos e = map (\<lambda>c.
     \<lparr>ici_Id = pgToStr e (c_id c), ici_Name = c_name c, ici_Type = c_type c, ici_Topic = c_topic c,
      ici_Position = c_position c,
      ici_ParentId = (case c_parent_id c of None \<Rightarrow> [] | Some p \<Rightarrow> pgToStr e p)\<rparr>)"

section \<open>Guilds\<close>

definition GuildHandler_CreateGuild ::
    "env \<Rightarrow> guild_deps \<Rightarrow> string \<Rightarrow> string \<Rightarrow> string \<Rightarrow> (world, GuildProto) UnaryHandler" where
  "GuildHandler_CreateGuild e d name description iconURL =
     with_caller (gd_Parse d) (\<lambda>c ctx w.
       respond (\<lambda>g _. toProto e d g 1)
         (map_error (\<lambda>_. Status Internal ''failed to create guild'')
           (CreateGuild (at e 0) c name description iconURL w)))"

definition GuildHandler_GetGuild :: "env \<Rightarrow> guild_deps \<Rightarrow> string \<Rightarrow> (world, GuildProto) UnaryHandler" where
  "GuildHandler_GetGuild e d guildID =
     with_id (gd_Parse d) ''guild_id'' guildID (\<lambda>g ctx w.
       respond (\<lambda>(guild, cnt) _. toProto e d guild (int32 (int cnt)))
         (map_error (\<lambda>x. if x = ErrGuildNotFound then Status NotFound ''guild not found''
                         else Status Internal ''failed to get guild'')
           (GetGuild (at e 0) g w, w)))"

definition upload_status :: "guild_deps \<Rightarrow> guild_error \<Rightarrow> status" where
  "upload_status d x =
     (if x = ErrInsufficientPermissions then Status PermissionDenied ''cannot manage this guild''
      else if x = ErrGuildNotFound then Status NotFound ''guild not found''
      else Status Internal (gd_text d x))"

definition GuildHandler_UploadGuildIcon ::
    "env \<Rightarrow> guild_deps \<Rightarrow> string \<Rightarrow> string \<Rightarrow> string \<Rightarrow> nat \<Rightarrow> (world, string \<times> GuildProto) UnaryHandler" where
  "GuildHandler_UploadGuildIcon e d guildID filename contentType nbytes =
     with_caller (gd_Parse d) (\<lambda>c.
     with_id (gd_Parse d) ''guild_id'' guildID (\<lambda>g ctx w.
       respond (\<lambda>(guild, iconURL) _. (iconURL, toProto e d guild 0))
         (map_error (upload_status d)
           (UploadGuildIcon (at e 0) (gd_storage d) c g filename contentType nbytes w))))"

definition GuildHandler_UploadGuildBanner ::
    "env \<Rightarrow> guild_deps \<Rightarrow> string \<Rightarrow> string \<Rightarrow> string \<Rightarrow> nat \<Rightarrow> (world, string \<times> GuildProto) UnaryHandler" where
  "GuildHandler_UploadGuildBanner e d guildID filename contentType nbytes =
     with_caller (gd_Parse d) (\<lambda>c.
     with_id (gd_Parse d) ''guild_id'' guildID (\<lambda>g ctx w.
       respond (\<lambda>(guild, bannerURL) _. (bannerURL, toProto e d guild 0))
         (map_error (upload_status d)
           (UploadGuildBanner (at e 0) (gd_storage d) c g filename contentType nbytes w))))"

text \<open>The count after the service, 0 when the query fails.\<close>

definition count_members :: "env \<Rightarrow> uuid \<Rightarrow> world \<Rightarrow> int" where
  "count_members e g w = (case q_CountGuildMembers e g w of Inl _ \<Rightarrow> 0 | Inr n \<Rightarrow> int32 (int n))"

definition GuildHandler_UpdateGuild ::
    "env \<Rightarrow> guild_deps \<Rightarrow> string \<Rightarrow> UpdateGuildParams \<Rightarrow> (world, GuildProto) UnaryHandler" where
  "GuildHandler_UpdateGuild e d guildID params =
     with_caller (gd_Parse d) (\<lambda>c.
     with_id (gd_Parse d) ''guild_id'' guildID (\<lambda>g ctx w.
       respond (\<lambda>guild w'. toProto e d guild (count_members (at e 1) g w'))
         (map_error (\<lambda>x. if x = ErrGuildNotFound then Status NotFound ''guild not found''
                         else if x = ErrNotGuildOwner
                         then Status PermissionDenied ''only the guild owner can update the guild''
                         else Status Internal ''failed to update guild'')
           (UpdateGuild (at e 0) c g params w))))"

definition GuildHandler_DeleteGuild :: "env \<Rightarrow> guild_deps \<Rightarrow> string \<Rightarrow> (world, unit) UnaryHandler" where
  "GuildHandler_DeleteGuild e d guildID =
     with_caller (gd_Parse d) (\<lambda>c.
     with_id (gd_Parse d) ''guild_id'' guildID (\<lambda>g ctx w.
       map_error (\<lambda>x. if x = ErrGuildNotFound then Status NotFound ''guild not found''
                      else if x = ErrNotGuildOwner
                      then Status PermissionDenied ''only the guild owner can delete the guild''
                      else Status Internal ''failed to delete guild'')
         (DeleteGuild (at e 0) c g w)))"

definition GuildHandler_ListUserGuilds :: "env \<Rightarrow> guild_deps \<Rightarrow> (world, GuildProto list) UnaryHandler" where
  "GuildHandler_ListUserGuilds e d =
     with_caller (gd_Parse d) (\<lambda>c ctx w.
       respond (\<lambda>gs _. map (\<lambda>g. toProto e d g 0) gs)
         (map_error (\<lambda>_. Status Internal ''failed to list guilds'') (ListUserGuilds (at e 0) c w, w)))"

section \<open>Joining and leaving\<close>

definition join_status :: "guild_error \<Rightarrow> status" where
  "join_status x =
     (if x = ErrInviteNotFound then Status NotFound ''invite not found''
      else if x = ErrInviteExpired then Status FailedPrecondition ''invite has expired''
      else if x = ErrInviteMaxUses then Status FailedPrecondition ''invite has reached maximum uses''
      else if x = ErrUserBanned then Status PermissionDenied ''you are banned from this guild''
      else if x = ErrAlreadyMember then Status AlreadyExists ''already a member of this guild''
      else Status Internal ''failed to join guild'')"

definition GuildHandler_JoinGuild :: "env \<Rightarrow> guild_deps \<Rightarrow> string \<Rightarrow> (world, JoinGuildResponse) UnaryHandler" where
  "GuildHandler_JoinGuild e d inviteCode =
     with_caller (gd_Parse d) (\<lambda>c ctx w.
       respond (\<lambda>res _. \<lparr>jg_Guild = toProto e d (jr_Guild res) (int32 (int (jr_MemberCount res))),
                         jg_Channels = dbChannelsToInfos e (jr_Channels res),
                         jg_MemberCount = int32 (int (jr_MemberCount res))\<rparr>)
         (map_error join_status (JoinGuild (at e 0) c inviteCode w)))"

definition preview_status :: "guild_error \<Rightarrow> status" where
  "preview_status x =
     (if x = ErrInviteNotFound \<or> x = ErrGuildNotFound then Status NotFound ''invite not found''
      else if x = ErrInviteExpired then Status FailedPrecondition ''invite has expired''
      else if x = ErrInviteMaxUses then Status FailedPrecondition ''invite has reached maximum uses''
      else if x = ErrUserBanned then Status PermissionDenied ''you are banned from this guild''
      else Status Internal ''failed to preview invite'')"

text \<open>The caller is optional here: a context with no user, or with one that does not parse, has none.\<close>

definition preview_caller :: "guild_deps \<Rightarrow> rpc_ctx \<Rightarrow> uuid option" where
  "preview_caller d ctx =
     (if UserIDFromContext ctx = [] then None else gd_Parse d (UserIDFromContext ctx))"

definition GuildHandler_PreviewInvite :: "env \<Rightarrow> guild_deps \<Rightarrow> string \<Rightarrow> (world, InvitePreview) UnaryHandler" where
  "GuildHandler_PreviewInvite e d inviteCode ctx w =
     respond (\<lambda>res _. \<lparr>ipv_Code = i_code (pv_Invite res), ipv_GuildId = pgToStr e (g_id (pv_Guild res)),
                       ipv_GuildName = g_name (pv_Guild res),
                       ipv_GuildIconUrl = ResolveIconURL (gd_storage d) (g_icon_url (pv_Guild res)),
                       ipv_Description = g_description (pv_Guild res),
                       ipv_MemberCount = int32 (int (pv_MemberCount res)),
                       ipv_ChannelCount = pv_ChannelCount res,
                       ipv_InviterUsername = pv_InviterUsername res,
                       ipv_MaxUses = i_max_uses (pv_Invite res), ipv_Uses = i_uses (pv_Invite res),
                       ipv_AlreadyMember = pv_AlreadyMember res,
                       ipv_ExpiresAt = i_expires_at (pv_Invite res)\<rparr>)
       (map_error preview_status (PreviewInvite (at e 0) (preview_caller d ctx) inviteCode w, w))"

definition GuildHandler_LeaveGuild :: "env \<Rightarrow> guild_deps \<Rightarrow> string \<Rightarrow> (world, unit) UnaryHandler" where
  "GuildHandler_LeaveGuild e d guildID =
     with_caller (gd_Parse d) (\<lambda>c.
     with_id (gd_Parse d) ''guild_id'' guildID (\<lambda>g ctx w.
       map_error (\<lambda>x. if x = ErrGuildNotFound then Status NotFound ''guild not found''
                      else if x = ErrOwnerCannotLeave
                      then Status FailedPrecondition ''guild owner cannot leave the guild''
                      else if x = ErrNotGuildMember then Status NotFound ''not a member of this guild''
                      else Status Internal ''failed to leave guild'')
         (LeaveGuild (at e 0) c g w)))"

text \<open>The cursor of the request is accepted and not read: the offset is always 0.\<close>

definition GuildHandler_ListMembers ::
    "env \<Rightarrow> guild_deps \<Rightarrow> string \<Rightarrow> int \<Rightarrow> string \<Rightarrow> (world, GuildMemberProto list) UnaryHandler" where
  "GuildHandler_ListMembers e d guildID lim after =
     with_id (gd_Parse d) ''guild_id'' guildID (\<lambda>g ctx w.
       (let limit' = (if lim \<le> 0 then 50 else lim); offset = 0 in
        respond (\<lambda>ms _. map (dbGuildMemberToProto e) ms)
          (map_error (\<lambda>_. Status Internal ''failed to list members'') (ListMembers (at e 0) g limit' offset w, w))))"

section \<open>Moderation\<close>

definition GuildHandler_KickMember :: "env \<Rightarrow> guild_deps \<Rightarrow> string \<Rightarrow> string \<Rightarrow> (world, unit) UnaryHandler" where
  "GuildHandler_KickMember e d guildID userID =
     with_caller (gd_Parse d) (\<lambda>c.
     with_id (gd_Parse d) ''guild_id'' guildID (\<lambda>g.
     with_id (gd_Parse d) ''user_id'' userID (\<lambda>t ctx w.
       map_error (\<lambda>x. if x = ErrGuildNotFound then Status NotFound ''guild not found''
                      else if x = ErrNotGuildOwner \<or> x = ErrInsufficientPermissions
                      then Status PermissionDenied ''only the guild owner can kick members''
                      else if x = ErrCannotKickOwner then Status InvalidArgument ''cannot kick the guild owner''
                      else if x = ErrMemberNotFound then Status NotFound ''member not found''
                      else Status Internal ''failed to kick member'')
         (KickMember (at e 0) c g t w))))"

definition GuildHandler_BanMember ::
    "env \<Rightarrow> guild_deps \<Rightarrow> string \<Rightarrow> string \<Rightarrow> string \<Rightarrow> (world, unit) UnaryHandler" where
  "GuildHandler_BanMember e d guildID userID reason =
     with_caller (gd_Parse d) (\<lambda>c.
     with_id (gd_Parse d) ''guild_id'' guildID (\<lambda>g.
     with_id (gd_Parse d) ''user_id'' userID (\<lambda>t ctx w.
       map_error (\<lambda>x. if x = ErrGuildNotFound then Status NotFound ''guild not found''
                      else if x = ErrNotGuildOwner \<or> x = ErrInsufficientPermissions
                      then Status PermissionDenied ''only the guild owner can ban members''
                      else if x = ErrCannotBanOwner then Status InvalidArgument ''cannot ban the guild owner''
                      else Status Internal ''failed to ban member'')
         (BanMember (at e 0) c g t reason w))))"

definition GuildHandler_UnbanMember :: "env \<Rightarrow> guild_deps \<Rightarrow> string \<Rightarrow> string \<Rightarrow> (world, unit) UnaryHandler" where
  "GuildHandler_UnbanMember e d guildID userID =
     with_caller (gd_Parse d) (\<lambda>c.
     with_id (gd_Parse d) ''guild_id'' guildID (\<lambda>g.
     with_id (gd_Parse d) ''user_id'' userID (\<lambda>t ctx w.
       map_error (\<lambda>x. if x = ErrGuildNotFound then Status NotFound ''guild not found''
                      else if x = ErrNotGuildOwner \<or> x = ErrInsufficientPermissions
                      then Status PermissionDenied ''only the guild owner can unban members''
                      else if x = ErrUserNotBanned then Status NotFound ''user is not banned''
                      else Status Internal ''failed to unban member'')
         (UnbanMember (at e 0) c g t w))))"

text \<open>An empty channel_id is passed on as NULL.\<close>

definition with_optional_id ::
    "uuid_parser \<Rightarrow> string \<Rightarrow> string \<Rightarrow> (uuid option \<Rightarrow> ('s, 'r) UnaryHandler) \<Rightarrow> ('s, 'r) UnaryHandler" where
  "with_optional_id P name txt h =
     (if txt = [] then h None else with_id P name txt (\<lambda>x. h (Some x)))"

definition GuildHandler_CreateInvite ::
    "env \<Rightarrow> guild_deps \<Rightarrow> string \<Rightarrow> string \<Rightarrow> int \<Rightarrow> int \<Rightarrow> (world, InviteProto) UnaryHandler" where
  "GuildHandler_CreateInvite e d guildID channelID maxUses maxAgeSeconds =
     with_caller (gd_Parse d) (\<lambda>c.
     with_id (gd_Parse d) ''guild_id'' guildID (\<lambda>g.
     with_optional_id (gd_Parse d) ''channel_id'' channelID (\<lambda>ch ctx w.
       respond (\<lambda>i _. inviteToProto e d i)
         (map_error (\<lambda>x. if x = ErrNotGuildMember
                         then Status PermissionDenied ''must be a guild member to create invites''
                         else Status Internal ''failed to create invite'')
           (CreateInvite (at e 0) (gd_random d) c g ch maxUses maxAgeSeconds w)))))"

section \<open>Roles\<close>

definition GuildHandler_CreateRole ::
    "env \<Rightarrow> guild_deps \<Rightarrow> string \<Rightarrow> string \<Rightarrow> string \<Rightarrow> (world, RoleProto) UnaryHandler" where
  "GuildHandler_CreateRole e d guildID name color =
     with_caller (gd_Parse d) (\<lambda>c.
     with_id (gd_Parse d) ''guild_id'' guildID (\<lambda>g ctx w.
       respond (\<lambda>r _. dbRoleToProto e r)
         (map_error (\<lambda>x. if x = ErrNotGuildOwner
                         then Status PermissionDenied ''only the guild owner can create roles''
                         else Status Internal ''failed to create role'')
           (CreateRole (at e 0) c g name color w))))"

text \<open>The parameters of the update take their ID from the parsed role_id.\<close>

definition GuildHandler_UpdateRole ::
    "env \<Rightarrow> guild_deps \<Rightarrow> string \<Rightarrow> string \<Rightarrow> string option \<Rightarrow> string option \<Rightarrow> int option \<Rightarrow>
     (world, RoleProto) UnaryHandler" where
  "GuildHandler_UpdateRole e d guildID roleID name color position =
     with_caller (gd_Parse d) (\<lambda>c.
     with_id (gd_Parse d) ''guild_id'' guildID (\<lambda>g.
     with_id (gd_Parse d) ''role_id'' roleID (\<lambda>r ctx w.
       respond (\<lambda>r _. dbRoleToProto e r)
         (map_error (\<lambda>x. if x = ErrNotGuildOwner
                         then Status PermissionDenied ''only the guild owner can update roles''
                         else Status Internal ''failed to update role'')
           (UpdateRole (at e 0) c g
              \<lparr>ur_ID = r, ur_Name = name, ur_Color = color, ur_Position = position\<rparr> w)))))"

definition GuildHandler_DeleteRole :: "env \<Rightarrow> guild_deps \<Rightarrow> string \<Rightarrow> string \<Rightarrow> (world, unit) UnaryHandler" where
  "GuildHandler_DeleteRole e d guildID roleID =
     with_caller (gd_Parse d) (\<lambda>c.
     with_id (gd_Parse d) ''guild_id'' guildID (\<lambda>g.
     with_id (gd_Parse d) ''role_id'' roleID (\<lambda>r ctx w.
       map_error (\<lambda>x. if x = ErrNotGuildOwner \<or> x = ErrInsufficientPermissions
                      then Status PermissionDenied ''only the guild owner can delete roles''
                      else if x = ErrRoleNotFound then Status NotFound ''role not found''
                      else Status Internal ''failed to delete role'')
         (DeleteRole (at e 0) c g r w))))"

definition GuildHandler_AssignRole ::
    "env \<Rightarrow> guild_deps \<Rightarrow> string \<Rightarrow> string \<Rightarrow> string \<Rightarrow> (world, unit) UnaryHandler" where
  "GuildHandler_AssignRole e d guildID userID roleID =
     with_caller (gd_Parse d) (\<lambda>c.
     with_id (gd_Parse d) ''guild_id'' guildID (\<lambda>g.
     with_id (gd_Parse d) ''user_id'' userID (\<lambda>t.
     with_id (gd_Parse d) ''role_id'' roleID (\<lambda>r ctx w.
       map_error (\<lambda>x. if x = ErrNotGuildOwner \<or> x = ErrInsufficientPermissions
                      then Status PermissionDenied ''only the guild owner can assign roles''
                      else if x = ErrMemberNotFound then Status NotFound ''member not found''
                      else if x = ErrRoleNotFound then Status NotFound ''role not found''
                      else Status Internal ''failed to assign role'')
         (AssignRole (at e 0) c g t r w)))))"

definition GuildHandler_RemoveRole ::
    "env \<Rightarrow> guild_deps \<Rightarrow> string \<Rightarrow> string \<Rightarrow> string \<Rightarrow> (world, unit) UnaryHandler" where
  "GuildHandler_RemoveRole e d guildID userID roleID =
     with_caller (gd_Parse d) (\<lambda>c.
     with_id (gd_Parse d) ''guild_id'' guildID (\<lambda>g.
     with_id (gd_Parse d) ''user_id'' userID (\<lambda>t.
     with_id (gd_Parse d) ''role_id'' roleID (\<lambda>r ctx w.
       map_error (\<lambda>x. if x = ErrNotGuildOwner
                      then Status PermissionDenied ''only the guild owner can remove roles''
                      else Status Internal ''failed to remove role'')
         (RemoveRole (at e 0) c g t r w)))))"

definition GuildHandler_TransferOwnership ::
    "env \<Rightarrow> guild_deps \<Rightarrow> string \<Rightarrow> string \<Rightarrow> (world, GuildProto) UnaryHandler" where
  "GuildHandler_TransferOwnership e d guildID newOwnerID =
     with_caller (gd_Parse d) (\<lambda>c.
     with_id (gd_Parse d) ''guild_id'' guildID (\<lambda>g.
     with_id (gd_Parse d) ''new_owner_id'' newOwnerID (\<lambda>t ctx w.
       respond (\<lambda>guild w'. toProto e d guild (count_members (at e 1) g w'))
         (map_error (\<lambda>x. if x = ErrGuildNotFound then Status NotFound ''guild not found''
                         else if x = ErrNotGuildOwner
                         then Status PermissionDenied ''only the guild owner can transfer ownership''
                         else if x = ErrMemberNotFound
                         then Status NotFound ''new owner must be a member of the guild''
                         else Status Internal ''failed to transfer ownership'')
           (TransferOwnership (at e 0) c g t w)))))"

section \<open>Permissions\<close>

definition Permission_name :: "(int \<times> string) list" where
  "Permission_name =
    [(0, ''PERMISSION_UNSPECIFIED''),
     (1, ''PERMISSION_VIEW_CHANNELS''),
     (2, ''PERMISSION_SEND_MESSAGES''),
     (3, ''PERMISSION_MANAGE_MESSAGES''),
     (4, ''PERMISSION_MANAGE_CHANNELS''),
     (5, ''PERMISSION_MANAGE_GUILD''),
     (6, ''PERMISSION_KICK_MEMBERS''),
     (7, ''PERMISSION_BAN_MEMBERS''),
     (8, ''PERMISSION_MANAGE_ROLES''),
     (9, ''PERMISSION_MANAGE_INVITES''),
     (10, ''PERMISSION_ADD_REACTIONS''),
     (11, ''PERMISSION_CONNECT''),
     (12, ''PERMISSION_SPEAK''),
     (13, ''PERMISSION_STREAM''),
     (14, ''PERMISSION_MUTE_MEMBERS''),
     (15, ''PERMISSION_DEAFEN_MEMBERS''),
     (16, ''PERMISSION_MENTION_EVERYONE''),
     (17, ''PERMISSION_MANAGE_EMOJIS''),
     (18, ''PERMISSION_MANAGE_WEBHOOKS''),
     (19, ''PERMISSION_ADMINISTRATOR''),
     (20, ''PERMISSION_VIEW_AUDIT_LOG''),
     (21, ''PERMISSION_VIEW_GUILD_INSIGHTS''),
     (22, ''PERMISSION_MANAGE_NICKNAMES''),
     (23, ''PERMISSION_CHANGE_NICKNAME''),
     (24, ''PERMISSION_CREATE_GUILD_EXPRESSIONS''),
     (25, ''PERMISSION_MODERATE_MEMBERS''),
     (26, ''PERMISSION_VIEW_CREATOR_MONETIZATION_ANALYTICS''),
     (27, ''PERMISSION_SEND_TTS_MESSAGES''),
     (28, ''PERMISSION_EMBED_LINKS''),
     (29, ''PERMISSION_ATTACH_FILES''),
     (30, ''PERMISSION_READ_MESSAGE_HISTORY''),
     (31, ''PERMISSION_USE_EXTERNAL_EMOJIS''),
     (32, ''PERMISSION_USE_EXTERNAL_STICKERS''),
     (33, ''PERMISSION_USE_EXTERNAL_SOUNDS''),
     (34, ''PERMISSION_USE_EXTERNAL_APPS''),
     (35, ''PERMISSION_PRIORITY_SPEAKER''),
     (36, ''PERMISSION_MOVE_MEMBERS''),
     (37, ''PERMISSION_USE_VAD''),
     (38, ''PERMISSION_REQUEST_TO_SPEAK''),
     (39, ''PERMISSION_USE_SOUNDBOARD''),
     (40, ''PERMISSION_USE_EMBEDDED_ACTIVITIES''),
     (41, ''PERMISSION_SEND_VOICE_MESSAGES''),
     (42, ''PERMISSION_SEND_POLLS''),
     (43, ''PERMISSION_PIN_MESSAGES''),
     (44, ''PERMISSION_BYPASS_SLOWMODE''),
     (45, ''PERMISSION_CREATE_PUBLIC_THREADS''),
     (46, ''PERMISSION_CREATE_PRIVATE_THREADS''),
     (47, ''PERMISSION_SEND_MESSAGES_IN_THREADS''),
     (48, ''PERMISSION_MANAGE_THREADS''),
     (49, ''PERMISSION_CREATE_EVENTS''),
     (50, ''PERMISSION_MANAGE_EVENTS'')]"

text \<open>String of a protobuf enum: its name, or its number in decimal when it has none.\<close>

definition Permission_String :: "int \<Rightarrow> string" where
  "Permission_String n = (case map_of Permission_name n of Some name \<Rightarrow> name | None \<Rightarrow> Itoa n)"

definition permission_arg :: "int \<Rightarrow> string" where
  "permission_arg n = TrimPrefix (Permission_String n) ''PERMISSION_''"

definition GuildHandler_GrantPermission :: "(world, unit) UnaryHandler" where
  "GuildHandler_GrantPermission ctx w =
     (Inl (Status Unimplemented (''user-scoped guild permissions are no longer supported; use '' @
        ''GrantRolePermission, or SetChannelOverride for per-channel rules'')), w)"

definition GuildHandler_RevokePermission :: "(world, unit) UnaryHandler" where
  "GuildHandler_RevokePermission ctx w =
     (Inl (Status Unimplemented (''user-scoped guild permissions are no longer supported; use '' @
        ''RevokeRolePermission, or DeleteChannelOverride for per-channel rules'')), w)"

definition grant_status :: "guild_deps \<Rightarrow> guild_error \<Rightarrow> status" where
  "grant_status d x =
     (if x = ErrInsufficientPermissions then Status PermissionDenied ''cannot manage roles''
      else if x = ErrRoleNotFound then Status NotFound ''role not found''
      else if x = ErrInvalidPermission then Status InvalidArgument ''unknown permission''
      else Status Internal (gd_text d x))"

definition GuildHandler_GrantRolePermission ::
    "env \<Rightarrow> guild_deps \<Rightarrow> string \<Rightarrow> string \<Rightarrow> int \<Rightarrow> (world, unit) UnaryHandler" where
  "GuildHandler_GrantRolePermission e d guildID roleID permission =
     with_caller (gd_Parse d) (\<lambda>c.
     with_id (gd_Parse d) ''guild_id'' guildID (\<lambda>g.
     with_id (gd_Parse d) ''role_id'' roleID (\<lambda>r ctx w.
       map_error (grant_status d) (GrantRolePermission (at e 0) c g r (permission_arg permission) w))))"

definition GuildHandler_RevokeRolePermission ::
    "env \<Rightarrow> guild_deps \<Rightarrow> string \<Rightarrow> string \<Rightarrow> int \<Rightarrow> (world, unit) UnaryHandler" where
  "GuildHandler_RevokeRolePermission e d guildID roleID permission =
     with_caller (gd_Parse d) (\<lambda>c.
     with_id (gd_Parse d) ''guild_id'' guildID (\<lambda>g.
     with_id (gd_Parse d) ''role_id'' roleID (\<lambda>r ctx w.
       map_error (grant_status d) (RevokeRolePermission (at e 0) c g r (permission_arg permission) w))))"

text \<open>The reverse table of GetUserPermissions, filled in the order of a list of the enum's entries.\<close>

definition nameToEnum :: "string \<rightharpoonup> int" where
  "nameToEnum = reverse_lookup (map (\<lambda>(num, name). (num, TrimPrefix name ''PERMISSION_'')) Permission_name)"

definition GuildHandler_GetUserPermissions ::
    "env \<Rightarrow> guild_deps \<Rightarrow> string \<Rightarrow> string \<Rightarrow> (world, int list) UnaryHandler" where
  "GuildHandler_GetUserPermissions e d userID guildID =
     with_caller_text (\<lambda>_ ctx w.
       respond (\<lambda>names _. List.map_filter nameToEnum names)
         (map_error (\<lambda>x. Status Internal (gd_aztext d x)) (ListGuildPermissions (at e 0) userID guildID w, w)))"

section \<open>Calls\<close>

text \<open>The requests of the service, in the order of its methods, and the answers.\<close>

datatype guild_request =
    CreateGuildRequest string string string
  | GetGuildRequest string
  | UpdateGuildRequest string UpdateGuildParams
  | UploadGuildIconRequest string string string nat
  | UploadGuildBannerRequest string string string nat
  | DeleteGuildRequest string
  | ListUserGuildsRequest
  | PreviewInviteRequest string
  | JoinGuildRequest string
  | LeaveGuildRequest string
  | ListMembersRequest string int string
  | KickMemberRequest string string
  | BanMemberRequest string string string
  | UnbanMemberRequest string string
  | CreateInviteRequest string string int int
  | CreateRoleRequest string string string
  | UpdateRoleRequest string string "string option" "string option" "int option"
  | DeleteRoleRequest string string
  | AssignRoleRequest string string string
  | RemoveRoleRequest string string string
  | TransferOwnershipRequest string string
  | GrantPermissionRequest
  | RevokePermissionRequest
  | GetUserPermissionsRequest string string
  | GrantRolePermissionRequest string string int
  | RevokeRolePermissionRequest string string int

datatype guild_response =
    GuildResponse GuildProto | UploadResponse "string \<times> GuildProto" | GuildsResponse "GuildProto list"
  | JoinResponse JoinGuildResponse | PreviewResponse InvitePreview | MembersResponse "GuildMemberProto list"
  | RoleResponse RoleProto | InviteResponse InviteProto | PermissionsResponse "int list" | EmptyResponse

fun guild_method :: "guild_request \<Rightarrow> string" where
  "guild_method (CreateGuildRequest _ _ _) = ''/guild.v1.GuildService/CreateGuild''"
| "guild_method (GetGuildRequest _) = ''/guild.v1.GuildService/GetGuild''"
| "guild_method (UpdateGuildRequest _ _) = ''/guild.v1.GuildService/UpdateGuild''"
| "guild_method (UploadGuildIconRequest _ _ _ _) = ''/guild.v1.GuildService/UploadGuildIcon''"
| "guild_method (UploadGuildBannerRequest _ _ _ _) = ''/guild.v1.GuildService/UploadGuildBanner''"
| "guild_method (DeleteGuildRequest _) = ''/guild.v1.GuildService/DeleteGuild''"
| "guild_method ListUserGuildsRequest = ''/guild.v1.GuildService/ListUserGuilds''"
| "guild_method (PreviewInviteRequest _) = ''/guild.v1.GuildService/PreviewInvite''"
| "guild_method (JoinGuildRequest _) = ''/guild.v1.GuildService/JoinGuild''"
| "guild_method (LeaveGuildRequest _) = ''/guild.v1.GuildService/LeaveGuild''"
| "guild_method (ListMembersRequest _ _ _) = ''/guild.v1.GuildService/ListMembers''"
| "guild_method (KickMemberRequest _ _) = ''/guild.v1.GuildService/KickMember''"
| "guild_method (BanMemberRequest _ _ _) = ''/guild.v1.GuildService/BanMember''"
| "guild_method (UnbanMemberRequest _ _) = ''/guild.v1.GuildService/UnbanMember''"
| "guild_method (CreateInviteRequest _ _ _ _) = ''/guild.v1.GuildService/CreateInvite''"
| "guild_method (CreateRoleRequest _ _ _) = ''/guild.v1.GuildService/CreateRole''"
| "guild_method (UpdateRoleRequest _ _ _ _ _) = ''/guild.v1.GuildService/UpdateRole''"
| "guild_method (DeleteRoleRequest _ _) = ''/guild.v1.GuildService/DeleteRole''"
| "guild_method (AssignRoleRequest _ _ _) = ''/guild.v1.GuildService/AssignRole''"
| "guild_method (RemoveRoleRequest _ _ _) = ''/guild.v1.GuildService/RemoveRole''"
| "guild_method (TransferOwnershipRequest _ _) = ''/guild.v1.GuildService/TransferOwnership''"
| "guild_method GrantPermissionRequest = ''/guild.v1.GuildService/GrantPermission''"
| "guild_method RevokePermissionRequest = ''/guild.v1.GuildService/RevokePermission''"
| "guild_method (GetUserPermissionsRequest _ _) = ''/guild.v1.GuildService/GetUserPermissions''"
| "guild_method (GrantRolePermissionRequest _ _ _) = ''/guild.v1.GuildService/GrantRolePermission''"
| "guild_method (RevokeRolePermissionRequest _ _ _) = ''/guild.v1.GuildService/RevokeRolePermission''"

fun guild_handler :: "env \<Rightarrow> guild_deps \<Rightarrow> guild_request \<Rightarrow> (world, guild_response) UnaryHandler" where
  "guild_handler e d (CreateGuildRequest name description iconURL) =
     answer GuildResponse (GuildHandler_CreateGuild e d name description iconURL)"
| "guild_handler e d (GetGuildRequest guildID) = answer GuildResponse (GuildHandler_GetGuild e d guildID)"
| "guild_handler e d (UpdateGuildRequest guildID params) =
     answer GuildResponse (GuildHandler_UpdateGuild e d guildID params)"
| "guild_handler e d (UploadGuildIconRequest guildID filename contentType nbytes) =
     answer UploadResponse (GuildHandler_UploadGuildIcon e d guildID filename contentType nbytes)"
| "guild_handler e d (UploadGuildBannerRequest guildID filename contentType nbytes) =
     answer UploadResponse (GuildHandler_UploadGuildBanner e d guildID filename contentType nbytes)"
| "guild_handler e d (DeleteGuildRequest guildID) =
     answer (\<lambda>_. EmptyResponse) (GuildHandler_DeleteGuild e d guildID)"
| "guild_handler e d ListUserGuildsRequest = answer GuildsResponse (GuildHandler_ListUserGuilds e d)"
| "guild_handler e d (PreviewInviteRequest code) =
     answer PreviewResponse (GuildHandler_PreviewInvite e d code)"
| "guild_handler e d (JoinGuildRequest code) = answer JoinResponse (GuildHandler_JoinGuild e d code)"
| "guild_handler e d (LeaveGuildRequest guildID) =
     answer (\<lambda>_. EmptyResponse) (GuildHandler_LeaveGuild e d guildID)"
| "guild_handler e d (ListMembersRequest guildID lim after) =
     answer MembersResponse (GuildHandler_ListMembers e d guildID lim after)"
| "guild_handler e d (KickMemberRequest guildID userID) =
     answer (\<lambda>_. EmptyResponse) (GuildHandler_KickMember e d guildID userID)"
| "guild_handler e d (BanMemberRequest guildID userID reason) =
     answer (\<lambda>_. EmptyResponse) (GuildHandler_BanMember e d guildID userID reason)"
| "guild_handler e d (UnbanMemberRequest guildID userID) =
     answer (\<lambda>_. EmptyResponse) (GuildHandler_UnbanMember e d guildID userID)"
| "guild_handler e d (CreateInviteRequest guildID channelID maxUses maxAgeSeconds) =
     answer InviteResponse (GuildHandler_CreateInvite e d guildID channelID maxUses maxAgeSeconds)"
| "guild_handler e d (CreateRoleRequest guildID name color) =
     answer RoleResponse (GuildHandler_CreateRole e d guildID name color)"
| "guild_handler e d (UpdateRoleRequest guildID roleID name color position) =
     answer RoleResponse (GuildHandler_UpdateRole e d guildID roleID name color position)"
| "guild_handler e d (DeleteRoleRequest guildID roleID) =
     answer (\<lambda>_. EmptyResponse) (GuildHandler_DeleteRole e d guildID roleID)"
| "guild_handler e d (AssignRoleRequest guildID userID roleID) =
     answer (\<lambda>_. EmptyResponse) (GuildHandler_AssignRole e d guildID userID roleID)"
| "guild_handler e d (RemoveRoleRequest guildID userID roleID) =
     answer (\<lambda>_. EmptyResponse) (GuildHandler_RemoveRole e d guildID userID roleID)"
| "guild_handler e d (TransferOwnershipRequest guildID newOwnerID) =
     answer GuildResponse (GuildHandler_TransferOwnership e d guildID newOwnerID)"
| "guild_handler e d GrantPermissionRequest = answer (\<lambda>_. EmptyResponse) GuildHandler_GrantPermission"
| "guild_handler e d RevokePermissionRequest = answer (\<lambda>_. EmptyResponse) GuildHandler_RevokePermission"
| "guild_handler e d (GetUserPermissionsRequest userID guildID) =
     answer PermissionsResponse (GuildHandler_GetUserPermissions e d userID guildID)"
| "guild_handler e d (GrantRolePermissionRequest guildID roleID permission) =
     answer (\<lambda>_. EmptyResponse) (GuildHandler_GrantRolePermission e d guildID roleID permission)"
| "guild_handler e d (RevokeRolePermissionRequest guildID roleID permission) =
     answer (\<lambda>_. EmptyResponse) (GuildHandler_RevokeRolePermission e d guildID roleID permission)"

text \<open>A call as the server runs it: the interceptors around the handler of the method.\<close>

definition guild_serve ::
    "jwt_lib \<Rightarrow> env \<Rightarrow> string \<Rightarrow> string option \<Rightarrow> guild_deps \<Rightarrow> guild_request \<Rightarrow>
     (server, guild_response) UnaryHandler" where
  "guild_serve J e secret violation d req =
     unary_chain J e secret violation (guild_method req) (on_sv_db (guild_handler (at e 2) d req))"

end
