(* ===== verification/GuildApiLaws.thy ===== *)
theory GuildApiLaws
  imports GuildApi
begin

text \<open>
  What a call of the guild service does, from the token of the request to the rows it changes: who
  may change what, the codes of the refusals, and the permission screen.
\<close>

section \<open>Who may change what\<close>

text \<open>
  The right a request needs of its caller, read from the tables before the call. Requests that
  only read, and the two that are no longer supported, give no right to change anything. Joining
  needs a live invite; the instant it is tested at and whether the query for a ban failed are
  those of the call.
\<close>

definition invited :: "env \<Rightarrow> world \<Rightarrow> uuid \<Rightarrow> string \<Rightarrow> bool" where
  "invited e w c code \<longleftrightarrow> list_ex (\<lambda>i. i_code i = code \<and> \<not> i_deleted i \<and>
     invite_refusal (clock e [0, 1]) i = None \<and> (fault e [0, 2] \<or> \<not> is_banned w (i_guild_id i) c)) (invites w)"

definition owned_by :: "world \<Rightarrow> uuid \<Rightarrow> uuid \<Rightarrow> bool" where
  "owned_by w c g = (case live_guild w g of None \<Rightarrow> False | Some x \<Rightarrow> g_owner_id x = c)"

fun may_change :: "env \<Rightarrow> uuid_parser \<Rightarrow> world \<Rightarrow> uuid \<Rightarrow> guild_request \<Rightarrow> bool" where
  "may_change e P w c (CreateGuildRequest _ _ _) = True"
| "may_change e P w c (UpdateGuildRequest g _) = on_id P g (\<lambda>g. permitted w c g ''MANAGE_GUILD'')"
| "may_change e P w c (UploadGuildIconRequest g _ _ _) = on_id P g (\<lambda>g. permitted w c g ''MANAGE_GUILD'')"
| "may_change e P w c (UploadGuildBannerRequest g _ _ _) = on_id P g (\<lambda>g. permitted w c g ''MANAGE_GUILD'')"
| "may_change e P w c (DeleteGuildRequest g) = on_id P g (owned_by w c)"
| "may_change e P w c (JoinGuildRequest code) = invited e w c code"
| "may_change e P w c (LeaveGuildRequest g) = on_id P g (\<lambda>g. is_member w g c \<and> \<not> owned_by w c g)"
| "may_change e P w c (KickMemberRequest g t) =
     on_id P g (\<lambda>g. on_id P t (\<lambda>t. permitted w c g ''KICK_MEMBERS'' \<and> outranks w g c t))"
| "may_change e P w c (BanMemberRequest g t _) =
     on_id P g (\<lambda>g. on_id P t (\<lambda>t. permitted w c g ''BAN_MEMBERS'' \<and> outranks w g c t))"
| "may_change e P w c (UnbanMemberRequest g t) = on_id P g (\<lambda>g. permitted w c g ''BAN_MEMBERS'')"
| "may_change e P w c (CreateInviteRequest g _ _ _) =
     on_id P g (\<lambda>g. is_member w g c \<and> permitted w c g ''MANAGE_INVITES'')"
| "may_change e P w c (CreateRoleRequest g _ _) = on_id P g (\<lambda>g. permitted w c g ''MANAGE_ROLES'')"
| "may_change e P w c (UpdateRoleRequest g _ _ _ _) = on_id P g (\<lambda>g. permitted w c g ''MANAGE_ROLES'')"
| "may_change e P w c (DeleteRoleRequest g _) = on_id P g (\<lambda>g. permitted w c g ''MANAGE_ROLES'')"
| "may_change e P w c (AssignRoleRequest g _ _) = on_id P g (\<lambda>g. permitted w c g ''MANAGE_ROLES'')"
| "may_change e P w c (RemoveRoleRequest g _ _) = on_id P g (\<lambda>g. permitted w c g ''MANAGE_ROLES'')"
| "may_change e P w c (TransferOwnershipRequest g t) =
     on_id P g (\<lambda>g. on_id P t (\<lambda>t. owned_by w c g \<and> is_member w g t))"
| "may_change e P w c (GrantRolePermissionRequest g _ _) = on_id P g (\<lambda>g. permitted w c g ''MANAGE_ROLES'')"
| "may_change e P w c (RevokeRolePermissionRequest g _ _) = on_id P g (\<lambda>g. permitted w c g ''MANAGE_ROLES'')"
| "may_change e P w c _ = False"

lemma owned_by_live [simp]: "live_guild w g = Some x \<Longrightarrow> owned_by w c g \<longleftrightarrow> g_owner_id x = c"
  by (simp add: owned_by_def)

lemma invited_joins: "snd (JoinGuild (at e 0) c code w) \<noteq> w \<Longrightarrow> invited e w c code"
  by (erule JoinGuild_gate) (auto simp: invited_def list_ex_iff)

lemma snd_with_optional_id:
  "snd (with_optional_id P name txt h ctx s) =
     (if txt = [] then snd (h None ctx s) else case P txt of None \<Rightarrow> s | Some x \<Rightarrow> snd (h (Some x) ctx s))"
  by (simp add: with_optional_id_def snd_with_id)

lemmas guild_handler_defs =
  GuildHandler_CreateGuild_def GuildHandler_GetGuild_def GuildHandler_UpdateGuild_def
  GuildHandler_UploadGuildIcon_def GuildHandler_UploadGuildBanner_def GuildHandler_DeleteGuild_def
  GuildHandler_ListUserGuilds_def GuildHandler_PreviewInvite_def GuildHandler_JoinGuild_def
  GuildHandler_LeaveGuild_def GuildHandler_ListMembers_def GuildHandler_KickMember_def
  GuildHandler_BanMember_def GuildHandler_UnbanMember_def GuildHandler_CreateInvite_def
  GuildHandler_CreateRole_def GuildHandler_UpdateRole_def GuildHandler_DeleteRole_def
  GuildHandler_AssignRole_def GuildHandler_RemoveRole_def GuildHandler_TransferOwnership_def
  GuildHandler_GrantPermission_def GuildHandler_RevokePermission_def GuildHandler_GetUserPermissions_def
  GuildHandler_GrantRolePermission_def GuildHandler_RevokeRolePermission_def

lemma owner_gates:
  assumes "codec_ok e" and "\<not> authz_nil e"
  shows "snd (DeleteGuild e c g w) \<noteq> w \<Longrightarrow> owned_by w c g"
    and "snd (TransferOwnership e c g t w) \<noteq> w \<Longrightarrow> owned_by w c g \<and> is_member w g t"
    and "snd (LeaveGuild e c g w) \<noteq> w \<Longrightarrow> is_member w g c \<and> \<not> owned_by w c g"
  using guild_other_gates(4-6) [OF assms] by fastforce+

lemma guild_handler_changed:
  assumes "codec_ok e" and "\<not> authz_nil e" and "snd (guild_handler e d req ctx w) \<noteq> w"
  shows "\<exists>c. gd_Parse d (UserIDFromContext ctx) = Some c \<and> may_change e (gd_Parse d) w c req"
proof -
  have at: "codec_ok (at e 0)" "\<not> authz_nil (at e 0)" using assms(1,2) by simp_all
  show ?thesis
    using assms(3)
    by (cases req; simp add: guild_handler_defs snd_guards snd_with_optional_id Let_def
          split: option.split_asm if_split_asm;
        (elim guild_gates [OF at] guild_other_gates(1-3) [OF at] owner_gates [OF at] invited_joins)?)
qed

lemma guild_methods:
  "guild_method req \<in> set publicMethods \<longleftrightarrow> (\<exists>code. req = PreviewInviteRequest code)"
  "\<not> exempt (guild_method req)"
  by (cases req; simp add: publicMethods_def exempt_def)+

interpretation guild_api: guarded_api guild_method "guild_handler e d"
  "\<lambda>u req w w'. codec_ok e \<longrightarrow> \<not> authz_nil e \<longrightarrow>
     (\<exists>c. gd_Parse d u = Some c \<and> may_change e (gd_Parse d) w c req)" for e d
proof
  show "\<not> exempt (guild_method q)" for q by (rule guild_methods)
  show "snd (guild_handler e d q ctx w) = w" if "guild_method q \<in> set publicMethods" for q ctx w
    using that by (auto simp: guild_methods GuildHandler_PreviewInvite_def)
qed (use guild_handler_changed in blast)

text \<open>
  C6: authorisation end to end. Whatever call of the guild service changes the database or publishes
  an event, failing statements included, carries a token that the library accepts for the server's
  secret, and the tables give the user that token was signed for the right the request needs.
\<close>

theorem guild_calls_authorised:
  assumes "codec_ok e" and "\<not> authz_nil e"
    and "sv_db (snd (guild_serve J e secret violation d req ctx s)) \<noteq> sv_db s"
  shows "\<exists>u c. extractUserID J (clock e [1]) secret ctx = Inr u \<and> gd_Parse d u = Some c \<and>
    may_change (at e 2) (gd_Parse d) (sv_db s) c req"
  using guild_api.served_allowed [of J e secret violation req "at e 2" d ctx s] assms
  by (auto simp: guild_serve_def)

text \<open>Handlers whose texts and stores are the simplest; every text denotes user 5.\<close>

definition plain_guild_deps :: guild_deps where
  "plain_guild_deps = \<lparr>gd_Parse = (\<lambda>_. Some 5), gd_text = (\<lambda>_. []), gd_aztext = (\<lambda>_. []),
     gd_storage = \<lparr>gs_minio = False, gs_put = (\<lambda>_. False), gs_signer = None\<rparr>,
     gd_inviteBaseURL = [], gd_random = None\<rparr>"

lemma create_publishes:
  assumes "fault_free e"
  shows "outbox (snd (CreateGuild e 5 ''home'' [] [] lone_world)) \<noteq> outbox lone_world"
  using assms
  by (simp add: CreateGuild_def q_CreateGuild_def q_AddGuildMember_def lone_world_def empty_world_def
      user_row_def guild_row_def one_user_def Let_def publishGuildEvent_def outbox_Publish)

lemma create_call_runs:
  "sv_db (snd (guild_serve plain_jwt (text_env (\<lambda>_. 9) (\<lambda>_. 5)) ''k'' None plain_guild_deps
     (CreateGuildRequest ''home'' [] []) (call_ctx (token_for ''u1'')) lone_server)) \<noteq> sv_db lone_server"
  using create_publishes [of "at (at (text_env (\<lambda>_. 9) (\<lambda>_. 5)) 2) 0"]
  by (auto simp: guild_serve_def lone_call publicMethods_def exempt_def GuildHandler_CreateGuild_def
      snd_with_caller UserIDFromContext_def plain_guild_deps_def)

theorem guild_calls_authorised_witness:
  "\<exists>u c. extractUserID plain_jwt 5 ''k'' (call_ctx (token_for ''u1'')) = Inr u \<and> gd_Parse plain_guild_deps u = Some c \<and>
     may_change (at (text_env (\<lambda>_. 9) (\<lambda>_. 5)) 2) (gd_Parse plain_guild_deps) (sv_db lone_server) c
       (CreateGuildRequest ''home'' [] [])"
  using guild_calls_authorised [OF _ _ create_call_runs] by simp

section \<open>The codes of refusals\<close>

text \<open>
  The code a caller without the right gets: some handlers name the error of the service that a
  failed test gives, others do not and let it fall into their default.
\<close>

fun refusal_code :: "guild_request \<Rightarrow> Code option" where
  "refusal_code (UploadGuildIconRequest _ _ _ _) = Some PermissionDenied"
| "refusal_code (UploadGuildBannerRequest _ _ _ _) = Some PermissionDenied"
| "refusal_code (KickMemberRequest _ _) = Some PermissionDenied"
| "refusal_code (BanMemberRequest _ _ _) = Some PermissionDenied"
| "refusal_code (UnbanMemberRequest _ _) = Some PermissionDenied"
| "refusal_code (DeleteRoleRequest _ _) = Some PermissionDenied"
| "refusal_code (AssignRoleRequest _ _ _) = Some PermissionDenied"
| "refusal_code (GrantRolePermissionRequest _ _ _) = Some PermissionDenied"
| "refusal_code (RevokeRolePermissionRequest _ _ _) = Some PermissionDenied"
| "refusal_code (UpdateGuildRequest _ _) = Some Internal"
| "refusal_code (CreateRoleRequest _ _ _) = Some Internal"
| "refusal_code (UpdateRoleRequest _ _ _ _ _) = Some Internal"
| "refusal_code (RemoveRoleRequest _ _ _) = Some Internal"
| "refusal_code _ = None"

text \<open>The identifiers of these requests.\<close>

fun request_ids :: "guild_request \<Rightarrow> string list" where
  "request_ids (UploadGuildIconRequest g _ _ _) = [g]"
| "request_ids (UploadGuildBannerRequest g _ _ _) = [g]"
| "request_ids (KickMemberRequest g t) = [g, t]"
| "request_ids (BanMemberRequest g t _) = [g, t]"
| "request_ids (UnbanMemberRequest g t) = [g, t]"
| "request_ids (DeleteRoleRequest g r) = [g, r]"
| "request_ids (AssignRoleRequest g t r) = [g, t, r]"
| "request_ids (GrantRolePermissionRequest g r _) = [g, r]"
| "request_ids (RevokeRolePermissionRequest g r _) = [g, r]"
| "request_ids (UpdateGuildRequest g _) = [g]"
| "request_ids (CreateRoleRequest g _ _) = [g]"
| "request_ids (UpdateRoleRequest g r _ _ _) = [g, r]"
| "request_ids (RemoveRoleRequest g t r) = [g, t, r]"
| "request_ids _ = []"

lemma guild_refused:
  assumes "codec_ok e" and "\<not> authz_nil e"
  shows "\<not> permitted w c g ''MANAGE_GUILD'' \<Longrightarrow> UpdateGuild e c g ps w = (Inl ErrInsufficientPermissions, w)"
    and "\<not> permitted w c g ''MANAGE_GUILD'' \<Longrightarrow> gs_minio st \<Longrightarrow>
      UploadGuildIcon e st c g fname ctype n w = (Inl ErrInsufficientPermissions, w)"
    and "\<not> permitted w c g ''MANAGE_GUILD'' \<Longrightarrow> gs_minio st \<Longrightarrow>
      UploadGuildBanner e st c g fname ctype n w = (Inl ErrInsufficientPermissions, w)"
    and "\<not> (permitted w c g ''KICK_MEMBERS'' \<and> outranks w g c t) \<Longrightarrow>
      KickMember e c g t w = (Inl ErrInsufficientPermissions, w)"
    and "\<not> (permitted w c g ''BAN_MEMBERS'' \<and> outranks w g c t) \<Longrightarrow>
      BanMember e c g t reason w = (Inl ErrInsufficientPermissions, w)"
    and "\<not> permitted w c g ''BAN_MEMBERS'' \<Longrightarrow> UnbanMember e c g t w = (Inl ErrInsufficientPermissions, w)"
    and "\<not> permitted w c g ''MANAGE_ROLES'' \<Longrightarrow> CreateRole e c g name col w = (Inl ErrInsufficientPermissions, w)"
    and "\<not> permitted w c g ''MANAGE_ROLES'' \<Longrightarrow> UpdateRole e c g rps w = (Inl ErrInsufficientPermissions, w)"
    and "\<not> permitted w c g ''MANAGE_ROLES'' \<Longrightarrow> DeleteRole e c g r w = (Inl ErrInsufficientPermissions, w)"
    and "\<not> permitted w c g ''MANAGE_ROLES'' \<Longrightarrow> AssignRole e c g t r w = (Inl ErrInsufficientPermissions, w)"
    and "\<not> permitted w c g ''MANAGE_ROLES'' \<Longrightarrow> RemoveRole e c g t r w = (Inl ErrInsufficientPermissions, w)"
    and "\<not> permitted w c g ''MANAGE_ROLES'' \<Longrightarrow>
      GrantRolePermission e c g r perm w = (Inl ErrInsufficientPermissions, w)"
    and "\<not> permitted w c g ''MANAGE_ROLES'' \<Longrightarrow>
      RevokeRolePermission e c g r perm w = (Inl ErrInsufficientPermissions, w)"
  using guild_tests_at [OF assms]
  by (auto simp: UploadGuildIcon_def UploadGuildBanner_def
      intro!: update_guild.refused kick.refused ban.refused unban.refused create_role.refused
        update_role.refused delete_role.refused assign_role.refused remove_role.refused grant.refused
        revoke.refused)

text \<open>
  C29: a caller whom the tables deny the right a moderation or role request needs gets a fixed code and
  changes nothing, whatever statements fail: PermissionDenied from most handlers, but Internal from
  UpdateGuild, CreateRole, UpdateRole and RemoveRole, which test for ErrNotGuildOwner, an error the
  service does not return there.
\<close>

theorem guild_refusal_codes:
  assumes "codec_ok e" and "\<not> authz_nil e" and "gs_minio (gd_storage d)"
    and "UserIDFromContext ctx \<noteq> []" and "gd_Parse d (UserIDFromContext ctx) = Some c"
    and "list_all (\<lambda>txt. gd_Parse d txt \<noteq> None) (request_ids req)"
    and "refusal_code req = Some code" and "\<not> may_change e (gd_Parse d) w c req"
  shows "\<exists>msg. guild_handler e d req ctx w = (Inl (Status code msg), w)"
proof -
  have at: "codec_ok (at e 0)" "\<not> authz_nil (at e 0)" using assms(1,2) by simp_all
  note defs = guild_handler_defs with_caller_def with_caller_text_def answer_def upload_status_def grant_status_def
  show ?thesis
    using assms(3-)
    by (cases req; simp; (elim exE conjE)?; simp add: defs guild_refused [OF at])
qed

theorem guild_refusal_codes_witness:
  "(\<exists>msg. guild_handler (text_env (\<lambda>_. 9) (\<lambda>_. 5))
      (plain_guild_deps\<lparr>gd_storage := \<lparr>gs_minio = True, gs_put = (\<lambda>_. False), gs_signer = None\<rparr>\<rparr>)
      (CreateRoleRequest [] [] []) ((call_ctx (token_for ''u1''))\<lparr>UserIDKey := Some ''u1''\<rparr>) lone_world =
      (Inl (Status Internal msg), lone_world)) \<and>
   (\<exists>msg. guild_handler (text_env (\<lambda>_. 9) (\<lambda>_. 5))
      (plain_guild_deps\<lparr>gd_storage := \<lparr>gs_minio = True, gs_put = (\<lambda>_. False), gs_signer = None\<rparr>\<rparr>)
      (DeleteRoleRequest [] []) ((call_ctx (token_for ''u1''))\<lparr>UserIDKey := Some ''u1''\<rparr>) lone_world =
      (Inl (Status PermissionDenied msg), lone_world))"
proof -
  let ?e = "text_env (\<lambda>_. 9) (\<lambda>_. 5)"
  let ?d = "plain_guild_deps\<lparr>gd_storage := \<lparr>gs_minio = True, gs_put = (\<lambda>_. False), gs_signer = None\<rparr>\<rparr>"
  let ?ctx = "(call_ctx (token_for ''u1''))\<lparr>UserIDKey := Some ''u1''\<rparr>"
  have "\<not> permitted lone_world 5 5 ''MANAGE_ROLES''"
    by (simp add: permitted_def owns_guild_def role_names_def lone_world_def empty_world_def)
  then have "\<not> may_change ?e (gd_Parse ?d) lone_world 5 (CreateRoleRequest [] [] [])"
      "\<not> may_change ?e (gd_Parse ?d) lone_world 5 (DeleteRoleRequest [] [])"
    by (simp_all add: plain_guild_deps_def)
  then show ?thesis
    by (intro conjI guild_refusal_codes [where c = 5])
      (simp_all add: UserIDFromContext_def plain_guild_deps_def)
qed

section \<open>The preview of an invite\<close>

lemma ctx_md [simp]:
  "UserIDFromContext (ctx\<lparr>incoming_md := m\<rparr>) = UserIDFromContext ctx" "peerIP (ctx\<lparr>incoming_md := m\<rparr>) = peerIP ctx"
  by (simp_all add: UserIDFromContext_def peerIP_def)

lemma resolveRateLimit_md [simp]: "resolveRateLimit (ctx\<lparr>incoming_md := m\<rparr>) rpc = resolveRateLimit ctx rpc"
  by (simp add: resolveRateLimit_def split: option.split)

lemma limited_md [simp]: "limited e rpc (ctx\<lparr>incoming_md := m\<rparr>) s = limited e rpc ctx s"
  by (simp add: limited_def)

lemma preview_md:
  "GuildHandler_PreviewInvite e d code (ctx\<lparr>incoming_md := m\<rparr>) w = GuildHandler_PreviewInvite e d code ctx w"
  by (simp add: GuildHandler_PreviewInvite_def preview_caller_def)

lemma preview_unknown:
  assumes "UserIDKey ctx = None"
  shows "fst (guild_handler e d (PreviewInviteRequest code) ctx w) \<noteq> Inl (Status PermissionDenied msg)"
    and "fst (guild_handler e d (PreviewInviteRequest code) ctx w) = Inr (PreviewResponse p) \<Longrightarrow> \<not> ipv_AlreadyMember p"
proof -
  have none: "preview_caller d ctx = None" using assms by (simp add: preview_caller_def UserIDFromContext_def)
  have "PreviewInvite e' None code w \<noteq> Inl ErrUserBanned" for e'
    by (auto simp: PreviewInvite_def invite_refusal_def split: sum.splits option.splits if_splits)
  then show "fst (guild_handler e d (PreviewInviteRequest code) ctx w) \<noteq> Inl (Status PermissionDenied msg)"
    by (auto simp: answer_def fst_respond fst_map_error GuildHandler_PreviewInvite_def none preview_status_def
        split: if_splits)
  have "PreviewInvite e' None code w = Inr res \<Longrightarrow> \<not> pv_AlreadyMember res" for e' res
    by (auto simp: PreviewInvite_def split: sum.splits option.splits if_splits)
  then show "fst (guild_handler e d (PreviewInviteRequest code) ctx w) = Inr (PreviewResponse p) \<Longrightarrow> \<not> ipv_AlreadyMember p"
    by (auto simp: answer_def fst_respond fst_map_error GuildHandler_PreviewInvite_def none)
qed

lemma preview_chain:
  "\<exists>b st. st_code st \<noteq> PermissionDenied \<and>
     (\<forall>m. fst (guild_serve J e secret violation d (PreviewInviteRequest code) (ctx\<lparr>incoming_md := m\<rparr>) s) =
        (if b then fst (guild_handler (at e 2) d (PreviewInviteRequest code) ctx (sv_db s)) else Inl st))"
proof -
  note chain = guild_serve_def unary_chain_def LoggingInterceptor_def RateLimitInterceptor_cases
    AuthInterceptor_def ValidationInterceptor_def publicMethods_def answer_def preview_md
  obtain b s' where lim: "limited (at e 0) ''/guild.v1.GuildService/PreviewInvite'' ctx s = (b, s')"
    by (cases "limited (at e 0) ''/guild.v1.GuildService/PreviewInvite'' ctx s")
  then have db: "sv_db s' = sv_db s" by simp
  show ?thesis
  proof (cases b)
    case False
    show ?thesis
      by (intro exI [of _ False] exI [of _ "Status ResourceExhausted _"]) (simp add: chain lim False)
  next
    case True
    show ?thesis
    proof (cases violation)
      case None
      show ?thesis
        by (intro exI [of _ True] exI [of _ "Status Internal []"]) (simp add: chain lim True None db)
    next
      case (Some m)
      show ?thesis
        by (intro exI [of _ False] exI [of _ "Status InvalidArgument m"]) (simp add: chain lim True Some)
    qed
  qed
qed

text \<open>
  PreviewInvite is a public method, so the interceptor that would name the caller lets the call
  pass: on a context that arrives without a user the answer is the same whatever token the request
  carries, no preview says that the caller is already a member, and no caller is refused as banned.
\<close>

theorem PreviewInvite_anonymous:
  assumes "UserIDKey ctx = None"
  shows "let answer = (\<lambda>md. fst (guild_serve J e secret violation d (PreviewInviteRequest code) (ctx\<lparr>incoming_md := md\<rparr>) s))
    in answer md = answer md' \<and> answer md \<noteq> Inl (Status PermissionDenied msg) \<and>
       (answer md = Inr (PreviewResponse p) \<longrightarrow> \<not> ipv_AlreadyMember p)"
proof -
  obtain b st where "st_code st \<noteq> PermissionDenied" and
    run: "fst (guild_serve J e secret violation d (PreviewInviteRequest code) (ctx\<lparr>incoming_md := m\<rparr>) s) =
      (if b then fst (guild_handler (at e 2) d (PreviewInviteRequest code) ctx (sv_db s)) else Inl st)" for m
    using preview_chain [of J e secret violation d code ctx s] by blast
  then show ?thesis
    using preview_unknown [OF assms, of "at e 2" d code "sv_db s"] by (auto simp only: Let_def run status.sel split: if_splits)
qed

theorem PreviewInvite_anonymous_witness:
  "let answer = (\<lambda>md. fst (guild_serve plain_jwt (text_env (\<lambda>_. 9) (\<lambda>_. 5)) ''k'' None plain_guild_deps
        (PreviewInviteRequest ''c'') ((call_ctx (token_for ''u1''))\<lparr>incoming_md := md\<rparr>) lone_server))
    in answer None = answer (incoming_md (call_ctx (token_for ''u1''))) \<and> answer None \<noteq> Inl (Status PermissionDenied msg) \<and>
       (answer None = Inr (PreviewResponse p) \<longrightarrow> \<not> ipv_AlreadyMember p)"
  by (rule PreviewInvite_anonymous) (simp add: call_ctx_def)

section \<open>The permission screen\<close>

definition enum_names :: "(int \<times> string) list" where
  "enum_names = map (\<lambda>(num, name). (num, TrimPrefix name ''PERMISSION_'')) Permission_name"

lemma enum_distinct: "distinct (map snd enum_names)" "map fst enum_names = [0..50]"
  unfolding enum_names_def Permission_name_def by code_simp+

lemma enum_catalogue: "list_all (\<lambda>(num, name). num = 0 \<or> name \<in> fst ` set PermissionRelation) enum_names"
  unfolding enum_names_def Permission_name_def PermissionRelation_def by code_simp

lemma nameToEnum_Some: "nameToEnum name = Some num \<longleftrightarrow> (num, name) \<in> set enum_names"
  unfolding nameToEnum_def enum_names_def [symmetric] by (rule reverse_lookup_Some [OF enum_distinct(1)])

lemma permission_arg_enum:
  assumes "(num, name) \<in> set enum_names"
  shows "permission_arg num = name"
proof -
  obtain full where full: "(num, full) \<in> set Permission_name" "name = TrimPrefix full ''PERMISSION_''"
    using assms by (auto simp: enum_names_def)
  have "map fst Permission_name = map fst enum_names" by (simp add: enum_names_def comp_def case_prod_beta)
  then have "distinct (map fst Permission_name)" by (simp add: enum_distinct(2))
  with full(1) have "map_of Permission_name num = Some full" by simp
  with full(2) show ?thesis by (simp add: permission_arg_def Permission_String_def)
qed

lemma permission_arg_catalogued:
  assumes "1 \<le> num" and "num \<le> 50"
  shows "(num, permission_arg num) \<in> set enum_names" and "permission_arg num \<in> fst ` set PermissionRelation"
proof -
  have "num \<in> fst ` set enum_names" using assms enum_distinct(2) by (metis atLeastAtMost_iff list.set_map set_upto order_trans zero_le_one)
  then obtain name where name: "(num, name) \<in> set enum_names" by auto
  with permission_arg_enum [OF name] show "(num, permission_arg num) \<in> set enum_names" by simp
  with enum_catalogue assms(1) show "permission_arg num \<in> fst ` set PermissionRelation" by (auto simp: list_all_iff)
qed

text \<open>
  C32: the permission screen of the API. With the catalogue seeded and no failing statement,
  GetUserPermissions answers, and an enum value from 1 to 50 is in the answer exactly when the
  tables permit the user that permission: the number a client sends to GrantRolePermission is the
  number it reads back.
\<close>

theorem GetUserPermissions_agrees:
  assumes "codec_ok e" and "fault_free e" and "\<not> authz_nil e" and "UserIDFromContext ctx \<noteq> []"
    and "fst ` set PermissionRelation \<subseteq> p_name ` set (permissions w)"
  shows "\<exists>perms. GuildHandler_GetUserPermissions e d (uuid_string e u) (uuid_string e g) ctx w = (Inr perms, w) \<and>
    (\<forall>num\<in>{1..50}. num \<in> set perms \<longleftrightarrow> permitted w u g (permission_arg num))"
proof -
  have at: "codec_ok (at e 0)" "fault_free (at e 0)" "\<not> authz_nil (at e 0)" using assms(1-3) by simp_all
  from ListGuildPermissions_agrees [OF at assms(5), of u g] obtain names where
    names: "ListGuildPermissions (at e 0) (uuid_string e u) (uuid_string e g) w = Inr names"
      "\<forall>name rel. (name, rel) \<in> set PermissionRelation \<longrightarrow>
        (name \<in> set names \<longleftrightarrow> CanGuildPermission (at e 0) (uuid_string e u) (uuid_string e g) rel w)"
    by auto
  have "num \<in> set (List.map_filter nameToEnum names) \<longleftrightarrow> permitted w u g (permission_arg num)"
    if "num \<in> {1..50}" for num
  proof -
    have rng: "1 \<le> num" "num \<le> 50" using that by auto
    obtain rel where rel: "(permission_arg num, rel) \<in> set PermissionRelation"
      using permission_arg_catalogued(2) [OF rng] by auto
    have "num \<in> set (List.map_filter nameToEnum names) \<longleftrightarrow> (\<exists>n\<in>set names. nameToEnum n = Some num)"
      by (auto simp: map_filter_def image_iff)
    also have "\<dots> \<longleftrightarrow> permission_arg num \<in> set names"
      using permission_arg_catalogued(1) [OF rng] permission_arg_enum [of num] unfolding nameToEnum_Some by blast
    also have "\<dots> \<longleftrightarrow> permitted w u g (permission_arg num)"
      using names(2) rel assms(1-3) relationToName_Some [of rel "permission_arg num"]
      by (auto simp: CanGuildPermission_def Check_keys)
    finally show ?thesis .
  qed
  then show ?thesis
    using assms(4) names(1)
    by (simp add: GuildHandler_GetUserPermissions_def with_caller_text_def map_error_def respond_def)
qed

theorem GetUserPermissions_agrees_witness:
  "\<exists>perms. GuildHandler_GetUserPermissions (text_env (\<lambda>_. 0) (\<lambda>_. 0)) plain_guild_deps (uuid_text 1) (uuid_text 2)
       ((call_ctx (token_for ''u1''))\<lparr>UserIDKey := Some ''u1''\<rparr>) (empty_world\<lparr>permissions := catalogue_rows\<rparr>) =
       (Inr perms, empty_world\<lparr>permissions := catalogue_rows\<rparr>) \<and>
     (\<forall>num\<in>{1..50}. num \<in> set perms \<longleftrightarrow>
        permitted (empty_world\<lparr>permissions := catalogue_rows\<rparr>) 1 2 (permission_arg num))"
proof -
  have "uuid_string (text_env (\<lambda>_. 0) (\<lambda>_. 0)) = uuid_text" by (simp add: text_env_def)
  with GetUserPermissions_agrees [of "text_env (\<lambda>_. 0) (\<lambda>_. 0)" "(call_ctx (token_for ''u1''))\<lparr>UserIDKey := Some ''u1''\<rparr>"
      "empty_world\<lparr>permissions := catalogue_rows\<rparr>" plain_guild_deps 1 2] catalogue_seeded
  show ?thesis by (simp add: UserIDFromContext_def)
qed

end
