(* ===== verification/UserApi.thy ===== *)
theory UserApi
  imports Api FriendLaws
begin

text \<open>
  The gRPC surface of the user service, internal/features/user/handler.go, and the search of users,
  which only its handler calls. The timestamps of the messages are left out.
\<close>

section \<open>The search\<close>

text \<open>
  LIKE of Postgres on texts of single-byte characters: a percent sign stands for any text, an
  underscore for any character, a backslash takes the next character literally. ILIKE compares
  characters after folding their case; the fold and the sort key of the collation are those of the
  database.
\<close>

function like :: "(char \<Rightarrow> char) \<Rightarrow> string \<Rightarrow> string \<Rightarrow> bool" where
  "like fd [] s = (s = [])"
| "like fd (p # ps) s =
     (if p = CHR ''%'' then like fd ps s \<or> (case s of [] \<Rightarrow> False | _ # s' \<Rightarrow> like fd (p # ps) s')
      else if p = CHR 0x5C then
        (case ps of [] \<Rightarrow> False
         | q # qs \<Rightarrow> (case s of [] \<Rightarrow> False | c # s' \<Rightarrow> fd c = fd q \<and> like fd qs s'))
      else (case s of [] \<Rightarrow> False | c # s' \<Rightarrow> (p = CHR ''_'' \<or> fd c = fd p) \<and> like fd ps s'))"
  by pat_completeness auto
termination
  by (relation "measure (\<lambda>(fd, ps, s). length ps + length s)") auto

record user_api_deps =
  ua_Parse :: uuid_parser
  ua_svc :: user_deps
  ua_blockChecker :: bool
  ua_text :: "user_error \<Rightarrow> string"
  ua_random :: "nat \<Rightarrow> nat"
  ua_fold :: "char \<Rightarrow> char"
  ua_collate :: "string \<Rightarrow> string"

definition search_matches :: "user_api_deps \<Rightarrow> string \<Rightarrow> world \<Rightarrow> User list" where
  "search_matches d query w =
     filter (\<lambda>u. like (ua_fold d) (''%'' @ query @ ''%'') (u_username u) \<and> \<not> u_deleted u) (users w)"

definition search_results :: "user_api_deps \<Rightarrow> string \<Rightarrow> world \<Rightarrow> User list" where
  "search_results d query w = sort_key (\<lambda>u. ua_collate d (u_username u)) (search_matches d query w)"

definition q_CountSearchUsers :: "env \<Rightarrow> user_api_deps \<Rightarrow> string \<Rightarrow> world \<Rightarrow> dberr + nat" where
  "q_CountSearchUsers e d query w = run_stmt e (Inr (length (search_matches d query w)))"

definition q_SearchUsers ::
    "env \<Rightarrow> user_api_deps \<Rightarrow> string \<Rightarrow> int \<Rightarrow> int \<Rightarrow> world \<Rightarrow> dberr + User list" where
  "q_SearchUsers e d query lim offset w =
     run_stmt e
       (if lim < 0 \<or> offset < 0 then Inl DbFault
        else Inr (take (nat lim) (drop (nat offset) (search_results d query w))))"

definition SearchUsers ::
    "env \<Rightarrow> user_api_deps \<Rightarrow> string \<Rightarrow> int \<Rightarrow> int \<Rightarrow> world \<Rightarrow> user_error + (User list \<times> nat)" where
  "SearchUsers e d query lim offset w =
     (case q_CountSearchUsers (at e 0) d query w of
        Inl x \<Rightarrow> Inl (UsFailed ''failed to count search results'' x)
      | Inr cnt \<Rightarrow>
          (case q_SearchUsers (at e 1) d query lim offset w of
             Inl x \<Rightarrow> Inl (UsFailed ''failed to search users'' x)
           | Inr us \<Rightarrow>
               Inr (map (\<lambda>u. u\<lparr>u_avatar_url := ResolveAvatarURL (ua_svc d) (u_avatar_url u)\<rparr>) us, cnt)))"

section \<open>Messages\<close>

record UserProto =
  up_Id :: string
  up_Username :: string
  up_DisplayName :: string
  up_Email :: string
  up_AvatarUrl :: string
  up_Bio :: string
  up_Status :: string
  up_BackgroundColor :: string

datatype FriendshipStatus =
    FRIENDSHIP_STATUS_UNSPECIFIED | FRIENDSHIP_STATUS_PENDING | FRIENDSHIP_STATUS_ACCEPTED
  | FRIENDSHIP_STATUS_BLOCKED

record FriendshipProto =
  fp_UserId :: string
  fp_FriendId :: string
  fp_Status :: FriendshipStatus
  fp_Username :: string
  fp_AvatarUrl :: string

definition dbUserToProto :: "env \<Rightarrow> User \<Rightarrow> UserProto" where
  "dbUserToProto e u =
     \<lparr>up_Id = uuid_string e (u_id u), up_Username = u_username u, up_DisplayName = u_display_name u,
      up_Email = u_email u, up_AvatarUrl = u_avatar_url u, up_Bio = u_bio u, up_Status = u_status u,
      up_BackgroundColor = u_background_color u\<rparr>"

definition userToProto :: "env \<Rightarrow> user_api_deps \<Rightarrow> User \<Rightarrow> UserProto" where
  "userToProto e d u =
     (dbUserToProto e u)\<lparr>up_AvatarUrl := ResolveAvatarURL (ua_svc d) (u_avatar_url u)\<rparr>"

definition friendship_status :: "string \<Rightarrow> FriendshipStatus" where
  "friendship_status s =
     (if s = ''pending'' then FRIENDSHIP_STATUS_PENDING
      else if s = ''accepted'' then FRIENDSHIP_STATUS_ACCEPTED
      else if s = ''blocked'' then FRIENDSHIP_STATUS_BLOCKED
      else FRIENDSHIP_STATUS_UNSPECIFIED)"

definition statusUpdate :: "FriendshipProto \<Rightarrow> Friendship \<Rightarrow> FriendshipProto" where
  "statusUpdate pf f = pf\<lparr>fp_Status := friendship_status (f_status f)\<rparr>"

definition dbFriendshipToProto :: "env \<Rightarrow> Friendship \<Rightarrow> FriendshipProto" where
  "dbFriendshipToProto e f =
     \<lparr>fp_UserId = uuid_string e (f_user_id f), fp_FriendId = uuid_string e (f_friend_id f),
      fp_Status = friendship_status (f_status f), fp_Username = [], fp_AvatarUrl = []\<rparr>"

definition pendingToProto :: "env \<Rightarrow> user_api_deps \<Rightarrow> Friendship \<times> User \<Rightarrow> FriendshipProto" where
  "pendingToProto e d fu =
     statusUpdate \<lparr>fp_UserId = uuid_string e (f_user_id (fst fu)), fp_FriendId = uuid_string e (f_friend_id (fst fu)),
        fp_Status = FRIENDSHIP_STATUS_UNSPECIFIED, fp_Username = u_username (snd fu),
        fp_AvatarUrl = GetBaseURl (ua_svc d) (u_avatar_url (snd fu))\<rparr> (fst fu)"

section \<open>Profiles\<close>

text \<open>The caller does not see a profile between whose owner and the caller there is a block.\<close>

definition hidden_from :: "env \<Rightarrow> user_api_deps \<Rightarrow> string \<Rightarrow> string \<Rightarrow> world \<Rightarrow> bool" where
  "hidden_from e d targetID callerID w \<longleftrightarrow>
     callerID \<noteq> [] \<and> callerID \<noteq> targetID \<and> ua_blockChecker d \<and> IsBlocked e targetID callerID w"

definition user_status :: "string \<Rightarrow> user_error \<Rightarrow> status" where
  "user_status msg x =
     (if x = ErrUserNotFound then Status NotFound ''user not found'' else Status Internal msg)"

definition UserHandler_GetUser :: "env \<Rightarrow> user_api_deps \<Rightarrow> string \<Rightarrow> (world, UserProto) UnaryHandler" where
  "UserHandler_GetUser e d userID =
     with_id (ua_Parse d) ''user_id'' userID (\<lambda>uid ctx w.
       if hidden_from (at e 0) d userID (UserIDFromContext ctx) w
       then (Inl (Status NotFound ''user not found''), w)
       else respond (\<lambda>u _. userToProto e d u)
         (map_error (user_status ''failed to get user'') (GetUser (at e 1) (ua_svc d) uid w, w)))"

definition UserHandler_GetUserByUsername :: "env \<Rightarrow> user_api_deps \<Rightarrow> string \<Rightarrow> (world, UserProto) UnaryHandler" where
  "UserHandler_GetUserByUsername e d name ctx w =
     (case GetUserByUsername (at e 0) (ua_svc d) name w of
        Inl x \<Rightarrow> (Inl (user_status ''failed to get user'' x), w)
      | Inr u \<Rightarrow>
          if hidden_from (at e 1) d (uuid_string e (u_id u)) (UserIDFromContext ctx) w
          then (Inl (Status NotFound ''user not found''), w)
          else (Inr (userToProto e d u), w))"

definition UserHandler_SearchUsers ::
    "env \<Rightarrow> user_api_deps \<Rightarrow> string \<Rightarrow> int \<Rightarrow> int \<Rightarrow> (world, UserProto list \<times> int) UnaryHandler" where
  "UserHandler_SearchUsers e d query lim offset ctx w =
     respond (\<lambda>(us, cnt) _. (map (userToProto e d) us, int32 (int cnt)))
       (map_error (\<lambda>_. Status Internal ''failed to search users'')
         (SearchUsers (at e 0) d query (if lim = 0 then 20 else lim) offset w, w))"

text \<open>The request cannot set the username.\<close>

definition UserHandler_UpdateUser ::
    "env \<Rightarrow> user_api_deps \<Rightarrow> string option \<Rightarrow> string option \<Rightarrow> string option \<Rightarrow> string option \<Rightarrow> string option \<Rightarrow>
     (world, UserProto) UnaryHandler" where
  "UserHandler_UpdateUser e d displayName avatarURL bio newStatus background =
     with_caller (ua_Parse d) (\<lambda>c ctx w.
       respond (\<lambda>u _. userToProto e d u)
         (map_error (\<lambda>_. Status Internal ''failed to update user'')
           (UpdateUser (at e 0) (ua_svc d)
              \<lparr>uu_ID = c, uu_Username = None, uu_DisplayName = displayName, uu_AvatarUrl = avatarURL,
               uu_Bio = bio, uu_Status = newStatus, uu_BackgroundColor = background\<rparr> w)))"

definition UserHandler_UpdateUsername :: "env \<Rightarrow> user_api_deps \<Rightarrow> string \<Rightarrow> (world, UserProto) UnaryHandler" where
  "UserHandler_UpdateUsername e d name =
     with_caller (ua_Parse d) (\<lambda>c ctx w.
       respond (\<lambda>u _. userToProto e d u)
         (map_error (\<lambda>x. if x = ErrUsernameAlreadySet then Status FailedPrecondition ''username is already set''
                         else user_status ''failed to update username'' x)
           (UpdateUsername (at e 0) (ua_svc d) (ua_random d) c name w)))"

definition UserHandler_UpdateStatus :: "env \<Rightarrow> user_api_deps \<Rightarrow> string \<Rightarrow> (world, UserProto) UnaryHandler" where
  "UserHandler_UpdateStatus e d newStatus =
     with_caller (ua_Parse d) (\<lambda>c ctx w.
       respond (\<lambda>u _. userToProto e d u)
         (map_error (\<lambda>_. Status Internal ''failed to update status'')
           (UpdateStatus (at e 0) (ua_svc d) c newStatus w)))"

definition UserHandler_UploadUserAvatar ::
    "env \<Rightarrow> user_api_deps \<Rightarrow> string \<Rightarrow> string \<Rightarrow> nat \<Rightarrow> (world, string \<times> UserProto) UnaryHandler" where
  "UserHandler_UploadUserAvatar e d filename contentType nbytes =
     with_caller (ua_Parse d) (\<lambda>c ctx w.
       respond (\<lambda>(u, url) _. (url, userToProto e d u))
         (map_error (\<lambda>x. Status Internal (ua_text d x))
           (UploadAvatar (at e 0) (ua_svc d) c filename contentType nbytes w)))"

definition UserHandler_DeleteUser :: "env \<Rightarrow> user_api_deps \<Rightarrow> (world, unit) UnaryHandler" where
  "UserHandler_DeleteUser e d =
     with_caller (ua_Parse d) (\<lambda>c ctx w.
       map_error (\<lambda>_. Status Internal ''failed to delete user'') (DeleteUser (at e 0) c w))"

section \<open>Friends and blocks\<close>

definition friend_request_status :: "user_error \<Rightarrow> status" where
  "friend_request_status x =
     (if x = ErrCannotFriendSelf then Status InvalidArgument ''cannot send friend request to yourself''
      else if x = ErrAlreadyFriends then Status AlreadyExists ''already friends''
      else if x = ErrFriendRequestExists then Status AlreadyExists ''friend request already exists''
      else if x = ErrUserBlocked then Status FailedPrecondition ''user is blocked''
      else Status Internal ''failed to send friend request'')"

definition UserHandler_SendFriendRequest ::
    "env \<Rightarrow> user_api_deps \<Rightarrow> string \<Rightarrow> (world, FriendshipProto) UnaryHandler" where
  "UserHandler_SendFriendRequest e d targetUsername =
     with_caller (ua_Parse d) (\<lambda>c ctx w.
       (case GetUserByUsername (at e 0) (ua_svc d) targetUsername w of
          Inl x \<Rightarrow> (Inl (user_status ''failed to resolve target user'' x), w)
        | Inr target \<Rightarrow>
            respond (\<lambda>f _. dbFriendshipToProto e f)
              (map_error friend_request_status (SendFriendRequest (at e 1) (ua_svc d) c (u_id target) w))))"

definition no_request_status :: "string \<Rightarrow> user_error \<Rightarrow> status" where
  "no_request_status msg x =
     (if x = ErrNoFriendRequest then Status NotFound ''no pending friend request found'' else Status Internal msg)"

definition UserHandler_AcceptFriendRequest ::
    "env \<Rightarrow> user_api_deps \<Rightarrow> string \<Rightarrow> (world, FriendshipProto) UnaryHandler" where
  "UserHandler_AcceptFriendRequest e d requesterID =
     with_caller (ua_Parse d) (\<lambda>c.
     with_id (ua_Parse d) ''requester_user_id'' requesterID (\<lambda>t ctx w.
       respond (\<lambda>f _. dbFriendshipToProto e f)
         (map_error (no_request_status ''failed to accept friend request'')
           (AcceptFriendRequest (at e 0) (ua_svc d) c t w))))"

definition UserHandler_DeclineFriendRequest :: "env \<Rightarrow> user_api_deps \<Rightarrow> string \<Rightarrow> (world, unit) UnaryHandler" where
  "UserHandler_DeclineFriendRequest e d requesterID =
     with_caller (ua_Parse d) (\<lambda>c.
     with_id (ua_Parse d) ''requester_user_id'' requesterID (\<lambda>t ctx w.
       map_error (no_request_status ''failed to decline friend request'')
         (DeclineFriendRequest (at e 0) (ua_svc d) c t w)))"

definition UserHandler_CancelFriendRequest :: "env \<Rightarrow> user_api_deps \<Rightarrow> string \<Rightarrow> (world, unit) UnaryHandler" where
  "UserHandler_CancelFriendRequest e d targetID =
     with_caller (ua_Parse d) (\<lambda>c.
     with_id (ua_Parse d) ''target_user_id'' targetID (\<lambda>t ctx w.
       map_error (no_request_status ''failed to cancel friend request'')
         (CancelFriendRequest (at e 0) (ua_svc d) c t w)))"

definition UserHandler_RemoveFriend :: "env \<Rightarrow> user_api_deps \<Rightarrow> string \<Rightarrow> (world, unit) UnaryHandler" where
  "UserHandler_RemoveFriend e d friendID =
     with_caller (ua_Parse d) (\<lambda>c.
     with_id (ua_Parse d) ''friend_id'' friendID (\<lambda>t ctx w.
       map_error (\<lambda>x. if x = ErrNotFriends then Status NotFound ''not friends''
                      else Status Internal ''failed to remove friend'')
         (RemoveFriend (at e 0) (ua_svc d) c t w)))"

definition UserHandler_BlockUser :: "env \<Rightarrow> user_api_deps \<Rightarrow> string \<Rightarrow> (world, unit) UnaryHandler" where
  "UserHandler_BlockUser e d targetID =
     with_caller (ua_Parse d) (\<lambda>c.
     with_id (ua_Parse d) ''target_user_id'' targetID (\<lambda>t ctx w.
       map_error (\<lambda>x. if x = ErrCannotFriendSelf then Status InvalidArgument ''cannot block yourself''
                      else Status Internal ''failed to block user'')
         (BlockUser (at e 0) c t w)))"

definition UserHandler_UnblockUser :: "env \<Rightarrow> user_api_deps \<Rightarrow> string \<Rightarrow> (world, unit) UnaryHandler" where
  "UserHandler_UnblockUser e d targetID =
     with_caller (ua_Parse d) (\<lambda>c.
     with_id (ua_Parse d) ''target_user_id'' targetID (\<lambda>t ctx w.
       map_error (\<lambda>x. if x = ErrNotBlocked then Status NotFound ''user is not blocked''
                      else Status Internal ''failed to unblock user'')
         (UnblockUser (at e 0) c t w)))"

definition UserHandler_ListFriends :: "env \<Rightarrow> user_api_deps \<Rightarrow> (world, UserProto list) UnaryHandler" where
  "UserHandler_ListFriends e d =
     with_caller (ua_Parse d) (\<lambda>c ctx w.
       respond (\<lambda>us _. map (userToProto e d) us)
         (map_error (\<lambda>_. Status Internal ''failed to list friends'') (ListFriends (at e 0) (ua_svc d) c w, w)))"

definition UserHandler_ListPendingRequests ::
    "env \<Rightarrow> user_api_deps \<Rightarrow> (world, FriendshipProto list \<times> FriendshipProto list) UnaryHandler" where
  "UserHandler_ListPendingRequests e d =
     with_caller (ua_Parse d) (\<lambda>c ctx w.
       respond (\<lambda>(incoming, outgoing) _. (map (pendingToProto e d) incoming, map (pendingToProto e d) outgoing))
         (map_error (\<lambda>_. Status Internal ''failed to list pending requests'') (ListPendingRequests (at e 0) c w, w)))"

definition UserHandler_ListBlocked :: "env \<Rightarrow> user_api_deps \<Rightarrow> (world, UserProto list) UnaryHandler" where
  "UserHandler_ListBlocked e d =
     with_caller (ua_Parse d) (\<lambda>c ctx w.
       respond (\<lambda>us _. map (userToProto e d) us)
         (map_error (\<lambda>_. Status Internal ''failed to list blocked users'') (ListBlocked (at e 0) c w, w)))"

section \<open>Calls\<close>

datatype user_request =
    GetUserRequest string
  | UpdateUserRequest "string option" "string option" "string option" "string option" "string option"
  | UpdateUsernameRequest string
  | UpdateStatusRequest string
  | UploadUserAvatarRequest string string nat
  | DeleteUserRequest
  | GetUserByUsernameRequest string
  | SearchUsersRequest string int int
  | SendFriendRequestRequest string
  | AcceptFriendRequestRequest string
  | DeclineFriendRequestRequest string
  | CancelFriendRequestRequest string
  | RemoveFriendRequest string
  | BlockUserRequest string
  | UnblockUserRequest string
  | ListFriendsRequest
  | ListPendingRequestsRequest
  | ListBlockedRequest

datatype user_response =
    UserResponse UserProto | AvatarResponse "string \<times> UserProto" | UsersResponse "UserProto list"
  | SearchResponse "UserProto list \<times> int" | FriendshipResponse FriendshipProto
  | PendingResponse "FriendshipProto list \<times> FriendshipProto list" | NoResponse

fun user_method :: "user_request \<Rightarrow> string" where
  "user_method (GetUserRequest _) = ''/user.v1.UserService/GetUser''"
| "user_method (UpdateUserRequest _ _ _ _ _) = ''/user.v1.UserService/UpdateUser''"
| "user_method (UpdateUsernameRequest _) = ''/user.v1.UserService/UpdateUsername''"
| "user_method (UpdateStatusRequest _) = ''/user.v1.UserService/UpdateStatus''"
| "user_method (UploadUserAvatarRequest _ _ _) = ''/user.v1.UserService/UploadUserAvatar''"
| "user_method DeleteUserRequest = ''/user.v1.UserService/DeleteUser''"
| "user_method (GetUserByUsernameRequest _) = ''/user.v1.UserService/GetUserByUsername''"
| "user_method (SearchUsersRequest _ _ _) = ''/user.v1.UserService/SearchUsers''"
| "user_method (SendFriendRequestRequest _) = ''/user.v1.UserService/SendFriendRequest''"
| "user_method (AcceptFriendRequestRequest _) = ''/user.v1.UserService/AcceptFriendRequest''"
| "user_method (DeclineFriendRequestRequest _) = ''/user.v1.UserService/DeclineFriendRequest''"
| "user_method (CancelFriendRequestRequest _) = ''/user.v1.UserService/CancelFriendRequest''"
| "user_method (RemoveFriendRequest _) = ''/user.v1.UserService/RemoveFriend''"
| "user_method (BlockUserRequest _) = ''/user.v1.UserService/BlockUser''"
| "user_method (UnblockUserRequest _) = ''/user.v1.UserService/UnblockUser''"
| "user_method ListFriendsRequest = ''/user.v1.UserService/ListFriends''"
| "user_method ListPendingRequestsRequest = ''/user.v1.UserService/ListPendingRequests''"
| "user_method ListBlockedRequest = ''/user.v1.UserService/ListBlocked''"

fun user_handler :: "env \<Rightarrow> user_api_deps \<Rightarrow> user_request \<Rightarrow> (world, user_response) UnaryHandler" where
  "user_handler e d (GetUserRequest userID) = answer UserResponse (UserHandler_GetUser e d userID)"
| "user_handler e d (UpdateUserRequest displayName avatarURL bio newStatus background) =
     answer UserResponse (UserHandler_UpdateUser e d displayName avatarURL bio newStatus background)"
| "user_handler e d (UpdateUsernameRequest name) = answer UserResponse (UserHandler_UpdateUsername e d name)"
| "user_handler e d (UpdateStatusRequest newStatus) = answer UserResponse (UserHandler_UpdateStatus e d newStatus)"
| "user_handler e d (UploadUserAvatarRequest filename contentType nbytes) =
     answer AvatarResponse (UserHandler_UploadUserAvatar e d filename contentType nbytes)"
| "user_handler e d DeleteUserRequest = answer (\<lambda>_. NoResponse) (UserHandler_DeleteUser e d)"
| "user_handler e d (GetUserByUsernameRequest name) =
     answer UserResponse (UserHandler_GetUserByUsername e d name)"
| "user_handler e d (SearchUsersRequest query lim offset) =
     answer SearchResponse (UserHandler_SearchUsers e d query lim offset)"
| "user_handler e d (SendFriendRequestRequest name) =
     answer FriendshipResponse (UserHandler_SendFriendRequest e d name)"
| "user_handler e d (AcceptFriendRequestRequest t) =
     answer FriendshipResponse (UserHandler_AcceptFriendRequest e d t)"
| "user_handler e d (DeclineFriendRequestRequest t) =
     answer (\<lambda>_. NoResponse) (UserHandler_DeclineFriendRequest e d t)"
| "user_handler e d (CancelFriendRequestRequest t) =
     answer (\<lambda>_. NoResponse) (UserHandler_CancelFriendRequest e d t)"
| "user_handler e d (RemoveFriendRequest t) = answer (\<lambda>_. NoResponse) (UserHandler_RemoveFriend e d t)"
| "user_handler e d (BlockUserRequest t) = answer (\<lambda>_. NoResponse) (UserHandler_BlockUser e d t)"
| "user_handler e d (UnblockUserRequest t) = answer (\<lambda>_. NoResponse) (UserHandler_UnblockUser e d t)"
| "user_handler e d ListFriendsRequest = answer UsersResponse (UserHandler_ListFriends e d)"
| "user_handler e d ListPendingRequestsRequest = answer PendingResponse (UserHandler_ListPendingRequests e d)"
| "user_handler e d ListBlockedRequest = answer UsersResponse (UserHandler_ListBlocked e d)"

definition user_serve ::
    "jwt_lib \<Rightarrow> env \<Rightarrow> string \<Rightarrow> string option \<Rightarrow> user_api_deps \<Rightarrow> user_request \<Rightarrow>
     (server, user_response) UnaryHandler" where
  "user_serve J e secret violation d req =
     unary_chain J e secret violation (user_method req) (on_sv_db (user_handler (at e 2) d req))"

end
