(* ===== verification/UserApiLaws.thy ===== *)
theory UserApiLaws
  imports UserApi
begin

text \<open>
  What a call of the user service does: it touches only rows of its caller, hides profiles across a
  block, and the search pages through the users whose name contains the text.
\<close>

section \<open>Only rows of the caller\<close>

text \<open>The rows that are not of user c: accounts of other users, friendships between two others.\<close>

definition foreign_rows :: "uuid \<Rightarrow> world \<Rightarrow> User list \<times> Friendship list" where
  "foreign_rows c w = (filter (\<lambda>u. u_id u \<noteq> c) (users w),
     filter (\<lambda>f. f_user_id f \<noteq> c \<and> f_friend_id f \<noteq> c) (friendships w))"

lemma foreign_rows_accounts: "accounts w' = accounts w \<Longrightarrow> foreign_rows c w' = foreign_rows c w"
  by (simp add: accounts_def foreign_rows_def)

lemma foreign_rows_publish [simp]: "foreign_rows c (publishFriendActivity e t ev x w) = foreign_rows c w"
  by (simp add: foreign_rows_def)

lemma filter_update_where:
  assumes "\<And>x. P x \<Longrightarrow> \<not> Q x" and "\<And>x. P x \<Longrightarrow> \<not> Q (f x)"
  shows "filter Q (update_where P f xs) = filter Q xs"
  using assms by (induction xs) (auto simp: update_where_def)

lemma filter_upsert:
  assumes "\<And>x. P x \<Longrightarrow> \<not> Q x" and "\<And>x. P x \<Longrightarrow> \<not> Q (f x)" and "\<not> Q r"
  shows "filter Q (upsert P f r xs) = filter Q xs"
  using assms by (simp add: upsert_def filter_update_where)

lemma foreign_UpdateUser:
  "q_UpdateUser e ps w = Inr (u, w') \<Longrightarrow> foreign_rows (uu_ID ps) w' = foreign_rows (uu_ID ps) w"
  by (auto simp: q_UpdateUser_def run_stmt_Inr update_returning_Inr foreign_rows_def
      intro!: filter_update_where split: sum.splits if_splits)

lemma foreign_allocate:
  "foreign_rows c (snd (allocate_handle e rnd c name n i x w)) = foreign_rows c w"
  by (induction n arbitrary: i x)
    (auto simp: user_update_def dest!: foreign_UpdateUser split: sum.splits)

lemma foreign_friendships:
  "q_CreateFriendship e c t st w = Inr (f, w') \<Longrightarrow> foreign_rows c w' = foreign_rows c w"
  "q_DeleteFriendship e c t w = Inr w' \<Longrightarrow> foreign_rows c w' = foreign_rows c w"
  "q_DeleteFriendship e t c w = Inr w' \<Longrightarrow> foreign_rows c w' = foreign_rows c w"
  "q_UpdateFriendshipStatus e t c st w = Inr (f, w') \<Longrightarrow> foreign_rows c w' = foreign_rows c w"
  by (auto simp: q_CreateFriendship_def q_DeleteFriendship_def q_UpdateFriendshipStatus_def run_stmt_Inr
      update_returning_Inr foreign_rows_def Let_def intro!: filter_update_where filter_upsert
      split: sum.splits if_splits)

lemma foreign_profiles:
  "foreign_rows (uu_ID ps) (snd (UpdateUser e d ps w)) = foreign_rows (uu_ID ps) w"
  "foreign_rows c (snd (UpdateStatus e d c st w)) = foreign_rows c w"
  "foreign_rows c (snd (UploadAvatar e d c fname ctype n w)) = foreign_rows c w"
  "foreign_rows c (snd (DeleteUser e c w)) = foreign_rows c w"
  "foreign_rows c (snd (UpdateUsername e d rnd c name w)) = foreign_rows c w"
proof -
  show "foreign_rows (uu_ID ps) (snd (UpdateUser e d ps w)) = foreign_rows (uu_ID ps) w"
    by (auto simp: UpdateUser_def dest!: foreign_UpdateUser split: sum.splits)
  show "foreign_rows c (snd (UpdateStatus e d c st w)) = foreign_rows c w"
    by (auto simp: UpdateStatus_def user_update_def dest!: foreign_UpdateUser split: sum.splits)
  show "foreign_rows c (snd (UploadAvatar e d c fname ctype n w)) = foreign_rows c w"
    by (auto simp: UploadAvatar_def user_update_def Let_def dest!: foreign_UpdateUser split: sum.splits)
  show "foreign_rows c (snd (DeleteUser e c w)) = foreign_rows c w"
    by (auto simp: DeleteUser_def q_DeleteUser_def run_stmt_def foreign_rows_def intro!: filter_update_where
        split: sum.splits)
  have "foreign_rows c w' = foreign_rows c w"
    if "Repository_UpdateUsername e rnd c name w = (r, w')" for r w'
    using that foreign_allocate [of c "at e 1" rnd name maxHandleAttempts 0 NoRows w]
    by (auto simp: Repository_UpdateUsername_def split: sum.splits if_splits)
  then show "foreign_rows c (snd (UpdateUsername e d rnd c name w)) = foreign_rows c w"
    by (auto simp: UpdateUsername_def split: prod.splits sum.splits)
qed

lemma foreign_friends:
  "foreign_rows c (snd (SendFriendRequest e d c t w)) = foreign_rows c w"
  "foreign_rows c (snd (DeclineFriendRequest e d c t w)) = foreign_rows c w"
  "foreign_rows c (snd (CancelFriendRequest e d c t w)) = foreign_rows c w"
  "foreign_rows c (snd (RemoveFriend e d c t w)) = foreign_rows c w"
  "foreign_rows c (snd (BlockUser e c t w)) = foreign_rows c w"
  "foreign_rows c (snd (UnblockUser e c t w)) = foreign_rows c w"
  by (auto simp: SendFriendRequest_def DeclineFriendRequest_def CancelFriendRequest_def RemoveFriend_def
      BlockUser_def UnblockUser_def keep_on_error_def Let_def foreign_friendships
      split: sum.splits option.splits if_splits)

lemma foreign_accept: "foreign_rows c (snd (AcceptFriendRequest e d c t w)) = foreign_rows c w"
proof -
  have "foreign_rows c w2 = foreign_rows c w1"
    if "GetOrCreateDMChannel e' us rs w1 = (r, w2)" for e' us rs r w1 w2
    using accounts_GetOrCreateDMChannel [of e' us rs w1] that by (intro foreign_rows_accounts) simp
  then show ?thesis
    by (auto simp: AcceptFriendRequest_def Let_def foreign_friendships
        split: sum.splits if_splits prod.splits)
qed

lemmas user_handler_defs =
  UserHandler_GetUser_def UserHandler_GetUserByUsername_def UserHandler_SearchUsers_def UserHandler_UpdateUser_def
  UserHandler_UpdateUsername_def UserHandler_UpdateStatus_def UserHandler_UploadUserAvatar_def
  UserHandler_DeleteUser_def UserHandler_SendFriendRequest_def UserHandler_AcceptFriendRequest_def
  UserHandler_DeclineFriendRequest_def UserHandler_CancelFriendRequest_def UserHandler_RemoveFriend_def
  UserHandler_BlockUser_def UserHandler_UnblockUser_def UserHandler_ListFriends_def
  UserHandler_ListPendingRequests_def UserHandler_ListBlocked_def

lemma user_methods:
  "user_method req \<notin> set publicMethods" "\<not> exempt (user_method req)"
  by (cases req; simp add: publicMethods_def exempt_def)+

lemma user_handler_foreign:
  assumes "snd (user_handler e d req ctx w) \<noteq> w"
  shows "\<exists>c. ua_Parse d (UserIDFromContext ctx) = Some c \<and>
    foreign_rows c (snd (user_handler e d req ctx w)) = foreign_rows c w"
  using assms foreign_profiles(1) [of "\<lparr>uu_ID = _, uu_Username = _, uu_DisplayName = _, uu_AvatarUrl = _,
      uu_Bio = _, uu_Status = _, uu_BackgroundColor = _\<rparr>"]
  by (cases req)
    (auto simp: user_handler_defs snd_guards foreign_profiles foreign_friends foreign_accept
      split: option.split_asm if_split_asm sum.split_asm)

interpretation user_api: guarded_api user_method "user_handler e d"
  "\<lambda>u req w w'. \<exists>c. ua_Parse d u = Some c \<and> foreign_rows c w' = foreign_rows c w" for e d
  by unfold_locales (simp_all add: user_methods user_handler_foreign)

text \<open>
  C27: a call of the user service is confined to its caller. Whatever call changes the database or
  publishes an event, failing statements included, carries an accepted token, and leaves every
  account but that of the token's user and every friendship between two other users as they were.
\<close>

theorem user_calls_confined:
  assumes "sv_db (snd (user_serve J e secret violation d req ctx s)) \<noteq> sv_db s"
  shows "\<exists>u c. extractUserID J (clock e [1]) secret ctx = Inr u \<and> ua_Parse d u = Some c \<and>
    foreign_rows c (sv_db (snd (user_serve J e secret violation d req ctx s))) = foreign_rows c (sv_db s)"
  using user_api.served_allowed [of J e secret violation req "at e 2" d ctx s] assms
  by (auto simp: user_serve_def)

text \<open>Handlers of the user service whose collaborators are the simplest; every text denotes user 5.\<close>

definition plain_user_deps :: user_api_deps where
  "plain_user_deps = \<lparr>ua_Parse = (\<lambda>_. Some 5), ua_svc = no_deps, ua_blockChecker = True, ua_text = (\<lambda>_. []),
     ua_random = (\<lambda>_. 0), ua_fold = (\<lambda>c. c), ua_collate = (\<lambda>x. x)\<rparr>"

lemma status_call_runs:
  "sv_db (snd (user_serve plain_jwt (text_env (\<lambda>_. 9) (\<lambda>_. 5)) ''k'' None plain_user_deps
     (UpdateStatusRequest ''idle'') (call_ctx (token_for ''u1'')) lone_server)) \<noteq> sv_db lone_server"
proof -
  have "outbox (snd (UpdateStatus e no_deps 5 ''idle'' lone_world)) \<noteq> outbox lone_world" if "fault_free e" "\<not> lpb_nil e" for e
    using that by (simp add: UpdateStatus_def q_UpdateUser_def update_returning_def lone_world_def empty_world_def
        one_user_def user_update_def publishFriendActivity_def outbox_Publish fault_free_def)
  from this [of "at (at (text_env (\<lambda>_. 9) (\<lambda>_. 5)) 2) 0"] show ?thesis
    by (auto simp: user_serve_def lone_call publicMethods_def exempt_def UserHandler_UpdateStatus_def
        snd_with_caller UserIDFromContext_def plain_user_deps_def)
qed

theorem user_calls_confined_witness:
  "\<exists>u c. extractUserID plain_jwt 5 ''k'' (call_ctx (token_for ''u1'')) = Inr u \<and> ua_Parse plain_user_deps u = Some c \<and>
     foreign_rows c (sv_db (snd (user_serve plain_jwt (text_env (\<lambda>_. 9) (\<lambda>_. 5)) ''k'' None plain_user_deps
       (UpdateStatusRequest ''idle'') (call_ctx (token_for ''u1'')) lone_server))) = foreign_rows c (sv_db lone_server)"
  using user_calls_confined [OF status_call_runs] by simp

section \<open>Blocks hide profiles\<close>

text \<open>
  While there is a block between two users, neither profile can be read by the other through its
  identifier or its name: the answer is that of a user who does not exist. The search does not look
  at the caller: a block does not hide anybody from it.
\<close>

theorem blocked_profile_hidden:
  assumes "fault_free e" and "codec_ok e" and "ua_blockChecker d" and "relation w t c = Some (x, ''blocked'')"
    and "t \<noteq> c" and "UserIDFromContext ctx = uuid_string e c" and "ua_Parse d (uuid_string e t) = Some t"
    and "find (\<lambda>u. u_username u = name \<and> \<not> u_deleted u) (users w) = Some target" and "u_id target = t"
  shows "fst (UserHandler_GetUser e d (uuid_string e t) ctx w) = Inl (Status NotFound ''user not found'') \<and>
    fst (UserHandler_GetUserByUsername e d name ctx w) = Inl (Status NotFound ''user not found'') \<and>
    fst (UserHandler_SearchUsers e d query lim offset ctx w) = fst (UserHandler_SearchUsers e d query lim offset ctx' w)"
proof -
  note texts = codec_ok_def [THEN iffD1, OF assms(2)]
  have ne: "uuid_string e c \<noteq> []" using texts by (metis option.distinct(1))
  have "uuid_string e c \<noteq> uuid_string e t" using assms(5) texts by (metis option.inject)
  note ne = ne this
  have "IsBlocked (at e i) (uuid_string e t) (uuid_string e c) w" for i
    using assms(1,4) texts by (simp add: IsBlocked_symmetric [THEN conjunct2] fault_free_def)
  then have hidden: "hidden_from (at e i) d (uuid_string e t) (uuid_string e c) w" for i
    using ne assms(3) by (simp add: hidden_from_def)
  have "q_GetUserByUsername (at e 0) name w = Inr target"
    using assms(1,8) by (simp add: q_GetUserByUsername_def one_row_def fault_free_def)
  then show ?thesis
    using assms(6,7,9) hidden
    by (simp add: UserHandler_GetUser_def UserHandler_GetUserByUsername_def UserHandler_SearchUsers_def
        GetUserByUsername_def)
qed

section \<open>The search\<close>

text \<open>A text without the characters LIKE reads specially.\<close>

definition plain_text :: "string \<Rightarrow> bool" where
  "plain_text q \<longleftrightarrow> list_all (\<lambda>c. c \<noteq> CHR ''%'' \<and> c \<noteq> CHR ''_'' \<and> c \<noteq> CHR 0x5C) q"

lemma like_any: "like fd (CHR ''%'' # ps) s \<longleftrightarrow> (\<exists>a b. s = a @ b \<and> like fd ps b)"
proof (induction s)
  case (Cons x xs)
  have "(\<exists>a b. x # xs = a @ b \<and> like fd ps b) \<longleftrightarrow> like fd ps (x # xs) \<or> (\<exists>a b. xs = a @ b \<and> like fd ps b)"
    by (auto simp: Cons_eq_append_conv)
  then show ?case using Cons by (subst like.simps(2)) simp
qed simp

lemma like_all: "like fd ''%'' s"
  unfolding like_any by (metis append_Nil2 like.simps(1))

lemma like_literal:
  assumes "plain_text q"
  shows "like fd (q @ ''%'') s \<longleftrightarrow> (\<exists>m b. s = m @ b \<and> map fd m = map fd q)"
  using assms
proof (induction q arbitrary: s)
  case Nil
  then show ?case by (simp add: like_all del: like.simps)
next
  case (Cons p q)
  then have p: "p \<noteq> CHR ''%''" "p \<noteq> CHR ''_''" "p \<noteq> CHR 0x5C" and "plain_text q" by (auto simp: plain_text_def)
  note IH = Cons.IH [OF this(4)]
  show ?case
    using p by (cases s) (auto simp: IH Cons_eq_append_conv map_eq_Cons_conv)
qed

lemma like_contains:
  "plain_text q \<Longrightarrow> like fd (''%'' @ q @ ''%'') s \<longleftrightarrow> (\<exists>a m b. s = a @ m @ b \<and> map fd m = map fd q)"
  by (simp add: like_any like_literal del: like.simps) blast

lemma concat_pages:
  "concat (map (\<lambda>i. take L (drop (i * L) xs)) [0..<n]) = take (n * L) xs"
  by (induction n) (simp_all add: add.commute [of L] take_add)

lemma resolve_twice [simp]: "ResolveAvatarURL d (ResolveAvatarURL d key) = ResolveAvatarURL d key"
  by (simp add: ResolveAvatarURL_def GetBaseURl_def GetMinioBaseURL_def)

text \<open>
  C33: the search. For a text without wildcards and no failing statement the pages of any size, asked
  one after the other, are together the list, each once and in the order of the database, of the
  users who are not deleted and whose name contains the text up to case, and every page tells how
  many there are (below two to the 31). Texts and names are of single-byte characters: the case of
  others is not folded.
\<close>

theorem SearchUsers_pages:
  assumes "fault_free e" and "plain_text query" and "0 < L"
    and "length (search_results d query w) \<le> n * nat L" and "length (search_results d query w) < 2 ^ 31"
  shows "(u \<in> set (search_results d query w) \<longleftrightarrow> u \<in> set (users w) \<and> \<not> u_deleted u \<and>
        (\<exists>a m b. u_username u = a @ m @ b \<and> map (ua_fold d) m = map (ua_fold d) query)) \<and>
    (\<exists>pages. length pages = n \<and> concat pages = map (userToProto e d) (search_results d query w) \<and>
       list_all (\<lambda>i. fst (UserHandler_SearchUsers e d query L (int i * L) ctx w) =
         Inr (pages ! i, int (length (search_results d query w)))) [0..<n])"
proof -
  define M where "M = search_results d query w"
  let ?page = "\<lambda>i. map (userToProto e d) (take (nat L) (drop (i * nat L) M))"
  have same: "userToProto e d (u\<lparr>u_avatar_url := ResolveAvatarURL (ua_svc d) (u_avatar_url u)\<rparr>) = userToProto e d u" for u
    by (simp add: userToProto_def dbUserToProto_def)
  have len: "length (search_matches d query w) = length M" by (simp add: M_def search_results_def)
  have "fst (UserHandler_SearchUsers e d query L (int i * L) ctx w) = Inr (?page i, int (length M))" for i
    using assms(1,3,5)
    by (simp add: UserHandler_SearchUsers_def SearchUsers_def q_CountSearchUsers_def q_SearchUsers_def
        fault_free_def map_error_def respond_def len int32_id nat_mult_distrib same comp_def mult_less_0_iff flip: M_def)
  moreover have "concat (map ?page [0..<n]) = map (userToProto e d) (concat (map (\<lambda>i. take (nat L) (drop (i * nat L) M)) [0..<n]))"
    by (simp add: map_concat comp_def)
  then have "concat (map ?page [0..<n]) = map (userToProto e d) M"
    using assms(4) by (simp add: concat_pages M_def)
  ultimately show ?thesis
    using like_contains [OF assms(2)]
    by (intro conjI exI [of _ "map ?page [0..<n]"]) (auto simp: M_def search_results_def search_matches_def list_all_iff)
qed

definition blocked_world :: world where
  "blocked_world = lone_world\<lparr>users := [one_user 5, (one_user 6)\<lparr>u_username := ''bob''\<rparr>],
     friendships := [\<lparr>f_user_id = 5, f_friend_id = 6, f_status = ''blocked'', f_deleted = False, f_updated_at = 0\<rparr>]\<rparr>"

theorem blocked_profile_hidden_witness:
  "fst (UserHandler_GetUser (text_env (\<lambda>_. 9) (\<lambda>_. 5)) plain_user_deps (uuid_text 5)
      ((call_ctx (token_for ''u1''))\<lparr>UserIDKey := Some (uuid_text 6)\<rparr>) blocked_world) = Inl (Status NotFound ''user not found'')"
proof -
  have utext: "uuid_string (text_env (\<lambda>_. 9) (\<lambda>_. 5)) = uuid_text" by (simp add: text_env_def)
  have "relation blocked_world 5 6 = Some (5, ''blocked'')"
    by (simp add: relation_def live_friendship_def blocked_world_def)
  from blocked_profile_hidden [of "text_env (\<lambda>_. 9) (\<lambda>_. 5)" plain_user_deps blocked_world 5 6 5
      "(call_ctx (token_for ''u1''))\<lparr>UserIDKey := Some (uuid_text 6)\<rparr>" "''ann''" "one_user 5", OF _ _ _ this]
  show ?thesis by (simp add: utext plain_user_deps_def UserIDFromContext_def blocked_world_def one_user_def)
qed

theorem SearchUsers_pages_witness:
  "\<exists>pages. length pages = 2 \<and>
     concat pages = map (userToProto (text_env (\<lambda>_. 9) (\<lambda>_. 5)) plain_user_deps)
       (search_results plain_user_deps ''n'' blocked_world) \<and>
     list_all (\<lambda>i. fst (UserHandler_SearchUsers (text_env (\<lambda>_. 9) (\<lambda>_. 5)) plain_user_deps ''n'' 1 (int i * 1)
         (call_ctx (token_for ''u1'')) blocked_world) =
       Inr (pages ! i, int (length (search_results plain_user_deps ''n'' blocked_world)))) [0..<2]"
proof -
  have "length (search_results plain_user_deps ''n'' blocked_world) \<le> 2 * nat 1"
    by (simp add: search_results_def search_matches_def blocked_world_def)
  with SearchUsers_pages [of "text_env (\<lambda>_. 9) (\<lambda>_. 5)" "''n''" 1 plain_user_deps blocked_world 2 "one_user 5"
      "call_ctx (token_for ''u1'')"]
  show ?thesis by (auto simp: plain_text_def simp del: like.simps)
qed

end
