(* ===== verification/ChannelApi.thy ===== *)
theory ChannelApi
  imports Api
begin

text \<open>
  The gRPC surface of the channel service, internal/features/channel/handler.go, and what a call of it
  may change. Its handlers pass the texts of the request on; the service parses them. The created_at
  fields of the messages are left out, as the columns are.
\<close>

section \<open>Messages and errors\<close>

record ChannelProto =
  cp_Id :: string
  cp_Name :: string
  cp_Type :: int
  cp_Topic :: string
  cp_Position :: int
  cp_GuildId :: string
  cp_ParentId :: string

record DMMember =
  dp_Id :: string
  dp_Username :: string
  dp_DisplayName :: string
  dp_AvatarUrl :: string
  dp_Status :: string

definition channelToProto :: "Channel \<Rightarrow> ChannelProto" where
  "channelToProto ch =
     \<lparr>cp_Id = uuidToString (Some (c_id ch)), cp_Name = c_name ch, cp_Type = c_type ch, cp_Topic = c_topic ch,
      cp_Position = c_position ch, cp_GuildId = uuidToString (c_guild_id ch),
      cp_ParentId = uuidToString (c_parent_id ch)\<rparr>"

definition dmMemberToProto :: "User \<Rightarrow> DMMember" where
  "dmMemberToProto u =
     \<lparr>dp_Id = uuidToString (Some (u_id u)), dp_Username = u_username u, dp_DisplayName = u_display_name u,
      dp_AvatarUrl = u_avatar_url u, dp_Status = u_status u\<rparr>"

text \<open>The error of an invalid parent wraps ErrInvalidUUID, which errors.Is finds.\<close>

definition channel_code :: "channel_error \<Rightarrow> Code" where
  "channel_code x =
     (if x = ErrChannelNotFound then NotFound
      else if x \<in> {ErrGuildIDRequired, ErrNameRequired, ErrInvalidChannelType, ErrRecipientRequired,
                   channel_error.ErrInvalidUUID, InvalidParentID} then InvalidArgument
      else if x = ErrNotGroupDM then InvalidArgument
      else if x \<in> {ChErrNotGuildMember, ChErrInsufficientPermissions, ErrNotDMChannelMember} then PermissionDenied
      else if x = ErrAlreadyDMChannelMember then AlreadyExists
      else Internal)"

definition channel_mapError :: "(channel_error \<Rightarrow> string) \<Rightarrow> channel_error \<Rightarrow> status" where
  "channel_mapError txt x = Status (channel_code x) (txt x)"

section \<open>Handlers\<close>

definition ChannelHandler_CreateChannel ::
    "(channel_error \<Rightarrow> string) \<Rightarrow> env \<Rightarrow> string \<Rightarrow> string \<Rightarrow> int \<Rightarrow> string \<Rightarrow> string \<Rightarrow>
     (world, ChannelProto) UnaryHandler" where
  "ChannelHandler_CreateChannel txt e guildID name ty topic parentID =
     with_caller_text (\<lambda>userID ctx w.
       if name = [] then (Inl (Status InvalidArgument ''channel name is required''), w)
       else respond (\<lambda>ch _. channelToProto ch)
         (map_error (channel_mapError txt) (CreateChannel e userID guildID name ty topic parentID w)))"

definition ChannelHandler_GetChannel ::
    "(channel_error \<Rightarrow> string) \<Rightarrow> env \<Rightarrow> string \<Rightarrow> (world, ChannelProto) UnaryHandler" where
  "ChannelHandler_GetChannel txt e channelID ctx w =
     (if channelID = [] then (Inl (Status InvalidArgument ''channel_id is required''), w)
      else respond (\<lambda>ch _. channelToProto ch)
        (map_error (channel_mapError txt) (GetChannel e channelID w, w)))"

definition ChannelHandler_UpdateChannel ::
    "(channel_error \<Rightarrow> string) \<Rightarrow> env \<Rightarrow> string \<Rightarrow> string option \<Rightarrow> string option \<Rightarrow> int option \<Rightarrow> string option \<Rightarrow>
     (world, ChannelProto) UnaryHandler" where
  "ChannelHandler_UpdateChannel txt e channelID name topic position parentID ctx w =
     (if channelID = [] then (Inl (Status InvalidArgument ''channel_id is required''), w)
      else respond (\<lambda>ch _. channelToProto ch)
        (map_error (channel_mapError txt)
          (UpdateChannel e (UserIDFromContext ctx) channelID name topic position parentID w)))"

definition ChannelHandler_DeleteChannel ::
    "(channel_error \<Rightarrow> string) \<Rightarrow> env \<Rightarrow> string \<Rightarrow> (world, unit) UnaryHandler" where
  "ChannelHandler_DeleteChannel txt e channelID ctx w =
     (if channelID = [] then (Inl (Status InvalidArgument ''channel_id is required''), w)
      else map_error (channel_mapError txt) (DeleteChannel e (UserIDFromContext ctx) channelID w))"

definition ChannelHandler_ListGuildChannels ::
    "(channel_error \<Rightarrow> string) \<Rightarrow> env \<Rightarrow> string \<Rightarrow> (world, ChannelProto list) UnaryHandler" where
  "ChannelHandler_ListGuildChannels txt e guildID ctx w =
     (if guildID = [] then (Inl (Status InvalidArgument ''guild_id is required''), w)
      else respond (\<lambda>chs _. map channelToProto chs)
        (map_error (channel_mapError txt) (ListGuildChannels e guildID w, w)))"

definition ChannelHandler_CreateDMChannel ::
    "(channel_error \<Rightarrow> string) \<Rightarrow> env \<Rightarrow> string list \<Rightarrow> (world, ChannelProto) UnaryHandler" where
  "ChannelHandler_CreateDMChannel txt e recipientIDs =
     with_caller_text (\<lambda>userID ctx w.
       if recipientIDs = [] then (Inl (Status InvalidArgument ''at least one recipient is required''), w)
       else respond (\<lambda>ch _. channelToProto ch)
         (map_error (channel_mapError txt) (CreateDMChannel e userID recipientIDs w)))"

definition ChannelHandler_ListDMChannels ::
    "(channel_error \<Rightarrow> string) \<Rightarrow> env \<Rightarrow> (world, ChannelProto list) UnaryHandler" where
  "ChannelHandler_ListDMChannels txt e =
     with_caller_text (\<lambda>userID ctx w.
       respond (\<lambda>chs _. map channelToProto chs)
         (map_error (channel_mapError txt) (ListDMChannels e userID w, w)))"

definition ChannelHandler_ListDMChannelMembers ::
    "(channel_error \<Rightarrow> string) \<Rightarrow> env \<Rightarrow> string \<Rightarrow> (world, DMMember list) UnaryHandler" where
  "ChannelHandler_ListDMChannelMembers txt e channelID =
     with_caller_text (\<lambda>callerID ctx w.
       respond (\<lambda>us _. map dmMemberToProto us)
         (map_error (channel_mapError txt) (ListDMChannelMembers e callerID channelID w, w)))"

definition ChannelHandler_ListDMChannelsWithMembers ::
    "(channel_error \<Rightarrow> string) \<Rightarrow> env \<Rightarrow> (world, (ChannelProto \<times> DMMember list) list) UnaryHandler" where
  "ChannelHandler_ListDMChannelsWithMembers txt e =
     with_caller_text (\<lambda>userID ctx w.
       respond (\<lambda>items _. map (\<lambda>it. (channelToProto (dw_Channel it), map dmMemberToProto (dw_Members it))) items)
         (map_error (channel_mapError txt) (ListDMChannelsWithMembers e userID w, w)))"

definition ChannelHandler_AddDMGroupMember ::
    "(channel_error \<Rightarrow> string) \<Rightarrow> env \<Rightarrow> string \<Rightarrow> string \<Rightarrow> (world, unit) UnaryHandler" where
  "ChannelHandler_AddDMGroupMember txt e channelID userID =
     with_caller_text (\<lambda>callerID ctx w.
       map_error (channel_mapError txt) (AddDMGroupMember e callerID channelID userID w))"

definition ChannelHandler_RemoveDMGroupMember ::
    "(channel_error \<Rightarrow> string) \<Rightarrow> env \<Rightarrow> string \<Rightarrow> string \<Rightarrow> (world, unit) UnaryHandler" where
  "ChannelHandler_RemoveDMGroupMember txt e channelID userID =
     with_caller_text (\<lambda>callerID ctx w.
       map_error (channel_mapError txt) (RemoveDMGroupMember e callerID channelID userID w))"

definition ChannelHandler_SetChannelOverride ::
    "(channel_error \<Rightarrow> string) \<Rightarrow> env \<Rightarrow> string \<Rightarrow> string \<Rightarrow> string \<Rightarrow> string \<Rightarrow> string \<Rightarrow> (world, unit) UnaryHandler" where
  "ChannelHandler_SetChannelOverride txt e channelID targetType targetID permission effect =
     with_caller_text (\<lambda>userID ctx w.
       map_error (channel_mapError txt)
         (SetChannelOverride e userID channelID targetType targetID permission effect w))"

definition ChannelHandler_DeleteChannelOverride ::
    "(channel_error \<Rightarrow> string) \<Rightarrow> env \<Rightarrow> string \<Rightarrow> string \<Rightarrow> string \<Rightarrow> string \<Rightarrow> (world, unit) UnaryHandler" where
  "ChannelHandler_DeleteChannelOverride txt e channelID targetType targetID permission =
     with_caller_text (\<lambda>userID ctx w.
       map_error (channel_mapError txt)
         (DeleteChannelOverride e userID channelID targetType targetID permission w))"

definition ChannelHandler_ListChannelOverrides ::
    "(channel_error \<Rightarrow> string) \<Rightarrow> env \<Rightarrow> string \<Rightarrow> (world, ChannelOverride list) UnaryHandler" where
  "ChannelHandler_ListChannelOverrides txt e channelID =
     with_caller_text (\<lambda>userID ctx w.
       map_error (channel_mapError txt) (ListChannelOverrides e userID channelID w))"

section \<open>Calls\<close>

datatype channel_request =
    CreateChannelRequest string string int string string
  | GetChannelRequest string
  | UpdateChannelRequest string "string option" "string option" "int option" "string option"
  | DeleteChannelRequest string
  | ListGuildChannelsRequest string
  | CreateDMChannelRequest "string list"
  | ListDMChannelsRequest
  | ListDMChannelMembersRequest string
  | ListDMChannelsWithMembersRequest
  | AddDMGroupMemberRequest string string
  | RemoveDMGroupMemberRequest string string
  | SetChannelOverrideRequest string string string string string
  | DeleteChannelOverrideRequest string string string string
  | ListChannelOverridesRequest string

datatype channel_response =
    ChannelResponse ChannelProto | ChannelsResponse "ChannelProto list" | DMMembersResponse "DMMember list"
  | DMChannelsResponse "(ChannelProto \<times> DMMember list) list" | OverridesResponse "ChannelOverride list"
  | DoneResponse

fun channel_method :: "channel_request \<Rightarrow> string" where
  "channel_method (CreateChannelRequest _ _ _ _ _) = ''/channel.v1.ChannelService/CreateChannel''"
| "channel_method (GetChannelRequest _) = ''/channel.v1.ChannelService/GetChannel''"
| "channel_method (UpdateChannelRequest _ _ _ _ _) = ''/channel.v1.ChannelService/UpdateChannel''"
| "channel_method (DeleteChannelRequest _) = ''/channel.v1.ChannelService/DeleteChannel''"
| "channel_method (ListGuildChannelsRequest _) = ''/channel.v1.ChannelService/ListGuildChannels''"
| "channel_method (CreateDMChannelRequest _) = ''/channel.v1.ChannelService/CreateDMChannel''"
| "channel_method ListDMChannelsRequest = ''/channel.v1.ChannelService/ListDMChannels''"
| "channel_method (ListDMChannelMembersRequest _) = ''/channel.v1.ChannelService/ListDMChannelMembers''"
| "channel_method ListDMChannelsWithMembersRequest = ''/channel.v1.ChannelService/ListDMChannelsWithMembers''"
| "channel_method (AddDMGroupMemberRequest _ _) = ''/channel.v1.ChannelService/AddDMGroupMember''"
| "channel_method (RemoveDMGroupMemberRequest _ _) = ''/channel.v1.ChannelService/RemoveDMGroupMember''"
| "channel_method (SetChannelOverrideRequest _ _ _ _ _) = ''/channel.v1.ChannelService/SetChannelOverride''"
| "channel_method (DeleteChannelOverrideRequest _ _ _ _) = ''/channel.v1.ChannelService/DeleteChannelOverride''"
| "channel_method (ListChannelOverridesRequest _) = ''/channel.v1.ChannelService/ListChannelOverrides''"

fun channel_handler ::
    "(channel_error \<Rightarrow> string) \<Rightarrow> env \<Rightarrow> channel_request \<Rightarrow> (world, channel_response) UnaryHandler" where
  "channel_handler txt e (CreateChannelRequest guildID name ty topic parentID) =
     answer ChannelResponse (ChannelHandler_CreateChannel txt e guildID name ty topic parentID)"
| "channel_handler txt e (GetChannelRequest channelID) =
     answer ChannelResponse (ChannelHandler_GetChannel txt e channelID)"
| "channel_handler txt e (UpdateChannelRequest channelID name topic position parentID) =
     answer ChannelResponse (ChannelHandler_UpdateChannel txt e channelID name topic position parentID)"
| "channel_handler txt e (DeleteChannelRequest channelID) =
     answer (\<lambda>_. DoneResponse) (ChannelHandler_DeleteChannel txt e channelID)"
| "channel_handler txt e (ListGuildChannelsRequest guildID) =
     answer ChannelsResponse (ChannelHandler_ListGuildChannels txt e guildID)"
| "channel_handler txt e (CreateDMChannelRequest recipientIDs) =
     answer ChannelResponse (ChannelHandler_CreateDMChannel txt e recipientIDs)"
| "channel_handler txt e ListDMChannelsRequest =
     answer ChannelsResponse (ChannelHandler_ListDMChannels txt e)"
| "channel_handler txt e (ListDMChannelMembersRequest channelID) =
     answer DMMembersResponse (ChannelHandler_ListDMChannelMembers txt e channelID)"
| "channel_handler txt e ListDMChannelsWithMembersRequest =
     answer DMChannelsResponse (ChannelHandler_ListDMChannelsWithMembers txt e)"
| "channel_handler txt e (AddDMGroupMemberRequest channelID userID) =
     answer (\<lambda>_. DoneResponse) (ChannelHandler_AddDMGroupMember txt e channelID userID)"
| "channel_handler txt e (RemoveDMGroupMemberRequest channelID userID) =
     answer (\<lambda>_. DoneResponse) (ChannelHandler_RemoveDMGroupMember txt e channelID userID)"
| "channel_handler txt e (SetChannelOverrideRequest channelID targetType targetID permission effect) =
     answer (\<lambda>_. DoneResponse)
       (ChannelHandler_SetChannelOverride txt e channelID targetType targetID permission effect)"
| "channel_handler txt e (DeleteChannelOverrideRequest channelID targetType targetID permission) =
     answer (\<lambda>_. DoneResponse) (ChannelHandler_DeleteChannelOverride txt e channelID targetType targetID permission)"
| "channel_handler txt e (ListChannelOverridesRequest channelID) =
     answer OverridesResponse (ChannelHandler_ListChannelOverrides txt e channelID)"

definition channel_serve ::
    "jwt_lib \<Rightarrow> env \<Rightarrow> string \<Rightarrow> string option \<Rightarrow> (channel_error \<Rightarrow> string) \<Rightarrow> channel_request \<Rightarrow>
     (server, channel_response) UnaryHandler" where
  "channel_serve J e secret violation txt req =
     unary_chain J e secret violation (channel_method req) (on_sv_db (channel_handler txt (at e 2) req))"

end
