(* ===== verification/ChannelApiLaws.thy ===== *)
theory ChannelApiLaws
  imports ChannelApi
begin

text \<open>What a call of the channel service may change, from the token of the request to the rows.\<close>

section \<open>The rights\<close>

definition manages_channels :: "env \<Rightarrow> string \<Rightarrow> world \<Rightarrow> uuid \<Rightarrow> bool" where
  "manages_channels e us w g = on_id (uuid_scan e) us (\<lambda>u. permitted w u g ''MANAGE_CHANNELS'')"

definition on_channel :: "env \<Rightarrow> string \<Rightarrow> world \<Rightarrow> (Channel \<Rightarrow> bool) \<Rightarrow> bool" where
  "on_channel e cs w Q =
     on_id (uuid_scan e) cs (\<lambda>c. case live_channel w c of None \<Rightarrow> False | Some ch \<Rightarrow> Q ch)"

definition in_dm :: "env \<Rightarrow> string \<Rightarrow> string \<Rightarrow> world \<Rightarrow> bool" where
  "in_dm e us cs w =
     on_id (uuid_scan e) us (\<lambda>u. on_id (uuid_scan e) cs (\<lambda>c. live_dm_member (dm_channel_members w) (c, u)))"

text \<open>An update or a deletion of a channel changes its row and publishes; nothing else.\<close>

definition only_row :: "uuid \<Rightarrow> world \<Rightarrow> world \<Rightarrow> bool" where
  "only_row c w w' \<longleftrightarrow> w'\<lparr>channels := channels w, outbox := outbox w\<rparr> = w \<and>
     filter (\<lambda>x. c_id x \<noteq> c) (channels w') = filter (\<lambda>x. c_id x \<noteq> c) (channels w)"

definition only_channel :: "env \<Rightarrow> string \<Rightarrow> world \<Rightarrow> world \<Rightarrow> bool" where
  "only_channel e cs w w' = on_id (uuid_scan e) cs (\<lambda>c. only_row c w w')"

text \<open>
  What a request needs of its caller, and what an update or a deletion leaves alone. A channel without a guild
  (a direct message or group) carries no right to update or delete it. Listing the overrides of a channel may refresh the cache of the authorisation client and
  nothing else.
\<close>

fun channel_allowed :: "env \<Rightarrow> string \<Rightarrow> channel_request \<Rightarrow> world \<Rightarrow> world \<Rightarrow> bool" where
  "channel_allowed e us (CreateChannelRequest g _ _ _ _) w w' =
     on_id (uuid_scan e) g (\<lambda>g. on_id (uuid_scan e) us (is_member w g) \<and> manages_channels e us w g)"
| "channel_allowed e us (UpdateChannelRequest c _ _ _ _) w w' =
     (on_channel e c w (\<lambda>ch. case c_guild_id ch of None \<Rightarrow> True | Some g \<Rightarrow> manages_channels e us w g) \<and>
      only_channel e c w w')"
| "channel_allowed e us (DeleteChannelRequest c) w w' =
     (on_channel e c w (\<lambda>ch. case c_guild_id ch of None \<Rightarrow> True | Some g \<Rightarrow> manages_channels e us w g) \<and>
      only_channel e c w w')"
| "channel_allowed e us (CreateDMChannelRequest rs) w w' = (uuid_scan e us \<noteq> None)"
| "channel_allowed e us (AddDMGroupMemberRequest c _) w w' = in_dm e us c w"
| "channel_allowed e us (RemoveDMGroupMemberRequest c _) w w' = in_dm e us c w"
| "channel_allowed e us (SetChannelOverrideRequest c _ _ _ _) w w' =
     on_channel e c w (\<lambda>ch. case c_guild_id ch of None \<Rightarrow> False | Some g \<Rightarrow> manages_channels e us w g)"
| "channel_allowed e us (DeleteChannelOverrideRequest c _ _ _) w w' =
     on_channel e c w (\<lambda>ch. case c_guild_id ch of None \<Rightarrow> False | Some g \<Rightarrow> manages_channels e us w g)"
| "channel_allowed e us (ListChannelOverridesRequest _) w w' \<longleftrightarrow> w'\<lparr>chanGuildCache := chanGuildCache w\<rparr> = w"
| "channel_allowed e us _ w w' = False"

lemma manages_channels_iff:
  assumes "codec_ok e" and "\<not> authz_nil e"
  shows "CanManageChannels (at e i) us gs w \<Longrightarrow> uuid_scan e gs = Some g \<Longrightarrow> manages_channels e us w g"
  using assms by (auto simp: CanManageChannels_def Check_keys catalogue_lookups manages_channels_def)

lemma only_row_update:
  assumes "\<And>x. c_id (f x) = c_id x"
  shows "only_row c w (w\<lparr>channels := update_where (\<lambda>x. c_id x = c) f (channels w)\<rparr>)"
proof -
  have "filter (\<lambda>x. c_id x \<noteq> c) (update_where (\<lambda>x. c_id x = c) f xs) = filter (\<lambda>x. c_id x \<noteq> c) xs" for xs
    by (induction xs) (auto simp: assms)
  then show ?thesis by (simp add: only_row_def)
qed

lemma only_row_Publish [simp]: "only_row c w (Publish s v w1) = only_row c w w1"
  by (simp add: only_row_def Publish_def)

lemma only_row_publishDM [simp]: "only_row c w (publishDMChannelEvent e t ch ms w1) = only_row c w w1"
proof -
  have "only_row c w (fold (\<lambda>m. Publish (f m) v) ms w1) = only_row c w w1" for f v
    by (induction ms arbitrary: w1) simp_all
  then show ?thesis by (auto simp: publishDMChannelEvent_def Let_def split: sum.splits)
qed

lemma UpdateChannel_only:
  assumes "snd (UpdateChannel e us cs nm tp pos par w) \<noteq> w"
  shows "only_channel e cs w (snd (UpdateChannel e us cs nm tp pos par w))"
  using assms
  by (auto simp: UpdateChannel_def parseUUID_def q_UpdateChannel_def run_stmt_Inr update_returning_Inr Let_def
      only_channel_def on_id_def only_row_update split: if_splits option.splits sum.splits)

lemma DeleteChannel_only:
  assumes "snd (DeleteChannel e us cs w) \<noteq> w"
  shows "only_channel e cs w (snd (DeleteChannel e us cs w))"
  using assms
  by (auto simp: DeleteChannel_def parseUUID_def q_DeleteChannel_def run_stmt_Inr Let_def
      only_channel_def on_id_def only_row_update split: if_splits option.splits sum.splits)

lemma channel_gates:
  assumes "codec_ok e" and "uuid_string e = uuid_text" and "\<not> authz_nil e"
  shows "snd (CreateChannel e us gs name ty topic parent w) \<noteq> w \<Longrightarrow>
      channel_allowed e us (CreateChannelRequest gs name ty topic parent) w w'"
    and "snd (UpdateChannel e us cs nm tp pos par w) \<noteq> w \<Longrightarrow>
      channel_allowed e us (UpdateChannelRequest cs nm tp pos par) w (snd (UpdateChannel e us cs nm tp pos par w))"
    and "snd (DeleteChannel e us cs w) \<noteq> w \<Longrightarrow>
      channel_allowed e us (DeleteChannelRequest cs) w (snd (DeleteChannel e us cs w))"
    and "snd (CreateDMChannel e us rs w) \<noteq> w \<Longrightarrow> channel_allowed e us (CreateDMChannelRequest rs) w w'"
    and "snd (AddDMGroupMember e us cs ts w) \<noteq> w \<Longrightarrow> channel_allowed e us (AddDMGroupMemberRequest cs ts) w w'"
    and "snd (RemoveDMGroupMember e us cs ts w) \<noteq> w \<Longrightarrow> channel_allowed e us (RemoveDMGroupMemberRequest cs ts) w w'"
    and "snd (SetChannelOverride e us cs tt tid perm eff w) \<noteq> w \<Longrightarrow>
      channel_allowed e us (SetChannelOverrideRequest cs tt tid perm eff) w w'"
    and "snd (DeleteChannelOverride e us cs tt tid perm w) \<noteq> w \<Longrightarrow>
      channel_allowed e us (DeleteChannelOverrideRequest cs tt tid perm) w w'"
proof -
  have scan: "uuid_scan e (uuid_text x) = Some x" for x
    using codec_okD [OF assms(1)] assms(2) by simp
  have can: "CanManageChannels (at e i) us (uuidToString (Some g)) w \<Longrightarrow> manages_channels e us w g" for i g
    using manages_channels_iff [OF assms(1,3), of i us "uuid_text g" w g] scan by (simp add: uuidToString_def)
  note simps = parseUUID_def q_GetChannelByID_Inr q_IsDMChannelMember_def run_stmt_def on_channel_def in_dm_def
  show "channel_allowed e us (CreateChannelRequest gs name ty topic parent) w w'"
    if "snd (CreateChannel e us gs name ty topic parent w) \<noteq> w"
    using that manages_channels_iff [OF assms(1,3), of 1 us gs w]
    by (auto simp: CreateChannel_def simps q_GetGuildMember_ok split: if_splits option.splits)
  have "on_channel e cs w (\<lambda>ch. case c_guild_id ch of None \<Rightarrow> True | Some g \<Rightarrow> manages_channels e us w g)"
    if "snd (UpdateChannel e us cs nm tp pos par w) \<noteq> w"
    using that can by (auto simp: UpdateChannel_def simps split: sum.splits if_splits option.splits)
  with UpdateChannel_only [of e us cs nm tp pos par w]
  show "channel_allowed e us (UpdateChannelRequest cs nm tp pos par) w (snd (UpdateChannel e us cs nm tp pos par w))"
    if "snd (UpdateChannel e us cs nm tp pos par w) \<noteq> w" using that by simp
  have "on_channel e cs w (\<lambda>ch. case c_guild_id ch of None \<Rightarrow> True | Some g \<Rightarrow> manages_channels e us w g)"
    if "snd (DeleteChannel e us cs w) \<noteq> w"
    using that can by (auto simp: DeleteChannel_def simps split: sum.splits if_splits option.splits)
  with DeleteChannel_only [of e us cs w]
  show "channel_allowed e us (DeleteChannelRequest cs) w (snd (DeleteChannel e us cs w))"
    if "snd (DeleteChannel e us cs w) \<noteq> w" using that by simp
  show "channel_allowed e us (CreateDMChannelRequest rs) w w'" if "snd (CreateDMChannel e us rs w) \<noteq> w"
    using that by (auto simp: CreateDMChannel_def simps split: if_splits option.splits)
  show "channel_allowed e us (AddDMGroupMemberRequest cs ts) w w'" if "snd (AddDMGroupMember e us cs ts w) \<noteq> w"
    using that by (auto simp: AddDMGroupMember_def simps split: sum.splits if_splits option.splits)
  show "channel_allowed e us (RemoveDMGroupMemberRequest cs ts) w w'" if "snd (RemoveDMGroupMember e us cs ts w) \<noteq> w"
    using that by (auto simp: RemoveDMGroupMember_def simps split: sum.splits if_splits option.splits)
  show "channel_allowed e us (SetChannelOverrideRequest cs tt tid perm eff) w w'"
    if "snd (SetChannelOverride e us cs tt tid perm eff w) \<noteq> w"
    using that can by (auto simp: SetChannelOverride_def simps Let_def split: sum.splits if_splits option.splits)
  show "channel_allowed e us (DeleteChannelOverrideRequest cs tt tid perm) w w'"
    if "snd (DeleteChannelOverride e us cs tt tid perm w) \<noteq> w"
    using that can by (auto simp: DeleteChannelOverride_def simps Let_def split: sum.splits if_splits option.splits)
qed

lemma overrides_keep: "(snd (ListChannelOverrides e us cs w))\<lparr>chanGuildCache := chanGuildCache w\<rparr> = w"
  using checkChannel_keeps [of w "at e 0" us cs "''can_view_channels''"]
  by (auto simp: ListChannelOverrides_def CanViewChannel_def split: prod.splits bool.splits sum.splits)

lemmas channel_handler_defs =
  ChannelHandler_CreateChannel_def ChannelHandler_GetChannel_def ChannelHandler_UpdateChannel_def
  ChannelHandler_DeleteChannel_def ChannelHandler_ListGuildChannels_def ChannelHandler_CreateDMChannel_def
  ChannelHandler_ListDMChannels_def ChannelHandler_ListDMChannelMembers_def
  ChannelHandler_ListDMChannelsWithMembers_def ChannelHandler_AddDMGroupMember_def
  ChannelHandler_RemoveDMGroupMember_def ChannelHandler_SetChannelOverride_def
  ChannelHandler_DeleteChannelOverride_def ChannelHandler_ListChannelOverrides_def

lemma channel_methods: "channel_method req \<notin> set publicMethods" "\<not> exempt (channel_method req)"
  by (cases req; simp add: publicMethods_def exempt_def)+

lemma channel_handler_changed:
  assumes "codec_ok e" and "uuid_string e = uuid_text" and "\<not> authz_nil e"
    and "snd (channel_handler tx e req ctx w) \<noteq> w"
  shows "channel_allowed e (UserIDFromContext ctx) req w (snd (channel_handler tx e req ctx w))"
  using assms(4)
  by (cases req; simp add: channel_handler_defs snd_guards overrides_keep del: channel_allowed.simps(1-8)
        split: if_split_asm;
      (elim channel_gates [OF assms(1-3)])?)

interpretation channel_api: guarded_api channel_method "channel_handler tx e"
  "\<lambda>u req w w'. codec_ok e \<longrightarrow> uuid_string e = uuid_text \<longrightarrow> \<not> authz_nil e \<longrightarrow>
     channel_allowed e u req w w'" for tx e
  by unfold_locales (simp_all add: channel_methods channel_handler_changed)

text \<open>
  C28: authorisation of the channel service end to end. Whatever call of it changes the state, failing
  statements included, carries an accepted token, and the tables give the user the token was signed
  for the right the request needs: MANAGE_CHANNELS in the guild of the channel (and membership to
  create one), membership of the group to add or remove a member. The one exception is the update or deletion
  of a channel without a guild, a direct message or group: the service asks for nothing but the token. Every update
  or deletion changes no row but that of the channel it names.
\<close>

theorem channel_calls_authorised:
  assumes "codec_ok e" and "uuid_string e = uuid_text" and "\<not> authz_nil e"
    and "sv_db (snd (channel_serve J e secret violation tx req ctx s)) \<noteq> sv_db s"
  shows "\<exists>u. extractUserID J (clock e [1]) secret ctx = Inr u \<and>
    channel_allowed (at e 2) u req (sv_db s) (sv_db (snd (channel_serve J e secret violation tx req ctx s)))"
  using channel_api.served_allowed [of J e secret violation req tx "at e 2" ctx s] assms
  by (auto simp: channel_serve_def)

lemma dm_created:
  assumes "fault_free e" and "uuid_scan e us = Some 5"
  shows "channels (snd (CreateDMChannel e us [us] lone_world)) \<noteq> channels lone_world"
  using assms
  by (simp add: CreateDMChannel_def parseUUID_def q_GetDMChannelBetweenUsers_def one_row_def new_dm_channel_def
      q_CreateDMChannel_def q_AddDMChannelMember_def lone_world_def empty_world_def channel_row_def user_row_def
      one_user_def publishDMChannelCreated_def Let_def)

lemma dm_call_runs:
  "sv_db (snd (channel_serve plain_jwt (text_env (\<lambda>_. 9) (\<lambda>_. 5)) ''k'' None (\<lambda>_. [])
     (CreateDMChannelRequest [uuid_text 5]) (call_ctx (token_for (uuid_text 5))) lone_server)) \<noteq> sv_db lone_server"
proof -
  have "uuid_text 5 \<noteq> []" using uuid_read_text [of 5] by (auto simp: uuid_read_def)
  moreover have "uuid_scan (at (text_env (\<lambda>_. 9) (\<lambda>_. 5)) 2) (uuid_text 5) = Some 5"
    by (simp add: text_env_def uuid_read_text)
  ultimately show ?thesis
    using dm_created [of "at (text_env (\<lambda>_. 9) (\<lambda>_. 5)) 2" "uuid_text 5"]
    by (auto simp: channel_serve_def lone_call publicMethods_def exempt_def ChannelHandler_CreateDMChannel_def
        snd_with_caller_text UserIDFromContext_def)
qed

theorem channel_calls_authorised_witness:
  "\<exists>u. extractUserID plain_jwt 5 ''k'' (call_ctx (token_for (uuid_text 5))) = Inr u \<and>
     uuid_scan (text_env (\<lambda>_. 9) (\<lambda>_. 5)) u \<noteq> None"
proof -
  have "uuid_string (text_env (\<lambda>_. 9) (\<lambda>_. 5)) = uuid_text" by (simp add: text_env_def)
  from channel_calls_authorised [OF _ this _ dm_call_runs] show ?thesis by simp
qed

end
