(* ===== verification/MessageApi.thy ===== *)
theory MessageApi
  imports Api MessageLaws
begin

text \<open>
  The gRPC surface of the message and media services, internal/features/message/handler.go and
  internal/features/media/handler.go. The state is the chat: the message tables together with the
  relational store. A nil dereference of the service is not turned into a status: nothing recovers
  from it, and it ends the process.
\<close>

datatype api_error = ApiStatus status | ApiPanic

type_synonym 'r chat_handler = "rpc_ctx \<Rightarrow> chat \<Rightarrow> (api_error + 'r) \<times> chat"

text \<open>
  What the handlers are built with: the service's own collaborators, whether the resolver of guilds
  is wired, and the texts of the errors.
\<close>

record message_api_deps =
  ma_svc :: message_deps
  ma_guildResolver :: bool
  ma_text :: "message_error \<Rightarrow> string"

section \<open>Messages\<close>

record ReactionProto =
  rx_Emoji :: string
  rx_Count :: int
  rx_Me :: bool

record AttachmentProto =
  ap_Id :: string
  ap_Filename :: string
  ap_Url :: string
  ap_ContentType :: string
  ap_Size :: int

record MessageProto =
  mg_Id :: string
  mg_ChannelId :: string
  mg_AuthorId :: string
  mg_Content :: string
  mg_Type :: int
  mg_Pinned :: bool
  mg_CreatedAt :: time
  mg_ReplyToId :: string
  mg_EditedAt :: "time option"
  mg_ForwardedFrom :: "(string \<times> string \<times> string) option"
  mg_MentionUserIds :: "string list"
  mg_Reactions :: "ReactionProto list"
  mg_Attachments :: "AttachmentProto list"

definition attachmentsToProto :: "env \<Rightarrow> MessageAttachments list \<Rightarrow> AttachmentProto list" where
  "attachmentsToProto e = map (\<lambda>a.
     \<lparr>ap_Id = uuid_string e (uuidValue (at_Id a)), ap_Filename = stringValue (at_Filename a),
      ap_Url = stringValue (at_Url a), ap_ContentType = stringValue (at_ContentType a),
      ap_Size = int64Value (at_Size a)\<rparr>)"

text \<open>The reactions and attachments are read again for every message; a failed read leaves them empty.\<close>

definition messageToProto :: "env \<Rightarrow> message_api_deps \<Rightarrow> Messages \<Rightarrow> string \<Rightarrow> chat \<Rightarrow> MessageProto" where
  "messageToProto e d m currentUserID c =
     (let msgID = uuid_string e (uuidValue (m_Id m));
          channelID = uuid_string e (uuidValue (m_ChannelId m));
          fwd = uuidValue (m_ForwardedFromMessageId m)
      in \<lparr>mg_Id = msgID, mg_ChannelId = channelID,
          mg_AuthorId = uuid_string e (uuidValue (m_AuthorId m)), mg_Content = stringValue (m_Content m),
          mg_Type = int32 (int64Value (m_Type m)), mg_Pinned = boolValue (m_Pinned m),
          mg_CreatedAt = timeValue (m_CreatedAt m),
          mg_ReplyToId = (if uuidValue (m_ReplyToId m) = 0 then [] else uuid_string e (uuidValue (m_ReplyToId m))),
          mg_EditedAt = m_EditedAt m,
          mg_ForwardedFrom =
            (if fwd = 0 then None
             else Some (uuid_string e (uuidValue (m_ForwardedFromChannelId m)), uuid_string e fwd,
                        uuid_string e (uuidValue (m_ForwardedFromAuthorId m)))),
          mg_MentionUserIds = map (uuid_string e) (uuidSliceValue (m_MentionUserIds m)),
          mg_Reactions =
            (case GetReactions (at e 0) (ma_svc d) channelID msgID currentUserID c of
               Inl _ \<Rightarrow> []
             | Inr rs \<Rightarrow> map (\<lambda>r. \<lparr>rx_Emoji = rc_Emoji r, rx_Count = rc_Count r, rx_Me = rc_Me r\<rparr>) rs),
          mg_Attachments =
            (case GetAttachments (at e 1) (ma_svc d) channelID msgID c of
               Inl _ \<Rightarrow> [] | Inr atts \<Rightarrow> attachmentsToProto e atts)\<rparr>)"

text \<open>The messages of a list, each converted at its own site.\<close>

fun messagesToProto :: "env \<Rightarrow> nat \<Rightarrow> message_api_deps \<Rightarrow> string \<Rightarrow> chat \<Rightarrow> Messages list \<Rightarrow> MessageProto list" where
  "messagesToProto e i d currentUserID c [] = []"
| "messagesToProto e i d currentUserID c (m # ms) =
     messageToProto (at e i) d m currentUserID c # messagesToProto e (i + 1) d currentUserID c ms"

section \<open>Errors\<close>

definition message_code :: "message_error \<Rightarrow> Code" where
  "message_code x =
     (if x = ErrMessageNotFound then NotFound
      else if x \<in> {message_error.ErrInvalidUUID, ErrChannelRequired, ErrContentRequired, ErrEmojiRequired, ErrMessageRequired}
      then InvalidArgument
      else if x = message_error.ErrUserBlocked then FailedPrecondition
      else if x \<in> {ErrNotMessageAuthor, message_error.ErrInsufficientPermissions} then PermissionDenied
      else Internal)"

definition message_mapError :: "message_api_deps \<Rightarrow> message_error \<Rightarrow> api_error" where
  "message_mapError d x = (if x = NilDeref then ApiPanic else ApiStatus (Status (message_code x) (ma_text d x)))"

definition chat_result ::
    "message_api_deps \<Rightarrow> ('a \<Rightarrow> chat \<Rightarrow> 'r) \<Rightarrow> (message_error + 'a) \<times> chat \<Rightarrow> (api_error + 'r) \<times> chat" where
  "chat_result d f rc =
     (case fst rc of Inl x \<Rightarrow> Inl (message_mapError d x) | Inr a \<Rightarrow> Inr (f a (snd rc)), snd rc)"

definition with_chat_user :: "(string \<Rightarrow> 'r chat_handler) \<Rightarrow> 'r chat_handler" where
  "with_chat_user h ctx c =
     (if UserIDFromContext ctx = [] then (Inl (ApiStatus (Status Unauthenticated ''not authenticated'')), c)
      else h (UserIDFromContext ctx) ctx c)"

definition resolveGuildID :: "env \<Rightarrow> message_api_deps \<Rightarrow> string \<Rightarrow> chat \<Rightarrow> string" where
  "resolveGuildID e d channelID c = (if ma_guildResolver d then GetChannelGuildID e channelID (pg c) else [])"

section \<open>Sending and reading\<close>

definition MessageHandler_SendMessage ::
    "env \<Rightarrow> message_api_deps \<Rightarrow> string \<Rightarrow> string \<Rightarrow> int \<Rightarrow> string \<Rightarrow> string list \<Rightarrow> (string \<times> string) option \<Rightarrow> string list \<Rightarrow>
     MessageProto chat_handler" where
  "MessageHandler_SendMessage e d channelID content ty replyToID attachmentIDs forwarded mentionIDs =
     with_chat_user (\<lambda>userID ctx c.
       if content = [] \<and> attachmentIDs = []
       then (Inl (ApiStatus (Status InvalidArgument ''content or attachments required'')), c)
       else let guildID = resolveGuildID (at e 0) d channelID c;
                fwd = (case forwarded of
                         Some (fromChannel, fromMessage) \<Rightarrow>
                           if fromMessage \<noteq> [] then Some \<lparr>fs_ChannelID = fromChannel, fs_MessageID = fromMessage\<rparr> else None
                       | None \<Rightarrow> None)
            in chat_result d (\<lambda>(m, atts) c'. (messageToProto (at e 2) d m userID c')
                  \<lparr>mg_Attachments := attachmentsToProto e atts\<rparr>)
                 (SendMessage (at e 1) (ma_svc d) userID channelID guildID content ty replyToID attachmentIDs fwd mentionIDs c))"

definition MessageHandler_SendDirectMessage ::
    "env \<Rightarrow> message_api_deps \<Rightarrow> string \<Rightarrow> string \<Rightarrow> (string \<times> MessageProto) chat_handler" where
  "MessageHandler_SendDirectMessage e d recipientID content =
     with_chat_user (\<lambda>userID ctx c.
       chat_result d (\<lambda>(channelID, m) c'. (channelID, messageToProto (at e 1) d m userID c'))
         (SendDirectMessage (at e 0) (ma_svc d) userID recipientID content c))"

definition MessageHandler_GetMessage :: "env \<Rightarrow> message_api_deps \<Rightarrow> string \<Rightarrow> string \<Rightarrow> MessageProto chat_handler" where
  "MessageHandler_GetMessage e d channelID messageID ctx c =
     chat_result d (\<lambda>m c'. messageToProto (at e 1) d m (UserIDFromContext ctx) c')
       (GetMessage (at e 0) (ma_svc d) channelID messageID c, c)"

definition MessageHandler_ListMessages ::
    "env \<Rightarrow> message_api_deps \<Rightarrow> string \<Rightarrow> string \<Rightarrow> string \<Rightarrow> int \<Rightarrow> MessageProto list chat_handler" where
  "MessageHandler_ListMessages e d channelID before after lim ctx c =
     chat_result d (\<lambda>ms c'. messagesToProto (at e 1) 0 d (UserIDFromContext ctx) c' ms)
       (ListMessages (at e 0) (ma_svc d) (UserIDFromContext ctx) channelID before after lim c)"

definition MessageHandler_SearchMessages ::
    "env \<Rightarrow> message_api_deps \<Rightarrow> string \<Rightarrow> string \<Rightarrow> int \<Rightarrow> (MessageProto list \<times> int) chat_handler" where
  "MessageHandler_SearchMessages e d channelID query lim =
     with_chat_user (\<lambda>userID ctx c.
       chat_result d (\<lambda>ms c'. (messagesToProto (at e 1) 0 d userID c' ms, int32 (int (length ms))))
         (SearchMessages (at e 0) (ma_svc d) channelID query lim c, c))"

definition MessageHandler_GetThreadMessages ::
    "env \<Rightarrow> message_api_deps \<Rightarrow> string \<Rightarrow> string \<Rightarrow> int \<Rightarrow> MessageProto list chat_handler" where
  "MessageHandler_GetThreadMessages e d channelID parentID lim =
     with_chat_user (\<lambda>userID ctx c.
       chat_result d (\<lambda>ms c'. messagesToProto (at e 1) 0 d userID c' ms)
         (GetThreadMessages (at e 0) (ma_svc d) channelID parentID lim c, c))"

definition MessageHandler_GetEditHistory ::
    "env \<Rightarrow> message_api_deps \<Rightarrow> string \<Rightarrow> string \<Rightarrow> (string \<times> time) list chat_handler" where
  "MessageHandler_GetEditHistory e d channelID messageID =
     with_chat_user (\<lambda>userID ctx c.
       chat_result d (\<lambda>edits _. map (\<lambda>h. (stringValue (eh_OldContent h), timeValue (eh_EditedAt h))) edits)
         (GetEditHistory (at e 0) (ma_svc d) channelID messageID c, c))"

section \<open>Changing messages\<close>

definition MessageHandler_EditMessage ::
    "env \<Rightarrow> message_api_deps \<Rightarrow> string \<Rightarrow> string \<Rightarrow> string \<Rightarrow> MessageProto chat_handler" where
  "MessageHandler_EditMessage e d channelID messageID content =
     with_chat_user (\<lambda>userID ctx c.
       chat_result d (\<lambda>m c'. messageToProto (at e 2) d m userID c')
         (EditMessage (at e 1) (ma_svc d) userID channelID (resolveGuildID (at e 0) d channelID c) messageID content c))"

definition MessageHandler_DeleteMessage :: "env \<Rightarrow> message_api_deps \<Rightarrow> string \<Rightarrow> string \<Rightarrow> unit chat_handler" where
  "MessageHandler_DeleteMessage e d channelID messageID =
     with_chat_user (\<lambda>userID ctx c.
       chat_result d (\<lambda>_ _. ())
         (DeleteMessage (at e 1) (ma_svc d) userID channelID (resolveGuildID (at e 0) d channelID c) messageID c))"

text \<open>The handler names no guild.\<close>

definition MessageHandler_BulkDeleteMessages ::
    "env \<Rightarrow> message_api_deps \<Rightarrow> string \<Rightarrow> string list \<Rightarrow> int chat_handler" where
  "MessageHandler_BulkDeleteMessages e d channelID messageIDs =
     with_chat_user (\<lambda>userID ctx c.
       chat_result d (\<lambda>n _. int32 n) (BulkDeleteMessages (at e 0) (ma_svc d) userID channelID [] messageIDs c))"

definition MessageHandler_PinMessage :: "env \<Rightarrow> message_api_deps \<Rightarrow> string \<Rightarrow> string \<Rightarrow> unit chat_handler" where
  "MessageHandler_PinMessage e d channelID messageID ctx c =
     chat_result d (\<lambda>_ _. ())
       (PinMessage (at e 1) (ma_svc d) (UserIDFromContext ctx) channelID (resolveGuildID (at e 0) d channelID c) messageID c)"

definition MessageHandler_UnpinMessage :: "env \<Rightarrow> message_api_deps \<Rightarrow> string \<Rightarrow> string \<Rightarrow> unit chat_handler" where
  "MessageHandler_UnpinMessage e d channelID messageID ctx c =
     chat_result d (\<lambda>_ _. ())
       (UnpinMessage (at e 1) (ma_svc d) (UserIDFromContext ctx) channelID (resolveGuildID (at e 0) d channelID c) messageID c)"

definition MessageHandler_AddReaction ::
    "env \<Rightarrow> message_api_deps \<Rightarrow> string \<Rightarrow> string \<Rightarrow> string \<Rightarrow> unit chat_handler" where
  "MessageHandler_AddReaction e d channelID messageID emoji =
     with_chat_user (\<lambda>userID ctx c.
       chat_result d (\<lambda>_ _. ())
         (AddReaction (at e 1) (ma_svc d) userID channelID (resolveGuildID (at e 0) d channelID c) messageID emoji c))"

definition MessageHandler_RemoveReaction ::
    "env \<Rightarrow> message_api_deps \<Rightarrow> string \<Rightarrow> string \<Rightarrow> string \<Rightarrow> unit chat_handler" where
  "MessageHandler_RemoveReaction e d channelID messageID emoji =
     with_chat_user (\<lambda>userID ctx c.
       chat_result d (\<lambda>_ _. ())
         (RemoveReaction (at e 1) (ma_svc d) userID channelID (resolveGuildID (at e 0) d channelID c) messageID emoji c))"

definition MessageHandler_AckMessage :: "env \<Rightarrow> message_api_deps \<Rightarrow> string \<Rightarrow> string \<Rightarrow> unit chat_handler" where
  "MessageHandler_AckMessage e d channelID messageID =
     with_chat_user (\<lambda>userID ctx c.
       chat_result d (\<lambda>_ _. ())
         (AckMessage (at e 1) (ma_svc d) userID channelID (resolveGuildID (at e 0) d channelID c) messageID c))"

definition MessageHandler_StartTyping :: "env \<Rightarrow> message_api_deps \<Rightarrow> string \<Rightarrow> string \<Rightarrow> unit chat_handler" where
  "MessageHandler_StartTyping e d channelID name =
     with_chat_user (\<lambda>userID ctx c.
       chat_result d (\<lambda>_ _. ())
         (StartTyping (at e 1) (ma_svc d) name userID channelID (resolveGuildID (at e 0) d channelID c) c))"

section \<open>Unread counts\<close>

record UnreadDM =
  ud_ChannelId :: string
  ud_SenderId :: string
  ud_SenderName :: string
  ud_UnreadCount :: int
  ud_MentionCount :: int
  ud_LastReadMessageId :: string
  ud_Messages :: "MessageProto list"
  ud_LastMessageAt :: time

record UnreadChannelMessage =
  uc_ChannelId :: string
  uc_GuildId :: string
  uc_ChannelName :: string
  uc_UnreadCount :: int
  uc_MentionCount :: int
  uc_LastReadMessageId :: string
  uc_Messages :: "MessageProto list"
  uc_LastMessageAt :: time

fun split_unreads ::
    "env \<Rightarrow> nat \<Rightarrow> message_api_deps \<Rightarrow> string \<Rightarrow> chat \<Rightarrow> UnreadInfo list \<Rightarrow> UnreadDM list \<times> UnreadChannelMessage list" where
  "split_unreads e i d userID c [] = ([], [])"
| "split_unreads e i d userID c (u # us) =
     (let pbMsgs = messagesToProto (at e i) 0 d userID c (ui_RecentMessages u);
          (dms, chMsgs) = split_unreads e (i + 1) d userID c us
      in if ui_IsDM u
         then (\<lparr>ud_ChannelId = ui_ChannelID u, ud_SenderId = ui_SenderID u, ud_SenderName = ui_SenderName u,
                ud_UnreadCount = ui_UnreadCount u, ud_MentionCount = ui_MentionCount u,
                ud_LastReadMessageId = ui_LastReadMsgID u, ud_Messages = pbMsgs,
                ud_LastMessageAt = ui_LastMessageTime u\<rparr> # dms, chMsgs)
         else (dms, \<lparr>uc_ChannelId = ui_ChannelID u, uc_GuildId = ui_GuildID u, uc_ChannelName = ui_ChannelName u,
                     uc_UnreadCount = ui_UnreadCount u, uc_MentionCount = ui_MentionCount u,
                     uc_LastReadMessageId = ui_LastReadMsgID u, uc_Messages = pbMsgs,
                     uc_LastMessageAt = ui_LastMessageTime u\<rparr> # chMsgs))"

definition MessageHandler_GetUnreadCounts ::
    "env \<Rightarrow> message_api_deps \<Rightarrow> (UnreadDM list \<times> UnreadChannelMessage list \<times> int) chat_handler" where
  "MessageHandler_GetUnreadCounts e d =
     with_chat_user (\<lambda>userID ctx c.
       chat_result d (\<lambda>(unreads, cnt) c'.
           (case split_unreads (at e 1) 0 d userID c' unreads of (dms, chMsgs) \<Rightarrow> (dms, chMsgs, cnt)))
         (GetUnreadCounts (at e 0) (ma_svc d) userID c, c))"

section \<open>Media\<close>

definition media_status :: "(media_error \<Rightarrow> string) \<Rightarrow> string \<Rightarrow> media_error \<Rightarrow> status" where
  "media_status tx msg x = Status Internal (msg @ tx x)"

definition MediaHandler_RequestUpload ::
    "(media_error \<Rightarrow> string) \<Rightarrow> env \<Rightarrow> (string \<Rightarrow> string option) \<Rightarrow> string \<Rightarrow> string \<Rightarrow> int \<Rightarrow> (chat, string \<times> string) UnaryHandler" where
  "MediaHandler_RequestUpload tx e presign filename contentType sz ctx c =
     (if UserIDFromContext ctx = [] then (Inl (Status Unauthenticated ''missing user id''), c)
      else map_error (\<lambda>x. if x = ErrFileTooLarge \<or> x = ErrInvalidContentType then Status InvalidArgument (tx x)
                          else media_status tx ''failed to request upload: '' x)
        (RequestUpload e presign (UserIDFromContext ctx) filename contentType sz c))"

definition MediaHandler_ConfirmUpload ::
    "(media_error \<Rightarrow> string) \<Rightarrow> env \<Rightarrow> string \<Rightarrow> string \<Rightarrow> (chat, string \<times> string) UnaryHandler" where
  "MediaHandler_ConfirmUpload tx e base uploadID ctx c =
     map_error (media_status tx ''failed to confirm upload: '') (ConfirmUpload e base uploadID c)"

definition MediaHandler_GetDownloadURL ::
    "(media_error \<Rightarrow> string) \<Rightarrow> env \<Rightarrow> string \<Rightarrow> string \<Rightarrow> (chat, string \<times> time) UnaryHandler" where
  "MediaHandler_GetDownloadURL tx e base fileID ctx c =
     map_error (media_status tx ''failed to get download URL: '') (GetDownloadURL e base fileID c, c)"

definition MediaHandler_DeleteFile ::
    "(media_error \<Rightarrow> string) \<Rightarrow> env \<Rightarrow> (string \<Rightarrow> bool) \<Rightarrow> string \<Rightarrow> (chat, unit) UnaryHandler" where
  "MediaHandler_DeleteFile tx e remove fileID ctx c =
     map_error (media_status tx ''failed to delete file: '') (DeleteFile e remove fileID c)"

section \<open>A call behind the interceptors\<close>

text \<open>
  The interceptors run on Redis and the relational store; the handler then runs on the chat, in the
  context they leave it.
\<close>

definition chat_serve ::
    "jwt_lib \<Rightarrow> env \<Rightarrow> string \<Rightarrow> string option \<Rightarrow> string \<Rightarrow> 'r chat_handler \<Rightarrow> rpc_ctx \<Rightarrow> chat \<times> redis \<Rightarrow>
     (api_error + 'r) \<times> chat \<times> redis" where
  "chat_serve J e secret violation rpc h ctx s =
     (case unary_chain J e secret violation rpc (\<lambda>ctx s. (Inr ctx, s)) ctx \<lparr>sv_db = pg (fst s), sv_kv = snd s\<rparr> of
        (Inl st, s') \<Rightarrow> (Inl (ApiStatus st), fst s, sv_kv s')
      | (Inr ctx', s') \<Rightarrow> (case h ctx' (fst s) of (r, c) \<Rightarrow> (r, c, sv_kv s')))"

section \<open>The requests of the services\<close>

datatype message_request =
    SendMessageRequest string string int string "string list" "(string \<times> string) option" "string list"
  | GetMessageRequest string string
  | EditMessageRequest string string string
  | DeleteMessageRequest string string
  | ListMessagesRequest string string string int
  | PinMessageRequest string string
  | UnpinMessageRequest string string
  | AddReactionRequest string string string
  | RemoveReactionRequest string string string
  | AckMessageRequest string string
  | StartTypingRequest string string
  | SendDirectMessageRequest string string
  | GetUnreadCountsRequest
  | SearchMessagesRequest string string int
  | GetThreadMessagesRequest string string int
  | BulkDeleteMessagesRequest string "string list"
  | GetEditHistoryRequest string string

datatype message_response =
    MessageResponse MessageProto | MessagesResponse "MessageProto list" | DirectMessageResponse string MessageProto
  | UnreadCountsResponse "UnreadDM list" "UnreadChannelMessage list" int
  | SearchMessagesResponse "MessageProto list" int | BulkDeleteMessagesResponse int
  | EditHistoryResponse "(string \<times> time) list" | MessageDone

fun message_method :: "message_request \<Rightarrow> string" where
  "message_method (SendMessageRequest _ _ _ _ _ _ _) = ''/message.v1.MessageService/SendMessage''"
| "message_method (GetMessageRequest _ _) = ''/message.v1.MessageService/GetMessage''"
| "message_method (EditMessageRequest _ _ _) = ''/message.v1.MessageService/EditMessage''"
| "message_method (DeleteMessageRequest _ _) = ''/message.v1.MessageService/DeleteMessage''"
| "message_method (ListMessagesRequest _ _ _ _) = ''/message.v1.MessageService/ListMessages''"
| "message_method (PinMessageRequest _ _) = ''/message.v1.MessageService/PinMessage''"
| "message_method (UnpinMessageRequest _ _) = ''/message.v1.MessageService/UnpinMessage''"
| "message_method (AddReactionRequest _ _ _) = ''/message.v1.MessageService/AddReaction''"
| "message_method (RemoveReactionRequest _ _ _) = ''/message.v1.MessageService/RemoveReaction''"
| "message_method (AckMessageRequest _ _) = ''/message.v1.MessageService/AckMessage''"
| "message_method (StartTypingRequest _ _) = ''/message.v1.MessageService/StartTyping''"
| "message_method (SendDirectMessageRequest _ _) = ''/message.v1.MessageService/SendDirectMessage''"
| "message_method GetUnreadCountsRequest = ''/message.v1.MessageService/GetUnreadCounts''"
| "message_method (SearchMessagesRequest _ _ _) = ''/message.v1.MessageService/SearchMessages''"
| "message_method (GetThreadMessagesRequest _ _ _) = ''/message.v1.MessageService/GetThreadMessages''"
| "message_method (BulkDeleteMessagesRequest _ _) = ''/message.v1.MessageService/BulkDeleteMessages''"
| "message_method (GetEditHistoryRequest _ _) = ''/message.v1.MessageService/GetEditHistory''"

definition chat_answer :: "('r \<Rightarrow> 't) \<Rightarrow> 'r chat_handler \<Rightarrow> 't chat_handler" where
  "chat_answer f h ctx c = (case h ctx c of (Inl x, c') \<Rightarrow> (Inl x, c') | (Inr r, c') \<Rightarrow> (Inr (f r), c'))"

fun message_handler :: "env \<Rightarrow> message_api_deps \<Rightarrow> message_request \<Rightarrow> message_response chat_handler" where
  "message_handler e d (SendMessageRequest channelID content ty replyToID attachmentIDs forwarded mentionIDs) =
     chat_answer MessageResponse
       (MessageHandler_SendMessage e d channelID content ty replyToID attachmentIDs forwarded mentionIDs)"
| "message_handler e d (GetMessageRequest channelID messageID) =
     chat_answer MessageResponse (MessageHandler_GetMessage e d channelID messageID)"
| "message_handler e d (EditMessageRequest channelID messageID content) =
     chat_answer MessageResponse (MessageHandler_EditMessage e d channelID messageID content)"
| "message_handler e d (DeleteMessageRequest channelID messageID) =
     chat_answer (\<lambda>_. MessageDone) (MessageHandler_DeleteMessage e d channelID messageID)"
| "message_handler e d (ListMessagesRequest channelID before after lim) =
     chat_answer MessagesResponse (MessageHandler_ListMessages e d channelID before after lim)"
| "message_handler e d (PinMessageRequest channelID messageID) =
     chat_answer (\<lambda>_. MessageDone) (MessageHandler_PinMessage e d channelID messageID)"
| "message_handler e d (UnpinMessageRequest channelID messageID) =
     chat_answer (\<lambda>_. MessageDone) (MessageHandler_UnpinMessage e d channelID messageID)"
| "message_handler e d (AddReactionRequest channelID messageID emoji) =
     chat_answer (\<lambda>_. MessageDone) (MessageHandler_AddReaction e d channelID messageID emoji)"
| "message_handler e d (RemoveReactionRequest channelID messageID emoji) =
     chat_answer (\<lambda>_. MessageDone) (MessageHandler_RemoveReaction e d channelID messageID emoji)"
| "message_handler e d (AckMessageRequest channelID messageID) =
     chat_answer (\<lambda>_. MessageDone) (MessageHandler_AckMessage e d channelID messageID)"
| "message_handler e d (StartTypingRequest channelID name) =
     chat_answer (\<lambda>_. MessageDone) (MessageHandler_StartTyping e d channelID name)"
| "message_handler e d (SendDirectMessageRequest recipientID content) =
     chat_answer (\<lambda>(ch, m). DirectMessageResponse ch m) (MessageHandler_SendDirectMessage e d recipientID content)"
| "message_handler e d GetUnreadCountsRequest =
     chat_answer (\<lambda>(dms, chMsgs, cnt). UnreadCountsResponse dms chMsgs cnt) (MessageHandler_GetUnreadCounts e d)"
| "message_handler e d (SearchMessagesRequest channelID query lim) =
     chat_answer (\<lambda>(ms, cnt). SearchMessagesResponse ms cnt) (MessageHandler_SearchMessages e d channelID query lim)"
| "message_handler e d (GetThreadMessagesRequest channelID parentID lim) =
     chat_answer MessagesResponse (MessageHandler_GetThreadMessages e d channelID parentID lim)"
| "message_handler e d (BulkDeleteMessagesRequest channelID messageIDs) =
     chat_answer BulkDeleteMessagesResponse (MessageHandler_BulkDeleteMessages e d channelID messageIDs)"
| "message_handler e d (GetEditHistoryRequest channelID messageID) =
     chat_answer EditHistoryResponse (MessageHandler_GetEditHistory e d channelID messageID)"

definition message_serve ::
    "jwt_lib \<Rightarrow> env \<Rightarrow> string \<Rightarrow> string option \<Rightarrow> message_api_deps \<Rightarrow> message_request \<Rightarrow> rpc_ctx \<Rightarrow> chat \<times> redis \<Rightarrow>
     (api_error + message_response) \<times> chat \<times> redis" where
  "message_serve J e secret violation d req =
     chat_serve J e secret violation (message_method req) (message_handler (at e 2) d req)"

end
