(* ===== verification/MessageApiLaws.thy ===== *)
theory MessageApiLaws
  imports MessageApi
begin

text \<open>
  What a call of the message service may change, from the token of the request to the rows, and what
  the service leaves open.
\<close>

section \<open>A call behind the interceptors\<close>



section \<open>The message service\<close>


lemma snd_chat_result [simp]: "snd (chat_result d f rc) = snd rc"
  by (simp add: chat_result_def)

lemma snd_chat_answer [simp]: "snd (chat_answer f h ctx c) = snd (h ctx c)"
  by (auto simp: chat_answer_def split: prod.splits sum.splits)






lemma announce_tables [simp]: "chat_tables (snd (announce e d ty ch g u m as f r c)) = chat_tables c"
  by (auto simp: chat_tables_def announce_def publishChannelEvent_def split: sum.splits)











text \<open>
  The rights the requests need in a channel c of a guild g, as the tables have them: a right in the guild,
  and one in the channel, which the overrides of the channel may grant or take.
\<close>

definition guild_right :: "env \<Rightarrow> string \<Rightarrow> world \<Rightarrow> uuid \<Rightarrow> string \<Rightarrow> bool" where
  "guild_right e us w g name = on_id (uuid_scan e) us (\<lambda>u. permitted w u g name)"

definition channel_right :: "env \<Rightarrow> string \<Rightarrow> world \<Rightarrow> uuid \<Rightarrow> uuid \<Rightarrow> string \<Rightarrow> bool" where
  "channel_right e us w g c name = on_id (uuid_scan e) us
     (\<lambda>u. owns_guild w u g \<or> ''ADMINISTRATOR'' \<in> role_names w u g \<or> channel_decision w u g c name)"

definition guild_channel :: "env \<Rightarrow> world \<Rightarrow> string \<Rightarrow> uuid \<Rightarrow> uuid \<Rightarrow> bool" where
  "guild_channel e w chs g c \<longleftrightarrow>
     uuid_scan e chs = Some c \<and> (\<exists>ch. live_channel w c = Some ch \<and> c_guild_id ch = Some g)"






lemma cache_inv_at [simp]: "cache_inv (at e i) = cache_inv e"
  by (simp add: cache_inv_def cache_entry_ok_def fun_eq_iff)

lemma rights_at [simp]:
  "guild_right (at e i) = guild_right e" "channel_right (at e i) = channel_right e"
  "guild_channel (at e i) = guild_channel e"
  by (simp_all add: guild_right_def channel_right_def guild_channel_def fun_eq_iff)








text \<open>The author of a message deletes it, in the first call to the server.\<close>

definition chat_api :: message_api_deps where
  "chat_api = \<lparr>ma_svc = chat_deps, ma_guildResolver = True, ma_text = (\<lambda>_. [])\<rparr>"

lemma chat_api_sel [simp]: "ma_svc chat_api = chat_deps" "ma_guildResolver chat_api" "ma_text chat_api x = []"
  by (simp_all add: chat_api_def)

lemma group_has_no_guild: "resolveGuildID e chat_api chs chat_world = []"
  by (auto simp: resolveGuildID_def GetChannelGuildID_def GetChannel_def q_GetChannelByID_def run_stmt_def one_row_def
      parseUUID_def chat_world_def group_world_def pair_world_def empty_world_def live_channel_def uuidToString_def
      split: option.splits sum.splits)





section \<open>What the service leaves open\<close>

definition known_caller :: "string \<Rightarrow> rpc_ctx" where
  "known_caller u = \<lparr>peer_addr = None, incoming_md = None, UserIDKey = Some u\<rparr>"

lemma known_caller_id [simp]: "UserIDFromContext (known_caller u) = u"
  by (simp add: known_caller_def UserIDFromContext_def)

lemma send_plain:
  assumes "fault_free e" and "chs \<noteq> []" and "content \<noteq> []"
    and "gocqlParseUUID d chs = Some ch" and "gocqlParseUUID d us = Some u"
  shows "\<exists>msg c'. SendMessage e d us chs [] content ty [] [] None [] c = (Inr (msg, []), c') \<and>
    m_Content msg = Some content \<and>
    (\<exists>row. stored_message c' ch (fresh e [1]) = Some row \<and> m_AuthorId row = Some u \<and> m_Content row = Some content)"
proof -
  define create where "create = new_message (at e 1) d ch u content ty us []"
  obtain c1 where c1: "q_Createmessage (at (at e 4) 0) d create c = Inr c1"
    using assms(1) by (simp add: q_Createmessage_def)
  have "SendMessage e d us chs [] content ty [] [] None [] c =
      send_created (at e 4) d us chs [] [] False [] create c"
    using assms by (simp add: SendMessage_def send_allowed_def send_forward_def send_reply_def create_def)
  moreover have "send_created (at e 4) d us chs [] [] False [] create c =
      announce (at (at e 4) 4) d CHAT_EVENT_CREATE chs [] us (sent_message create False) [] (\<lambda>x. x)
        (sent_message create False, []) c1"
    using c1 by (simp add: send_created_def create_def new_message_def parse_mentions_def dedupMentions_def
        List.map_filter_simps Let_def split: option.splits)
  moreover have "m_Content (sent_message create False) = Some content" "m_Type (sent_message create False) \<noteq> None"
    "m_Pinned (sent_message create False) \<noteq> None"
    by (simp_all add: sent_message_def create_def new_message_def)
  ultimately obtain c' where c': "SendMessage e d us chs [] content ty [] [] None [] c = (Inr (sent_message create False, []), c')"
    "messages c' = messages c1" "m_Content (sent_message create False) = Some content"
    by (auto simp: announce_def buildMessageEvent_def)
  then have "stored_message c' = stored_message c1" by (intro stored_cong)
  with c' c1 show ?thesis
    by (auto simp: q_Createmessage_def run_stmt_Inr stored_put create_def new_message_def)
qed

text \<open>
  A channel that belongs to no guild is open to every caller who carries a token: whoever names it
  posts in it, member or not, and though blocked.
\<close>

theorem direct_channels_open:
  assumes "fault_free e" and "UserIDFromContext ctx \<noteq> []"
    and "chs \<noteq> []" and "content \<noteq> []" and "resolveGuildID (at e 0) d chs c = []"
    and "gocqlParseUUID (ma_svc d) chs = Some ch" and "gocqlParseUUID (ma_svc d) (UserIDFromContext ctx) = Some u"
  shows "\<exists>p c' row. MessageHandler_SendMessage e d chs content ty [] [] None [] ctx c = (Inr p, c') \<and>
    mg_Content p = content \<and> stored_message c' ch (fresh e [1, 1]) = Some row \<and>
    m_AuthorId row = Some u \<and> m_Content row = Some content"
  using send_plain [of "at e 1" chs content "ma_svc d" ch "UserIDFromContext ctx" u ty c] assms
  by (auto simp: MessageHandler_SendMessage_def with_chat_user_def chat_result_def messageToProto_def Let_def
      stringValue_def)

theorem direct_channels_open_witness:
  "\<exists>p c' row. MessageHandler_SendMessage tenv chat_api (uuid_text 4) ''hi'' 1 [] [] None []
       (known_caller (uuid_text 9)) chat_world = (Inr p, c') \<and>
     \<not> live_dm_member (dm_channel_members (pg chat_world)) (4, 9) \<and>
     stored_message c' 4 77 = Some row \<and> m_AuthorId row = Some 9"
proof -
  have "\<not> live_dm_member (dm_channel_members (pg chat_world)) (4, 9)"
    by (simp add: chat_world_def group_world_def pair_world_def live_dm_member_def)
  then show ?thesis
    using direct_channels_open [of tenv "known_caller (uuid_text 9)" "uuid_text 4" "''hi''" chat_api chat_world 4 9 1]
    by (auto simp: group_has_no_guild)
qed

lemma bulk_delete_children:
  "message_reactions (snd (bulk_delete e n ch ids c)) = message_reactions c \<and>
   message_attachments (snd (bulk_delete e n ch ids c)) = message_attachments c"
  by (induction ids arbitrary: n c)
    (auto simp: Repository_DeleteMessage_def q_Deletemessage_def put_message_def run_stmt_def prod.case_eq_if
      split: sum.splits)

lemma messageToProto_cong:
  assumes "message_reactions c' = message_reactions c" and "message_attachments c' = message_attachments c"
  shows "messageToProto e d m us c' = messageToProto e d m us c"
proof -
  have "GetReactions e' d' chs mids us c' = GetReactions e' d' chs mids us c" for e' d' chs mids
    using assms(1) by (simp add: GetReactions_def Repository_GetReactions_def q_Getreactions_def reactions_of_def
        split: option.split)
  moreover have "GetAttachments e' d' chs mids c' = GetAttachments e' d' chs mids c" for e' d' chs mids
    using assms(2) by (simp add: GetAttachments_def q_Getmessageattachments_def attachments_of_def split: option.split)
  ultimately show ?thesis by (simp add: messageToProto_def)
qed

text \<open>
  C11: what the service does not ask. Reading a message by its identifier needs no right, and deleting in
  bulk none but to carry a user: the handler names no guild, so that the permission is not checked. When no
  statement fails, any caller deletes any messages of any channel; afterwards nobody reads them, and every
  other message of the channel reads as before, for everyone, member or not.
\<close>

theorem any_message_deletable:
  assumes "fault_free e" and "fault_free e2" and "UserIDFromContext ctx \<noteq> []"
    and "gocqlParseUUID (ma_svc d) chs = Some ch" and "ids = List.map_filter (gocqlParseUUID (ma_svc d)) mids"
    and "(r, c') = MessageHandler_BulkDeleteMessages e d chs mids ctx c"
    and "gocqlParseUUID (ma_svc d) mid = Some i"
  shows "r = Inr (int32 (int (length ids))) \<and>
    fst (MessageHandler_GetMessage e2 d chs mid ctx2 c') =
      (if i \<in> set ids then Inl (ApiStatus (Status NotFound (ma_text d ErrMessageNotFound)))
       else fst (MessageHandler_GetMessage e2 d chs mid ctx2 c)) \<and>
    (\<forall>m. stored_message c ch i = Some m \<longrightarrow> live_msg m \<longrightarrow>
       fst (MessageHandler_GetMessage e2 d chs mid ctx2 c) =
         Inr (messageToProto (at e2 1) d m (UserIDFromContext ctx2) c))"
proof -
  define c1 where "c1 = snd (bulk_delete (at (at e 0) 1) 0 ch ids c)"
  have run: "r = Inr (int32 (int (length ids))) \<and> c' = c1"
    using assms bulk_delete_stored [of "at (at e 0) 1" 0 ch ids c]
    by (auto simp: MessageHandler_BulkDeleteMessages_def with_chat_user_def chat_result_def BulkDeleteMessages_def
        c1_def split: prod.splits)
  have stored: "dead c1 ch i \<longleftrightarrow> dead c ch i \<or> i \<in> set ids"
    "i \<notin> set ids \<longrightarrow> stored_message c1 ch i = stored_message c ch i"
    using bulk_delete_stored [of "at (at e 0) 1" 0 ch ids c ch i] assms(1) by (auto simp: c1_def)
  have proto: "messageToProto e' d m us c1 = messageToProto e' d m us c" for e' m us
    by (rule messageToProto_cong) (simp_all add: c1_def bulk_delete_children)
  have "\<not> dead c ch i" if "stored_message c ch i = Some m" "live_msg m" for m
    using that by (auto simp: dead_def)
  with run stored assms(2,4,7) show ?thesis
    by (auto simp: MessageHandler_GetMessage_def chat_result_def GetMessage_eq proto message_mapError_def
        message_code_def split: option.splits)
qed

theorem any_message_deletable_witness:
  "fst (MessageHandler_GetMessage tenv chat_api (uuid_text 4) (uuid_text 11)
     (known_caller (uuid_text 5))
     (snd (MessageHandler_BulkDeleteMessages tenv chat_api (uuid_text 4) [uuid_text 11]
        (known_caller ''nobody'') chat_world))) =
   Inl (ApiStatus (Status NotFound []))"
  using any_message_deletable [of tenv tenv "known_caller ''nobody''"
      chat_api "uuid_text 4" 4 "[11]" "[uuid_text 11]" _ _ chat_world "uuid_text 11" 11
      "known_caller (uuid_text 5)", OF _ _ _ _ _ prod.collapse]
  by (simp add: List.map_filter_simps)

end
