(* ===== verification/Migrate.thy ===== *)
theory Migrate
  imports SqlSplit "HOL-Library.Char_ord" "HOL-Library.List_Lexorder"
begin

text \<open>
  The migration command, cmd/init/main.go: the attempts to connect, the order of the files, how a file
  is cut into statements, and what a statement that fails does to the run. The databases answer
  through parameters: a connection attempt by its number, a file by its path, a statement by its
  error, if any, and the database after it. strings.ToUpper is a parameter, for the tables of Unicode.
\<close>

datatype migrate_error = NoConnection | NoKeyspace | NoMigrationFiles | ReadFailed string

text \<open>At most n attempts, the first of which has number i.\<close>

fun connect :: "nat \<Rightarrow> nat \<Rightarrow> (nat \<Rightarrow> bool) \<Rightarrow> bool" where
  "connect 0 i reach = False"
| "connect (Suc n) i reach = (reach i \<or> connect n (Suc i) reach)"

text \<open>Every statement runs; its error is looked at for the log only.\<close>

definition run_statements :: "(string \<Rightarrow> 'db \<Rightarrow> string option \<times> 'db) \<Rightarrow> string list \<Rightarrow> 'db \<Rightarrow> 'db" where
  "run_statements exec stmts db = fold (\<lambda>stmt db. snd (exec stmt db)) stmts db"

fun apply_files ::
    "(string \<Rightarrow> string list) \<Rightarrow> (string \<Rightarrow> string option) \<Rightarrow> (string \<Rightarrow> 'db \<Rightarrow> string option \<times> 'db) \<Rightarrow> string list \<Rightarrow> 'db \<Rightarrow>
     (migrate_error + unit) \<times> 'db" where
  "apply_files statements ReadFile exec [] db = (Inr (), db)"
| "apply_files statements ReadFile exec (f # fs) db =
     (case ReadFile f of
        None \<Rightarrow> (Inl (ReadFailed f), db)
      | Some dat \<Rightarrow> apply_files statements ReadFile exec fs (run_statements exec (statements dat) db))"

definition pg_statements :: "string \<Rightarrow> string list" where
  "pg_statements dat = SplitStatements (GooseUpSection dat)"

definition migratePG ::
    "(nat \<Rightarrow> bool) \<Rightarrow> string list \<Rightarrow> (string \<Rightarrow> string option) \<Rightarrow> (string \<Rightarrow> 'db \<Rightarrow> string option \<times> 'db) \<Rightarrow> 'db \<Rightarrow>
     (migrate_error + unit) \<times> 'db" where
  "migratePG reach files ReadFile exec db =
     (if \<not> connect 30 0 reach then (Inl NoConnection, db)
      else if files = [] then (Inl NoMigrationFiles, db)
      else apply_files pg_statements ReadFile exec (sort files) db)"

text \<open>strings.Split with a separator of one byte.\<close>

fun Split :: "char \<Rightarrow> string \<Rightarrow> string list" where
  "Split sep [] = [[]]"
| "Split sep (c # s) = (if c = sep then [] # Split sep s else (c # hd (Split sep s)) # tl (Split sep s))"

definition strip_comment_lines :: "string \<Rightarrow> string" where
  "strip_comment_lines dat =
     Join (filter (\<lambda>line. \<not> HasPrefix (TrimSpace line) ''--'') (Split (CHR 0x0A) dat)) [CHR 0x0A]"

definition skipped :: "(string \<Rightarrow> string) \<Rightarrow> string \<Rightarrow> bool" where
  "skipped ToUpper stmt \<longleftrightarrow>
     stmt = [] \<or> HasPrefix (ToUpper stmt) ''USE '' \<or> HasPrefix (ToUpper stmt) ''CREATE KEYSPACE''"

definition cql_statements :: "(string \<Rightarrow> string) \<Rightarrow> string \<Rightarrow> string list" where
  "cql_statements ToUpper dat =
     filter (\<lambda>stmt. \<not> skipped ToUpper stmt) (map TrimSpace (Split (CHR '';'') (strip_comment_lines dat)))"

definition create_keyspace :: "string \<Rightarrow> string" where
  "create_keyspace keyspace =
     [CHR 0x0A, CHR 0x09, CHR 0x09] @ ''CREATE KEYSPACE IF NOT EXISTS '' @ keyspace @
     [CHR 0x0A, CHR 0x09, CHR 0x09] @ ''WITH replication = {'' @ [CHR 0x27] @ ''class'' @ [CHR 0x27] @ '': '' @
     [CHR 0x27] @ ''SimpleStrategy'' @ [CHR 0x27] @ '', '' @ [CHR 0x27] @ ''replication_factor'' @ [CHR 0x27] @
     '': 1}'' @ [CHR 0x0A, CHR 0x09]"

text \<open>The attempts numbered from 0 open a session of the cluster; the last, number 60, one of the keyspace.\<close>

definition migrateScylla ::
    "(nat \<Rightarrow> bool) \<Rightarrow> (string \<Rightarrow> string) \<Rightarrow> string \<Rightarrow> string list \<Rightarrow> (string \<Rightarrow> string option) \<Rightarrow>
     (string \<Rightarrow> 'db \<Rightarrow> string option \<times> 'db) \<Rightarrow> 'db \<Rightarrow> (migrate_error + unit) \<times> 'db" where
  "migrateScylla reach ToUpper keyspace files ReadFile exec db =
     (if \<not> connect 60 0 reach then (Inl NoConnection, db)
      else case exec (create_keyspace keyspace) db of
        (Some _, db1) \<Rightarrow> (Inl NoKeyspace, db1)
      | (None, db1) \<Rightarrow>
          if \<not> reach 60 then (Inl NoConnection, db1)
          else if files = [] then (Inr (), db1)
          else apply_files (cql_statements ToUpper) ReadFile exec (sort files) db1)"

text \<open>main stops at the first migration that fails.\<close>

definition init_main ::
    "('p \<Rightarrow> (migrate_error + unit) \<times> 'p) \<Rightarrow> ('s \<Rightarrow> (migrate_error + unit) \<times> 's) \<Rightarrow> 'p \<times> 's \<Rightarrow>
     (migrate_error + unit) \<times> 'p \<times> 's" where
  "init_main pg scylla dbs =
     (case pg (fst dbs) of
        (Inl x, p) \<Rightarrow> (Inl x, p, snd dbs)
      | (Inr _, p) \<Rightarrow> (case scylla (snd dbs) of (r, s) \<Rightarrow> (r, p, s)))"

section \<open>What a run leaves\<close>

lemma connect_iff: "connect n i reach \<longleftrightarrow> (\<exists>k<n. reach (i + k))"
proof (induction n arbitrary: i)
  case (Suc n)
  have "(\<exists>k<Suc n. reach (i + k)) \<longleftrightarrow> reach i \<or> (\<exists>k<n. reach (Suc i + k))"
    by (auto simp: less_Suc_eq_0_disj)
  with Suc show ?case by simp
qed simp

text \<open>The statements of some files, in the order of the files.\<close>

definition all_statements :: "(string \<Rightarrow> string list) \<Rightarrow> (string \<Rightarrow> string option) \<Rightarrow> string list \<Rightarrow> string list" where
  "all_statements statements ReadFile fs = concat (map (\<lambda>f. statements (the (ReadFile f))) fs)"

lemma run_statements_append: "run_statements exec (xs @ ys) db = run_statements exec ys (run_statements exec xs db)"
  by (simp add: run_statements_def)

lemma apply_files_eq:
  "apply_files statements ReadFile exec fs db =
     (let ok = takeWhile (\<lambda>f. ReadFile f \<noteq> None) fs
      in (if ok = fs then Inr () else Inl (ReadFailed (fs ! length ok)),
          run_statements exec (all_statements statements ReadFile ok) db))"
proof (induction fs arbitrary: db)
  case (Cons f fs)
  then show ?case
    by (cases "ReadFile f") (simp_all add: all_statements_def run_statements_append Let_def run_statements_def)
qed (simp add: all_statements_def run_statements_def)

lemma run_statements_fixed:
  "\<forall>s\<in>set stmts. snd (exec s db) = db \<Longrightarrow> run_statements exec stmts db = db"
  by (induction stmts) (simp_all add: run_statements_def)

text \<open>
  C34: once one of thirty attempts reaches Postgres and there are files, the migration runs, in the order of
  their names, every statement of every file up to the first that cannot be read, whatever statements
  fail, and it reports success exactly when it could read all files. A second run changes nothing if
  each statement, run again, changes nothing (it fails because its object exists).
\<close>

theorem migratePG_applies:
  assumes "k < 30" and "reach k" and "files \<noteq> []"
    and "ok = takeWhile (\<lambda>f. ReadFile f \<noteq> None) (sort files)"
    and "stmts = concat (map (\<lambda>f. pg_statements (the (ReadFile f))) ok)"
  shows "snd (migratePG reach files ReadFile exec db) = fold (\<lambda>s db. snd (exec s db)) stmts db \<and>
    (fst (migratePG reach files ReadFile exec db) = Inr () \<longleftrightarrow> (\<forall>f\<in>set files. ReadFile f \<noteq> None)) \<and>
    (\<forall>db'. db' = snd (migratePG reach files ReadFile exec db) \<longrightarrow> (\<forall>s\<in>set stmts. snd (exec s db') = db') \<longrightarrow>
       snd (migratePG reach files ReadFile exec db') = db')"
proof -
  have stmts: "all_statements pg_statements ReadFile ok = stmts"
    using assms(5) by (simp add: all_statements_def)
  have run: "migratePG reach files ReadFile exec db0 =
      (if ok = sort files then Inr () else Inl (ReadFailed (sort files ! length ok)), run_statements exec stmts db0)" for db0
    using assms connect_iff [of 30 0 reach] stmts by (auto simp: migratePG_def apply_files_eq Let_def)
  have "ok = sort files \<longleftrightarrow> (\<forall>f\<in>set files. ReadFile f \<noteq> None)"
    using takeWhile_eq_all_conv [of "\<lambda>f. ReadFile f \<noteq> None" "sort files"] by (simp add: assms(4))
  with run run_statements_fixed [of stmts exec] show ?thesis
    by (auto simp: run_statements_def)
qed

text \<open>A database of the texts it has executed, which refuses a text it has, and two files.\<close>

definition log_exec :: "string \<Rightarrow> string list \<Rightarrow> string option \<times> string list" where
  "log_exec s db = (if s \<in> set db then (Some ''already exists'', db) else (None, db @ [s]))"

definition two_files :: "string \<Rightarrow> string option" where
  "two_files = map_of [(''2.sql'', ''b''), (''1.sql'', ''a'')]"

theorem migratePG_applies_witness:
  "migratePG (\<lambda>k. k = 2) [''2.sql'', ''1.sql''] two_files log_exec [] =
     (Inr (), fold (\<lambda>s db. snd (log_exec s db)) (pg_statements ''a'' @ pg_statements ''b'') [])"
proof -
  have "sort [''2.sql'', ''1.sql''] = [''1.sql'', ''2.sql'']" by code_simp
  then show ?thesis
    using migratePG_applies [of 2 "\<lambda>k. k = 2" "[''2.sql'', ''1.sql'']" "[''1.sql'', ''2.sql'']" two_files _ log_exec "[]"]
    by (auto simp: two_files_def prod_eq_iff)
qed

section \<open>The two splitters\<close>

lemma Split_not_Nil [simp]: "Split sep s \<noteq> []"
  by (cases s) auto

lemma Join_Split: "Join (Split sep s) [sep] = s"
proof (induction s)
  case (Cons c s)
  then show ?case
    by (cases "Split sep s"; cases "tl (Split sep s)") (auto simp: Join_Cons)
qed simp

text \<open>Text in which the scanner of SplitStatements never leaves the top level.\<close>

definition plain_sql :: "string \<Rightarrow> bool" where
  "plain_sql s = list_all (\<lambda>c. c \<notin> set ''-/$'' \<union> {CHR 0x27, CHR 0x22}) s"

lemma raw_pieces_plain:
  "plain_sql s \<Longrightarrow> raw_pieces Top acc s = (acc @ hd (Split (CHR '';'') s)) # tl (Split (CHR '';'') s)"
proof (induction s arbitrary: acc)
  case (Cons c s)
  show ?case
  proof (cases "c = CHR '';''")
    case True
    with Cons show ?thesis by (simp add: plain_sql_def)
  next
    case False
    have "lex_tok Top (c # s) = (0, Top)"
      using Cons.prems by (auto simp: lex_tok_def HasPrefix_iff plain_sql_def)
    from raw_pieces_tok [OF _ _ this] False Cons show ?thesis by (simp add: plain_sql_def)
  qed
qed simp

lemma Split_line_plain:
  "plain_sql s \<Longrightarrow> line \<in> set (Split sep s) \<Longrightarrow> plain_sql line"
proof (induction s arbitrary: line)
  case (Cons c s)
  then show ?case
    by (cases "Split sep s") (auto simp: plain_sql_def split: if_splits)
qed (simp add: plain_sql_def)

lemma strip_plain: "plain_sql s \<Longrightarrow> strip_comment_lines s = s"
proof -
  assume plain: "plain_sql s"
  have "\<not> HasPrefix (TrimSpace line) ''--''" if "line \<in> set (Split (CHR 0x0A) s)" for line
  proof
    assume "HasPrefix (TrimSpace line) ''--''"
    then have "CHR ''-'' \<in> set (TrimSpace line)" by (auto simp: HasPrefix_ex)
    moreover obtain a b where "line = a @ TrimSpace line @ b" using TrimSpace_infix by blast
    ultimately have "CHR ''-'' \<in> set line" by (metis UnCI set_append)
    with Split_line_plain [OF plain that] show False by (auto simp: plain_sql_def list_all_iff)
  qed
  then have "filter (\<lambda>line. \<not> HasPrefix (TrimSpace line) ''--'') (Split (CHR 0x0A) s) = Split (CHR 0x0A) s"
    by simp
  then show ?thesis by (simp add: strip_comment_lines_def Join_Split)
qed

text \<open>
  On text with no quote, dollar sign, dash or slash, the naive cutting of the CQL files at every
  semicolon agrees with SplitStatements, less the statements that choose or create a keyspace.
\<close>

theorem cql_statements_agree:
  assumes "list_all (\<lambda>c. c \<notin> set ''-/$'' \<union> {CHR 0x27, CHR 0x22}) s"
  shows "cql_statements ToUpper s = filter (\<lambda>stmt. \<not> skipped ToUpper stmt) (SplitStatements s)"
proof -
  have plain: "plain_sql s" using assms by (simp add: plain_sql_def)
  have "hd (Split (CHR '';'') s) # tl (Split (CHR '';'') s) = Split (CHR '';'') s" by simp
  with plain show ?thesis
    by (auto simp: cql_statements_def SplitStatements_refines nonblank_def strip_plain raw_pieces_plain skipped_def
        intro!: filter_cong)
qed

theorem cql_statements_agree_witness:
  "cql_statements (\<lambda>s. s) ''A ; B'' = filter (\<lambda>stmt. \<not> skipped (\<lambda>s. s) stmt) (SplitStatements ''A ; B'')"
  by (rule cql_statements_agree) simp

end
