(* ===== verification/Gateway.thy ===== *)
theory Gateway
  imports Middleware
begin

text \<open>
  The HTTP side of the server: which requests are gRPC (internal/app/gateway.go), the framing of a
  stream as server-sent events (internal/app/gateway_sse.go), the writer that captures the status of a
  response for the log (internal/shared/middleware/http.go), and the ports and connections the server
  opens and closes (internal/app/server.go). What the network answers is a parameter: whether a
  client, a multiplexer or a listener could be made.
\<close>

section \<open>Dispatch\<close>

definition IsGRPCRequest :: "nat \<Rightarrow> string \<Rightarrow> bool" where
  "IsGRPCRequest ProtoMajor contentType \<longleftrightarrow> ProtoMajor = 2 \<and> HasPrefix contentType ''application/grpc''"

datatype route = GRPC | Gateway_v1 | OpenAPISpec | SwaggerUI | SwaggerRedirect | NotFoundPage

text \<open>The patterns of the public mux; one that ends in a slash matches the paths below it.\<close>

definition public_route :: "string \<Rightarrow> route" where
  "public_route path =
     (if HasPrefix path ''/v1/'' then Gateway_v1
      else if path = ''/openapi.json'' then OpenAPISpec
      else if HasPrefix path ''/swagger/'' then SwaggerUI
      else if path = ''/swagger'' then SwaggerRedirect
      else NotFoundPage)"

definition dispatcher :: "nat \<Rightarrow> string \<Rightarrow> string \<Rightarrow> route" where
  "dispatcher ProtoMajor contentType path =
     (if IsGRPCRequest ProtoMajor contentType then GRPC else public_route path)"

section \<open>Server-sent events\<close>

abbreviation LF :: char where "LF \<equiv> CHR 0x0A"

abbreviation CR :: char where "CR \<equiv> CHR 0x0D"

text \<open>JSON is the marshaler of the gateway library.\<close>

definition sse_Marshal :: "('v \<Rightarrow> string option) \<Rightarrow> 'v \<Rightarrow> string option" where
  "sse_Marshal JSON v =
     (case JSON v of None \<Rightarrow> None | Some body \<Rightarrow> Some (''data: '' @ body @ [LF, LF]))"

definition sse_Delimiter :: string where
  "sse_Delimiter = []"

text \<open>The encoder appends to what has been written; ok says that the write succeeds. True is no error.\<close>

definition sse_Encode :: "('v \<Rightarrow> string option) \<Rightarrow> bool \<Rightarrow> 'v \<Rightarrow> string \<Rightarrow> bool \<times> string" where
  "sse_Encode JSON ok v out =
     (case sse_Marshal JSON v of
        None \<Rightarrow> (False, out)
      | Some b \<Rightarrow> if ok then (True, out @ b) else (False, out))"

text \<open>
  The use the gateway makes of it, as the comment of sseMarshaler says: Marshal once per message of the
  stream and the delimiter after it, until a message cannot be marshalled or a write fails.
\<close>

fun sse_stream :: "('v \<Rightarrow> string option) \<Rightarrow> (nat \<Rightarrow> bool) \<Rightarrow> nat \<Rightarrow> 'v list \<Rightarrow> string" where
  "sse_stream JSON ok n [] = []"
| "sse_stream JSON ok n (v # vs) =
     (case sse_Marshal JSON v of
        None \<Rightarrow> []
      | Some b \<Rightarrow> if ok n then b @ sse_Delimiter @ sse_stream JSON ok (Suc n) vs else [])"

section \<open>The status of a response\<close>

record statusWriter =
  sw_status :: nat
  sw_wroteHeader :: bool

datatype response_call = CallWriteHeader nat | CallWrite string | CallFlush

definition new_statusWriter :: statusWriter where
  "new_statusWriter = \<lparr>sw_status = 200, sw_wroteHeader = False\<rparr>"

text \<open>A call on the wrapper: its state after, and the call passed on to the writer below, if any.\<close>

fun statusWriter_call :: "response_call \<Rightarrow> statusWriter \<Rightarrow> statusWriter \<times> response_call option" where
  "statusWriter_call (CallWriteHeader code) s =
     (if sw_wroteHeader s then (s, None)
      else (\<lparr>sw_status = code, sw_wroteHeader = True\<rparr>, Some (CallWriteHeader code)))"
| "statusWriter_call (CallWrite b) s = (s\<lparr>sw_wroteHeader := True\<rparr>, Some (CallWrite b))"
| "statusWriter_call CallFlush s = (s, Some CallFlush)"

section \<open>The life of the server\<close>

record Server =
  sr_loopback :: bool
  sr_gateway :: bool
  sr_apiListener :: bool
  sr_metricsListener :: bool
  sr_grpc :: bool

datatype server_error = NoLoopbackClient | NoGateway | CannotListen string | CloseErrors "string list"

text \<open>Each part of the record says that it is open; before anything is built, nothing is.\<close>

definition nothing_open :: Server where
  "nothing_open = \<lparr>sr_loopback = False, sr_gateway = False, sr_apiListener = False, sr_metricsListener = False,
     sr_grpc = False\<rparr>"

definition NewServer :: "bool \<Rightarrow> bool \<Rightarrow> (server_error + unit) \<times> Server" where
  "NewServer client_ok mux_ok =
     (let s = nothing_open\<lparr>sr_loopback := True\<rparr> in
      if \<not> client_ok then (Inl NoLoopbackClient, s)
      else let s1 = s\<lparr>sr_gateway := True\<rparr> in
        if \<not> mux_ok then (Inl NoGateway, s1\<lparr>sr_gateway := False, sr_loopback := False\<rparr>)
        else (Inr (), s1))"

definition Server_Start :: "string \<Rightarrow> bool \<Rightarrow> bool \<Rightarrow> Server \<Rightarrow> (server_error + unit) \<times> Server" where
  "Server_Start address api_ok metrics_ok s =
     (if \<not> api_ok then (Inl (CannotListen address), s\<lparr>sr_gateway := False, sr_loopback := False\<rparr>)
      else let s1 = s\<lparr>sr_apiListener := True\<rparr> in
        if \<not> metrics_ok
        then (Inl (CannotListen '':9100''), s1\<lparr>sr_apiListener := False, sr_gateway := False, sr_loopback := False\<rparr>)
        else (Inr (), s1\<lparr>sr_metricsListener := True, sr_grpc := True\<rparr>))"

text \<open>
  Shutdown closes the listener of its server first, and reports an error when the connections outlive
  the context; Stop goes on in either case and joins the errors.
\<close>

definition Server_Stop :: "string option \<Rightarrow> string option \<Rightarrow> string option \<Rightarrow> Server \<Rightarrow> (server_error + unit) \<times> Server" where
  "Server_Stop metricsErr apiErr gatewayErr s =
     (let s1 = s\<lparr>sr_metricsListener := False\<rparr>;
          s2 = s1\<lparr>sr_apiListener := False\<rparr>;
          s3 = s2\<lparr>sr_grpc := False\<rparr>;
          s4 = s3\<lparr>sr_loopback := False\<rparr>;
          s5 = s4\<lparr>sr_gateway := False\<rparr>;
          errs = List.map_filter (\<lambda>x. x) [apiErr, metricsErr, gatewayErr]
      in (if errs = [] then Inr () else Inl (CloseErrors errs), s5))"

section \<open>Reading a stream of events\<close>

text \<open>
  The event stream format of the HTML standard, as far as data fields go: lines end with LF, CR or
  CRLF; a data line adds its value, less one leading space, and a line feed to the buffer; a blank
  line dispatches the buffer, less its last line feed, unless it is empty.
\<close>

record sse_reader =
  er_line :: string
  er_cr :: bool
  er_buffer :: string
  er_events :: "string list"

definition sse_start :: sse_reader where
  "sse_start = \<lparr>er_line = [], er_cr = False, er_buffer = [], er_events = []\<rparr>"

definition sse_end_line :: "sse_reader \<Rightarrow> sse_reader" where
  "sse_end_line r =
     (if er_line r = [] then
        (if er_buffer r = [] then r
         else r\<lparr>er_buffer := [], er_events := er_events r @ [butlast (er_buffer r)]\<rparr>)
      else if HasPrefix (er_line r) ''data:'' then
        r\<lparr>er_line := [], er_buffer := er_buffer r @ TrimPrefix (drop 5 (er_line r)) '' '' @ [LF]\<rparr>
      else r\<lparr>er_line := []\<rparr>)"

definition sse_char :: "char \<Rightarrow> sse_reader \<Rightarrow> sse_reader" where
  "sse_char c r =
     (if c = LF then (if er_cr r then r\<lparr>er_cr := False\<rparr> else sse_end_line r)
      else if c = CR then (sse_end_line r)\<lparr>er_cr := True\<rparr>
      else r\<lparr>er_line := er_line r @ [c], er_cr := False\<rparr>)"

definition sse_events :: "string \<Rightarrow> string list" where
  "sse_events s = er_events (fold sse_char s sse_start)"

lemma sse_line:
  assumes "LF \<notin> set s" and "CR \<notin> set s" and "\<not> er_cr r"
  shows "fold sse_char s r = r\<lparr>er_line := er_line r @ s\<rparr>"
  using assms by (induction s arbitrary: r) (auto simp: sse_char_def)

lemma sse_frame:
  assumes "LF \<notin> set body" and "CR \<notin> set body"
  shows "fold sse_char (''data: '' @ body @ [LF, LF]) (sse_start\<lparr>er_events := es\<rparr>) =
    sse_start\<lparr>er_events := es @ [body]\<rparr>"
proof -
  have "fold sse_char (''data: '' @ body) (sse_start\<lparr>er_events := es\<rparr>) =
      sse_start\<lparr>er_events := es, er_line := ''data: '' @ body\<rparr>"
    using assms by (subst sse_line) (auto simp: sse_start_def)
  then have "fold sse_char ((''data: '' @ body) @ [LF, LF]) (sse_start\<lparr>er_events := es\<rparr>) =
      sse_char LF (sse_char LF (sse_start\<lparr>er_events := es, er_line := ''data: '' @ body\<rparr>))"
    unfolding fold_append comp_apply by simp
  also have "\<dots> = sse_start\<lparr>er_events := es @ [body]\<rparr>"
    by (simp add: sse_char_def sse_end_line_def sse_start_def HasPrefix_iff TrimPrefix_def)
  finally show ?thesis by simp
qed

lemma sse_stream_fold:
  assumes "\<forall>v b. JSON v = Some b \<longrightarrow> LF \<notin> set b \<and> CR \<notin> set b"
    and "\<forall>v\<in>set vs. JSON v \<noteq> None" and "\<forall>i<length vs. ok (n + i)"
  shows "fold sse_char (sse_stream JSON ok n vs) (sse_start\<lparr>er_events := es\<rparr>) =
    sse_start\<lparr>er_events := es @ map (\<lambda>v. the (JSON v)) vs\<rparr>"
  using assms(2,3)
proof (induction vs arbitrary: n es)
  case (Cons v vs)
  obtain b where b: "JSON v = Some b" using Cons.prems by auto
  have "ok n" using Cons.prems(2) by auto
  have "\<forall>i<length vs. ok (Suc n + i)" using Cons.prems(2) by (metis Suc_less_eq add_Suc_shift length_Cons)
  then have IH: "fold sse_char (sse_stream JSON ok (Suc n) vs) (sse_start\<lparr>er_events := es @ [b]\<rparr>) =
      sse_start\<lparr>er_events := (es @ [b]) @ map (\<lambda>v. the (JSON v)) vs\<rparr>"
    using Cons.IH [of "Suc n" "es @ [b]"] Cons.prems(1) by auto
  have "fold sse_char (''data: '' @ b @ [LF, LF]) (sse_start\<lparr>er_events := es\<rparr>) = sse_start\<lparr>er_events := es @ [b]\<rparr>"
    using assms(1) b by (intro sse_frame) auto
  with b \<open>ok n\<close> IH show ?case
    by (simp add: sse_Marshal_def sse_Delimiter_def flip: append_assoc)
qed simp

lemma sse_char_events: "\<exists>es. er_events (sse_char c r) = er_events r @ es"
  by (simp add: sse_char_def sse_end_line_def)

lemma sse_events_prefix: "\<exists>es. er_events (fold sse_char s r) = er_events r @ es"
proof (induction s arbitrary: r)
  case (Cons c s)
  then show ?case using sse_char_events [of c r] by (metis append_assoc fold_simps(2))
qed simp

text \<open>
  C37: a stream survives its framing: a reader of event streams finds in what the gateway writes exactly
  the JSON texts of the messages, one event each, in order, provided the marshaler puts no line break
  into its output; and when the connection is cut anywhere, the reader has an initial part of them,
  never a broken one.
\<close>

theorem sse_stream_roundtrip:
  assumes "\<forall>v b. JSON v = Some b \<longrightarrow> LF \<notin> set b \<and> CR \<notin> set b"
    and "\<forall>v\<in>set vs. JSON v \<noteq> None" and "\<forall>i<length vs. ok i"
  shows "sse_events (sse_stream JSON ok 0 vs) = map (\<lambda>v. the (JSON v)) vs \<and>
    (\<exists>k. sse_events (take n (sse_stream JSON ok 0 vs)) = take k (map (\<lambda>v. the (JSON v)) vs))"
proof -
  define out where "out = sse_stream JSON ok 0 vs"
  have all: "sse_events out = map (\<lambda>v. the (JSON v)) vs"
    using sse_stream_fold [OF assms(1,2), where ok = ok and n = 0 and es = "[]"] assms(3)
    by (simp add: sse_events_def out_def sse_start_def)
  moreover obtain es where "sse_events out = sse_events (take n out) @ es"
    using sse_events_prefix [of "drop n out" "fold sse_char (take n out) sse_start"]
    by (auto simp: sse_events_def simp flip: fold_append comp_apply [of "fold sse_char (drop n out)"])
  ultimately show ?thesis
    by (metis append_eq_conv_conj out_def)
qed

theorem sse_stream_roundtrip_witness:
  "sse_events (sse_stream (\<lambda>s. Some (filter (\<lambda>c. c \<noteq> LF \<and> c \<noteq> CR) s)) (\<lambda>_. True) 0 [''{}'', ''[1]'']) = [''{}'', ''[1]'']"
  using sse_stream_roundtrip [of "\<lambda>s. Some (filter (\<lambda>c. c \<noteq> LF \<and> c \<noteq> CR) s)" "[''{}'', ''[1]'']" "\<lambda>_. True"]
  by simp

section \<open>What the log says of a response\<close>

text \<open>
  The writer below, as net/http documents it: the first WriteHeader with a final code fixes the status,
  a write or a flush before it sends 200; later calls of WriteHeader are ignored. Codes below 200 are
  informational and not final; the handlers of the gateway send none.
\<close>

fun net_http_call :: "response_call \<Rightarrow> nat option \<Rightarrow> nat option" where
  "net_http_call (CallWriteHeader code) None = (if 200 \<le> code then Some code else None)"
| "net_http_call (CallWrite _) None = Some 200"
| "net_http_call CallFlush None = Some 200"
| "net_http_call _ (Some code) = Some code"

definition wrapped_call :: "response_call \<Rightarrow> statusWriter \<times> nat option \<Rightarrow> statusWriter \<times> nat option" where
  "wrapped_call c s =
     (case statusWriter_call c (fst s) of
        (w, None) \<Rightarrow> (w, snd s)
      | (w, Some c') \<Rightarrow> (w, net_http_call c' (snd s)))"

fun final_code :: "response_call \<Rightarrow> bool" where
  "final_code (CallWriteHeader code) = (200 \<le> code)"
| "final_code _ = True"

lemma wrapped_sent:
  assumes "\<forall>c\<in>set calls. final_code c" and "sw_wroteHeader w"
  shows "fold wrapped_call calls (w, Some (sw_status w)) = (w, Some (sw_status w))"
  using assms
proof (induction calls)
  case (Cons c calls)
  then have "wrapped_call c (w, Some (sw_status w)) = (w, Some (sw_status w))"
    by (cases c) (simp_all add: wrapped_call_def)
  with Cons show ?case by simp
qed simp

text \<open>
  The status that is logged is the status the client was sent, whatever is called in whatever order,
  as long as nothing is flushed before the header: a flush sends 200, and the wrapper does not see it.
\<close>

theorem logged_status_sent:
  assumes "\<forall>c\<in>set (c # calls). final_code c" and "c \<noteq> CallFlush"
  shows "\<exists>w. fold wrapped_call (c # calls) (new_statusWriter, None) = (w, Some (sw_status w))"
proof -
  obtain w where w: "wrapped_call c (new_statusWriter, None) = (w, Some (sw_status w))" "sw_wroteHeader w"
    using assms by (cases c; intro that [of "fst (wrapped_call c (new_statusWriter, None))"])
      (auto simp: wrapped_call_def new_statusWriter_def)
  with wrapped_sent [of calls w] assms(1) show ?thesis by auto
qed

theorem logged_status_sent_witness:
  "\<exists>w. fold wrapped_call [CallWriteHeader 404, CallWrite ''x'', CallFlush, CallWriteHeader 500] (new_statusWriter, None) =
     (w, Some (sw_status w))"
  by (rule logged_status_sent) simp_all

text \<open>After a flush the log and the client disagree.\<close>

theorem flushed_status_differs:
  "fold wrapped_call [CallFlush, CallWriteHeader 500] (new_statusWriter, None) =
     (\<lparr>sw_status = 500, sw_wroteHeader = True\<rparr>, Some 200)"
  by (simp add: wrapped_call_def new_statusWriter_def)

section \<open>Nothing is left open\<close>

text \<open>
  A server that cannot start closes what it had opened, and one that stops closes everything, whatever
  errors it meets; only a failure to make the loopback client leaves the in-memory listener open.
\<close>

theorem server_closes:
  "(NewServer client_ok mux_ok = (r, s) \<and> r \<noteq> Inr () \<longrightarrow> s = nothing_open\<lparr>sr_loopback := \<not> client_ok\<rparr>) \<and>
   (NewServer client_ok mux_ok = (Inr (), s) \<and> Server_Start address api_ok metrics_ok s = (r', s') \<longrightarrow>
      (r' \<noteq> Inr () \<longrightarrow> s' = nothing_open) \<and>
      (r' = Inr () \<longrightarrow> s' \<noteq> nothing_open \<and> snd (Server_Stop metricsErr apiErr gatewayErr s') = nothing_open))"
  by (auto simp: NewServer_def Server_Start_def Server_Stop_def nothing_open_def Let_def split: if_splits)

theorem server_closes_witness:
  "Server_Start ''a'' True False (snd (NewServer True True)) = (Inl (CannotListen '':9100''), nothing_open)"
  using server_closes [of True True "Inr ()" "snd (NewServer True True)" "''a''" True False
      "Inl (CannotListen '':9100'')" nothing_open]
  by (simp add: NewServer_def Server_Start_def nothing_open_def Let_def)

end
