(* ===== verification/Rest.thy ===== *)
theory Rest
  imports GuildApi
begin

text \<open>
  The REST surface, gen/*/v1/*.pb.gw.go: the routes that NewGatewayMux of internal/app/gateway.go
  registers with the multiplexer of grpc-gateway, each an HTTP method, a path template and the gRPC
  method its handler calls. Which routes shadow others, and which method no REST request reaches.
\<close>

section \<open>Routes\<close>

datatype http_method = GET | POST | PUT | PATCH | DELETE

datatype segment = Lit string | Var string

text \<open>The custom verb is the text after a colon at the end of the template, empty where there is none.\<close>

datatype rest_route = Route (rr_method: http_method) (rr_segments: "segment list") (rr_verb: string) (rr_rpc: string)

definition auth_routes :: "rest_route list" where
  "auth_routes =
     [Route POST [Lit ''v1'', Lit ''auth'', Lit ''register''] [] ''/auth.v1.AuthService/Register'',
      Route POST [Lit ''v1'', Lit ''auth'', Lit ''verify-otp''] [] ''/auth.v1.AuthService/VerifyOTP'',
      Route POST [Lit ''v1'', Lit ''auth'', Lit ''resend-otp''] [] ''/auth.v1.AuthService/ResendOTP'',
      Route POST [Lit ''v1'', Lit ''auth'', Lit ''login''] [] ''/auth.v1.AuthService/Login'',
      Route POST [Lit ''v1'', Lit ''auth'', Lit ''refresh''] [] ''/auth.v1.AuthService/RefreshToken'',
      Route POST [Lit ''v1'', Lit ''auth'', Lit ''logout''] [] ''/auth.v1.AuthService/Logout'',
      Route POST [Lit ''v1'', Lit ''auth'', Lit ''validate''] [] ''/auth.v1.AuthService/ValidateToken'']"

definition user_routes :: "rest_route list" where
  "user_routes =
     [Route GET [Lit ''v1'', Lit ''users'', Var ''user_id''] [] ''/user.v1.UserService/GetUser'',
      Route PATCH [Lit ''v1'', Lit ''users'', Lit ''me''] [] ''/user.v1.UserService/UpdateUser'',
      Route PATCH [Lit ''v1'', Lit ''users'', Lit ''me'', Lit ''username''] []
         ''/user.v1.UserService/UpdateUsername'',
      Route PATCH [Lit ''v1'', Lit ''users'', Lit ''me'', Lit ''status''] [] ''/user.v1.UserService/UpdateStatus'',
      Route POST [Lit ''v1'', Lit ''users'', Lit ''me'', Lit ''avatar''] [] ''/user.v1.UserService/UploadUserAvatar'',
      Route DELETE [Lit ''v1'', Lit ''users'', Lit ''me''] [] ''/user.v1.UserService/DeleteUser'',
      Route GET [Lit ''v1'', Lit ''users'', Lit ''by-username'', Var ''username''] []
         ''/user.v1.UserService/GetUserByUsername'',
      Route GET [Lit ''v1'', Lit ''users'', Lit ''search''] [] ''/user.v1.UserService/SearchUsers'',
      Route POST [Lit ''v1'', Lit ''friends'', Lit ''requests''] [] ''/user.v1.UserService/SendFriendRequest'',
      Route POST [Lit ''v1'', Lit ''friends'', Var ''requester_user_id'', Lit ''accept''] []
         ''/user.v1.UserService/AcceptFriendRequest'',
      Route POST [Lit ''v1'', Lit ''friends'', Var ''requester_user_id'', Lit ''decline''] []
         ''/user.v1.UserService/DeclineFriendRequest'',
      Route POST [Lit ''v1'', Lit ''friends'', Var ''target_user_id'', Lit ''cancel''] []
         ''/user.v1.UserService/CancelFriendRequest'',
      Route DELETE [Lit ''v1'', Lit ''friends'', Var ''friend_id''] [] ''/user.v1.UserService/RemoveFriend'',
      Route PUT [Lit ''v1'', Lit ''blocks'', Var ''target_user_id''] [] ''/user.v1.UserService/BlockUser'',
      Route DELETE [Lit ''v1'', Lit ''blocks'', Var ''target_user_id''] [] ''/user.v1.UserService/UnblockUser'',
      Route GET [Lit ''v1'', Lit ''friends''] [] ''/user.v1.UserService/ListFriends'',
      Route GET [Lit ''v1'', Lit ''friends'', Lit ''pending''] [] ''/user.v1.UserService/ListPendingRequests'',
      Route GET [Lit ''v1'', Lit ''blocks''] [] ''/user.v1.UserService/ListBlocked'']"

definition guild_routes :: "rest_route list" where
  "guild_routes =
     [Route POST [Lit ''v1'', Lit ''guilds''] [] ''/guild.v1.GuildService/CreateGuild'',
      Route GET [Lit ''v1'', Lit ''guilds'', Var ''guild_id''] [] ''/guild.v1.GuildService/GetGuild'',
      Route PATCH [Lit ''v1'', Lit ''guilds'', Var ''guild_id''] [] ''/guild.v1.GuildService/UpdateGuild'',
      Route POST [Lit ''v1'', Lit ''guilds'', Var ''guild_id'', Lit ''icon''] []
         ''/guild.v1.GuildService/UploadGuildIcon'',
      Route POST [Lit ''v1'', Lit ''guilds'', Var ''guild_id'', Lit ''banner''] []
         ''/guild.v1.GuildService/UploadGuildBanner'',
      Route DELETE [Lit ''v1'', Lit ''guilds'', Var ''guild_id''] [] ''/guild.v1.GuildService/DeleteGuild'',
      Route GET [Lit ''v1'', Lit ''users'', Var ''user_id'', Lit ''guilds''] []
         ''/guild.v1.GuildService/ListUserGuilds'',
      Route GET [Lit ''v1'', Lit ''invites'', Var ''invite_code''] [] ''/guild.v1.GuildService/PreviewInvite'',
      Route POST [Lit ''v1'', Lit ''invites'', Var ''invite_code'', Lit ''join''] []
         ''/guild.v1.GuildService/JoinGuild'',
      Route DELETE [Lit ''v1'', Lit ''guilds'', Var ''guild_id'', Lit ''members'', Lit ''me''] []
         ''/guild.v1.GuildService/LeaveGuild'',
      Route GET [Lit ''v1'', Lit ''guilds'', Var ''guild_id'', Lit ''members''] []
         ''/guild.v1.GuildService/ListMembers'',
      Route DELETE [Lit ''v1'', Lit ''guilds'', Var ''guild_id'', Lit ''members'', Var ''user_id''] []
         ''/guild.v1.GuildService/KickMember'',
      Route PUT [Lit ''v1'', Lit ''guilds'', Var ''guild_id'', Lit ''bans'', Var ''user_id''] []
         ''/guild.v1.GuildService/BanMember'',
      Route DELETE [Lit ''v1'', Lit ''guilds'', Var ''guild_id'', Lit ''bans'', Var ''user_id''] []
         ''/guild.v1.GuildService/UnbanMember'',
      Route POST [Lit ''v1'', Lit ''guilds'', Var ''guild_id'', Lit ''invites''] []
         ''/guild.v1.GuildService/CreateInvite'',
      Route POST [Lit ''v1'', Lit ''guilds'', Var ''guild_id'', Lit ''roles''] []
         ''/guild.v1.GuildService/CreateRole'',
      Route PATCH [Lit ''v1'', Lit ''guilds'', Var ''guild_id'', Lit ''roles'', Var ''role_id''] []
         ''/guild.v1.GuildService/UpdateRole'',
      Route DELETE [Lit ''v1'', Lit ''guilds'', Var ''guild_id'', Lit ''roles'', Var ''role_id''] []
         ''/guild.v1.GuildService/DeleteRole'',
      Route PUT [Lit ''v1'', Lit ''guilds'', Var ''guild_id'', Lit ''members'', Var ''user_id'',
         Lit ''roles'', Var ''role_id''] []
         ''/guild.v1.GuildService/AssignRole'',
      Route DELETE [Lit ''v1'', Lit ''guilds'', Var ''guild_id'', Lit ''members'', Var ''user_id'',
         Lit ''roles'', Var ''role_id''] []
         ''/guild.v1.GuildService/RemoveRole'',
      Route PUT [Lit ''v1'', Lit ''guilds'', Var ''guild_id'', Lit ''owner''] []
         ''/guild.v1.GuildService/TransferOwnership'',
      Route PUT [Lit ''v1'', Lit ''guilds'', Var ''guild_id'', Lit ''members'', Var ''user_id'',
         Lit ''permissions'', Var ''permission''] []
         ''/guild.v1.GuildService/GrantPermission'',
      Route DELETE [Lit ''v1'', Lit ''guilds'', Var ''guild_id'', Lit ''members'', Var ''user_id'',
         Lit ''permissions'', Var ''permission''] []
         ''/guild.v1.GuildService/RevokePermission'',
      Route GET [Lit ''v1'', Lit ''guilds'', Var ''guild_id'', Lit ''members'', Var ''user_id'', Lit ''permissions''] []
         ''/guild.v1.GuildService/GetUserPermissions'',
      Route PUT [Lit ''v1'', Lit ''guilds'', Var ''guild_id'', Lit ''roles'', Var ''role_id'',
         Lit ''permissions'', Var ''permission''] []
         ''/guild.v1.GuildService/GrantRolePermission'',
      Route DELETE [Lit ''v1'', Lit ''guilds'', Var ''guild_id'', Lit ''roles'', Var ''role_id'',
         Lit ''permissions'', Var ''permission''] []
         ''/guild.v1.GuildService/RevokeRolePermission'']"

definition channel_routes :: "rest_route list" where
  "channel_routes =
     [Route POST [Lit ''v1'', Lit ''guilds'', Var ''guild_id'', Lit ''channels''] []
         ''/channel.v1.ChannelService/CreateChannel'',
      Route GET [Lit ''v1'', Lit ''channels'', Var ''channel_id''] [] ''/channel.v1.ChannelService/GetChannel'',
      Route PATCH [Lit ''v1'', Lit ''channels'', Var ''channel_id''] [] ''/channel.v1.ChannelService/UpdateChannel'',
      Route DELETE [Lit ''v1'', Lit ''channels'', Var ''channel_id''] [] ''/channel.v1.ChannelService/DeleteChannel'',
      Route GET [Lit ''v1'', Lit ''guilds'', Var ''guild_id'', Lit ''channels''] []
         ''/channel.v1.ChannelService/ListGuildChannels'',
      Route POST [Lit ''v1'', Lit ''dms''] [] ''/channel.v1.ChannelService/CreateDMChannel'',
      Route GET [Lit ''v1'', Lit ''dms''] [] ''/channel.v1.ChannelService/ListDMChannels'',
      Route GET [Lit ''v1'', Lit ''dms'', Var ''channel_id'', Lit ''members''] []
         ''/channel.v1.ChannelService/ListDMChannelMembers'',
      Route GET [Lit ''v1'', Lit ''dms''] ''withMembers'' ''/channel.v1.ChannelService/ListDMChannelsWithMembers'',
      Route PUT [Lit ''v1'', Lit ''dms'', Var ''channel_id'', Lit ''members'', Var ''user_id''] []
         ''/channel.v1.ChannelService/AddDMGroupMember'',
      Route DELETE [Lit ''v1'', Lit ''dms'', Var ''channel_id'', Lit ''members'', Var ''user_id''] []
         ''/channel.v1.ChannelService/RemoveDMGroupMember'',
      Route PUT [Lit ''v1'', Lit ''channels'', Var ''channel_id'', Lit ''overrides'', Var ''target_type'',
         Var ''target_id'', Var ''permission''] []
         ''/channel.v1.ChannelService/SetChannelOverride'',
      Route DELETE [Lit ''v1'', Lit ''channels'', Var ''channel_id'', Lit ''overrides'', Var ''target_type'',
         Var ''target_id'', Var ''permission''] []
         ''/channel.v1.ChannelService/DeleteChannelOverride'',
      Route GET [Lit ''v1'', Lit ''channels'', Var ''channel_id'', Lit ''overrides''] []
         ''/channel.v1.ChannelService/ListChannelOverrides'']"

definition message_routes :: "rest_route list" where
  "message_routes =
     [Route POST [Lit ''v1'', Lit ''channels'', Var ''channel_id'', Lit ''messages''] []
         ''/message.v1.MessageService/SendMessage'',
      Route GET [Lit ''v1'', Lit ''channels'', Var ''channel_id'', Lit ''messages'', Var ''message_id''] []
         ''/message.v1.MessageService/GetMessage'',
      Route PATCH [Lit ''v1'', Lit ''channels'', Var ''channel_id'', Lit ''messages'', Var ''message_id''] []
         ''/message.v1.MessageService/EditMessage'',
      Route DELETE [Lit ''v1'', Lit ''channels'', Var ''channel_id'', Lit ''messages'', Var ''message_id''] []
         ''/message.v1.MessageService/DeleteMessage'',
      Route GET [Lit ''v1'', Lit ''channels'', Var ''channel_id'', Lit ''messages''] []
         ''/message.v1.MessageService/ListMessages'',
      Route PUT [Lit ''v1'', Lit ''channels'', Var ''channel_id'', Lit ''messages'', Var ''message_id'', Lit ''pin''] []
         ''/message.v1.MessageService/PinMessage'',
      Route DELETE [Lit ''v1'', Lit ''channels'', Var ''channel_id'', Lit ''messages'', Var ''message_id'',
         Lit ''pin''] []
         ''/message.v1.MessageService/UnpinMessage'',
      Route PUT [Lit ''v1'', Lit ''channels'', Var ''channel_id'', Lit ''messages'', Var ''message_id'',
         Lit ''reactions'', Var ''emoji''] []
         ''/message.v1.MessageService/AddReaction'',
      Route DELETE [Lit ''v1'', Lit ''channels'', Var ''channel_id'', Lit ''messages'', Var ''message_id'',
         Lit ''reactions'', Var ''emoji''] []
         ''/message.v1.MessageService/RemoveReaction'',
      Route PUT [Lit ''v1'', Lit ''channels'', Var ''channel_id'', Lit ''messages'', Var ''message_id'', Lit ''ack''] []
         ''/message.v1.MessageService/AckMessage'',
      Route POST [Lit ''v1'', Lit ''channels'', Var ''channel_id'', Lit ''typing''] []
         ''/message.v1.MessageService/StartTyping'',
      Route POST [Lit ''v1'', Lit ''users'', Var ''recipient_id'', Lit ''messages''] []
         ''/message.v1.MessageService/SendDirectMessage'',
      Route GET [Lit ''v1'', Lit ''messages'', Lit ''unread''] [] ''/message.v1.MessageService/GetUnreadCounts'',
      Route GET [Lit ''v1'', Lit ''channels'', Var ''channel_id'', Lit ''messages''] ''search''
         ''/message.v1.MessageService/SearchMessages'',
      Route GET [Lit ''v1'', Lit ''channels'', Var ''channel_id'', Lit ''messages'',
         Var ''parent_message_id'', Lit ''thread''] []
         ''/message.v1.MessageService/GetThreadMessages'',
      Route POST [Lit ''v1'', Lit ''channels'', Var ''channel_id'', Lit ''messages''] ''bulk-delete''
         ''/message.v1.MessageService/BulkDeleteMessages'',
      Route GET [Lit ''v1'', Lit ''channels'', Var ''channel_id'', Lit ''messages'', Var ''message_id'',
         Lit ''edits''] []
         ''/message.v1.MessageService/GetEditHistory'']"

definition stream_routes :: "rest_route list" where
  "stream_routes =
     [Route GET [Lit ''v1'', Lit ''stream'', Lit ''dm'', Lit ''chat''] [] ''/stream.v1.StreamService/StreamDmChat'',
      Route GET [Lit ''v1'', Lit ''stream'', Lit ''dm'', Lit ''channels''] []
         ''/stream.v1.StreamService/StreamDmChannels'',
      Route GET [Lit ''v1'', Lit ''stream'', Lit ''dm'', Lit ''calls''] [] ''/stream.v1.StreamService/StreamDmCalls'',
      Route GET [Lit ''v1'', Lit ''stream'', Lit ''channels'', Lit ''text''] []
         ''/stream.v1.StreamService/StreamTextChannels'',
      Route GET [Lit ''v1'', Lit ''stream'', Lit ''channels'', Lit ''voice-chat''] []
         ''/stream.v1.StreamService/StreamVoiceChat'',
      Route GET [Lit ''v1'', Lit ''stream'', Lit ''guilds''] [] ''/stream.v1.StreamService/StreamGuildEvents'',
      Route GET [Lit ''v1'', Lit ''stream'', Lit ''voice-state''] [] ''/stream.v1.StreamService/StreamVoiceState'',
      Route GET [Lit ''v1'', Lit ''stream'', Lit ''typing''] [] ''/stream.v1.StreamService/StreamTyping'',
      Route GET [Lit ''v1'', Lit ''stream'', Lit ''friends''] [] ''/stream.v1.StreamService/StreamFriendActivity'']"

definition sync_routes :: "rest_route list" where
  "sync_routes =
     [Route POST [Lit ''v1'', Lit ''sync''] [] ''/sync.v1.SyncService/Sync'']"

definition presence_routes :: "rest_route list" where
  "presence_routes =
     [Route PATCH [Lit ''v1'', Lit ''users'', Lit ''me'', Lit ''presence''] []
         ''/presence.v1.PresenceService/UpdatePresence'',
      Route GET [Lit ''v1'', Lit ''users'', Var ''user_id'', Lit ''presence''] []
         ''/presence.v1.PresenceService/GetPresence'',
      Route GET [Lit ''v1'', Lit ''presence''] [] ''/presence.v1.PresenceService/GetBulkPresence'']"

definition media_routes :: "rest_route list" where
  "media_routes =
     [Route POST [Lit ''v1'', Lit ''media'', Lit ''uploads''] [] ''/media.v1.MediaService/RequestUpload'',
      Route POST [Lit ''v1'', Lit ''media'', Lit ''uploads'', Var ''upload_id'', Lit ''confirm''] []
         ''/media.v1.MediaService/ConfirmUpload'',
      Route GET [Lit ''v1'', Lit ''media'', Lit ''files'', Var ''file_id'', Lit ''download''] []
         ''/media.v1.MediaService/GetDownloadURL'',
      Route DELETE [Lit ''v1'', Lit ''media'', Lit ''files'', Var ''file_id''] []
         ''/media.v1.MediaService/DeleteFile'']"

definition voice_routes :: "rest_route list" where
  "voice_routes =
     [Route POST [Lit ''v1'', Lit ''channels'', Var ''channel_id'', Lit ''voice'', Lit ''join''] []
         ''/voice.v1.VoiceService/JoinChannel'',
      Route DELETE [Lit ''v1'', Lit ''channels'', Var ''channel_id'', Lit ''voice'', Lit ''me''] []
         ''/voice.v1.VoiceService/LeaveChannel'',
      Route GET [Lit ''v1'', Lit ''channels'', Var ''channel_id'', Lit ''voice'', Lit ''participants''] []
         ''/voice.v1.VoiceService/GetChannelParticipants'',
      Route POST [Lit ''v1'', Lit ''channels'', Var ''channel_id'', Lit ''calls''] []
         ''/voice.v1.VoiceService/StartDMCall'',
      Route POST [Lit ''v1'', Lit ''channels'', Var ''channel_id'', Lit ''calls'', Lit ''join''] []
         ''/voice.v1.VoiceService/JoinDMCall'',
      Route POST [Lit ''v1'', Lit ''channels'', Var ''channel_id'', Lit ''calls'', Lit ''reject''] []
         ''/voice.v1.VoiceService/RejectDMCall'',
      Route DELETE [Lit ''v1'', Lit ''channels'', Var ''channel_id'', Lit ''calls'', Lit ''me''] []
         ''/voice.v1.VoiceService/LeaveDMCall'',
      Route PUT [Lit ''v1'', Lit ''channels'', Var ''channel_id'', Lit ''voice'', Lit ''me'', Lit ''mute''] []
         ''/voice.v1.VoiceService/Mute'',
      Route DELETE [Lit ''v1'', Lit ''channels'', Var ''channel_id'', Lit ''voice'', Lit ''me'', Lit ''mute''] []
         ''/voice.v1.VoiceService/Unmute'',
      Route PUT [Lit ''v1'', Lit ''channels'', Var ''channel_id'', Lit ''voice'', Lit ''me'', Lit ''deaf''] []
         ''/voice.v1.VoiceService/Deafen'',
      Route DELETE [Lit ''v1'', Lit ''channels'', Var ''channel_id'', Lit ''voice'', Lit ''me'', Lit ''deaf''] []
         ''/voice.v1.VoiceService/Undeafen'',
      Route PUT [Lit ''v1'', Lit ''channels'', Var ''channel_id'', Lit ''voice'', Lit ''me'', Lit ''video''] []
         ''/voice.v1.VoiceService/EnableVideo'',
      Route DELETE [Lit ''v1'', Lit ''channels'', Var ''channel_id'', Lit ''voice'', Lit ''me'', Lit ''video''] []
         ''/voice.v1.VoiceService/DisableVideo'',
      Route PUT [Lit ''v1'', Lit ''channels'', Var ''channel_id'', Lit ''voice'', Lit ''me'', Lit ''screen''] []
         ''/voice.v1.VoiceService/StartScreenShare'',
      Route DELETE [Lit ''v1'', Lit ''channels'', Var ''channel_id'', Lit ''voice'', Lit ''me'', Lit ''screen''] []
         ''/voice.v1.VoiceService/StopScreenShare'',
      Route PUT [Lit ''v1'', Lit ''channels'', Var ''channel_id'', Lit ''voice'', Lit ''participants'',
         Var ''target_user_id'', Lit ''mute''] []
         ''/voice.v1.VoiceService/ServerMuteUser'',
      Route PUT [Lit ''v1'', Lit ''channels'', Var ''channel_id'', Lit ''voice'', Lit ''participants'',
         Var ''target_user_id'', Lit ''deaf''] []
         ''/voice.v1.VoiceService/ServerDeafenUser'',
      Route DELETE [Lit ''v1'', Lit ''channels'', Var ''channel_id'', Lit ''voice'', Lit ''participants'',
         Var ''target_user_id''] []
         ''/voice.v1.VoiceService/DisconnectUser'']"

definition rest_routes :: "rest_route list" where
  "rest_routes = auth_routes @ user_routes @ guild_routes @ channel_routes @ message_routes @ stream_routes @
     sync_routes @ presence_routes @ media_routes @ voice_routes"

section \<open>Matching\<close>

text \<open>
  A path is the list of its components. A template matches component by component, a variable any
  component; a template with a verb asks for a last component that ends in a colon and the verb.
\<close>

fun match_segments :: "segment list \<Rightarrow> string list \<Rightarrow> (string \<times> string) list option" where
  "match_segments [] [] = Some []"
| "match_segments (Lit l # ss) (c # cs) = (if c = l then match_segments ss cs else None)"
| "match_segments (Var v # ss) (c # cs) = map_option (Cons (v, c)) (match_segments ss cs)"
| "match_segments _ _ = None"

definition strip_verb :: "string \<Rightarrow> string \<Rightarrow> string option" where
  "strip_verb verb c =
     (let n = length c - length (CHR '':'' # verb) in
      if length (CHR '':'' # verb) < length c \<and> drop n c = CHR '':'' # verb then Some (take n c) else None)"

definition route_match ::
    "rest_route \<Rightarrow> http_method \<Rightarrow> string list \<Rightarrow> (string \<times> string) list option" where
  "route_match r m path =
     (if rr_method r \<noteq> m \<or> path = [] then None
      else if rr_verb r = [] then match_segments (rr_segments r) path
      else case strip_verb (rr_verb r) (last path) of
        None \<Rightarrow> None
      | Some c \<Rightarrow> match_segments (rr_segments r) (butlast path @ [c]))"

text \<open>
  What the gateway relies on of the multiplexer, as its documentation says: a request for which no
  route matches is served by none, and one that several match by the route registered last. A last
  component that begins with a colon may be refused, as a verb of nothing. The method is the one that
  counts: the header that overrides it, and the treatment of a form posted to a path of GET, are left out.
\<close>

type_synonym rest_mux = "rest_route list \<Rightarrow> http_method \<Rightarrow> string list \<Rightarrow> (string \<times> (string \<times> string) list) option"

definition colon_last :: "string list \<Rightarrow> bool" where
  "colon_last path = (case rev path of (c # _) # _ \<Rightarrow> c = CHR '':'' | _ \<Rightarrow> False)"

definition mux_ok :: "rest_mux \<Rightarrow> bool" where
  "mux_ok M \<longleftrightarrow>
     (\<forall>rs m path. (\<forall>r\<in>set rs. route_match r m path = None) \<longrightarrow> M rs m path = None) \<and>
     (\<forall>before r after m path b. route_match r m path = Some b \<longrightarrow> (\<forall>r'\<in>set after. route_match r' m path = None) \<longrightarrow>
        M (before @ r # after) m path = Some (rr_rpc r, b) \<or> colon_last path \<and> M (before @ r # after) m path = None)"

text \<open>A multiplexer that is like that.\<close>

fun last_match :: rest_mux where
  "last_match [] m path = None"
| "last_match (r # rs) m path =
     (case last_match rs m path of
        Some x \<Rightarrow> Some x
      | None \<Rightarrow> map_option (\<lambda>b. (rr_rpc r, b)) (route_match r m path))"

lemma last_match_None: "\<forall>r\<in>set rs. route_match r m path = None \<Longrightarrow> last_match rs m path = None"
  by (induction rs) simp_all

lemma last_match_append: "last_match (as @ bs) m path =
    (case last_match bs m path of Some x \<Rightarrow> Some x | None \<Rightarrow> last_match as m path)"
  by (induction as) (simp_all split: option.splits)

lemma mux_ok_last_match: "mux_ok last_match"
  by (simp add: mux_ok_def last_match_None last_match_append)

section \<open>Handlers\<close>

text \<open>
  Every route has the same handler around the function that decodes the request and calls the client:
  the context of the HTTP request annotated with the gRPC method, the call, and the answer.
\<close>

datatype 'r rest_answer = HTTPError status | ForwardResponse 'r

definition rest_handle ::
    "(string \<Rightarrow> status + 'c) \<Rightarrow> (string \<Rightarrow> 'c \<Rightarrow> (string \<times> string) list \<Rightarrow> status + 'r) \<Rightarrow>
     string \<times> (string \<times> string) list \<Rightarrow> 'r rest_answer" where
  "rest_handle AnnotateContext request call =
     (case AnnotateContext (fst call) of
        Inl err \<Rightarrow> HTTPError err
      | Inr annotatedContext \<Rightarrow>
          (case request (fst call) annotatedContext (snd call) of
             Inl err \<Rightarrow> HTTPError err
           | Inr resp \<Rightarrow> ForwardResponse resp))"

text \<open>The request of a path parameter that the template does not bind is refused.\<close>

definition path_param :: "(string \<times> string) list \<Rightarrow> string \<Rightarrow> status + string" where
  "path_param pathParams name =
     (case map_of pathParams name of
        None \<Rightarrow> Inl (Status InvalidArgument (''missing parameter '' @ name))
      | Some val \<Rightarrow> Inr val)"

text \<open>request_GuildService_KickMember_0, which discards the body.\<close>

definition request_KickMember :: "(guild_request \<Rightarrow> 'c \<Rightarrow> status + 'r) \<Rightarrow> 'c \<Rightarrow> (string \<times> string) list \<Rightarrow> status + 'r" where
  "request_KickMember client ctx pathParams =
     (case path_param pathParams ''guild_id'' of
        Inl err \<Rightarrow> Inl err
      | Inr guildID \<Rightarrow>
          (case path_param pathParams ''user_id'' of
             Inl err \<Rightarrow> Inl err
           | Inr userID \<Rightarrow> client (KickMemberRequest guildID userID) ctx))"

section \<open>Overlaps\<close>

text \<open>A template as the segments its paths have, the verb included.\<close>

definition plain_segments :: "rest_route \<Rightarrow> segment list" where
  "plain_segments r =
     (if rr_verb r = [] then rr_segments r
      else butlast (rr_segments r) @
        [case last (rr_segments r) of Lit l \<Rightarrow> Lit (l @ CHR '':'' # rr_verb r) | Var v \<Rightarrow> Var v])"

fun segments_overlap :: "segment list \<Rightarrow> segment list \<Rightarrow> bool" where
  "segments_overlap [] ts = (ts = [])"
| "segments_overlap (s # ss) ts =
     (case ts of
        [] \<Rightarrow> False
      | t # ts' \<Rightarrow>
          if (case s of Var v \<Rightarrow> True | Lit a \<Rightarrow> (case t of Var v \<Rightarrow> True | Lit b \<Rightarrow> a = b)) then segments_overlap ss ts'
          else False)"

definition overlaps_with :: "segment list \<times> string \<Rightarrow> (segment list \<times> string) list \<Rightarrow> (string \<times> string) list" where
  "overlaps_with row rows =
     List.map_filter (\<lambda>row'. if segments_overlap (fst row) (fst row') then Some (snd row, snd row') else None) rows"

fun clashes :: "(segment list \<times> string) list \<Rightarrow> (string \<times> string) list" where
  "clashes [] = []"
| "clashes (row # rows) = overlaps_with row rows @ clashes rows"

text \<open>The rows of one method whose templates have a number of segments.\<close>

definition rows_of_size :: "http_method \<Rightarrow> nat \<Rightarrow> (segment list \<times> string) list" where
  "rows_of_size m n = map (\<lambda>r. (plain_segments r, rr_rpc r))
     (filter (\<lambda>r. if rr_method r = m then length (rr_segments r) = n else False) rest_routes)"

definition shadowed :: "(string \<times> string) list" where
  "shadowed =
     [(''/user.v1.UserService/GetUser'', ''/user.v1.UserService/SearchUsers''),
      (''/user.v1.UserService/GetUserByUsername'', ''/guild.v1.GuildService/ListUserGuilds''),
      (''/user.v1.UserService/GetUserByUsername'', ''/presence.v1.PresenceService/GetPresence''),
      (''/guild.v1.GuildService/LeaveGuild'', ''/guild.v1.GuildService/KickMember'')]"

lemmas route_defs = rest_routes_def auth_routes_def user_routes_def guild_routes_def channel_routes_def
  message_routes_def stream_routes_def sync_routes_def presence_routes_def media_routes_def voice_routes_def

text \<open>Facts of the table, by evaluation.\<close>

lemma sizes: "list_all (\<lambda>r. length (rr_segments r) \<in> set [2, 3, 4, 5, 6, 7]) rest_routes"
  by code_simp

lemma clash_GET: "list_all (\<lambda>n. list_all (\<lambda>x. x \<in> set shadowed) (clashes (rows_of_size GET n))) [2, 3, 4, 5, 6, 7]"
  by code_simp

lemma clash_POST: "list_all (\<lambda>n. list_all (\<lambda>x. x \<in> set shadowed) (clashes (rows_of_size POST n))) [2, 3, 4, 5, 6, 7]"
  by code_simp

lemma clash_PUT: "list_all (\<lambda>n. list_all (\<lambda>x. x \<in> set shadowed) (clashes (rows_of_size PUT n))) [2, 3, 4, 5, 6, 7]"
  by code_simp

lemma clash_PATCH: "list_all (\<lambda>n. list_all (\<lambda>x. x \<in> set shadowed) (clashes (rows_of_size PATCH n))) [2, 3, 4, 5, 6, 7]"
  by code_simp

lemma clash_DELETE: "list_all (\<lambda>n. list_all (\<lambda>x. x \<in> set shadowed) (clashes (rows_of_size DELETE n))) [2, 3, 4, 5, 6, 7]"
  by code_simp

lemma ends: "list_all (\<lambda>r. rr_verb r = [] \<or> (case last (rr_segments r) of Lit l \<Rightarrow> True | Var v \<Rightarrow> False)) rest_routes"
  by code_simp

text \<open>LeaveGuild has one route, and that of KickMember comes after it.\<close>

definition leave_route :: rest_route where
  "leave_route = Route DELETE [Lit ''v1'', Lit ''guilds'', Var ''guild_id'', Lit ''members'', Lit ''me''] []
     ''/guild.v1.GuildService/LeaveGuild''"

definition kick_route :: rest_route where
  "kick_route = Route DELETE [Lit ''v1'', Lit ''guilds'', Var ''guild_id'', Lit ''members'', Var ''user_id''] []
     ''/guild.v1.GuildService/KickMember''"

lemma leave_routes: "filter (\<lambda>r. rr_rpc r = ''/guild.v1.GuildService/LeaveGuild'') rest_routes = [leave_route]"
  by code_simp

lemma leave_before_kick: "take 3 (drop 34 rest_routes) = [leave_route, rest_routes ! 35, kick_route]"
  by code_simp

end
