(* ===== verification/RestLaws.thy ===== *)
theory RestLaws
  imports Rest GuildApiLaws
begin

text \<open>
  What a REST request reaches: every route but those that a later one shadows, and never LeaveGuild.
\<close>

section \<open>Two routes for one path\<close>

lemma clash_sizes:
  assumes "n \<in> set [2, 3, 4, 5, 6, 7]" and "x \<in> set (clashes (rows_of_size m n))"
  shows "x \<in> set shadowed"
proof -
  have "list_all (\<lambda>n. list_all (\<lambda>x. x \<in> set shadowed) (clashes (rows_of_size m n))) [2, 3, 4, 5, 6, 7]"
    using clash_GET clash_POST clash_PUT clash_PATCH clash_DELETE by (cases m) simp_all
  with assms show ?thesis unfolding list_all_iff by blast
qed

lemma match_length: "match_segments ss p = Some b \<Longrightarrow> length p = length ss"
  by (induction ss p arbitrary: b rule: match_segments.induct) (auto split: if_splits)

lemma overlap_sound: "match_segments ss p = Some b \<Longrightarrow> match_segments ts p = Some b' \<Longrightarrow> segments_overlap ss ts"
proof (induction ss arbitrary: p ts b b')
  case Nil
  then show ?case by (cases p; cases ts) auto
next
  case (Cons s ss)
  then show ?case
    by (cases p; cases ts; cases s; cases "hd ts") (auto split: if_splits)
qed

lemma match_last:
  "match_segments (ss @ [Lit l]) p = Some b \<longleftrightarrow> p \<noteq> [] \<and> last p = l \<and> match_segments ss (butlast p) = Some b"
proof (induction ss arbitrary: p b)
  case Nil
  show ?case
  proof (cases p)
    case (Cons c cs)
    then show ?thesis by (cases cs) auto
  qed simp
next
  case (Cons s ss)
  show ?case
  proof (cases p)
    case (Cons c cs)
    then show ?thesis using Cons.IH [of cs] by (cases s; cases cs) auto
  qed (cases s; simp)
qed

lemma strip_verb_Some: "strip_verb v c = Some c' \<longleftrightarrow> c = c' @ CHR '':'' # v \<and> c' \<noteq> []"
  by (auto simp: strip_verb_def Let_def) (metis append_take_drop_id)

text \<open>A route matches a path as the template that has its verb in the last segment.\<close>

lemma route_match_plain:
  assumes "r \<in> set rest_routes" and "route_match r m p = Some b"
  shows "rr_method r = m \<and> length p = length (rr_segments r) \<and> match_segments (plain_segments r) p = Some b"
proof (cases "rr_verb r = []")
  case True
  with assms(2) show ?thesis by (auto simp: route_match_def plain_segments_def match_length split: if_splits)
next
  case False
  then obtain l where l: "last (rr_segments r) = Lit l"
    using ends assms(1) by (cases "last (rr_segments r)") (auto simp: list_all_iff)
  have "rr_segments r \<noteq> []" using sizes assms(1) by (auto simp: list_all_iff)
  then have segs: "rr_segments r = butlast (rr_segments r) @ [Lit l]" using l by (metis append_butlast_last_id)
  obtain c where c: "last p = c @ CHR '':'' # rr_verb r" "p \<noteq> []" "rr_method r = m"
      "match_segments (rr_segments r) (butlast p @ [c]) = Some b"
    using assms(2) False by (auto simp: route_match_def strip_verb_Some split: if_splits option.splits)
  have "c = l" and front: "match_segments (butlast (rr_segments r)) (butlast p) = Some b"
    using c(4) segs match_last [of "butlast (rr_segments r)" l "butlast p @ [c]" b] by simp_all
  have "plain_segments r = butlast (rr_segments r) @ [Lit (l @ CHR '':'' # rr_verb r)]"
    using False l by (simp add: plain_segments_def)
  with front \<open>c = l\<close> c(1,2) have "match_segments (plain_segments r) p = Some b" by (simp add: match_last)
  moreover have "length (butlast p @ [c]) = length p" using c(2) by simp
  ultimately show ?thesis using match_length [OF c(4)] c(3) by simp
qed

lemma clashes_sound:
  "segments_overlap (fst x) (fst y) \<Longrightarrow> (snd x, snd y) \<in> set (clashes (xs @ x # ys @ y # zs))"
  by (induction xs) (auto simp: overlaps_with_def map_filter_def)

lemma routes_overlap:
  assumes "rest_routes = xs @ r # ys @ r' # zs" and "route_match r m p = Some b" and "route_match r' m p = Some b'"
  shows "(rr_rpc r, rr_rpc r') \<in> set shadowed"
proof -
  have mem: "r \<in> set rest_routes" "r' \<in> set rest_routes" unfolding assms(1) by simp_all
  note m = route_match_plain [OF mem(1) assms(2)] route_match_plain [OF mem(2) assms(3)]
  let ?n = "length p" and ?row = "\<lambda>r. (plain_segments r, rr_rpc r)"
  let ?rows = "\<lambda>rs. map ?row (filter (\<lambda>r. if rr_method r = m then length (rr_segments r) = ?n else False) rs)"
  have "rows_of_size m ?n = ?rows xs @ ?row r # ?rows ys @ ?row r' # ?rows zs"
    using m by (simp add: rows_of_size_def assms(1))
  moreover have "segments_overlap (fst (?row r)) (fst (?row r'))" using overlap_sound m by auto
  ultimately have "(rr_rpc r, rr_rpc r') \<in> set (clashes (rows_of_size m ?n))"
    using clashes_sound [of "?row r" "?row r'"] by simp
  moreover have "?n \<in> set [2, 3, 4, 5, 6, 7]"
    using sizes mem(1) m(1) by (simp add: list_all_iff)
  ultimately show ?thesis by (rule clash_sizes [rotated])
qed

lemma mux_none: "mux_ok M \<Longrightarrow> \<forall>r\<in>set rs. route_match r m p = None \<Longrightarrow> M rs m p = None"
  by (simp add: mux_ok_def)

lemma mux_last:
  assumes "mux_ok M" and "\<exists>r\<in>set rest_routes. route_match r m p \<noteq> None"
  obtains xs r ys b where "rest_routes = xs @ r # ys" and "route_match r m p = Some b"
    and "\<forall>r'\<in>set ys. route_match r' m p = None"
    and "M rest_routes m p = Some (rr_rpc r, b) \<or> colon_last p \<and> M rest_routes m p = None"
proof -
  obtain xs r ys where split: "rest_routes = xs @ r # ys" "route_match r m p \<noteq> None" "\<forall>r'\<in>set ys. \<not> route_match r' m p \<noteq> None"
    using split_list_last_prop [OF assms(2)] by blast
  then obtain b where b: "route_match r m p = Some b" by auto
  have none: "\<forall>r'\<in>set ys. route_match r' m p = None" using split(3) by simp
  from assms(1) b none have "M (xs @ r # ys) m p = Some (rr_rpc r, b) \<or> colon_last p \<and> M (xs @ r # ys) m p = None"
    unfolding mux_ok_def by blast
  with split(1) b none that show ?thesis by simp
qed

lemma route_served:
  assumes "mux_ok M" and "r \<in> set rest_routes" and "route_match r m p = Some b" and "\<not> colon_last p"
  shows "M rest_routes m p = Some (rr_rpc r, b) \<or>
    (\<exists>r'\<in>set rest_routes. \<exists>b'. (rr_rpc r, rr_rpc r') \<in> set shadowed \<and>
      route_match r' m p = Some b' \<and> M rest_routes m p = Some (rr_rpc r', b'))"
proof -
  have "\<exists>r\<in>set rest_routes. route_match r m p \<noteq> None" using assms(2,3) by auto
  from mux_last [OF assms(1) this] obtain xs r' ys b' where split: "rest_routes = xs @ r' # ys"
    "route_match r' m p = Some b'" "\<forall>r''\<in>set ys. route_match r'' m p = None"
    "M rest_routes m p = Some (rr_rpc r', b') \<or> colon_last p \<and> M rest_routes m p = None" .
  have served: "M rest_routes m p = Some (rr_rpc r', b')" using split(4) assms(4) by simp
  show ?thesis
  proof (cases "r = r'")
    case True
    with split(2) served assms(3) show ?thesis by simp
  next
    case False
    from assms(2) have "r \<in> set xs \<union> insert r' (set ys)" unfolding split(1) by simp
    with False split(3) assms(3) have "r \<in> set xs" by auto
    then obtain as bs where "xs = as @ r # bs" by (meson split_list)
    then have "rest_routes = as @ r # bs @ r' # ys" using split(1) by simp
    from routes_overlap [OF this assms(3) split(2)] have "(rr_rpc r, rr_rpc r') \<in> set shadowed" .
    moreover have "r' \<in> set rest_routes" unfolding split(1) by simp
    ultimately show ?thesis using split(2) served by blast
  qed
qed

text \<open>
  C30: the REST surface reaches the gRPC methods. Whatever request matches the template of a route,
  its last component not beginning with a colon, is served with the variables of its path by the method
  of that route, except where a later route takes it, which happens for four pairs of methods only: a user
  whose identifier would be search, a user name that would be guilds or presence, and a member who leaves
  a guild. The requests are those whose HTTP method is the one that counts: without the override header
  and not a form posted to a path of GET, which grpc-gateway treats otherwise.
\<close>

theorem rest_routes_served:
  assumes "mux_ok M" and "r \<in> set rest_routes" and "route_match r m p = Some b" and "\<not> colon_last p"
  shows "M rest_routes m p = Some (rr_rpc r, b) \<or>
    (\<exists>r'\<in>set rest_routes. \<exists>b'. (rr_rpc r, rr_rpc r') \<in>
        {(''/user.v1.UserService/GetUser'', ''/user.v1.UserService/SearchUsers''),
         (''/user.v1.UserService/GetUserByUsername'', ''/guild.v1.GuildService/ListUserGuilds''),
         (''/user.v1.UserService/GetUserByUsername'', ''/presence.v1.PresenceService/GetPresence''),
         (''/guild.v1.GuildService/LeaveGuild'', ''/guild.v1.GuildService/KickMember'')} \<and>
      route_match r' m p = Some b' \<and> M rest_routes m p = Some (rr_rpc r', b'))"
  using route_served [OF assms] unfolding shadowed_def list.set .

theorem rest_routes_served_witness:
  "last_match rest_routes DELETE [''v1'', ''users'', ''me''] = Some (''/user.v1.UserService/DeleteUser'', [])"
proof -
  have "Route DELETE [Lit ''v1'', Lit ''users'', Lit ''me''] [] ''/user.v1.UserService/DeleteUser'' \<in> set rest_routes"
    by (simp add: rest_routes_def user_routes_def)
  from rest_routes_served [OF mux_ok_last_match this, of DELETE "[''v1'', ''users'', ''me'']" "[]"] show ?thesis
    by (simp add: route_match_def colon_last_def)
qed

section \<open>Leaving a guild\<close>

lemma leave_then_kick: "\<exists>xs ys zs. rest_routes = xs @ leave_route # ys @ kick_route # zs"
proof -
  have "rest_routes = take 34 rest_routes @ take 3 (drop 34 rest_routes) @ drop 3 (drop 34 rest_routes)"
    unfolding append_take_drop_id ..
  then have "rest_routes = take 34 rest_routes @ leave_route # [rest_routes ! 35] @ kick_route # drop 3 (drop 34 rest_routes)"
    unfolding leave_before_kick append_Cons append_Nil .
  then show ?thesis by blast
qed

lemma match_segment_iff:
  "match_segments (Lit l # ss) p = Some b \<longleftrightarrow> (\<exists>cs. p = l # cs \<and> match_segments ss cs = Some b)"
  "match_segments (Var v # ss) p = Some b \<longleftrightarrow>
     (\<exists>c cs b'. p = c # cs \<and> b = (v, c) # b' \<and> match_segments ss cs = Some b')"
  "match_segments [] p = Some b \<longleftrightarrow> p = [] \<and> b = []"
  by (cases p; auto)+

lemma leave_path:
  "route_match leave_route m p = Some b \<Longrightarrow> \<exists>g. m = DELETE \<and> p = [''v1'', ''guilds'', g, ''members'', ''me''] \<and> b = [(''guild_id'', g)]"
  by (auto simp: route_match_def leave_route_def match_segment_iff split: if_splits)

lemma kick_path:
  "route_match kick_route DELETE [''v1'', ''guilds'', g, ''members'', u] = Some [(''guild_id'', g), (''user_id'', u)]"
  by (simp add: route_match_def kick_route_def)

lemma kick_me_refused:
  "gd_Parse d ''me'' = None \<Longrightarrow> \<exists>st. guild_handler e d (KickMemberRequest g ''me'') ctx w = (Inl st, w)"
  by (auto simp: GuildHandler_KickMember_def with_caller_def with_caller_text_def with_id_def answer_def
      respond_def split: option.splits)

text \<open>
  C31: no REST request leaves a guild. The path members/me, which the interface gives to LeaveGuild,
  is served by KickMember with the user me, whose handler refuses it and changes nothing, as long as
  uuid.Parse does not take me for an identifier; and no request reaches LeaveGuild, whatever its method and
  path (no route of GET serves LeaveGuild, so that a form posted as a GET does not either).
\<close>

theorem rest_cannot_leave:
  assumes "mux_ok M" and "gd_Parse d ''me'' = None"
  shows "M rest_routes m p \<noteq> Some (''/guild.v1.GuildService/LeaveGuild'', b) \<and>
    M rest_routes DELETE [''v1'', ''guilds'', g, ''members'', ''me''] =
      Some (''/guild.v1.GuildService/KickMember'', [(''guild_id'', g), (''user_id'', ''me'')]) \<and>
    (\<exists>st. request_KickMember (\<lambda>req ctx. fst (guild_handler e d req ctx w)) ctx
        [(''guild_id'', g), (''user_id'', ''me'')] = Inl st) \<and>
    snd (guild_handler e d (KickMemberRequest g ''me'') ctx w) = w"
proof -
  let ?leave = "''/guild.v1.GuildService/LeaveGuild''"
  obtain xs ys zs where order: "rest_routes = xs @ leave_route # ys @ kick_route # zs" using leave_then_kick by blast
  have "leave_route \<in> set (filter (\<lambda>r. rr_rpc r = ?leave) rest_routes)" unfolding leave_routes by simp
  then have leave: "rr_rpc leave_route = ?leave" by simp
  have "M rest_routes m p \<noteq> Some (?leave, b)"
  proof
    assume served: "M rest_routes m p = Some (?leave, b)"
    then have "\<exists>r\<in>set rest_routes. route_match r m p \<noteq> None"
      using assms(1) mux_none by fastforce
    from mux_last [OF assms(1) this] obtain as r bs b' where last: "rest_routes = as @ r # bs"
      "route_match r m p = Some b'" "\<forall>r'\<in>set bs. route_match r' m p = None"
      "M rest_routes m p = Some (rr_rpc r, b') \<or> colon_last p \<and> M rest_routes m p = None" .
    have "rr_rpc r = ?leave" using last(4) served by simp
    then have one: "filter (\<lambda>r. rr_rpc r = ?leave) as @ r # filter (\<lambda>r. rr_rpc r = ?leave) bs = [leave_route]"
      using leave_routes unfolding last(1) by simp
    then have r: "r = leave_route" by (cases "filter (\<lambda>r. rr_rpc r = ?leave) as") simp_all
    with one have "leave_route \<notin> set as \<union> set bs" using leave by (auto simp: filter_empty_conv append_eq_Cons_conv)
    moreover have "as @ leave_route # bs = xs @ leave_route # ys @ kick_route # zs" using last(1) order r by metis
    ultimately have "kick_route \<in> set bs" by (simp add: append_Cons_eq_iff)
    moreover obtain g where "m = DELETE" "p = [''v1'', ''guilds'', g, ''members'', ''me'']"
      using leave_path last(2) r by blast
    ultimately show False using last(3) kick_path [of g "''me''"] by auto
  qed
  moreover have "M rest_routes DELETE [''v1'', ''guilds'', g, ''members'', ''me''] =
      Some (''/guild.v1.GuildService/KickMember'', [(''guild_id'', g), (''user_id'', ''me'')])"
  proof -
    have kick: "kick_route \<in> set rest_routes" unfolding order by simp
    have rpc: "rr_rpc kick_route = ''/guild.v1.GuildService/KickMember''" by (simp add: kick_route_def)
    show ?thesis
      using route_served [OF assms(1) kick kick_path [of g "''me''"]] unfolding rpc shadowed_def by (simp add: colon_last_def)
  qed
  moreover have "(\<exists>st. request_KickMember (\<lambda>req ctx. fst (guild_handler e d req ctx w)) ctx
      [(''guild_id'', g), (''user_id'', ''me'')] = Inl st) \<and> snd (guild_handler e d (KickMemberRequest g ''me'') ctx w) = w"
    using kick_me_refused [OF assms(2), of e g ctx w]
    by (auto simp: request_KickMember_def path_param_def simp del: guild_handler.simps)
  ultimately show ?thesis by (intro conjI) simp_all
qed

theorem rest_cannot_leave_witness:
  "last_match rest_routes DELETE [''v1'', ''guilds'', ''g'', ''members'', ''me''] =
     Some (''/guild.v1.GuildService/KickMember'', [(''guild_id'', ''g''), (''user_id'', ''me'')])"
  using rest_cannot_leave [OF mux_ok_last_match, of "plain_guild_deps\<lparr>gd_Parse := \<lambda>_. None\<rparr>"] by simp

end
