(* ===== verification/Settings.thy ===== *)
theory Settings
  imports AuthService
begin

text \<open>
  The configuration of the server, internal/shared/config/config.go, the mail sender
  internal/shared/mail/sender.go, and the connectors of internal/shared/db that decide something.
  The process environment is the function os.Getenv, which is empty where a variable is not set;
  time.ParseDuration is an argument, as are the network and the third-party clients.
\<close>

section \<open>Reading the environment\<close>

type_synonym getenv = "string \<Rightarrow> string"

definition env_or :: "getenv \<Rightarrow> string \<Rightarrow> string \<Rightarrow> string" where
  "env_or getenv key fallback = (if getenv key \<noteq> [] then getenv key else fallback)"

text \<open>strconv.Atoi reads an int of 64 bits.\<close>

definition envInt :: "getenv \<Rightarrow> string \<Rightarrow> int \<Rightarrow> int" where
  "envInt getenv key fallback =
     (if getenv key \<noteq> [] then (case ParseInt 64 (getenv key) of Some i \<Rightarrow> i | None \<Rightarrow> fallback) else fallback)"

definition ParseBool :: "string \<Rightarrow> bool option" where
  "ParseBool s =
     (if s \<in> set [''1'', ''t'', ''T'', ''TRUE'', ''true'', ''True''] then Some True
      else if s \<in> set [''0'', ''f'', ''F'', ''FALSE'', ''false'', ''False''] then Some False
      else None)"

definition envBool :: "getenv \<Rightarrow> string \<Rightarrow> bool \<Rightarrow> bool" where
  "envBool getenv key fallback =
     (if getenv key \<noteq> [] then (case ParseBool (getenv key) of Some b \<Rightarrow> b | None \<Rightarrow> fallback) else fallback)"

definition envDuration :: "(string \<Rightarrow> time option) \<Rightarrow> getenv \<Rightarrow> string \<Rightarrow> time \<Rightarrow> time" where
  "envDuration ParseDuration getenv key fallback =
     (if getenv key \<noteq> [] then (case ParseDuration (getenv key) of Some t \<Rightarrow> t | None \<Rightarrow> fallback) else fallback)"

section \<open>The configuration\<close>

record ServerConfig =
  sc_GRPCPort :: int
  sc_Host :: string

record DatabaseConfig =
  dc_Host :: string
  dc_Port :: int
  dc_User :: string
  dc_Password :: string
  dc_DBName :: string
  dc_SSLMode :: string

record RedisConfig =
  rc_Addr :: string
  rc_Password :: string
  rc_DB :: int

record ScyllaDBConfig =
  yc_Hosts :: "string list"
  yc_Keyspace :: string

record LiveKitConfig =
  lc_URL :: string
  lc_HTTPURL :: string
  lc_APIKey :: string
  lc_APISecret :: string

record MinIOConfig =
  mc_Endpoint :: string
  mc_PublicEndpoint :: string
  mc_AccessKey :: string
  mc_SecretKey :: string
  mc_Bucket :: string
  mc_UseSSL :: bool

record JWTConfig =
  jc_Secret :: string
  jc_AccessTokenTTL :: time
  jc_RefreshTokenTTL :: time

record VoiceConfig =
  vc_UDPHost :: string
  vc_UDPPort :: int

record SMTPConfig =
  mt_Host :: string
  mt_Port :: int
  mt_From :: string

record NATSConfig =
  nc_URL :: string

record Config =
  cf_Server :: ServerConfig
  cf_Database :: DatabaseConfig
  cf_Redis :: RedisConfig
  cf_ScyllaDB :: ScyllaDBConfig
  cf_MinIO :: MinIOConfig
  cf_JWT :: JWTConfig
  cf_Voice :: VoiceConfig
  cf_LiveKit :: LiveKitConfig
  cf_SMTP :: SMTPConfig
  cf_NATS :: NATSConfig
  cf_InviteBaseURL :: string

definition seven_days :: time where
  "seven_days = 7 * 24 * 60 * Minute"

definition Load :: "(string \<Rightarrow> time option) \<Rightarrow> getenv \<Rightarrow> Config" where
  "Load ParseDuration getenv =
     \<lparr>cf_Server = \<lparr>sc_GRPCPort = envInt getenv ''GRPC_PORT'' 50051, sc_Host = env_or getenv ''HOST'' ''0.0.0.0''\<rparr>,
      cf_Database = \<lparr>dc_Host = env_or getenv ''DB_HOST'' ''localhost'', dc_Port = envInt getenv ''DB_PORT'' 5432,
        dc_User = env_or getenv ''DB_USER'' ''ndiscord'', dc_Password = env_or getenv ''DB_PASSWORD'' ''ndiscord'',
        dc_DBName = env_or getenv ''DB_NAME'' ''ndiscord'', dc_SSLMode = env_or getenv ''DB_SSLMODE'' ''disable''\<rparr>,
      cf_Redis = \<lparr>rc_Addr = env_or getenv ''REDIS_ADDR'' ''localhost:6379'',
        rc_Password = env_or getenv ''REDIS_PASSWORD'' [], rc_DB = envInt getenv ''REDIS_DB'' 0\<rparr>,
      cf_ScyllaDB = \<lparr>yc_Hosts = [env_or getenv ''SCYLLA_HOST'' ''localhost:9042''],
        yc_Keyspace = env_or getenv ''SCYLLA_KEYSPACE'' ''ndiscord''\<rparr>,
      cf_MinIO = \<lparr>mc_Endpoint = env_or getenv ''MINIO_ENDPOINT'' ''localhost:9000'',
        mc_PublicEndpoint = env_or getenv ''MINIO_PUBLIC_ENDPOINT'' (env_or getenv ''MINIO_ENDPOINT'' ''localhost:9000''),
        mc_AccessKey = env_or getenv ''MINIO_ACCESS_KEY'' ''ndiscord'',
        mc_SecretKey = env_or getenv ''MINIO_SECRET_KEY'' ''ndiscord123'',
        mc_Bucket = env_or getenv ''MINIO_BUCKET'' ''ndiscord'', mc_UseSSL = envBool getenv ''MINIO_USE_SSL'' False\<rparr>,
      cf_JWT = \<lparr>jc_Secret = env_or getenv ''JWT_SECRET'' ''change-me-in-production'',
        jc_AccessTokenTTL = envDuration ParseDuration getenv ''JWT_ACCESS_TTL'' seven_days,
        jc_RefreshTokenTTL = envDuration ParseDuration getenv ''JWT_REFRESH_TTL'' seven_days\<rparr>,
      cf_Voice = \<lparr>vc_UDPHost = env_or getenv ''VOICE_UDP_HOST'' ''0.0.0.0'',
        vc_UDPPort = envInt getenv ''VOICE_UDP_PORT'' 50052\<rparr>,
      cf_LiveKit = \<lparr>lc_URL = env_or getenv ''LIVEKIT_URL'' ''ws://localhost:7880'',
        lc_HTTPURL = env_or getenv ''LIVEKIT_HTTP_URL'' ''http://localhost:7880'',
        lc_APIKey = env_or getenv ''LIVEKIT_API_KEY'' ''devkey'',
        lc_APISecret = env_or getenv ''LIVEKIT_API_SECRET'' ''secret''\<rparr>,
      cf_SMTP = \<lparr>mt_Host = env_or getenv ''SMTP_HOST'' ''localhost'', mt_Port = envInt getenv ''SMTP_PORT'' 1025,
        mt_From = env_or getenv ''SMTP_FROM'' ''noreply@ndiscord.local''\<rparr>,
      cf_NATS = \<lparr>nc_URL = env_or getenv ''NATS_URL'' ''nats://localhost:4222''\<rparr>,
      cf_InviteBaseURL = env_or getenv ''INVITE_BASE_URL'' ''https://ndiscord.app/invite''\<rparr>"

definition DSN :: "DatabaseConfig \<Rightarrow> string" where
  "DSN d = ''postgres://'' @ dc_User d @ '':'' @ dc_Password d @ ''@'' @ dc_Host d @ '':'' @ Itoa (dc_Port d) @ ''/'' @
     dc_DBName d @ ''?sslmode='' @ dc_SSLMode d"

section \<open>Connectors\<close>

text \<open>
  The pool is closed again when the server does not answer; the result carries whether a pool is left
  open.
\<close>

definition NewPostgresPool :: "(string \<Rightarrow> bool) \<Rightarrow> bool \<Rightarrow> DatabaseConfig \<Rightarrow> (string + unit) \<times> bool" where
  "NewPostgresPool pool_New ping cfg =
     (if \<not> pool_New (DSN cfg) then (Inl ''failed to create postgres pool'', False)
      else if \<not> ping then (Inl ''failed to ping postgres'', False)
      else (Inr (), True))"

definition NewRedisClient :: "bool \<Rightarrow> RedisConfig \<Rightarrow> string + RedisConfig" where
  "NewRedisClient ping cfg = (if \<not> ping then Inl ''failed to ping redis'' else Inr cfg)"

text \<open>
  The object store: whether a client can be made for an endpoint, the answer about the bucket, and
  whether making it and setting its policy succeed. The state is whether the bucket exists and whether
  anyone may read it.
\<close>

record minio_env =
  me_New :: "string \<Rightarrow> bool"
  me_BucketExists :: "string \<Rightarrow> bool option"
  me_MakeBucket :: "string \<Rightarrow> bool"
  me_SetBucketPolicy :: "string \<Rightarrow> bool"

record bucket_state =
  bs_exists :: bool
  bs_public :: bool

definition NewMinIOClient :: "minio_env \<Rightarrow> MinIOConfig \<Rightarrow> bucket_state \<Rightarrow> (string + unit) \<times> bucket_state" where
  "NewMinIOClient m cfg s =
     (if \<not> me_New m (mc_Endpoint cfg) then (Inl ''failed to create minio client'', s)
      else case me_BucketExists m (mc_Bucket cfg) of
        None \<Rightarrow> (Inl ''failed to check bucket'', s)
      | Some b \<Rightarrow>
          if \<not> b \<and> \<not> me_MakeBucket m (mc_Bucket cfg) then (Inl ''failed to create bucket'', s)
          else (Inr (), s\<lparr>bs_exists := True, bs_public := bs_public s \<or> me_SetBucketPolicy m (mc_Bucket cfg)\<rparr>))"

definition NewMinIOPublicSigner :: "minio_env \<Rightarrow> MinIOConfig \<Rightarrow> string + string" where
  "NewMinIOPublicSigner m cfg =
     (let endpoint = (if mc_PublicEndpoint cfg = [] then mc_Endpoint cfg else mc_PublicEndpoint cfg) in
      if \<not> me_New m endpoint then Inl ''failed to create minio public signer'' else Inr endpoint)"

section \<open>Settings read back\<close>

text \<open>
  The variables that describe a configuration, with numbers in decimal and durations as the printer
  given writes them.
\<close>

definition settings :: "(time \<Rightarrow> string) \<Rightarrow> Config \<Rightarrow> (string \<times> string) list" where
  "settings dur c =
     [(''GRPC_PORT'', Itoa (sc_GRPCPort (cf_Server c))), (''HOST'', sc_Host (cf_Server c)),
      (''DB_HOST'', dc_Host (cf_Database c)), (''DB_PORT'', Itoa (dc_Port (cf_Database c))),
      (''DB_USER'', dc_User (cf_Database c)), (''DB_PASSWORD'', dc_Password (cf_Database c)),
      (''DB_NAME'', dc_DBName (cf_Database c)), (''DB_SSLMODE'', dc_SSLMode (cf_Database c)),
      (''REDIS_ADDR'', rc_Addr (cf_Redis c)), (''REDIS_PASSWORD'', rc_Password (cf_Redis c)),
      (''REDIS_DB'', Itoa (rc_DB (cf_Redis c))), (''SCYLLA_HOST'', hd (yc_Hosts (cf_ScyllaDB c))),
      (''SCYLLA_KEYSPACE'', yc_Keyspace (cf_ScyllaDB c)), (''MINIO_ENDPOINT'', mc_Endpoint (cf_MinIO c)),
      (''MINIO_PUBLIC_ENDPOINT'', mc_PublicEndpoint (cf_MinIO c)), (''MINIO_ACCESS_KEY'', mc_AccessKey (cf_MinIO c)),
      (''MINIO_SECRET_KEY'', mc_SecretKey (cf_MinIO c)), (''MINIO_BUCKET'', mc_Bucket (cf_MinIO c)),
      (''MINIO_USE_SSL'', if mc_UseSSL (cf_MinIO c) then ''true'' else ''false''), (''JWT_SECRET'', jc_Secret (cf_JWT c)),
      (''JWT_ACCESS_TTL'', dur (jc_AccessTokenTTL (cf_JWT c))), (''JWT_REFRESH_TTL'', dur (jc_RefreshTokenTTL (cf_JWT c))),
      (''VOICE_UDP_HOST'', vc_UDPHost (cf_Voice c)), (''VOICE_UDP_PORT'', Itoa (vc_UDPPort (cf_Voice c))),
      (''LIVEKIT_URL'', lc_URL (cf_LiveKit c)), (''LIVEKIT_HTTP_URL'', lc_HTTPURL (cf_LiveKit c)),
      (''LIVEKIT_API_KEY'', lc_APIKey (cf_LiveKit c)), (''LIVEKIT_API_SECRET'', lc_APISecret (cf_LiveKit c)),
      (''SMTP_HOST'', mt_Host (cf_SMTP c)), (''SMTP_PORT'', Itoa (mt_Port (cf_SMTP c))), (''SMTP_FROM'', mt_From (cf_SMTP c)),
      (''NATS_URL'', nc_URL (cf_NATS c)), (''INVITE_BASE_URL'', cf_InviteBaseURL c)]"

definition getenv_of :: "(string \<times> string) list \<Rightarrow> getenv" where
  "getenv_of kvs key = (case map_of kvs key of Some v \<Rightarrow> v | None \<Rightarrow> [])"

text \<open>
  What can be set: numbers fit 64 bits, there is one ScyllaDB host, and only the Redis password may be
  empty, since an empty variable counts as not set.
\<close>

definition expressible :: "Config \<Rightarrow> bool" where
  "expressible c \<longleftrightarrow>
     list_all (in_range 64) [sc_GRPCPort (cf_Server c), dc_Port (cf_Database c), rc_DB (cf_Redis c),
       vc_UDPPort (cf_Voice c), mt_Port (cf_SMTP c)] \<and>
     length (yc_Hosts (cf_ScyllaDB c)) = 1 \<and>
     list_all (\<lambda>s. s \<noteq> []) [sc_Host (cf_Server c), dc_Host (cf_Database c), dc_User (cf_Database c), dc_Password (cf_Database c),
       dc_DBName (cf_Database c), dc_SSLMode (cf_Database c), rc_Addr (cf_Redis c), hd (yc_Hosts (cf_ScyllaDB c)),
       yc_Keyspace (cf_ScyllaDB c), mc_Endpoint (cf_MinIO c), mc_PublicEndpoint (cf_MinIO c), mc_AccessKey (cf_MinIO c),
       mc_SecretKey (cf_MinIO c), mc_Bucket (cf_MinIO c), jc_Secret (cf_JWT c), vc_UDPHost (cf_Voice c),
       lc_URL (cf_LiveKit c), lc_HTTPURL (cf_LiveKit c), lc_APIKey (cf_LiveKit c), lc_APISecret (cf_LiveKit c),
       mt_Host (cf_SMTP c), mt_From (cf_SMTP c), nc_URL (cf_NATS c), cf_InviteBaseURL c]"

lemma Itoa_nonempty [simp]: "Itoa i \<noteq> []"
  by (simp add: Itoa_def)

lemma settings_lookup:
  "getenv_of (settings dur c) ''GRPC_PORT'' = Itoa (sc_GRPCPort (cf_Server c))"
  "getenv_of (settings dur c) ''HOST'' = sc_Host (cf_Server c)"
  "getenv_of (settings dur c) ''DB_HOST'' = dc_Host (cf_Database c)"
  "getenv_of (settings dur c) ''DB_PORT'' = Itoa (dc_Port (cf_Database c))"
  "getenv_of (settings dur c) ''DB_USER'' = dc_User (cf_Database c)"
  "getenv_of (settings dur c) ''DB_PASSWORD'' = dc_Password (cf_Database c)"
  "getenv_of (settings dur c) ''DB_NAME'' = dc_DBName (cf_Database c)"
  "getenv_of (settings dur c) ''DB_SSLMODE'' = dc_SSLMode (cf_Database c)"
  "getenv_of (settings dur c) ''REDIS_ADDR'' = rc_Addr (cf_Redis c)"
  "getenv_of (settings dur c) ''REDIS_PASSWORD'' = rc_Password (cf_Redis c)"
  "getenv_of (settings dur c) ''REDIS_DB'' = Itoa (rc_DB (cf_Redis c))"
  "getenv_of (settings dur c) ''SCYLLA_HOST'' = hd (yc_Hosts (cf_ScyllaDB c))"
  "getenv_of (settings dur c) ''SCYLLA_KEYSPACE'' = yc_Keyspace (cf_ScyllaDB c)"
  "getenv_of (settings dur c) ''MINIO_ENDPOINT'' = mc_Endpoint (cf_MinIO c)"
  "getenv_of (settings dur c) ''MINIO_PUBLIC_ENDPOINT'' = mc_PublicEndpoint (cf_MinIO c)"
  "getenv_of (settings dur c) ''MINIO_ACCESS_KEY'' = mc_AccessKey (cf_MinIO c)"
  "getenv_of (settings dur c) ''MINIO_SECRET_KEY'' = mc_SecretKey (cf_MinIO c)"
  "getenv_of (settings dur c) ''MINIO_BUCKET'' = mc_Bucket (cf_MinIO c)"
  "getenv_of (settings dur c) ''MINIO_USE_SSL'' = (if mc_UseSSL (cf_MinIO c) then ''true'' else ''false'')"
  "getenv_of (settings dur c) ''JWT_SECRET'' = jc_Secret (cf_JWT c)"
  "getenv_of (settings dur c) ''JWT_ACCESS_TTL'' = dur (jc_AccessTokenTTL (cf_JWT c))"
  "getenv_of (settings dur c) ''JWT_REFRESH_TTL'' = dur (jc_RefreshTokenTTL (cf_JWT c))"
  "getenv_of (settings dur c) ''VOICE_UDP_HOST'' = vc_UDPHost (cf_Voice c)"
  "getenv_of (settings dur c) ''VOICE_UDP_PORT'' = Itoa (vc_UDPPort (cf_Voice c))"
  "getenv_of (settings dur c) ''LIVEKIT_URL'' = lc_URL (cf_LiveKit c)"
  "getenv_of (settings dur c) ''LIVEKIT_HTTP_URL'' = lc_HTTPURL (cf_LiveKit c)"
  "getenv_of (settings dur c) ''LIVEKIT_API_KEY'' = lc_APIKey (cf_LiveKit c)"
  "getenv_of (settings dur c) ''LIVEKIT_API_SECRET'' = lc_APISecret (cf_LiveKit c)"
  "getenv_of (settings dur c) ''SMTP_HOST'' = mt_Host (cf_SMTP c)"
  "getenv_of (settings dur c) ''SMTP_PORT'' = Itoa (mt_Port (cf_SMTP c))"
  "getenv_of (settings dur c) ''SMTP_FROM'' = mt_From (cf_SMTP c)"
  "getenv_of (settings dur c) ''NATS_URL'' = nc_URL (cf_NATS c)"
  "getenv_of (settings dur c) ''INVITE_BASE_URL'' = cf_InviteBaseURL c"
  by (simp_all add: getenv_of_def settings_def)

text \<open>
  Every configuration can be set. The variables of an expressible configuration, read by Load,
  give that configuration back, whatever the printer of durations, as long as time.ParseDuration
  reads what it writes.
\<close>

theorem Load_settings:
  assumes "expressible c" and "\<And>t. dur t \<noteq> [] \<and> ParseDuration (dur t) = Some t"
  shows "Load ParseDuration (getenv_of (settings dur c)) = c"
proof -
  have dur: "dur t \<noteq> []" "ParseDuration (dur t) = Some t" for t using assms(2) by simp_all
  obtain h where h: "yc_Hosts (cf_ScyllaDB c) = [h]"
    using assms(1) by (auto simp: expressible_def length_Suc_conv)
  note ok = assms(1) [unfolded expressible_def h, simplified]
  show ?thesis
    by (intro Config.equality ServerConfig.equality DatabaseConfig.equality RedisConfig.equality
        ScyllaDBConfig.equality MinIOConfig.equality JWTConfig.equality VoiceConfig.equality LiveKitConfig.equality
        SMTPConfig.equality NATSConfig.equality)
      (simp_all add: Load_def env_or_def envInt_def envBool_def envDuration_def ParseBool_def settings_lookup
        ParseInt_Itoa ranged_def ok h dur)
qed

theorem Load_settings_witness:
  "Load (\<lambda>s. read_int s) (getenv_of (settings Itoa (Load (\<lambda>_. None) (\<lambda>_. [])))) = Load (\<lambda>_. None) (\<lambda>_. [])"
proof (rule Load_settings)
  show "expressible (Load (\<lambda>_. None) (\<lambda>_. []))"
    by (simp add: expressible_def Load_def env_or_def envInt_def in_range_def)
qed (simp add: read_int_Itoa)

end
