(* ===== verification/Mail.thy ===== *)
theory Mail
  imports Settings
begin

text \<open>
  The mail sender, internal/shared/mail/sender.go. net/smtp.SendMail refuses a sender or recipient
  with a line break; what the network does with the rest is an argument, which returns an error.
\<close>

section \<open>Sending a code\<close>

record Sender =
  sn_host :: string
  sn_port :: int
  sn_from :: string

definition NewSender :: "SMTPConfig \<Rightarrow> Sender" where
  "NewSender cfg = \<lparr>sn_host = mt_Host cfg, sn_port = mt_Port cfg, sn_from = mt_From cfg\<rparr>"

definition CRLF :: string where
  "CRLF = [CHR 0x0D, CHR 0x0A]"

definition validateLine :: "string \<Rightarrow> bool" where
  "validateLine line \<longleftrightarrow> CHR 0x0D \<notin> set line \<and> CHR 0x0A \<notin> set line"

type_synonym mail_net = "string \<Rightarrow> string \<Rightarrow> string list \<Rightarrow> string \<Rightarrow> string option"

definition SendMail :: "mail_net \<Rightarrow> string \<Rightarrow> string \<Rightarrow> string list \<Rightarrow> string \<Rightarrow> string option" where
  "SendMail net addr from to msg =
     (if \<not> validateLine from \<or> \<not> list_all validateLine to then Some ''smtp: A line must not contain CR or LF''
      else net addr from to msg)"

definition otp_subject :: string where
  "otp_subject = ''Your ndiscord verification code''"

definition otp_body :: "string \<Rightarrow> string" where
  "otp_body otp = ''Your verification code is: '' @ otp @ [CHR 0x0A, CHR 0x0A] @ ''This code expires in 5 minutes.''"

definition otp_message :: "Sender \<Rightarrow> string \<Rightarrow> string \<Rightarrow> string" where
  "otp_message s to otp =
     ''From: '' @ sn_from s @ CRLF @ ''To: '' @ to @ CRLF @ ''Subject: '' @ otp_subject @ CRLF @
     ''Content-Type: text/plain; charset=UTF-8'' @ CRLF @ CRLF @ otp_body otp"

definition SendOTP :: "mail_net \<Rightarrow> Sender \<Rightarrow> string \<Rightarrow> string \<Rightarrow> string option" where
  "SendOTP net s to otp =
     map_option (\<lambda>err. ''failed to send email: '' @ err)
       (SendMail net (sn_host s @ '':'' @ Itoa (sn_port s)) (sn_from s) [to] (otp_message s to otp))"

section \<open>The message read back\<close>

text \<open>
  A reader of messages: lines that end in CR LF, each a name, a colon, a blank and a value, up to the
  first empty line; what follows is the body.
\<close>

fun read_line :: "string \<Rightarrow> (string \<times> string) option" where
  "read_line [] = None"
| "read_line (c # cs) =
     (if c = CHR 0x0D then (case cs of d # ds \<Rightarrow> if d = CHR 0x0A then Some ([], ds) else None | [] \<Rightarrow> None)
      else map_option (\<lambda>(l, r). (c # l, r)) (read_line cs))"

definition read_field :: "string \<Rightarrow> string \<times> string" where
  "read_field l = (takeWhile (\<lambda>c. c \<noteq> CHR '':'') l, drop 2 (dropWhile (\<lambda>c. c \<noteq> CHR '':'') l))"

lemma read_line_length: "read_line s = Some (l, r) \<Longrightarrow> length r < length s"
  by (induction s arbitrary: l) (force split: if_splits list.splits)+

function read_mail :: "string \<Rightarrow> ((string \<times> string) list \<times> string) option" where
  "read_mail s =
     (case read_line s of
        None \<Rightarrow> None
      | Some (l, r) \<Rightarrow>
          if l = [] then Some ([], r)
          else map_option (\<lambda>(hs, b). (read_field l # hs, b)) (read_mail r))"
  by pat_completeness auto
termination
  by (relation "measure length") (auto dest: read_line_length)

declare read_mail.simps [simp del]

lemma read_line_append:
  "CHR 0x0D \<notin> set l \<Longrightarrow> read_line (l @ CRLF @ r) = Some (l, r)"
  by (induction l) (auto simp: CRLF_def)

lemma read_mail_line:
  "CHR 0x0D \<notin> set l \<Longrightarrow> l \<noteq> [] \<Longrightarrow>
     read_mail (l @ CRLF @ r) = map_option (\<lambda>(hs, b). (read_field l # hs, b)) (read_mail r)"
  by (subst read_mail.simps) (simp add: read_line_append)

lemma read_mail_body: "read_mail (CRLF @ b) = Some ([], b)"
  by (subst read_mail.simps) (simp add: read_line_append [of "[]", simplified])

lemma read_field_line: "CHR '':'' \<notin> set k \<Longrightarrow> read_field (k @ '': '' @ v) = (k, v)"
  by (induction k) (auto simp: read_field_def)

lemma read_mail_field:
  assumes "CHR '':'' \<notin> set k" and "CHR 0x0D \<notin> set k" and "CHR 0x0D \<notin> set v"
  shows "read_mail ((k @ '': '' @ v) @ CRLF @ r) = map_option (\<lambda>(hs, b). ((k, v) # hs, b)) (read_mail r)"
  using read_mail_line [of "k @ '': '' @ v" r] assms read_field_line [of k v] by simp

text \<open>
  The mail that carries a code. Whenever SendOTP reports success the network accepted, at the
  configured address and for the recipient alone, a message whose header a reader takes apart into
  exactly the sender, the recipient, the subject and the content type, and whose body is the text
  with the code: no address smuggles in a header, since one with a line break is refused.
\<close>

theorem SendOTP_message:
  assumes "SendOTP net s to otp = None"
  shows "\<exists>msg. net (sn_host s @ '':'' @ Itoa (sn_port s)) (sn_from s) [to] msg = None \<and>
    read_mail msg = Some ([(''From'', sn_from s), (''To'', to), (''Subject'', otp_subject),
      (''Content-Type'', ''text/plain; charset=UTF-8'')], otp_body otp)"
proof -
  have lines: "validateLine (sn_from s)" "validateLine to"
    and sent: "net (sn_host s @ '':'' @ Itoa (sn_port s)) (sn_from s) [to] (otp_message s to otp) = None"
    using assms by (auto simp: SendOTP_def SendMail_def split: if_splits)
  have msg: "otp_message s to otp = (''From'' @ '': '' @ sn_from s) @ CRLF @ (''To'' @ '': '' @ to) @ CRLF @
      (''Subject'' @ '': '' @ otp_subject) @ CRLF @ (''Content-Type'' @ '': '' @ ''text/plain; charset=UTF-8'') @ CRLF @
      CRLF @ otp_body otp"
    by (simp add: otp_message_def)
  have clean: "CHR 0x0D \<notin> set (sn_from s)" "CHR 0x0D \<notin> set to" "CHR 0x0D \<notin> set otp_subject"
    "CHR 0x0D \<notin> set ''text/plain; charset=UTF-8''"
    using lines by (simp_all add: validateLine_def otp_subject_def)
  have names: "c \<notin> set ''From''" "c \<notin> set ''To''" "c \<notin> set ''Subject''" "c \<notin> set ''Content-Type''"
    if "c = CHR '':'' \<or> c = CHR 0x0D" for c
    using that by auto
  have "read_mail (otp_message s to otp) = Some ([(''From'', sn_from s), (''To'', to), (''Subject'', otp_subject),
      (''Content-Type'', ''text/plain; charset=UTF-8'')], otp_body otp)"
    unfolding msg
    by (simp only: read_mail_field clean names simp_thms read_mail_body) simp
  with sent show ?thesis by blast
qed

text \<open>A network that takes every message.\<close>

theorem SendOTP_message_witness:
  "\<exists>msg. read_mail msg = Some ([(''From'', ''noreply@ndiscord.local''), (''To'', ''ann@x''), (''Subject'', otp_subject),
     (''Content-Type'', ''text/plain; charset=UTF-8'')], otp_body ''123456'')"
  using SendOTP_message [of "\<lambda>_ _ _ _. None" "NewSender (cf_SMTP (Load (\<lambda>_. None) (\<lambda>_. [])))" "''ann@x''" "''123456''"]
  by (auto simp: SendOTP_def SendMail_def validateLine_def NewSender_def Load_def env_or_def)

end
