(* ===== verification/Spec2Isabelle.thy ===== *)
theory Spec2Isabelle
  imports EventStream SyncLaws AuthApi GuildApiLaws UserApiLaws ChannelApiLaws MessageApiLaws Migrate Gateway RestLaws Mail
begin

text \<open>
  Verification of the ndiscord backend, a chat server in Go: users and friends, guilds with roles and
  invites, text and voice channels, direct messages, media, presence, event streams and the
  synchronisation of clients. Paths are relative to src/.

  \<^bold>\<open>The program.\<close> A gRPC request passes the interceptors of internal/shared/middleware (logging, rate
  limit, authentication, validation), reaches the handler.go of a feature under internal/features, and
  from there the service.go of the feature. Services read and write Postgres (the sqlc queries of
  gen/db), ScyllaDB (gen/scylladb) and Redis, ask internal/shared/authz whether the caller may act, and
  publish events on NATS subjects (internal/shared/realtime), which the stream feature forwards to the
  clients that are connected. Voice rooms live in LiveKit, which reports back through a webhook.

  \<^bold>\<open>State.\<close> The record world (Store) holds one list per Postgres table, in the order of insertion,
  the channel cache of the authorisation client, and an outbox to which Publish appends every event.
  The record chat (ChatStore) adds the ScyllaDB tables, where an UPDATE inserts a missing row. Redis
  (Redis) is a map from keys to values with an expiry; server pairs it with the database, and vstate
  (Voice) adds the commands sent to LiveKit. Operations take the state and return a result, an
  error or a value, together with the new state; every early return of the source is a branch.

  \<^bold>\<open>Environment.\<close> The record env (Prelude) carries what a request meets at run time: which statements
  fail, the identifiers and times drawn, and the UUID codec. A call at site i of the code runs in the
  environment at e i, so that each statement of a request has its own fault, clock and fresh
  identifier. fault_free says that no statement fails; codec_ok that printing and reading UUIDs are
  inverse, which Codec proves of the format in use. JWT, bcrypt, the mailer, LiveKit, JSON, the UUID
  reader of the ScyllaDB driver, uuid.Parse, the texts of errors, the network, the case folding and collation of the
  search, the order of Go map iteration, the multiplexer of the gateway and random numbers are arguments.

  \<^bold>\<open>Theories.\<close>

  \<^item> Prelude: lists as tables, faults, and the locales soft_table (soft deletion), keyed_table and
    gated (an operation that leaves the state alone unless a check passes).
  \<^item> Store, GuildStore, ChatStore, Redis: the tables and the queries on them. Codec, Decimal: text of
    UUIDs and numbers. Realtime: subjects and events.
  \<^item> Authz, AuthzLaws: internal/shared/authz/client.go. The checks decide exactly the relational
    statement of who may do what: ownership, ADMINISTRATOR, role grants, and overrides of a channel;
    the channel cache stays bounded and truthful.
  \<^item> Guild, GuildLaws, GuildEffects: internal/features/guild/service.go. The service refines a roster
    of owner, members and bans; reachable states keep the owner a member and the banned out; changes
    need the permission; invites count their uses.
  \<^item> Channel, ChannelLaws: internal/features/channel/service.go. Friends, FriendLaws:
    internal/features/user/service.go, refining a state machine of the relation between two users, whose
    requests name the user who makes them.
  \<^item> Media, Message, MessageLaws: internal/features/media and internal/features/message. Who may
    change a message, what a page of messages holds, that a sent message is read back, and the search
    for mentions.
  \<^item> Middleware: the interceptors and their chain. Presence, AuthService: internal/features/presence
    and internal/features/auth: accounts, tokens, one-time codes, from registration to login.
  \<^item> Voice, VoiceLaws: internal/features/voice, refining the roster of a room; who may join or call.
  \<^item> EventStream: internal/features/stream and MultiSubscribe of realtime/nats.go: which events reach
    which client, live or replayed from the cache, over sessions one after the other.
  \<^item> SyncService, SyncLaws: internal/features/sync. Incremental sync converges to a full one under a
    discipline of stamps, in a locale interpreted on the five tables; which statements keep it.
  \<^item> Api: what the gRPC handlers share, and the locale guarded_api, in which a call that changes the
    state is traced from the change back to the token of the request. GuildApi, UserApi, ChannelApi,
    MessageApi: the handler.go of the features guild, user, channel, message and media, one definition
    per method with the status each error becomes, and the dispatch of a request through the
    interceptors (guild_serve, user_serve, channel_serve, message_serve). GuildApiLaws, UserApiLaws,
    ChannelApiLaws, MessageApiLaws: whatever a call changes, its token names a user whom the tables
    allow it, and the requests for which the code asks for nothing; the codes of refusals; the profiles that are hidden; the pages of a search; and what
    direct messages leave open.
  \<^item> AuthApi: the methods of the authentication service behind the interceptors, and from a login to the
    calls its token lets in.
  \<^item> Gateway: internal/app/gateway.go, gateway_sse.go, server.go and internal/shared/middleware/http.go:
    what is gRPC, the framing of event streams against a reader of them, the status that is logged, and
    what the server opens and closes.
  \<^item> Rest, RestLaws: the routes of gen/*/v1/*.pb.gw.go in the order in which gateway.go registers them. Each
    reaches its method but for four overlaps; no request leaves a guild.
  \<^item> Settings: internal/shared/config/config.go and the connectors of internal/shared/db that decide
    something; every configuration can be set. Mail: internal/shared/mail/sender.go, read back.
  \<^item> SqlSplit: internal/shared/sqlutil/split.go, against a reference lexer; no character is lost.
    Migrate: cmd/init/main.go, which statements a run executes and when it reports success.

  \<^bold>\<open>Loops and bounds.\<close> Every loop is a total function: over a list, or with a measure where the source
  walks an index (split_loop, mention_loop, index_loop); there is no fuel. The index of split_loop is a
  signed integer, as in Go, whose growth rests on the length of the tags it skips. Attempts that the source
  bounds (ten drawings of a handle, thirty attempts to connect) are counted down from that bound. Integers are int where the source
  cannot overflow, with int32 and the wrap of fetchLimit written out where it converts or doubles.

  \<^bold>\<open>Assumptions of the model.\<close> Requests run one after the other. Postgres returns rows in insertion
  order where a query has no ORDER BY; collation is the order of the character codes; column lengths
  are not enforced; created_at columns that nothing reads are left out, and with them the created_at
  fields of the responses. The error of Publish is dropped,
  as in every caller.

  \<^bold>\<open>Not modelled.\<close> The fx modules and the OpenAPI page of the application, the connectors of NATS
  and ScyllaDB (one call of their client each), the text of log lines, the metrics and the test support:
  they hold no state of the program. time.ParseDuration is an argument of Settings, since its fractions go
  through floating point. The functions of the generated gateways that decode bodies and queries, and the
  message codecs (gen/*/*.pb.go beyond the fields used), are code generator output.
\<close>

end
